(* ===== verification/Prelude.thy ===== *)
theory Prelude
  imports Main "HOL-Library.Word"
begin

text \<open>
  Shared material of the development: the collections of simplification rules the component
  theories fill, Go's 64-bit integers, Go's result values, and generic facts on lists that
  are read and written the way SQL tables are.
\<close>

section \<open>Collections\<close>

named_theorems table_simps \<open>reading a table after a write to it\<close>
named_theorems ledger_defs \<open>definitions of the quota ledger operations\<close>
named_theorems queue_defs \<open>definitions of the job store operations\<close>

section \<open>Go's int64\<close>

text \<open>
  A Go \<^verbatim>\<open>int64\<close> is an \<open>int\<close> in the range \<open>int64\<close>; \<open>wrap64\<close> is the two's complement
  truncation that Go's \<open>+\<close>, \<open>-\<close> and \<open>*\<close> apply on overflow, and \<open>go_div\<close> Go's division,
  which truncates towards zero.
\<close>

definition wrap64 :: "int \<Rightarrow> int" where
  "wrap64 x = signed_take_bit 63 x"

definition max_int64 :: int where
  "max_int64 = 9223372036854775807"

definition min_int64 :: int where
  "min_int64 = - 9223372036854775808"

definition int64 :: "int \<Rightarrow> bool" where
  "int64 x \<longleftrightarrow> min_int64 \<le> x \<and> x \<le> max_int64"

definition go_div :: "int \<Rightarrow> int \<Rightarrow> int" where
  "go_div a b = sgn a * sgn b * (\<bar>a\<bar> div \<bar>b\<bar>)"

lemma wrap64_id [simp]: "int64 x \<Longrightarrow> wrap64 x = x"
  by (simp add: wrap64_def int64_def max_int64_def min_int64_def signed_take_bit_int_eq_self_iff)

lemma int64_wrap64 [simp]: "int64 (wrap64 x)"
proof -
  have "- (2 ^ 63) \<le> signed_take_bit 63 x \<and> signed_take_bit 63 x < (2::int) ^ 63"
    by (simp only: signed_take_bit_int_greater_eq_minus_exp signed_take_bit_int_less_exp)
  then show ?thesis
    by (simp add: wrap64_def int64_def max_int64_def min_int64_def)
qed

lemma go_div_nonneg: "0 \<le> a \<Longrightarrow> 0 < b \<Longrightarrow> go_div a b = a div b"
  by (cases "a = 0") (auto simp: go_div_def)

section \<open>Result values\<close>

text \<open>
  Go's pair of a result and an error is a sum: \<open>Inl\<close> the error. \<open>DbFault\<close> stands for any
  failure the database driver reports, \<open>RecordNotFound\<close> for \<^verbatim>\<open>gorm.ErrRecordNotFound\<close>,
  \<open>Failure\<close> for an \<^verbatim>\<open>errors.New\<close> or \<^verbatim>\<open>fmt.Errorf\<close> value, and \<open>Http\<close> for \<^verbatim>\<open>*httperr.Error\<close>.
\<close>

datatype err =
    DbFault
  | RecordNotFound
  | Failure string
  | Http (status: int) (code: int) (message: string)

definition BadRequest :: "int \<Rightarrow> string \<Rightarrow> err" where
  "BadRequest c m = Http 400 c m"

definition Unauthorized :: "string \<Rightarrow> err" where
  "Unauthorized m = Http 401 401 m"

definition Forbidden :: "string \<Rightarrow> err" where
  "Forbidden m = Http 403 403 m"

definition NotFound :: "string \<Rightarrow> err" where
  "NotFound m = Http 404 404 m"

definition Internal :: "string \<Rightarrow> err" where
  "Internal m = Http 500 500 m"

lemmas httperr_defs = BadRequest_def Unauthorized_def Forbidden_def NotFound_def Internal_def

section \<open>Lists as tables\<close>

lemma find_None_conv: "find P xs = None \<longleftrightarrow> (\<forall>x\<in>set xs. \<not> P x)"
  by (auto simp: find_None_iff)

lemma find_Some_in: "find P xs = Some x \<Longrightarrow> x \<in> set xs \<and> P x"
  by (auto simp: find_Some_iff)

lemma find_append_single:
  "find P (xs @ [x]) =
     (case find P xs of Some y \<Rightarrow> Some y | None \<Rightarrow> if P x then Some x else None)"
  by (induction xs) auto

lemma find_map_cond:
  assumes "\<And>x. P (f x) = P x"
  shows "find P (map f xs) = map_option f (find P xs)"
  using assms by (induction xs) auto

lemma find_unique:
  assumes "distinct (map k xs)" and "x \<in> set xs" and "P x"
    and "\<And>y z. y \<in> set xs \<Longrightarrow> z \<in> set xs \<Longrightarrow> P y \<Longrightarrow> P z \<Longrightarrow> k y = k z"
  shows "find P xs = Some x"
proof -
  obtain y where y: "find P xs = Some y"
    using assms(2,3) by (cases "find P xs") (auto simp: find_None_iff)
  then have "y \<in> set xs" and "P y" by (auto dest: find_Some_in)
  then have "k y = k x" using assms(2-4) by blast
  then have "y = x" using assms(1,2) \<open>y \<in> set xs\<close> by (auto simp: distinct_map inj_on_def)
  with y show ?thesis by simp
qed

lemma find_eq_by_key:
  assumes "distinct (map k xs)" and "x \<in> set xs"
  shows "find (\<lambda>r. k r = k x) xs = Some x"
  by (rule find_unique [OF assms]) auto

text \<open>Text before the first separator is determined.\<close>

lemma sep_unique:
  assumes "c \<notin> set a" and "c \<notin> set b" and "a @ c # x = b @ c # y"
  shows "a = b \<and> x = y"
  using assms
proof (induction a arbitrary: b)
  case Nil
  then show ?case by (cases b) auto
next
  case (Cons d a)
  then show ?case by (cases b) auto
qed

end
