(* ===== verification/Sql_Table.thy ===== *)
theory Sql_Table
  imports Prelude
begin

text \<open>
  The database as the repository layer uses it through gorm. A table is the list of its rows
  in insertion order; the operations are the statements the repository issues: an insert that
  ignores a conflict on a unique key, a guarded update that reports the affected rows, the
  first row of a selection, a count.

  Every repository method runs one or more transactions. \<open>db_run\<close> runs one: it consults an
  oracle of driver faults, a list whose head says whether the next transaction fails (the empty
  list: no more faults). A failing transaction reports \<open>DbFault\<close> and leaves the tables
  untouched, as a rolled-back transaction does; a transaction body may also reject by itself
  with \<open>Inl\<close>, which rolls back too.
\<close>

section \<open>Statements\<close>

definition sql_first :: "('r \<Rightarrow> bool) \<Rightarrow> 'r list \<Rightarrow> 'r option" where
  "sql_first P rows = find P rows"

definition sql_update :: "('r \<Rightarrow> bool) \<Rightarrow> ('r \<Rightarrow> 'r) \<Rightarrow> 'r list \<Rightarrow> 'r list" where
  "sql_update P f rows = map (\<lambda>r. if P r then f r else r) rows"

definition sql_count :: "('r \<Rightarrow> bool) \<Rightarrow> 'r list \<Rightarrow> int" where
  "sql_count P rows = int (length (filter P rows))"

definition insert_ignore :: "('r \<Rightarrow> 'k) \<Rightarrow> 'r \<Rightarrow> 'r list \<Rightarrow> bool \<times> 'r list" where
  "insert_ignore k r rows =
     (if k r \<in> set (map k rows) then (False, rows) else (True, rows @ [r]))"

section \<open>Transactions and the fault oracle\<close>

type_synonym 's db = "'s \<times> bool list"

fun db_run :: "('s \<Rightarrow> (err + 'a) \<times> 's) \<Rightarrow> 's db \<Rightarrow> (err + 'a) \<times> 's db" where
  "db_run body (s, True # fs) = (Inl DbFault, (s, fs))"
| "db_run body (s, fs) =
     (case body s of
        (Inl e, _) \<Rightarrow> (Inl e, (s, tl fs))
      | (Inr a, s') \<Rightarrow> (Inr a, (s', tl fs)))"

lemma db_run_Inl_rolls_back: "db_run body d = (Inl e, d') \<Longrightarrow> fst d' = fst d"
  by (cases "(body, d)" rule: db_run.cases) (auto split: prod.splits sum.splits)

lemma db_run_no_fault [simp]:
  "body s = (Inr a, s') \<Longrightarrow> db_run body (s, []) = (Inr a, (s', []))"
  by simp

lemma db_run_cases:
  assumes "db_run body (s, fs) = (r, s', fs')"
  obtains e where "r = Inl e" and "s' = s" | a where "r = Inr a" and "body s = (Inr a, s')"
  using assms that
  by (cases "(body, s, fs)" rule: db_run.cases) (auto split: prod.splits sum.splits)

section \<open>Tables with a unique key\<close>

text \<open>
  The row with a given key, and what a lookup by the key finds after an insert and after an
  update that leaves the key alone. \<open>uniq k\<close> is the unique index on \<open>k\<close>.
\<close>

definition row_at :: "('r \<Rightarrow> 'k) \<Rightarrow> 'k \<Rightarrow> 'r list \<Rightarrow> 'r option" where
  "row_at key k rows = sql_first (\<lambda>r. key r = k) rows"

definition uniq :: "('r \<Rightarrow> 'k) \<Rightarrow> 'r list \<Rightarrow> bool" where
  "uniq key rows \<longleftrightarrow> distinct (map key rows)"

lemma row_at_Nil [simp]: "row_at key k [] = None"
  by (simp add: row_at_def sql_first_def)

lemma row_at_Cons [simp]:
  "row_at key k (x # xs) = (if key x = k then Some x else row_at key k xs)"
  by (simp add: row_at_def sql_first_def)

lemma uniq_Nil [simp]: "uniq key []"
  by (simp add: uniq_def)

lemma uniq_append: "uniq key (rows @ [r]) \<longleftrightarrow> uniq key rows \<and> key r \<notin> key ` set rows"
  by (auto simp: uniq_def)

lemma uniq_inj: "uniq key rows \<Longrightarrow> x \<in> set rows \<Longrightarrow> y \<in> set rows \<Longrightarrow> key x = key y \<Longrightarrow> x = y"
  unfolding uniq_def by (auto simp: distinct_map inj_on_def)

lemma sql_firstD: "sql_first P rows = Some r \<Longrightarrow> r \<in> set rows \<and> P r"
  by (auto simp: sql_first_def dest: find_Some_in)

lemma sql_first_None: "sql_first P rows = None \<longleftrightarrow> (\<forall>r\<in>set rows. \<not> P r)"
  by (simp add: sql_first_def find_None_conv)

lemma row_at_None_iff: "row_at key k rows = None \<longleftrightarrow> k \<notin> key ` set rows"
  by (auto simp: row_at_def sql_first_def find_None_conv)

lemma row_at_SomeD: "row_at key k rows = Some r \<Longrightarrow> key r = k \<and> r \<in> set rows"
  by (auto simp: row_at_def sql_first_def dest: find_Some_in)

lemma row_at_self: "row_at key k rows = Some r \<Longrightarrow> row_at key (key r) rows = Some r"
  using row_at_SomeD by fastforce

lemma row_at_in: "uniq key rows \<Longrightarrow> r \<in> set rows \<Longrightarrow> row_at key (key r) rows = Some r"
  by (simp add: row_at_def sql_first_def uniq_def find_eq_by_key)

lemma row_at_append: "row_at key k (rows @ [r]) =
    (case row_at key k rows of Some x \<Rightarrow> Some x | None \<Rightarrow> if key r = k then Some r else None)"
  by (simp add: row_at_def sql_first_def find_append_single)

lemma insert_ignore_eq: "insert_ignore key r rows =
    (if row_at key (key r) rows = None then (True, rows @ [r]) else (False, rows))"
  by (simp add: insert_ignore_def row_at_None_iff)

lemma row_at_insert_ignore [table_simps]: "row_at key k (snd (insert_ignore key r rows)) =
    (if k = key r \<and> row_at key k rows = None then Some r else row_at key k rows)"
  by (auto simp: insert_ignore_eq row_at_append split: option.splits)

lemma uniq_insert_ignore [table_simps]:
  "uniq key rows \<Longrightarrow> uniq key (snd (insert_ignore key r rows))"
  by (auto simp: insert_ignore_def uniq_def)

lemma uniq_update [table_simps]:
  assumes "\<And>r. key (f r) = key r"
  shows "uniq key (sql_update P f rows) = uniq key rows"
proof -
  have "map key (sql_update P f rows) = map key rows"
    by (simp add: sql_update_def assms)
  then show ?thesis by (simp add: uniq_def)
qed

lemma row_at_update [table_simps]:
  assumes "\<And>r. key (f r) = key r"
  shows "row_at key k (sql_update P f rows) =
           map_option (\<lambda>r. if P r then f r else r) (row_at key k rows)"
  unfolding row_at_def sql_first_def sql_update_def
  by (rule find_map_cond) (auto simp: assms)

lemma count_key:
  assumes "uniq key rows"
  shows "sql_count (\<lambda>r. key r = k \<and> Q r) rows =
           (case row_at key k rows of None \<Rightarrow> 0 | Some r \<Rightarrow> if Q r then 1 else 0)"
  using assms
proof (induction rows)
  case (Cons x xs)
  then have none: "row_at key (key x) xs = None" and u: "uniq key xs"
    by (auto simp: uniq_def row_at_None_iff)
  show ?case
  proof (cases "key x = k")
    case True
    with none Cons.IH [OF u] show ?thesis by (auto simp: sql_count_def)
  next
    case False
    with Cons.IH [OF u] show ?thesis by (simp add: sql_count_def)
  qed
qed (simp add: sql_count_def)

text \<open>
  A table observed through a view of its rows: what an update of the row with key \<open>a\<close>, guarded
  or not, does to the view.
\<close>

definition view :: "('r \<Rightarrow> 'k) \<Rightarrow> ('r \<Rightarrow> 'v) \<Rightarrow> 'r list \<Rightarrow> 'k \<rightharpoonup> 'v" where
  "view key tr rows k = map_option tr (row_at key k rows)"

lemma view_update:
  assumes "\<And>r. key (f r) = key r" and "\<And>r. tr (f r) = g (tr r)"
  shows "view key tr (sql_update (\<lambda>r. key r = a) f rows) =
    (view key tr rows)(a := map_option g (view key tr rows a))"
  using assms
  by (auto simp: fun_eq_iff view_def row_at_update option.map_comp intro!: option.map_cong
      dest: row_at_SomeD)

lemma view_update_at:
  assumes "\<And>r. key (f r) = key r" and "row_at key a rows = Some q" and "P q"
  shows "view key tr (sql_update (\<lambda>r. key r = a \<and> P r) f rows) = (view key tr rows)(a \<mapsto> tr (f q))"
  using assms
  by (auto simp: fun_eq_iff view_def row_at_update option.map_comp intro!: option.map_cong
      dest: row_at_SomeD)

lemma view_insert_ignore: "view key tr (snd (insert_ignore key r rows)) =
    (if view key tr rows (key r) = None then (view key tr rows)(key r \<mapsto> tr r) else view key tr rows)"
  by (auto simp: fun_eq_iff view_def table_simps)

lemma finite_dom_view: "finite (dom (view key tr rows))"
  by (rule finite_subset [where B = "key ` set rows"]) (auto simp: view_def dest!: row_at_SomeD)

section \<open>Sequences of calls\<close>

text \<open>
  A service method is a sequence of repository calls, each followed by Go's check
  \<^verbatim>\<open>if err != nil { return err }\<close>: \<open>chk m f\<close> runs \<open>m\<close> and hands its result to \<open>f\<close>. \<open>query\<close>
  is a call that only reads.
\<close>

definition chk :: "('d \<Rightarrow> ('e + 'a) \<times> 'd) \<Rightarrow> ('a \<Rightarrow> 'd \<Rightarrow> ('e + 'b) \<times> 'd) \<Rightarrow> 'd \<Rightarrow> ('e + 'b) \<times> 'd" where
  "chk m f d = (case m d of (Inl e, d1) \<Rightarrow> (Inl e, d1) | (Inr a, d1) \<Rightarrow> f a d1)"

definition ret :: "'a \<Rightarrow> 'd \<Rightarrow> ('e + 'a) \<times> 'd" where
  "ret a d = (Inr a, d)"

definition fail :: "'e \<Rightarrow> 'd \<Rightarrow> ('e + 'a) \<times> 'd" where
  "fail e d = (Inl e, d)"

definition query :: "('s \<Rightarrow> 'a) \<Rightarrow> 's db \<Rightarrow> (err + 'a) \<times> 's db" where
  "query f = db_run (\<lambda>s. (Inr (f s), s))"

lemma ret_eq [simp]: "ret a d = (Inr a, d)"
  by (simp add: ret_def)

lemma fail_eq [simp]: "fail e d = (Inl e, d)"
  by (simp add: fail_def)

lemma query_healthy [simp]: "query f (s, []) = (Inr (f s), s, [])"
  by (simp add: query_def)

lemma query_eq: "query f (s, fs) = (if fs \<noteq> [] \<and> hd fs then Inl DbFault else Inr (f s), s, tl fs)"
proof (cases fs)
  case (Cons x xs)
  then show ?thesis by (cases x) (simp_all add: query_def)
qed (simp add: query_def)

lemma query_store [simp]: "fst (snd (query f d)) = fst d"
  by (cases d) (simp add: query_eq)

lemma query_cases:
  assumes "query f d = (r, d1)"
  shows "fst d1 = fst d \<and> (r = Inl DbFault \<or> r = Inr (f (fst d)))"
  using assms by (cases d) (auto simp: query_eq split: if_splits)

lemma chk_ok: "m d = (Inr a, d1) \<Longrightarrow> chk m f d = f a d1"
  by (simp add: chk_def)

lemma chk_err: "m d = (Inl e, d1) \<Longrightarrow> chk m f d = (Inl e, d1)"
  by (simp add: chk_def)

lemma chk_healthy [simp]: "chk (query g) f (s, []) = f (g s) (s, [])"
  by (simp add: chk_def)

lemma chk_query: "chk (query g) f (s, fs) =
    (if fs \<noteq> [] \<and> hd fs then (Inl DbFault, s, tl fs) else f (g s) (s, tl fs))"
  by (simp add: chk_def query_eq)

lemma chk_ret [simp]: "chk (ret a) f d = f a d"
  by (simp add: chk_def)

lemma chk_fail [simp]: "chk (fail e) f d = (Inl e, d)"
  by (simp add: chk_def)

lemma chk_InrE:
  assumes "chk m f d = (Inr b, d2)"
  obtains a d1 where "m d = (Inr a, d1)" and "f a d1 = (Inr b, d2)"
  using assms by (auto simp: chk_def split: prod.splits sum.splits)

end
