(* ===== verification/Go_Base.thy ===== *)
theory Go_Base
  imports Prelude
begin

text \<open>
  What the sources use of Go's standard library: \<^verbatim>\<open>strings\<close> (on ASCII text), \<^verbatim>\<open>time\<close> (UTC
  calendar fields of a Unix time in nanoseconds and the layouts \<open>2006-01\<close> and
  \<open>2006-01-02\<close>) and \<^verbatim>\<open>encoding/json\<close> decoding into structs. JSON text enters the model
  already scanned: a request body is its length in bytes and its document, \<open>None\<close> when the
  text is not valid JSON.
\<close>

section \<open>strings\<close>

definition is_space :: "char \<Rightarrow> bool" where
  "is_space c \<longleftrightarrow> c \<in> {CHR 0x20, CHR 0x09, CHR 0x0A, CHR 0x0B, CHR 0x0C, CHR 0x0D}"

definition TrimSpace :: "string \<Rightarrow> string" where
  "TrimSpace s = rev (dropWhile is_space (rev (dropWhile is_space s)))"

definition to_lower_char :: "char \<Rightarrow> char" where
  "to_lower_char c = (let n = of_char c :: nat in if 65 \<le> n \<and> n \<le> 90 then char_of (n + 32) else c)"

definition ToLower :: "string \<Rightarrow> string" where
  "ToLower s = map to_lower_char s"

fun HasPrefix :: "string \<Rightarrow> string \<Rightarrow> bool" where
  "HasPrefix s [] = True"
| "HasPrefix [] (p # ps) = False"
| "HasPrefix (c # s) (p # ps) = (c = p \<and> HasPrefix s ps)"

fun Contains :: "string \<Rightarrow> string \<Rightarrow> bool" where
  "Contains [] p = (p = [])"
| "Contains (c # s) p = (HasPrefix (c # s) p \<or> Contains s p)"

definition TrimPrefix :: "string \<Rightarrow> string \<Rightarrow> string" where
  "TrimPrefix s p = (if HasPrefix s p then drop (length p) s else s)"

lemma HasPrefix_iff: "HasPrefix s p \<longleftrightarrow> (\<exists>t. s = p @ t)"
  by (induction s p rule: HasPrefix.induct) auto

lemma Contains_iff: "Contains s p \<longleftrightarrow> (\<exists>a b. s = a @ p @ b)"
proof (induction s)
  case (Cons c s)
  have "(\<exists>a b. c # s = a @ p @ b) \<longleftrightarrow> (\<exists>b. c # s = p @ b) \<or> (\<exists>a b. s = a @ p @ b)"
    by (metis append_Cons append_Nil append_eq_Cons_conv)
  then show ?case using Cons by (simp add: HasPrefix_iff)
qed simp

text \<open>Hexadecimal text of bytes, as \<^verbatim>\<open>encoding/hex\<close> writes it.\<close>

definition hex_digit :: "nat \<Rightarrow> char" where
  "hex_digit n = (if n < 10 then char_of (48 + n) else char_of (87 + n))"

definition hex_encode :: "string \<Rightarrow> string" where
  "hex_encode s = concat (map (\<lambda>c. let n = of_char c :: nat in [hex_digit (n div 16), hex_digit (n mod 16)]) s)"

section \<open>time\<close>

fun nat_digits :: "nat \<Rightarrow> string" where
  "nat_digits n = (if n < 10 then [char_of (48 + n)] else nat_digits (n div 10) @ [char_of (48 + n mod 10)])"

declare nat_digits.simps [simp del]

definition pad :: "nat \<Rightarrow> nat \<Rightarrow> string" where
  "pad w n = (let d = nat_digits n in replicate (w - length d) (CHR ''0'') @ d)"

definition nanos_per_sec :: int where
  "nanos_per_sec = 1000000000"

text \<open>Year, month and day of a day number, in the proleptic Gregorian calendar.\<close>

definition civil :: "int \<Rightarrow> int \<times> int \<times> int" where
  "civil days =
     (let z = days + 719468; era = z div 146097; doe = z mod 146097;
          yoe = (doe - doe div 1460 + doe div 36524 - doe div 146096) div 365;
          doy = doe - (365 * yoe + yoe div 4 - yoe div 100);
          mp = (5 * doy + 2) div 153;
          d = doy - (153 * mp + 2) div 5 + 1;
          m = (if mp < 10 then mp + 3 else mp - 9)
      in (yoe + era * 400 + (if m \<le> 2 then 1 else 0), m, d))"

definition day_of :: "int \<Rightarrow> int" where
  "day_of t = t div (86400 * nanos_per_sec)"

definition format_year :: "int \<Rightarrow> string" where
  "format_year y = (if y < 0 then CHR ''-'' # pad 4 (nat (- y)) else pad 4 (nat y))"

definition format_month :: "int \<Rightarrow> string" where
  "format_month t = (let (y, m, _) = civil (day_of t) in format_year y @ ''-'' @ pad 2 (nat m))"

definition format_date :: "int \<Rightarrow> string" where
  "format_date t =
     (let (y, m, d) = civil (day_of t) in format_year y @ ''-'' @ pad 2 (nat m) @ ''-'' @ pad 2 (nat d))"

lemma format_month_example: "format_month (1769904000 * 1000000000) = ''2026-02''"
  by code_simp

section \<open>encoding/json\<close>

datatype json =
    JNull
  | JBool bool
  | JInt int
  | JReal string
  | JStr string
  | JArr "json list"
  | JObj "(string \<times> json) list"

record body =
  body_len :: nat
  body_json :: "json option"

text \<open>
  \<open>unmarshal upd z j\<close> decodes a document into a struct with value \<open>z\<close>: the members of an
  object in order, each handed to \<open>upd\<close>, which stores a value and says whether it fitted. The
  second component is whether \<^verbatim>\<open>json.Unmarshal\<close> returned no error: a member of the wrong type
  is an error, yet the remaining members are still stored. Field names match up to case.
\<close>

fun unmarshal_fields :: "('a \<Rightarrow> string \<Rightarrow> json \<Rightarrow> 'a \<times> bool) \<Rightarrow> 'a \<Rightarrow> (string \<times> json) list \<Rightarrow> 'a \<times> bool" where
  "unmarshal_fields upd z [] = (z, True)"
| "unmarshal_fields upd z ((k, v) # kvs) =
     (let (z1, ok1) = upd z (ToLower k) v; (z2, ok2) = unmarshal_fields upd z1 kvs
      in (z2, ok1 \<and> ok2))"

definition unmarshal :: "('a \<Rightarrow> string \<Rightarrow> json \<Rightarrow> 'a \<times> bool) \<Rightarrow> 'a \<Rightarrow> json option \<Rightarrow> 'a \<times> bool" where
  "unmarshal upd z doc =
     (case doc of
        None \<Rightarrow> (z, False)
      | Some (JObj kvs) \<Rightarrow> unmarshal_fields upd z kvs
      | Some JNull \<Rightarrow> (z, True)
      | Some _ \<Rightarrow> (z, False))"

text \<open>
  A string field; an \<^verbatim>\<open>int64\<close> field; a \<^verbatim>\<open>*int64\<close> field, which \<^verbatim>\<open>null\<close> resets and which is
  allocated even by a value that does not fit.
\<close>

definition decode_string :: "string \<Rightarrow> json \<Rightarrow> string \<times> bool" where
  "decode_string old v = (case v of JStr s \<Rightarrow> (s, True) | JNull \<Rightarrow> (old, True) | _ \<Rightarrow> (old, False))"

definition decode_int64 :: "int \<Rightarrow> json \<Rightarrow> int \<times> bool" where
  "decode_int64 old v =
     (case v of JInt i \<Rightarrow> if int64 i then (i, True) else (old, False)
      | JNull \<Rightarrow> (old, True) | _ \<Rightarrow> (old, False))"

definition decode_int64_ptr :: "int option \<Rightarrow> json \<Rightarrow> int option \<times> bool" where
  "decode_int64_ptr old v =
     (if v = JNull then (None, True)
      else let (i, ok) = decode_int64 (case old of None \<Rightarrow> 0 | Some x \<Rightarrow> x) v in (Some i, ok))"

end
