(* ===== verification/Identity_Store.thy ===== *)
theory Identity_Store
  imports Sql_Table Go_Base "HOL-Library.List_Lexorder" "HOL-Library.Char_ord"
begin

text \<open>
  The identity tables and the repository methods the authorization layer calls: tenants and users
  (\<^verbatim>\<open>internal/model/models.go\<close>, \<^verbatim>\<open>internal/repository/repository.go\<close>), roles, permissions and role
  assignments (\<^verbatim>\<open>internal/model/assets.go\<close>, \<^verbatim>\<open>internal/repository/m2.go\<close>), teams and projects
  (\<^verbatim>\<open>internal/repository/team.go\<close>, \<^verbatim>\<open>team_project.go\<close>, \<^verbatim>\<open>project.go\<close>). Branding and timestamp
  columns are left out.
\<close>

section \<open>Rows\<close>

record tenant =
  te_id :: string
  te_name :: string
  te_status :: string

record user =
  us_id :: string
  us_tenant_id :: string
  us_username :: string
  us_password_hash :: string
  us_email :: string
  us_role :: string
  us_status :: string

record role =
  ro_id :: string
  ro_tenant_id :: string
  ro_name :: string
  ro_scope :: string
  ro_description :: string
  ro_parent_id :: string

record permission =
  p_id :: string
  p_role_id :: string
  p_action :: string
  p_resource :: string
  p_effect :: string

record team =
  tm_id :: string
  tm_tenant_id :: string
  tm_owner_id :: string

text \<open>Link tables are pairs, in the order of their columns.\<close>

record id_store =
  tenants :: "tenant list"
  users :: "user list"
  roles :: "role list"
  user_roles :: "(string \<times> string) list"
  permissions :: "permission list"
  teams :: "team list"
  user_teams :: "(string \<times> string) list"
  team_projects :: "(string \<times> string) list"
  project_members :: "(string \<times> string) list"

definition TenantStatusActive :: string where
  "TenantStatusActive = ''active''"

definition UserStatusActive :: string where
  "UserStatusActive = ''active''"

definition UserStatusDisabled :: string where
  "UserStatusDisabled = ''disabled''"

definition RolePlatformAdmin :: string where
  "RolePlatformAdmin = ''platform_admin''"

definition RoleTenantAdmin :: string where
  "RoleTenantAdmin = ''tenant_admin''"

definition RoleOperator :: string where
  "RoleOperator = ''operator''"

definition RoleViewer :: string where
  "RoleViewer = ''viewer''"

definition RoleTeamAdmin :: string where
  "RoleTeamAdmin = ''team_admin''"

definition RoleBusinessUser :: string where
  "RoleBusinessUser = ''business_user''"

definition RoleScopePlatform :: string where
  "RoleScopePlatform = ''platform''"

definition RoleScopeTenant :: string where
  "RoleScopeTenant = ''tenant''"

definition PermissionEffectAllow :: string where
  "PermissionEffectAllow = ''allow''"

definition PermissionEffectDeny :: string where
  "PermissionEffectDeny = ''deny''"

lemmas role_name_defs = RolePlatformAdmin_def RoleTenantAdmin_def RoleOperator_def RoleViewer_def
  RoleTeamAdmin_def RoleBusinessUser_def

lemma builtin_names_distinct [simp]:
  "RolePlatformAdmin \<noteq> RoleTenantAdmin" "RolePlatformAdmin \<noteq> RoleOperator" "RolePlatformAdmin \<noteq> RoleViewer"
  "RolePlatformAdmin \<noteq> RoleTeamAdmin" "RolePlatformAdmin \<noteq> RoleBusinessUser"
  "RoleTenantAdmin \<noteq> RoleOperator" "RoleTenantAdmin \<noteq> RoleViewer" "RoleTenantAdmin \<noteq> RoleTeamAdmin"
  "RoleTenantAdmin \<noteq> RoleBusinessUser" "RoleOperator \<noteq> RoleViewer" "RoleOperator \<noteq> RoleTeamAdmin"
  "RoleOperator \<noteq> RoleBusinessUser" "RoleViewer \<noteq> RoleTeamAdmin" "RoleViewer \<noteq> RoleBusinessUser"
  "RoleTeamAdmin \<noteq> RoleBusinessUser"
  by (simp_all add: role_name_defs)

lemmas builtin_names_distinct' [simp] = builtin_names_distinct [symmetric]

section \<open>Reads\<close>

definition GetTenant :: "string \<Rightarrow> id_store db \<Rightarrow> (err + tenant option) \<times> id_store db" where
  "GetTenant i = query (\<lambda>s. row_at te_id i (tenants s))"

definition GetUser :: "string \<Rightarrow> id_store db \<Rightarrow> (err + user option) \<times> id_store db" where
  "GetUser i = query (\<lambda>s. row_at us_id i (users s))"

definition GetUserByUsername :: "string \<Rightarrow> id_store db \<Rightarrow> (err + user option) \<times> id_store db" where
  "GetUserByUsername name = query (\<lambda>s. sql_first (\<lambda>u. ToLower (us_username u) = ToLower name) (users s))"

definition GetUserByEmail :: "string \<Rightarrow> id_store db \<Rightarrow> (err + user option) \<times> id_store db" where
  "GetUserByEmail email = query (\<lambda>s. sql_first (\<lambda>u. ToLower (us_email u) = ToLower email) (users s))"

definition GetRole :: "string \<Rightarrow> id_store db \<Rightarrow> (err + role option) \<times> id_store db" where
  "GetRole i = query (\<lambda>s. row_at ro_id i (roles s))"

definition GetRoleByName :: "string \<Rightarrow> string \<Rightarrow> id_store db \<Rightarrow> (err + role option) \<times> id_store db" where
  "GetRoleByName name excludeID = query (\<lambda>s. sql_first
     (\<lambda>r. ToLower (ro_name r) = ToLower name \<and> (excludeID \<noteq> [] \<longrightarrow> ro_id r \<noteq> excludeID)) (roles s))"

definition ListRolesByUser :: "string \<Rightarrow> id_store db \<Rightarrow> (err + role list) \<times> id_store db" where
  "ListRolesByUser userID = query (\<lambda>s. sort_key ro_id (concat (map
     (\<lambda>r. map (\<lambda>_. r) (filter (\<lambda>ur. ur = (userID, ro_id r)) (user_roles s))) (roles s))))"

definition GetPermissions :: "string \<Rightarrow> id_store db \<Rightarrow> (err + permission list) \<times> id_store db" where
  "GetPermissions roleID = query (\<lambda>s. filter (\<lambda>p. p_role_id p = roleID) (permissions s))"

definition RoleUserCount :: "string \<Rightarrow> id_store db \<Rightarrow> (err + int) \<times> id_store db" where
  "RoleUserCount roleID = query (\<lambda>s. sql_count (\<lambda>(_, r). r = roleID) (user_roles s))"

definition RoleAsParentCount :: "string \<Rightarrow> id_store db \<Rightarrow> (err + int) \<times> id_store db" where
  "RoleAsParentCount roleID = query (\<lambda>s. sql_count (\<lambda>r. ro_parent_id r = roleID) (roles s))"

definition CountActiveUsersByTenantAndRole ::
  "string \<Rightarrow> string \<Rightarrow> id_store db \<Rightarrow> (err + int) \<times> id_store db" where
  "CountActiveUsersByTenantAndRole tenantID rl = query (\<lambda>s. sql_count
     (\<lambda>u. us_tenant_id u = tenantID \<and> us_role u = rl \<and> us_status u = UserStatusActive) (users s))"

definition IsProjectMember :: "string \<Rightarrow> string \<Rightarrow> id_store db \<Rightarrow> (err + bool) \<times> id_store db" where
  "IsProjectMember userID projectID =
     query (\<lambda>s. 0 < sql_count (\<lambda>m. m = (userID, projectID)) (project_members s))"

definition ListUserTeamIDs :: "string \<Rightarrow> id_store db \<Rightarrow> (err + string list) \<times> id_store db" where
  "ListUserTeamIDs userID = query (\<lambda>s. map snd (filter (\<lambda>(u, _). u = userID) (user_teams s)))"

definition ListTeamIDsOwnedBy :: "string \<Rightarrow> id_store db \<Rightarrow> (err + string list) \<times> id_store db" where
  "ListTeamIDsOwnedBy userID = query (\<lambda>s. map tm_id (filter (\<lambda>t. tm_owner_id t = userID) (teams s)))"

definition GetTeam :: "string \<Rightarrow> string \<Rightarrow> id_store db \<Rightarrow> (err + team option) \<times> id_store db" where
  "GetTeam tenantID i = query (\<lambda>s. sql_first (\<lambda>t. tm_tenant_id t = tenantID \<and> tm_id t = i) (teams s))"

definition IsProjectBoundToTeams :: "string \<Rightarrow> string list \<Rightarrow> id_store db \<Rightarrow> (err + bool) \<times> id_store db" where
  "IsProjectBoundToTeams projectID teamIDs =
     (if teamIDs = [] then ret False
      else query (\<lambda>s. 0 < sql_count (\<lambda>(t, p). p = projectID \<and> t \<in> set teamIDs) (team_projects s)))"

lemmas id_reads = GetTenant_def GetUser_def GetUserByUsername_def GetUserByEmail_def GetRole_def GetRoleByName_def ListRolesByUser_def
  GetPermissions_def RoleUserCount_def RoleAsParentCount_def CountActiveUsersByTenantAndRole_def
  IsProjectMember_def ListUserTeamIDs_def ListTeamIDsOwnedBy_def GetTeam_def IsProjectBoundToTeams_def

section \<open>Writes\<close>

text \<open>An insert fails on a duplicate primary key.\<close>

definition CreateRole_tx :: "role \<Rightarrow> id_store \<Rightarrow> (err + unit) \<times> id_store" where
  "CreateRole_tx r s =
     (if row_at ro_id (ro_id r) (roles s) = None then (Inr (), s\<lparr>roles := roles s @ [r]\<rparr>)
      else (Inl (Failure ''duplicate key''), s))"

definition store_CreateRole :: "role \<Rightarrow> id_store db \<Rightarrow> (err + unit) \<times> id_store db" where
  "store_CreateRole r = db_run (CreateRole_tx r)"

definition store_UpdateRole :: "role \<Rightarrow> id_store db \<Rightarrow> (err + unit) \<times> id_store db" where
  "store_UpdateRole r = db_run (\<lambda>s. (Inr (), s\<lparr>roles := sql_update (\<lambda>x. ro_id x = ro_id r)
     (\<lambda>x. x\<lparr>ro_name := ro_name r, ro_description := ro_description r, ro_scope := ro_scope r,
            ro_parent_id := ro_parent_id r\<rparr>) (roles s)\<rparr>))"

definition store_DeleteRole :: "string \<Rightarrow> id_store db \<Rightarrow> (err + unit) \<times> id_store db" where
  "store_DeleteRole roleID = db_run (\<lambda>s. (Inr (), s\<lparr>roles := filter (\<lambda>r. ro_id r \<noteq> roleID) (roles s)\<rparr>))"

definition SetPermissions :: "string \<Rightarrow> permission list \<Rightarrow> id_store db \<Rightarrow> (err + unit) \<times> id_store db" where
  "SetPermissions roleID perms = db_run (\<lambda>s. (Inr (), s\<lparr>permissions :=
     filter (\<lambda>p. p_role_id p \<noteq> roleID) (permissions s) @ map (\<lambda>p. p\<lparr>p_role_id := roleID\<rparr>) perms\<rparr>))"

definition SetUserPrimaryRole_tx :: "string \<Rightarrow> string \<Rightarrow> id_store \<Rightarrow> id_store" where
  "SetUserPrimaryRole_tx userID roleID s =
     s\<lparr>users := sql_update (\<lambda>u. us_id u = userID) (\<lambda>u. u\<lparr>us_role := roleID\<rparr>) (users s),
       user_roles := filter (\<lambda>(u, _). u \<noteq> userID) (user_roles s) @ [(userID, roleID)]\<rparr>"

definition SetUserPrimaryRole :: "string \<Rightarrow> string \<Rightarrow> id_store db \<Rightarrow> (err + unit) \<times> id_store db" where
  "SetUserPrimaryRole userID roleID = db_run (\<lambda>s. (Inr (), SetUserPrimaryRole_tx userID roleID s))"

definition UpdateUser_tx :: "user \<Rightarrow> id_store \<Rightarrow> id_store" where
  "UpdateUser_tx u s = s\<lparr>users := sql_update (\<lambda>x. us_id x = us_id u)
     (\<lambda>x. x\<lparr>us_role := us_role u, us_status := us_status u, us_email := us_email u,
            us_username := us_username u, us_password_hash := us_password_hash u\<rparr>) (users s)\<rparr>"

definition UpdateUser :: "user \<Rightarrow> id_store db \<Rightarrow> (err + unit) \<times> id_store db" where
  "UpdateUser u = db_run (\<lambda>s. (Inr (), UpdateUser_tx u s))"

definition CreateUser_tx :: "user \<Rightarrow> id_store \<Rightarrow> (err + unit) \<times> id_store" where
  "CreateUser_tx u s =
     (if \<exists>x\<in>set (users s). us_id x = us_id u \<or> us_username x = us_username u
      then (Inl (Failure ''duplicate key''), s) else (Inr (), s\<lparr>users := users s @ [u]\<rparr>))"

definition store_CreateUser :: "user \<Rightarrow> id_store db \<Rightarrow> (err + unit) \<times> id_store db" where
  "store_CreateUser u = db_run (CreateUser_tx u)"

definition store_DeleteUser :: "string \<Rightarrow> id_store db \<Rightarrow> (err + unit) \<times> id_store db" where
  "store_DeleteUser userID = db_run (\<lambda>s. (Inr (), s\<lparr>users := filter (\<lambda>u. us_id u \<noteq> userID) (users s)\<rparr>))"

end
