(* ===== verification/Authz.thy ===== *)
theory Authz
  imports Identity_Store
begin

text \<open>
  The authorizer: \<^verbatim>\<open>Authorize\<close>, \<^verbatim>\<open>AuthorizeAny\<close>, \<^verbatim>\<open>AuthorizeObject\<close>, \<^verbatim>\<open>authz\<close>, \<^verbatim>\<open>expandRoles\<close> and
  \<^verbatim>\<open>evaluate\<close> of \<^verbatim>\<open>internal/service/service.go\<close>, \<^verbatim>\<open>AuthorizeABAC\<close> of \<^verbatim>\<open>internal/service/abac.go\<close>,
  the project membership checks of \<^verbatim>\<open>internal/service/project.go\<close> and \<^verbatim>\<open>ReadImpliedByAction\<close> of
  \<^verbatim>\<open>internal/db/role_lattice.go\<close>.
\<close>

section \<open>Rules\<close>

definition ErrForbidden :: err where
  "ErrForbidden = Forbidden ''insufficient permission''"

definition actionImplications :: "string list" where
  "actionImplications = [''manage'', ''execute'', ''append'', ''test'', ''session:create'', ''delete:own'']"

definition ReadImpliedByAction :: "string \<Rightarrow> bool" where
  "ReadImpliedByAction action = (action \<in> set actionImplications)"

definition matches :: "string \<Rightarrow> string \<Rightarrow> bool" where
  "matches rule v = (rule = ''*'' \<or> rule = v)"

record authz_context =
  ac_user :: user
  ac_platform :: bool
  ac_allow :: "permission list"
  ac_deny :: "permission list"

definition rule_hits :: "permission \<Rightarrow> string \<Rightarrow> string \<Rightarrow> bool" where
  "rule_hits p action resource = (matches (p_action p) action \<and> matches (p_resource p) resource)"

definition rule_grants :: "permission \<Rightarrow> string \<Rightarrow> string \<Rightarrow> bool" where
  "rule_grants p action resource =
     (rule_hits p action resource \<or>
      action = ''read'' \<and> ReadImpliedByAction (p_action p) \<and> matches (p_resource p) resource)"

definition evaluate :: "authz_context \<Rightarrow> string \<Rightarrow> string \<Rightarrow> err + unit" where
  "evaluate ac action resource =
     (if \<exists>p\<in>set (ac_deny ac). rule_hits p action resource then Inl ErrForbidden
      else if \<exists>p\<in>set (ac_allow ac). rule_grants p action resource then Inr ()
      else Inl ErrForbidden)"

definition matchAny :: "authz_context \<Rightarrow> (string \<times> string) list \<Rightarrow> (string \<times> string) option" where
  "matchAny ac refs = find (\<lambda>(a, r). evaluate ac a r = Inr ()) refs"

section \<open>Roles and their parents\<close>

definition parent_ids :: "id_store \<Rightarrow> string set" where
  "parent_ids s = ro_parent_id ` set (roles s)"

lemma GetRole_cases:
  assumes "GetRole i d = (res, d1)"
  shows "fst d1 = fst d \<and> (res = Inl DbFault \<or> res = Inr (row_at ro_id i (roles (fst d))))"
  using query_cases [OF assms [unfolded GetRole_def]] by simp

lemma fewer_parents:
  assumes "GetRole rid d = (Inr (Some r), d1)" and "ro_parent_id r \<notin> set collected"
  shows "card (parent_ids (fst d1) - insert (ro_parent_id r) (set collected)) <
    card (parent_ids (fst d) - set collected)"
proof -
  have "r \<in> set (roles (fst d))" "fst d1 = fst d"
    using GetRole_cases [OF assms(1)] row_at_SomeD [of ro_id rid _ r] by fastforce+
  then show ?thesis using assms(2) by (intro psubset_card_mono) (auto simp: parent_ids_def)
qed

text \<open>
  The work list of \<^verbatim>\<open>expandRoles\<close>: \<open>queue\<close> holds the ids still to visit, \<open>collected\<close> the ids ever
  queued, \<open>known\<close> the visited ones and \<open>result\<close> the ids visited so far.
\<close>

function expand_loop :: "string list \<Rightarrow> string list \<Rightarrow> string list \<Rightarrow> string list \<Rightarrow> id_store db \<Rightarrow>
  (err + string list) \<times> id_store db" where
  "expand_loop [] collected known result d = (Inr result, d)"
| "expand_loop (rid # queue) collected known result d =
     (if rid \<in> set known then expand_loop queue collected known (result @ [rid]) d
      else case GetRole rid d of
             (Inl e, d1) \<Rightarrow> (Inl e, d1)
           | (Inr None, d1) \<Rightarrow> expand_loop queue collected (rid # known) (result @ [rid]) d1
           | (Inr (Some r), d1) \<Rightarrow>
               if ro_parent_id r \<noteq> [] \<and> ro_parent_id r \<notin> set collected
               then expand_loop (queue @ [ro_parent_id r]) (ro_parent_id r # collected) (rid # known) (result @ [rid]) d1
               else expand_loop queue collected (rid # known) (result @ [rid]) d1)"
  by pat_completeness auto

termination
proof (relation "measure (\<lambda>(queue, collected, known, result, d).
    card (parent_ids (fst d) - set collected) + length queue)", goal_cases)
  case (4 rid queue collected known result d x d1 b r)
  then show ?case using fewer_parents [of rid d r d1 collected] by auto
qed (auto dest: GetRole_cases [OF sym])

definition start_ids :: "role list \<Rightarrow> string list" where
  "start_ids rs = foldl (\<lambda>q r. if ro_id r \<noteq> [] \<and> ro_id r \<notin> set q then q @ [ro_id r] else q) [] rs"

definition expandRoles :: "role list \<Rightarrow> id_store db \<Rightarrow> (err + string list) \<times> id_store db" where
  "expandRoles rs = expand_loop (start_ids rs) (start_ids rs) [] []"

section \<open>The authorization context\<close>

definition EnsureTenantActive :: "string \<Rightarrow> id_store db \<Rightarrow> (err + unit) \<times> id_store db" where
  "EnsureTenantActive tenantID = chk (GetTenant tenantID) (\<lambda>t.
     case t of
       None \<Rightarrow> fail (Forbidden ''workspace is disabled'')
     | Some te \<Rightarrow> if te_status te = TenantStatusActive then ret () else fail (Forbidden ''workspace is disabled''))"

definition perm_key :: "permission \<Rightarrow> string" where
  "perm_key p = p_role_id p @ ''|'' @ p_action p @ ''|'' @ p_resource p @ ''|'' @ p_effect p"

record grants =
  g_platform :: bool
  g_seen :: "string list"
  g_allow :: "permission list"
  g_deny :: "permission list"

definition add_rule :: "permission \<Rightarrow> grants \<Rightarrow> grants" where
  "add_rule p g =
     (if perm_key p \<in> set (g_seen g) then g
      else if p_effect p = PermissionEffectDeny
      then g\<lparr>g_seen := perm_key p # g_seen g, g_deny := g_deny g @ [p]\<rparr>
      else g\<lparr>g_seen := perm_key p # g_seen g, g_allow := g_allow g @ [p]\<rparr>)"

fun collect_rules :: "string list \<Rightarrow> grants \<Rightarrow> id_store db \<Rightarrow> (err + grants) \<times> id_store db" where
  "collect_rules [] g = ret g"
| "collect_rules (rid # rids) g = chk (GetRole rid) (\<lambda>r.
     chk (GetPermissions rid) (\<lambda>perms.
       collect_rules rids (fold add_rule perms
         (case r of Some ro \<Rightarrow> if ro_scope ro = RoleScopePlatform then g\<lparr>g_platform := True\<rparr> else g | None \<Rightarrow> g))))"

definition roles_or_marker :: "user \<Rightarrow> role list \<Rightarrow> id_store db \<Rightarrow> (err + role list) \<times> id_store db" where
  "roles_or_marker u rs =
     (if rs = [] then chk (GetRole (us_role u)) (\<lambda>r. ret (case r of None \<Rightarrow> [] | Some ro \<Rightarrow> [ro])) else ret rs)"

definition no_grants :: grants where
  "no_grants = \<lparr>g_platform = False, g_seen = [], g_allow = [], g_deny = []\<rparr>"

definition context_of :: "user \<Rightarrow> grants \<Rightarrow> authz_context" where
  "context_of u g =
     (let ac = \<lparr>ac_user = u, ac_platform = False, ac_allow = g_allow g, ac_deny = g_deny g\<rparr>
      in ac\<lparr>ac_platform := g_platform g \<and> evaluate ac ''governance.manage'' ''tenant'' = Inr ()\<rparr>)"

definition authz :: "string \<Rightarrow> id_store db \<Rightarrow> (err + authz_context) \<times> id_store db" where
  "authz userID = chk (GetUser userID) (\<lambda>up.
     case up of
       None \<Rightarrow> fail (Unauthorized ''user is disabled or missing'')
     | Some u \<Rightarrow>
         if us_status u \<noteq> UserStatusActive then fail (Unauthorized ''user is disabled or missing'')
         else chk (EnsureTenantActive (us_tenant_id u)) (\<lambda>_.
              chk (ListRolesByUser userID) (\<lambda>rs0.
              chk (roles_or_marker u rs0) (\<lambda>rs.
              chk (expandRoles rs) (\<lambda>rids.
              chk (collect_rules rids no_grants) (\<lambda>g. ret (context_of u g)))))))"

section \<open>Decisions\<close>

definition Authorize :: "string \<Rightarrow> string \<Rightarrow> string \<Rightarrow> id_store db \<Rightarrow> (err + unit) \<times> id_store db" where
  "Authorize userID action resource = chk (authz userID) (\<lambda>ac d. (evaluate ac action resource, d))"

definition AuthorizeAny :: "string \<Rightarrow> (string \<times> string) list \<Rightarrow> id_store db \<Rightarrow>
  (err + string \<times> string) \<times> id_store db" where
  "AuthorizeAny userID refs = chk (authz userID) (\<lambda>ac.
     case matchAny ac refs of None \<Rightarrow> fail ErrForbidden | Some r \<Rightarrow> ret r)"

definition CanAny :: "string \<Rightarrow> (string \<times> string) list \<Rightarrow> id_store db \<Rightarrow> bool \<times> id_store db" where
  "CanAny userID refs d = (case AuthorizeAny userID refs d of (Inl _, d1) \<Rightarrow> (False, d1) | (Inr _, d1) \<Rightarrow> (True, d1))"

definition canAccessAcrossTenant :: "authz_context \<Rightarrow> string \<Rightarrow> bool" where
  "canAccessAcrossTenant ac action =
     (if \<not> ac_platform ac then False
      else if action \<in> {''read'', ''test''} then evaluate ac ''governance.read'' ''tenant'' = Inr ()
      else if action \<in> {''manage'', ''execute''} then evaluate ac ''governance.manage'' ''tenant'' = Inr ()
      else False)"

definition AuthorizeObject ::
  "string \<Rightarrow> string \<Rightarrow> string \<Rightarrow> string \<Rightarrow> string \<Rightarrow> id_store db \<Rightarrow> (err + unit) \<times> id_store db" where
  "AuthorizeObject userID action resource objectTenantID ownerID =
     chk (Authorize userID action resource) (\<lambda>_.
     chk (authz userID) (\<lambda>ac.
       if us_tenant_id (ac_user ac) = objectTenantID \<or> (ownerID \<noteq> [] \<and> ownerID = userID) then ret ()
       else if canAccessAcrossTenant ac action then ret ()
       else fail ErrForbidden))"

definition hasRoleID :: "role list \<Rightarrow> string \<Rightarrow> bool" where
  "hasRoleID rs roleID = (\<exists>r\<in>set rs. ro_id r = roleID)"

definition projectMember :: "string \<Rightarrow> string \<Rightarrow> id_store db \<Rightarrow> (err + bool) \<times> id_store db" where
  "projectMember userID projectID = chk (IsProjectMember userID projectID) (\<lambda>ok.
     if ok then ret True
     else chk (ListUserTeamIDs userID) (\<lambda>ids. IsProjectBoundToTeams projectID ids))"

fun tenant_teams :: "string \<Rightarrow> string list \<Rightarrow> id_store db \<Rightarrow> (err + string list) \<times> id_store db" where
  "tenant_teams tenantID [] = ret []"
| "tenant_teams tenantID (i # is) = chk (GetTeam tenantID i) (\<lambda>t.
     chk (tenant_teams tenantID is) (\<lambda>rest. ret (case t of None \<Rightarrow> rest | Some te \<Rightarrow> tm_id te # rest)))"

definition isProjectBoundToOwnedTeam ::
  "string \<Rightarrow> string \<Rightarrow> string \<Rightarrow> id_store db \<Rightarrow> (err + bool) \<times> id_store db" where
  "isProjectBoundToOwnedTeam tenantID userID projectID = chk (ListTeamIDsOwnedBy userID) (\<lambda>ids.
     chk (tenant_teams tenantID ids) (\<lambda>mine. IsProjectBoundToTeams projectID mine))"

definition project_check ::
  "authz_context \<Rightarrow> string \<Rightarrow> string \<Rightarrow> string \<Rightarrow> string \<Rightarrow> id_store db \<Rightarrow> (err + unit) \<times> id_store db" where
  "project_check ac actorID objectTenantID projectID ownerID =
     (if projectID = [] \<or> us_role (ac_user ac) = RoleTenantAdmin then ret ()
      else chk (ListRolesByUser actorID) (\<lambda>rs.
        if hasRoleID rs RoleTeamAdmin
        then chk (isProjectBoundToOwnedTeam objectTenantID actorID projectID) (\<lambda>bound.
               if bound then ret () else fail ErrForbidden)
        else chk (projectMember actorID projectID) (\<lambda>member.
               if \<not> member \<and> ownerID \<noteq> actorID then fail ErrForbidden else ret ())))"

definition AuthorizeABAC :: "string \<Rightarrow> string \<Rightarrow> string \<Rightarrow> string \<Rightarrow> string \<Rightarrow> string \<Rightarrow> id_store db \<Rightarrow>
  (err + unit) \<times> id_store db" where
  "AuthorizeABAC actorID action resource objectTenantID projectID ownerID =
     chk (Authorize actorID action resource) (\<lambda>_.
     chk (authz actorID) (\<lambda>ac.
       if us_tenant_id (ac_user ac) \<noteq> objectTenantID
       then (if canAccessAcrossTenant ac action then ret () else fail ErrForbidden)
       else project_check ac actorID objectTenantID projectID ownerID))"

definition MePermissions :: "string \<Rightarrow> id_store db \<Rightarrow> (err + bool \<times> permission list) \<times> id_store db" where
  "MePermissions userID = chk (authz userID) (\<lambda>ac. ret (ac_platform ac, ac_allow ac @ ac_deny ac))"

end
