(* ===== verification/Route_Registry.thy ===== *)
theory Route_Registry
  imports Authz
begin

text \<open>
  The route contracts: the rule type of \<^verbatim>\<open>internal/middleware/rbac.go\<close>, and the registry of resource
  types of \<^verbatim>\<open>internal/router/route_registry.go\<close> with the contract it gives each access rule
  (\<^verbatim>\<open>withRouteContracts\<close>). The scope resolver of a rule, a closure in the code, is named by the
  function that builds it.
\<close>

section \<open>Rules\<close>

datatype resolver =
    ResolveParserPolicyScope
  | ResolveQualityProfileScope
  | ResolveLogicalDocumentScope
  | ResolveToolRegistryScope
  | ResolveSourceRoutingRuleScope
  | ResolveDBConnectionScope
  | ResolveQueryTemplateScope
  | ResolveKnowledgeStrategyScope
  | ResolveEvidenceSnapshotScope
  | ResolveOutboxEventScope
  | ResolveEvalCaseScope
  | ResolveMemoryOperationScope
  | ResolveDatasetScope
  | ResolveProjectScope

record rule =
  ru_method :: string
  ru_path :: string
  ru_action :: string
  ru_resource :: string
  ru_route_class :: string
  ru_resource_scope :: string
  ru_allowed_scope :: "string list"
  ru_cross_tenant_write :: bool
  ru_requires_approval :: bool
  ru_acting_context :: bool
  ru_audit_required :: bool
  ru_resolve :: "resolver option"

text \<open>A rule as the table writes it: the remaining fields have their zero values.\<close>

definition rule_at :: "string \<Rightarrow> string \<Rightarrow> string \<Rightarrow> string \<Rightarrow> resolver option \<Rightarrow> rule" where
  "rule_at method path action resource resolve =
     \<lparr>ru_method = method, ru_path = ''/api/v1'' @ path, ru_action = action, ru_resource = resource,
      ru_route_class = [], ru_resource_scope = [], ru_allowed_scope = [], ru_cross_tenant_write = False,
      ru_requires_approval = False, ru_acting_context = False, ru_audit_required = False,
      ru_resolve = resolve\<rparr>"

section \<open>Resource types\<close>

definition RouteClassBusiness :: string where
  "RouteClassBusiness = ''BUSINESS''"

definition RouteClassGovernance :: string where
  "RouteClassGovernance = ''GOVERNANCE''"

definition ResourceScopePlatform :: string where
  "ResourceScopePlatform = ''PLATFORM''"

definition ResourceScopeWorkspace :: string where
  "ResourceScopeWorkspace = ''WORKSPACE''"

definition AllowedScopeCurrent :: string where
  "AllowedScopeCurrent = ''CURRENT''"

definition AllowedScopeSpecific :: string where
  "AllowedScopeSpecific = ''SPECIFIC''"

definition AllowedScopeAll :: string where
  "AllowedScopeAll = ''ALL_AUTHORIZED''"

lemmas route_consts = RouteClassBusiness_def RouteClassGovernance_def ResourceScopePlatform_def
  ResourceScopeWorkspace_def AllowedScopeCurrent_def AllowedScopeSpecific_def AllowedScopeAll_def

record resource_type_definition =
  rd_resource_scope :: string
  rd_allowed_actions :: "string list"
  rd_governance_read :: bool
  rd_cross_tenant_write :: bool
  rd_requires_approval :: bool
  rd_acting_context :: bool

definition resource_type :: "string \<Rightarrow> string list \<Rightarrow> bool \<Rightarrow> bool \<Rightarrow> bool \<Rightarrow> bool \<Rightarrow> resource_type_definition" where
  "resource_type scope actions governanceRead crossTenantWrite approval actingContext =
     \<lparr>rd_resource_scope = scope, rd_allowed_actions = actions, rd_governance_read = governanceRead,
      rd_cross_tenant_write = crossTenantWrite, rd_requires_approval = approval,
      rd_acting_context = actingContext\<rparr>"

definition ResourceTypeRegistry :: "(string \<times> resource_type_definition) list" where
  "ResourceTypeRegistry =
    [(''agent'', resource_type ResourceScopeWorkspace [''read'', ''manage'', ''execute'', ''session:create''] True True True True),
     (''alert'', resource_type ResourceScopeWorkspace [''read'', ''manage''] True False False False),
     (''api-key'', resource_type ResourceScopeWorkspace [''read'', ''manage''] True False False False),
     (''approval'', resource_type ResourceScopeWorkspace [''read'', ''execute'', ''manage''] True False False False),
     (''approval-policy'', resource_type ResourceScopeWorkspace [''read'', ''manage''] True False False False),
     (''assistant'', resource_type ResourceScopeWorkspace [''read'', ''manage'', ''execute''] True False False False),
     (''audit'', resource_type ResourceScopeWorkspace [''read'', ''manage''] True False False False),
     (''audit-export'', resource_type ResourceScopeWorkspace [''read''] True False False False),
     (''audit-anchor'', resource_type ResourceScopeWorkspace [''read''] True False False False),
     (''branding'', resource_type ResourceScopeWorkspace [''read'', ''manage''] True False False False),
     (''chat'', resource_type ResourceScopeWorkspace [''read'', ''manage'', ''execute''] True True True True),
     (''dashboard'', resource_type ResourceScopeWorkspace [''read''] True False False False),
     (''dataset'', resource_type ResourceScopeWorkspace [''read'', ''manage''] True True True True),
     (''dataset-export'', resource_type ResourceScopeWorkspace [''read''] True False False False),
     (''document'', resource_type ResourceScopeWorkspace [''read'', ''append'', ''delete:own'', ''execute''] True True True True),
     (''enterprise-connection'', resource_type ResourceScopePlatform [''read'', ''test'', ''manage''] True True True True),
     (''connector'', resource_type ResourceScopeWorkspace [''read'', ''manage''] True False True False),
     (''eval-set'', resource_type ResourceScopeWorkspace [''read'', ''manage'', ''execute''] True False False False),
     (''ragflow-sync'', resource_type ResourceScopePlatform [''read'', ''manage''] True False False False),
     (''knowledge-lifecycle'', resource_type ResourceScopeWorkspace [''read'', ''manage''] True False False False),
     (''knowledge-ops'', resource_type ResourceScopeWorkspace [''read'', ''manage''] True False False False),
     (''memory'', resource_type ResourceScopeWorkspace [''read'', ''manage'', ''execute''] True False False False),
     (''memory-content'', resource_type ResourceScopeWorkspace [''read'', ''manage'', ''execute''] True False False False),
     (''memory-write'', resource_type ResourceScopeWorkspace [''execute''] False False False False),
     (''memory-policy'', resource_type ResourceScopeWorkspace [''read'', ''manage'', ''execute''] True False False False),
     (''memory-forget'', resource_type ResourceScopeWorkspace [''execute'', ''manage''] False False False False),
     (''memory-operation'', resource_type ResourceScopeWorkspace [''read''] True False False False),
     (''context-decision'', resource_type ResourceScopeWorkspace [''read''] False False False False),
     (''model-provider'', resource_type ResourceScopeWorkspace [''read'', ''manage'', ''execute''] True True True True),
     (''logical-document'', resource_type ResourceScopeWorkspace [''read'', ''manage'', ''execute''] False False False False),
     (''parser-policy'', resource_type ResourceScopeWorkspace [''read'', ''manage''] False False False False),
     (''quality-profile'', resource_type ResourceScopeWorkspace [''read'', ''manage''] False False False False),
     (''tool-registry'', resource_type ResourceScopeWorkspace [''read'', ''manage'', ''execute''] False False False False),
     (''source-routing-rule'', resource_type ResourceScopeWorkspace [''read'', ''manage''] False False False False),
     (''query-template'', resource_type ResourceScopeWorkspace [''read'', ''manage''] False False False False),
     (''knowledge-strategy'', resource_type ResourceScopeWorkspace [''read'', ''manage'', ''execute''] False False False False),
     (''knowledge-profile'', resource_type ResourceScopeWorkspace [''read'', ''manage''] False False False False),
     (''compilation'', resource_type ResourceScopeWorkspace [''read'', ''manage'', ''execute''] False False False False),
     (''evidence-snapshot'', resource_type ResourceScopeWorkspace [''read''] False False False False),
     (''outbox-event'', resource_type ResourceScopeWorkspace [''read'', ''execute''] False False False False),
     (''db-connection'', resource_type ResourceScopeWorkspace [''read'', ''manage'', ''test''] False False False False),
     (''document-governance'', resource_type ResourceScopeWorkspace [''read'', ''manage'', ''execute''] True False False False),
     (''user-clearance'', resource_type ResourceScopeWorkspace [''read'', ''manage''] True False False False),
     (''model-route'', resource_type ResourceScopeWorkspace [''read'', ''manage''] True False False False),
     (''project'', resource_type ResourceScopeWorkspace [''read'', ''manage''] True False False False),
     (''prompt-policy'', resource_type ResourceScopeWorkspace [''read'', ''manage''] True False False False),
     (''release-governance'', resource_type ResourceScopeWorkspace [''read'', ''manage'', ''execute''] True False False False),
     (''role'', resource_type ResourceScopePlatform [''read'', ''manage''] True False False False),
     (''scenario-template'', resource_type ResourceScopeWorkspace [''read'', ''manage''] True False False False),
     (''search-app'', resource_type ResourceScopeWorkspace [''read'', ''manage'', ''execute''] True False False False),
     (''system'', resource_type ResourceScopePlatform [''read'', ''manage''] True False False False),
     (''system-health'', resource_type ResourceScopePlatform [''read''] True False False False),
     (''task'', resource_type ResourceScopeWorkspace [''read'', ''manage'', ''execute''] True False False False),
     (''team'', resource_type ResourceScopeWorkspace [''read'', ''manage''] True False False False),
     (''tenant'', resource_type ResourceScopePlatform [''read'', ''manage'', ''governance.read'', ''governance.read_sensitive'', ''governance.manage'', ''tenant.audit.read'', ''tenant.usage.read'', ''tenant.resource.manage'', ''tenant.resource.delete'', ''tenant.connection.bind'', ''tenant.connection.manage'', ''tenant.connection.unbind'', ''tenant.connection.rotate_secret''] True False False False),
     (''trial-run'', resource_type ResourceScopeWorkspace [''read'', ''execute''] True False False False),
     (''usage'', resource_type ResourceScopeWorkspace [''read''] True False False False),
     (''usage-export'', resource_type ResourceScopeWorkspace [''read''] True False False False),
     (''user'', resource_type ResourceScopeWorkspace [''read'', ''manage''] True False False False)]"

section \<open>Contracts\<close>

definition allowedScopesFor :: "rule \<Rightarrow> resource_type_definition \<Rightarrow> string list" where
  "allowedScopesFor r d =
     (if ru_method r = ''GET'' \<and> rd_governance_read d
      then [AllowedScopeCurrent, AllowedScopeSpecific, AllowedScopeAll]
      else if ru_method r \<noteq> ''GET'' \<and> rd_cross_tenant_write d \<and> rd_requires_approval d \<and> rd_acting_context d
      then [AllowedScopeCurrent, AllowedScopeSpecific]
      else [AllowedScopeCurrent])"

definition routeClassFor :: "rule \<Rightarrow> resource_type_definition \<Rightarrow> string" where
  "routeClassFor r d =
     (if ru_method r = ''GET'' \<and> rd_governance_read d then RouteClassGovernance else RouteClassBusiness)"

definition with_contract :: "rule \<Rightarrow> rule" where
  "with_contract r =
     (case map_of ResourceTypeRegistry (ru_resource r) of
        None \<Rightarrow> r
      | Some d \<Rightarrow>
          r\<lparr>ru_route_class := routeClassFor r d,
            ru_resource_scope := rd_resource_scope d,
            ru_allowed_scope := allowedScopesFor r d,
            ru_audit_required := (routeClassFor r d = RouteClassGovernance),
            ru_acting_context := rd_acting_context d \<and> ru_method r \<noteq> ''GET'',
            ru_cross_tenant_write := rd_cross_tenant_write d,
            ru_requires_approval := rd_requires_approval d\<rparr>)"

definition withRouteContracts :: "rule list \<Rightarrow> rule list" where
  "withRouteContracts rules = map with_contract rules"

text \<open>A contract changes neither the key of a rule nor what it asks for.\<close>

lemma with_contract_keeps [simp]:
  "ru_method (with_contract r) = ru_method r" "ru_path (with_contract r) = ru_path r"
  "ru_action (with_contract r) = ru_action r" "ru_resource (with_contract r) = ru_resource r"
  "ru_resolve (with_contract r) = ru_resolve r"
  by (simp_all add: with_contract_def split: option.splits)

end
