(* ===== verification/Access_Rules.thy ===== *)
theory Access_Rules
  imports Route_Registry
begin

text \<open>
  The access rules of \<^verbatim>\<open>internal/router/access.go\<close>, row by row in source order (\<open>rule_at\<close> adds the
  prefix \<^verbatim>\<open>/api/v1\<close> that every path of the table has), and the routes of the authenticated group as
  \<^verbatim>\<open>internal/router/router.go\<close> and the functions it calls register them, relative to the prefix of the
  group, \<^verbatim>\<open>/api/v1\<close>. Matching a request to a route is the web framework's.
\<close>

section \<open>The rules\<close>

definition access_rules_01 :: "rule list" where
  "access_rules_01 =
    [rule_at ''GET'' ''/conversation/assistants'' ''read'' ''assistant'' None,
     rule_at ''PUT'' ''/conversation/assistants/:kind/:targetId'' ''manage'' ''assistant'' None,
     rule_at ''PUT'' ''/conversation/assistants/:kind/:targetId/governance'' ''manage'' ''assistant'' None,
     rule_at ''POST'' ''/conversation/route'' ''execute'' ''assistant'' None,
     rule_at ''POST'' ''/conversation/route/:routeId/select'' ''execute'' ''assistant'' None,
     rule_at ''POST'' ''/conversation/route-selections/:routeSelectionId/bootstrap'' ''execute'' ''assistant'' None,
     rule_at ''POST'' ''/conversation/routing/evaluations'' ''manage'' ''assistant'' None,
     rule_at ''GET'' ''/conversation/routing/evaluations'' ''read'' ''assistant'' None,
     rule_at ''GET'' ''/conversation/routing/evaluations/:runId'' ''read'' ''assistant'' None,
     rule_at ''GET'' ''/conversation/routing/policy'' ''manage'' ''assistant'' None,
     rule_at ''PUT'' ''/conversation/routing/policy'' ''manage'' ''assistant'' None,
     rule_at ''GET'' ''/auth/me'' ''read'' ''user'' None,
     rule_at ''GET'' ''/tenants'' ''read'' ''tenant'' None,
     rule_at ''GET'' ''/tenants/export'' ''read'' ''tenant'' None,
     rule_at ''GET'' ''/branding'' ''read'' ''branding'' None,
     rule_at ''PUT'' ''/branding'' ''manage'' ''branding'' None,
     rule_at ''POST'' ''/branding/logo'' ''manage'' ''branding'' None,
     rule_at ''GET'' ''/system/config'' ''read'' ''system'' None,
     rule_at ''GET'' ''/system/config/public-key'' ''read'' ''system'' None,
     rule_at ''POST'' ''/system/config/preflight'' ''read'' ''system'' None,
     rule_at ''POST'' ''/system/config/apply'' ''manage'' ''system'' None,
     rule_at ''GET'' ''/system/ragflow/sync/settings'' ''read'' ''ragflow-sync'' None]"

definition access_rules_02 :: "rule list" where
  "access_rules_02 =
    [rule_at ''PATCH'' ''/system/ragflow/sync/settings'' ''manage'' ''ragflow-sync'' None,
     rule_at ''GET'' ''/system/ragflow/sync/mappings'' ''read'' ''ragflow-sync'' None,
     rule_at ''POST'' ''/system/ragflow/sync/mappings'' ''manage'' ''ragflow-sync'' None,
     rule_at ''DELETE'' ''/system/ragflow/sync/mappings/:externalTenantId'' ''manage'' ''ragflow-sync'' None,
     rule_at ''POST'' ''/system/ragflow/sync/scan'' ''manage'' ''ragflow-sync'' None,
     rule_at ''GET'' ''/system/ragflow/sync/runs'' ''read'' ''ragflow-sync'' None,
     rule_at ''GET'' ''/system/ragflow/sync/runs/:id'' ''read'' ''ragflow-sync'' None,
     rule_at ''GET'' ''/system/ragflow/sync/runs/:id/items'' ''read'' ''ragflow-sync'' None,
     rule_at ''POST'' ''/system/ragflow/sync/runs/:id/import'' ''manage'' ''ragflow-sync'' None,
     rule_at ''POST'' ''/system/ragflow/sync/runs/:id/assign'' ''manage'' ''ragflow-sync'' None,
     rule_at ''POST'' ''/system/ragflow/sync/reconcile'' ''manage'' ''ragflow-sync'' None,
     rule_at ''GET'' ''/system/ragflow/sync/resources'' ''read'' ''ragflow-sync'' None,
     rule_at ''GET'' ''/system/ragflow/sync/relink/tenant-options'' ''read'' ''ragflow-sync'' None,
     rule_at ''GET'' ''/system/ragflow/sync/relink/resource-options'' ''read'' ''ragflow-sync'' None,
     rule_at ''GET'' ''/system/ragflow/sync/resources/:type/:externalTenantId/:id/versions'' ''read'' ''ragflow-sync'' None,
     rule_at ''GET'' ''/system/ragflow/sync/artifacts/:id'' ''read'' ''ragflow-sync'' None,
     rule_at ''POST'' ''/system/ragflow/sync/resources/:type/:externalTenantId/:id/relink'' ''manage'' ''ragflow-sync'' None,
     rule_at ''POST'' ''/system/ragflow/sync/resources/:type/:externalTenantId/:id/conflicts/resolve'' ''manage'' ''ragflow-sync'' None,
     rule_at ''GET'' ''/system/settings'' ''read'' ''system'' None,
     rule_at ''PATCH'' ''/system/settings'' ''manage'' ''system'' None,
     rule_at ''GET'' ''/system/settings/revisions'' ''read'' ''system'' None,
     rule_at ''GET'' ''/system/settings/revisions/:id'' ''read'' ''system'' None]"

definition access_rules_03 :: "rule list" where
  "access_rules_03 =
    [rule_at ''POST'' ''/system/settings/revisions/:id/rollback'' ''manage'' ''system'' None,
     rule_at ''POST'' ''/system/settings/secrets/:key'' ''manage'' ''system'' None,
     rule_at ''POST'' ''/tenants'' ''manage'' ''tenant'' None,
     rule_at ''PUT'' ''/tenants/status'' ''manage'' ''tenant'' None,
     rule_at ''PUT'' ''/tenants/:id'' ''manage'' ''tenant'' None,
     rule_at ''DELETE'' ''/tenants/:id'' ''manage'' ''tenant'' None,
     rule_at ''GET'' ''/users'' ''read'' ''user'' None,
     rule_at ''POST'' ''/users'' ''manage'' ''user'' None,
     rule_at ''PUT'' ''/users/:id/role'' ''manage'' ''user'' None,
     rule_at ''PUT'' ''/users/:id/status'' ''manage'' ''user'' None,
     rule_at ''GET'' ''/users/:id/clearance'' ''read'' ''user-clearance'' None,
     rule_at ''PUT'' ''/users/:id/clearance'' ''manage'' ''user-clearance'' None,
     rule_at ''PUT'' ''/users/:id'' ''manage'' ''user'' None,
     rule_at ''DELETE'' ''/users/:id'' ''manage'' ''user'' None,
     rule_at ''GET'' ''/roles'' ''read'' ''role'' None,
     rule_at ''GET'' ''/roles/permission-catalog'' ''read'' ''role'' None,
     rule_at ''POST'' ''/roles'' ''manage'' ''role'' None,
     rule_at ''PUT'' ''/roles/:id'' ''manage'' ''role'' None,
     rule_at ''DELETE'' ''/roles/:id'' ''manage'' ''role'' None,
     rule_at ''GET'' ''/roles/:id/permissions'' ''read'' ''role'' None,
     rule_at ''PUT'' ''/roles/:id/permissions'' ''manage'' ''role'' None,
     rule_at ''GET'' ''/approvals'' ''read'' ''approval'' None]"

definition access_rules_04 :: "rule list" where
  "access_rules_04 =
    [rule_at ''POST'' ''/approvals'' ''execute'' ''approval'' None,
     rule_at ''GET'' ''/approvals/export'' ''read'' ''approval'' None,
     rule_at ''GET'' ''/approvals/:id'' ''read'' ''approval'' None,
     rule_at ''POST'' ''/approvals/:id/approve'' ''execute'' ''approval'' None,
     rule_at ''POST'' ''/approvals/:id/reject'' ''execute'' ''approval'' None,
     rule_at ''POST'' ''/approvals/:id/cancel'' ''execute'' ''approval'' None,
     rule_at ''POST'' ''/approvals/:id/retry'' ''manage'' ''approval'' None,
     rule_at ''POST'' ''/approvals/batch-approve'' ''manage'' ''approval'' None,
     rule_at ''POST'' ''/approvals/batch-reject'' ''manage'' ''approval'' None,
     rule_at ''GET'' ''/approval-delegations'' ''read'' ''approval'' None,
     rule_at ''POST'' ''/approval-delegations'' ''read'' ''approval'' None,
     rule_at ''DELETE'' ''/approval-delegations/:id'' ''read'' ''approval'' None,
     rule_at ''GET'' ''/approval-policies'' ''read'' ''approval-policy'' None,
     rule_at ''POST'' ''/approval-policies'' ''manage'' ''approval-policy'' None,
     rule_at ''PUT'' ''/approval-policies/:id'' ''manage'' ''approval-policy'' None,
     rule_at ''GET'' ''/chats'' ''read'' ''chat'' None,
     rule_at ''GET'' ''/chats/model-options'' ''read'' ''chat'' None,
     rule_at ''POST'' ''/chat/completions'' ''execute'' ''chat'' None,
     rule_at ''POST'' ''/chat/upload'' ''execute'' ''chat'' None,
     rule_at ''GET'' ''/chat/reference'' ''read'' ''chat'' None,
     rule_at ''GET'' ''/chat/document/chunks'' ''read'' ''chat'' None,
     rule_at ''GET'' ''/chat/document/preview'' ''read'' ''chat'' None]"

definition access_rules_05 :: "rule list" where
  "access_rules_05 =
    [rule_at ''GET'' ''/chat/image'' ''read'' ''chat'' None,
     rule_at ''POST'' ''/chat/feedback'' ''execute'' ''chat'' None,
     rule_at ''POST'' ''/chats'' ''manage'' ''chat'' None,
     rule_at ''GET'' ''/search-apps'' ''read'' ''search-app'' None,
     rule_at ''POST'' ''/search-apps'' ''manage'' ''search-app'' None,
     rule_at ''GET'' ''/search-apps/model-options'' ''read'' ''search-app'' None,
     rule_at ''GET'' ''/search-apps/:id'' ''read'' ''search-app'' None,
     rule_at ''GET'' ''/search-apps/:id/config'' ''read'' ''search-app'' None,
     rule_at ''PUT'' ''/search-apps/:id'' ''manage'' ''search-app'' None,
     rule_at ''DELETE'' ''/search-apps/:id'' ''manage'' ''search-app'' None,
     rule_at ''POST'' ''/search-apps/:id/completion'' ''execute'' ''search-app'' None,
     rule_at ''POST'' ''/search-apps/:id/completion/stream'' ''execute'' ''search-app'' None,
     rule_at ''GET'' ''/memories'' ''read'' ''memory'' None,
     rule_at ''GET'' ''/memories/model-options'' ''read'' ''memory'' None,
     rule_at ''POST'' ''/memories'' ''manage'' ''memory'' None,
     rule_at ''GET'' ''/memories/:id'' ''read'' ''memory'' None,
     rule_at ''GET'' ''/memories/:id/config'' ''read'' ''memory'' None,
     rule_at ''PUT'' ''/memories/:id'' ''manage'' ''memory'' None,
     rule_at ''DELETE'' ''/memories/:id'' ''manage'' ''memory'' None,
     rule_at ''GET'' ''/memories/:id/messages'' ''read'' ''memory-content'' None,
     rule_at ''POST'' ''/memories/:id/messages'' ''execute'' ''memory-write'' None,
     rule_at ''GET'' ''/memories/:id/messages/search'' ''execute'' ''memory-content'' None]"

definition access_rules_06 :: "rule list" where
  "access_rules_06 =
    [rule_at ''POST'' ''/memories/:id/governed-search'' ''execute'' ''memory-policy'' None,
     rule_at ''GET'' ''/memories/:id/messages/:messageId/content'' ''read'' ''memory-content'' None,
     rule_at ''PUT'' ''/memories/:id/messages/:messageId'' ''manage'' ''memory-content'' None,
     rule_at ''DELETE'' ''/memories/:id/messages/:messageId'' ''execute'' ''memory-forget'' None,
     rule_at ''POST'' ''/memories/:id/messages/:messageId/compliance-delete'' ''manage'' ''memory-forget'' None,
     rule_at ''GET'' ''/agents'' ''read'' ''agent'' None,
     rule_at ''POST'' ''/agents'' ''manage'' ''agent'' None,
     rule_at ''GET'' ''/agents/:id'' ''read'' ''agent'' None,
     rule_at ''GET'' ''/agents/:id/detail'' ''read'' ''agent'' None,
     rule_at ''PUT'' ''/agents/:id'' ''manage'' ''agent'' None,
     rule_at ''POST'' ''/agents/:id/publish'' ''manage'' ''agent'' None,
     rule_at ''DELETE'' ''/agents/:id'' ''manage'' ''agent'' None,
     rule_at ''GET'' ''/agents/:id/versions'' ''read'' ''agent'' None,
     rule_at ''GET'' ''/agents/:id/versions/:versionId'' ''read'' ''agent'' None,
     rule_at ''POST'' ''/agents/:id/versions/:versionId/rollback'' ''manage'' ''agent'' None,
     rule_at ''GET'' ''/agents/:id/sessions'' ''read'' ''agent'' None,
     rule_at ''POST'' ''/agents/:id/sessions'' ''session:create'' ''agent'' None,
     rule_at ''GET'' ''/agents/:id/sessions/:sessionId'' ''read'' ''agent'' None,
     rule_at ''GET'' ''/agents/:id/sessions/:sessionId/messages'' ''read'' ''agent'' None,
     rule_at ''DELETE'' ''/agents/:id/sessions/:sessionId'' ''manage'' ''agent'' None,
     rule_at ''POST'' ''/agents/:id/upload'' ''execute'' ''agent'' None,
     rule_at ''POST'' ''/agents/:id/chat/completions'' ''execute'' ''agent'' None]"

definition access_rules_07 :: "rule list" where
  "access_rules_07 =
    [rule_at ''POST'' ''/agents/:id/chat/completions/stream'' ''execute'' ''agent'' None,
     rule_at ''POST'' ''/chats/batch-status'' ''manage'' ''chat'' None,
     rule_at ''DELETE'' ''/chats'' ''manage'' ''chat'' None,
     rule_at ''GET'' ''/chats/:id'' ''read'' ''chat'' None,
     rule_at ''GET'' ''/chats/:id/usage'' ''read'' ''chat'' None,
     rule_at ''GET'' ''/chats/:id/config'' ''read'' ''chat'' None,
     rule_at ''PUT'' ''/chats/:id'' ''manage'' ''chat'' None,
     rule_at ''DELETE'' ''/chats/:id'' ''manage'' ''chat'' None,
     rule_at ''GET'' ''/chats/:id/sessions'' ''read'' ''chat'' None,
     rule_at ''POST'' ''/chats/:id/sessions'' ''manage'' ''chat'' None,
     rule_at ''GET'' ''/chats/:id/sessions/:sessionId'' ''read'' ''chat'' None,
     rule_at ''GET'' ''/chats/:id/sessions/:sessionId/messages'' ''read'' ''chat'' None,
     rule_at ''PATCH'' ''/chats/:id/sessions/:sessionId'' ''manage'' ''chat'' None,
     rule_at ''DELETE'' ''/chats/:id/sessions/:sessionId'' ''manage'' ''chat'' None,
     rule_at ''DELETE'' ''/chats/:id/sessions'' ''manage'' ''chat'' None,
     rule_at ''GET'' ''/teams'' ''read'' ''team'' None,
     rule_at ''GET'' ''/teams/:id'' ''read'' ''team'' None,
     rule_at ''POST'' ''/teams'' ''manage'' ''team'' None,
     rule_at ''PUT'' ''/teams/:id'' ''manage'' ''team'' None,
     rule_at ''DELETE'' ''/teams/:id'' ''manage'' ''team'' None,
     rule_at ''GET'' ''/teams/:id/users'' ''read'' ''team'' None,
     rule_at ''POST'' ''/teams/:id/users'' ''manage'' ''team'' None]"

definition access_rules_08 :: "rule list" where
  "access_rules_08 =
    [rule_at ''DELETE'' ''/teams/:id/users/:userId'' ''manage'' ''team'' None,
     rule_at ''GET'' ''/teams/:id/projects'' ''read'' ''team'' None,
     rule_at ''PUT'' ''/teams/:id/projects'' ''manage'' ''team'' None,
     rule_at ''GET'' ''/projects'' ''read'' ''project'' None,
     rule_at ''POST'' ''/projects'' ''manage'' ''project'' None,
     rule_at ''GET'' ''/projects/:id'' ''read'' ''project'' (Some ResolveProjectScope),
     rule_at ''PUT'' ''/projects/:id'' ''manage'' ''project'' None,
     rule_at ''DELETE'' ''/projects/:id'' ''manage'' ''project'' None,
     rule_at ''GET'' ''/projects/:id/users'' ''read'' ''project'' (Some ResolveProjectScope),
     rule_at ''POST'' ''/projects/:id/users'' ''manage'' ''project'' None,
     rule_at ''DELETE'' ''/projects/:id/users/:userId'' ''manage'' ''project'' None,
     rule_at ''GET'' ''/projects/:id/datasets'' ''read'' ''project'' (Some ResolveProjectScope),
     rule_at ''PUT'' ''/projects/:id/datasets'' ''manage'' ''project'' None,
     rule_at ''GET'' ''/projects/:id/teams'' ''read'' ''project'' (Some ResolveProjectScope),
     rule_at ''PUT'' ''/projects/:id/teams'' ''manage'' ''project'' None,
     rule_at ''GET'' ''/datasets'' ''read'' ''dataset'' None,
     rule_at ''GET'' ''/datasets/model-options'' ''read'' ''dataset'' None,
     rule_at ''POST'' ''/datasets'' ''manage'' ''dataset'' None,
     rule_at ''PUT'' ''/datasets/:id/project'' ''manage'' ''dataset'' None,
     rule_at ''GET'' ''/datasets/:id/config'' ''read'' ''dataset'' (Some ResolveDatasetScope),
     rule_at ''PUT'' ''/datasets/:id/config'' ''manage'' ''dataset'' (Some ResolveDatasetScope),
     rule_at ''DELETE'' ''/datasets'' ''manage'' ''dataset'' None]"

definition access_rules_09 :: "rule list" where
  "access_rules_09 =
    [rule_at ''GET'' ''/datasets/export'' ''read'' ''dataset-export'' None,
     rule_at ''GET'' ''/datasets/:id'' ''read'' ''dataset'' (Some ResolveDatasetScope),
     rule_at ''POST'' ''/datasets/:id/retrieval-test'' ''read'' ''dataset'' (Some ResolveDatasetScope),
     rule_at ''GET'' ''/datasets/:id/graph'' ''read'' ''dataset'' (Some ResolveDatasetScope),
     rule_at ''DELETE'' ''/datasets/:id'' ''manage'' ''dataset'' (Some ResolveDatasetScope),
     rule_at ''PUT'' ''/datasets/:id'' ''manage'' ''dataset'' (Some ResolveDatasetScope),
     rule_at ''GET'' ''/datasets/:id/documents'' ''read'' ''document'' None,
     rule_at ''POST'' ''/datasets/:id/documents'' ''append'' ''document'' None,
     rule_at ''GET'' ''/datasets/:id/incremental'' ''read'' ''document'' None,
     rule_at ''POST'' ''/datasets/:id/incremental/scan'' ''execute'' ''document'' None,
     rule_at ''POST'' ''/datasets/:id/parse'' ''execute'' ''document'' None,
     rule_at ''POST'' ''/datasets/:id/documents/stop'' ''execute'' ''document'' None,
     rule_at ''DELETE'' ''/datasets/:id/documents'' ''delete:own'' ''document'' None,
     rule_at ''POST'' ''/datasets/:id/documents/status'' ''execute'' ''document'' None,
     rule_at ''PUT'' ''/datasets/:id/documents/:docId/metadata'' ''execute'' ''document'' None,
     rule_at ''GET'' ''/datasets/:id/documents/:docId/governance'' ''read'' ''document-governance'' (Some ResolveDatasetScope),
     rule_at ''PUT'' ''/datasets/:id/documents/:docId/governance'' ''manage'' ''document-governance'' (Some ResolveDatasetScope),
     rule_at ''POST'' ''/datasets/:id/documents/:docId/governance/:decision'' ''manage'' ''document-governance'' (Some ResolveDatasetScope),
     rule_at ''DELETE'' ''/datasets/:id/documents/:docId/governance'' ''manage'' ''document-governance'' (Some ResolveDatasetScope),
     rule_at ''GET'' ''/documents/governance'' ''read'' ''document-governance'' None,
     rule_at ''GET'' ''/governance/dictionary'' ''read'' ''document-governance'' None,
     rule_at ''POST'' ''/governance/dictionary'' ''manage'' ''document-governance'' None]"

definition access_rules_10 :: "rule list" where
  "access_rules_10 =
    [rule_at ''POST'' ''/governance/dictionary/:id/:decision'' ''manage'' ''document-governance'' None,
     rule_at ''DELETE'' ''/governance/dictionary/:id'' ''manage'' ''document-governance'' None,
     rule_at ''GET'' ''/governance/schemas'' ''read'' ''document-governance'' None,
     rule_at ''GET'' ''/governance/schemas/:id'' ''read'' ''document-governance'' None,
     rule_at ''POST'' ''/governance/schemas'' ''manage'' ''document-governance'' None,
     rule_at ''PUT'' ''/governance/schemas/:id'' ''manage'' ''document-governance'' None,
     rule_at ''DELETE'' ''/governance/schemas/:id'' ''manage'' ''document-governance'' None,
     rule_at ''POST'' ''/datasets/:id/governance/auto-project'' ''execute'' ''document-governance'' (Some ResolveDatasetScope),
     rule_at ''GET'' ''/datasets/:id/documents/:docId/chunks'' ''read'' ''document'' None,
     rule_at ''GET'' ''/datasets/:id/documents/:docId/preview'' ''read'' ''document'' None,
     rule_at ''GET'' ''/datasets/:id/documents/:docId/parse-attempts'' ''read'' ''document'' None,
     rule_at ''GET'' ''/datasets/:id/documents/:docId/parse-quality-report'' ''read'' ''document'' None,
     rule_at ''GET'' ''/datasets/:id/documents/:docId/parse-quality-reports'' ''read'' ''document'' None,
     rule_at ''GET'' ''/datasets/:id/parse-quality-reports'' ''read'' ''document'' None,
     rule_at ''DELETE'' ''/datasets/:id/documents/:docId/chunks'' ''execute'' ''document'' None,
     rule_at ''PATCH'' ''/datasets/:id/documents/:docId/chunks'' ''execute'' ''document'' None,
     rule_at ''POST'' ''/datasets/:id/documents/:docId/chunks'' ''execute'' ''document'' None,
     rule_at ''PUT'' ''/datasets/:id/documents/:docId/chunks/:chunkId'' ''execute'' ''document'' None,
     rule_at ''GET'' ''/tasks/jobs'' ''read'' ''task'' None,
     rule_at ''GET'' ''/tasks'' ''read'' ''task'' None,
     rule_at ''DELETE'' ''/tasks'' ''manage'' ''task'' None,
     rule_at ''POST'' ''/tasks/sync'' ''execute'' ''task'' None]"

definition access_rules_11 :: "rule list" where
  "access_rules_11 =
    [rule_at ''GET'' ''/model-providers'' ''read'' ''model-provider'' None,
     rule_at ''POST'' ''/model-providers'' ''manage'' ''model-provider'' None,
     rule_at ''GET'' ''/model-providers/catalog'' ''read'' ''model-provider'' None,
     rule_at ''GET'' ''/model-providers/:id'' ''read'' ''model-provider'' None,
     rule_at ''DELETE'' ''/model-providers/:id'' ''manage'' ''model-provider'' None,
     rule_at ''GET'' ''/model-providers/:id/instances'' ''read'' ''model-provider'' None,
     rule_at ''POST'' ''/model-providers/:id/instances'' ''manage'' ''model-provider'' None,
     rule_at ''PUT'' ''/model-providers/:id/instances/:instanceId'' ''manage'' ''model-provider'' None,
     rule_at ''DELETE'' ''/model-providers/:id/instances'' ''manage'' ''model-provider'' None,
     rule_at ''POST'' ''/model-providers/:id/verify'' ''execute'' ''model-provider'' None,
     rule_at ''GET'' ''/model-providers/:id/instances/:instanceId/models'' ''read'' ''model-provider'' None,
     rule_at ''POST'' ''/model-providers/:id/instances/:instanceId/models'' ''manage'' ''model-provider'' None,
     rule_at ''PATCH'' ''/model-providers/:id/instances/:instanceId/models/:modelId'' ''manage'' ''model-provider'' None,
     rule_at ''DELETE'' ''/model-providers/:id/instances/:instanceId/models'' ''manage'' ''model-provider'' None,
     rule_at ''POST'' ''/model-providers/:id/instances/:instanceId/models/:modelId/test'' ''execute'' ''model-provider'' None,
     rule_at ''GET'' ''/enterprise-connections'' ''read'' ''enterprise-connection'' None,
     rule_at ''POST'' ''/enterprise-connections'' ''manage'' ''enterprise-connection'' None,
     rule_at ''GET'' ''/enterprise-connections/:id'' ''read'' ''enterprise-connection'' None,
     rule_at ''PUT'' ''/enterprise-connections/:id'' ''manage'' ''enterprise-connection'' None,
     rule_at ''GET'' ''/enterprise-connections/:id/versions'' ''read'' ''enterprise-connection'' None,
     rule_at ''POST'' ''/enterprise-connections/:id/rotate-credential'' ''manage'' ''enterprise-connection'' None,
     rule_at ''POST'' ''/enterprise-connections/:id/deprecate'' ''manage'' ''enterprise-connection'' None]"

definition access_rules_12 :: "rule list" where
  "access_rules_12 =
    [rule_at ''POST'' ''/enterprise-connections/:id/retire'' ''manage'' ''enterprise-connection'' None,
     rule_at ''POST'' ''/enterprise-connections/:id/test'' ''test'' ''enterprise-connection'' None,
     rule_at ''GET'' ''/enterprise-connections/:id/health'' ''read'' ''enterprise-connection'' None,
     rule_at ''GET'' ''/connectors'' ''read'' ''connector'' None,
     rule_at ''GET'' ''/connectors/providers/meta'' ''read'' ''connector'' None,
     rule_at ''POST'' ''/connectors'' ''manage'' ''connector'' None,
     rule_at ''POST'' ''/connectors/test'' ''manage'' ''connector'' None,
     rule_at ''GET'' ''/connectors/:id'' ''read'' ''connector'' None,
     rule_at ''PUT'' ''/connectors/:id'' ''manage'' ''connector'' None,
     rule_at ''DELETE'' ''/connectors/:id'' ''manage'' ''connector'' None,
     rule_at ''POST'' ''/connectors/:id/enable'' ''manage'' ''connector'' None,
     rule_at ''POST'' ''/connectors/:id/disable'' ''manage'' ''connector'' None,
     rule_at ''POST'' ''/connectors/:id/test'' ''manage'' ''connector'' None,
     rule_at ''POST'' ''/connectors/:id/sync'' ''manage'' ''connector'' None,
     rule_at ''PUT'' ''/connectors/:id/schedule'' ''manage'' ''connector'' None,
     rule_at ''GET'' ''/connectors/:id/runs'' ''read'' ''connector'' None,
     rule_at ''GET'' ''/connectors/:id/runs/:runID'' ''read'' ''connector'' None,
     rule_at ''POST'' ''/connectors/:id/preview'' ''manage'' ''connector'' None,
     rule_at ''GET'' ''/enterprise-connections/:id/availability'' ''read'' ''enterprise-connection'' None,
     rule_at ''GET'' ''/enterprise-connections/:id/bindings'' ''read'' ''enterprise-connection'' None,
     rule_at ''GET'' ''/enterprise-connections/:id/bindings/:bindingId'' ''read'' ''enterprise-connection'' None,
     rule_at ''POST'' ''/enterprise-connections/:id/bindings'' ''manage'' ''enterprise-connection'' None]"

definition access_rules_13 :: "rule list" where
  "access_rules_13 =
    [rule_at ''PUT'' ''/enterprise-connections/:id/bindings/:bindingId'' ''manage'' ''enterprise-connection'' None,
     rule_at ''POST'' ''/enterprise-connections/:id/bindings/:bindingId/revoke'' ''manage'' ''enterprise-connection'' None,
     rule_at ''GET'' ''/enterprise-connections/:id/bindings/:bindingId/versions'' ''read'' ''enterprise-connection'' None,
     rule_at ''GET'' ''/model-routes'' ''read'' ''model-route'' None,
     rule_at ''POST'' ''/model-routes'' ''manage'' ''model-route'' None,
     rule_at ''PUT'' ''/model-routes/:id'' ''manage'' ''model-route'' None,
     rule_at ''DELETE'' ''/model-routes/:id'' ''manage'' ''model-route'' None,
     rule_at ''POST'' ''/model-routes/:id/enterprise-pin'' ''manage'' ''model-route'' None,
     rule_at ''GET'' ''/model-routes/:id/enterprise-pins'' ''read'' ''model-route'' None,
     rule_at ''GET'' ''/keys'' ''read'' ''api-key'' None,
     rule_at ''POST'' ''/keys'' ''manage'' ''api-key'' None,
     rule_at ''POST'' ''/keys/:id/revoke'' ''manage'' ''api-key'' None,
     rule_at ''GET'' ''/usage'' ''read'' ''usage'' None,
     rule_at ''GET'' ''/usage/details'' ''read'' ''usage'' None,
     rule_at ''GET'' ''/usage/attribution'' ''read'' ''usage'' None,
     rule_at ''GET'' ''/audit'' ''read'' ''audit'' None,
     rule_at ''GET'' ''/usage/export'' ''read'' ''usage-export'' None,
     rule_at ''GET'' ''/audit/export'' ''read'' ''audit'' None,
     rule_at ''GET'' ''/audit/anchors'' ''read'' ''audit-anchor'' None,
     rule_at ''GET'' ''/audit/verify'' ''read'' ''audit'' None,
     rule_at ''POST'' ''/audit/repair'' ''manage'' ''audit'' None,
     rule_at ''GET'' ''/dashboard'' ''read'' ''dashboard'' None]"

definition access_rules_14 :: "rule list" where
  "access_rules_14 =
    [rule_at ''GET'' ''/knowledge-ops'' ''read'' ''knowledge-ops'' None,
     rule_at ''GET'' ''/knowledge-ops/top-queries'' ''read'' ''knowledge-ops'' None,
     rule_at ''GET'' ''/knowledge-ops/events'' ''read'' ''knowledge-ops'' None,
     rule_at ''PATCH'' ''/knowledge-ops/events/:id/review'' ''manage'' ''knowledge-ops'' None,
     rule_at ''POST'' ''/knowledge-ops/trace-runs'' ''manage'' ''knowledge-ops'' None,
     rule_at ''GET'' ''/knowledge-ops/trace-runs'' ''read'' ''knowledge-ops'' None,
     rule_at ''GET'' ''/knowledge-ops/trace-runs/:id'' ''read'' ''knowledge-ops'' None,
     rule_at ''GET'' ''/knowledge-ops/metrics-contract'' ''read'' ''knowledge-ops'' None,
     rule_at ''GET'' ''/knowledge-ops/compilation/recovery'' ''read'' ''knowledge-ops'' None,
     rule_at ''POST'' ''/knowledge-ops/compilation/runs/:runId/recovery-probe'' ''execute'' ''compilation'' None,
     rule_at ''POST'' ''/knowledge-ops/compilation/runs/:runId/recovery-approval'' ''execute'' ''compilation'' None,
     rule_at ''GET'' ''/knowledge-tasks'' ''read'' ''knowledge-ops'' None,
     rule_at ''POST'' ''/knowledge-tasks'' ''manage'' ''knowledge-ops'' None,
     rule_at ''GET'' ''/knowledge-tasks/summary'' ''read'' ''knowledge-ops'' None,
     rule_at ''GET'' ''/knowledge-tasks/:id'' ''read'' ''knowledge-ops'' None,
     rule_at ''PATCH'' ''/knowledge-tasks/:id'' ''manage'' ''knowledge-ops'' None,
     rule_at ''GET'' ''/answer-snapshots/:snapshotId'' ''read'' ''chat'' None,
     rule_at ''GET'' ''/answer-snapshots/by-request/:requestId'' ''read'' ''chat'' None,
     rule_at ''POST'' ''/answer-snapshots/:snapshotId/export'' ''read'' ''chat'' None,
     rule_at ''GET'' ''/answer-snapshots/export-jobs/:jobId'' ''read'' ''chat'' None,
     rule_at ''POST'' ''/answer-snapshots/export-jobs/:jobId/retry'' ''read'' ''chat'' None,
     rule_at ''GET'' ''/answer-snapshots/artifacts/:artifactId/download'' ''read'' ''chat'' None]"

definition access_rules_15 :: "rule list" where
  "access_rules_15 =
    [rule_at ''POST'' ''/knowledge-impact-reports'' ''manage'' ''knowledge-ops'' None,
     rule_at ''GET'' ''/knowledge-impact-reports'' ''read'' ''knowledge-ops'' None,
     rule_at ''POST'' ''/knowledge-duplicate-candidates'' ''manage'' ''knowledge-ops'' None,
     rule_at ''GET'' ''/knowledge-duplicate-candidates'' ''read'' ''knowledge-ops'' None,
     rule_at ''POST'' ''/knowledge-duplicate-candidates/:id/decision'' ''manage'' ''knowledge-ops'' None,
     rule_at ''GET'' ''/workbench/recent-sessions'' ''read'' ''assistant'' None,
     rule_at ''GET'' ''/scenario-template-assets'' ''read'' ''scenario-template'' None,
     rule_at ''GET'' ''/scenario-template-catalog'' ''read'' ''scenario-template'' None,
     rule_at ''GET'' ''/trial-runs'' ''read'' ''trial-run'' None,
     rule_at ''POST'' ''/trial-runs'' ''execute'' ''trial-run'' None,
     rule_at ''GET'' ''/trial-runs/:id'' ''read'' ''trial-run'' None,
     rule_at ''POST'' ''/trial-runs/:id/cancel'' ''execute'' ''trial-run'' None,
     rule_at ''GET'' ''/onboarding/readiness'' ''read'' ''scenario-template'' None,
     rule_at ''POST'' ''/scenario-template-assets'' ''manage'' ''scenario-template'' None,
     rule_at ''POST'' ''/scenario-template-assets/import'' ''manage'' ''scenario-template'' None,
     rule_at ''PUT'' ''/scenario-template-assets/:id'' ''manage'' ''scenario-template'' None,
     rule_at ''GET'' ''/scenario-template-assets/:id'' ''read'' ''scenario-template'' None,
     rule_at ''GET'' ''/scenario-template-assets/:id/export'' ''read'' ''scenario-template'' None,
     rule_at ''POST'' ''/scenario-template-assets/:id/copy'' ''manage'' ''scenario-template'' None,
     rule_at ''DELETE'' ''/scenario-template-assets/:id'' ''manage'' ''scenario-template'' None,
     rule_at ''POST'' ''/scenario-template-assets/:id/eval-set'' ''manage'' ''eval-set'' None,
     rule_at ''POST'' ''/scenario-template-assets/:id/release-candidate'' ''manage'' ''release-governance'' None]"

definition access_rules_16 :: "rule list" where
  "access_rules_16 =
    [rule_at ''POST'' ''/scenario-template-assets/:id/instantiate-chat'' ''manage'' ''chat'' None,
     rule_at ''GET'' ''/prompt-policies'' ''read'' ''prompt-policy'' None,
     rule_at ''POST'' ''/prompt-policies'' ''manage'' ''prompt-policy'' None,
     rule_at ''GET'' ''/prompt-policies/:id'' ''read'' ''prompt-policy'' None,
     rule_at ''POST'' ''/prompt-policies/:id/rollback'' ''manage'' ''prompt-policy'' None,
     rule_at ''DELETE'' ''/prompt-policies/:id'' ''manage'' ''prompt-policy'' None,
     rule_at ''GET'' ''/knowledge-lifecycle'' ''read'' ''knowledge-lifecycle'' None,
     rule_at ''GET'' ''/knowledge-lifecycle/asset-map'' ''read'' ''knowledge-lifecycle'' None,
     rule_at ''GET'' ''/knowledge-lifecycle/health'' ''read'' ''knowledge-lifecycle'' None,
     rule_at ''PUT'' ''/datasets/:id/lifecycle'' ''manage'' ''knowledge-lifecycle'' None,
     rule_at ''GET'' ''/eval-sets'' ''read'' ''eval-set'' None,
     rule_at ''POST'' ''/eval-sets'' ''manage'' ''eval-set'' None,
     rule_at ''POST'' ''/eval-sets/generate-from-templates'' ''manage'' ''eval-set'' None,
     rule_at ''GET'' ''/eval-sets/:id'' ''read'' ''eval-set'' None,
     rule_at ''PUT'' ''/eval-sets/:id'' ''manage'' ''eval-set'' None,
     rule_at ''DELETE'' ''/eval-sets/:id'' ''manage'' ''eval-set'' None,
     rule_at ''POST'' ''/knowledge-ops/events/:id/to-eval-case'' ''manage'' ''eval-set'' None,
     rule_at ''GET'' ''/governance/overview'' ''read'' ''knowledge-ops'' None,
     rule_at ''GET'' ''/release-candidates'' ''read'' ''release-governance'' None,
     rule_at ''GET'' ''/execution-snapshots'' ''read'' ''release-governance'' None,
     rule_at ''POST'' ''/release-candidates'' ''manage'' ''release-governance'' None,
     rule_at ''POST'' ''/release-candidates/:id/ready'' ''manage'' ''release-governance'' None]"

definition access_rules_17 :: "rule list" where
  "access_rules_17 =
    [rule_at ''POST'' ''/execution-snapshots'' ''manage'' ''release-governance'' None,
     rule_at ''POST'' ''/evaluation-set-versions'' ''execute'' ''release-governance'' None,
     rule_at ''POST'' ''/evaluation-case-versions'' ''execute'' ''release-governance'' None,
     rule_at ''POST'' ''/evaluation-runs'' ''execute'' ''release-governance'' None,
     rule_at ''POST'' ''/evaluation-runs/:id/case-results'' ''execute'' ''release-governance'' None,
     rule_at ''POST'' ''/evaluation-runs/:id/complete'' ''execute'' ''release-governance'' None,
     rule_at ''POST'' ''/evaluation-runs/:id/execute'' ''execute'' ''release-governance'' None,
     rule_at ''GET'' ''/evaluation-runs'' ''read'' ''release-governance'' None,
     rule_at ''POST'' ''/evaluation-protocol-registrations'' ''execute'' ''release-governance'' None,
     rule_at ''GET'' ''/evaluation-protocol-registrations'' ''read'' ''release-governance'' None,
     rule_at ''POST'' ''/evaluation-protocol-registrations/:id/revoke'' ''manage'' ''release-governance'' None,
     rule_at ''POST'' ''/evidence-bundles'' ''execute'' ''release-governance'' None,
     rule_at ''GET'' ''/evidence-bundles'' ''read'' ''release-governance'' None,
     rule_at ''POST'' ''/release-gates'' ''manage'' ''release-governance'' None,
     rule_at ''GET'' ''/release-gates'' ''read'' ''release-governance'' None,
     rule_at ''GET'' ''/release-gates/evidence'' ''read'' ''release-governance'' None,
     rule_at ''POST'' ''/releases'' ''manage'' ''release-governance'' None,
     rule_at ''POST'' ''/releases/:id/complete'' ''manage'' ''release-governance'' None,
     rule_at ''POST'' ''/releases/:id/rollback'' ''manage'' ''release-governance'' None,
     rule_at ''GET'' ''/releases'' ''read'' ''release-governance'' None,
     rule_at ''GET'' ''/quality-issues'' ''read'' ''release-governance'' None,
     rule_at ''POST'' ''/quality-issues'' ''manage'' ''release-governance'' None]"

definition access_rules_18 :: "rule list" where
  "access_rules_18 =
    [rule_at ''POST'' ''/quality-issues/:id/state'' ''manage'' ''release-governance'' None,
     rule_at ''POST'' ''/quality-issues/:id/verify'' ''manage'' ''release-governance'' None,
     rule_at ''GET'' ''/assistants'' ''read'' ''release-governance'' None,
     rule_at ''POST'' ''/template-instances'' ''manage'' ''release-governance'' None,
     rule_at ''GET'' ''/template-instances'' ''read'' ''release-governance'' None,
     rule_at ''GET'' ''/template-instances/:id'' ''read'' ''release-governance'' None,
     rule_at ''POST'' ''/template-instances/:id/dry-run'' ''manage'' ''release-governance'' None,
     rule_at ''POST'' ''/template-instances/:id/evaluate'' ''manage'' ''release-governance'' None,
     rule_at ''POST'' ''/template-instances/:id/release'' ''manage'' ''release-governance'' None,
     rule_at ''POST'' ''/template-instances/:id/releases/:releaseId/activate'' ''manage'' ''release-governance'' None,
     rule_at ''POST'' ''/template-instances/:id/rollback'' ''manage'' ''release-governance'' None,
     rule_at ''GET'' ''/template-instances/:id/health'' ''read'' ''release-governance'' None,
     rule_at ''GET'' ''/template-instances/:id/releases'' ''read'' ''release-governance'' None,
     rule_at ''POST'' ''/template-instances/:id/releases/:releaseId/reconcile'' ''manage'' ''release-governance'' None,
     rule_at ''GET'' ''/assistants/:id/rollout-policies'' ''read'' ''release-governance'' None,
     rule_at ''POST'' ''/assistants/:id/rollout-policies'' ''manage'' ''release-governance'' None,
     rule_at ''PUT'' ''/assistants/:id/rollout-policies/:policyId'' ''manage'' ''release-governance'' None,
     rule_at ''GET'' ''/answer-snapshots/:snapshotId/audit-export'' ''read'' ''audit-export'' None,
     rule_at ''POST'' ''/assistant-releases'' ''manage'' ''release-governance'' None,
     rule_at ''GET'' ''/assistant-releases'' ''read'' ''release-governance'' None,
     rule_at ''GET'' ''/assistant-releases/:id'' ''read'' ''release-governance'' None,
     rule_at ''GET'' ''/assistant-releases/:id/manifest'' ''read'' ''release-governance'' None]"

definition access_rules_19 :: "rule list" where
  "access_rules_19 =
    [rule_at ''GET'' ''/assistant-releases/:id/gate'' ''read'' ''release-governance'' None,
     rule_at ''POST'' ''/assistant-releases/:id/transition'' ''manage'' ''release-governance'' None,
     rule_at ''POST'' ''/assistant-releases/:id/apply'' ''manage'' ''release-governance'' None,
     rule_at ''POST'' ''/assistant-releases/:id/activate'' ''manage'' ''release-governance'' None,
     rule_at ''POST'' ''/assistant-releases/:id/promote-canary'' ''manage'' ''release-governance'' None,
     rule_at ''POST'' ''/assistant-releases/:id/rollback/:targetId'' ''manage'' ''release-governance'' None,
     rule_at ''POST'' ''/assistant-releases/:id/reconcile'' ''manage'' ''release-governance'' None,
     rule_at ''GET'' ''/assistant-releases/:id/operations'' ''read'' ''release-governance'' None,
     rule_at ''POST'' ''/assistant-releases/:id/operations/:operationId/recover'' ''manage'' ''release-governance'' None,
     rule_at ''POST'' ''/assistant-releases/:id/compensate'' ''manage'' ''release-governance'' None,
     rule_at ''GET'' ''/assistant-releases/:id/health'' ''read'' ''release-governance'' None,
     rule_at ''PUT'' ''/assistant-releases/:id/health'' ''manage'' ''release-governance'' None,
     rule_at ''GET'' ''/assistant-releases/:id/authorization-snapshots'' ''read'' ''release-governance'' None,
     rule_at ''POST'' ''/assistant-releases/:id/authorization-snapshots'' ''manage'' ''release-governance'' None,
     rule_at ''GET'' ''/system/health'' ''read'' ''system-health'' None,
     rule_at ''GET'' ''/alerts'' ''read'' ''alert'' None,
     rule_at ''GET'' ''/alerts/deliveries'' ''read'' ''alert'' None,
     rule_at ''POST'' ''/alerts/:id/deliveries/:channel/retry'' ''manage'' ''alert'' None,
     rule_at ''POST'' ''/alerts/:id/read'' ''manage'' ''alert'' None,
     rule_at ''POST'' ''/alerts/:id/claim'' ''manage'' ''alert'' None,
     rule_at ''GET'' ''/system/capabilities'' ''read'' ''system'' None,
     rule_at ''POST'' ''/system/capabilities/verify'' ''manage'' ''system'' None]"

definition access_rules_20 :: "rule list" where
  "access_rules_20 =
    [rule_at ''GET'' ''/parser-policies'' ''read'' ''parser-policy'' None,
     rule_at ''POST'' ''/parser-policies'' ''manage'' ''parser-policy'' None,
     rule_at ''GET'' ''/parser-policies/:id'' ''read'' ''parser-policy'' (Some ResolveParserPolicyScope),
     rule_at ''PUT'' ''/parser-policies/:id'' ''manage'' ''parser-policy'' (Some ResolveParserPolicyScope),
     rule_at ''PATCH'' ''/parser-policies/:id'' ''manage'' ''parser-policy'' (Some ResolveParserPolicyScope),
     rule_at ''DELETE'' ''/parser-policies/:id'' ''manage'' ''parser-policy'' (Some ResolveParserPolicyScope),
     rule_at ''GET'' ''/quality-profiles'' ''read'' ''quality-profile'' None,
     rule_at ''POST'' ''/quality-profiles'' ''manage'' ''quality-profile'' None,
     rule_at ''GET'' ''/quality-profiles/:id'' ''read'' ''quality-profile'' (Some ResolveQualityProfileScope),
     rule_at ''PUT'' ''/quality-profiles/:id'' ''manage'' ''quality-profile'' (Some ResolveQualityProfileScope),
     rule_at ''PATCH'' ''/quality-profiles/:id'' ''manage'' ''quality-profile'' (Some ResolveQualityProfileScope),
     rule_at ''DELETE'' ''/quality-profiles/:id'' ''manage'' ''quality-profile'' (Some ResolveQualityProfileScope),
     rule_at ''GET'' ''/logical-documents'' ''read'' ''logical-document'' None,
     rule_at ''POST'' ''/logical-documents'' ''manage'' ''logical-document'' None,
     rule_at ''GET'' ''/logical-documents/:id'' ''read'' ''logical-document'' (Some ResolveLogicalDocumentScope),
     rule_at ''PUT'' ''/logical-documents/:id'' ''manage'' ''logical-document'' (Some ResolveLogicalDocumentScope),
     rule_at ''PATCH'' ''/logical-documents/:id'' ''manage'' ''logical-document'' (Some ResolveLogicalDocumentScope),
     rule_at ''DELETE'' ''/logical-documents/:id'' ''manage'' ''logical-document'' (Some ResolveLogicalDocumentScope),
     rule_at ''GET'' ''/logical-documents/:id/versions'' ''read'' ''logical-document'' (Some ResolveLogicalDocumentScope),
     rule_at ''POST'' ''/logical-documents/:id/supersede'' ''execute'' ''logical-document'' (Some ResolveLogicalDocumentScope),
     rule_at ''POST'' ''/logical-documents/:id/restore'' ''execute'' ''logical-document'' (Some ResolveLogicalDocumentScope),
     rule_at ''GET'' ''/logical-documents/:id/publish-attempts'' ''read'' ''logical-document'' (Some ResolveLogicalDocumentScope)]"

definition access_rules_21 :: "rule list" where
  "access_rules_21 =
    [rule_at ''GET'' ''/tool-registry'' ''read'' ''tool-registry'' None,
     rule_at ''POST'' ''/tool-registry'' ''manage'' ''tool-registry'' None,
     rule_at ''GET'' ''/tool-registry/:id'' ''read'' ''tool-registry'' (Some ResolveToolRegistryScope),
     rule_at ''PUT'' ''/tool-registry/:id'' ''manage'' ''tool-registry'' (Some ResolveToolRegistryScope),
     rule_at ''PATCH'' ''/tool-registry/:id'' ''manage'' ''tool-registry'' (Some ResolveToolRegistryScope),
     rule_at ''DELETE'' ''/tool-registry/:id'' ''manage'' ''tool-registry'' (Some ResolveToolRegistryScope),
     rule_at ''POST'' ''/tool-registry/:id/execute'' ''execute'' ''tool-registry'' (Some ResolveToolRegistryScope),
     rule_at ''POST'' ''/tool-routing/routed-sql-answer'' ''execute'' ''tool-registry'' None,
     rule_at ''POST'' ''/tool-routing/routed-sql-answers'' ''execute'' ''tool-registry'' None,
     rule_at ''POST'' ''/tool-routing/routed-mixed-tool-answers'' ''execute'' ''tool-registry'' None,
     rule_at ''POST'' ''/tool-routing/planned-mixed-tool-answers'' ''execute'' ''tool-registry'' None,
     rule_at ''POST'' ''/tool-routing/answer-runs'' ''execute'' ''tool-registry'' None,
     rule_at ''POST'' ''/tool-routing/answer-runs/:answerRunId/evidence-facts'' ''execute'' ''tool-registry'' None,
     rule_at ''GET'' ''/tool-routing/answer-runs/:answerRunId/evidence-facts'' ''read'' ''tool-registry'' None,
     rule_at ''GET'' ''/tool-routing/answer-runs/:answerRunId/fact-guard'' ''read'' ''tool-registry'' None,
     rule_at ''GET'' ''/source-routing-rules'' ''read'' ''source-routing-rule'' None,
     rule_at ''POST'' ''/source-routing-rules'' ''manage'' ''source-routing-rule'' None,
     rule_at ''GET'' ''/source-routing-rules/:id'' ''read'' ''source-routing-rule'' (Some ResolveSourceRoutingRuleScope),
     rule_at ''PUT'' ''/source-routing-rules/:id'' ''manage'' ''source-routing-rule'' (Some ResolveSourceRoutingRuleScope),
     rule_at ''PATCH'' ''/source-routing-rules/:id'' ''manage'' ''source-routing-rule'' (Some ResolveSourceRoutingRuleScope),
     rule_at ''DELETE'' ''/source-routing-rules/:id'' ''manage'' ''source-routing-rule'' (Some ResolveSourceRoutingRuleScope),
     rule_at ''GET'' ''/query-templates'' ''read'' ''query-template'' None]"

definition access_rules_22 :: "rule list" where
  "access_rules_22 =
    [rule_at ''POST'' ''/query-templates'' ''manage'' ''query-template'' None,
     rule_at ''GET'' ''/query-templates/:id'' ''read'' ''query-template'' (Some ResolveQueryTemplateScope),
     rule_at ''PUT'' ''/query-templates/:id'' ''manage'' ''query-template'' (Some ResolveQueryTemplateScope),
     rule_at ''PATCH'' ''/query-templates/:id'' ''manage'' ''query-template'' (Some ResolveQueryTemplateScope),
     rule_at ''DELETE'' ''/query-templates/:id'' ''manage'' ''query-template'' (Some ResolveQueryTemplateScope),
     rule_at ''GET'' ''/db-connections'' ''read'' ''db-connection'' None,
     rule_at ''POST'' ''/db-connections'' ''manage'' ''db-connection'' None,
     rule_at ''GET'' ''/db-connections/:id'' ''read'' ''db-connection'' (Some ResolveDBConnectionScope),
     rule_at ''PUT'' ''/db-connections/:id'' ''manage'' ''db-connection'' (Some ResolveDBConnectionScope),
     rule_at ''PATCH'' ''/db-connections/:id'' ''manage'' ''db-connection'' (Some ResolveDBConnectionScope),
     rule_at ''DELETE'' ''/db-connections/:id'' ''manage'' ''db-connection'' (Some ResolveDBConnectionScope),
     rule_at ''POST'' ''/db-connections/:id/test'' ''test'' ''db-connection'' (Some ResolveDBConnectionScope),
     rule_at ''GET'' ''/knowledge-strategies'' ''read'' ''knowledge-strategy'' None,
     rule_at ''POST'' ''/knowledge-strategies'' ''manage'' ''knowledge-strategy'' None,
     rule_at ''GET'' ''/knowledge-strategies/:id'' ''read'' ''knowledge-strategy'' (Some ResolveKnowledgeStrategyScope),
     rule_at ''PUT'' ''/knowledge-strategies/:id'' ''manage'' ''knowledge-strategy'' (Some ResolveKnowledgeStrategyScope),
     rule_at ''PATCH'' ''/knowledge-strategies/:id'' ''manage'' ''knowledge-strategy'' (Some ResolveKnowledgeStrategyScope),
     rule_at ''DELETE'' ''/knowledge-strategies/:id'' ''manage'' ''knowledge-strategy'' (Some ResolveKnowledgeStrategyScope),
     rule_at ''POST'' ''/knowledge-strategies/:id/probe'' ''execute'' ''knowledge-strategy'' (Some ResolveKnowledgeStrategyScope),
     rule_at ''POST'' ''/knowledge-strategies/:id/retrieve'' ''execute'' ''knowledge-strategy'' (Some ResolveKnowledgeStrategyScope),
     rule_at ''GET'' ''/knowledge-strategies/:id/quality-gate'' ''read'' ''knowledge-strategy'' (Some ResolveKnowledgeStrategyScope),
     rule_at ''GET'' ''/knowledge-profiles'' ''read'' ''knowledge-profile'' None]"

definition access_rules_23 :: "rule list" where
  "access_rules_23 =
    [rule_at ''POST'' ''/knowledge-profiles'' ''manage'' ''knowledge-profile'' None,
     rule_at ''GET'' ''/knowledge-profiles/:profileId'' ''read'' ''knowledge-profile'' None,
     rule_at ''PUT'' ''/knowledge-profiles/:profileId'' ''manage'' ''knowledge-profile'' None,
     rule_at ''DELETE'' ''/knowledge-profiles/:profileId'' ''manage'' ''knowledge-profile'' None,
     rule_at ''POST'' ''/datasets/:id/compilation/runs'' ''manage'' ''compilation'' None,
     rule_at ''POST'' ''/datasets/:id/compilation/runs/:runId/cancel'' ''manage'' ''compilation'' None,
     rule_at ''GET'' ''/datasets/:id/compilation/runs'' ''read'' ''compilation'' None,
     rule_at ''POST'' ''/datasets/:id/compilation/reconcile'' ''execute'' ''compilation'' None,
     rule_at ''GET'' ''/datasets/:id/artifacts'' ''read'' ''compilation'' None,
     rule_at ''GET'' ''/memory-policies'' ''read'' ''memory-policy'' None,
     rule_at ''POST'' ''/memory-policies'' ''manage'' ''memory-policy'' None,
     rule_at ''GET'' ''/memory-policies/:policyId'' ''read'' ''memory-policy'' None,
     rule_at ''GET'' ''/memory-policies/:policyId/quality-gate'' ''read'' ''memory-policy'' None,
     rule_at ''GET'' ''/memory-policies/:policyId/consents'' ''read'' ''memory-policy'' None,
     rule_at ''PUT'' ''/memory-policies/:policyId'' ''manage'' ''memory-policy'' None,
     rule_at ''DELETE'' ''/memory-policies/:policyId'' ''manage'' ''memory-policy'' None,
     rule_at ''POST'' ''/memory-policies/:policyId/opt-in'' ''execute'' ''memory-policy'' None,
     rule_at ''POST'' ''/memory-policies/:policyId/opt-out'' ''execute'' ''memory-policy'' None,
     rule_at ''GET'' ''/memory-privacy/self-policy-template'' ''read'' ''memory-policy'' None,
     rule_at ''PUT'' ''/memory-privacy/self-policy-template'' ''manage'' ''memory-policy'' None,
     rule_at ''GET'' ''/memory-privacy/pii-exemptions'' ''read'' ''memory-policy'' None,
     rule_at ''PUT'' ''/memory-privacy/pii-exemptions'' ''manage'' ''memory-policy'' None]"

definition access_rules_24 :: "rule list" where
  "access_rules_24 =
    [rule_at ''DELETE'' ''/memory-privacy/pii-exemptions/:exemptionId'' ''manage'' ''memory-policy'' None,
     rule_at ''POST'' ''/memory-privacy/pii-preview'' ''manage'' ''memory-policy'' None,
     rule_at ''GET'' ''/self/memory-policies'' ''read'' ''memory-policy'' None,
     rule_at ''POST'' ''/self/memory-policies'' ''execute'' ''memory-policy'' None,
     rule_at ''GET'' ''/memory-operations'' ''read'' ''memory-operation'' None,
     rule_at ''GET'' ''/memory-operations/:operationId'' ''read'' ''memory-operation'' None,
     rule_at ''POST'' ''/memory-operations/:operationId/tombstone'' ''execute'' ''memory-forget'' (Some ResolveMemoryOperationScope),
     rule_at ''POST'' ''/conversation-context/preview'' ''read'' ''context-decision'' None,
     rule_at ''GET'' ''/conversation-context/decisions/:decisionId'' ''read'' ''context-decision'' None,
     rule_at ''GET'' ''/conversation-context/decisions/by-request/:requestId'' ''read'' ''context-decision'' None,
     rule_at ''GET'' ''/conversation-context/decisions'' ''read'' ''context-decision'' None,
     rule_at ''GET'' ''/evidence-snapshots'' ''read'' ''evidence-snapshot'' None,
     rule_at ''GET'' ''/evidence-snapshots/:id'' ''read'' ''evidence-snapshot'' (Some ResolveEvidenceSnapshotScope),
     rule_at ''GET'' ''/outbox-events'' ''read'' ''outbox-event'' None,
     rule_at ''GET'' ''/outbox-events/:id'' ''read'' ''outbox-event'' (Some ResolveOutboxEventScope),
     rule_at ''POST'' ''/outbox-events/:id/retry'' ''execute'' ''outbox-event'' (Some ResolveOutboxEventScope),
     rule_at ''GET'' ''/eval-cases/:id/evidence'' ''read'' ''eval-set'' (Some ResolveEvalCaseScope),
     rule_at ''PUT'' ''/eval-cases/:id/evidence'' ''manage'' ''eval-set'' (Some ResolveEvalCaseScope),
     rule_at ''POST'' ''/eval-cases/:id/revalidate'' ''execute'' ''eval-set'' (Some ResolveEvalCaseScope)]"

definition access_table :: "rule list" where
  "access_table =
     (access_rules_01 @ access_rules_02 @ access_rules_03 @ access_rules_04 @
      access_rules_05 @ access_rules_06 @ access_rules_07 @ access_rules_08 @
      access_rules_09 @ access_rules_10 @ access_rules_11 @ access_rules_12 @
      access_rules_13 @ access_rules_14 @ access_rules_15 @ access_rules_16 @
      access_rules_17 @ access_rules_18 @ access_rules_19 @ access_rules_20 @
      access_rules_21 @ access_rules_22 @ access_rules_23 @ access_rules_24)"

definition accessRules :: "rule list" where
  "accessRules = withRouteContracts access_table"

lemmas access_rule_defs = access_rules_01_def access_rules_02_def access_rules_03_def access_rules_04_def
  access_rules_05_def access_rules_06_def access_rules_07_def access_rules_08_def
  access_rules_09_def access_rules_10_def access_rules_11_def access_rules_12_def
  access_rules_13_def access_rules_14_def access_rules_15_def access_rules_16_def
  access_rules_17_def access_rules_18_def access_rules_19_def access_rules_20_def
  access_rules_21_def access_rules_22_def access_rules_23_def access_rules_24_def

section \<open>The routes of the authenticated group\<close>

definition routes_router_1 :: "(string \<times> string) list" where
  "routes_router_1 =
    [(''GET'', ''/conversation/assistants''),
     (''PUT'', ''/conversation/assistants/:kind/:targetId''),
     (''PUT'', ''/conversation/assistants/:kind/:targetId/governance''),
     (''POST'', ''/conversation/route''),
     (''POST'', ''/conversation/route/:routeId/select''),
     (''POST'', ''/conversation/route-selections/:routeSelectionId/bootstrap''),
     (''POST'', ''/conversation/routing/evaluations''),
     (''GET'', ''/conversation/routing/evaluations''),
     (''GET'', ''/conversation/routing/evaluations/:runId''),
     (''GET'', ''/conversation/routing/policy''),
     (''PUT'', ''/conversation/routing/policy''),
     (''GET'', ''/auth/me''),
     (''GET'', ''/branding''),
     (''PUT'', ''/branding''),
     (''POST'', ''/branding/logo''),
     (''GET'', ''/tenants''),
     (''GET'', ''/tenants/export''),
     (''POST'', ''/tenants''),
     (''PUT'', ''/tenants/status''),
     (''PUT'', ''/tenants/:id''),
     (''DELETE'', ''/tenants/:id''),
     (''GET'', ''/teams''),
     (''GET'', ''/teams/:id''),
     (''POST'', ''/teams''),
     (''PUT'', ''/teams/:id'')]"

definition routes_router_2 :: "(string \<times> string) list" where
  "routes_router_2 =
    [(''DELETE'', ''/teams/:id''),
     (''GET'', ''/teams/:id/users''),
     (''POST'', ''/teams/:id/users''),
     (''DELETE'', ''/teams/:id/users/:userId''),
     (''GET'', ''/projects''),
     (''GET'', ''/teams/:id/projects''),
     (''PUT'', ''/teams/:id/projects''),
     (''POST'', ''/projects''),
     (''GET'', ''/projects/:id''),
     (''PUT'', ''/projects/:id''),
     (''DELETE'', ''/projects/:id''),
     (''GET'', ''/projects/:id/users''),
     (''POST'', ''/projects/:id/users''),
     (''DELETE'', ''/projects/:id/users/:userId''),
     (''GET'', ''/projects/:id/datasets''),
     (''PUT'', ''/projects/:id/datasets''),
     (''GET'', ''/projects/:id/teams''),
     (''PUT'', ''/projects/:id/teams''),
     (''GET'', ''/datasets''),
     (''GET'', ''/datasets/model-options''),
     (''GET'', ''/datasets/:id''),
     (''POST'', ''/datasets/:id/retrieval-test''),
     (''GET'', ''/datasets/:id/graph''),
     (''DELETE'', ''/datasets/:id''),
     (''PUT'', ''/datasets/:id'')]"

definition routes_router_3 :: "(string \<times> string) list" where
  "routes_router_3 =
    [(''GET'', ''/datasets/export''),
     (''DELETE'', ''/datasets''),
     (''PUT'', ''/datasets/:id/project''),
     (''GET'', ''/datasets/:id/config''),
     (''PUT'', ''/datasets/:id/config''),
     (''POST'', ''/datasets''),
     (''GET'', ''/datasets/:id/documents''),
     (''POST'', ''/datasets/:id/documents''),
     (''GET'', ''/datasets/:id/incremental''),
     (''POST'', ''/datasets/:id/incremental/scan''),
     (''POST'', ''/datasets/:id/parse''),
     (''POST'', ''/datasets/:id/documents/stop''),
     (''DELETE'', ''/datasets/:id/documents''),
     (''POST'', ''/datasets/:id/documents/status''),
     (''PUT'', ''/datasets/:id/documents/:docId/metadata''),
     (''GET'', ''/datasets/:id/documents/:docId/governance''),
     (''PUT'', ''/datasets/:id/documents/:docId/governance''),
     (''POST'', ''/datasets/:id/documents/:docId/governance/:decision''),
     (''DELETE'', ''/datasets/:id/documents/:docId/governance''),
     (''GET'', ''/documents/governance''),
     (''GET'', ''/users/:id/clearance''),
     (''PUT'', ''/users/:id/clearance''),
     (''GET'', ''/governance/dictionary''),
     (''POST'', ''/governance/dictionary''),
     (''POST'', ''/governance/dictionary/:id/:decision'')]"

definition routes_router_4 :: "(string \<times> string) list" where
  "routes_router_4 =
    [(''DELETE'', ''/governance/dictionary/:id''),
     (''GET'', ''/governance/schemas''),
     (''GET'', ''/governance/schemas/:id''),
     (''POST'', ''/governance/schemas''),
     (''PUT'', ''/governance/schemas/:id''),
     (''DELETE'', ''/governance/schemas/:id''),
     (''POST'', ''/datasets/:id/governance/auto-project''),
     (''GET'', ''/datasets/:id/documents/:docId/chunks''),
     (''POST'', ''/datasets/:id/documents/:docId/chunks''),
     (''PUT'', ''/datasets/:id/documents/:docId/chunks/:chunkId''),
     (''GET'', ''/datasets/:id/documents/:docId/preview''),
     (''DELETE'', ''/datasets/:id/documents/:docId/chunks''),
     (''PATCH'', ''/datasets/:id/documents/:docId/chunks''),
     (''GET'', ''/dashboard''),
     (''GET'', ''/knowledge-ops''),
     (''GET'', ''/knowledge-ops/top-queries''),
     (''GET'', ''/knowledge-ops/events''),
     (''PATCH'', ''/knowledge-ops/events/:id/review''),
     (''POST'', ''/knowledge-ops/trace-runs''),
     (''GET'', ''/knowledge-ops/trace-runs''),
     (''GET'', ''/knowledge-ops/trace-runs/:id''),
     (''GET'', ''/knowledge-ops/metrics-contract''),
     (''GET'', ''/knowledge-ops/compilation/recovery''),
     (''POST'', ''/knowledge-ops/compilation/runs/:runId/recovery-probe''),
     (''POST'', ''/knowledge-ops/compilation/runs/:runId/recovery-approval'')]"

definition routes_router_5 :: "(string \<times> string) list" where
  "routes_router_5 =
    [(''GET'', ''/knowledge-tasks''),
     (''POST'', ''/knowledge-tasks''),
     (''GET'', ''/knowledge-tasks/summary''),
     (''GET'', ''/knowledge-tasks/:id''),
     (''PATCH'', ''/knowledge-tasks/:id''),
     (''GET'', ''/workbench/recent-sessions''),
     (''GET'', ''/tasks/jobs''),
     (''GET'', ''/tasks''),
     (''DELETE'', ''/tasks''),
     (''POST'', ''/tasks/sync''),
     (''GET'', ''/usage''),
     (''GET'', ''/usage/details''),
     (''GET'', ''/usage/attribution''),
     (''GET'', ''/usage/export''),
     (''GET'', ''/audit''),
     (''GET'', ''/audit/export''),
     (''GET'', ''/audit/anchors''),
     (''GET'', ''/audit/verify''),
     (''POST'', ''/audit/repair''),
     (''GET'', ''/system/health''),
     (''GET'', ''/alerts''),
     (''GET'', ''/alerts/deliveries''),
     (''POST'', ''/alerts/:id/deliveries/:channel/retry''),
     (''POST'', ''/alerts/:id/read''),
     (''POST'', ''/alerts/:id/claim'')]"

definition routes_router_6 :: "(string \<times> string) list" where
  "routes_router_6 =
    [(''GET'', ''/system/capabilities''),
     (''POST'', ''/system/capabilities/verify''),
     (''GET'', ''/system/config''),
     (''GET'', ''/system/config/public-key''),
     (''POST'', ''/system/config/preflight''),
     (''POST'', ''/system/config/apply''),
     (''GET'', ''/system/ragflow/sync/settings''),
     (''PATCH'', ''/system/ragflow/sync/settings''),
     (''GET'', ''/system/ragflow/sync/mappings''),
     (''POST'', ''/system/ragflow/sync/mappings''),
     (''DELETE'', ''/system/ragflow/sync/mappings/:externalTenantId''),
     (''POST'', ''/system/ragflow/sync/scan''),
     (''GET'', ''/system/ragflow/sync/runs''),
     (''GET'', ''/system/ragflow/sync/runs/:id''),
     (''GET'', ''/system/ragflow/sync/runs/:id/items''),
     (''POST'', ''/system/ragflow/sync/runs/:id/import''),
     (''POST'', ''/system/ragflow/sync/runs/:id/assign''),
     (''POST'', ''/system/ragflow/sync/reconcile''),
     (''GET'', ''/system/ragflow/sync/resources''),
     (''GET'', ''/system/ragflow/sync/relink/tenant-options''),
     (''GET'', ''/system/ragflow/sync/relink/resource-options''),
     (''GET'', ''/system/ragflow/sync/resources/:type/:externalTenantId/:id/versions''),
     (''GET'', ''/system/ragflow/sync/artifacts/:id''),
     (''POST'', ''/system/ragflow/sync/resources/:type/:externalTenantId/:id/relink''),
     (''POST'', ''/system/ragflow/sync/resources/:type/:externalTenantId/:id/conflicts/resolve'')]"

definition routes_router_7 :: "(string \<times> string) list" where
  "routes_router_7 =
    [(''GET'', ''/system/settings''),
     (''PATCH'', ''/system/settings''),
     (''GET'', ''/system/settings/revisions''),
     (''GET'', ''/system/settings/revisions/:id''),
     (''POST'', ''/system/settings/revisions/:id/rollback''),
     (''POST'', ''/system/settings/secrets/:key''),
     (''GET'', ''/users''),
     (''POST'', ''/users''),
     (''PUT'', ''/users/:id/status''),
     (''PUT'', ''/users/:id''),
     (''PUT'', ''/users/:id/role''),
     (''DELETE'', ''/users/:id''),
     (''GET'', ''/roles''),
     (''GET'', ''/roles/permission-catalog''),
     (''POST'', ''/roles''),
     (''PUT'', ''/roles/:id''),
     (''DELETE'', ''/roles/:id''),
     (''GET'', ''/roles/:id/permissions''),
     (''POST'', ''/chat/completions''),
     (''POST'', ''/chat/upload''),
     (''GET'', ''/chat/reference''),
     (''GET'', ''/chat/document/chunks''),
     (''GET'', ''/chat/document/preview''),
     (''GET'', ''/chat/image''),
     (''POST'', ''/chat/feedback'')]"

definition routes_router_8 :: "(string \<times> string) list" where
  "routes_router_8 =
    [(''GET'', ''/chat/:id/references''),
     (''GET'', ''/chats''),
     (''GET'', ''/chats/model-options''),
     (''POST'', ''/chats/batch-status''),
     (''POST'', ''/chats''),
     (''DELETE'', ''/chats''),
     (''GET'', ''/chats/:id''),
     (''GET'', ''/chats/:id/usage''),
     (''GET'', ''/chats/:id/config''),
     (''PUT'', ''/chats/:id''),
     (''DELETE'', ''/chats/:id''),
     (''GET'', ''/chats/:id/sessions''),
     (''POST'', ''/chats/:id/sessions''),
     (''GET'', ''/chats/:id/sessions/:sessionId''),
     (''GET'', ''/chats/:id/sessions/:sessionId/messages''),
     (''PATCH'', ''/chats/:id/sessions/:sessionId''),
     (''DELETE'', ''/chats/:id/sessions/:sessionId''),
     (''DELETE'', ''/chats/:id/sessions''),
     (''GET'', ''/search-apps''),
     (''GET'', ''/search-apps/dataset-options''),
     (''POST'', ''/search-apps''),
     (''GET'', ''/search-apps/model-options''),
     (''GET'', ''/search-apps/:id''),
     (''PUT'', ''/search-apps/:id''),
     (''GET'', ''/search-apps/:id/config'')]"

definition routes_router_9 :: "(string \<times> string) list" where
  "routes_router_9 =
    [(''DELETE'', ''/search-apps/:id''),
     (''POST'', ''/search-apps/:id/completion''),
     (''POST'', ''/search-apps/:id/completion/stream''),
     (''GET'', ''/memories''),
     (''GET'', ''/memories/model-options''),
     (''POST'', ''/memories''),
     (''GET'', ''/memories/:id''),
     (''GET'', ''/memories/:id/config''),
     (''PUT'', ''/memories/:id''),
     (''DELETE'', ''/memories/:id''),
     (''GET'', ''/memories/:id/messages''),
     (''POST'', ''/memories/:id/messages''),
     (''GET'', ''/memories/:id/messages/search''),
     (''POST'', ''/memories/:id/governed-search''),
     (''GET'', ''/memories/:id/messages/:messageId/content''),
     (''PUT'', ''/memories/:id/messages/:messageId''),
     (''DELETE'', ''/memories/:id/messages/:messageId''),
     (''POST'', ''/memories/:id/messages/:messageId/compliance-delete''),
     (''GET'', ''/agents''),
     (''POST'', ''/agents''),
     (''GET'', ''/agents/:id''),
     (''GET'', ''/agents/:id/detail''),
     (''PUT'', ''/agents/:id''),
     (''POST'', ''/agents/:id/publish''),
     (''DELETE'', ''/agents/:id'')]"

definition routes_router_10 :: "(string \<times> string) list" where
  "routes_router_10 =
    [(''GET'', ''/agents/:id/versions''),
     (''GET'', ''/agents/:id/versions/:versionId''),
     (''POST'', ''/agents/:id/versions/:versionId/rollback''),
     (''GET'', ''/agents/:id/sessions''),
     (''POST'', ''/agents/:id/sessions''),
     (''GET'', ''/agents/:id/sessions/:sessionId''),
     (''GET'', ''/agents/:id/sessions/:sessionId/messages''),
     (''DELETE'', ''/agents/:id/sessions/:sessionId''),
     (''POST'', ''/agents/:id/upload''),
     (''POST'', ''/agents/:id/chat/completions''),
     (''POST'', ''/agents/:id/chat/completions/stream''),
     (''PUT'', ''/roles/:id/permissions''),
     (''GET'', ''/answer-snapshots/:snapshotId''),
     (''GET'', ''/answer-snapshots/by-request/:requestId''),
     (''POST'', ''/answer-snapshots/:snapshotId/export''),
     (''GET'', ''/answer-snapshots/:snapshotId/audit-export''),
     (''GET'', ''/answer-snapshots/export-jobs/:jobId''),
     (''POST'', ''/answer-snapshots/export-jobs/:jobId/retry''),
     (''GET'', ''/answer-snapshots/artifacts/:artifactId/download''),
     (''POST'', ''/knowledge-impact-reports''),
     (''GET'', ''/knowledge-impact-reports''),
     (''POST'', ''/knowledge-duplicate-candidates''),
     (''GET'', ''/knowledge-duplicate-candidates''),
     (''POST'', ''/knowledge-duplicate-candidates/:id/decision''),
     (''GET'', ''/approvals'')]"

definition routes_router_11 :: "(string \<times> string) list" where
  "routes_router_11 =
    [(''POST'', ''/approvals''),
     (''GET'', ''/approvals/export''),
     (''POST'', ''/approvals/batch-approve''),
     (''POST'', ''/approvals/batch-reject''),
     (''GET'', ''/approvals/:id''),
     (''POST'', ''/approvals/:id/approve''),
     (''POST'', ''/approvals/:id/reject''),
     (''POST'', ''/approvals/:id/cancel''),
     (''POST'', ''/approvals/:id/retry''),
     (''GET'', ''/approval-delegations''),
     (''POST'', ''/approval-delegations''),
     (''DELETE'', ''/approval-delegations/:id''),
     (''GET'', ''/approval-policies''),
     (''POST'', ''/approval-policies''),
     (''PUT'', ''/approval-policies/:id''),
     (''GET'', ''/model-providers''),
     (''POST'', ''/model-providers''),
     (''DELETE'', ''/model-providers/:id''),
     (''GET'', ''/model-providers/:id''),
     (''GET'', ''/model-providers/catalog''),
     (''GET'', ''/model-providers/:id/instances''),
     (''POST'', ''/model-providers/:id/instances''),
     (''PUT'', ''/model-providers/:id/instances/:instanceId''),
     (''DELETE'', ''/model-providers/:id/instances''),
     (''POST'', ''/model-providers/:id/verify'')]"

definition routes_router_12 :: "(string \<times> string) list" where
  "routes_router_12 =
    [(''GET'', ''/model-providers/:id/instances/:instanceId/models''),
     (''POST'', ''/model-providers/:id/instances/:instanceId/models''),
     (''PATCH'', ''/model-providers/:id/instances/:instanceId/models/:modelId''),
     (''DELETE'', ''/model-providers/:id/instances/:instanceId/models''),
     (''POST'', ''/model-providers/:id/instances/:instanceId/models/:modelId/test''),
     (''GET'', ''/enterprise-connections''),
     (''POST'', ''/enterprise-connections''),
     (''GET'', ''/enterprise-connections/:id''),
     (''PUT'', ''/enterprise-connections/:id''),
     (''GET'', ''/enterprise-connections/:id/versions''),
     (''POST'', ''/enterprise-connections/:id/rotate-credential''),
     (''POST'', ''/enterprise-connections/:id/deprecate''),
     (''POST'', ''/enterprise-connections/:id/retire''),
     (''POST'', ''/enterprise-connections/:id/test''),
     (''GET'', ''/enterprise-connections/:id/health''),
     (''GET'', ''/connectors''),
     (''GET'', ''/connectors/providers/meta''),
     (''POST'', ''/connectors''),
     (''POST'', ''/connectors/test''),
     (''GET'', ''/connectors/:id''),
     (''PUT'', ''/connectors/:id''),
     (''DELETE'', ''/connectors/:id''),
     (''POST'', ''/connectors/:id/enable''),
     (''POST'', ''/connectors/:id/disable''),
     (''POST'', ''/connectors/:id/test'')]"

definition routes_router_13 :: "(string \<times> string) list" where
  "routes_router_13 =
    [(''POST'', ''/connectors/:id/sync''),
     (''PUT'', ''/connectors/:id/schedule''),
     (''GET'', ''/connectors/:id/runs''),
     (''GET'', ''/connectors/:id/runs/:runID''),
     (''POST'', ''/connectors/:id/preview''),
     (''GET'', ''/enterprise-connections/:id/availability''),
     (''GET'', ''/enterprise-connections/:id/bindings''),
     (''GET'', ''/enterprise-connections/:id/bindings/:bindingId''),
     (''POST'', ''/enterprise-connections/:id/bindings''),
     (''PUT'', ''/enterprise-connections/:id/bindings/:bindingId''),
     (''POST'', ''/enterprise-connections/:id/bindings/:bindingId/revoke''),
     (''GET'', ''/enterprise-connections/:id/bindings/:bindingId/versions''),
     (''GET'', ''/model-routes''),
     (''POST'', ''/model-routes''),
     (''PUT'', ''/model-routes/:id''),
     (''DELETE'', ''/model-routes/:id''),
     (''POST'', ''/model-routes/:id/enterprise-pin''),
     (''GET'', ''/model-routes/:id/enterprise-pins''),
     (''GET'', ''/keys''),
     (''POST'', ''/keys''),
     (''POST'', ''/keys/:id/revoke'')]"

definition routes_release_governance :: "(string \<times> string) list" where
  "routes_release_governance =
    [(''GET'', ''/release-candidates''),
     (''GET'', ''/execution-snapshots''),
     (''POST'', ''/release-candidates''),
     (''POST'', ''/release-candidates/:id/ready''),
     (''POST'', ''/execution-snapshots''),
     (''POST'', ''/evaluation-set-versions''),
     (''POST'', ''/evaluation-case-versions''),
     (''POST'', ''/evaluation-runs''),
     (''POST'', ''/evaluation-runs/:id/case-results''),
     (''POST'', ''/evaluation-runs/:id/complete''),
     (''POST'', ''/evaluation-runs/:id/execute''),
     (''GET'', ''/evaluation-runs''),
     (''POST'', ''/evaluation-protocol-registrations''),
     (''GET'', ''/evaluation-protocol-registrations''),
     (''POST'', ''/evaluation-protocol-registrations/:id/revoke''),
     (''POST'', ''/evidence-bundles''),
     (''GET'', ''/evidence-bundles''),
     (''POST'', ''/release-gates''),
     (''GET'', ''/release-gates''),
     (''GET'', ''/release-gates/evidence''),
     (''POST'', ''/releases''),
     (''GET'', ''/releases''),
     (''POST'', ''/releases/:id/complete''),
     (''POST'', ''/releases/:id/rollback''),
     (''GET'', ''/quality-issues''),
     (''POST'', ''/quality-issues''),
     (''POST'', ''/quality-issues/:id/state''),
     (''POST'', ''/quality-issues/:id/verify'')]"

definition routes_assistant_release :: "(string \<times> string) list" where
  "routes_assistant_release =
    [(''GET'', ''/assistants''),
     (''POST'', ''/assistant-releases''),
     (''GET'', ''/assistant-releases''),
     (''GET'', ''/assistant-releases/:id''),
     (''GET'', ''/assistant-releases/:id/manifest''),
     (''GET'', ''/assistant-releases/:id/gate''),
     (''POST'', ''/assistant-releases/:id/transition''),
     (''POST'', ''/assistant-releases/:id/apply''),
     (''POST'', ''/assistant-releases/:id/activate''),
     (''POST'', ''/assistant-releases/:id/promote-canary''),
     (''POST'', ''/assistant-releases/:id/rollback/:targetId''),
     (''POST'', ''/assistant-releases/:id/reconcile''),
     (''GET'', ''/assistant-releases/:id/operations''),
     (''POST'', ''/assistant-releases/:id/operations/:operationId/recover''),
     (''POST'', ''/assistant-releases/:id/compensate''),
     (''GET'', ''/assistant-releases/:id/health''),
     (''PUT'', ''/assistant-releases/:id/health''),
     (''GET'', ''/assistant-releases/:id/authorization-snapshots''),
     (''POST'', ''/assistant-releases/:id/authorization-snapshots'')]"

definition routes_template_instance :: "(string \<times> string) list" where
  "routes_template_instance =
    [(''POST'', ''/template-instances''),
     (''GET'', ''/template-instances''),
     (''GET'', ''/template-instances/:id''),
     (''POST'', ''/template-instances/:id/dry-run''),
     (''POST'', ''/template-instances/:id/evaluate''),
     (''POST'', ''/template-instances/:id/release''),
     (''POST'', ''/template-instances/:id/releases/:releaseId/activate''),
     (''POST'', ''/template-instances/:id/rollback''),
     (''GET'', ''/template-instances/:id/health''),
     (''GET'', ''/template-instances/:id/releases''),
     (''POST'', ''/template-instances/:id/releases/:releaseId/reconcile''),
     (''GET'', ''/assistants/:id/rollout-policies''),
     (''POST'', ''/assistants/:id/rollout-policies''),
     (''PUT'', ''/assistants/:id/rollout-policies/:policyId'')]"

definition routes_parser_policy :: "(string \<times> string) list" where
  "routes_parser_policy =
    [(''GET'', ''/parser-policies''),
     (''POST'', ''/parser-policies''),
     (''GET'', ''/parser-policies/:id''),
     (''PUT'', ''/parser-policies/:id''),
     (''PATCH'', ''/parser-policies/:id''),
     (''DELETE'', ''/parser-policies/:id''),
     (''GET'', ''/quality-profiles''),
     (''POST'', ''/quality-profiles''),
     (''GET'', ''/quality-profiles/:id''),
     (''PUT'', ''/quality-profiles/:id''),
     (''PATCH'', ''/quality-profiles/:id''),
     (''DELETE'', ''/quality-profiles/:id'')]"

definition routes_parser_quality :: "(string \<times> string) list" where
  "routes_parser_quality =
    [(''GET'', ''/datasets/:id/parse-quality-reports''),
     (''GET'', ''/datasets/:id/documents/:docId/parse-attempts''),
     (''GET'', ''/datasets/:id/documents/:docId/parse-quality-report''),
     (''GET'', ''/datasets/:id/documents/:docId/parse-quality-reports'')]"

definition routes_tool_registry :: "(string \<times> string) list" where
  "routes_tool_registry =
    [(''GET'', ''/tool-registry''),
     (''POST'', ''/tool-registry''),
     (''GET'', ''/tool-registry/:id''),
     (''PUT'', ''/tool-registry/:id''),
     (''PATCH'', ''/tool-registry/:id''),
     (''DELETE'', ''/tool-registry/:id''),
     (''POST'', ''/tool-registry/:id/execute''),
     (''GET'', ''/source-routing-rules''),
     (''POST'', ''/source-routing-rules''),
     (''GET'', ''/source-routing-rules/:id''),
     (''PUT'', ''/source-routing-rules/:id''),
     (''PATCH'', ''/source-routing-rules/:id''),
     (''DELETE'', ''/source-routing-rules/:id''),
     (''POST'', ''/tool-routing/routed-sql-answer''),
     (''POST'', ''/tool-routing/routed-sql-answers''),
     (''POST'', ''/tool-routing/routed-mixed-tool-answers''),
     (''POST'', ''/tool-routing/planned-mixed-tool-answers''),
     (''POST'', ''/tool-routing/answer-runs''),
     (''POST'', ''/tool-routing/answer-runs/:answerRunId/evidence-facts''),
     (''GET'', ''/tool-routing/answer-runs/:answerRunId/evidence-facts''),
     (''GET'', ''/tool-routing/answer-runs/:answerRunId/fact-guard'')]"

definition routes_query_template :: "(string \<times> string) list" where
  "routes_query_template =
    [(''GET'', ''/query-templates''),
     (''POST'', ''/query-templates''),
     (''GET'', ''/query-templates/:id''),
     (''PUT'', ''/query-templates/:id''),
     (''PATCH'', ''/query-templates/:id''),
     (''DELETE'', ''/query-templates/:id'')]"

definition routes_knowledge_strategy :: "(string \<times> string) list" where
  "routes_knowledge_strategy =
    [(''GET'', ''/knowledge-strategies''),
     (''POST'', ''/knowledge-strategies''),
     (''GET'', ''/knowledge-strategies/:id''),
     (''PUT'', ''/knowledge-strategies/:id''),
     (''PATCH'', ''/knowledge-strategies/:id''),
     (''DELETE'', ''/knowledge-strategies/:id''),
     (''POST'', ''/knowledge-strategies/:id/probe''),
     (''POST'', ''/knowledge-strategies/:id/retrieve''),
     (''GET'', ''/knowledge-strategies/:id/quality-gate'')]"

definition routes_knowledge_compilation :: "(string \<times> string) list" where
  "routes_knowledge_compilation =
    [(''GET'', ''/knowledge-profiles''),
     (''POST'', ''/knowledge-profiles''),
     (''GET'', ''/knowledge-profiles/:profileId''),
     (''PUT'', ''/knowledge-profiles/:profileId''),
     (''DELETE'', ''/knowledge-profiles/:profileId''),
     (''POST'', ''/datasets/:id/compilation/runs''),
     (''POST'', ''/datasets/:id/compilation/runs/:runId/cancel''),
     (''GET'', ''/datasets/:id/compilation/runs''),
     (''POST'', ''/datasets/:id/compilation/reconcile''),
     (''GET'', ''/datasets/:id/artifacts'')]"

definition routes_memory_policy :: "(string \<times> string) list" where
  "routes_memory_policy =
    [(''GET'', ''/memory-policies''),
     (''POST'', ''/memory-policies''),
     (''GET'', ''/memory-policies/:policyId''),
     (''GET'', ''/memory-policies/:policyId/quality-gate''),
     (''GET'', ''/memory-policies/:policyId/consents''),
     (''PUT'', ''/memory-policies/:policyId''),
     (''DELETE'', ''/memory-policies/:policyId''),
     (''POST'', ''/memory-policies/:policyId/opt-in''),
     (''POST'', ''/memory-policies/:policyId/opt-out''),
     (''GET'', ''/memory-privacy/self-policy-template''),
     (''PUT'', ''/memory-privacy/self-policy-template''),
     (''GET'', ''/memory-privacy/pii-exemptions''),
     (''PUT'', ''/memory-privacy/pii-exemptions''),
     (''DELETE'', ''/memory-privacy/pii-exemptions/:exemptionId''),
     (''POST'', ''/memory-privacy/pii-preview''),
     (''GET'', ''/self/memory-policies''),
     (''POST'', ''/self/memory-policies'')]"

definition routes_memory_operation :: "(string \<times> string) list" where
  "routes_memory_operation =
    [(''GET'', ''/memory-operations''),
     (''GET'', ''/memory-operations/:operationId''),
     (''POST'', ''/memory-operations/:operationId/tombstone'')]"

definition routes_conversation_context :: "(string \<times> string) list" where
  "routes_conversation_context =
    [(''POST'', ''/conversation-context/preview''),
     (''GET'', ''/conversation-context/decisions/:decisionId''),
     (''GET'', ''/conversation-context/decisions/by-request/:requestId''),
     (''GET'', ''/conversation-context/decisions'')]"

definition routes_evidence_snapshot :: "(string \<times> string) list" where
  "routes_evidence_snapshot =
    [(''GET'', ''/evidence-snapshots''),
     (''GET'', ''/evidence-snapshots/:id'')]"

definition routes_outbox :: "(string \<times> string) list" where
  "routes_outbox =
    [(''GET'', ''/outbox-events''),
     (''GET'', ''/outbox-events/:id''),
     (''POST'', ''/outbox-events/:id/retry'')]"

definition routes_eval_case_evidence :: "(string \<times> string) list" where
  "routes_eval_case_evidence =
    [(''GET'', ''/eval-cases/:id/evidence''),
     (''PUT'', ''/eval-cases/:id/evidence''),
     (''POST'', ''/eval-cases/:id/revalidate'')]"

definition routes_logical_document :: "(string \<times> string) list" where
  "routes_logical_document =
    [(''GET'', ''/logical-documents''),
     (''POST'', ''/logical-documents''),
     (''GET'', ''/logical-documents/:id''),
     (''PUT'', ''/logical-documents/:id''),
     (''PATCH'', ''/logical-documents/:id''),
     (''DELETE'', ''/logical-documents/:id''),
     (''GET'', ''/logical-documents/:id/versions''),
     (''POST'', ''/logical-documents/:id/supersede''),
     (''POST'', ''/logical-documents/:id/restore''),
     (''GET'', ''/logical-documents/:id/publish-attempts'')]"

definition routes_db_connection :: "(string \<times> string) list" where
  "routes_db_connection =
    [(''GET'', ''/db-connections''),
     (''POST'', ''/db-connections''),
     (''GET'', ''/db-connections/:id''),
     (''PUT'', ''/db-connections/:id''),
     (''PATCH'', ''/db-connections/:id''),
     (''DELETE'', ''/db-connections/:id''),
     (''POST'', ''/db-connections/:id/test'')]"

definition routes_governance :: "(string \<times> string) list" where
  "routes_governance =
    [(''GET'', ''/scenario-template-assets''),
     (''GET'', ''/scenario-template-catalog''),
     (''POST'', ''/scenario-template-assets''),
     (''POST'', ''/scenario-template-assets/import''),
     (''PUT'', ''/scenario-template-assets/:id''),
     (''GET'', ''/scenario-template-assets/:id''),
     (''GET'', ''/scenario-template-assets/:id/export''),
     (''POST'', ''/scenario-template-assets/:id/copy''),
     (''DELETE'', ''/scenario-template-assets/:id''),
     (''POST'', ''/scenario-template-assets/:id/eval-set''),
     (''POST'', ''/scenario-template-assets/:id/release-candidate''),
     (''POST'', ''/scenario-template-assets/:id/instantiate-chat''),
     (''GET'', ''/trial-runs''),
     (''POST'', ''/trial-runs''),
     (''GET'', ''/trial-runs/:id''),
     (''POST'', ''/trial-runs/:id/cancel''),
     (''GET'', ''/onboarding/readiness''),
     (''GET'', ''/prompt-policies''),
     (''POST'', ''/prompt-policies''),
     (''GET'', ''/prompt-policies/:id''),
     (''POST'', ''/prompt-policies/:id/rollback''),
     (''DELETE'', ''/prompt-policies/:id''),
     (''GET'', ''/knowledge-lifecycle''),
     (''GET'', ''/knowledge-lifecycle/asset-map''),
     (''GET'', ''/knowledge-lifecycle/health''),
     (''PUT'', ''/datasets/:id/lifecycle''),
     (''GET'', ''/eval-sets''),
     (''POST'', ''/eval-sets''),
     (''POST'', ''/eval-sets/generate-from-templates''),
     (''GET'', ''/eval-sets/:id''),
     (''PUT'', ''/eval-sets/:id''),
     (''DELETE'', ''/eval-sets/:id''),
     (''POST'', ''/knowledge-ops/events/:id/to-eval-case''),
     (''GET'', ''/governance/overview'')]"

definition protected_routes :: "(string \<times> string) list" where
  "protected_routes =
     (routes_router_1 @ routes_router_2 @ routes_router_3 @ routes_router_4 @
      routes_router_5 @ routes_router_6 @ routes_router_7 @ routes_router_8 @
      routes_router_9 @ routes_router_10 @ routes_router_11 @ routes_router_12 @
      routes_router_13 @ routes_release_governance @ routes_assistant_release @ routes_template_instance @
      routes_parser_policy @ routes_parser_quality @ routes_tool_registry @ routes_query_template @
      routes_knowledge_strategy @ routes_knowledge_compilation @ routes_memory_policy @ routes_memory_operation @
      routes_conversation_context @ routes_evidence_snapshot @ routes_outbox @ routes_eval_case_evidence @
      routes_logical_document @ routes_db_connection @ routes_governance)"

lemmas route_table_defs = routes_router_1_def routes_router_2_def routes_router_3_def routes_router_4_def
  routes_router_5_def routes_router_6_def routes_router_7_def routes_router_8_def
  routes_router_9_def routes_router_10_def routes_router_11_def routes_router_12_def
  routes_router_13_def routes_release_governance_def routes_assistant_release_def routes_template_instance_def
  routes_parser_policy_def routes_parser_quality_def routes_tool_registry_def routes_query_template_def
  routes_knowledge_strategy_def routes_knowledge_compilation_def routes_memory_policy_def routes_memory_operation_def
  routes_conversation_context_def routes_evidence_snapshot_def routes_outbox_def routes_eval_case_evidence_def
  routes_logical_document_def routes_db_connection_def routes_governance_def

end
