(* ===== verification/Audit_Chain.thy ===== *)
theory Audit_Chain
  imports Sql_Table Go_Base
begin

text \<open>
  The tamper-evident audit log: the canonical hash of \<^verbatim>\<open>internal/model/auditlog.go\<close>, the append
  of \<^verbatim>\<open>internal/repository/m2.go\<close> (\<^verbatim>\<open>CreateAudit\<close>), verification and repair of
  \<^verbatim>\<open>internal/service/audit.go\<close>, and the retention purge with its re-anchoring,
  \<^verbatim>\<open>internal/repository/retention.go\<close>. The digest \<open>sha\<close> is an argument. Times are nanoseconds
  since the Unix epoch; \<open>zero_time\<close> is Go's zero \<^verbatim>\<open>time.Time\<close>.
\<close>

section \<open>Rows and hashes\<close>

record audit_log =
  a_id :: string
  a_seq :: int
  a_tenant_id :: string
  a_actor_tenant_id :: string
  a_target_tenant_id :: string
  a_user_id :: string
  a_action :: string
  a_resource :: string
  a_resource_id :: string
  a_detail_json :: string
  a_ip :: string
  a_trace_id :: string
  a_scope :: string
  a_result :: string
  a_approval_id :: string
  a_acting_context_id :: string
  a_approval_action_hash :: string
  a_authorization_decision :: string
  a_authorization_permission :: string
  a_authorization_policy_version :: string
  a_at :: int
  a_prev_hash :: string
  a_hash :: string

definition zero_time :: int where
  "zero_time = - 62135596800 * 1000000000"

text \<open>\<^verbatim>\<open>time.RFC3339Nano\<close> of a UTC time: the fraction without trailing zeros.\<close>

definition format_fraction :: "int \<Rightarrow> string" where
  "format_fraction n =
     (if n = 0 then [] else CHR ''.'' # rev (dropWhile (\<lambda>c. c = CHR ''0'') (rev (pad 9 (nat n)))))"

definition format_rfc3339nano :: "int \<Rightarrow> string" where
  "format_rfc3339nano t =
     (let secs = t div nanos_per_sec mod 86400 in
      format_date t @ ''T'' @ pad 2 (nat (secs div 3600)) @ '':'' @ pad 2 (nat (secs div 60 mod 60)) @ '':'' @
      pad 2 (nat (secs mod 60)) @ format_fraction (t mod nanos_per_sec) @ ''Z'')"

definition hashed_fields :: "audit_log \<Rightarrow> string list" where
  "hashed_fields l =
     [a_tenant_id l, a_actor_tenant_id l, a_target_tenant_id l, a_user_id l, a_action l,
      a_resource l, a_resource_id l, a_detail_json l, a_ip l, a_trace_id l,
      a_scope l, a_result l, a_approval_id l, a_approval_action_hash l,
      a_acting_context_id l, a_authorization_decision l, a_authorization_permission l,
      a_authorization_policy_version l, format_rfc3339nano (a_at l - a_at l mod 1000)]"

definition AuditHash :: "(string \<Rightarrow> string) \<Rightarrow> string \<Rightarrow> audit_log \<Rightarrow> string" where
  "AuditHash sha prev l = sha (prev @ concat (map (\<lambda>f. CHR ''|'' # f) (hashed_fields l)))"

section \<open>Reading the chain\<close>

definition ListAuditsAll :: "string \<Rightarrow> audit_log list \<Rightarrow> audit_log list" where
  "ListAuditsAll tenantID rows = sort_key a_seq (filter (\<lambda>r. a_tenant_id r = tenantID) rows)"

definition lastAuditTx :: "string \<Rightarrow> audit_log list \<Rightarrow> audit_log option" where
  "lastAuditTx tenantID rows =
     (case sort_key (\<lambda>r. - a_seq r) (filter (\<lambda>r. a_tenant_id r = tenantID) rows) of
        [] \<Rightarrow> None | r # _ \<Rightarrow> Some r)"

fun verify_rows :: "(string \<Rightarrow> string) \<Rightarrow> int \<Rightarrow> string \<Rightarrow> audit_log list \<Rightarrow> bool" where
  "verify_rows sha i prev [] = True"
| "verify_rows sha i prev (r # rs) =
     (if a_seq r \<noteq> i + 1 \<or> a_prev_hash r \<noteq> prev \<or> a_hash r \<noteq> AuditHash sha prev r then False
      else verify_rows sha (i + 1) (a_hash r) rs)"

definition VerifyAuditChain ::
  "(string \<Rightarrow> string) \<Rightarrow> string \<Rightarrow> audit_log list db \<Rightarrow> (err + bool) \<times> audit_log list db" where
  "VerifyAuditChain sha tenantID d =
     (case db_run (\<lambda>rows. (Inr (ListAuditsAll tenantID rows), rows)) d of
        (Inl e, d1) \<Rightarrow> (Inl e, d1)
      | (Inr rows, d1) \<Rightarrow> (Inr (verify_rows sha 0 [] rows), d1))"

section \<open>Appending\<close>

definition stamp :: "(string \<Rightarrow> string) \<Rightarrow> audit_log \<Rightarrow> audit_log list \<Rightarrow> audit_log" where
  "stamp sha log snapshot =
     (let log1 = (case lastAuditTx (a_tenant_id log) snapshot of
                    Some tail \<Rightarrow> log\<lparr>a_seq := a_seq tail + 1, a_prev_hash := a_hash tail\<rparr>
                  | None \<Rightarrow> log\<lparr>a_seq := 1, a_prev_hash := []\<rparr>)
      in log1\<lparr>a_hash := AuditHash sha (a_prev_hash log1) log1\<rparr>)"

text \<open>The unique indexes: the primary key, and (tenant, seq).\<close>

definition audit_conflict :: "audit_log \<Rightarrow> audit_log list \<Rightarrow> bool" where
  "audit_conflict log rows \<longleftrightarrow>
     (\<exists>r\<in>set rows. a_id r = a_id log \<or> (a_tenant_id r = a_tenant_id log \<and> a_seq r = a_seq log))"

definition auditAppendMaxRetries :: nat where
  "auditAppendMaxRetries = 5"

definition isDuplicateKeyErr :: "string \<Rightarrow> bool" where
  "isDuplicateKeyErr msg \<longleftrightarrow> Contains msg ''UNIQUE constraint failed'' \<or>
     Contains msg ''duplicate key value'' \<or> Contains msg ''Duplicate entry''"

definition isRetryableAppendErr :: "string \<Rightarrow> bool" where
  "isRetryableAppendErr msg \<longleftrightarrow> isDuplicateKeyErr msg \<or> Contains msg ''SQLITE_BUSY'' \<or>
     Contains msg ''database is locked'' \<or> Contains msg ''could not serialize'' \<or>
     Contains msg ''deadlock detected''"

text \<open>
  What one attempt of the append meets: the rows its transaction reads, the rows present when it
  inserts (other processes may have appended in between), and the message of a driver failure.
  From the second attempt on, the context may be done while the attempt backs off.
\<close>

record attempt =
  at_cancelled :: bool
  at_snapshot :: "audit_log list"
  at_current :: "audit_log list"
  at_fault :: "string option"

definition append_once :: "(string \<Rightarrow> string) \<Rightarrow> audit_log \<Rightarrow> attempt \<Rightarrow> string + audit_log list" where
  "append_once sha log a =
     (case at_fault a of
        Some msg \<Rightarrow> Inl msg
      | None \<Rightarrow>
          let r = stamp sha log (at_snapshot a) in
          if audit_conflict r (at_current a) then Inl ''UNIQUE constraint failed''
          else Inr (at_current a @ [r]))"

function append_loop ::
  "(string \<Rightarrow> string) \<Rightarrow> audit_log \<Rightarrow> (nat \<Rightarrow> attempt) \<Rightarrow> nat \<Rightarrow> err + audit_log list" where
  "append_loop sha log env n =
     (if auditAppendMaxRetries \<le> n
      then Inl (Failure ''append audit record after 5 attempts (persistent chain contention)'')
      else if 0 < n \<and> at_cancelled (env n) then Inl (Failure ''context canceled'')
      else case append_once sha log (env n) of
             Inr rows \<Rightarrow> Inr rows
           | Inl msg \<Rightarrow> if isRetryableAppendErr msg then append_loop sha log env (n + 1)
                        else Inl (Failure msg))"
  by pat_completeness auto
termination
  by (relation "measure (\<lambda>(_, _, _, n). auditAppendMaxRetries - n)") auto

declare append_loop.simps [simp del]

definition CreateAudit ::
  "(string \<Rightarrow> string) \<Rightarrow> string \<Rightarrow> int \<Rightarrow> audit_log \<Rightarrow> (nat \<Rightarrow> attempt) \<Rightarrow> err + audit_log list" where
  "CreateAudit sha newID now log env =
     (let log1 = (if a_id log = [] then log\<lparr>a_id := newID\<rparr> else log);
          log2 = (if a_at log1 = zero_time then log1\<lparr>a_at := now\<rparr> else log1)
      in append_loop sha log2 env 0)"

section \<open>Retention and repair\<close>

text \<open>
  Deletes the rows older than \<open>before\<close>; the answer has the number of deleted rows of each tenant
  that lost any. \<^verbatim>\<open>purgeByModel\<close> for the audit table.
\<close>

definition purge_counts :: "int \<Rightarrow> audit_log list \<Rightarrow> (string \<times> int) list" where
  "purge_counts before rows =
     (let old = filter (\<lambda>r. a_at r < before) rows
      in map (\<lambda>t. (t, sql_count (\<lambda>r. a_tenant_id r = t) old)) (remdups (map a_tenant_id old)))"

definition PurgeAuditBefore ::
  "int \<Rightarrow> audit_log list db \<Rightarrow> (err + (string \<times> int) list) \<times> audit_log list db" where
  "PurgeAuditBefore before =
     db_run (\<lambda>rows. (Inr (purge_counts before rows), filter (\<lambda>r. \<not> a_at r < before) rows))"

text \<open>
  Re-anchoring issues one statement after the other, outside a transaction, so each is a call of
  its own: a fault in between leaves what was written so far.
\<close>

fun reanchor_loop :: "(string \<Rightarrow> string) \<Rightarrow> int \<Rightarrow> string \<Rightarrow> audit_log list \<Rightarrow> audit_log list db \<Rightarrow>
  err option \<times> audit_log list db" where
  "reanchor_loop sha i prev [] d = (None, d)"
| "reanchor_loop sha i prev (r # rs) d =
     (case db_run (\<lambda>rows. (Inr (row_at a_id (a_id r) rows), rows)) d of
        (Inl e, d1) \<Rightarrow> (Some e, d1)
      | (Inr None, d1) \<Rightarrow> (Some RecordNotFound, d1)
      | (Inr (Some cur), d1) \<Rightarrow>
          let h = AuditHash sha prev (cur\<lparr>a_seq := i + 1, a_prev_hash := prev\<rparr>) in
          (case db_run (\<lambda>rows. (Inr (), sql_update (\<lambda>x. a_id x = a_id r)
                  (\<lambda>x. x\<lparr>a_seq := i + 1, a_prev_hash := prev, a_hash := h\<rparr>) rows)) d1 of
             (Inl e, d2) \<Rightarrow> (Some e, d2)
           | (Inr _, d2) \<Rightarrow> reanchor_loop sha (i + 1) h rs d2))"

definition reanchorAuditChain ::
  "(string \<Rightarrow> string) \<Rightarrow> string \<Rightarrow> audit_log list db \<Rightarrow> err option \<times> audit_log list db" where
  "reanchorAuditChain sha tenantID d =
     (case db_run (\<lambda>rows. (Inr (ListAuditsAll tenantID rows), rows)) d of
        (Inl e, d1) \<Rightarrow> (Some e, d1)
      | (Inr rows, d1) \<Rightarrow>
          if rows = [] then (None, d1)
          else
          (case db_run (\<lambda>s. (Inr (), sql_update (\<lambda>x. a_tenant_id x = tenantID)
                  (\<lambda>x. x\<lparr>a_seq := a_seq x * - 1\<rparr>) s)) d1 of
             (Inl e, d2) \<Rightarrow> (Some e, d2)
           | (Inr _, d2) \<Rightarrow> reanchor_loop sha 0 [] rows d2))"

fun ReanchorAuditChains ::
  "(string \<Rightarrow> string) \<Rightarrow> string list \<Rightarrow> audit_log list db \<Rightarrow> err option \<times> audit_log list db" where
  "ReanchorAuditChains sha [] d = (None, d)"
| "ReanchorAuditChains sha (t # ts) d =
     (if t = [] then ReanchorAuditChains sha ts d
      else case reanchorAuditChain sha t d of
             (Some e, d1) \<Rightarrow> (Some e, d1)
           | (None, d1) \<Rightarrow> ReanchorAuditChains sha ts d1)"

definition RepairAuditChain ::
  "(string \<Rightarrow> string) \<Rightarrow> string \<Rightarrow> audit_log list db \<Rightarrow> (err + bool) \<times> audit_log list db" where
  "RepairAuditChain sha tenantID d =
     (if TrimSpace tenantID = [] then (Inl (BadRequest 40000 ''tenant_id is required''), d)
      else case ReanchorAuditChains sha [tenantID] d of
             (Some e, d1) \<Rightarrow> (Inl e, d1)
           | (None, d1) \<Rightarrow> VerifyAuditChain sha tenantID d1)"

section \<open>Chains\<close>

definition tenant_rows :: "string \<Rightarrow> audit_log list \<Rightarrow> audit_log list" where
  "tenant_rows t rows = filter (\<lambda>r. a_tenant_id r = t) rows"

definition head_hash :: "audit_log list \<Rightarrow> string" where
  "head_hash rs = (if rs = [] then [] else a_hash (last rs))"

lemma verify_seq: "verify_rows sha i prev rs \<Longrightarrow> k < length rs \<Longrightarrow> a_seq (rs ! k) = i + int k + 1"
proof (induction rs arbitrary: i prev k)
  case (Cons r rs)
  then show ?case by (cases k) (auto split: if_splits)
qed simp

lemma verify_append:
  "verify_rows sha i prev (xs @ ys) \<longleftrightarrow> verify_rows sha i prev xs \<and>
     verify_rows sha (i + int (length xs)) (if xs = [] then prev else a_hash (last xs)) ys"
  by (induction xs arbitrary: i prev) (auto simp: algebra_simps)

lemma verify_sorted:
  assumes "verify_rows sha i prev rs"
  shows "sorted (map a_seq rs)"
  unfolding sorted_iff_nth_mono using verify_seq [OF assms] by simp

lemma list_audits_verified:
  "verify_rows sha 0 [] (tenant_rows t rows) \<Longrightarrow> ListAuditsAll t rows = tenant_rows t rows"
  unfolding ListAuditsAll_def tenant_rows_def by (rule sort_key_id_if_sorted) (rule verify_sorted)

lemma last_audit_verified:
  assumes "verify_rows sha 0 [] (tenant_rows t rows)"
  shows "lastAuditTx t rows = (if tenant_rows t rows = [] then None else Some (last (tenant_rows t rows)))"
proof -
  let ?rs = "tenant_rows t rows"
  have s: "sorted (map (\<lambda>r. - a_seq r) (rev ?rs))"
    using verify_sorted [OF assms] by (simp add: sorted_wrt_map sorted_wrt_rev)
  have inj: "inj_on a_seq (set ?rs)" and d: "distinct ?rs"
  proof -
    have "distinct (map a_seq ?rs)" unfolding distinct_conv_nth using verify_seq [OF assms] by simp
    then show "inj_on a_seq (set ?rs)" and "distinct ?rs" by (auto simp: distinct_map)
  qed
  have "sort_key (\<lambda>r. - a_seq r) ?rs = rev ?rs"
    by (rule map_sorted_distinct_set_unique [of "\<lambda>r. - a_seq r"])
      (use s d inj in \<open>auto simp: distinct_map inj_on_def\<close>)
  then show ?thesis
    by (cases "?rs" rule: rev_cases) (auto simp: lastAuditTx_def tenant_rows_def)
qed

end
