(* ===== verification/Audit_Service.thy ===== *)
theory Audit_Service
  imports Audit_Chain
begin

text \<open>
  Recording an audit entry, \<^verbatim>\<open>internal/service/audit.go\<close>: defaults, redaction of secrets in the
  detail document, the append, the alert on a failed compensation, and the cell sanitizer of the
  CSV export (\<^verbatim>\<open>service/approval_action.go\<close>). \<open>parse\<close> and \<open>print\<close> stand for
  \<^verbatim>\<open>json.Unmarshal\<close> and \<^verbatim>\<open>json.Marshal\<close> of a document.
\<close>

section \<open>Redaction\<close>

definition sensitiveAuditKey :: "string \<Rightarrow> bool" where
  "sensitiveAuditKey key =
     (let k = ToLower key in
      Contains k ''password'' \<or> Contains k ''secret'' \<or> Contains k ''token'' \<or>
      Contains k ''api_key'' \<or> Contains k ''credential'')"

text \<open>A Go map holds one value per key: the last member of that name in the document.\<close>

fun last_members :: "(string \<times> 'a) list \<Rightarrow> (string \<times> 'a) list" where
  "last_members [] = []"
| "last_members ((k, v) # kvs) =
     (if k \<in> set (map fst kvs) then last_members kvs else (k, v) # last_members kvs)"

fun redactSecretValue :: "json \<Rightarrow> json" where
  "redactSecretValue (JObj kvs) =
     JObj (last_members (map (\<lambda>(k, v). (k, if sensitiveAuditKey k then JStr ''[REDACTED]'' else redactSecretValue v)) kvs))"
| "redactSecretValue (JArr vs) = JArr (map redactSecretValue vs)"
| "redactSecretValue v = v"

definition redactAuditSecrets :: "(string \<Rightarrow> json option) \<Rightarrow> (json \<Rightarrow> string) \<Rightarrow> string \<Rightarrow> string" where
  "redactAuditSecrets parse print raw =
     (case parse raw of None \<Rightarrow> raw | Some v \<Rightarrow> print (redactSecretValue v))"

section \<open>Recording\<close>

record alert =
  al_id :: string
  al_type :: string
  al_tenant_id :: string
  al_resource :: string
  al_resource_id :: string
  al_operation :: string
  al_stage :: string
  al_error :: string
  al_trace_id :: string

definition string_member :: "string \<Rightarrow> json option \<Rightarrow> string" where
  "string_member k doc =
     (case doc of
        Some (JObj kvs) \<Rightarrow> (case map_of (last_members kvs) k of Some (JStr s) \<Rightarrow> s | _ \<Rightarrow> [])
      | _ \<Rightarrow> [])"

definition AuditActionProviderCompensationFailed :: string where
  "AuditActionProviderCompensationFailed = ''provider.compensation.failed''"

definition emitAuditAlert :: "(string \<Rightarrow> json option) \<Rightarrow> audit_log \<Rightarrow> alert list" where
  "emitAuditAlert parse entry =
     (if a_action entry \<noteq> AuditActionProviderCompensationFailed then []
      else let detail = (if a_detail_json entry \<noteq> [] then parse (a_detail_json entry) else None)
      in [\<lparr>al_id = a_id entry, al_type = a_action entry, al_tenant_id = a_tenant_id entry,
           al_resource = a_resource entry, al_resource_id = a_resource_id entry,
           al_operation = string_member ''operation'' detail, al_stage = string_member ''stage'' detail,
           al_error = string_member ''error'' detail, al_trace_id = a_trace_id entry\<rparr>])"

definition default_to :: "string \<Rightarrow> string \<Rightarrow> string" where
  "default_to d s = (if s = [] then d else s)"

definition prepare_audit ::
  "(string \<Rightarrow> json option) \<Rightarrow> (json \<Rightarrow> string) \<Rightarrow> string \<Rightarrow> int \<Rightarrow> audit_log \<Rightarrow> audit_log" where
  "prepare_audit parse print newID now entry =
     entry\<lparr>a_id := default_to newID (a_id entry),
       a_at := (if a_at entry = zero_time then now else a_at entry),
       a_actor_tenant_id := default_to (a_tenant_id entry) (a_actor_tenant_id entry),
       a_target_tenant_id := default_to (a_tenant_id entry) (a_target_tenant_id entry),
       a_result := default_to ''SUCCESS'' (a_result entry),
       a_authorization_decision := default_to ''ALLOW'' (a_authorization_decision entry),
       a_authorization_policy_version := default_to ''explicit-rbac-v1'' (a_authorization_policy_version entry),
       a_detail_json := redactAuditSecrets parse print (a_detail_json entry)\<rparr>"

definition RecordAudit :: "(string \<Rightarrow> string) \<Rightarrow> (string \<Rightarrow> json option) \<Rightarrow> (json \<Rightarrow> string) \<Rightarrow> string \<Rightarrow> int \<Rightarrow>
  audit_log \<Rightarrow> (nat \<Rightarrow> attempt) \<Rightarrow> err + audit_log list \<times> alert list" where
  "RecordAudit sha parse print newID now entry env =
     (let e = prepare_audit parse print newID now entry in
      case CreateAudit sha newID now e env of
        Inl er \<Rightarrow> Inl er
      | Inr rows \<Rightarrow> Inr (rows, emitAuditAlert parse e))"

section \<open>Export\<close>

definition sanitizeCSVCell :: "string \<Rightarrow> string" where
  "sanitizeCSVCell value =
     (case value of
        [] \<Rightarrow> []
      | c # _ \<Rightarrow> if c \<in> set ''=+-@'' \<or> c = CHR 0x09 \<or> c = CHR 0x0D then CHR 0x27 # value else value)"

section \<open>No secret survives redaction\<close>

text \<open>Some member, at any depth, has a sensitive name and a value other than the placeholder.\<close>

fun leaks :: "json \<Rightarrow> bool" where
  "leaks (JObj kvs) \<longleftrightarrow> list_ex (\<lambda>(k, v). (sensitiveAuditKey k \<and> v \<noteq> JStr ''[REDACTED]'') \<or> leaks v) kvs"
| "leaks (JArr vs) \<longleftrightarrow> list_ex leaks vs"
| "leaks v \<longleftrightarrow> False"

text \<open>A document whose objects, at any depth, have distinct and harmless names.\<close>

fun harmless :: "json \<Rightarrow> bool" where
  "harmless (JObj kvs) \<longleftrightarrow> distinct (map fst kvs) \<and> list_all (\<lambda>(k, v). \<not> sensitiveAuditKey k \<and> harmless v) kvs"
| "harmless (JArr vs) \<longleftrightarrow> list_all harmless vs"
| "harmless v \<longleftrightarrow> True"

lemma set_last_members: "set (last_members kvs) \<subseteq> set kvs"
  by (induction kvs rule: last_members.induct) auto

lemma last_members_distinct: "distinct (map fst kvs) \<Longrightarrow> last_members kvs = kvs"
  by (induction kvs rule: last_members.induct) auto

text \<open>
  C13: Redaction is complete and minimal. In the redacted document no member with a sensitive name
  (in any letter case, at any depth, inside arrays too) has a value other than the placeholder,
  and a document without sensitive and without repeated names is left as it is.
\<close>

theorem redaction_complete_and_minimal:
  "\<not> leaks (redactSecretValue j) \<and> (harmless j \<longrightarrow> redactSecretValue j = j)"
proof (induction j rule: redactSecretValue.induct)
  case (1 kvs)
  have "\<not> leaks (redactSecretValue (JObj kvs))"
    using 1 set_last_members by (fastforce simp: list_ex_iff split: if_splits)
  moreover have "redactSecretValue (JObj kvs) = JObj kvs" if h: "harmless (JObj kvs)"
  proof -
    have "map (\<lambda>(k, v). (k, if sensitiveAuditKey k then JStr ''[REDACTED]'' else redactSecretValue v)) kvs = kvs"
      by (rule map_idI) (use 1 h in \<open>fastforce simp: list_all_iff\<close>)
    then show ?thesis using h by (simp add: last_members_distinct)
  qed
  ultimately show ?case by blast
next
  case (2 vs)
  then show ?case by (auto simp: list_ex_iff list_all_iff intro!: map_idI)
qed simp_all

theorem redaction_complete_and_minimal_witness:
  "\<not> leaks (redactSecretValue (JArr [JObj [(''Api_Key_Id'', JStr ''s3cret''), (''n'', JInt 1)]])) \<and>
   redactSecretValue (JObj [(''n'', JInt 1)]) = JObj [(''n'', JInt 1)]"
proof -
  have "harmless (JObj [(''n'', JInt 1)])" by code_simp
  then show ?thesis using redaction_complete_and_minimal by blast
qed

text \<open>An exported cell never starts a formula.\<close>

lemma csv_cell_is_inert:
  "s \<noteq> [] \<Longrightarrow> hd (sanitizeCSVCell s) \<notin> {CHR ''='', CHR ''+'', CHR ''-'', CHR ''@'', CHR 0x09, CHR 0x0D}"
  by (cases s) (auto simp: sanitizeCSVCell_def)

end
