(* ===== verification/Tenant_Scope.thy ===== *)
theory Tenant_Scope
  imports Access_Rules Audit_Service
begin

text \<open>
  Which workspaces a request may address: the tenant scopes of \<^verbatim>\<open>internal/service/tenant_scope.go\<close>, the
  permissions that open them (\<^verbatim>\<open>internal/service/governance_gate.go\<close>), the gates for writes to another
  workspace (\<^verbatim>\<open>internal/service/tenant.go\<close>), and the scope resolvers of the access rules
  (\<^verbatim>\<open>internal/router/access.go\<close>) with the lookups they make. Of the rows the resolvers read only the
  columns they use are kept.
\<close>

section \<open>Tables\<close>

record scoped_row =
  sr_tenant_id :: string
  sr_id :: string
  sr_project_id :: string
  sr_user_id :: string
  sr_dataset_id :: string
  sr_snapshot_id :: string

record mw_store =
  mw_ids :: id_store
  tb_parser_policies :: "scoped_row list"
  tb_quality_profiles :: "scoped_row list"
  tb_logical_documents :: "scoped_row list"
  tb_dataset_links :: "scoped_row list"
  tb_tool_registries :: "scoped_row list"
  tb_source_routing_rules :: "scoped_row list"
  tb_db_connections :: "scoped_row list"
  tb_query_templates :: "scoped_row list"
  tb_knowledge_strategies :: "scoped_row list"
  tb_evidence_snapshots :: "scoped_row list"
  tb_eval_case_evidence :: "scoped_row list"
  tb_outbox_events :: "scoped_row list"
  tb_eval_cases :: "scoped_row list"
  tb_memory_operations :: "scoped_row list"
  tb_projects :: "scoped_row list"
  mw_audits :: "audit_log list"

definition on_mw_ids :: "(id_store db \<Rightarrow> 'a \<times> id_store db) \<Rightarrow> mw_store db \<Rightarrow> 'a \<times> mw_store db" where
  "on_mw_ids m d = (let (r, i, fs) = m (mw_ids (fst d), snd d) in (r, (fst d)\<lparr>mw_ids := i\<rparr>, fs))"

text \<open>The query \<^verbatim>\<open>tenant_id = ? AND id = ?\<close>, no row being no error.\<close>

definition scoped_first :: "(mw_store \<Rightarrow> scoped_row list) \<Rightarrow> string \<Rightarrow> string \<Rightarrow> mw_store db \<Rightarrow> (err + scoped_row option) \<times> mw_store db" where
  "scoped_first tab tenantID i = query (\<lambda>s. sql_first (\<lambda>r. sr_tenant_id r = tenantID \<and> sr_id r = i) (tab s))"

definition GetParserPolicy :: "string \<Rightarrow> string \<Rightarrow> mw_store db \<Rightarrow> (err + scoped_row option) \<times> mw_store db" where
  "GetParserPolicy = scoped_first tb_parser_policies"

definition GetQualityProfile :: "string \<Rightarrow> string \<Rightarrow> mw_store db \<Rightarrow> (err + scoped_row option) \<times> mw_store db" where
  "GetQualityProfile = scoped_first tb_quality_profiles"

definition GetLogicalDocument :: "string \<Rightarrow> string \<Rightarrow> mw_store db \<Rightarrow> (err + scoped_row option) \<times> mw_store db" where
  "GetLogicalDocument = scoped_first tb_logical_documents"

definition GetDatasetLink :: "string \<Rightarrow> string \<Rightarrow> mw_store db \<Rightarrow> (err + scoped_row option) \<times> mw_store db" where
  "GetDatasetLink = scoped_first tb_dataset_links"

definition GetToolRegistry :: "string \<Rightarrow> string \<Rightarrow> mw_store db \<Rightarrow> (err + scoped_row option) \<times> mw_store db" where
  "GetToolRegistry = scoped_first tb_tool_registries"

definition GetSourceRoutingRule :: "string \<Rightarrow> string \<Rightarrow> mw_store db \<Rightarrow> (err + scoped_row option) \<times> mw_store db" where
  "GetSourceRoutingRule = scoped_first tb_source_routing_rules"

definition GetDBConnection :: "string \<Rightarrow> string \<Rightarrow> mw_store db \<Rightarrow> (err + scoped_row option) \<times> mw_store db" where
  "GetDBConnection = scoped_first tb_db_connections"

definition GetQueryTemplate :: "string \<Rightarrow> string \<Rightarrow> mw_store db \<Rightarrow> (err + scoped_row option) \<times> mw_store db" where
  "GetQueryTemplate = scoped_first tb_query_templates"

definition GetKnowledgeStrategy :: "string \<Rightarrow> string \<Rightarrow> mw_store db \<Rightarrow> (err + scoped_row option) \<times> mw_store db" where
  "GetKnowledgeStrategy = scoped_first tb_knowledge_strategies"

definition GetOutboxEvent :: "string \<Rightarrow> string \<Rightarrow> mw_store db \<Rightarrow> (err + scoped_row option) \<times> mw_store db" where
  "GetOutboxEvent = scoped_first tb_outbox_events"

definition GetEvalCase :: "string \<Rightarrow> string \<Rightarrow> mw_store db \<Rightarrow> (err + scoped_row option) \<times> mw_store db" where
  "GetEvalCase = scoped_first tb_eval_cases"

definition GetMemoryOperation :: "string \<Rightarrow> string \<Rightarrow> mw_store db \<Rightarrow> (err + scoped_row option) \<times> mw_store db" where
  "GetMemoryOperation = scoped_first tb_memory_operations"

definition GetProject :: "string \<Rightarrow> string \<Rightarrow> mw_store db \<Rightarrow> (err + scoped_row option) \<times> mw_store db" where
  "GetProject = scoped_first tb_projects"

text \<open>
  The bundle reads the snapshot, its evidence and the dependencies of the evidence; a snapshot without
  evidence is an error. The resolver discards the bundle, so its rows are not kept.
\<close>

definition GetEvidenceSnapshotBundle :: "string \<Rightarrow> string \<Rightarrow> mw_store db \<Rightarrow> (err + bool) \<times> mw_store db" where
  "GetEvidenceSnapshotBundle tenantID i = chk (scoped_first tb_evidence_snapshots tenantID i) (\<lambda>snapshot.
     case snapshot of
       None \<Rightarrow> ret False
     | Some _ \<Rightarrow>
         chk (query (\<lambda>s. sql_first (\<lambda>r. sr_tenant_id r = tenantID \<and> sr_snapshot_id r = i) (tb_eval_case_evidence s)))
           (\<lambda>evidence. case evidence of
              None \<Rightarrow> fail RecordNotFound
            | Some _ \<Rightarrow> chk (query (\<lambda>s. ())) (\<lambda>_. ret True)))"

section \<open>Scope resolvers\<close>

definition param :: "string \<Rightarrow> (string \<times> string) list \<Rightarrow> string" where
  "param k ps = (case map_of ps k of None \<Rightarrow> [] | Some v \<Rightarrow> v)"

text \<open>A resolver that only looks for errors, and one that takes the project of the row it finds.\<close>

definition tenant_only :: "string \<Rightarrow> (mw_store db \<Rightarrow> (err + 'a) \<times> mw_store db) \<Rightarrow> mw_store db \<Rightarrow> (err + string \<times> string \<times> string) \<times> mw_store db" where
  "tenant_only tenantID m = chk m (\<lambda>_. ret (tenantID, [], []))"

definition with_row :: "string \<Rightarrow> (scoped_row \<Rightarrow> mw_store db \<Rightarrow> (err + string \<times> string \<times> string) \<times> mw_store db) \<Rightarrow>
  (mw_store db \<Rightarrow> (err + scoped_row option) \<times> mw_store db) \<Rightarrow> mw_store db \<Rightarrow> (err + string \<times> string \<times> string) \<times> mw_store db" where
  "with_row tenantID f m = chk m (\<lambda>row. case row of None \<Rightarrow> ret (tenantID, [], []) | Some r \<Rightarrow> f r)"

fun resolve_scope :: "resolver \<Rightarrow> string \<Rightarrow> (string \<times> string) list \<Rightarrow> mw_store db \<Rightarrow> (err + string \<times> string \<times> string) \<times> mw_store db" where
  "resolve_scope ResolveParserPolicyScope t ps =
     with_row t (\<lambda>p. ret (t, sr_project_id p, [])) (GetParserPolicy t (param ''id'' ps))"
| "resolve_scope ResolveQualityProfileScope t ps = tenant_only t (GetQualityProfile t (param ''id'' ps))"
| "resolve_scope ResolveLogicalDocumentScope t ps =
     with_row t (\<lambda>document. with_row t (\<lambda>dataset. ret (t, sr_project_id dataset, []))
       (GetDatasetLink t (sr_dataset_id document))) (GetLogicalDocument t (param ''id'' ps))"
| "resolve_scope ResolveToolRegistryScope t ps = tenant_only t (GetToolRegistry t (param ''id'' ps))"
| "resolve_scope ResolveSourceRoutingRuleScope t ps = tenant_only t (GetSourceRoutingRule t (param ''id'' ps))"
| "resolve_scope ResolveDBConnectionScope t ps = tenant_only t (GetDBConnection t (param ''id'' ps))"
| "resolve_scope ResolveQueryTemplateScope t ps = tenant_only t (GetQueryTemplate t (param ''id'' ps))"
| "resolve_scope ResolveKnowledgeStrategyScope t ps =
     with_row t (\<lambda>strategy. ret (t, sr_project_id strategy, [])) (GetKnowledgeStrategy t (param ''id'' ps))"
| "resolve_scope ResolveEvidenceSnapshotScope t ps = tenant_only t (GetEvidenceSnapshotBundle t (param ''id'' ps))"
| "resolve_scope ResolveOutboxEventScope t ps = tenant_only t (GetOutboxEvent t (param ''id'' ps))"
| "resolve_scope ResolveEvalCaseScope t ps = tenant_only t (GetEvalCase t (param ''id'' ps))"
| "resolve_scope ResolveMemoryOperationScope t ps =
     with_row t (\<lambda>operation. ret (t, sr_project_id operation, sr_user_id operation))
       (GetMemoryOperation t (param ''operationId'' ps))"
| "resolve_scope ResolveDatasetScope t ps =
     with_row t (\<lambda>link. ret (t, sr_project_id link, [])) (GetDatasetLink t (param ''id'' ps))"
| "resolve_scope ResolveProjectScope t ps =
     with_row t (\<lambda>p. ret (t, sr_id p, [])) (GetProject t (param ''id'' ps))"

section \<open>Tenant scopes\<close>

datatype scope_kind = TenantScopeCurrent | TenantScopeSpecific | TenantScopeAllAuthorized

definition kind_text :: "scope_kind \<Rightarrow> string" where
  "kind_text k = (case k of TenantScopeCurrent \<Rightarrow> ''CURRENT'' | TenantScopeSpecific \<Rightarrow> ''SPECIFIC''
     | TenantScopeAllAuthorized \<Rightarrow> ''ALL_AUTHORIZED'')"

record tenant_scope =
  ts_kind :: scope_kind
  ts_actor_tenant_id :: string
  ts_target_tenant_id :: string
  ts_allowed_tenant_ids :: "string list"
  ts_permitted_by :: string

definition CurrentTenantID :: "tenant_scope \<Rightarrow> string" where
  "CurrentTenantID s = (case ts_kind s of TenantScopeSpecific \<Rightarrow> ts_target_tenant_id s
     | TenantScopeAllAuthorized \<Rightarrow> [] | TenantScopeCurrent \<Rightarrow> ts_actor_tenant_id s)"

definition ScopeAll :: "tenant_scope \<Rightarrow> bool" where
  "ScopeAll s = (ts_kind s = TenantScopeAllAuthorized)"

definition ContainsTenant :: "tenant_scope \<Rightarrow> string \<Rightarrow> bool" where
  "ContainsTenant s tenantID = (tenantID \<noteq> [] \<and> tenantID \<in> set (ts_allowed_tenant_ids s))"

definition RepositoryTenantIDs :: "tenant_scope \<Rightarrow> string list" where
  "RepositoryTenantIDs s = (if ScopeAll s then [] else ts_allowed_tenant_ids s)"

definition ref_text :: "string \<times> string \<Rightarrow> string" where
  "ref_text r = fst r @ '':'' @ snd r"

definition PermTenantAuditRead :: string where
  "PermTenantAuditRead = ''tenant.audit.read''"

definition PermTenantUsageRead :: string where
  "PermTenantUsageRead = ''tenant.usage.read''"

definition GovernanceReadRefs :: "string \<Rightarrow> (string \<times> string) list" where
  "GovernanceReadRefs capability =
     (''governance.read'', ''tenant'') #
     (if capability \<in> {''audit'', ''audit-anchor'', ''audit-export''} then [(PermTenantAuditRead, ''tenant'')]
      else if capability \<in> {''usage'', ''usage-export''} then [(PermTenantUsageRead, ''tenant'')]
      else [])"

definition TenantResourceRefs :: "bool \<Rightarrow> (string \<times> string) list" where
  "TenantResourceRefs deleting =
     [(''governance.manage'', ''tenant''),
      (if deleting then ''tenant.resource.delete'' else ''tenant.resource.manage'', ''tenant'')]"

text \<open>Newest first: the table has its rows in the order of their creation.\<close>

definition ListAllTenants :: "id_store db \<Rightarrow> (err + tenant list) \<times> id_store db" where
  "ListAllTenants = query (\<lambda>s. rev (tenants s))"

definition ResolveTenantScopeFor :: "string \<Rightarrow> string \<Rightarrow> string \<Rightarrow> string \<Rightarrow> string \<Rightarrow> id_store db \<Rightarrow>
  (err + tenant_scope) \<times> id_store db" where
  "ResolveTenantScopeFor userID actorTenantID requestedScope requestedTenantID capability =
     chk (authz userID) (\<lambda>ac.
       if TrimSpace actorTenantID = [] then fail (BadRequest 400 ''actor tenant is required'')
       else let scope = (if ToLower (TrimSpace requestedScope) = [] then ''current'' else ToLower (TrimSpace requestedScope)) in
       if scope = ''current'' then
         if TrimSpace requestedTenantID \<noteq> [] then fail (BadRequest 400 ''tenant_id requires scope=specific'')
         else ret \<lparr>ts_kind = TenantScopeCurrent, ts_actor_tenant_id = actorTenantID,
                   ts_target_tenant_id = actorTenantID, ts_allowed_tenant_ids = [actorTenantID], ts_permitted_by = []\<rparr>
       else if scope = ''all'' then
         case matchAny ac (GovernanceReadRefs capability) of
           None \<Rightarrow> fail ErrForbidden
         | Some ref \<Rightarrow>
             if TrimSpace requestedTenantID \<noteq> [] then fail (BadRequest 400 ''scope=all cannot include tenant_id'')
             else chk ListAllTenants (\<lambda>ts.
               ret \<lparr>ts_kind = TenantScopeAllAuthorized, ts_actor_tenant_id = actorTenantID, ts_target_tenant_id = [],
                    ts_allowed_tenant_ids = map te_id ts, ts_permitted_by = ref_text ref\<rparr>)
       else if scope = ''specific'' then
         case matchAny ac (GovernanceReadRefs capability) of
           None \<Rightarrow> fail ErrForbidden
         | Some ref \<Rightarrow>
             let target = TrimSpace requestedTenantID in
             if target = [] then fail (BadRequest 400 ''scope=specific requires tenant_id'')
             else chk (GetTenant target) (\<lambda>t.
               case t of
                 None \<Rightarrow> fail (BadRequest 400 ''target tenant not found'')
               | Some _ \<Rightarrow> ret \<lparr>ts_kind = TenantScopeSpecific, ts_actor_tenant_id = actorTenantID,
                   ts_target_tenant_id = target, ts_allowed_tenant_ids = [target], ts_permitted_by = ref_text ref\<rparr>)
       else fail (BadRequest 400 ''scope must be current, specific or all''))"

definition ResolveTenantScope :: "string \<Rightarrow> string \<Rightarrow> string \<Rightarrow> string \<Rightarrow> id_store db \<Rightarrow> (err + tenant_scope) \<times> id_store db" where
  "ResolveTenantScope userID actorTenantID requestedScope requestedTenantID =
     ResolveTenantScopeFor userID actorTenantID requestedScope requestedTenantID []"

section \<open>Writes to another workspace\<close>

definition EnsureGovernanceApprovalEnabled :: "bool \<Rightarrow> 'd \<Rightarrow> (err + unit) \<times> 'd" where
  "EnsureGovernanceApprovalEnabled enabled =
     (if enabled then ret () else fail (Http 400 40086 ''approval workflow must be enabled for governed operations''))"

definition EnsureGovernanceActingContextTarget :: "string \<Rightarrow> string \<Rightarrow> string \<Rightarrow> id_store db \<Rightarrow> (err + unit) \<times> id_store db" where
  "EnsureGovernanceActingContextTarget actorID actorTenantID targetTenantID =
     (if targetTenantID = [] \<or> targetTenantID = actorTenantID then ret ()
      else chk (Authorize actorID ''governance.manage'' ''tenant'') (\<lambda>_. EnsureTenantActive targetTenantID))"

end
