(* ===== verification/Rate_Limit.thy ===== *)
theory Rate_Limit
  imports Prelude
begin

text \<open>
  Rate limiting: the interface \<^verbatim>\<open>Limiter\<close> and the in-process \<^verbatim>\<open>Memory\<close> limiter of
  \<^verbatim>\<open>internal/pkg/ratelimit\<close> and the middleware of \<^verbatim>\<open>internal/middleware/ratelimit.go\<close>. The interface
  is a record of operations on a state of the limiter; the instant of a call is an argument. The
  contract of a sliding window is a locale, and the memory limiter satisfies it.
\<close>

section \<open>The interface\<close>

record 's limiter =
  lim_Count :: "string \<Rightarrow> int \<Rightarrow> int \<Rightarrow> 's \<Rightarrow> (err + int) \<times> 's"
  lim_Incr :: "string \<Rightarrow> int \<Rightarrow> int \<Rightarrow> 's \<Rightarrow> (err + int) \<times> 's"
  lim_Reset :: "string \<Rightarrow> 's \<Rightarrow> err option \<times> 's"

section \<open>The memory limiter\<close>

type_synonym memory = "string \<rightharpoonup> int list"

definition NewMemory :: memory where
  "NewMemory = Map.empty"

definition memory_hits :: "memory \<Rightarrow> string \<Rightarrow> int list" where
  "memory_hits m key = (case m key of None \<Rightarrow> [] | Some ts \<Rightarrow> ts)"

definition memory_prune :: "string \<Rightarrow> int \<Rightarrow> int \<Rightarrow> memory \<Rightarrow> memory" where
  "memory_prune key window now m =
     (let recent = filter (\<lambda>t. now - window < t) (memory_hits m key)
      in if recent = [] then m(key := None) else m(key \<mapsto> recent))"

definition memory_Count :: "string \<Rightarrow> int \<Rightarrow> int \<Rightarrow> memory \<Rightarrow> (err + int) \<times> memory" where
  "memory_Count key window now m =
     (let m1 = memory_prune key window now m in (Inr (int (length (memory_hits m1 key))), m1))"

definition memory_Incr :: "string \<Rightarrow> int \<Rightarrow> int \<Rightarrow> memory \<Rightarrow> (err + int) \<times> memory" where
  "memory_Incr key window now m =
     (let m1 = memory_prune key window now m; m2 = m1(key \<mapsto> memory_hits m1 key @ [now])
      in (Inr (int (length (memory_hits m2 key))), m2))"

definition memory_Reset :: "string \<Rightarrow> memory \<Rightarrow> err option \<times> memory" where
  "memory_Reset key m = (None, m(key := None))"

definition Memory :: "memory limiter" where
  "Memory = \<lparr>lim_Count = memory_Count, lim_Incr = memory_Incr, lim_Reset = memory_Reset\<rparr>"

section \<open>The middleware\<close>

datatype rl_verdict =
    RLNext
  | RLFail int int string

record rl_outcome =
  rl_verdict :: rl_verdict
  rl_events :: "string list"

definition http_key :: "string \<Rightarrow> string" where
  "http_key key = ''http:'' @ key"

text \<open>
  \<open>limiter = None\<close> is the nil limiter, \<open>key\<close> the value of the key function on the request. The
  outcome lists the types of the events it sent.
\<close>

definition rateLimit :: "'s limiter option \<Rightarrow> string \<Rightarrow> int \<Rightarrow> int \<Rightarrow> bool \<Rightarrow> int \<Rightarrow> 's \<Rightarrow> rl_outcome \<times> 's" where
  "rateLimit limiter key limit window failOpen now s =
     (case limiter of
        None \<Rightarrow> (\<lparr>rl_verdict = RLNext, rl_events = []\<rparr>, s)
      | Some l \<Rightarrow>
          if limit \<le> 0 then (\<lparr>rl_verdict = RLNext, rl_events = []\<rparr>, s)
          else
          (case lim_Incr l (http_key key) window now s of
             (Inl e, s1) \<Rightarrow>
               (if failOpen then (\<lparr>rl_verdict = RLNext, rl_events = [''limiter_failopen'']\<rparr>, s1)
                else (\<lparr>rl_verdict = RLFail 503 50300 ''rate limiter unavailable'', rl_events = []\<rparr>, s1))
           | (Inr count, s1) \<Rightarrow>
               (if limit < count
                then (\<lparr>rl_verdict = RLFail 429 429 ''rate limit exceeded, please retry later'',
                       rl_events = [''rate_limit'']\<rparr>, s1)
                else (\<lparr>rl_verdict = RLNext, rl_events = []\<rparr>, s1))))"

definition RateLimit :: "'s limiter option \<Rightarrow> string \<Rightarrow> int \<Rightarrow> int \<Rightarrow> int \<Rightarrow> 's \<Rightarrow> rl_outcome \<times> 's" where
  "RateLimit limiter key limit window = rateLimit limiter key limit window True"

definition RateLimitStrict :: "'s limiter option \<Rightarrow> string \<Rightarrow> int \<Rightarrow> int \<Rightarrow> int \<Rightarrow> 's \<Rightarrow> rl_outcome \<times> 's" where
  "RateLimitStrict limiter key limit window = rateLimit limiter key limit window False"

text \<open>Requests in the order of their arrival, with the instant and the key of each; their verdicts.\<close>

fun serve :: "'s limiter \<Rightarrow> int \<Rightarrow> int \<Rightarrow> bool \<Rightarrow> (int \<times> string) list \<Rightarrow> 's \<Rightarrow> bool list \<times> 's" where
  "serve l limit window failOpen [] s = ([], s)"
| "serve l limit window failOpen ((now, key) # rs) s =
     (case rateLimit (Some l) key limit window failOpen now s of (out, s1) \<Rightarrow>
      case serve l limit window failOpen rs s1 of (oks, s2) \<Rightarrow> ((rl_verdict out = RLNext) # oks, s2))"

section \<open>The sliding window contract\<close>

definition in_window :: "int \<Rightarrow> int \<Rightarrow> int list \<Rightarrow> int" where
  "in_window window now ts = int (length (filter (\<lambda>t. now - window < t) ts))"

text \<open>
  \<open>rep w now s h\<close>: since the last reset the state \<open>s\<close> has recorded the instants \<open>h k\<close> of each key
  \<open>k\<close>, all windows are \<open>w\<close> and no operation came after \<open>now\<close>.
\<close>

locale sliding_window =
  fixes lim :: "'s limiter" and rep :: "int \<Rightarrow> int \<Rightarrow> 's \<Rightarrow> (string \<Rightarrow> int list) \<Rightarrow> bool" and fresh :: 's
  assumes rep_fresh: "rep w now fresh (\<lambda>_. [])"
    and rep_Count: "rep w prev s h \<Longrightarrow> prev \<le> now \<Longrightarrow>
      \<exists>s'. lim_Count lim k w now s = (Inr (in_window w now (h k)), s') \<and> rep w now s' h"
    and rep_Incr: "rep w prev s h \<Longrightarrow> prev \<le> now \<Longrightarrow> 0 < w \<Longrightarrow>
      \<exists>s'. lim_Incr lim k w now s = (Inr (in_window w now (h k @ [now])), s') \<and>
        rep w now s' (h(k := h k @ [now]))"
    and rep_Reset: "rep w prev s h \<Longrightarrow> \<exists>s'. lim_Reset lim k s = (None, s') \<and> rep w prev s' (h(k := []))"

text \<open>What a limiter with this contract gives the middleware.\<close>

definition served_at :: "string \<Rightarrow> int \<Rightarrow> int \<Rightarrow> ((int \<times> string) \<times> bool) list \<Rightarrow> nat" where
  "served_at k w now rs = length (filter (\<lambda>((t, j), ok). ok \<and> j = k \<and> now - w < t \<and> t \<le> now) rs)"

definition arrivals :: "string \<Rightarrow> (int \<times> string) list \<Rightarrow> int list" where
  "arrivals k rs = map fst (filter (\<lambda>(t, j). http_key j = k) rs)"

lemma http_key_inj [simp]: "http_key i = http_key j \<longleftrightarrow> i = j"
  by (simp add: http_key_def)

lemma rate_verdict:
  assumes "lim_Incr l (http_key k) w now s = (Inr n, s1)" "0 < limit"
  shows "\<exists>out. rateLimit (Some l) k limit w fo now s = (out, s1) \<and> (rl_verdict out = RLNext \<longleftrightarrow> n \<le> limit)"
  using assms by (simp add: rateLimit_def)

lemma serve_append:
  "serve l limit w fo (xs @ ys) s =
     (case serve l limit w fo xs s of (a, s1) \<Rightarrow> case serve l limit w fo ys s1 of (b, s2) \<Rightarrow> (a @ b, s2))"
  by (induction xs arbitrary: s) (auto split: prod.splits)

lemma serve_length: "length (fst (serve l limit w fo rs s)) = length rs"
  by (induction rs arbitrary: s) (auto split: prod.splits, metis fst_conv)

lemma in_window_append: "in_window w now (xs @ ys) = in_window w now xs + in_window w now ys"
  by (simp add: in_window_def)

lemma served_at_append: "served_at k w now (xs @ ys) = served_at k w now xs + served_at k w now ys"
  by (simp add: served_at_def)

lemma served_le_arrivals:
  assumes "length oks = length rs" "\<forall>r\<in>set rs. fst r \<le> u" "u \<le> T"
  shows "int (served_at k w T (zip rs oks)) \<le> in_window w u (arrivals (http_key k) rs)"
  using assms
proof (induction oks rs rule: list_induct2)
  case (Cons ok oks r rs)
  then show ?case by (cases r) (auto simp: served_at_def in_window_def arrivals_def)
qed (simp add: served_at_def in_window_def arrivals_def)

context sliding_window
begin

lemma serve_rep:
  assumes "rep w prev s h" "sorted (map fst rs)" "\<forall>r\<in>set rs. prev \<le> fst r" "0 < w" "0 < limit"
  shows "\<exists>now. rep w now (snd (serve lim limit w fo rs s)) (\<lambda>k. h k @ arrivals k rs) \<and>
    (now = prev \<or> now \<in> fst ` set rs)"
  using assms
proof (induction rs arbitrary: s h prev)
  case Nil
  then show ?case by (auto simp: arrivals_def)
next
  case (Cons r rs)
  obtain t j where r: "r = (t, j)" by (cases r)
  obtain s' where s': "lim_Incr lim (http_key j) w t s = (Inr (in_window w t (h (http_key j) @ [t])), s')"
      "rep w t s' (h(http_key j := h (http_key j) @ [t]))"
    using rep_Incr [OF Cons.prems(1), of t "http_key j"] Cons.prems r by auto
  have "snd (serve lim limit w fo (r # rs) s) = snd (serve lim limit w fo rs s')"
    using rate_verdict [OF s'(1) Cons.prems(5), of fo] by (auto simp: r split: prod.splits)
  moreover have "(\<lambda>k. (h(http_key j := h (http_key j) @ [t])) k @ arrivals k rs) = (\<lambda>k. h k @ arrivals k (r # rs))"
    by (auto simp: fun_eq_iff arrivals_def r)
  moreover have "sorted (map fst rs)" "\<forall>x\<in>set rs. t \<le> fst x" using Cons.prems(2) r by auto
  ultimately show ?case using Cons.IH [OF s'(2) _ _ Cons.prems(4,5)] r by (auto 0 3)
qed

lemma served_within_limit:
  assumes "sorted (map fst rs)" "0 < w" "0 < limit"
  shows "int (served_at k w T (zip rs (fst (serve lim limit w fo rs fresh)))) \<le> limit"
  using assms(1)
proof (induction rs rule: rev_induct)
  case Nil
  then show ?case using assms(3) by (simp add: served_at_def)
next
  case (snoc r rs)
  obtain t j where r: "r = (t, j)" by (cases r)
  let ?s = "snd (serve lim limit w fo rs fresh)" and ?oks = "fst (serve lim limit w fo rs fresh)"
  have srt: "sorted (map fst rs)" "\<forall>x\<in>set rs. fst x \<le> t" using snoc.prems r by (auto simp: sorted_append)
  define m where "m = (if rs = [] then t else fst (hd rs))"
  have "\<forall>x\<in>set rs. m \<le> fst x" "m \<le> t" using srt by (cases rs; auto simp: m_def)+
  then obtain now where now: "rep w now ?s (\<lambda>k. arrivals k rs)" "now \<le> t"
    using serve_rep [OF rep_fresh srt(1), of m w limit fo] assms(2,3) srt(2) by auto
  let ?n = "in_window w t (arrivals (http_key j) rs @ [t])"
  obtain s' where s': "lim_Incr lim (http_key j) w t ?s = (Inr ?n, s')"
    using rep_Incr [OF now(1,2) assms(2), of "http_key j"] by auto
  define ok where "ok \<longleftrightarrow> ?n \<le> limit"
  have "fst (serve lim limit w fo (rs @ [r]) fresh) = ?oks @ [ok]"
    using rate_verdict [OF s' assms(3), of fo] by (auto simp: serve_append r ok_def split: prod.splits)
  then have z: "zip (rs @ [r]) (fst (serve lim limit w fo (rs @ [r]) fresh)) = zip rs ?oks @ [(r, ok)]"
    by (simp add: serve_length)
  show ?case
  proof (cases "ok \<and> j = k \<and> T - w < t \<and> t \<le> T")
    case True
    then have "int (served_at k w T (zip rs ?oks)) \<le> in_window w t (arrivals (http_key k) rs)"
      by (intro served_le_arrivals) (simp_all add: serve_length srt(2))
    moreover have "served_at k w T [(r, ok)] = 1" "in_window w t [t] = 1"
      using True assms(2) by (simp_all add: served_at_def in_window_def r)
    ultimately show ?thesis unfolding z served_at_append using True by (auto simp: ok_def in_window_append)
  next
    case False
    then have "served_at k w T [(r, ok)] = 0" by (auto simp: served_at_def r)
    then show ?thesis unfolding z served_at_append using snoc.IH [OF srt(1)] by simp
  qed
qed

end

definition memory_rep :: "int \<Rightarrow> int \<Rightarrow> memory \<Rightarrow> (string \<Rightarrow> int list) \<Rightarrow> bool" where
  "memory_rep w now m h \<longleftrightarrow>
     (\<forall>k. \<exists>c\<le>now. memory_hits m k = filter (\<lambda>t. c - w < t) (h k))"

lemma hits_prune: "memory_hits (memory_prune key w now m) k =
    (if k = key then filter (\<lambda>t. now - w < t) (memory_hits m key) else memory_hits m k)"
  by (simp add: memory_hits_def memory_prune_def Let_def)

lemma hits_upd: "memory_hits (m(key \<mapsto> ts)) k = (if k = key then ts else memory_hits m k)"
  "memory_hits (m(key := None)) k = (if k = key then [] else memory_hits m k)"
  by (simp_all add: memory_hits_def)

lemma filter_cutoffs: "c \<le> now \<Longrightarrow> filter (\<lambda>t. c - w < t \<and> now - w < t) ts = filter ((<) (now - w)) ts"
  for c now w :: int
  by (rule filter_cong) auto

lemma memory_prune_rep:
  assumes "memory_rep w prev m h" "prev \<le> now"
  shows "memory_hits (memory_prune key w now m) key = filter (\<lambda>t. now - w < t) (h key)"
    "memory_rep w now (memory_prune key w now m) h"
proof -
  have cut: "\<exists>c\<le>prev. memory_hits m k = filter (\<lambda>t. c - w < t) (h k)" for k
    using assms(1) by (simp add: memory_rep_def)
  show p: "memory_hits (memory_prune key w now m) key = filter (\<lambda>t. now - w < t) (h key)"
    using cut [of key] assms(2) by (auto simp: hits_prune filter_cutoffs)
  show "memory_rep w now (memory_prune key w now m) h"
    unfolding memory_rep_def
  proof
    fix k
    show "\<exists>c\<le>now. memory_hits (memory_prune key w now m) k = filter (\<lambda>t. c - w < t) (h k)"
    proof (cases "k = key")
      case False
      then show ?thesis using cut [of k] assms(2) by (auto simp: hits_prune intro: order_trans)
    qed (use p in blast)
  qed
qed

interpretation mem: sliding_window Memory memory_rep NewMemory
proof
  fix w now
  show "memory_rep w now NewMemory (\<lambda>_. [])"
    by (auto simp: memory_rep_def NewMemory_def memory_hits_def)
next
  fix w prev s h now k
  assume a: "memory_rep w prev s h" "prev \<le> now"
  show "\<exists>s'. lim_Count Memory k w now s = (Inr (in_window w now (h k)), s') \<and> memory_rep w now s' h"
    using memory_prune_rep [OF a, of k] by (simp add: Memory_def memory_Count_def in_window_def Let_def)
  assume w: "0 < w"
  let ?p = "memory_prune k w now s"
  have "memory_rep w now (?p(k \<mapsto> memory_hits ?p k @ [now])) (h(k := h k @ [now]))"
    unfolding memory_rep_def
  proof
    fix j
    show "\<exists>c\<le>now. memory_hits (?p(k \<mapsto> memory_hits ?p k @ [now])) j = filter (\<lambda>t. c - w < t) ((h(k := h k @ [now])) j)"
    proof (cases "j = k")
      case True
      then show ?thesis using memory_prune_rep(1) [OF a, of k] w
        by (intro exI [of _ now]) (simp add: hits_upd)
    next
      case False
      then show ?thesis using memory_prune_rep(2) [OF a, of k]
        by (auto simp: memory_rep_def hits_upd)
    qed
  qed
  then show "\<exists>s'. lim_Incr Memory k w now s = (Inr (in_window w now (h k @ [now])), s') \<and>
      memory_rep w now s' (h(k := h k @ [now]))"
    using memory_prune_rep(1) [OF a, of k] w
    by (simp add: Memory_def memory_Incr_def in_window_def Let_def hits_upd)
next
  fix w prev s h k
  assume "memory_rep w prev s h"
  then show "\<exists>s'. lim_Reset Memory k s = (None, s') \<and> memory_rep w prev s' (h(k := []))"
    by (auto simp: Memory_def memory_Reset_def memory_rep_def hits_upd)
qed

section \<open>The limit holds\<close>

text \<open>
  C27: The middleware enforces its limit. With the memory limiter, whatever keys and however many
  requests arrive in whatever order, of the requests with one key that arrive within any span of
  the length of the window at most the limit pass.
\<close>

theorem rate_limit_enforced:
  assumes "sorted (map fst rs)" and "0 < window" and "0 < limit"
  shows "int (served_at key window T (zip rs (fst (serve Memory limit window failOpen rs NewMemory)))) \<le> limit"
  using assms by (rule mem.served_within_limit)

theorem rate_limit_enforced_witness:
  "int (served_at ''a'' 10 9 (zip [(1, ''a''), (2, ''a''), (2, ''b''), (3, ''a''), (9, ''a'')]
     (fst (serve Memory 2 10 True [(1, ''a''), (2, ''a''), (2, ''b''), (3, ''a''), (9, ''a'')] NewMemory)))) \<le> 2"
  by (rule rate_limit_enforced) simp_all

end
