(* ===== verification/Sql_Wp.thy ===== *)
theory Sql_Wp
  imports Sql_Table
begin

text \<open>
  Weakest preconditions for sequences of repository calls under arbitrary faults: \<open>wp m Q E s\<close>
  holds if \<open>m\<close>, started on the tables \<open>s\<close> with any fault oracle, ends in tables where \<open>Q\<close> holds of
  its result, or \<open>E\<close> holds if it returns an error. The rules compute it along the structure of a
  method.
\<close>

definition wp :: "('s db \<Rightarrow> ('e + 'a) \<times> 's db) \<Rightarrow> ('a \<Rightarrow> 's \<Rightarrow> bool) \<Rightarrow> ('s \<Rightarrow> bool) \<Rightarrow> 's \<Rightarrow> bool" where
  "wp m Q E s \<longleftrightarrow> (\<forall>fs r s1 fs1. m (s, fs) = (r, s1, fs1) \<longrightarrow> (case r of Inl e \<Rightarrow> E s1 | Inr a \<Rightarrow> Q a s1))"

lemma wpD: "wp m Q E s \<Longrightarrow> m (s, fs) = (Inr a, s1, fs1) \<Longrightarrow> Q a s1"
  unfolding wp_def by fastforce

lemma wp_result: "wp m (\<lambda>_. I) I s \<Longrightarrow> m (s, fs) = (r, s1, fs1) \<Longrightarrow> I s1"
  unfolding wp_def by (fastforce split: sum.splits)

lemma wp_ret [simp]: "wp (ret a) Q E s \<longleftrightarrow> Q a s"
  by (simp add: wp_def)

lemma wp_fail [simp]: "wp (fail e) Q E s \<longleftrightarrow> E s"
  by (simp add: wp_def)

lemma wp_answer [simp]: "wp (\<lambda>d. (r, d)) Q E s \<longleftrightarrow> (case r of Inl e \<Rightarrow> E s | Inr a \<Rightarrow> Q a s)"
  by (simp add: wp_def)

lemma wp_run [simp]: "wp (db_run body) Q E s \<longleftrightarrow>
    E s \<and> (case body s of (Inl e, _) \<Rightarrow> E s | (Inr a, s1) \<Rightarrow> Q a s1)"
proof
  assume w: "wp (db_run body) Q E s"
  have "db_run body (s, [True]) = (Inl DbFault, s, [])" by simp
  with w have "E s" unfolding wp_def by fastforce
  moreover obtain res s1 where b: "body s = (res, s1)" by (cases "body s")
  moreover have "db_run body (s, []) = (case res of Inl e \<Rightarrow> (Inl e, s, []) | Inr a \<Rightarrow> (Inr a, s1, []))"
    using b by (simp split: sum.splits)
  then have "case res of Inl e \<Rightarrow> E s | Inr a \<Rightarrow> Q a s1"
    using wpD [OF w, of "[]"] \<open>E s\<close> by (cases res) simp_all
  ultimately show "E s \<and> (case body s of (Inl e, _) \<Rightarrow> E s | (Inr a, s1) \<Rightarrow> Q a s1)" by (simp split: sum.splits)
next
  assume r: "E s \<and> (case body s of (Inl e, _) \<Rightarrow> E s | (Inr a, s1) \<Rightarrow> Q a s1)"
  show "wp (db_run body) Q E s"
    unfolding wp_def
  proof (intro allI impI)
    fix fs res s1 fs1
    assume "db_run body (s, fs) = (res, s1, fs1)"
    then show "case res of Inl e \<Rightarrow> E s1 | Inr a \<Rightarrow> Q a s1" by (rule db_run_cases) (use r in auto)
  qed
qed

lemma wp_query [simp]: "wp (query f) Q E s \<longleftrightarrow> E s \<and> Q (f s) s"
  by (simp add: query_def)

lemma wp_chk: "wp m (\<lambda>a. wp (f a) Q E) E s \<Longrightarrow> wp (chk m f) Q E s"
  unfolding wp_def [of "chk m f"] chk_def
  by (fastforce simp: wp_def split: prod.splits sum.splits)

lemma wp_if [simp]: "wp (if c then m else n) Q E s \<longleftrightarrow> (if c then wp m Q E s else wp n Q E s)"
  by simp

lemma wp_option [simp]: "wp (case v of None \<Rightarrow> m | Some x \<Rightarrow> f x) Q E s \<longleftrightarrow>
    (case v of None \<Rightarrow> wp m Q E s | Some x \<Rightarrow> wp (f x) Q E s)"
  by (cases v) simp_all

end
