(* ===== verification/Sessions.thy ===== *)
theory Sessions
  imports Identity_Store Rate_Limit Sql_Wp
begin

text \<open>
  Password logins and rotating refresh tokens: \<^verbatim>\<open>internal/service/auth.go\<close> over the refresh token
  methods of \<^verbatim>\<open>internal/repository/m2.go\<close> and the token manager of \<^verbatim>\<open>internal/pkg/jwt\<close>. Signing and
  verification of a token (the JWT library), the password check (bcrypt), the digest and fresh ids
  are arguments. The audit entry of a login is one more call that may fail; its chain is modelled in
  \<open>Audit_Chain\<close>. A call reads the clock once.
\<close>

section \<open>Tokens\<close>

definition TokenAccess :: string where
  "TokenAccess = ''access''"

definition TokenRefresh :: string where
  "TokenRefresh = ''refresh''"

definition MinSecretLen :: nat where
  "MinSecretLen = 32"

definition insecureSecrets :: "string list" where
  "insecureSecrets = [''change-me'', ''change-me-in-prod'', ''changeme'', ''secret'']"

text \<open>The three refusals of a signing secret, without the advice in their texts.\<close>

datatype secret_error = SecretEmpty | SecretPlaceholder string | SecretWeak nat

definition ValidateSecret :: "string \<Rightarrow> secret_error option" where
  "ValidateSecret secret =
     (let s = TrimSpace secret in
      if s = [] then Some SecretEmpty
      else if ToLower s \<in> set insecureSecrets then Some (SecretPlaceholder s)
      else if length s < MinSecretLen then Some (SecretWeak (length s))
      else None)"

record claims =
  cl_uid :: string
  cl_tid :: string
  cl_username :: string
  cl_role :: string
  cl_typ :: string
  cl_jti :: string
  cl_issued_at :: int
  cl_expires_at :: int

record jwt_manager =
  jm_secret :: string
  jm_access_ttl :: int
  jm_refresh_ttl :: int

record jwt_lib =
  jl_sign :: "string \<Rightarrow> claims \<Rightarrow> string option"
  jl_verify :: "string \<Rightarrow> int \<Rightarrow> string \<Rightarrow> claims option"

definition nanos_per_hour :: int where
  "nanos_per_hour = 3600 * nanos_per_sec"

definition NewManager :: "string \<Rightarrow> int \<Rightarrow> jwt_manager" where
  "NewManager secret expireHours =
     \<lparr>jm_secret = secret,
      jm_access_ttl = (if expireHours \<le> 0 then 24 else expireHours) * nanos_per_hour,
      jm_refresh_ttl = 7 * 24 * nanos_per_hour\<rparr>"

definition SetAccessTTL :: "int \<Rightarrow> jwt_manager \<Rightarrow> jwt_manager" where
  "SetAccessTTL d m = (if 0 < d then m\<lparr>jm_access_ttl := d\<rparr> else m)"

definition SetRefreshTTL :: "int \<Rightarrow> jwt_manager \<Rightarrow> jwt_manager" where
  "SetRefreshTTL d m = (if 0 < d then m\<lparr>jm_refresh_ttl := d\<rparr> else m)"

definition jwt_issue :: "jwt_lib \<Rightarrow> jwt_manager \<Rightarrow> user \<Rightarrow> string \<Rightarrow> int \<Rightarrow> string \<Rightarrow> int \<Rightarrow> string option" where
  "jwt_issue lib m u tokenType ttl tid now = jl_sign lib (jm_secret m)
     \<lparr>cl_uid = us_id u, cl_tid = us_tenant_id u, cl_username = us_username u, cl_role = us_role u,
      cl_typ = tokenType, cl_jti = tid, cl_issued_at = now, cl_expires_at = now + ttl\<rparr>"

definition IssueAccess :: "jwt_lib \<Rightarrow> jwt_manager \<Rightarrow> user \<Rightarrow> int \<Rightarrow> string option" where
  "IssueAccess lib m u now = jwt_issue lib m u TokenAccess (jm_access_ttl m) [] now"

definition IssueRefresh :: "jwt_lib \<Rightarrow> jwt_manager \<Rightarrow> user \<Rightarrow> string \<Rightarrow> int \<Rightarrow> string option" where
  "IssueRefresh lib m u tid now = jwt_issue lib m u TokenRefresh (jm_refresh_ttl m) tid now"

text \<open>The expiry of the refresh token is in whole seconds.\<close>

definition IssuePair :: "jwt_lib \<Rightarrow> jwt_manager \<Rightarrow> string \<Rightarrow> user \<Rightarrow> int \<Rightarrow> (string \<times> string \<times> string \<times> int) option" where
  "IssuePair lib m uuid u now =
     (case IssueAccess lib m u now of
        None \<Rightarrow> None
      | Some access \<Rightarrow>
          (case IssueRefresh lib m u uuid now of
             None \<Rightarrow> None
           | Some refresh \<Rightarrow> Some (access, refresh, uuid, (now + jm_refresh_ttl m) div nanos_per_sec)))"

definition jwt_Parse :: "jwt_lib \<Rightarrow> jwt_manager \<Rightarrow> int \<Rightarrow> string \<Rightarrow> claims option" where
  "jwt_Parse lib m now token = jl_verify lib (jm_secret m) now token"

section \<open>Tables\<close>

record refresh_token =
  rt_id :: string
  rt_user_id :: string
  rt_tenant_id :: string
  rt_token_hash :: string
  rt_expires_at :: int
  rt_revoked_at :: "int option"

record sess_store =
  se_ids :: id_store
  refresh_tokens :: "refresh_token list"
  auth_audits :: "(string \<times> string \<times> string) list"

definition on_ids :: "(id_store db \<Rightarrow> 'a \<times> id_store db) \<Rightarrow> sess_store db \<Rightarrow> 'a \<times> sess_store db" where
  "on_ids m d = (let (r, i, fs) = m (se_ids (fst d), snd d) in (r, (fst d)\<lparr>se_ids := i\<rparr>, fs))"

definition CreateRefreshToken_tx :: "refresh_token \<Rightarrow> sess_store \<Rightarrow> (err + unit) \<times> sess_store" where
  "CreateRefreshToken_tx t s =
     (if \<exists>x\<in>set (refresh_tokens s). rt_id x = rt_id t \<or> rt_token_hash x = rt_token_hash t
      then (Inl (Failure ''duplicate key''), s)
      else (Inr (), s\<lparr>refresh_tokens := refresh_tokens s @ [t]\<rparr>))"

definition CreateRefreshToken :: "refresh_token \<Rightarrow> sess_store db \<Rightarrow> (err + unit) \<times> sess_store db" where
  "CreateRefreshToken t = db_run (CreateRefreshToken_tx t)"

definition FindRefreshTokenByHash :: "string \<Rightarrow> sess_store db \<Rightarrow> (err + refresh_token option) \<times> sess_store db" where
  "FindRefreshTokenByHash hash = query (\<lambda>s. row_at rt_token_hash hash (refresh_tokens s))"

definition RevokeRefreshToken :: "string \<Rightarrow> int \<Rightarrow> sess_store db \<Rightarrow> (err + unit) \<times> sess_store db" where
  "RevokeRefreshToken i now = db_run (\<lambda>s. (Inr (), s\<lparr>refresh_tokens :=
     sql_update (\<lambda>t. rt_id t = i) (\<lambda>t. t\<lparr>rt_revoked_at := Some now\<rparr>) (refresh_tokens s)\<rparr>))"

definition RevokeActiveRefreshToken :: "string \<Rightarrow> int \<Rightarrow> sess_store db \<Rightarrow> (err + bool) \<times> sess_store db" where
  "RevokeActiveRefreshToken i now = db_run (\<lambda>s.
     (Inr (\<exists>t\<in>set (refresh_tokens s). rt_id t = i \<and> rt_revoked_at t = None),
      s\<lparr>refresh_tokens := sql_update (\<lambda>t. rt_id t = i \<and> rt_revoked_at t = None)
          (\<lambda>t. t\<lparr>rt_revoked_at := Some now\<rparr>) (refresh_tokens s)\<rparr>))"

text \<open>The audit entry of an authentication: action, tenant, user.\<close>

definition audit_auth :: "string \<Rightarrow> user \<Rightarrow> sess_store db \<Rightarrow> (err + unit) \<times> sess_store db" where
  "audit_auth action u = db_run (\<lambda>s. (Inr (), s\<lparr>auth_audits :=
     auth_audits s @ [(action, us_tenant_id u, us_id u)]\<rparr>))"

section \<open>Sessions\<close>

record token_result =
  tr_token :: string
  tr_refresh :: string
  tr_user :: user

definition ErrInvalidCredentials :: err where
  "ErrInvalidCredentials = Http 401 40101 ''invalid username or password''"

definition workspace_disabled :: err where
  "workspace_disabled = Http 403 40301 ''workspace is disabled''"

definition require_active_tenant :: "string \<Rightarrow> sess_store db \<Rightarrow> (err + unit) \<times> sess_store db" where
  "require_active_tenant tenantID = chk (on_ids (GetTenant tenantID)) (\<lambda>t.
     case t of
       None \<Rightarrow> fail workspace_disabled
     | Some tenant \<Rightarrow> if te_status tenant = TenantStatusActive then ret () else fail workspace_disabled)"

text \<open>The second half of a login and of a refresh: a new pair of tokens, stored and audited.\<close>

definition open_session :: "jwt_lib \<Rightarrow> jwt_manager \<Rightarrow> (string \<Rightarrow> string) \<Rightarrow> string \<Rightarrow> string \<Rightarrow> user \<Rightarrow> int \<Rightarrow>
  sess_store db \<Rightarrow> (err + token_result) \<times> sess_store db" where
  "open_session lib jm refreshTokenHash uuid action u now =
     (case IssuePair lib jm uuid u now of
        None \<Rightarrow> fail (Failure ''token signing failed'')
      | Some (access, refresh, jti, refreshExp) \<Rightarrow>
          chk (CreateRefreshToken \<lparr>rt_id = jti, rt_user_id = us_id u, rt_tenant_id = us_tenant_id u,
                 rt_token_hash = refreshTokenHash refresh, rt_expires_at = refreshExp * nanos_per_sec,
                 rt_revoked_at = None\<rparr>) (\<lambda>_ d.
            case audit_auth action u d of
              (Inl e, d1) \<Rightarrow> (Inl (Failure ''failed to persist authentication audit''),
                              snd (RevokeRefreshToken jti now d1))
            | (Inr _, d1) \<Rightarrow> (Inr \<lparr>tr_token = access, tr_refresh = refresh, tr_user = u\<rparr>, d1)))"

text \<open>
  A refresh reads and checks the token, its user and its tenant, then claims it: only the call whose
  update finds the token unrevoked goes on.
\<close>

definition refresh_check :: "jwt_lib \<Rightarrow> jwt_manager \<Rightarrow> (string \<Rightarrow> string) \<Rightarrow> string \<Rightarrow> int \<Rightarrow>
  sess_store db \<Rightarrow> (err + refresh_token \<times> user) \<times> sess_store db" where
  "refresh_check lib jm refreshTokenHash token now =
     (case jwt_Parse lib jm now token of
        None \<Rightarrow> fail (Unauthorized ''invalid refresh token'')
      | Some cl \<Rightarrow>
          if cl_typ cl \<noteq> TokenRefresh then fail (Unauthorized ''invalid refresh token'')
          else chk (FindRefreshTokenByHash (refreshTokenHash token)) (\<lambda>st.
            case st of
              None \<Rightarrow> fail (Unauthorized ''invalid or revoked refresh token'')
            | Some stored \<Rightarrow>
                if rt_revoked_at stored \<noteq> None \<or> rt_expires_at stored < now
                then fail (Unauthorized ''invalid or revoked refresh token'')
                else chk (on_ids (GetUser (rt_user_id stored))) (\<lambda>up.
                  case up of
                    None \<Rightarrow> fail (Unauthorized ''user disabled or missing'')
                  | Some u \<Rightarrow>
                      if us_status u \<noteq> UserStatusActive then fail (Unauthorized ''user disabled or missing'')
                      else chk (require_active_tenant (us_tenant_id u)) (\<lambda>_. ret (stored, u)))))"

definition refresh_claim :: "jwt_lib \<Rightarrow> jwt_manager \<Rightarrow> (string \<Rightarrow> string) \<Rightarrow> string \<Rightarrow> refresh_token \<Rightarrow> user \<Rightarrow> int \<Rightarrow>
  sess_store db \<Rightarrow> (err + token_result) \<times> sess_store db" where
  "refresh_claim lib jm refreshTokenHash uuid stored u now =
     chk (RevokeActiveRefreshToken (rt_id stored) now) (\<lambda>claimed.
       if \<not> claimed then fail (Unauthorized ''invalid or revoked refresh token'')
       else open_session lib jm refreshTokenHash uuid ''auth.refresh'' u now)"

definition RefreshAccessToken :: "jwt_lib \<Rightarrow> jwt_manager \<Rightarrow> (string \<Rightarrow> string) \<Rightarrow> string \<Rightarrow> string \<Rightarrow> int \<Rightarrow>
  sess_store db \<Rightarrow> (err + token_result) \<times> sess_store db" where
  "RefreshAccessToken lib jm refreshTokenHash uuid token now =
     chk (refresh_check lib jm refreshTokenHash token now) (\<lambda>(stored, u).
       refresh_claim lib jm refreshTokenHash uuid stored u now)"

definition Logout :: "jwt_lib \<Rightarrow> jwt_manager \<Rightarrow> (string \<Rightarrow> string) \<Rightarrow> string \<Rightarrow> int \<Rightarrow>
  sess_store db \<Rightarrow> (err + unit) \<times> sess_store db" where
  "Logout lib jm refreshTokenHash token now =
     (case jwt_Parse lib jm now token of
        None \<Rightarrow> ret ()
      | Some cl \<Rightarrow>
          if cl_typ cl \<noteq> TokenRefresh then ret ()
          else chk (FindRefreshTokenByHash (refreshTokenHash token)) (\<lambda>st.
            case st of None \<Rightarrow> ret () | Some stored \<Rightarrow> RevokeRefreshToken (rt_id stored) now))"

section \<open>Logins\<close>

definition loginMaxAttempts :: int where
  "loginMaxAttempts = 10"

definition loginWindow :: int where
  "loginWindow = 15 * 60 * nanos_per_sec"

record 's auth_state =
  au_db :: "sess_store db"
  au_limiter :: 's
  au_events :: "string list"

definition on_db :: "(sess_store db \<Rightarrow> 'a \<times> sess_store db) \<Rightarrow> 's auth_state \<Rightarrow> 'a \<times> 's auth_state" where
  "on_db m a = (let (r, d) = m (au_db a) in (r, a\<lparr>au_db := d\<rparr>))"

definition loginPermitted :: "'s limiter \<Rightarrow> string \<Rightarrow> int \<Rightarrow> 's auth_state \<Rightarrow> bool \<times> 's auth_state" where
  "loginPermitted lim key now a =
     (case lim_Count lim key loginWindow now (au_limiter a) of
        (Inl e, s1) \<Rightarrow> (True, a\<lparr>au_limiter := s1, au_events := au_events a @ [''limiter_failopen'']\<rparr>)
      | (Inr n, s1) \<Rightarrow> (n < loginMaxAttempts, a\<lparr>au_limiter := s1\<rparr>))"

definition recordLoginFailure :: "'s limiter \<Rightarrow> string \<Rightarrow> int \<Rightarrow> 's auth_state \<Rightarrow> 's auth_state" where
  "recordLoginFailure lim key now a =
     a\<lparr>au_limiter := snd (lim_Incr lim key loginWindow now (au_limiter a))\<rparr>"

definition clearLoginFailures :: "'s limiter \<Rightarrow> string \<Rightarrow> 's auth_state \<Rightarrow> 's auth_state" where
  "clearLoginFailures lim key a = a\<lparr>au_limiter := snd (lim_Reset lim key (au_limiter a))\<rparr>"

definition Login :: "'s limiter \<Rightarrow> jwt_lib \<Rightarrow> jwt_manager \<Rightarrow> (string \<Rightarrow> string \<Rightarrow> bool) \<Rightarrow> (string \<Rightarrow> string) \<Rightarrow> string \<Rightarrow>
  string \<Rightarrow> string \<Rightarrow> string \<Rightarrow> int \<Rightarrow> 's auth_state \<Rightarrow> (err + token_result) \<times> 's auth_state" where
  "Login lim lib jm verify refreshTokenHash uuid username pass remoteIP now a =
     (case loginPermitted lim remoteIP now a of
        (False, a1) \<Rightarrow> (Inl (Http 429 429 ''too many login attempts, please retry later''), a1)
      | (True, a1) \<Rightarrow>
          chk (on_db (on_ids (GetUserByUsername username))) (\<lambda>up a2.
            case (case up of None \<Rightarrow> None
                  | Some u \<Rightarrow> if us_status u = UserStatusActive \<and> verify (us_password_hash u) pass
                      then Some u else None) of
              None \<Rightarrow> (Inl ErrInvalidCredentials, recordLoginFailure lim remoteIP now a2)
            | Some u \<Rightarrow>
                chk (on_db (require_active_tenant (us_tenant_id u))) (\<lambda>_ a3.
                  on_db (open_session lib jm refreshTokenHash uuid ''auth.login'' u now)
                    (clearLoginFailures lim remoteIP a3)) a2) a1)"

section \<open>The first administrator\<close>

definition SystemTenantID :: string where
  "SystemTenantID = replicate 32 (CHR ''0'')"

definition CreateTenant_tx :: "tenant \<Rightarrow> id_store \<Rightarrow> (err + unit) \<times> id_store" where
  "CreateTenant_tx t s =
     (if \<exists>x\<in>set (tenants s). te_id x = te_id t then (Inl (Failure ''duplicate key''), s)
      else (Inr (), s\<lparr>tenants := tenants s @ [t]\<rparr>))"

definition BootstrapAdmin :: "(string \<Rightarrow> string option) \<Rightarrow> string \<Rightarrow> string \<Rightarrow> string \<Rightarrow> id_store db \<Rightarrow>
  (err + unit) \<times> id_store db" where
  "BootstrapAdmin hash newID username pass =
     chk (GetTenant SystemTenantID) (\<lambda>tp.
     chk (case tp of
            Some _ \<Rightarrow> ret ()
          | None \<Rightarrow> db_run (CreateTenant_tx
              \<lparr>te_id = SystemTenantID, te_name = ''Platform'', te_status = TenantStatusActive\<rparr>)) (\<lambda>_.
     chk (GetUserByUsername username) (\<lambda>ep.
       case ep of
         Some existing \<Rightarrow>
           chk (if us_role existing \<noteq> RolePlatformAdmin \<or> us_status existing \<noteq> UserStatusActive
                then UpdateUser (existing\<lparr>us_role := RolePlatformAdmin, us_status := UserStatusActive\<rparr>)
                else ret ()) (\<lambda>_.
           SetUserPrimaryRole (us_id existing) RolePlatformAdmin)
       | None \<Rightarrow>
           (case hash pass of
              None \<Rightarrow> fail (Failure ''password hashing failed'')
            | Some h \<Rightarrow>
                chk (store_CreateUser \<lparr>us_id = newID, us_tenant_id = SystemTenantID, us_username = username,
                       us_password_hash = h, us_email = [], us_role = RolePlatformAdmin,
                       us_status = UserStatusActive\<rparr>) (\<lambda>_.
                SetUserPrimaryRole newID RolePlatformAdmin)))))"

end
