(* ===== verification/Middleware.thy ===== *)
theory Middleware
  imports Tenant_Scope Sessions
begin

text \<open>
  The request middleware of \<^verbatim>\<open>internal/middleware\<close> that decides whether a request of the authenticated
  group reaches its handler: the cross-site check (\<^verbatim>\<open>csrf.go\<close>), token authentication (\<^verbatim>\<open>auth.go\<close>) and
  the access rules (\<^verbatim>\<open>rbac.go\<close>), composed as \<^verbatim>\<open>internal/router/router.go\<close> composes them; the scopes the
  handlers derive from the same request (\<^verbatim>\<open>internal/handler/scope.go\<close>); the body limit, the CORS and
  security headers and the service token of runtime reports.

  A request is what the web framework makes of it: the path of the matched route, its parameters,
  query, headers and cookies. Arguments are the JSON scanner and printer, SHA-256, the token library,
  and \<open>url_parse\<close>, the scheme and host of \<^verbatim>\<open>net/url.Parse\<close> (\<open>None\<close> when it reports an error).
\<close>

section \<open>Requests\<close>

record http_request =
  rq_method :: string
  rq_full_path :: string
  rq_params :: "(string \<times> string) list"
  rq_query :: "(string \<times> string) list"
  rq_headers :: "(string \<times> string) list"
  rq_cookies :: "(string \<times> string) list"
  rq_host :: string
  rq_body :: "string option"
  rq_body_limit :: int
  rq_client_ip :: string
  rq_request_id :: string

definition Query :: "string \<Rightarrow> http_request \<Rightarrow> string" where
  "Query k rq = param k (rq_query rq)"

definition GetHeader :: "string \<Rightarrow> http_request \<Rightarrow> string" where
  "GetHeader k rq = param k (rq_headers rq)"

definition Cookie :: "string \<Rightarrow> http_request \<Rightarrow> string option" where
  "Cookie k rq = map_of (rq_cookies rq) k"

definition ContentType :: "http_request \<Rightarrow> string" where
  "ContentType rq = takeWhile (\<lambda>c. c \<noteq> CHR '' '' \<and> c \<noteq> CHR '';'') (GetHeader ''Content-Type'' rq)"

definition EqualFold :: "string \<Rightarrow> string \<Rightarrow> bool" where
  "EqualFold a b = (ToLower a = ToLower b)"

text \<open>What the middleware leaves in the context of the request, for the handlers behind it.\<close>

record gin_context =
  gc_request :: http_request
  gc_user_id :: string
  gc_tenant_id :: string
  gc_role :: string
  gc_username :: string
  gc_tenant_scope :: "tenant_scope option"
  gc_governance_target :: "string option"

record mw_env =
  me_jwt :: jwt_lib
  me_manager :: jwt_manager
  me_now :: int
  me_allowed_origins :: "string list"
  me_url_parse :: "string \<Rightarrow> (string \<times> string) option"
  me_json :: "string \<Rightarrow> json option"
  me_print :: "json \<Rightarrow> string"
  me_sha :: "string \<Rightarrow> string"
  me_new_id :: string
  me_attempts :: "nat \<Rightarrow> attempt"
  me_approval_enabled :: bool

text \<open>\<^verbatim>\<open>response.Err\<close>: a business error is answered as such, any other one as an internal error.\<close>

definition rendered :: "err \<Rightarrow> err" where
  "rendered e = (case e of Http _ _ _ \<Rightarrow> e | _ \<Rightarrow> Http 500 500 ''internal server error'')"

definition respond :: "('d \<Rightarrow> (err + 'a) \<times> 'd) \<Rightarrow> 'd \<Rightarrow> (err + 'a) \<times> 'd" where
  "respond m d = (case m d of (Inl e, d1) \<Rightarrow> (Inl (rendered e), d1) | (Inr a, d1) \<Rightarrow> (Inr a, d1))"

section \<open>Body limit\<close>

definition defaultMaxBytes :: int where
  "defaultMaxBytes = 25 * 2 ^ 20"

definition bodyLimitHandler :: "int \<Rightarrow> http_request \<Rightarrow> http_request" where
  "bodyLimitHandler maxBytes rq =
     (if rq_body rq = None then rq
      else rq\<lparr>rq_body_limit := (if maxBytes \<le> 0 then defaultMaxBytes else maxBytes)\<rparr>)"

text \<open>
  \<^verbatim>\<open>io.ReadAll\<close> of the first \<open>n\<close> bytes of a body behind the limit: an error when the limit is met
  before.
\<close>

definition read_body :: "nat \<Rightarrow> http_request \<Rightarrow> string \<Rightarrow> string option" where
  "read_body n rq raw =
     (if rq_body_limit rq < int n \<and> rq_body_limit rq < int (length raw) then None else Some (take n raw))"

section \<open>Cross-site requests\<close>

definition normalizeOrigin :: "(string \<Rightarrow> (string \<times> string) option) \<Rightarrow> string \<Rightarrow> string" where
  "normalizeOrigin url_parse raw =
     (case url_parse raw of
        None \<Rightarrow> []
      | Some (scheme, host) \<Rightarrow> if scheme = [] \<or> host = [] then [] else ToLower (scheme @ ''://'' @ host))"

definition sameOrigin :: "(string \<Rightarrow> (string \<times> string) option) \<Rightarrow> string \<Rightarrow> string \<Rightarrow> bool" where
  "sameOrigin url_parse origin host =
     (case url_parse origin of
        None \<Rightarrow> False
      | Some (_, h) \<Rightarrow> h \<noteq> [] \<and> EqualFold h host)"

definition has_cookie :: "string \<Rightarrow> http_request \<Rightarrow> bool" where
  "has_cookie k rq = (Cookie k rq \<noteq> None \<and> Cookie k rq \<noteq> Some [])"

definition allowed_origins :: "mw_env \<Rightarrow> string list" where
  "allowed_origins env = filter (\<lambda>o'. o' \<noteq> []) (map (normalizeOrigin (me_url_parse env)) (me_allowed_origins env))"

definition ErrInvalidOrigin :: err where
  "ErrInvalidOrigin = Http 403 40300 ''invalid request origin''"

definition cookieCSRFHandler :: "mw_env \<Rightarrow> http_request \<Rightarrow> err + unit" where
  "cookieCSRFHandler env rq =
     (let site = GetHeader ''Sec-Fetch-Site'' rq; origin = GetHeader ''Origin'' rq in
      if \<not> has_cookie ''rgx_access'' rq \<and> \<not> has_cookie ''rgx_refresh'' rq then Inr ()
      else if GetHeader ''Authorization'' rq \<noteq> [] then Inr ()
      else if site \<noteq> [] \<and> EqualFold site ''cross-site'' then Inl ErrInvalidOrigin
      else if site \<noteq> [] \<and> EqualFold site ''same-origin'' then Inr ()
      else if origin = [] then Inr ()
      else if normalizeOrigin (me_url_parse env) origin \<in> set (allowed_origins env) \<or>
              sameOrigin (me_url_parse env) origin (rq_host rq) then Inr ()
      else Inl ErrInvalidOrigin)"

section \<open>Authentication\<close>

definition bearerToken :: "string \<Rightarrow> string option" where
  "bearerToken header =
     (if \<not> HasPrefix header ''Bearer '' then None
      else let token = TrimSpace (TrimPrefix header ''Bearer '') in if token = [] then None else Some token)"

definition presented_token :: "http_request \<Rightarrow> string option" where
  "presented_token rq =
     (case bearerToken (GetHeader ''Authorization'' rq) of
        Some token \<Rightarrow> Some token
      | None \<Rightarrow> if has_cookie ''rgx_access'' rq then Cookie ''rgx_access'' rq else None)"

definition Auth :: "mw_env \<Rightarrow> http_request \<Rightarrow> mw_store db \<Rightarrow> (err + gin_context) \<times> mw_store db" where
  "Auth env rq =
     (case presented_token rq of
        None \<Rightarrow> fail (Unauthorized ''missing bearer token'')
      | Some token \<Rightarrow>
          case jwt_Parse (me_jwt env) (me_manager env) (me_now env) token of
            None \<Rightarrow> fail (Unauthorized ''invalid or expired token'')
          | Some c \<Rightarrow>
              if cl_typ c = TokenRefresh then fail (Unauthorized ''refresh token cannot be used for access'')
              else respond (chk (on_mw_ids (EnsureTenantActive (cl_tid c))) (\<lambda>_.
                ret \<lparr>gc_request = rq, gc_user_id = cl_uid c, gc_tenant_id = cl_tid c, gc_role = cl_role c,
                     gc_username = cl_username c, gc_tenant_scope = None, gc_governance_target = None\<rparr>)))"

section \<open>Access rules\<close>

definition rule_key :: "rule \<Rightarrow> string" where
  "rule_key r = ru_method r @ '' '' @ ru_path r"

text \<open>The map of the rules by key: of two rules with one key the later one is kept.\<close>

definition byKey :: "rule list \<Rightarrow> string \<Rightarrow> rule option" where
  "byKey rules = map_of (rev (map (\<lambda>r. (rule_key r, r)) rules))"

definition scopeValueMatches :: "string \<Rightarrow> string \<Rightarrow> bool" where
  "scopeValueMatches registered requested =
     (let reg = ToLower (TrimSpace registered); req = ToLower (TrimSpace requested) in
      if reg = ''current'' then req = ''current''
      else if reg = ''specific'' then req = ''specific''
      else if reg = ''all_authorized'' then req = ''all''
      else False)"

definition target_field :: "string \<times> string \<Rightarrow> string \<Rightarrow> json \<Rightarrow> (string \<times> string) \<times> bool" where
  "target_field b k v =
     (if k = ''target_tenant_id'' then (case decode_string (fst b) v of (s, ok) \<Rightarrow> ((s, snd b), ok))
      else if k = ''tenant_id'' then (case decode_string (snd b) v of (s, ok) \<Rightarrow> ((fst b, s), ok))
      else (b, True))"

text \<open>
  The workspace a write addresses: the first non-blank of two query parameters and two members of a
  JSON body. \<open>None\<close> is an error; the answer has the request with the body that was read put back.
\<close>

definition governanceTargetTenant :: "mw_env \<Rightarrow> http_request \<Rightarrow> (string option \<times> http_request) option" where
  "governanceTargetTenant env rq =
     (if TrimSpace (Query ''target_tenant_id'' rq) \<noteq> [] then Some (Some (TrimSpace (Query ''target_tenant_id'' rq)), rq)
      else if TrimSpace (Query ''tenant_id'' rq) \<noteq> [] then Some (Some (TrimSpace (Query ''tenant_id'' rq)), rq)
      else if \<not> Contains (ContentType rq) ''application/json'' then Some (None, rq)
      else case rq_body rq of
        None \<Rightarrow> Some (None, rq)
      | Some body \<Rightarrow>
          (case read_body (2 ^ 20) rq body of
             None \<Rightarrow> None
           | Some raw \<Rightarrow>
               let rq1 = rq\<lparr>rq_body := Some raw\<rparr> in
               if TrimSpace raw = [] then Some (None, rq1)
               else (case unmarshal target_field ([], []) (me_json env raw) of
                 ((target, tenant), ok) \<Rightarrow>
                   if \<not> ok then None
                   else if TrimSpace target \<noteq> [] then Some (Some (TrimSpace target), rq1)
                   else if TrimSpace tenant \<noteq> [] then Some (Some (TrimSpace tenant), rq1)
                   else Some (None, rq1))))"

text \<open>
  The steps of the handler in order: the object scope, the write gate, the requested scope, and the
  audit of a read that leaves the workspace.
\<close>

definition rule_scope :: "rule \<Rightarrow> gin_context \<Rightarrow> mw_store db \<Rightarrow> (err + string \<times> string \<times> string) \<times> mw_store db" where
  "rule_scope r cx d =
     (case ru_resolve r of
        None \<Rightarrow> (Inr (gc_tenant_id cx, [], []), d)
      | Some res \<Rightarrow>
          (case resolve_scope res (gc_tenant_id cx) (rq_params (gc_request cx)) d of
             (Inl e, d1) \<Rightarrow> (Inl (Internal ''scope resolution failed''), d1)
           | (Inr (rt, rp, ro), d1) \<Rightarrow> (Inr (if rt = [] then gc_tenant_id cx else rt, rp, ro), d1)))"

definition write_gate :: "mw_env \<Rightarrow> rule \<Rightarrow> gin_context \<Rightarrow> mw_store db \<Rightarrow> (err + gin_context) \<times> mw_store db" where
  "write_gate env r cx =
     (if \<not> (ru_acting_context r \<and> ru_cross_tenant_write r \<and> rq_method (gc_request cx) \<noteq> ''GET'') then ret cx
      else case governanceTargetTenant env (gc_request cx) of
        None \<Rightarrow> fail (Http 400 400 ''invalid governance target'')
      | Some (target, rq1) \<Rightarrow>
          let t = (case target of None \<Rightarrow> [] | Some x \<Rightarrow> x);
              cx1 = cx\<lparr>gc_request := rq1, gc_governance_target := Some t\<rparr> in
          if target \<noteq> None \<and> t \<noteq> gc_tenant_id cx then
            if \<not> ru_requires_approval r then fail (Http 403 403 ''cross-tenant write requires governed approval'')
            else chk (EnsureGovernanceApprovalEnabled (me_approval_enabled env)) (\<lambda>_.
                 chk (on_mw_ids (EnsureGovernanceActingContextTarget (gc_user_id cx) (gc_tenant_id cx) t)) (\<lambda>_.
                 ret cx1))
          else ret cx1)"

definition scope_gate :: "rule \<Rightarrow> gin_context \<Rightarrow> string \<Rightarrow> mw_store db \<Rightarrow> (err + unit) \<times> mw_store db" where
  "scope_gate r cx tenantID =
     (if ru_allowed_scope r = [] then ret ()
      else let rq = gc_request cx;
               requestedTenantID = Query ''tenant_id'' rq;
               requestedScope = (if Query ''scope'' rq = [] \<and> requestedTenantID = [] then ''current'' else Query ''scope'' rq) in
        if \<not> (\<exists>s\<in>set (ru_allowed_scope r). scopeValueMatches s requestedScope)
        then fail (Http 400 400 ''requested scope is not allowed'')
        else if requestedScope = ''current'' then ret ()
        else chk (on_mw_ids (ResolveTenantScopeFor (gc_user_id cx) tenantID requestedScope requestedTenantID (ru_resource r)))
               (\<lambda>_. ret ()))"

definition blank_audit :: audit_log where
  "blank_audit = \<lparr>a_id = [], a_seq = 0, a_tenant_id = [], a_actor_tenant_id = [], a_target_tenant_id = [],
     a_user_id = [], a_action = [], a_resource = [], a_resource_id = [], a_detail_json = [], a_ip = [],
     a_trace_id = [], a_scope = [], a_result = [], a_approval_id = [], a_acting_context_id = [],
     a_approval_action_hash = [], a_authorization_decision = [], a_authorization_permission = [],
     a_authorization_policy_version = [], a_at = zero_time, a_prev_hash = [], a_hash = []\<rparr>"

text \<open>\<^verbatim>\<open>RecordAudit\<close> on the audit table; none of the entries below raises an alert.\<close>

definition mw_RecordAudit :: "mw_env \<Rightarrow> audit_log \<Rightarrow> mw_store db \<Rightarrow> (err + unit) \<times> mw_store db" where
  "mw_RecordAudit env entry d =
     (case RecordAudit (me_sha env) (me_json env) (me_print env) (me_new_id env) (me_now env) entry (me_attempts env) of
        Inl e \<Rightarrow> (Inl e, d)
      | Inr (rows, _) \<Rightarrow> (Inr (), (fst d)\<lparr>mw_audits := rows\<rparr>, snd d))"

definition governance_entry :: "string \<Rightarrow> string \<Rightarrow> gin_context \<Rightarrow> tenant_scope \<Rightarrow> audit_log" where
  "governance_entry resource suffix cx scope =
     blank_audit\<lparr>a_tenant_id := gc_tenant_id cx, a_user_id := gc_user_id cx,
       a_action := resource @ suffix, a_resource := resource,
       a_ip := rq_client_ip (gc_request cx), a_trace_id := rq_request_id (gc_request cx),
       a_scope := kind_text (ts_kind scope), a_authorization_policy_version := ''explicit-rbac-v1''\<rparr>"

definition read_entry :: "string \<Rightarrow> gin_context \<Rightarrow> tenant_scope \<Rightarrow> audit_log" where
  "read_entry resource cx scope =
     (governance_entry resource ''.governance.read'' cx scope)
       \<lparr>a_resource_id := Query ''tenant_id'' (gc_request cx), a_target_tenant_id := ts_target_tenant_id scope,
        a_authorization_permission :=
          (if ts_permitted_by scope \<noteq> [] then ts_permitted_by scope else ''governance.read:tenant'')\<rparr>"

definition audit_gate :: "mw_env \<Rightarrow> rule \<Rightarrow> gin_context \<Rightarrow> mw_store db \<Rightarrow> (err + gin_context) \<times> mw_store db" where
  "audit_gate env r cx =
     (if \<not> (ru_audit_required r \<and> rq_method (gc_request cx) = ''GET'') then ret cx
      else chk (on_mw_ids (ResolveTenantScopeFor (gc_user_id cx) (gc_tenant_id cx) (Query ''scope'' (gc_request cx))
                  (Query ''tenant_id'' (gc_request cx)) (ru_resource r))) (\<lambda>scope.
           chk (if ScopeAll scope \<or> ts_kind scope = TenantScopeSpecific
                then mw_RecordAudit env (read_entry (ru_resource r) cx scope) else ret ()) (\<lambda>_.
           ret (cx\<lparr>gc_tenant_scope := Some scope\<rparr>))))"

definition apply_rule :: "mw_env \<Rightarrow> rule \<Rightarrow> gin_context \<Rightarrow> mw_store db \<Rightarrow> (err + gin_context) \<times> mw_store db" where
  "apply_rule env r cx = respond
     (chk (rule_scope r cx) (\<lambda>(tenantID, projectID, ownerID).
      chk (on_mw_ids (AuthorizeABAC (gc_user_id cx) (ru_action r) (ru_resource r) tenantID projectID ownerID)) (\<lambda>_.
      chk (write_gate env r cx) (\<lambda>cx1.
      chk (scope_gate r cx1 tenantID) (\<lambda>_.
      audit_gate env r cx1)))))"

definition RBAC :: "mw_env \<Rightarrow> rule list \<Rightarrow> gin_context \<Rightarrow> mw_store db \<Rightarrow> (err + gin_context) \<times> mw_store db" where
  "RBAC env rules cx =
     (case byKey rules (rq_method (gc_request cx) @ '' '' @ rq_full_path (gc_request cx)) of
        None \<Rightarrow> fail (Forbidden ''forbidden'')
      | Some r \<Rightarrow> apply_rule env r cx)"

text \<open>The authenticated group: a request that passes all three reaches its handler.\<close>

definition protected :: "mw_env \<Rightarrow> http_request \<Rightarrow> mw_store db \<Rightarrow> (err + gin_context) \<times> mw_store db" where
  "protected env rq =
     (case cookieCSRFHandler env rq of
        Inl e \<Rightarrow> fail e
      | Inr _ \<Rightarrow> chk (Auth env rq) (RBAC env accessRules))"

section \<open>Scopes in the handlers\<close>

definition resolveGovernanceScope :: "mw_env \<Rightarrow> string \<Rightarrow> gin_context \<Rightarrow> mw_store db \<Rightarrow> (err + tenant_scope) \<times> mw_store db" where
  "resolveGovernanceScope env resource cx =
     (case gc_tenant_scope cx of
        Some scope \<Rightarrow> ret scope
      | None \<Rightarrow> respond
          (chk (on_mw_ids (ResolveTenantScopeFor (gc_user_id cx) (gc_tenant_id cx) (Query ''scope'' (gc_request cx))
             (Query ''tenant_id'' (gc_request cx)) resource)) (\<lambda>scope.
           chk (if ScopeAll scope \<or> ts_kind scope = TenantScopeSpecific
                then mw_RecordAudit env ((read_entry resource cx scope)
                       \<lparr>a_detail_json := [CHR 0x22] @ kind_text (ts_kind scope) @ [CHR 0x22]\<rparr>)
                else ret ()) (\<lambda>_. ret scope))))"

definition requireSensitiveGovernanceRead :: "gin_context \<Rightarrow> tenant_scope \<Rightarrow> mw_store db \<Rightarrow> (err + unit) \<times> mw_store db" where
  "requireSensitiveGovernanceRead cx scope =
     (if ts_kind scope = TenantScopeCurrent then ret ()
      else respond (on_mw_ids (Authorize (gc_user_id cx) ''governance.read_sensitive'' ''tenant'')))"

definition resolveGovernanceWriteScope :: "mw_env \<Rightarrow> string \<Rightarrow> gin_context \<Rightarrow> mw_store db \<Rightarrow> (err + tenant_scope) \<times> mw_store db" where
  "resolveGovernanceWriteScope env resource cx = respond
     (chk (on_mw_ids (ResolveTenantScope (gc_user_id cx) (gc_tenant_id cx) (Query ''scope'' (gc_request cx))
        (Query ''tenant_id'' (gc_request cx)))) (\<lambda>scope.
      if ScopeAll scope then fail (Http 400 40000 ''cross-tenant writes require one selected workspace'')
      else chk (mw_RecordAudit env ((governance_entry resource ''.governance.write'' cx scope)
                  \<lparr>a_resource_id := CurrentTenantID scope, a_target_tenant_id := CurrentTenantID scope,
                   a_detail_json := [CHR 0x22] @ kind_text (ts_kind scope) @ [CHR 0x22],
                   a_authorization_permission := ''governance.manage:tenant''\<rparr>)) (\<lambda>_. ret scope)))"

end
