(* ===== verification/Authz_Props.thy ===== *)
theory Authz_Props
  imports Authz
begin

text \<open>
  What the authorizer decides: the roles it resolves are exactly the assigned ones and their
  ancestors, a decision is the deny-overrides rule over the permissions of these roles, a
  database fault never grants anything, and no decision crosses a tenant border without a
  platform role.
\<close>

section \<open>Calls that fail closed\<close>

text \<open>
  \<open>sound m\<close>: whatever \<open>m\<close> answers under faults, it also answers on a healthy database, and it
  never writes.
\<close>

definition sound :: "('s db \<Rightarrow> ('e + 'a) \<times> 's db) \<Rightarrow> bool" where
  "sound m \<longleftrightarrow> (\<forall>s fs a d. m (s, fs) = (Inr a, d) \<longrightarrow> m (s, []) = (Inr a, s, []) \<and> fst d = s)"

lemma soundD: "sound m \<Longrightarrow> m (s, fs) = (Inr a, d) \<Longrightarrow> m (s, []) = (Inr a, s, []) \<and> fst d = s"
  unfolding sound_def by blast

lemma sound_query [simp]: "sound (query f)"
  by (auto simp: sound_def query_eq split: if_splits)

lemma sound_ret [simp]: "sound (ret a)"
  by (simp add: sound_def)

lemma sound_fail [simp]: "sound (fail e)"
  by (simp add: sound_def)

lemma sound_answer [simp]: "sound (\<lambda>d. (r, d))"
  by (simp add: sound_def)

lemma sound_chk:
  assumes "sound m" and "\<And>a. sound (f a)"
  shows "sound (chk m f)"
  unfolding sound_def
proof (intro allI impI)
  fix s fs b d
  assume "chk m f (s, fs) = (Inr b, d)"
  then obtain a d1 where 1: "m (s, fs) = (Inr a, d1)" "f a d1 = (Inr b, d)" by (rule chk_InrE)
  from soundD [OF assms(1) 1(1)] have m: "m (s, []) = (Inr a, s, [])" and s: "fst d1 = s" by auto
  obtain fs1 where "d1 = (s, fs1)" using s by (cases d1) auto
  with 1(2) soundD [OF assms(2) [of a], of s fs1 b d] show "chk m f (s, []) = (Inr b, s, []) \<and> fst d = s"
    using m by (simp add: chk_def)
qed

lemma sound_if [simp]: "(c \<Longrightarrow> sound m) \<Longrightarrow> (\<not> c \<Longrightarrow> sound n) \<Longrightarrow> sound (if c then m else n)"
  by simp

lemma sound_option: "sound m \<Longrightarrow> (\<And>x. sound (f x)) \<Longrightarrow> sound (case o' of None \<Rightarrow> m | Some x \<Rightarrow> f x)"
  by (cases o') auto

lemmas sound_rules = sound_chk sound_option sound_query sound_ret sound_fail sound_answer

lemma sound_expand_loop: "sound (expand_loop queue collected known result)"
  unfolding sound_def
proof (intro allI impI)
  fix s fs a d
  assume "expand_loop queue collected known result (s, fs) = (Inr a, d)"
  then show "expand_loop queue collected known result (s, []) = (Inr a, s, []) \<and> fst d = s"
  proof (induction queue collected known result "(s, fs)" arbitrary: fs rule: expand_loop.induct)
    case (2 rid queue collected known result fs)
    obtain res s1 fs1 where g: "GetRole rid (s, fs) = (res, s1, fs1)" by (metis prod_cases3)
    then have s1: "s1 = s" and res: "res = Inl DbFault \<or> res = Inr (row_at ro_id rid (roles s))"
      using GetRole_cases by fastforce+
    show ?case
    proof (cases "rid \<in> set known")
      case True
      with 2 show ?thesis by simp
    next
      case False
      from res show ?thesis
      proof
        assume "res = Inl DbFault"
        with 2(5) g False show ?thesis by simp
      next
        assume r: "res = Inr (row_at ro_id rid (roles s))"
        have h: "GetRole rid (s, []) = (Inr (row_at ro_id rid (roles s)), s, [])" by (simp add: GetRole_def)
        have g1: "(res, s, fs1) = GetRole rid (s, fs)" using g s1 by simp
        show ?thesis
        proof (cases "row_at ro_id rid (roles s)")
          case None
          then show ?thesis using 2(5) False r s1 g h 2(2) [OF False g1 r] by simp
        next
          case (Some ro)
          show ?thesis
          proof (cases "ro_parent_id ro \<noteq> [] \<and> ro_parent_id ro \<notin> set collected")
            case True
            then show ?thesis using 2(5) False r s1 g h Some 2(3) [OF False g1 r Some True] by simp
          next
            case no: False
            then show ?thesis using 2(5) False r s1 g h Some 2(4) [OF False g1 r Some no] by auto
          qed
        qed
      qed
    qed
  qed auto
qed

lemma sound_collect: "sound (collect_rules rids g)"
  by (induction rids arbitrary: g) (auto intro!: sound_rules simp: id_reads simp del: ret_eq)

lemma sound_authz: "sound (authz userID)"
  unfolding authz_def EnsureTenantActive_def roles_or_marker_def expandRoles_def id_reads
  by (intro sound_rules sound_if sound_expand_loop sound_collect)

lemma sound_Authorize: "sound (Authorize userID action resource)"
  unfolding Authorize_def by (intro sound_rules sound_authz)

lemma sound_teams: "sound (tenant_teams t is)"
  by (induction "is") (auto intro!: sound_rules simp: id_reads simp del: ret_eq)

lemma sound_ABAC: "sound (AuthorizeABAC actorID action resource tenantID projectID ownerID)"
  unfolding AuthorizeABAC_def project_check_def projectMember_def isProjectBoundToOwnedTeam_def id_reads
  by (intro sound_rules sound_if sound_authz sound_Authorize sound_teams)

section \<open>The roles of a user\<close>

definition parent_rel :: "id_store \<Rightarrow> (string \<times> string) set" where
  "parent_rel s = {(a, b). \<exists>r. row_at ro_id a (roles s) = Some r \<and> ro_parent_id r = b \<and> b \<noteq> []}"

lemma closed_closure: "(\<And>a b. a \<in> A \<Longrightarrow> (a, b) \<in> R \<Longrightarrow> b \<in> A) \<Longrightarrow> R\<^sup>* `` A = A"
  by (auto elim: rtrancl_induct)

lemma closure_insert: "a \<in> A \<Longrightarrow> (a, b) \<in> R \<Longrightarrow> R\<^sup>* `` insert b A = R\<^sup>* `` A"
  by (auto intro: converse_rtrancl_into_rtrancl)

lemma expand_loop_closure:
  assumes "set collected = set known \<union> set queue" and "set result = set known"
    and "\<And>a b. a \<in> set known \<Longrightarrow> (a, b) \<in> parent_rel s \<Longrightarrow> b \<in> set collected"
  shows "\<exists>rids. expand_loop queue collected known result (s, []) = (Inr rids, s, []) \<and>
    set rids = (parent_rel s)\<^sup>* `` set collected"
  using assms
proof (induction queue collected known result "(s, [] :: bool list)" rule: expand_loop.induct)
  case (1 collected known result)
  then show ?case using closed_closure [of "set collected" "parent_rel s"] by auto
next
  case (2 rid queue collected known result)
  show ?case
  proof (cases "rid \<in> set known")
    case True
    have "\<exists>rids. expand_loop queue collected known (result @ [rid]) (s, []) = (Inr rids, s, []) \<and>
        set rids = (parent_rel s)\<^sup>* `` set collected"
      using 2(5-7) True by (intro 2(1) [OF True]) auto
    then show ?thesis using True by simp
  next
    case False
    have g: "GetRole rid (s, []) = (Inr (row_at ro_id rid (roles s)), s, [])" by (simp add: GetRole_def)
    show ?thesis
    proof (cases "row_at ro_id rid (roles s)")
      case None
      then have "(rid, b) \<notin> parent_rel s" for b by (simp add: parent_rel_def)
      then have "\<exists>rids. expand_loop queue collected (rid # known) (result @ [rid]) (s, []) =
          (Inr rids, s, []) \<and> set rids = (parent_rel s)\<^sup>* `` set collected"
        using 2(5,6) by (intro 2(2) [OF False g [symmetric] refl None]) (auto dest: 2(7))
      then show ?thesis using False None g by simp
    next
      case (Some r)
      then have par: "(rid, b) \<in> parent_rel s \<longleftrightarrow> b = ro_parent_id r \<and> b \<noteq> []" for b by (auto simp: parent_rel_def)
      show ?thesis
      proof (cases "ro_parent_id r \<noteq> [] \<and> ro_parent_id r \<notin> set collected")
        case True
        have "rid \<in> set collected" "(rid, ro_parent_id r) \<in> parent_rel s" using 2(5) True par by auto
        from closure_insert [OF this]
        have c: "(parent_rel s)\<^sup>* `` set (ro_parent_id r # collected) = (parent_rel s)\<^sup>* `` set collected" by simp
        have "\<exists>rids. expand_loop (queue @ [ro_parent_id r]) (ro_parent_id r # collected) (rid # known) (result @ [rid]) (s, []) =
            (Inr rids, s, []) \<and> set rids = (parent_rel s)\<^sup>* `` set (ro_parent_id r # collected)"
          using 2(5-7) par by (intro 2(3) [OF False g [symmetric] refl Some True]) auto
        then show ?thesis unfolding c using False True Some g by simp
      next
        case no: False
        have "\<exists>rids. expand_loop queue collected (rid # known) (result @ [rid]) (s, []) =
            (Inr rids, s, []) \<and> set rids = (parent_rel s)\<^sup>* `` set collected"
          using 2(5-7) par no by (intro 2(4) [OF False g [symmetric] refl Some no]) auto
        then show ?thesis using False no Some g by auto
      qed
    qed
  qed
qed

lemma set_start_ids: "set (start_ids rs) = ro_id ` set rs - {[]}"
proof -
  have "set (foldl (\<lambda>q r. if ro_id r \<noteq> [] \<and> ro_id r \<notin> set q then q @ [ro_id r] else q) q rs) =
      set q \<union> (ro_id ` set rs - {[]})" for q
    by (induction rs arbitrary: q) auto
  then show ?thesis by (simp add: start_ids_def)
qed

lemma expandRoles_closure: "\<exists>rids. expandRoles rs (s, []) = (Inr rids, s, []) \<and>
    set rids = (parent_rel s)\<^sup>* `` (ro_id ` set rs - {[]})"
  unfolding expandRoles_def set_start_ids [symmetric] by (rule expand_loop_closure) simp_all

section \<open>The rules of a set of roles\<close>

text \<open>
  The duplicate check joins the fields of a rule with bars; it identifies rules only if no field
  contains one, as in every catalog permission.
\<close>

definition clean_rule :: "permission \<Rightarrow> bool" where
  "clean_rule p \<longleftrightarrow> CHR ''|'' \<notin> set (p_role_id p) \<union> set (p_action p) \<union> set (p_resource p)"

definition rule_sig :: "permission \<Rightarrow> string \<times> string \<times> string \<times> string" where
  "rule_sig p = (p_role_id p, p_action p, p_resource p, p_effect p)"

lemma perm_key_sig: "clean_rule p \<Longrightarrow> clean_rule q \<Longrightarrow> perm_key p = perm_key q \<Longrightarrow> rule_sig p = rule_sig q"
  unfolding perm_key_def clean_rule_def rule_sig_def by (auto dest!: sep_unique [rotated 2])

definition collected :: "permission set \<Rightarrow> grants \<Rightarrow> bool" where
  "collected P g \<longleftrightarrow> set (g_seen g) = perm_key ` P \<and>
     rule_sig ` set (g_allow g) = rule_sig ` {p \<in> P. p_effect p \<noteq> PermissionEffectDeny} \<and>
     rule_sig ` set (g_deny g) = rule_sig ` {p \<in> P. p_effect p = PermissionEffectDeny}"

lemma sig_absorb:
  assumes "q \<in> P" and "rule_sig p = rule_sig q"
  shows "rule_sig ` {x \<in> insert p P. Q (p_effect x)} = rule_sig ` {x \<in> P. Q (p_effect x)}"
proof -
  have "p_effect p = p_effect q" using assms(2) by (simp add: rule_sig_def)
  then show ?thesis using assms by (auto simp: image_iff)
qed

lemma collected_add:
  assumes "collected P g" and "\<forall>x\<in>insert p P. clean_rule x"
  shows "collected (insert p P) (add_rule p g)"
proof (cases "perm_key p \<in> set (g_seen g)")
  case True
  then obtain q where q: "q \<in> P" "perm_key p = perm_key q" using assms(1) by (auto simp: collected_def)
  then have "rule_sig p = rule_sig q" using assms(2) perm_key_sig by blast
  with q sig_absorb [of q P p "\<lambda>e. e \<noteq> PermissionEffectDeny"] sig_absorb [of q P p "\<lambda>e. e = PermissionEffectDeny"]
  show ?thesis using assms(1) True by (auto simp: collected_def add_rule_def)
next
  case False
  have split: "{x \<in> insert p P. Q x} = (if Q p then insert p {x \<in> P. Q x} else {x \<in> P. Q x})" for Q by auto
  show ?thesis using assms(1) False by (auto simp: collected_def add_rule_def split)
qed

lemma collected_fold:
  "collected P g \<Longrightarrow> \<forall>x\<in>P \<union> set ps. clean_rule x \<Longrightarrow> collected (P \<union> set ps) (fold add_rule ps g)"
proof (induction ps arbitrary: P g)
  case (Cons p ps)
  from Cons.IH [OF collected_add [OF Cons.prems(1)], of p] Cons.prems(2) show ?case by simp
qed simp

lemma g_platform_add [simp]: "g_platform (add_rule p g) = g_platform g"
  by (simp add: add_rule_def)

lemma g_platform_fold [simp]: "g_platform (fold add_rule ps g) = g_platform g"
  by (induction ps arbitrary: g) simp_all

lemma collected_platform [simp]: "collected P (g\<lparr>g_platform := b\<rparr>) = collected P g"
  by (simp add: collected_def)

definition rules_of :: "id_store \<Rightarrow> string set \<Rightarrow> permission set" where
  "rules_of s R = {p \<in> set (permissions s). p_role_id p \<in> R}"

definition platform_scoped :: "id_store \<Rightarrow> string \<Rightarrow> bool" where
  "platform_scoped s rid \<longleftrightarrow> (\<exists>r. row_at ro_id rid (roles s) = Some r \<and> ro_scope r = RoleScopePlatform)"

lemma collect_rules_spec:
  assumes "\<forall>p\<in>set (permissions s). clean_rule p" and "collected (rules_of s R) g"
  shows "\<exists>g1. collect_rules rids g (s, []) = (Inr g1, s, []) \<and> collected (rules_of s (R \<union> set rids)) g1 \<and>
    (g_platform g1 \<longleftrightarrow> g_platform g \<or> (\<exists>rid\<in>set rids. platform_scoped s rid))"
  using assms(2)
proof (induction rids arbitrary: R g)
  case (Cons rid rids)
  let ?g = "fold add_rule (filter (\<lambda>p. p_role_id p = rid) (permissions s))
    (case row_at ro_id rid (roles s) of
       Some ro \<Rightarrow> if ro_scope ro = RoleScopePlatform then g\<lparr>g_platform := True\<rparr> else g | None \<Rightarrow> g)"
  have "rules_of s R \<union> set (filter (\<lambda>p. p_role_id p = rid) (permissions s)) = rules_of s (insert rid R)"
    by (auto simp: rules_of_def)
  moreover have "collected (rules_of s R) (case row_at ro_id rid (roles s) of
      Some ro \<Rightarrow> if ro_scope ro = RoleScopePlatform then g\<lparr>g_platform := True\<rparr> else g | None \<Rightarrow> g)"
    using Cons.prems by (simp split: option.splits)
  ultimately have "collected (rules_of s (insert rid R)) ?g"
    using collected_fold [of "rules_of s R" _ "filter (\<lambda>p. p_role_id p = rid) (permissions s)"] assms(1)
    by (auto simp: rules_of_def)
  from Cons.IH [OF this] obtain g1 where
    g1: "collect_rules rids ?g (s, []) = (Inr g1, s, [])" "collected (rules_of s (insert rid R \<union> set rids)) g1"
      "g_platform g1 \<longleftrightarrow> g_platform ?g \<or> (\<exists>rid\<in>set rids. platform_scoped s rid)" by blast
  have "collect_rules (rid # rids) g (s, []) = (Inr g1, s, [])" using g1(1) by (simp add: id_reads)
  then show ?case using g1(2,3) by (auto simp: platform_scoped_def split: option.splits if_splits)
qed simp

section \<open>Decisions\<close>

text \<open>
  The specification: the roles in force are the ancestors of the assigned roles, or of the marker
  role of a user without assignments; a deny rule of any of them refuses, an allow rule grants.
\<close>

definition assigned_ids :: "id_store \<Rightarrow> user \<Rightarrow> string set" where
  "assigned_ids s u =
     (let mine = {ro_id r | r. r \<in> set (roles s) \<and> (us_id u, ro_id r) \<in> set (user_roles s)}
      in if mine = {} then (if us_role u \<in> ro_id ` set (roles s) then {us_role u} else {}) else mine)"

definition effective_ids :: "id_store \<Rightarrow> user \<Rightarrow> string set" where
  "effective_ids s u = (parent_rel s)\<^sup>* `` (assigned_ids s u - {[]})"

definition refused :: "id_store \<Rightarrow> user \<Rightarrow> string \<Rightarrow> string \<Rightarrow> bool" where
  "refused s u action resource \<longleftrightarrow> (\<exists>p\<in>rules_of s (effective_ids s u).
     p_effect p = PermissionEffectDeny \<and> rule_hits p action resource)"

definition granted :: "id_store \<Rightarrow> user \<Rightarrow> string \<Rightarrow> string \<Rightarrow> bool" where
  "granted s u action resource \<longleftrightarrow> (\<exists>p\<in>rules_of s (effective_ids s u).
     p_effect p \<noteq> PermissionEffectDeny \<and> rule_grants p action resource)"

definition allowed :: "id_store \<Rightarrow> user \<Rightarrow> string \<Rightarrow> string \<Rightarrow> bool" where
  "allowed s u action resource \<longleftrightarrow> granted s u action resource \<and> \<not> refused s u action resource"

definition active_user :: "id_store \<Rightarrow> string \<Rightarrow> user \<Rightarrow> bool" where
  "active_user s userID u \<longleftrightarrow> row_at us_id userID (users s) = Some u \<and> us_status u = UserStatusActive \<and>
     (\<exists>t. row_at te_id (us_tenant_id u) (tenants s) = Some t \<and> te_status t = TenantStatusActive)"

definition platform_user :: "id_store \<Rightarrow> user \<Rightarrow> bool" where
  "platform_user s u \<longleftrightarrow> (\<exists>rid\<in>effective_ids s u. platform_scoped s rid) \<and> allowed s u ''governance.manage'' ''tenant''"

lemma user_roles_set: "set (sort_key ro_id (concat (map (\<lambda>r. map (\<lambda>_. r)
    (filter (\<lambda>ur. ur = (uid, ro_id r)) urs)) rs))) = {r \<in> set rs. (uid, ro_id r) \<in> set urs}"
  by auto

lemma rule_hits_sig: "rule_sig p = rule_sig q \<Longrightarrow> rule_hits p a x = rule_hits q a x"
  by (simp add: rule_sig_def rule_hits_def)

lemma rule_grants_sig: "rule_sig p = rule_sig q \<Longrightarrow> rule_grants p a x = rule_grants q a x"
  by (simp add: rule_sig_def rule_hits_def rule_grants_def)

lemma ex_by_sig:
  assumes "rule_sig ` A = rule_sig ` B" and "\<And>p q. rule_sig p = rule_sig q \<Longrightarrow> Q p = Q q"
  shows "(\<exists>p\<in>A. Q p) \<longleftrightarrow> (\<exists>p\<in>B. Q p)"
  using assms by (metis imageE imageI)

lemma evaluate_collected:
  assumes "collected (rules_of s (effective_ids s u)) g" and "ac_allow ac = g_allow g" and "ac_deny ac = g_deny g"
  shows "evaluate ac action resource = Inr () \<longleftrightarrow> allowed s u action resource"
proof -
  let ?R = "rules_of s (effective_ids s u)"
  have d: "rule_sig ` set (g_deny g) = rule_sig ` {p \<in> ?R. p_effect p = PermissionEffectDeny}"
    and a: "rule_sig ` set (g_allow g) = rule_sig ` {p \<in> ?R. p_effect p \<noteq> PermissionEffectDeny}"
    using assms(1) by (simp_all add: collected_def)
  have "(\<exists>p\<in>set (g_deny g). rule_hits p action resource) \<longleftrightarrow> refused s u action resource"
    using ex_by_sig [OF d, of "\<lambda>p. rule_hits p action resource", OF rule_hits_sig] by (simp add: refused_def Bex_def)
  moreover have "(\<exists>p\<in>set (g_allow g). rule_grants p action resource) \<longleftrightarrow> granted s u action resource"
    using ex_by_sig [OF a, of "\<lambda>p. rule_grants p action resource", OF rule_grants_sig] by (simp add: granted_def Bex_def)
  ultimately show ?thesis using assms(2,3) by (simp add: evaluate_def allowed_def)
qed

lemma roles_resolved:
  assumes "row_at us_id userID (users s) = Some u"
  shows "\<exists>rs rs1. ListRolesByUser userID (s, []) = (Inr rs, s, []) \<and>
    roles_or_marker u rs (s, []) = (Inr rs1, s, []) \<and> ro_id ` set rs1 = assigned_ids s u"
proof -
  have i: "us_id u = userID" using row_at_SomeD [OF assms] by simp
  let ?rs = "sort_key ro_id (concat (map (\<lambda>r. map (\<lambda>_. r)
    (filter (\<lambda>ur. ur = (userID, ro_id r)) (user_roles s))) (roles s)))"
  have set: "set ?rs = {r \<in> set (roles s). (userID, ro_id r) \<in> set (user_roles s)}" by (rule user_roles_set)
  then have mine: "ro_id ` set ?rs = {ro_id r | r. r \<in> set (roles s) \<and> (userID, ro_id r) \<in> set (user_roles s)}" by auto
  have l: "ListRolesByUser userID (s, []) = (Inr ?rs, s, [])" by (simp add: ListRolesByUser_def)
  show ?thesis
  proof (cases "?rs = []")
    case True
    then have none: "{ro_id r | r. r \<in> set (roles s) \<and> (userID, ro_id r) \<in> set (user_roles s)} = {}"
      unfolding mine [symmetric] by simp
    let ?m = "case row_at ro_id (us_role u) (roles s) of None \<Rightarrow> [] | Some ro \<Rightarrow> [ro]"
    have "roles_or_marker u ?rs (s, []) = (Inr ?m, s, [])" using True by (simp add: roles_or_marker_def GetRole_def)
    moreover have "ro_id ` set ?m = assigned_ids s u"
    proof (cases "row_at ro_id (us_role u) (roles s)")
      case None
      then have "us_role u \<notin> ro_id ` set (roles s)" by (simp add: row_at_None_iff)
      then show ?thesis using none i None by (auto simp: assigned_ids_def)
    next
      case (Some ro)
      with row_at_SomeD [OF Some] none i show ?thesis by (auto simp: assigned_ids_def intro: rev_image_eqI)
    qed
    ultimately show ?thesis using l by blast
  next
    case False
    then have some: "{ro_id r | r. r \<in> set (roles s) \<and> (userID, ro_id r) \<in> set (user_roles s)} \<noteq> {}"
      unfolding mine [symmetric] by (simp only: image_is_empty set_empty) simp
    have "roles_or_marker u ?rs (s, []) = (Inr ?rs, s, [])" using False by (simp add: roles_or_marker_def)
    moreover have "ro_id ` set ?rs = assigned_ids s u"
      unfolding mine assigned_ids_def i using some by (simp only: Let_def if_False)
    ultimately show ?thesis using l by blast
  qed
qed

lemma authz_active:
  assumes clean: "\<forall>p\<in>set (permissions s). clean_rule p" and "active_user s userID u"
  shows "\<exists>ac. authz userID (s, []) = (Inr ac, s, []) \<and> ac_user ac = u \<and>
    (\<forall>a x. evaluate ac a x = Inr () \<longleftrightarrow> allowed s u a x) \<and> (ac_platform ac \<longleftrightarrow> platform_user s u)"
proof -
  from assms(2) obtain te where u: "row_at us_id userID (users s) = Some u" "us_status u = UserStatusActive"
    and te: "row_at te_id (us_tenant_id u) (tenants s) = Some te" "te_status te = TenantStatusActive"
    by (auto simp: active_user_def)
  from roles_resolved [OF u(1)] obtain rs rs1 where
    rs: "ListRolesByUser userID (s, []) = (Inr rs, s, [])" "roles_or_marker u rs (s, []) = (Inr rs1, s, [])"
      "ro_id ` set rs1 = assigned_ids s u" by blast
  from expandRoles_closure [of rs1 s] rs(3) obtain rids where
    rids: "expandRoles rs1 (s, []) = (Inr rids, s, [])" "set rids = effective_ids s u"
    by (auto simp: effective_ids_def)
  have "collected (rules_of s {}) no_grants" by (simp add: collected_def rules_of_def no_grants_def)
  from collect_rules_spec [OF clean this, of rids] rids(2) obtain g where
    g: "collect_rules rids no_grants (s, []) = (Inr g, s, [])" "collected (rules_of s (effective_ids s u)) g"
      "g_platform g \<longleftrightarrow> (\<exists>rid\<in>effective_ids s u. platform_scoped s rid)"
    by (auto simp: no_grants_def)
  have ev: "evaluate ac a x = Inr () \<longleftrightarrow> allowed s u a x" if "ac_allow ac = g_allow g" "ac_deny ac = g_deny g" for ac a x
    using evaluate_collected [OF g(2)] that by blast
  have "authz userID (s, []) = (Inr (context_of u g), s, [])"
    using u te rs(1,2) rids(1) g(1)
    by (simp add: authz_def GetUser_def EnsureTenantActive_def GetTenant_def chk_def)
  then show ?thesis using ev g(3) by (auto simp: context_of_def Let_def platform_user_def)
qed

lemma authz_inactive:
  assumes "\<nexists>u. active_user s userID u"
  shows "\<exists>e. authz userID (s, []) = (Inl e, s, [])"
  using assms
  by (auto simp: authz_def GetUser_def EnsureTenantActive_def GetTenant_def chk_def active_user_def split: option.splits)

lemma Authorize_spec:
  assumes "\<forall>p\<in>set (permissions s). clean_rule p"
  shows "fst (Authorize userID a x (s, [])) = Inr () \<longleftrightarrow> (\<exists>u. active_user s userID u \<and> allowed s u a x)"
proof (cases "\<exists>u. active_user s userID u")
  case True
  then obtain u where u: "active_user s userID u" by blast
  from authz_active [OF assms u] obtain ac where
    ac: "authz userID (s, []) = (Inr ac, s, [])" "evaluate ac a x = Inr () \<longleftrightarrow> allowed s u a x" by blast
  have "(\<exists>u'. active_user s userID u' \<and> allowed s u' a x) \<longleftrightarrow> allowed s u a x"
    using u unfolding active_user_def by (metis option.inject)
  then show ?thesis using ac by (simp add: Authorize_def chk_def)
next
  case False
  then show ?thesis using authz_inactive [OF False] by (auto simp: Authorize_def chk_def)
qed

lemma across_spec:
  assumes "\<forall>a x. evaluate ac a x = Inr () \<longleftrightarrow> allowed s u a x" and "ac_platform ac \<longleftrightarrow> platform_user s u"
    and "canAccessAcrossTenant ac a"
  shows "platform_user s u \<and> (a \<in> {''read'', ''test''} \<and> allowed s u ''governance.read'' ''tenant'' \<or>
    a \<in> {''manage'', ''execute''} \<and> allowed s u ''governance.manage'' ''tenant'')"
  using assms by (auto simp: canAccessAcrossTenant_def split: if_splits)

lemma ABAC_spec:
  assumes clean: "\<forall>p\<in>set (permissions s). clean_rule p"
    and "fst (AuthorizeABAC actorID a x t pid oid (s, [])) = Inr ()"
  shows "\<exists>u. active_user s actorID u \<and> allowed s u a x \<and> (us_tenant_id u = t \<or> platform_user s u \<and>
    (a \<in> {''read'', ''test''} \<and> allowed s u ''governance.read'' ''tenant'' \<or>
     a \<in> {''manage'', ''execute''} \<and> allowed s u ''governance.manage'' ''tenant''))"
proof -
  obtain d where "AuthorizeABAC actorID a x t pid oid (s, []) = (Inr (), d)" using assms(2) by (metis prod.collapse)
  then obtain d1 where d1: "Authorize actorID a x (s, []) = (Inr (), d1)" and
    rest: "chk (authz actorID) (\<lambda>ac. if us_tenant_id (ac_user ac) \<noteq> t
       then (if canAccessAcrossTenant ac a then ret () else fail ErrForbidden)
       else project_check ac actorID t pid oid) d1 = (Inr (), d)"
    unfolding AuthorizeABAC_def by (auto elim: chk_InrE)
  then obtain u where u: "active_user s actorID u" "allowed s u a x"
    using Authorize_spec [OF clean, of actorID a x] by auto
  have "d1 = (s, [])" using soundD [OF sound_Authorize d1] d1 by simp
  with rest authz_active [OF clean u(1)] obtain ac where "ac_user ac = u"
    "\<forall>a x. evaluate ac a x = Inr () \<longleftrightarrow> allowed s u a x" "ac_platform ac \<longleftrightarrow> platform_user s u"
    "us_tenant_id u = t \<or> canAccessAcrossTenant ac a"
    by (auto simp: chk_def split: if_splits)
  with across_spec [of ac s u a] u show ?thesis by blast
qed

section \<open>What the authorizer guarantees\<close>


text \<open>
  The authorizer fails closed. An object check that succeeds while database calls may fail at
  any point also succeeds on a healthy database, and it writes nothing: a fault can refuse a
  request but never admit one.
\<close>

theorem database_fault_never_grants:
  assumes "AuthorizeABAC actorID action resource tenantID projectID ownerID (s, fs) = (Inr (), s1, fs1)"
  shows "AuthorizeABAC actorID action resource tenantID projectID ownerID (s, []) = (Inr (), s, []) \<and> s1 = s"
  using soundD [OF sound_ABAC assms] by simp

text \<open>
  C17: No access crosses a tenant border without a platform role. An object check that succeeds,
  whatever faults occur, is for an active user with the permission who either belongs to the
  tenant of the object, or holds a platform-scoped role together with the governance permission
  that the kind of the action asks for.
\<close>

theorem cross_tenant_needs_platform_role:
  assumes "\<forall>p\<in>set (permissions s). clean_rule p"
    and "AuthorizeABAC actorID action resource tenantID projectID ownerID (s, fs) = (Inr (), s1, fs1)"
  shows "\<exists>u. active_user s actorID u \<and> allowed s u action resource \<and>
    (us_tenant_id u = tenantID \<or> platform_user s u \<and>
      (action \<in> {''read'', ''test''} \<and> allowed s u ''governance.read'' ''tenant'' \<or>
       action \<in> {''manage'', ''execute''} \<and> allowed s u ''governance.manage'' ''tenant''))"
  using ABAC_spec [OF assms(1), of actorID action resource tenantID projectID ownerID] soundD [OF sound_ABAC assms(2)]
  by simp

section \<open>Witnesses\<close>

text \<open>
  A workspace with an administrator, whose role inherits from another one in a cycle, and a
  platform administrator of another tenant.
\<close>

definition demo_rule :: "string \<Rightarrow> string \<Rightarrow> string \<Rightarrow> string \<Rightarrow> permission" where
  "demo_rule r a x e = \<lparr>p_id = r @ a @ x, p_role_id = r, p_action = a, p_resource = x, p_effect = e\<rparr>"

definition demo_role :: "string \<Rightarrow> string \<Rightarrow> string \<Rightarrow> role" where
  "demo_role i sc par = \<lparr>ro_id = i, ro_tenant_id = [], ro_name = i, ro_scope = sc, ro_description = [], ro_parent_id = par\<rparr>"

definition demo_user :: "string \<Rightarrow> string \<Rightarrow> string \<Rightarrow> user" where
  "demo_user i t r = \<lparr>us_id = i, us_tenant_id = t, us_username = i, us_password_hash = [], us_email = [],
     us_role = r, us_status = UserStatusActive\<rparr>"

definition demo_ids :: id_store where
  "demo_ids = \<lparr>tenants = [\<lparr>te_id = ''t1'', te_name = ''t1'', te_status = ''active''\<rparr>,
       \<lparr>te_id = ''t0'', te_name = ''t0'', te_status = ''active''\<rparr>],
     users = [demo_user ''ann'' ''t1'' ''r1'', demo_user ''root'' ''t0'' ''pf''],
     roles = [demo_role ''r1'' ''tenant'' ''r2'', demo_role ''r2'' ''tenant'' ''r1'', demo_role ''pf'' ''platform'' []],
     user_roles = [(''ann'', ''r1''), (''root'', ''pf'')],
     permissions = [demo_rule ''r2'' ''manage'' ''doc'' ''allow'', demo_rule ''r1'' ''manage'' ''key'' ''allow'',
       demo_rule ''r2'' ''manage'' ''key'' ''deny'', demo_rule ''pf'' ''governance.manage'' ''tenant'' ''allow'',
       demo_rule ''pf'' ''manage'' ''doc'' ''allow''],
     teams = [], user_teams = [], team_projects = [], project_members = []\<rparr>"

lemma demo_clean: "\<forall>p\<in>set (permissions demo_ids). clean_rule p"
  by (simp add: demo_ids_def demo_rule_def clean_rule_def)


theorem database_fault_never_grants_witness:
  "AuthorizeABAC ''ann'' ''read'' ''doc'' ''t1'' [] [] (demo_ids, []) = (Inr (), demo_ids, [])"
proof -
  have "AuthorizeABAC ''ann'' ''read'' ''doc'' ''t1'' [] [] (demo_ids, [False]) = (Inr (), demo_ids, [])" by code_simp
  from database_fault_never_grants [OF this] show ?thesis by simp
qed

theorem cross_tenant_needs_platform_role_witness:
  "\<exists>u. active_user demo_ids ''root'' u \<and> platform_user demo_ids u"
proof -
  have "AuthorizeABAC ''root'' ''manage'' ''doc'' ''t1'' [] [] (demo_ids, []) = (Inr (), demo_ids, [])" by code_simp
  from cross_tenant_needs_platform_role [OF demo_clean this] obtain u where
    u: "active_user demo_ids ''root'' u" "us_tenant_id u = ''t1'' \<or> platform_user demo_ids u" by blast
  have "map_option us_tenant_id (row_at us_id ''root'' (users demo_ids)) = Some ''t0''" by code_simp
  then have "us_tenant_id u \<noteq> ''t1''" using u(1) by (auto simp: active_user_def)
  with u show ?thesis by blast
qed

end
