(* ===== verification/Middleware_Props.thy ===== *)
theory Middleware_Props
  imports Middleware Authz_Props
begin

text \<open>
  What the middleware guarantees: a request that reaches its handler was authenticated, authorized by
  the rule registered for its route and, where it leaves its workspace, gated and audited, whatever
  database faults occur; and where the gates look at other parameters than the code behind them.
\<close>

section \<open>Calls that fail closed\<close>

lemma sound_on_mw_ids:
  assumes "sound m"
  shows "sound (on_mw_ids m)"
  unfolding sound_def
proof (intro allI impI)
  fix s fs a d
  assume "on_mw_ids m (s, fs) = (Inr a, d)"
  then obtain i fs1 where 1: "m (mw_ids s, fs) = (Inr a, i, fs1)" "d = (s\<lparr>mw_ids := i\<rparr>, fs1)"
    by (auto simp: on_mw_ids_def split: prod.splits)
  with soundD [OF assms 1(1)] show "on_mw_ids m (s, []) = (Inr a, s, []) \<and> fst d = s"
    by (simp add: on_mw_ids_def)
qed

lemma on_mw_ids_healthy: "m (mw_ids s, []) = (r, mw_ids s, []) \<Longrightarrow> on_mw_ids m (s, []) = (r, s, [])"
  by (simp add: on_mw_ids_def)

lemma on_mw_ids_Inr:
  assumes "sound m" and "on_mw_ids m (s, fs) = (Inr a, d)"
  shows "fst d = s \<and> m (mw_ids s, []) = (Inr a, mw_ids s, [])"
proof -
  obtain i fs1 where "m (mw_ids s, fs) = (Inr a, i, fs1)" "d = (s\<lparr>mw_ids := i\<rparr>, fs1)"
    using assms(2) by (auto simp: on_mw_ids_def split: prod.splits)
  then show ?thesis using soundD [OF assms(1)] by fastforce
qed

lemma respond_Inr [simp]: "respond m d = (Inr a, d1) \<longleftrightarrow> m d = (Inr a, d1)"
  by (auto simp: respond_def split: prod.splits sum.splits)

lemma sound_respond: "sound m \<Longrightarrow> sound (respond m)"
  by (simp add: sound_def)

lemma sound_scoped_first [simp]: "sound (scoped_first tab t i)"
  by (simp add: scoped_first_def)

lemma sound_bundle [simp]: "sound (GetEvidenceSnapshotBundle t i)"
  unfolding GetEvidenceSnapshotBundle_def by (intro sound_rules sound_scoped_first)

lemma sound_tenant_only: "sound m \<Longrightarrow> sound (tenant_only t m)"
  unfolding tenant_only_def by (intro sound_rules)

lemma sound_with_row: "sound m \<Longrightarrow> (\<And>r. sound (f r)) \<Longrightarrow> sound (with_row t f m)"
  unfolding with_row_def by (intro sound_rules)

lemmas lookup_defs = GetParserPolicy_def GetQualityProfile_def GetLogicalDocument_def GetDatasetLink_def
  GetToolRegistry_def GetSourceRoutingRule_def GetDBConnection_def GetQueryTemplate_def
  GetKnowledgeStrategy_def GetOutboxEvent_def GetEvalCase_def GetMemoryOperation_def GetProject_def

lemma sound_resolve_scope: "sound (resolve_scope res t ps)"
  by (cases res) (auto simp: lookup_defs intro!: sound_tenant_only sound_with_row)

lemma sound_ResolveTenantScopeFor: "sound (ResolveTenantScopeFor u t sc tid cap)"
  unfolding ResolveTenantScopeFor_def Let_def ListAllTenants_def GetTenant_def
  by (intro sound_rules sound_if sound_authz)

lemma sound_EnsureTenantActive: "sound (EnsureTenantActive t)"
  unfolding EnsureTenantActive_def GetTenant_def by (intro sound_rules sound_if)

lemma sound_acting_target: "sound (EnsureGovernanceActingContextTarget a t x)"
  unfolding EnsureGovernanceActingContextTarget_def
  by (intro sound_if sound_rules sound_Authorize sound_EnsureTenantActive)

lemma sound_approval_enabled [simp]: "sound (EnsureGovernanceApprovalEnabled b)"
  by (simp add: EnsureGovernanceApprovalEnabled_def)

lemma sound_rule_scope: "sound (rule_scope r cx)"
proof (cases "ru_resolve r")
  case None
  then show ?thesis by (simp add: sound_def rule_scope_def)
next
  case (Some res)
  show ?thesis unfolding sound_def
  proof (intro allI impI)
    fix s fs a d
    assume "rule_scope r cx (s, fs) = (Inr a, d)"
    then obtain x where x: "resolve_scope res (gc_tenant_id cx) (rq_params (gc_request cx)) (s, fs) = (Inr x, d)"
      "a = (case x of (rt, rp, ro) \<Rightarrow> (if rt = [] then gc_tenant_id cx else rt, rp, ro))"
      using Some by (auto simp: rule_scope_def split: prod.splits sum.splits)
    from soundD [OF sound_resolve_scope x(1)] x(2) Some
    show "rule_scope r cx (s, []) = (Inr a, s, []) \<and> fst d = s" by (simp add: rule_scope_def split: prod.splits)
  qed
qed

lemma sound_write_gate: "sound (write_gate env r cx)"
  unfolding write_gate_def Let_def
  by (auto intro!: sound_rules sound_on_mw_ids sound_acting_target split: option.splits)

lemma sound_scope_gate: "sound (scope_gate r cx t)"
  unfolding scope_gate_def Let_def
  by (intro sound_if sound_rules sound_on_mw_ids sound_ResolveTenantScopeFor)

lemmas sound_steps = sound_rule_scope sound_write_gate sound_scope_gate sound_on_mw_ids sound_ABAC
  sound_ResolveTenantScopeFor sound_EnsureTenantActive sound_acting_target

section \<open>The steps of the access check\<close>

text \<open>Every resolver stays in the tenant of the request.\<close>

lemma resolve_scope_tenant: "resolve_scope res t ps d = (Inr (rt, rp, ro), d1) \<Longrightarrow> rt = t"
  by (cases res) (auto simp: tenant_only_def with_row_def elim!: chk_InrE split: option.splits)

lemma rule_scope_tenant: "rule_scope r cx d = (Inr (t, p, o'), d1) \<Longrightarrow> t = gc_tenant_id cx"
  by (auto simp: rule_scope_def split: option.splits prod.splits sum.splits if_splits
      dest: resolve_scope_tenant)

lemma write_gate_keeps:
  assumes "write_gate env r cx d = (Inr cx1, d1)"
  shows "gc_user_id cx1 = gc_user_id cx \<and> gc_tenant_id cx1 = gc_tenant_id cx \<and>
    rq_method (gc_request cx1) = rq_method (gc_request cx) \<and> rq_query (gc_request cx1) = rq_query (gc_request cx) \<and>
    (rq_method (gc_request cx) = ''GET'' \<longrightarrow> cx1 = cx)"
proof -
  have g: "rq_method rq1 = rq_method rq \<and> rq_query rq1 = rq_query rq"
    if "governanceTargetTenant env rq = Some (t, rq1)" for rq t rq1
    using that by (auto simp: governanceTargetTenant_def Let_def split: if_splits option.splits prod.splits)
  show ?thesis using assms
    by (auto simp: write_gate_def Let_def split: if_splits option.splits prod.splits elim!: chk_InrE dest!: g)
qed

text \<open>The steps of an admitted request, with the store each one finds.\<close>

lemma RBAC_InrE:
  assumes "RBAC env rules cx (s, fs) = (Inr cx2, d)"
  obtains r cx1 fs1 where
    "byKey rules (rq_method (gc_request cx) @ '' '' @ rq_full_path (gc_request cx)) = Some r"
    "\<exists>p q. AuthorizeABAC (gc_user_id cx) (ru_action r) (ru_resource r) (gc_tenant_id cx) p q (mw_ids s, []) = (Inr (), mw_ids s, [])"
    "write_gate env r cx (s, []) = (Inr cx1, s, [])"
    "scope_gate r cx1 (gc_tenant_id cx) (s, []) = (Inr (), s, [])"
    "audit_gate env r cx1 (s, fs1) = (Inr cx2, d)"
proof -
  from assms obtain r where r: "byKey rules (rq_method (gc_request cx) @ '' '' @ rq_full_path (gc_request cx)) = Some r"
    by (auto simp: RBAC_def split: option.splits)
  with assms obtain t p q d1 d2 cx1 d3 d4 where
    1: "rule_scope r cx (s, fs) = (Inr (t, p, q), d1)" and
    2: "on_mw_ids (AuthorizeABAC (gc_user_id cx) (ru_action r) (ru_resource r) t p q) d1 = (Inr (), d2)" and
    3: "write_gate env r cx d2 = (Inr cx1, d3)" and
    4: "scope_gate r cx1 t d3 = (Inr (), d4)" and
    5: "audit_gate env r cx1 d4 = (Inr cx2, d)"
    by (auto simp: RBAC_def apply_rule_def elim!: chk_InrE)
  have t: "t = gc_tenant_id cx" using rule_scope_tenant [OF 1] .
  have d1: "fst d1 = s" using soundD [OF sound_rule_scope 1] by simp
  have d2: "fst d2 = s" "AuthorizeABAC (gc_user_id cx) (ru_action r) (ru_resource r) t p q (mw_ids s, []) = (Inr (), mw_ids s, [])"
    using on_mw_ids_Inr [OF sound_ABAC, of _ _ _ _ _ _ s "snd d1"] 2 d1 by (metis prod.collapse)+
  have d3: "fst d3 = s" "write_gate env r cx (s, []) = (Inr cx1, s, [])"
    using soundD [OF sound_write_gate, of _ _ _ s "snd d2"] 3 d2(1) by (metis prod.collapse)+
  have d4: "fst d4 = s" "scope_gate r cx1 t (s, []) = (Inr (), s, [])"
    using soundD [OF sound_scope_gate, of _ _ _ s "snd d3"] 4 d3(1) by (metis prod.collapse)+
  show thesis
    using that [OF r _ d3(2) d4(2) [unfolded t], of "snd d4"] 5 d4(1) d2(2) t by (metis prod.collapse)
qed

section \<open>Rules and their contracts\<close>

lemma byKey_Some: "byKey rules k = Some r \<Longrightarrow> r \<in> set rules \<and> rule_key r = k"
  by (auto simp: byKey_def dest!: map_of_SomeD)

lemma byKey_None: "byKey rules k = None \<longleftrightarrow> k \<notin> rule_key ` set rules"
  by (auto simp: byKey_def map_of_eq_None_iff image_image)

text \<open>A method is a token: it has no space.\<close>

definition plain_method :: "string \<Rightarrow> bool" where
  "plain_method m \<longleftrightarrow> CHR '' '' \<notin> set m"

lemma key_method:
  assumes "plain_method m" and "ru_method r = ''GET''" and "rule_key r = m @ '' '' @ p"
  shows "m = ''GET''"
proof -
  have "takeWhile (\<lambda>c. c \<noteq> CHR '' '') (m @ '' '' @ p) = takeWhile (\<lambda>c. c \<noteq> CHR '' '') (rule_key r)"
    using assms(3) by simp
  moreover have "takeWhile (\<lambda>c. c \<noteq> CHR '' '') (m @ '' '' @ p) = m"
    using assms(1) unfolding plain_method_def by (subst takeWhile_append2) auto
  ultimately show ?thesis using assms(2) by (simp add: rule_key_def)
qed

text \<open>The resources whose writes may address another workspace.\<close>

definition governed :: "string list" where
  "governed = [''agent'', ''chat'', ''dataset'', ''document'', ''enterprise-connection'', ''model-provider'']"

lemma governed_registered: "list_all (\<lambda>n. case map_of ResourceTypeRegistry n of None \<Rightarrow> False
    | Some d \<Rightarrow> rd_cross_tenant_write d \<and> rd_requires_approval d \<and> rd_acting_context d) governed"
  by code_simp

lemma governed_contract:
  assumes "r \<in> set accessRules" and "ru_resource r \<in> set governed" and "ru_method r \<noteq> ''GET''"
  shows "ru_acting_context r \<and> ru_cross_tenant_write r \<and> ru_requires_approval r \<and>
    ru_allowed_scope r = [AllowedScopeCurrent, AllowedScopeSpecific]"
proof -
  obtain r0 where r: "r = with_contract r0" using assms(1) by (auto simp: accessRules_def withRouteContracts_def)
  obtain d where "map_of ResourceTypeRegistry (ru_resource r0) = Some d"
    "rd_cross_tenant_write d" "rd_requires_approval d" "rd_acting_context d"
    using governed_registered assms(2) by (fastforce simp: list_all_iff r split: option.splits)
  then show ?thesis using assms(3) by (simp add: r with_contract_def allowedScopesFor_def)
qed

lemma route_rule_not_GET:
  assumes "byKey rules (m @ '' '' @ p) = Some r" and "plain_method m" and "m \<noteq> ''GET''"
  shows "ru_method r \<noteq> ''GET''"
  using key_method [OF assms(2)] byKey_Some [OF assms(1)] assms(3) by blast

section \<open>Who reaches a handler\<close>

definition tenant_active :: "id_store \<Rightarrow> string \<Rightarrow> bool" where
  "tenant_active s t \<longleftrightarrow> (\<exists>te. row_at te_id t (tenants s) = Some te \<and> te_status te = TenantStatusActive)"

lemma EnsureTenantActive_spec: "EnsureTenantActive t (s, []) = (Inr (), s, []) \<longleftrightarrow> tenant_active s t"
  by (auto simp: EnsureTenantActive_def GetTenant_def tenant_active_def split: option.splits)

lemma Auth_InrE:
  assumes "Auth env rq (s, fs) = (Inr cx, d)"
  obtains token c where "presented_token rq = Some token"
    "jwt_Parse (me_jwt env) (me_manager env) (me_now env) token = Some c" "cl_typ c \<noteq> TokenRefresh"
    "tenant_active (mw_ids s) (cl_tid c)" "fst d = s" "gc_request cx = rq" "gc_user_id cx = cl_uid c" "gc_tenant_id cx = cl_tid c"
proof -
  from assms obtain token c where 1: "presented_token rq = Some token"
    "jwt_Parse (me_jwt env) (me_manager env) (me_now env) token = Some c" "cl_typ c \<noteq> TokenRefresh"
    by (auto simp: Auth_def split: option.splits if_splits)
  from assms 1 obtain d1 where e: "on_mw_ids (EnsureTenantActive (cl_tid c)) (s, fs) = (Inr (), d1)" and
    cx: "cx = \<lparr>gc_request = rq, gc_user_id = cl_uid c, gc_tenant_id = cl_tid c, gc_role = cl_role c,
       gc_username = cl_username c, gc_tenant_scope = None, gc_governance_target = None\<rparr>" "d = d1"
    by (auto simp: Auth_def elim!: chk_InrE)
  from on_mw_ids_Inr [OF sound_EnsureTenantActive e] show thesis
    using that [OF 1] cx by (simp add: EnsureTenantActive_spec)
qed

lemma audit_gate_ids:
  assumes "audit_gate env r cx (s, fs) = (Inr cx2, d)"
  shows "mw_ids (fst d) = mw_ids s \<and> gc_user_id cx2 = gc_user_id cx \<and> gc_tenant_id cx2 = gc_tenant_id cx"
proof -
  have a: "mw_ids (fst d2) = mw_ids (fst d1)" if "mw_RecordAudit env e d1 = (Inr u, d2)" for e d1 d2 u
    using that by (auto simp: mw_RecordAudit_def split: sum.splits)
  have g: "mw_ids (fst d1) = mw_ids s" if "on_mw_ids (ResolveTenantScopeFor u t x y z) (s, fs) = (Inr sc, d1)" for u t x y z sc d1
    using on_mw_ids_Inr [OF sound_ResolveTenantScopeFor that] by simp
  show ?thesis using assms
    by (auto simp: audit_gate_def split: if_splits elim!: chk_InrE dest!: a g)
qed

text \<open>
  C35: Only authorized requests reach a handler. Whatever database faults occur, a request of the
  authenticated group that reaches its handler carries a valid token that is not a refresh token, for
  an active workspace; the access rules have a rule for its method and route; and the user of the
  token is active and has the permission of that rule, in the workspace of the token or, for a platform
  role, across workspaces. The identity tables are left as they were.
\<close>

theorem handler_reached_only_authorized:
  assumes "\<forall>p\<in>set (permissions (mw_ids s)). clean_rule p"
    and "protected env rq (s, fs) = (Inr cx, d)"
  shows "mw_ids (fst d) = mw_ids s \<and> (\<exists>token c r u.
    presented_token rq = Some token \<and>
    jwt_Parse (me_jwt env) (me_manager env) (me_now env) token = Some c \<and> cl_typ c \<noteq> TokenRefresh \<and>
    tenant_active (mw_ids s) (cl_tid c) \<and> gc_user_id cx = cl_uid c \<and> gc_tenant_id cx = cl_tid c \<and>
    r \<in> set accessRules \<and> rule_key r = rq_method rq @ '' '' @ rq_full_path rq \<and>
    active_user (mw_ids s) (cl_uid c) u \<and> allowed (mw_ids s) u (ru_action r) (ru_resource r) \<and>
    (us_tenant_id u = cl_tid c \<or> platform_user (mw_ids s) u))"
proof -
  from assms(2) obtain cx0 d0 where 0: "Auth env rq (s, fs) = (Inr cx0, d0)" "RBAC env accessRules cx0 d0 = (Inr cx, d)"
    by (auto simp: protected_def split: sum.splits elim!: chk_InrE)
  from 0(1) obtain token c where a: "presented_token rq = Some token"
    "jwt_Parse (me_jwt env) (me_manager env) (me_now env) token = Some c" "cl_typ c \<noteq> TokenRefresh"
    "tenant_active (mw_ids s) (cl_tid c)" "fst d0 = s" "gc_request cx0 = rq" "gc_user_id cx0 = cl_uid c" "gc_tenant_id cx0 = cl_tid c"
    by (rule Auth_InrE)
  have "RBAC env accessRules cx0 (s, snd d0) = (Inr cx, d)" using 0(2) a(5) by (metis prod.collapse)
  then obtain r cx1 fs1 where
    r: "byKey accessRules (rq_method rq @ '' '' @ rq_full_path rq) = Some r" and
    z: "\<exists>p q. AuthorizeABAC (gc_user_id cx0) (ru_action r) (ru_resource r) (gc_tenant_id cx0) p q (mw_ids s, []) = (Inr (), mw_ids s, [])" and
    w: "write_gate env r cx0 (s, []) = (Inr cx1, s, [])" and
    g: "audit_gate env r cx1 (s, fs1) = (Inr cx, d)"
    by (rule RBAC_InrE) (simp add: a(6))
  from z ABAC_spec [OF assms(1)] obtain u where
    "active_user (mw_ids s) (cl_uid c) u" "allowed (mw_ids s) u (ru_action r) (ru_resource r)"
    "us_tenant_id u = cl_tid c \<or> platform_user (mw_ids s) u"
    using a(7,8) by (metis fst_conv)
  then show ?thesis
    using a byKey_Some [OF r] audit_gate_ids [OF g] write_gate_keeps [OF w] by auto
qed

end
