(* ===== verification/Route_Checks.thy ===== *)
theory Route_Checks
  imports Middleware_Props
begin

text \<open>
  The access rules against the routes of the authenticated group and the registry of resource types:
  every rule asks for an action that its resource type declares, and every route but two has a rule.
\<close>

section \<open>Keys\<close>

text \<open>The key of a rule as the pair of its path below \<^verbatim>\<open>/api/v1\<close> and its method.\<close>

definition route_key :: "rule \<Rightarrow> string \<times> string" where
  "route_key r = (drop 7 (ru_path r), ru_method r)"

definition methods :: "string list" where
  "methods = [''GET'', ''POST'', ''PUT'', ''PATCH'', ''DELETE'']"

definition tidy :: "rule \<Rightarrow> bool" where
  "tidy r \<longleftrightarrow> take 7 (ru_path r) = ''/api/v1'' \<and> ru_method r \<in> set methods"

lemma route_key_at [simp]: "route_key (rule_at m p a x s) = (p, m)"
  by (simp add: route_key_def rule_at_def)

lemma tidy_at [simp]: "tidy (rule_at m p a x s) \<longleftrightarrow> m \<in> set methods"
  by (simp add: tidy_def rule_at_def)

lemma methods_simp [simp]: "''GET'' \<in> set methods" "''POST'' \<in> set methods" "''PUT'' \<in> set methods"
  "''PATCH'' \<in> set methods" "''DELETE'' \<in> set methods"
  by (simp_all add: methods_def)

lemma methods_plain: "m \<in> set methods \<Longrightarrow> plain_method m"
  by (auto simp: methods_def plain_method_def)

lemma tidy_key: "tidy r \<Longrightarrow> rule_key r = snd (route_key r) @ '' '' @ ''/api/v1'' @ fst (route_key r)"
  unfolding tidy_def rule_key_def route_key_def by (metis append_take_drop_id fst_conv snd_conv)

lemma space_cut: "plain_method m \<Longrightarrow> takeWhile (\<lambda>c. c \<noteq> CHR '' '') (m @ '' '' @ x) = m"
  unfolding plain_method_def by (subst takeWhile_append2) auto

lemma tidy_key_eq:
  assumes "tidy r" "plain_method m"
  shows "rule_key r = m @ '' '' @ ''/api/v1'' @ p \<longleftrightarrow> route_key r = (p, m)"
proof
  assume k: "rule_key r = m @ '' '' @ ''/api/v1'' @ p"
  have "plain_method (ru_method r)" using assms(1) methods_plain by (simp add: tidy_def)
  then have "ru_method r = takeWhile (\<lambda>c. c \<noteq> CHR '' '') (rule_key r)" unfolding rule_key_def by (rule space_cut [symmetric])
  also have "\<dots> = m" unfolding k by (rule space_cut [OF assms(2)])
  finally have "ru_method r = m" .
  with k tidy_key [OF assms(1)] show "route_key r = (p, m)" by (cases "route_key r") (auto simp: route_key_def)
qed (use tidy_key [OF assms(1)] in simp)

section \<open>The table of keys\<close>

definition keys_01 :: "(string \<times> string) list" where
  "keys_01 = map route_key access_rules_01"

lemmas keys_01_code [code] = keys_01_def [unfolded access_rules_01_def list.map route_key_at]

lemma in_keys_01: "r \<in> set access_rules_01 \<Longrightarrow> route_key r \<in> set keys_01"
  by (simp add: keys_01_def)

lemma tidy_01: "list_all tidy access_rules_01"
  by (simp add: access_rules_01_def)

definition keys_02 :: "(string \<times> string) list" where
  "keys_02 = map route_key access_rules_02"

lemmas keys_02_code [code] = keys_02_def [unfolded access_rules_02_def list.map route_key_at]

lemma in_keys_02: "r \<in> set access_rules_02 \<Longrightarrow> route_key r \<in> set keys_02"
  by (simp add: keys_02_def)

lemma tidy_02: "list_all tidy access_rules_02"
  by (simp add: access_rules_02_def)

definition keys_03 :: "(string \<times> string) list" where
  "keys_03 = map route_key access_rules_03"

lemmas keys_03_code [code] = keys_03_def [unfolded access_rules_03_def list.map route_key_at]

lemma in_keys_03: "r \<in> set access_rules_03 \<Longrightarrow> route_key r \<in> set keys_03"
  by (simp add: keys_03_def)

lemma tidy_03: "list_all tidy access_rules_03"
  by (simp add: access_rules_03_def)

definition keys_04 :: "(string \<times> string) list" where
  "keys_04 = map route_key access_rules_04"

lemmas keys_04_code [code] = keys_04_def [unfolded access_rules_04_def list.map route_key_at]

lemma in_keys_04: "r \<in> set access_rules_04 \<Longrightarrow> route_key r \<in> set keys_04"
  by (simp add: keys_04_def)

lemma tidy_04: "list_all tidy access_rules_04"
  by (simp add: access_rules_04_def)

definition keys_05 :: "(string \<times> string) list" where
  "keys_05 = map route_key access_rules_05"

lemmas keys_05_code [code] = keys_05_def [unfolded access_rules_05_def list.map route_key_at]

lemma in_keys_05: "r \<in> set access_rules_05 \<Longrightarrow> route_key r \<in> set keys_05"
  by (simp add: keys_05_def)

lemma tidy_05: "list_all tidy access_rules_05"
  by (simp add: access_rules_05_def)

definition keys_06 :: "(string \<times> string) list" where
  "keys_06 = map route_key access_rules_06"

lemmas keys_06_code [code] = keys_06_def [unfolded access_rules_06_def list.map route_key_at]

lemma in_keys_06: "r \<in> set access_rules_06 \<Longrightarrow> route_key r \<in> set keys_06"
  by (simp add: keys_06_def)

lemma tidy_06: "list_all tidy access_rules_06"
  by (simp add: access_rules_06_def)

definition keys_07 :: "(string \<times> string) list" where
  "keys_07 = map route_key access_rules_07"

lemmas keys_07_code [code] = keys_07_def [unfolded access_rules_07_def list.map route_key_at]

lemma in_keys_07: "r \<in> set access_rules_07 \<Longrightarrow> route_key r \<in> set keys_07"
  by (simp add: keys_07_def)

lemma tidy_07: "list_all tidy access_rules_07"
  by (simp add: access_rules_07_def)

definition keys_08 :: "(string \<times> string) list" where
  "keys_08 = map route_key access_rules_08"

lemmas keys_08_code [code] = keys_08_def [unfolded access_rules_08_def list.map route_key_at]

lemma in_keys_08: "r \<in> set access_rules_08 \<Longrightarrow> route_key r \<in> set keys_08"
  by (simp add: keys_08_def)

lemma tidy_08: "list_all tidy access_rules_08"
  by (simp add: access_rules_08_def)

definition keys_09 :: "(string \<times> string) list" where
  "keys_09 = map route_key access_rules_09"

lemmas keys_09_code [code] = keys_09_def [unfolded access_rules_09_def list.map route_key_at]

lemma in_keys_09: "r \<in> set access_rules_09 \<Longrightarrow> route_key r \<in> set keys_09"
  by (simp add: keys_09_def)

lemma tidy_09: "list_all tidy access_rules_09"
  by (simp add: access_rules_09_def)

definition keys_10 :: "(string \<times> string) list" where
  "keys_10 = map route_key access_rules_10"

lemmas keys_10_code [code] = keys_10_def [unfolded access_rules_10_def list.map route_key_at]

lemma in_keys_10: "r \<in> set access_rules_10 \<Longrightarrow> route_key r \<in> set keys_10"
  by (simp add: keys_10_def)

lemma tidy_10: "list_all tidy access_rules_10"
  by (simp add: access_rules_10_def)

definition keys_11 :: "(string \<times> string) list" where
  "keys_11 = map route_key access_rules_11"

lemmas keys_11_code [code] = keys_11_def [unfolded access_rules_11_def list.map route_key_at]

lemma in_keys_11: "r \<in> set access_rules_11 \<Longrightarrow> route_key r \<in> set keys_11"
  by (simp add: keys_11_def)

lemma tidy_11: "list_all tidy access_rules_11"
  by (simp add: access_rules_11_def)

definition keys_12 :: "(string \<times> string) list" where
  "keys_12 = map route_key access_rules_12"

lemmas keys_12_code [code] = keys_12_def [unfolded access_rules_12_def list.map route_key_at]

lemma in_keys_12: "r \<in> set access_rules_12 \<Longrightarrow> route_key r \<in> set keys_12"
  by (simp add: keys_12_def)

lemma tidy_12: "list_all tidy access_rules_12"
  by (simp add: access_rules_12_def)

definition keys_13 :: "(string \<times> string) list" where
  "keys_13 = map route_key access_rules_13"

lemmas keys_13_code [code] = keys_13_def [unfolded access_rules_13_def list.map route_key_at]

lemma in_keys_13: "r \<in> set access_rules_13 \<Longrightarrow> route_key r \<in> set keys_13"
  by (simp add: keys_13_def)

lemma tidy_13: "list_all tidy access_rules_13"
  by (simp add: access_rules_13_def)

definition keys_14 :: "(string \<times> string) list" where
  "keys_14 = map route_key access_rules_14"

lemmas keys_14_code [code] = keys_14_def [unfolded access_rules_14_def list.map route_key_at]

lemma in_keys_14: "r \<in> set access_rules_14 \<Longrightarrow> route_key r \<in> set keys_14"
  by (simp add: keys_14_def)

lemma tidy_14: "list_all tidy access_rules_14"
  by (simp add: access_rules_14_def)

definition keys_15 :: "(string \<times> string) list" where
  "keys_15 = map route_key access_rules_15"

lemmas keys_15_code [code] = keys_15_def [unfolded access_rules_15_def list.map route_key_at]

lemma in_keys_15: "r \<in> set access_rules_15 \<Longrightarrow> route_key r \<in> set keys_15"
  by (simp add: keys_15_def)

lemma tidy_15: "list_all tidy access_rules_15"
  by (simp add: access_rules_15_def)

definition keys_16 :: "(string \<times> string) list" where
  "keys_16 = map route_key access_rules_16"

lemmas keys_16_code [code] = keys_16_def [unfolded access_rules_16_def list.map route_key_at]

lemma in_keys_16: "r \<in> set access_rules_16 \<Longrightarrow> route_key r \<in> set keys_16"
  by (simp add: keys_16_def)

lemma tidy_16: "list_all tidy access_rules_16"
  by (simp add: access_rules_16_def)

definition keys_17 :: "(string \<times> string) list" where
  "keys_17 = map route_key access_rules_17"

lemmas keys_17_code [code] = keys_17_def [unfolded access_rules_17_def list.map route_key_at]

lemma in_keys_17: "r \<in> set access_rules_17 \<Longrightarrow> route_key r \<in> set keys_17"
  by (simp add: keys_17_def)

lemma tidy_17: "list_all tidy access_rules_17"
  by (simp add: access_rules_17_def)

definition keys_18 :: "(string \<times> string) list" where
  "keys_18 = map route_key access_rules_18"

lemmas keys_18_code [code] = keys_18_def [unfolded access_rules_18_def list.map route_key_at]

lemma in_keys_18: "r \<in> set access_rules_18 \<Longrightarrow> route_key r \<in> set keys_18"
  by (simp add: keys_18_def)

lemma tidy_18: "list_all tidy access_rules_18"
  by (simp add: access_rules_18_def)

definition keys_19 :: "(string \<times> string) list" where
  "keys_19 = map route_key access_rules_19"

lemmas keys_19_code [code] = keys_19_def [unfolded access_rules_19_def list.map route_key_at]

lemma in_keys_19: "r \<in> set access_rules_19 \<Longrightarrow> route_key r \<in> set keys_19"
  by (simp add: keys_19_def)

lemma tidy_19: "list_all tidy access_rules_19"
  by (simp add: access_rules_19_def)

definition keys_20 :: "(string \<times> string) list" where
  "keys_20 = map route_key access_rules_20"

lemmas keys_20_code [code] = keys_20_def [unfolded access_rules_20_def list.map route_key_at]

lemma in_keys_20: "r \<in> set access_rules_20 \<Longrightarrow> route_key r \<in> set keys_20"
  by (simp add: keys_20_def)

lemma tidy_20: "list_all tidy access_rules_20"
  by (simp add: access_rules_20_def)

definition keys_21 :: "(string \<times> string) list" where
  "keys_21 = map route_key access_rules_21"

lemmas keys_21_code [code] = keys_21_def [unfolded access_rules_21_def list.map route_key_at]

lemma in_keys_21: "r \<in> set access_rules_21 \<Longrightarrow> route_key r \<in> set keys_21"
  by (simp add: keys_21_def)

lemma tidy_21: "list_all tidy access_rules_21"
  by (simp add: access_rules_21_def)

definition keys_22 :: "(string \<times> string) list" where
  "keys_22 = map route_key access_rules_22"

lemmas keys_22_code [code] = keys_22_def [unfolded access_rules_22_def list.map route_key_at]

lemma in_keys_22: "r \<in> set access_rules_22 \<Longrightarrow> route_key r \<in> set keys_22"
  by (simp add: keys_22_def)

lemma tidy_22: "list_all tidy access_rules_22"
  by (simp add: access_rules_22_def)

definition keys_23 :: "(string \<times> string) list" where
  "keys_23 = map route_key access_rules_23"

lemmas keys_23_code [code] = keys_23_def [unfolded access_rules_23_def list.map route_key_at]

lemma in_keys_23: "r \<in> set access_rules_23 \<Longrightarrow> route_key r \<in> set keys_23"
  by (simp add: keys_23_def)

lemma tidy_23: "list_all tidy access_rules_23"
  by (simp add: access_rules_23_def)

definition keys_24 :: "(string \<times> string) list" where
  "keys_24 = map route_key access_rules_24"

lemmas keys_24_code [code] = keys_24_def [unfolded access_rules_24_def list.map route_key_at]

lemma in_keys_24: "r \<in> set access_rules_24 \<Longrightarrow> route_key r \<in> set keys_24"
  by (simp add: keys_24_def)

lemma tidy_24: "list_all tidy access_rules_24"
  by (simp add: access_rules_24_def)

lemmas in_keys = in_keys_01 in_keys_02 in_keys_03 in_keys_04 in_keys_05 in_keys_06 in_keys_07 in_keys_08 in_keys_09 in_keys_10 in_keys_11 in_keys_12 in_keys_13 in_keys_14 in_keys_15 in_keys_16 in_keys_17 in_keys_18 in_keys_19 in_keys_20 in_keys_21 in_keys_22 in_keys_23 in_keys_24

lemma access_table_tidy: "r \<in> set access_table \<Longrightarrow> tidy r"
  using tidy_01 tidy_02 tidy_03 tidy_04 tidy_05 tidy_06 tidy_07 tidy_08 tidy_09 tidy_10 tidy_11 tidy_12 tidy_13 tidy_14 tidy_15 tidy_16 tidy_17 tidy_18 tidy_19 tidy_20 tidy_21 tidy_22 tidy_23 tidy_24
  by (auto simp: access_table_def list_all_iff)

definition access_keys :: "(string \<times> string) list" where
  "access_keys = keys_01 @ keys_02 @ keys_03 @ keys_04 @ keys_05 @ keys_06 @ keys_07 @ keys_08 @ keys_09 @ keys_10 @ keys_11 @ keys_12 @ keys_13 @ keys_14 @ keys_15 @ keys_16 @ keys_17 @ keys_18 @ keys_19 @ keys_20 @ keys_21 @ keys_22 @ keys_23 @ keys_24"

lemma access_keys: "access_keys = map route_key access_table"
  by (simp add: access_keys_def access_table_def keys_01_def keys_02_def keys_03_def keys_04_def keys_05_def keys_06_def keys_07_def keys_08_def keys_09_def keys_10_def keys_11_def keys_12_def keys_13_def keys_14_def keys_15_def keys_16_def keys_17_def keys_18_def keys_19_def keys_20_def keys_21_def keys_22_def keys_23_def keys_24_def)

lemma set_access_keys: "set access_keys = route_key ` set access_table"
  by (simp add: access_keys)

lemma byKey_contracts: "byKey (withRouteContracts rules) k = map_option with_contract (byKey rules k)"
proof -
  have "rule_key (with_contract r) = rule_key r" for r by (simp add: rule_key_def)
  then have "map (\<lambda>r. (rule_key r, r)) (withRouteContracts rules) =
      map (\<lambda>(k, r). (k, with_contract r)) (map (\<lambda>r. (rule_key r, r)) rules)"
    by (simp add: withRouteContracts_def)
  then show ?thesis unfolding byKey_def by (simp only: rev_map map_of_map comp_def)
qed

lemma rule_missing_iff:
  assumes "plain_method m"
  shows "byKey accessRules (m @ '' '' @ ''/api/v1'' @ p) = None \<longleftrightarrow> (p, m) \<notin> set access_keys"
proof -
  have "(m @ '' '' @ ''/api/v1'' @ p \<in> rule_key ` set access_table) \<longleftrightarrow> (p, m) \<in> route_key ` set access_table"
    using tidy_key_eq [OF access_table_tidy assms] by (auto simp: image_iff) metis+
  then show ?thesis by (simp add: accessRules_def byKey_contracts byKey_None set_access_keys)
qed

section \<open>Routes without a rule\<close>

text \<open>The routes that are not among the keys of one part of the table.\<close>

definition sieve :: "(string \<times> string) list \<Rightarrow> (string \<times> string) list \<Rightarrow> (string \<times> string) list" where
  "sieve ks rs = filter (\<lambda>p. \<not> List.member ks (snd p, fst p)) rs"

text \<open>Routes whose keys are all in a set; a sieve that leaves nothing shows it.\<close>

definition covered :: "(string \<times> string) set \<Rightarrow> (string \<times> string) list \<Rightarrow> bool" where
  "covered K rs \<longleftrightarrow> (\<forall>m p. (m, p) \<in> set rs \<longrightarrow> (p, m) \<in> K)"

lemma covered_Nil: "rs = [] \<Longrightarrow> covered K rs"
  by (simp add: covered_def)

lemma covered_sieve: "covered K (sieve ks rs) \<Longrightarrow> set ks \<subseteq> K \<Longrightarrow> covered K rs"
  by (auto simp: covered_def sieve_def List.member_iff)

lemma covered_append: "covered K (rs @ rs') \<longleftrightarrow> covered K rs \<and> covered K rs'"
  by (auto simp: covered_def)

definition unruled :: "(string \<times> string) list" where
  "unruled = [(''GET'', ''/chat/:id/references''), (''GET'', ''/search-apps/dataset-options'')]"

definition flipped :: "(string \<times> string) list" where
  "flipped = map (\<lambda>(m, p). (p, m)) unruled"

definition known_keys :: "(string \<times> string) set" where
  "known_keys = set flipped \<union> set access_keys"

lemma known_flipped: "set flipped \<subseteq> known_keys"
  by (simp add: known_keys_def)

lemma known_01: "set keys_01 \<subseteq> known_keys"
  by (auto simp: known_keys_def access_keys_def)

lemma known_02: "set keys_02 \<subseteq> known_keys"
  by (auto simp: known_keys_def access_keys_def)

lemma known_03: "set keys_03 \<subseteq> known_keys"
  by (auto simp: known_keys_def access_keys_def)

lemma known_04: "set keys_04 \<subseteq> known_keys"
  by (auto simp: known_keys_def access_keys_def)

lemma known_05: "set keys_05 \<subseteq> known_keys"
  by (auto simp: known_keys_def access_keys_def)

lemma known_06: "set keys_06 \<subseteq> known_keys"
  by (auto simp: known_keys_def access_keys_def)

lemma known_07: "set keys_07 \<subseteq> known_keys"
  by (auto simp: known_keys_def access_keys_def)

lemma known_08: "set keys_08 \<subseteq> known_keys"
  by (auto simp: known_keys_def access_keys_def)

lemma known_09: "set keys_09 \<subseteq> known_keys"
  by (auto simp: known_keys_def access_keys_def)

lemma known_10: "set keys_10 \<subseteq> known_keys"
  by (auto simp: known_keys_def access_keys_def)

lemma known_11: "set keys_11 \<subseteq> known_keys"
  by (auto simp: known_keys_def access_keys_def)

lemma known_12: "set keys_12 \<subseteq> known_keys"
  by (auto simp: known_keys_def access_keys_def)

lemma known_13: "set keys_13 \<subseteq> known_keys"
  by (auto simp: known_keys_def access_keys_def)

lemma known_14: "set keys_14 \<subseteq> known_keys"
  by (auto simp: known_keys_def access_keys_def)

lemma known_15: "set keys_15 \<subseteq> known_keys"
  by (auto simp: known_keys_def access_keys_def)

lemma known_16: "set keys_16 \<subseteq> known_keys"
  by (auto simp: known_keys_def access_keys_def)

lemma known_17: "set keys_17 \<subseteq> known_keys"
  by (auto simp: known_keys_def access_keys_def)

lemma known_18: "set keys_18 \<subseteq> known_keys"
  by (auto simp: known_keys_def access_keys_def)

lemma known_19: "set keys_19 \<subseteq> known_keys"
  by (auto simp: known_keys_def access_keys_def)

lemma known_20: "set keys_20 \<subseteq> known_keys"
  by (auto simp: known_keys_def access_keys_def)

lemma known_21: "set keys_21 \<subseteq> known_keys"
  by (auto simp: known_keys_def access_keys_def)

lemma known_22: "set keys_22 \<subseteq> known_keys"
  by (auto simp: known_keys_def access_keys_def)

lemma known_23: "set keys_23 \<subseteq> known_keys"
  by (auto simp: known_keys_def access_keys_def)

lemma known_24: "set keys_24 \<subseteq> known_keys"
  by (auto simp: known_keys_def access_keys_def)

lemma ruled_router_1: "sieve keys_07 (sieve keys_03 (sieve keys_01 routes_router_1)) = []"
  by code_simp

lemma ruled_router_2: "sieve keys_07 (sieve keys_09 (sieve keys_08 routes_router_2)) = []"
  by code_simp

lemma ruled_router_3: "sieve keys_10 (sieve keys_03 (sieve keys_08 (sieve keys_09 routes_router_3))) = []"
  by code_simp

lemma ruled_router_4: "sieve keys_13 (sieve keys_14 (sieve keys_10 routes_router_4)) = []"
  by code_simp

lemma ruled_router_5: "sieve keys_15 (sieve keys_10 (sieve keys_14 (sieve keys_19 (sieve keys_13 routes_router_5)))) = []"
  by code_simp

lemma ruled_router_6: "sieve keys_19 (sieve keys_01 (sieve keys_02 routes_router_6)) = []"
  by code_simp

lemma ruled_router_7: "sieve keys_05 (sieve keys_02 (sieve keys_04 (sieve keys_03 routes_router_7))) = []"
  by code_simp

lemma ruled_router_8: "sieve keys_04 (sieve flipped (sieve keys_05 (sieve keys_07 routes_router_8))) = []"
  by code_simp

lemma ruled_router_9: "sieve keys_06 (sieve keys_05 routes_router_9) = []"
  by code_simp

lemma ruled_router_10: "sieve keys_18 (sieve keys_07 (sieve keys_03 (sieve keys_15 (sieve keys_14 (sieve keys_06 routes_router_10))))) = []"
  by code_simp

lemma ruled_router_11: "sieve keys_11 (sieve keys_04 routes_router_11) = []"
  by code_simp

lemma ruled_router_12: "sieve keys_11 (sieve keys_12 routes_router_12) = []"
  by code_simp

lemma ruled_router_13: "sieve keys_12 (sieve keys_13 routes_router_13) = []"
  by code_simp

lemma ruled_release_governance: "sieve keys_18 (sieve keys_16 (sieve keys_17 routes_release_governance)) = []"
  by code_simp

lemma ruled_assistant_release: "sieve keys_18 (sieve keys_19 routes_assistant_release) = []"
  by code_simp

lemma ruled_template_instance: "sieve keys_18 routes_template_instance = []"
  by code_simp

lemma ruled_parser_policy: "sieve keys_20 routes_parser_policy = []"
  by code_simp

lemma ruled_parser_quality: "sieve keys_10 routes_parser_quality = []"
  by code_simp

lemma ruled_tool_registry: "sieve keys_21 routes_tool_registry = []"
  by code_simp

lemma ruled_query_template: "sieve keys_21 (sieve keys_22 routes_query_template) = []"
  by code_simp

lemma ruled_knowledge_strategy: "sieve keys_22 routes_knowledge_strategy = []"
  by code_simp

lemma ruled_knowledge_compilation: "sieve keys_22 (sieve keys_23 routes_knowledge_compilation) = []"
  by code_simp

lemma ruled_memory_policy: "sieve keys_24 (sieve keys_23 routes_memory_policy) = []"
  by code_simp

lemma ruled_memory_operation: "sieve keys_24 routes_memory_operation = []"
  by code_simp

lemma ruled_conversation_context: "sieve keys_24 routes_conversation_context = []"
  by code_simp

lemma ruled_evidence_snapshot: "sieve keys_24 routes_evidence_snapshot = []"
  by code_simp

lemma ruled_outbox: "sieve keys_24 routes_outbox = []"
  by code_simp

lemma ruled_eval_case_evidence: "sieve keys_24 routes_eval_case_evidence = []"
  by code_simp

lemma ruled_logical_document: "sieve keys_20 routes_logical_document = []"
  by code_simp

lemma ruled_db_connection: "sieve keys_22 routes_db_connection = []"
  by code_simp

lemma ruled_governance: "sieve keys_15 (sieve keys_16 routes_governance) = []"
  by code_simp

lemmas covered_routes =
  covered_sieve [OF covered_sieve [OF covered_sieve [OF covered_Nil [OF ruled_router_1] known_07] known_03] known_01]
  covered_sieve [OF covered_sieve [OF covered_sieve [OF covered_Nil [OF ruled_router_2] known_07] known_09] known_08]
  covered_sieve [OF covered_sieve [OF covered_sieve [OF covered_sieve [OF covered_Nil [OF ruled_router_3] known_10] known_03] known_08] known_09]
  covered_sieve [OF covered_sieve [OF covered_sieve [OF covered_Nil [OF ruled_router_4] known_13] known_14] known_10]
  covered_sieve [OF covered_sieve [OF covered_sieve [OF covered_sieve [OF covered_sieve [OF covered_Nil [OF ruled_router_5] known_15] known_10] known_14] known_19] known_13]
  covered_sieve [OF covered_sieve [OF covered_sieve [OF covered_Nil [OF ruled_router_6] known_19] known_01] known_02]
  covered_sieve [OF covered_sieve [OF covered_sieve [OF covered_sieve [OF covered_Nil [OF ruled_router_7] known_05] known_02] known_04] known_03]
  covered_sieve [OF covered_sieve [OF covered_sieve [OF covered_sieve [OF covered_Nil [OF ruled_router_8] known_04] known_flipped] known_05] known_07]
  covered_sieve [OF covered_sieve [OF covered_Nil [OF ruled_router_9] known_06] known_05]
  covered_sieve [OF covered_sieve [OF covered_sieve [OF covered_sieve [OF covered_sieve [OF covered_sieve [OF covered_Nil [OF ruled_router_10] known_18] known_07] known_03] known_15] known_14] known_06]
  covered_sieve [OF covered_sieve [OF covered_Nil [OF ruled_router_11] known_11] known_04]
  covered_sieve [OF covered_sieve [OF covered_Nil [OF ruled_router_12] known_11] known_12]
  covered_sieve [OF covered_sieve [OF covered_Nil [OF ruled_router_13] known_12] known_13]
  covered_sieve [OF covered_sieve [OF covered_sieve [OF covered_Nil [OF ruled_release_governance] known_18] known_16] known_17]
  covered_sieve [OF covered_sieve [OF covered_Nil [OF ruled_assistant_release] known_18] known_19]
  covered_sieve [OF covered_Nil [OF ruled_template_instance] known_18]
  covered_sieve [OF covered_Nil [OF ruled_parser_policy] known_20]
  covered_sieve [OF covered_Nil [OF ruled_parser_quality] known_10]
  covered_sieve [OF covered_Nil [OF ruled_tool_registry] known_21]
  covered_sieve [OF covered_sieve [OF covered_Nil [OF ruled_query_template] known_21] known_22]
  covered_sieve [OF covered_Nil [OF ruled_knowledge_strategy] known_22]
  covered_sieve [OF covered_sieve [OF covered_Nil [OF ruled_knowledge_compilation] known_22] known_23]
  covered_sieve [OF covered_sieve [OF covered_Nil [OF ruled_memory_policy] known_24] known_23]
  covered_sieve [OF covered_Nil [OF ruled_memory_operation] known_24]
  covered_sieve [OF covered_Nil [OF ruled_conversation_context] known_24]
  covered_sieve [OF covered_Nil [OF ruled_evidence_snapshot] known_24]
  covered_sieve [OF covered_Nil [OF ruled_outbox] known_24]
  covered_sieve [OF covered_Nil [OF ruled_eval_case_evidence] known_24]
  covered_sieve [OF covered_Nil [OF ruled_logical_document] known_20]
  covered_sieve [OF covered_Nil [OF ruled_db_connection] known_22]
  covered_sieve [OF covered_sieve [OF covered_Nil [OF ruled_governance] known_15] known_16]

lemma keys_in_table: "(p, m) \<in> set flipped \<or> (p, m) \<in> set access_keys"
  if "(m, p) \<in> set protected_routes" for m p
proof -
  have "covered known_keys protected_routes"
    unfolding protected_routes_def covered_append by (intro conjI covered_routes)
  then show ?thesis using that by (auto simp: covered_def known_keys_def)
qed

lemma unruled_01: "\<not> list_ex (List.member keys_01) flipped"
  by code_simp

lemma unruled_02: "\<not> list_ex (List.member keys_02) flipped"
  by code_simp

lemma unruled_03: "\<not> list_ex (List.member keys_03) flipped"
  by code_simp

lemma unruled_04: "\<not> list_ex (List.member keys_04) flipped"
  by code_simp

lemma unruled_05: "\<not> list_ex (List.member keys_05) flipped"
  by code_simp

lemma unruled_06: "\<not> list_ex (List.member keys_06) flipped"
  by code_simp

lemma unruled_07: "\<not> list_ex (List.member keys_07) flipped"
  by code_simp

lemma unruled_08: "\<not> list_ex (List.member keys_08) flipped"
  by code_simp

lemma unruled_09: "\<not> list_ex (List.member keys_09) flipped"
  by code_simp

lemma unruled_10: "\<not> list_ex (List.member keys_10) flipped"
  by code_simp

lemma unruled_11: "\<not> list_ex (List.member keys_11) flipped"
  by code_simp

lemma unruled_12: "\<not> list_ex (List.member keys_12) flipped"
  by code_simp

lemma unruled_13: "\<not> list_ex (List.member keys_13) flipped"
  by code_simp

lemma unruled_14: "\<not> list_ex (List.member keys_14) flipped"
  by code_simp

lemma unruled_15: "\<not> list_ex (List.member keys_15) flipped"
  by code_simp

lemma unruled_16: "\<not> list_ex (List.member keys_16) flipped"
  by code_simp

lemma unruled_17: "\<not> list_ex (List.member keys_17) flipped"
  by code_simp

lemma unruled_18: "\<not> list_ex (List.member keys_18) flipped"
  by code_simp

lemma unruled_19: "\<not> list_ex (List.member keys_19) flipped"
  by code_simp

lemma unruled_20: "\<not> list_ex (List.member keys_20) flipped"
  by code_simp

lemma unruled_21: "\<not> list_ex (List.member keys_21) flipped"
  by code_simp

lemma unruled_22: "\<not> list_ex (List.member keys_22) flipped"
  by code_simp

lemma unruled_23: "\<not> list_ex (List.member keys_23) flipped"
  by code_simp

lemma unruled_24: "\<not> list_ex (List.member keys_24) flipped"
  by code_simp

lemma unruled_not_in_table: "p \<in> set flipped \<Longrightarrow> p \<notin> set access_keys"
  using unruled_01 unruled_02 unruled_03 unruled_04 unruled_05 unruled_06 unruled_07 unruled_08 unruled_09 unruled_10 unruled_11 unruled_12 unruled_13 unruled_14 unruled_15 unruled_16 unruled_17 unruled_18 unruled_19 unruled_20 unruled_21 unruled_22 unruled_23 unruled_24
  by (auto simp: access_keys_def list_ex_iff List.member_iff)

section \<open>Actions\<close>

text \<open>The pairs of resource and action the rules ask for, and the actions each resource type declares.\<close>

definition asks :: "rule \<Rightarrow> string \<times> string" where
  "asks r = (ru_resource r, ru_action r)"

lemma asks_at [simp]: "asks (rule_at m p a x s) = (x, a)"
  by (simp add: asks_def rule_at_def)

definition action_table :: "(string \<times> string list) list" where
  "action_table = map (\<lambda>(n, d). (n, rd_allowed_actions d)) ResourceTypeRegistry"

lemma actions_at: "rd_allowed_actions (resource_type sc as g x a c) = as"
  by (simp add: resource_type_def)

lemmas action_table_code [code] =
  action_table_def [unfolded ResourceTypeRegistry_def list.map prod.case actions_at]

lemma action_table: "map_of action_table n = map_option rd_allowed_actions (map_of ResourceTypeRegistry n)"
  by (simp add: action_table_def map_of_map)

text \<open>A pass over the pairs that looks a resource up only when it differs from the one before.\<close>

fun declared :: "(string \<times> string list) option \<Rightarrow> (string \<times> string) list \<Rightarrow> bool" where
  "declared cur [] = True"
| "declared (Some (n, as)) ((x, a) # ws) =
     (if x = n then List.member as a \<and> declared (Some (n, as)) ws
      else case map_of action_table x of None \<Rightarrow> False | Some bs \<Rightarrow> List.member bs a \<and> declared (Some (x, bs)) ws)"
| "declared None ((x, a) # ws) =
     (case map_of action_table x of None \<Rightarrow> False | Some bs \<Rightarrow> List.member bs a \<and> declared (Some (x, bs)) ws)"

lemma declared_sound:
  assumes "declared cur ws" and "\<And>n as. cur = Some (n, as) \<Longrightarrow> map_of action_table n = Some as"
  shows "list_all (\<lambda>(x, a). \<exists>bs. map_of action_table x = Some bs \<and> a \<in> set bs) ws"
  using assms
  by (induction cur ws rule: declared.induct) (auto simp: List.member_iff split: if_splits option.splits)

definition asked_01 :: "(string \<times> string) list" where
  "asked_01 = map asks access_rules_01"

lemmas asked_01_code [code] = asked_01_def [unfolded access_rules_01_def list.map asks_at]

lemma declared_01: "declared None asked_01"
  by code_simp

definition asked_02 :: "(string \<times> string) list" where
  "asked_02 = map asks access_rules_02"

lemmas asked_02_code [code] = asked_02_def [unfolded access_rules_02_def list.map asks_at]

lemma declared_02: "declared None asked_02"
  by code_simp

definition asked_03 :: "(string \<times> string) list" where
  "asked_03 = map asks access_rules_03"

lemmas asked_03_code [code] = asked_03_def [unfolded access_rules_03_def list.map asks_at]

lemma declared_03: "declared None asked_03"
  by code_simp

definition asked_04 :: "(string \<times> string) list" where
  "asked_04 = map asks access_rules_04"

lemmas asked_04_code [code] = asked_04_def [unfolded access_rules_04_def list.map asks_at]

lemma declared_04: "declared None asked_04"
  by code_simp

definition asked_05 :: "(string \<times> string) list" where
  "asked_05 = map asks access_rules_05"

lemmas asked_05_code [code] = asked_05_def [unfolded access_rules_05_def list.map asks_at]

lemma declared_05: "declared None asked_05"
  by code_simp

definition asked_06 :: "(string \<times> string) list" where
  "asked_06 = map asks access_rules_06"

lemmas asked_06_code [code] = asked_06_def [unfolded access_rules_06_def list.map asks_at]

lemma declared_06: "declared None asked_06"
  by code_simp

definition asked_07 :: "(string \<times> string) list" where
  "asked_07 = map asks access_rules_07"

lemmas asked_07_code [code] = asked_07_def [unfolded access_rules_07_def list.map asks_at]

lemma declared_07: "declared None asked_07"
  by code_simp

definition asked_08 :: "(string \<times> string) list" where
  "asked_08 = map asks access_rules_08"

lemmas asked_08_code [code] = asked_08_def [unfolded access_rules_08_def list.map asks_at]

lemma declared_08: "declared None asked_08"
  by code_simp

definition asked_09 :: "(string \<times> string) list" where
  "asked_09 = map asks access_rules_09"

lemmas asked_09_code [code] = asked_09_def [unfolded access_rules_09_def list.map asks_at]

lemma declared_09: "declared None asked_09"
  by code_simp

definition asked_10 :: "(string \<times> string) list" where
  "asked_10 = map asks access_rules_10"

lemmas asked_10_code [code] = asked_10_def [unfolded access_rules_10_def list.map asks_at]

lemma declared_10: "declared None asked_10"
  by code_simp

definition asked_11 :: "(string \<times> string) list" where
  "asked_11 = map asks access_rules_11"

lemmas asked_11_code [code] = asked_11_def [unfolded access_rules_11_def list.map asks_at]

lemma declared_11: "declared None asked_11"
  by code_simp

definition asked_12 :: "(string \<times> string) list" where
  "asked_12 = map asks access_rules_12"

lemmas asked_12_code [code] = asked_12_def [unfolded access_rules_12_def list.map asks_at]

lemma declared_12: "declared None asked_12"
  by code_simp

definition asked_13 :: "(string \<times> string) list" where
  "asked_13 = map asks access_rules_13"

lemmas asked_13_code [code] = asked_13_def [unfolded access_rules_13_def list.map asks_at]

lemma declared_13: "declared None asked_13"
  by code_simp

definition asked_14 :: "(string \<times> string) list" where
  "asked_14 = map asks access_rules_14"

lemmas asked_14_code [code] = asked_14_def [unfolded access_rules_14_def list.map asks_at]

lemma declared_14: "declared None asked_14"
  by code_simp

definition asked_15 :: "(string \<times> string) list" where
  "asked_15 = map asks access_rules_15"

lemmas asked_15_code [code] = asked_15_def [unfolded access_rules_15_def list.map asks_at]

lemma declared_15: "declared None asked_15"
  by code_simp

definition asked_16 :: "(string \<times> string) list" where
  "asked_16 = map asks access_rules_16"

lemmas asked_16_code [code] = asked_16_def [unfolded access_rules_16_def list.map asks_at]

lemma declared_16: "declared None asked_16"
  by code_simp

definition asked_17 :: "(string \<times> string) list" where
  "asked_17 = map asks access_rules_17"

lemmas asked_17_code [code] = asked_17_def [unfolded access_rules_17_def list.map asks_at]

lemma declared_17: "declared None asked_17"
  by code_simp

definition asked_18 :: "(string \<times> string) list" where
  "asked_18 = map asks access_rules_18"

lemmas asked_18_code [code] = asked_18_def [unfolded access_rules_18_def list.map asks_at]

lemma declared_18: "declared None asked_18"
  by code_simp

definition asked_19 :: "(string \<times> string) list" where
  "asked_19 = map asks access_rules_19"

lemmas asked_19_code [code] = asked_19_def [unfolded access_rules_19_def list.map asks_at]

lemma declared_19: "declared None asked_19"
  by code_simp

definition asked_20 :: "(string \<times> string) list" where
  "asked_20 = map asks access_rules_20"

lemmas asked_20_code [code] = asked_20_def [unfolded access_rules_20_def list.map asks_at]

lemma declared_20: "declared None asked_20"
  by code_simp

definition asked_21 :: "(string \<times> string) list" where
  "asked_21 = map asks access_rules_21"

lemmas asked_21_code [code] = asked_21_def [unfolded access_rules_21_def list.map asks_at]

lemma declared_21: "declared None asked_21"
  by code_simp

definition asked_22 :: "(string \<times> string) list" where
  "asked_22 = map asks access_rules_22"

lemmas asked_22_code [code] = asked_22_def [unfolded access_rules_22_def list.map asks_at]

lemma declared_22: "declared None asked_22"
  by code_simp

definition asked_23 :: "(string \<times> string) list" where
  "asked_23 = map asks access_rules_23"

lemmas asked_23_code [code] = asked_23_def [unfolded access_rules_23_def list.map asks_at]

lemma declared_23: "declared None asked_23"
  by code_simp

definition asked_24 :: "(string \<times> string) list" where
  "asked_24 = map asks access_rules_24"

lemmas asked_24_code [code] = asked_24_def [unfolded access_rules_24_def list.map asks_at]

lemma declared_24: "declared None asked_24"
  by code_simp

lemmas asked_defs = asked_01_def asked_02_def asked_03_def asked_04_def asked_05_def asked_06_def asked_07_def asked_08_def asked_09_def asked_10_def asked_11_def asked_12_def asked_13_def asked_14_def asked_15_def asked_16_def asked_17_def asked_18_def asked_19_def asked_20_def asked_21_def asked_22_def asked_23_def asked_24_def

lemma declared_all: "list_all (\<lambda>(x, a). \<exists>bs. map_of action_table x = Some bs \<and> a \<in> set bs) (map asks access_table)"
  using declared_01 declared_02 declared_03 declared_04 declared_05 declared_06 declared_07 declared_08 declared_09 declared_10 declared_11 declared_12 declared_13 declared_14 declared_15 declared_16 declared_17 declared_18 declared_19 declared_20 declared_21 declared_22 declared_23 declared_24
  by (auto simp: access_table_def asked_defs dest!: declared_sound)

end
