(* ===== verification/Middleware_Gates.thy ===== *)
theory Middleware_Gates
  imports Middleware_Props
begin

text \<open>
  Requests that leave their workspace: the gate for writes, the audit of reads, and what the write gate
  does not see; and the request the cross-site check does not judge.
\<close>

section \<open>Writes to another workspace\<close>

lemma write_gate_target:
  assumes "write_gate env r cx (s, []) = (Inr cx1, d)"
    and "ru_acting_context r" "ru_cross_tenant_write r" "rq_method (gc_request cx) \<noteq> ''GET''"
    and "governanceTargetTenant env (gc_request cx) = Some (Some t, rq1)" "t \<noteq> gc_tenant_id cx"
  shows "me_approval_enabled env \<and>
    EnsureGovernanceActingContextTarget (gc_user_id cx) (gc_tenant_id cx) t (mw_ids s, []) = (Inr (), mw_ids s, [])"
proof -
  from assms obtain d1 d2 where e: "EnsureGovernanceApprovalEnabled (me_approval_enabled env) (s, []) = (Inr (), d1)"
    and t: "on_mw_ids (EnsureGovernanceActingContextTarget (gc_user_id cx) (gc_tenant_id cx) t) d1 = (Inr (), d2)"
    by (auto simp: write_gate_def Let_def split: if_splits elim!: chk_InrE)
  have "me_approval_enabled env \<and> d1 = (s, [])"
    using e by (auto simp: EnsureGovernanceApprovalEnabled_def split: if_splits)
  then show ?thesis using on_mw_ids_Inr [OF sound_acting_target, of _ _ _ s "[]"] t by blast
qed

lemma governanceTarget_nonempty: "governanceTargetTenant env rq = Some (Some t, rq1) \<Longrightarrow> t \<noteq> []"
  by (auto simp: governanceTargetTenant_def Let_def split: if_splits option.splits prod.splits)


section \<open>Reads of another workspace\<close>

lemma matchAny_Some: "matchAny ac refs = Some ref \<Longrightarrow> ref \<in> set refs \<and> evaluate ac (fst ref) (snd ref) = Inr ()"
  by (auto simp: matchAny_def dest!: find_Some_in split: prod.splits)

lemma scope_outside:
  assumes "\<forall>p\<in>set (permissions s). clean_rule p"
    and "ResolveTenantScopeFor uid t sc tid cap (s, []) = (Inr scope, d)" and "ts_kind scope \<noteq> TenantScopeCurrent"
  shows "\<exists>u ref. active_user s uid u \<and> ref \<in> set (GovernanceReadRefs cap) \<and> allowed s u (fst ref) (snd ref) \<and>
    ts_permitted_by scope = ref_text ref"
proof -
  from assms(2) obtain a d1 where "authz uid (s, []) = (Inr a, d1)"
    unfolding ResolveTenantScopeFor_def by (rule chk_InrE)
  then obtain u where u: "active_user s uid u" using authz_inactive [of s uid] by fastforce
  from authz_active [OF assms(1) u] obtain ac where ac: "authz uid (s, []) = (Inr ac, s, [])"
    "\<forall>a x. evaluate ac a x = Inr () \<longleftrightarrow> allowed s u a x" by blast
  from assms(2,3) ac(1) obtain ref where "matchAny ac (GovernanceReadRefs cap) = Some ref" "ts_permitted_by scope = ref_text ref"
    by (auto simp: ResolveTenantScopeFor_def Let_def chk_ok split: if_splits option.splits elim!: chk_InrE)
  with matchAny_Some ac(2) u show ?thesis by blast
qed

lemma append_loop_row: "append_loop sha l env k = Inr rows \<Longrightarrow>
    \<exists>n. rows = at_current (env n) @ [stamp sha l (at_snapshot (env n))]"
  by (induction sha l env k rule: append_loop.induct)
    (subst (asm) (2) append_loop.simps, auto simp: append_once_def Let_def split: if_splits sum.splits option.splits)

lemma stamp_keeps [simp]:
  "a_user_id (stamp sha l rows) = a_user_id l" "a_action (stamp sha l rows) = a_action l"
  "a_scope (stamp sha l rows) = a_scope l" "a_target_tenant_id (stamp sha l rows) = a_target_tenant_id l"
  "a_authorization_permission (stamp sha l rows) = a_authorization_permission l"
  "a_tenant_id (stamp sha l rows) = a_tenant_id l"
  by (simp_all add: stamp_def Let_def split: option.splits)

lemma mw_RecordAudit_row:
  assumes "mw_RecordAudit env e d = (Inr (), d1)"
  shows "\<exists>n r. mw_audits (fst d1) = at_current (me_attempts env n) @ [r] \<and> a_user_id r = a_user_id e \<and>
    a_tenant_id r = a_tenant_id e \<and> a_action r = a_action e \<and> a_scope r = a_scope e \<and>
    a_target_tenant_id r = default_to (a_tenant_id e) (a_target_tenant_id e) \<and>
    a_authorization_permission r = a_authorization_permission e"
proof -
  let ?p = "prepare_audit (me_json env) (me_print env) (me_new_id env) (me_now env) e"
  from assms obtain rows where "CreateAudit (me_sha env) (me_new_id env) (me_now env) ?p (me_attempts env) = Inr rows"
    "mw_audits (fst d1) = rows"
    by (auto simp: mw_RecordAudit_def RecordAudit_def Let_def split: sum.splits)
  then obtain l where "append_loop (me_sha env) l (me_attempts env) 0 = Inr (mw_audits (fst d1))" and
    l: "a_user_id l = a_user_id e" "a_action l = a_action e" "a_scope l = a_scope e" "a_tenant_id l = a_tenant_id e"
      "a_target_tenant_id l = default_to (a_tenant_id e) (a_target_tenant_id e)"
      "a_authorization_permission l = a_authorization_permission e"
    by (auto simp: CreateAudit_def prepare_audit_def Let_def split: if_splits)
  then obtain n where "mw_audits (fst d1) = at_current (me_attempts env n) @ [stamp (me_sha env) l (at_snapshot (me_attempts env n))]"
    using append_loop_row by blast
  with l show ?thesis by auto
qed

text \<open>
  C37: A read of another workspace is authorized and leaves a trace. Whatever database faults occur, if
  a read reaches its handler with a scope other than the own workspace, then the user holds one of the
  permissions for reading across workspaces, and the audit log ends with a row that names the user, the
  read, the scope, the workspace read (the own one when the scope is all of them) and the very
  permission that opened it.
\<close>

theorem cross_workspace_read_is_audited:
  assumes "\<forall>p\<in>set (permissions (mw_ids s)). clean_rule p"
    and "RBAC env rules cx (s, fs) = (Inr cx1, d)"
    and "rq_method (gc_request cx) = ''GET''" "gc_tenant_scope cx = None"
    and "gc_tenant_scope cx1 = Some scope" "ts_kind scope \<noteq> TenantScopeCurrent"
  shows "\<exists>r u ref n e. byKey rules (''GET '' @ rq_full_path (gc_request cx)) = Some r \<and>
    active_user (mw_ids s) (gc_user_id cx) u \<and> ref \<in> set (GovernanceReadRefs (ru_resource r)) \<and>
    allowed (mw_ids s) u (fst ref) (snd ref) \<and>
    mw_audits (fst d) = at_current (me_attempts env n) @ [e] \<and>
    a_user_id e = gc_user_id cx \<and> a_tenant_id e = gc_tenant_id cx \<and> a_action e = ru_resource r @ ''.governance.read'' \<and>
    a_scope e = kind_text (ts_kind scope) \<and>
    a_target_tenant_id e = default_to (gc_tenant_id cx) (ts_target_tenant_id scope) \<and>
    a_authorization_permission e = ref_text ref"
proof -
  from assms(2) obtain r cx0 fs1 where
    r: "byKey rules (rq_method (gc_request cx) @ '' '' @ rq_full_path (gc_request cx)) = Some r" and
    w: "write_gate env r cx (s, []) = (Inr cx0, s, [])" and g: "audit_gate env r cx0 (s, fs1) = (Inr cx1, d)"
    by (rule RBAC_InrE)
  have cx0: "cx0 = cx" using write_gate_keeps [OF w] assms(3) by simp
  from g [unfolded cx0] assms(4,5) obtain sc d1 d2 where
    1: "on_mw_ids (ResolveTenantScopeFor (gc_user_id cx) (gc_tenant_id cx) (Query ''scope'' (gc_request cx))
         (Query ''tenant_id'' (gc_request cx)) (ru_resource r)) (s, fs1) = (Inr sc, d1)" and
    2: "(if ScopeAll sc \<or> ts_kind sc = TenantScopeSpecific
         then mw_RecordAudit env (read_entry (ru_resource r) cx sc) else ret ()) d1 = (Inr (), d2)" and
    3: "sc = scope" "d = d2"
    by (auto simp: audit_gate_def split: if_splits elim!: chk_InrE)
  from on_mw_ids_Inr [OF sound_ResolveTenantScopeFor 1] scope_outside [OF assms(1), of "gc_user_id cx"] 3 assms(6)
  obtain u ref where u: "active_user (mw_ids s) (gc_user_id cx) u" "ref \<in> set (GovernanceReadRefs (ru_resource r))"
    "allowed (mw_ids s) u (fst ref) (snd ref)" "ts_permitted_by scope = ref_text ref" by blast
  have "ScopeAll scope \<or> ts_kind scope = TenantScopeSpecific"
    using assms(6) by (cases "ts_kind scope") (auto simp: ScopeAll_def)
  with 2 3 have "mw_RecordAudit env (read_entry (ru_resource r) cx scope) d1 = (Inr (), d)" by simp
  from mw_RecordAudit_row [OF this] u(4) have "\<exists>n e. mw_audits (fst d) = at_current (me_attempts env n) @ [e] \<and>
    a_user_id e = gc_user_id cx \<and> a_tenant_id e = gc_tenant_id cx \<and> a_action e = ru_resource r @ ''.governance.read'' \<and>
    a_scope e = kind_text (ts_kind scope) \<and>
    a_target_tenant_id e = default_to (gc_tenant_id cx) (ts_target_tenant_id scope) \<and>
    a_authorization_permission e = ref_text ref"
    by (simp add: read_entry_def governance_entry_def ref_text_def)
  moreover have "byKey rules (''GET '' @ rq_full_path (gc_request cx)) = Some r" using r assms(3) by simp
  ultimately show ?thesis using u by blast
qed

section \<open>What the write gate does not see\<close>

lemma ABAC_own_tenant:
  assumes "\<forall>p\<in>set (permissions s). clean_rule p" and "active_user s uid u" and "allowed s u a x"
  shows "AuthorizeABAC uid a x (us_tenant_id u) [] [] (s, []) = (Inr (), s, [])"
proof -
  from authz_active [OF assms(1,2)] obtain ac where ac: "authz uid (s, []) = (Inr ac, s, [])" "ac_user ac = u"
    "\<forall>a x. evaluate ac a x = Inr () \<longleftrightarrow> allowed s u a x" by blast
  then have "evaluate ac a x = Inr ()" using assms(3) by blast
  with ac(1,2) show ?thesis
    by (simp add: AuthorizeABAC_def Authorize_def chk_ok project_check_def)
qed

lemma scope_specific:
  assumes "\<forall>p\<in>set (permissions s). clean_rule p" and "active_user s uid u" and "allowed s u ''governance.read'' ''tenant''"
    and "TrimSpace a \<noteq> []" "TrimSpace t = t" "t \<noteq> []" "row_at te_id t (tenants s) = Some te"
  shows "ResolveTenantScopeFor uid a ''specific'' t cap (s, []) =
    (Inr \<lparr>ts_kind = TenantScopeSpecific, ts_actor_tenant_id = a, ts_target_tenant_id = t,
          ts_allowed_tenant_ids = [t], ts_permitted_by = ''governance.read:tenant''\<rparr>, s, [])"
proof -
  from authz_active [OF assms(1,2)] obtain ac where ac: "authz uid (s, []) = (Inr ac, s, [])"
    "\<forall>a x. evaluate ac a x = Inr () \<longleftrightarrow> allowed s u a x" by blast
  have m: "matchAny ac (GovernanceReadRefs cap) = Some (''governance.read'', ''tenant'')"
    using ac(2) assms(3) by (simp add: matchAny_def GovernanceReadRefs_def)
  have "ToLower (TrimSpace ''specific'') = ''specific''" by code_simp
  then show ?thesis using ac(1) assms(4-7)
    by (simp add: ResolveTenantScopeFor_def Let_def chk_ok m GetTenant_def ref_text_def)
qed

lemma specific_matches: "scopeValueMatches AllowedScopeSpecific ''specific''"
  by code_simp


text \<open>
  The gate reads at most one mebibyte of a JSON body to look for a target. A longer body is cut there,
  and since a truncated document does not scan, the write is refused, whatever the configured limit of
  request bodies allows.
\<close>

theorem long_governed_body_is_refused:
  assumes "ru_acting_context r" "ru_cross_tenant_write r" "rq_method (gc_request cx) \<noteq> ''GET''"
    and "TrimSpace (Query ''target_tenant_id'' (gc_request cx)) = []" "TrimSpace (Query ''tenant_id'' (gc_request cx)) = []"
    and "Contains (ContentType (gc_request cx)) ''application/json''"
    and "rq_body (gc_request cx) = Some body" "2 ^ 20 < length body" "2 ^ 20 \<le> rq_body_limit (gc_request cx)"
    and "TrimSpace (take (2 ^ 20) body) \<noteq> []" "me_json env (take (2 ^ 20) body) = None"
  shows "write_gate env r cx d = (Inl (Http 400 400 ''invalid governance target''), d)"
proof -
  have "governanceTargetTenant env (gc_request cx) = None"
    unfolding governanceTargetTenant_def using assms(4-7,9-11) by (simp add: read_body_def unmarshal_def Let_def)
  then show ?thesis using assms(1-3) by (simp add: write_gate_def)
qed

section \<open>What the cross-site check does not judge\<close>

text \<open>
  A cross-site request with a useless authorization header is not judged. The check leaves every
  request with an authorization header alone, as one that does not rely on cookies; but authentication
  falls back to the cookie when the header holds no bearer token. So a request with an access cookie
  and, say, basic credentials is handled with the rights of the cookie, whatever site it comes from.
\<close>

theorem csrf_skipped_for_unused_authorization:
  assumes "has_cookie ''rgx_access'' rq" and "GetHeader ''Authorization'' rq \<noteq> []"
    and "\<not> HasPrefix (GetHeader ''Authorization'' rq) ''Bearer ''"
  shows "presented_token rq = Cookie ''rgx_access'' rq \<and> Cookie ''rgx_access'' rq \<noteq> None \<and>
    protected env rq = chk (Auth env rq) (RBAC env accessRules)"
  using assms
  by (auto simp: presented_token_def bearerToken_def protected_def cookieCSRFHandler_def has_cookie_def Let_def)

text \<open>
  Without an authorization header the check holds: a request that is authenticated by its cookie comes
  from the own origin, from an allowed one or from the same host, or its browser names no origin, and
  no browser has declared it cross-site.
\<close>

theorem cookie_request_is_same_site:
  assumes "protected env rq d = (Inr cx, d1)" and "GetHeader ''Authorization'' rq = []"
  shows "has_cookie ''rgx_access'' rq \<and> \<not> EqualFold (GetHeader ''Sec-Fetch-Site'' rq) ''cross-site'' \<and>
    (EqualFold (GetHeader ''Sec-Fetch-Site'' rq) ''same-origin'' \<or> GetHeader ''Origin'' rq = [] \<or>
     normalizeOrigin (me_url_parse env) (GetHeader ''Origin'' rq) \<in> set (allowed_origins env) \<or>
     sameOrigin (me_url_parse env) (GetHeader ''Origin'' rq) (rq_host rq))"
proof -
  have "\<not> EqualFold [] ''cross-site''" by code_simp
  moreover have "bearerToken [] = None" by code_simp
  ultimately show ?thesis using assms
    by (auto simp: protected_def cookieCSRFHandler_def Auth_def presented_token_def Let_def
        split: sum.splits if_splits option.splits elim!: chk_InrE)
qed

end
