(* ===== verification/Audit_Integrity.thy ===== *)
theory Audit_Integrity
  imports Audit_Chain
begin

text \<open>
  What the audit chain guarantees: concurrent writers never fork it, an append that returns has
  extended it by one row, a verified chain whose head is known admits no other history, a purge
  followed by re-anchoring verifies again; and what it does not: an interrupted re-anchoring
  reverses the history, and a separator inside a field hides an edit.
\<close>

section \<open>Concurrent writers\<close>

lemma AuditHash_bookkeeping [simp]:
  "AuditHash sha p (l\<lparr>a_seq := i\<rparr>) = AuditHash sha p l"
  "AuditHash sha p (l\<lparr>a_prev_hash := q\<rparr>) = AuditHash sha p l"
  "AuditHash sha p (l\<lparr>a_hash := h\<rparr>) = AuditHash sha p l"
  by (simp_all add: AuditHash_def hashed_fields_def)

lemma tenant_rows_append:
  "tenant_rows t (rows @ [r]) = (if a_tenant_id r = t then tenant_rows t rows @ [r] else tenant_rows t rows)"
  by (simp add: tenant_rows_def)

text \<open>A record stamped on the first \<open>k\<close> rows of its tenant.\<close>

definition stamped_on :: "(string \<Rightarrow> string) \<Rightarrow> audit_log \<Rightarrow> audit_log list \<Rightarrow> bool" where
  "stamped_on sha r rs \<longleftrightarrow> (\<exists>k\<le>length rs. a_seq r = int k + 1 \<and>
     a_prev_hash r = head_hash (take k rs) \<and> a_hash r = AuditHash sha (a_prev_hash r) r)"

lemma stamp_tenant [simp]: "a_tenant_id (stamp sha log rows) = a_tenant_id log"
  by (simp add: stamp_def Let_def split: option.splits)

lemma stamp_stamped:
  assumes "verify_rows sha 0 [] (tenant_rows (a_tenant_id log) rows)"
  shows "stamped_on sha (stamp sha log rows) (tenant_rows (a_tenant_id log) rows)"
proof (cases "tenant_rows (a_tenant_id log) rows = []")
  case True
  then show ?thesis by (simp add: stamped_on_def stamp_def last_audit_verified [OF assms] head_hash_def)
next
  case False
  let ?rs = "tenant_rows (a_tenant_id log) rows"
  have "a_seq (last ?rs) = int (length ?rs)"
    using verify_seq [OF assms, of "length ?rs - 1"] False by (cases "?rs" rule: rev_cases) simp_all
  then show ?thesis using False unfolding stamped_on_def
    by (intro exI [of _ "length ?rs"]) (simp add: stamp_def last_audit_verified [OF assms] head_hash_def)
qed

lemma stamped_on_extend: "stamped_on sha r rs \<Longrightarrow> stamped_on sha r (rs @ ys)"
  unfolding stamped_on_def by (metis add_leD1 diff_is_0_eq le_iff_add length_append take0 take_append append_Nil2 trans_le_add1)

lemma commit_extends:
  assumes "verify_rows sha 0 [] (tenant_rows (a_tenant_id r) rows)"
    and "stamped_on sha r (tenant_rows (a_tenant_id r) rows)" and "\<not> audit_conflict r rows"
  shows "verify_rows sha 0 [] (tenant_rows (a_tenant_id r) rows @ [r])"
proof -
  let ?rs = "tenant_rows (a_tenant_id r) rows"
  obtain k where k: "k \<le> length ?rs" "a_seq r = int k + 1" "a_prev_hash r = head_hash (take k ?rs)"
    "a_hash r = AuditHash sha (a_prev_hash r) r" using assms(2) by (auto simp: stamped_on_def)
  have "k = length ?rs"
  proof (rule ccontr)
    assume "k \<noteq> length ?rs"
    then have lt: "k < length ?rs" using k(1) by simp
    then have "?rs ! k \<in> set ?rs" and "a_seq (?rs ! k) = a_seq r"
      using verify_seq [OF assms(1) lt] k(2) by simp_all
    then show False using assms(3) by (auto simp: audit_conflict_def tenant_rows_def)
  qed
  then show ?thesis using assms(1) k(2-4) by (auto simp: verify_append head_hash_def)
qed

text \<open>
  Writers in any number of processes. A writer reads the tail and stamps its record; it inserts
  it later, when others may have appended; the unique index rejects a taken position.
\<close>

type_synonym writers = "audit_log list \<times> (nat \<rightharpoonup> audit_log)"

inductive audit_step :: "(string \<Rightarrow> string) \<Rightarrow> writers \<Rightarrow> writers \<Rightarrow> bool" for sha where
  read: "audit_step sha (rows, p) (rows, p(w \<mapsto> stamp sha log rows))"
| commit: "p w = Some r \<Longrightarrow> \<not> audit_conflict r rows \<Longrightarrow> audit_step sha (rows, p) (rows @ [r], p(w := None))"
| lost: "p w = Some r \<Longrightarrow> audit_conflict r rows \<Longrightarrow> audit_step sha (rows, p) (rows, p(w := None))"

inductive_cases audit_stepE: "audit_step sha s t"

definition audit_ok :: "(string \<Rightarrow> string) \<Rightarrow> writers \<Rightarrow> bool" where
  "audit_ok sha s \<longleftrightarrow> (\<forall>t. verify_rows sha 0 [] (tenant_rows t (fst s))) \<and>
     (\<forall>w r. snd s w = Some r \<longrightarrow> stamped_on sha r (tenant_rows (a_tenant_id r) (fst s)))"

lemma audit_ok_step: "audit_step sha s t \<Longrightarrow> audit_ok sha s \<Longrightarrow> audit_ok sha t"
proof (induction rule: audit_step.induct)
  case (read rows p w log)
  then show ?case using stamp_stamped [of sha log rows] by (auto simp: audit_ok_def)
next
  case (commit p w r rows)
  then have "verify_rows sha 0 [] (tenant_rows (a_tenant_id r) rows @ [r])"
    by (intro commit_extends) (auto simp: audit_ok_def)
  moreover have "stamped_on sha x (tenant_rows (a_tenant_id x) (rows @ [r]))" if "p v = Some x" for x v
    using commit.prems that stamped_on_extend [of sha x "tenant_rows (a_tenant_id x) rows" "[r]"]
    by (auto simp: audit_ok_def tenant_rows_append)
  ultimately show ?case using commit.prems by (auto simp: audit_ok_def tenant_rows_append split: if_splits)
next
  case (lost p w r rows)
  then show ?case by (auto simp: audit_ok_def)
qed

lemma audit_ok_steps: "(audit_step sha)\<^sup>*\<^sup>* s t \<Longrightarrow> audit_ok sha s \<Longrightarrow> audit_ok sha t"
  by (induction rule: rtranclp_induct) (blast intro: audit_ok_step)+

text \<open>
  C10: The chain never forks. Whatever writers of whatever tenants read and insert in whatever
  order, starting from an empty log, every tenant's chain verifies.
\<close>

theorem concurrent_appends_keep_chain:
  assumes "(audit_step sha)\<^sup>*\<^sup>* ([], Map.empty) (rows, p)"
  shows "fst (VerifyAuditChain sha t (rows, [])) = Inr True"
proof -
  have "audit_ok sha ([], Map.empty)" by (simp add: audit_ok_def tenant_rows_def)
  with assms have "audit_ok sha (rows, p)" by (rule audit_ok_steps)
  then have "verify_rows sha 0 [] (tenant_rows t rows)" by (simp add: audit_ok_def)
  then show ?thesis by (simp add: VerifyAuditChain_def list_audits_verified)
qed

definition sample_log :: "string \<Rightarrow> string \<Rightarrow> audit_log" where
  "sample_log i act = \<lparr>a_id = i, a_seq = 0, a_tenant_id = ''t'', a_actor_tenant_id = ''t'',
     a_target_tenant_id = ''t'', a_user_id = ''u'', a_action = act, a_resource = ''chat'', a_resource_id = [],
     a_detail_json = [], a_ip = [], a_trace_id = [], a_scope = [], a_result = ''SUCCESS'', a_approval_id = [],
     a_acting_context_id = [], a_approval_action_hash = [], a_authorization_decision = ''ALLOW'',
     a_authorization_permission = [], a_authorization_policy_version = [], a_at = 5, a_prev_hash = [],
     a_hash = []\<rparr>"

text \<open>The witness: two writers stamp on the empty log; one commits, the other loses and retries.\<close>

definition toy_sha :: "string \<Rightarrow> string" where
  "toy_sha s = ''h''"

definition two_rows :: "audit_log list" where
  "two_rows = (let r1 = stamp toy_sha (sample_log ''1'' ''a'') []
     in [r1, stamp toy_sha (sample_log ''2'' ''b'') [r1]])"

theorem concurrent_appends_keep_chain_witness:
  "fst (VerifyAuditChain toy_sha ''t'' (two_rows, [])) = Inr True"
proof -
  let ?r1 = "stamp toy_sha (sample_log ''1'' ''a'') []" and ?x = "stamp toy_sha (sample_log ''2'' ''b'') []"
  let ?r2 = "stamp toy_sha (sample_log ''2'' ''b'') [?r1]"
  have 1: "(audit_step toy_sha)\<^sup>*\<^sup>* ([], Map.empty) ([], [0 \<mapsto> ?r1, 1 \<mapsto> ?x])"
    by (rule rtranclp_trans; rule r_into_rtranclp, rule audit_step.read)
  have c: "\<not> audit_conflict ?r1 []" "audit_conflict ?x [?r1]" "\<not> audit_conflict ?r2 [?r1]" by code_simp+
  have 2: "audit_step toy_sha ([], [0 \<mapsto> ?r1, 1 \<mapsto> ?x]) ([] @ [?r1], [0 \<mapsto> ?r1, 1 \<mapsto> ?x](0 := None))"
    by (rule audit_step.commit [OF _ c(1)]) simp
  have 3: "audit_step toy_sha ([?r1], [1 \<mapsto> ?x]) ([?r1], [1 \<mapsto> ?x](1 := None))"
    by (rule audit_step.lost [OF _ c(2)]) simp
  have 4: "audit_step toy_sha ([?r1], Map.empty) ([?r1], [1 \<mapsto> ?r2])" by (rule audit_step.read)
  have 5: "audit_step toy_sha ([?r1], [1 \<mapsto> ?r2]) ([?r1] @ [?r2], [1 \<mapsto> ?r2](1 := None))"
    by (rule audit_step.commit [OF _ c(3)]) simp
  have eq: "[0 \<mapsto> ?r1, 1 \<mapsto> ?x](0 := None) = [1::nat \<mapsto> ?x]" "[1::nat \<mapsto> ?x](1 := None) = Map.empty"
    by (auto simp: fun_eq_iff)
  have "(audit_step toy_sha)\<^sup>*\<^sup>* ([], Map.empty) ([?r1] @ [?r2], [1 \<mapsto> ?r2](1 := None))"
    using 1 2 3 4 5 by (simp only: eq append_Nil)
  from concurrent_appends_keep_chain [OF this] show ?thesis by (simp add: two_rows_def Let_def)
qed

section \<open>One append\<close>

text \<open>
  An append that returns has extended the chain. If at each attempt the rows the transaction
  reads are an initial part of the rows present at the insert, both verified, then a successful
  append added exactly one row to what one of its five attempts found, every tenant's chain still
  verifies, and the new row is the head of its tenant's chain with the caller's content.
\<close>

theorem append_extends_chain:
  assumes "CreateAudit sha newID now log env = Inr rows"
    and "\<And>n t. verify_rows sha 0 [] (tenant_rows t (at_snapshot (env n)))"
    and "\<And>n t. verify_rows sha 0 [] (tenant_rows t (at_current (env n)))"
    and "\<And>n. \<exists>ys. at_current (env n) = at_snapshot (env n) @ ys"
  shows "\<exists>n r. n < 5 \<and> rows = at_current (env n) @ [r] \<and> a_action r = a_action log \<and>
    a_tenant_id r = a_tenant_id log \<and> (\<forall>t. verify_rows sha 0 [] (tenant_rows t rows))"
proof -
  have once: "\<exists>r. rows = at_current (env n) @ [r] \<and> a_action r = a_action l \<and> a_tenant_id r = a_tenant_id l \<and>
      (\<forall>t. verify_rows sha 0 [] (tenant_rows t rows))" if "append_once sha l (env n) = Inr rows" for l n
  proof -
    let ?r = "stamp sha l (at_snapshot (env n))"
    have r: "rows = at_current (env n) @ [?r]" "\<not> audit_conflict ?r (at_current (env n))"
      using that by (auto simp: append_once_def Let_def split: option.splits if_splits)
    obtain ys where ys: "at_current (env n) = at_snapshot (env n) @ ys" using assms(4) by blast
    have "stamped_on sha ?r (tenant_rows (a_tenant_id ?r) (at_current (env n)))"
      using stamped_on_extend [OF stamp_stamped [OF assms(2)]] by (simp add: ys tenant_rows_def)
    with r(2) have "verify_rows sha 0 [] (tenant_rows (a_tenant_id ?r) (at_current (env n)) @ [?r])"
      using commit_extends assms(3) by blast
    then have "verify_rows sha 0 [] (tenant_rows t rows)" for t
      using assms(3) [where n = n and t = t] by (auto simp: r(1) tenant_rows_append)
    moreover have "a_action ?r = a_action l" by (simp add: stamp_def Let_def split: option.splits)
    ultimately show ?thesis using r(1) by auto
  qed
  have loop: "append_loop sha l env k = Inr rows \<Longrightarrow> \<exists>n<5. append_once sha l (env n) = Inr rows" for l k
    by (induction sha l env k rule: append_loop.induct)
      (subst (asm) (2) append_loop.simps, auto simp: auditAppendMaxRetries_def not_le split: if_splits sum.splits)
  obtain l where "append_loop sha l env 0 = Inr rows" and "a_action l = a_action log" "a_tenant_id l = a_tenant_id log"
    using assms(1) by (auto simp: CreateAudit_def Let_def split: if_splits)
  then show ?thesis using loop once by metis
qed

definition quiet_env :: "audit_log list \<Rightarrow> nat \<Rightarrow> attempt" where
  "quiet_env rows n = \<lparr>at_cancelled = False, at_snapshot = rows, at_current = rows, at_fault = None\<rparr>"

lemma two_rows_tenant: "tenant_rows t two_rows = (if t = ''t'' then two_rows else [])"
proof -
  have "list_all (\<lambda>r. a_tenant_id r = ''t'') two_rows" by code_simp
  then show ?thesis by (auto simp: tenant_rows_def list_all_iff filter_id_conv filter_empty_conv)
qed

lemma two_rows_verified: "verify_rows toy_sha 0 [] (tenant_rows t two_rows)"
proof -
  have "verify_rows toy_sha 0 [] two_rows" by code_simp
  then show ?thesis by (simp add: two_rows_tenant)
qed

theorem append_extends_chain_witness:
  "\<exists>rows. CreateAudit toy_sha ''3'' 9 (sample_log ''3'' ''c'') (quiet_env two_rows) = Inr rows \<and>
     length rows = 3 \<and> verify_rows toy_sha 0 [] (tenant_rows ''t'' rows)"
proof -
  have "\<not> isl (CreateAudit toy_sha ''3'' 9 (sample_log ''3'' ''c'') (quiet_env two_rows))" by code_simp
  then obtain rows where "CreateAudit toy_sha ''3'' 9 (sample_log ''3'' ''c'') (quiet_env two_rows) = Inr rows"
    by (cases "CreateAudit toy_sha ''3'' 9 (sample_log ''3'' ''c'') (quiet_env two_rows)") auto
  then show ?thesis
    using append_extends_chain [of toy_sha "''3''" 9 "sample_log ''3'' ''c''" "quiet_env two_rows" rows]
    by (auto simp: quiet_env_def two_rows_verified) (simp add: two_rows_def Let_def)
qed

section \<open>Tamper evidence\<close>

text \<open>No hashed field contains the separator.\<close>

definition bar_free :: "audit_log \<Rightarrow> bool" where
  "bar_free l \<longleftrightarrow> list_all (\<lambda>f. CHR ''|'' \<notin> set f) (hashed_fields l)"

lemma sep_unique_right:
  assumes "c \<notin> set x" and "c \<notin> set y" and "a @ c # x = b @ c # y"
  shows "a = b \<and> x = y"
proof -
  have "rev x @ c # rev a = rev y @ c # rev b"
    using arg_cong [OF assms(3), of rev] by simp
  from sep_unique [OF _ _ this] show ?thesis using assms(1,2) by simp
qed

lemma join_unique:
  assumes "length fs = length gs" and "list_all (\<lambda>f. CHR ''|'' \<notin> set f) fs" and "list_all (\<lambda>f. CHR ''|'' \<notin> set f) gs"
    and "p @ concat (map (\<lambda>f. CHR ''|'' # f) fs) = q @ concat (map (\<lambda>f. CHR ''|'' # f) gs)"
  shows "p = q \<and> fs = gs"
  using assms
proof (induction fs arbitrary: gs rule: rev_induct)
  case (snoc f fs)
  then obtain g hs where gs: "gs = hs @ [g]" by (cases gs rule: rev_cases) auto
  have "(p @ concat (map (\<lambda>f. CHR ''|'' # f) fs)) @ CHR ''|'' # f =
      (q @ concat (map (\<lambda>f. CHR ''|'' # f) hs)) @ CHR ''|'' # g"
    using snoc.prems(4) gs by simp
  from sep_unique_right [OF _ _ this] snoc.prems gs
  have "p @ concat (map (\<lambda>f. CHR ''|'' # f) fs) = q @ concat (map (\<lambda>f. CHR ''|'' # f) hs)" and "f = g"
    by (auto simp: list_all_iff)
  then show ?case using snoc.IH [of hs] snoc.prems gs by (auto simp: list_all_iff)
qed simp

lemma hash_fields_unique:
  assumes "inj sha" and "bar_free l" and "bar_free m" and "AuditHash sha p l = AuditHash sha q m"
  shows "p = q \<and> hashed_fields l = hashed_fields m"
  by (rule join_unique) (use assms in \<open>auto simp: AuditHash_def bar_free_def inj_eq hashed_fields_def\<close>)

lemma verify_nth:
  assumes "verify_rows sha i prev rs" and "k < length rs"
  shows "a_prev_hash (rs ! k) = (if k = 0 then prev else a_hash (rs ! (k - 1)))"
    and "a_hash (rs ! k) = AuditHash sha (a_prev_hash (rs ! k)) (rs ! k)"
proof -
  have "verify_rows sha i prev (take k rs @ rs ! k # drop (Suc k) rs)"
    using assms by (simp add: id_take_nth_drop [symmetric])
  then have *: "verify_rows sha (i + int k) (if take k rs = [] then prev else a_hash (last (take k rs))) (rs ! k # drop (Suc k) rs)"
    using assms(2) by (simp only: verify_append length_take min.absorb4)
  have "last (take k rs) = rs ! (k - 1)" if "k \<noteq> 0" using that assms(2)
    by (cases k) (auto simp: take_Suc_conv_app_nth)
  then show "a_prev_hash (rs ! k) = (if k = 0 then prev else a_hash (rs ! (k - 1)))"
    and "a_hash (rs ! k) = AuditHash sha (a_prev_hash (rs ! k)) (rs ! k)"
    using * assms(2) by (auto split: if_splits)
qed

text \<open>
  C11: A known head fixes the history. If the digest has no collisions, two verified chains whose
  \<open>n\<close>-th rows carry the same hash, as a recorded anchor says, agree in every hashed field of their
  first \<open>n\<close> rows, provided no hashed field contains the separator: a row before an anchored
  position can be neither edited, nor replaced, nor reordered without verification failing or
  the anchored hash changing.
\<close>

theorem anchored_head_fixes_history:
  assumes "inj sha" and "verify_rows sha 0 [] xs" and "verify_rows sha 0 [] ys"
    and "n < length xs" and "n < length ys" and "a_hash (xs ! n) = a_hash (ys ! n)"
    and "list_all bar_free xs" and "list_all bar_free ys"
  shows "map hashed_fields (take (n + 1) xs) = map hashed_fields (take (n + 1) ys)"
  using assms(4-6)
proof (induction n)
  case (Suc n)
  have "a_prev_hash (xs ! Suc n) = a_prev_hash (ys ! Suc n) \<and> hashed_fields (xs ! Suc n) = hashed_fields (ys ! Suc n)"
    using Suc.prems verify_nth(2) [OF assms(2)] verify_nth(2) [OF assms(3)] assms(7,8)
    by (intro hash_fields_unique [OF assms(1)]) (auto simp: list_all_length)
  moreover from this have "a_hash (xs ! n) = a_hash (ys ! n)"
    using Suc.prems verify_nth(1) [OF assms(2)] verify_nth(1) [OF assms(3)] by simp
  ultimately show ?case using Suc by (simp add: take_Suc_conv_app_nth)
next
  case 0
  have "hashed_fields (xs ! 0) = hashed_fields (ys ! 0)"
    using 0 verify_nth(2) [OF assms(2)] verify_nth(2) [OF assms(3)] assms(7,8)
    by (intro conjunct2 [OF hash_fields_unique [OF assms(1)]]) (auto simp: list_all_length)
  then show ?case using 0 by (simp add: take_Suc_conv_app_nth)
qed

theorem anchored_head_fixes_history_witness:
  "map hashed_fields (take 1 [stamp id (sample_log ''1'' ''a'') []]) =
   map hashed_fields (take 1 [stamp id (sample_log ''9'' ''a'') []])"
proof -
  let ?xs = "[stamp id (sample_log ''1'' ''a'') []]" and ?ys = "[stamp id (sample_log ''9'' ''a'') []]"
  have "verify_rows id 0 [] ?xs" "verify_rows id 0 [] ?ys" "a_hash (?xs ! 0) = a_hash (?ys ! 0)"
    "list_all bar_free ?xs" "list_all bar_free ?ys"
    by code_simp+
  then show ?thesis using anchored_head_fixes_history [OF inj_on_id, of ?xs ?ys 0] by simp
qed

text \<open>
  Deleting a row in the middle is detected, cutting the end off is not. Of a verified chain,
  the rows without any one row that is not the last never verify, and every initial part does.
\<close>

theorem deletion_detected_except_at_tail:
  assumes "verify_rows sha 0 [] rs"
  shows "(n + 1 < length rs \<longrightarrow> \<not> verify_rows sha 0 [] (take n rs @ drop (n + 1) rs)) \<and>
    verify_rows sha 0 [] (take n rs)"
proof -
  have "verify_rows sha 0 [] (take n rs @ drop n rs)" using assms by simp
  then have pre: "verify_rows sha 0 [] (take n rs)" unfolding verify_append by simp
  moreover have False if n: "n + 1 < length rs" and v: "verify_rows sha 0 [] (take n rs @ drop (n + 1) rs)"
  proof -
    have "(take n rs @ drop (n + 1) rs) ! n = rs ! (n + 1)" using n by (simp add: nth_append)
    moreover have "a_seq ((take n rs @ drop (n + 1) rs) ! n) = int n + 1"
      using verify_seq [OF v, of n] n by simp
    ultimately show False using verify_seq [OF assms, of "n + 1"] n by simp
  qed
  ultimately show ?thesis by blast
qed

theorem deletion_detected_except_at_tail_witness:
  "\<not> verify_rows toy_sha 0 [] (take 0 two_rows @ drop 1 two_rows) \<and> verify_rows toy_sha 0 [] (take 1 two_rows)"
proof -
  have v: "verify_rows toy_sha 0 [] two_rows" and "length two_rows = 2" by code_simp+
  then show ?thesis
    using deletion_detected_except_at_tail [OF v, of 0] deletion_detected_except_at_tail [OF v, of 1] by simp
qed

text \<open>
  The separator is not escaped. For every digest and every record, moving text between the
  action and the resource across a separator inside them does not change the hash, so an edit of
  that kind passes verification.
\<close>

theorem separator_hides_edit:
  "AuditHash sha prev (l\<lparr>a_action := x @ ''|'' @ y, a_resource := z\<rparr>) =
   AuditHash sha prev (l\<lparr>a_action := x, a_resource := y @ ''|'' @ z\<rparr>)"
  by (simp add: AuditHash_def hashed_fields_def)

section \<open>Re-anchoring\<close>

fun relink :: "(string \<Rightarrow> string) \<Rightarrow> int \<Rightarrow> string \<Rightarrow> audit_log list \<Rightarrow> audit_log list" where
  "relink sha i prev [] = []"
| "relink sha i prev (r # rs) =
     (let h = AuditHash sha prev r in r\<lparr>a_seq := i + 1, a_prev_hash := prev, a_hash := h\<rparr> # relink sha (i + 1) h rs)"

lemma relink_verifies: "verify_rows sha i prev (relink sha i prev rs)"
  by (induction rs arbitrary: i prev) (auto simp: Let_def)

lemma relink_content:
  "map hashed_fields (relink sha i prev rs) = map hashed_fields rs"
  "map a_id (relink sha i prev rs) = map a_id rs"
  "map a_tenant_id (relink sha i prev rs) = map a_tenant_id rs"
  by (induction rs arbitrary: i prev) (auto simp: Let_def hashed_fields_def)

text \<open>Rows replaced by the rows of the same id in \<open>new\<close>, and rows equal up to the chain columns.\<close>

definition overwrite :: "audit_log list \<Rightarrow> audit_log list \<Rightarrow> audit_log list" where
  "overwrite new rows = map (\<lambda>x. case row_at a_id (a_id x) new of None \<Rightarrow> x | Some y \<Rightarrow> y) rows"

definition same_event :: "audit_log \<Rightarrow> audit_log \<Rightarrow> bool" where
  "same_event x y \<longleftrightarrow> x\<lparr>a_seq := 0, a_prev_hash := [], a_hash := []\<rparr> = y\<lparr>a_seq := 0, a_prev_hash := [], a_hash := []\<rparr>"

lemma same_event_relinked:
  assumes "same_event c r"
  shows "c\<lparr>a_seq := i, a_prev_hash := p, a_hash := h\<rparr> = r\<lparr>a_seq := i, a_prev_hash := p, a_hash := h\<rparr>"
    and "AuditHash sha q c = AuditHash sha q r" and "a_id c = a_id r"
proof -
  have e: "c\<lparr>a_seq := 0, a_prev_hash := [], a_hash := []\<rparr> = r\<lparr>a_seq := 0, a_prev_hash := [], a_hash := []\<rparr>"
    using assms by (simp add: same_event_def)
  show "c\<lparr>a_seq := i, a_prev_hash := p, a_hash := h\<rparr> = r\<lparr>a_seq := i, a_prev_hash := p, a_hash := h\<rparr>"
    using arg_cong [OF e, of "\<lambda>z. z\<lparr>a_seq := i, a_prev_hash := p, a_hash := h\<rparr>"] by simp
  show "AuditHash sha q c = AuditHash sha q r" using arg_cong [OF e, of "AuditHash sha q"] by simp
  show "a_id c = a_id r" using arg_cong [OF e, of a_id] by simp
qed

lemma reanchor_loop_healthy:
  assumes "uniq a_id rows" and "distinct (map a_id rs)"
    and "\<And>r. r \<in> set rs \<Longrightarrow> \<exists>c. row_at a_id (a_id r) rows = Some c \<and> same_event c r"
  shows "reanchor_loop sha i prev rs (rows, []) = (None, overwrite (relink sha i prev rs) rows, [])"
  using assms
proof (induction rs arbitrary: i prev rows)
  case Nil
  then show ?case by (simp add: overwrite_def)
next
  case (Cons r rs)
  obtain c where c: "row_at a_id (a_id r) rows = Some c" "same_event c r" using Cons.prems(3) by auto
  let ?h = "AuditHash sha prev r"
  let ?r = "r\<lparr>a_seq := i + 1, a_prev_hash := prev, a_hash := ?h\<rparr>"
  let ?rows = "map (\<lambda>x. if a_id x = a_id r then ?r else x) rows"
  have "x\<lparr>a_seq := i + 1, a_prev_hash := prev, a_hash := ?h\<rparr> = ?r" if "x \<in> set rows" "a_id x = a_id r" for x
  proof -
    have "x = c" using row_at_in [OF Cons.prems(1) that(1)] that(2) c(1) by simp
    then show ?thesis using same_event_relinked(1) [OF c(2)] by blast
  qed
  then have upd: "sql_update (\<lambda>x. a_id x = a_id r) (\<lambda>x. x\<lparr>a_seq := i + 1, a_prev_hash := prev, a_hash := ?h\<rparr>) rows = ?rows"
    unfolding sql_update_def by (intro map_cong [OF refl]) auto
  have keep: "row_at a_id k ?rows = (if k = a_id r then Some ?r else row_at a_id k rows)" for k
    using row_at_update [of a_id "\<lambda>x. x\<lparr>a_seq := i + 1, a_prev_hash := prev, a_hash := ?h\<rparr>" k "\<lambda>x. a_id x = a_id r" rows]
      c same_event_relinked(1) [OF c(2)] unfolding upd by (auto dest: row_at_SomeD intro!: option.map_ident_strong)
  have u: "uniq a_id ?rows"
    using Cons.prems(1) uniq_update [of a_id "\<lambda>x. x\<lparr>a_seq := i + 1, a_prev_hash := prev, a_hash := ?h\<rparr>"
        "\<lambda>x. a_id x = a_id r" rows] unfolding upd by simp
  have step: "reanchor_loop sha i prev (r # rs) (rows, []) = reanchor_loop sha (i + 1) ?h rs (?rows, [])"
    using c(1) same_event_relinked(2) [OF c(2)] by (simp add: Let_def upd)
  have ih: "reanchor_loop sha (i + 1) ?h rs (?rows, []) = (None, overwrite (relink sha (i + 1) ?h rs) ?rows, [])"
    using Cons.prems by (intro Cons.IH [OF u]) (auto simp: keep image_iff)
  have notin: "row_at a_id (a_id r) (relink sha (i + 1) ?h rs) = None"
    using Cons.prems(2) relink_content(2) [of sha "i + 1" ?h rs] by (simp add: row_at_None_iff flip: set_map)
  have "overwrite (relink sha (i + 1) ?h rs) ?rows = overwrite (relink sha i prev (r # rs)) rows"
    using notin by (auto simp: overwrite_def Let_def)
  then show ?case using step ih by simp
qed

lemma set_overwrite:
  assumes "uniq a_id rows" and "set rs \<subseteq> set rows" and "distinct (map a_id rs)"
    and "map a_id new = map a_id rs"
  shows "set (overwrite new rows) = set new \<union> {x \<in> set rows. a_id x \<notin> a_id ` set rs}"
proof -
  have ids: "a_id ` set new = a_id ` set rs" using arg_cong [OF assms(4), of set] by simp
  have u: "uniq a_id new" using assms(3,4) by (simp add: uniq_def)
  show ?thesis
  proof (intro set_eqI iffI)
    fix x assume "x \<in> set (overwrite new rows)"
    then obtain y where y: "y \<in> set rows" "x = (case row_at a_id (a_id y) new of None \<Rightarrow> y | Some z \<Rightarrow> z)"
      by (auto simp: overwrite_def)
    have none: "row_at a_id (a_id y) new = None \<Longrightarrow> a_id y \<notin> a_id ` set rs" by (simp add: row_at_None_iff ids)
    show "x \<in> set new \<union> {x \<in> set rows. a_id x \<notin> a_id ` set rs}"
      by (cases "row_at a_id (a_id y) new") (use y none in \<open>auto dest: row_at_SomeD\<close>)
  next
    fix x assume "x \<in> set new \<union> {x \<in> set rows. a_id x \<notin> a_id ` set rs}"
    then consider "x \<in> set new" | "x \<in> set rows" "a_id x \<notin> a_id ` set rs" by auto
    then show "x \<in> set (overwrite new rows)"
    proof cases
      case 1
      then obtain r where "r \<in> set rs" "a_id r = a_id x" using ids by (metis imageE imageI)
      then show ?thesis using row_at_in [OF u 1] assms(2)
        by (auto simp: overwrite_def image_iff intro!: bexI [of _ r])
    next
      case 2
      then have "row_at a_id (a_id x) new = None" by (simp add: row_at_None_iff ids)
      then show ?thesis using 2(1) by (auto simp: overwrite_def image_iff intro!: bexI [of _ x])
    qed
  qed
qed

lemma list_overwritten:
  assumes "uniq a_id rows" and "rs = ListAuditsAll t rows" and "new = relink sha 0 [] rs"
  shows "ListAuditsAll t (overwrite new rows) = new"
proof -
  have rs: "set rs = {x \<in> set rows. a_tenant_id x = t}" "distinct (map a_id rs)"
    using assms(1,2) by (auto simp: ListAuditsAll_def uniq_def distinct_map inj_on_def distinct_filter)
  note rc = relink_content [of sha 0 "[]" rs, folded assms(3)]
  have so: "set (overwrite new rows) = set new \<union> {x \<in> set rows. a_id x \<notin> a_id ` set rs}"
    using assms(1) rs rc(2) by (intro set_overwrite) auto
  have tn: "x \<in> set new \<Longrightarrow> a_tenant_id x = t" for x
    using arg_cong [OF rc(3), of set] rs(1) by (force simp: set_map)
  have ids: "map a_id (overwrite new rows) = map a_id rows"
    by (auto simp: overwrite_def split: option.splits dest: row_at_SomeD)
  have d: "distinct (overwrite new rows)"
    using assms(1) ids by (metis distinct_map uniq_def)
  have v: "verify_rows sha 0 [] new" unfolding assms(3) by (rule relink_verifies)
  have "distinct (map a_seq new)" unfolding distinct_conv_nth using verify_seq [OF v] by simp
  then have inj: "inj_on a_seq (set new)" "distinct new" by (auto simp: distinct_map)
  have seteq: "set (filter (\<lambda>r. a_tenant_id r = t) (overwrite new rows)) = set new"
    using so rs(1) tn by auto
  show ?thesis unfolding ListAuditsAll_def
    by (rule map_sorted_distinct_set_unique [of a_seq])
      (use verify_sorted [OF v] inj d seteq in \<open>auto simp: distinct_map\<close>)
qed

lemma same_event_negated:
  "same_event (x\<lparr>a_seq := n\<rparr>) x" "same_event x x"
  by (simp_all add: same_event_def)

lemma overwrite_negated:
  assumes "\<And>x. x \<in> set rows \<Longrightarrow> P x \<Longrightarrow> a_id x \<in> a_id ` set new"
  shows "overwrite new (sql_update P (\<lambda>x. x\<lparr>a_seq := f x\<rparr>) rows) = overwrite new rows"
  using assms unfolding overwrite_def sql_update_def
  by (auto simp: row_at_None_iff split: option.splits)

lemma reanchor_healthy:
  assumes "uniq a_id rows"
  shows "reanchorAuditChain sha t (rows, []) = (None, overwrite (relink sha 0 [] (ListAuditsAll t rows)) rows, [])"
proof (cases "ListAuditsAll t rows = []")
  case True
  then show ?thesis by (simp add: reanchorAuditChain_def overwrite_def)
next
  case False
  let ?rs = "ListAuditsAll t rows" and ?neg = "sql_update (\<lambda>x. a_tenant_id x = t) (\<lambda>x. x\<lparr>a_seq := a_seq x * - 1\<rparr>) rows"
  let ?new = "relink sha 0 [] ?rs"
  have rs: "set ?rs = {x \<in> set rows. a_tenant_id x = t}" "distinct (map a_id ?rs)"
    using assms by (auto simp: ListAuditsAll_def uniq_def distinct_map inj_on_def distinct_filter)
  have u: "uniq a_id ?neg" using assms by (subst uniq_update) simp_all
  have "\<exists>c. row_at a_id (a_id r) ?neg = Some c \<and> same_event c r" if "r \<in> set ?rs" for r
    using that rs(1) row_at_in [OF assms, of r] by (auto simp: row_at_update same_event_negated)
  then have "reanchor_loop sha 0 [] ?rs (?neg, []) = (None, overwrite ?new ?neg, [])"
    by (rule reanchor_loop_healthy [OF u rs(2)])
  moreover have "overwrite ?new ?neg = overwrite ?new rows"
    using rs(1) arg_cong [OF relink_content(2), of set sha 0 "[]" ?rs]
    by (intro overwrite_negated) auto
  ultimately show ?thesis using False by (simp add: reanchorAuditChain_def)
qed

lemma repair_effect:
  assumes "uniq a_id rows" and "TrimSpace t \<noteq> []"
    and "RepairAuditChain sha t (rows, []) = (res, rows', fs)"
  shows "res = Inr True \<and>
    map hashed_fields (ListAuditsAll t rows') = map hashed_fields (ListAuditsAll t rows) \<and>
    (\<forall>x. a_tenant_id x \<noteq> t \<longrightarrow> x \<in> set rows \<longrightarrow> x \<in> set rows')"
proof -
  let ?rs = "ListAuditsAll t rows"
  let ?new = "relink sha 0 [] ?rs"
  have t: "t \<noteq> []" using assms(2) by (auto simp: TrimSpace_def)
  have la: "ListAuditsAll t (overwrite ?new rows) = ?new" by (rule list_overwritten [OF assms(1) refl refl])
  have "RepairAuditChain sha t (rows, []) = (Inr (verify_rows sha 0 [] ?new), overwrite ?new rows, [])"
    using assms(2) t by (simp add: RepairAuditChain_def reanchor_healthy [OF assms(1)] VerifyAuditChain_def la)
  then have r: "res = Inr True" "rows' = overwrite ?new rows"
    using assms(3) relink_verifies [of sha 0 "[]" ?rs] by auto
  have "x \<in> set rows'" if "a_tenant_id x \<noteq> t" "x \<in> set rows" for x
  proof -
    have rs: "set ?rs = {x \<in> set rows. a_tenant_id x = t}" "distinct (map a_id ?rs)"
      using assms(1) by (auto simp: ListAuditsAll_def uniq_def distinct_map inj_on_def distinct_filter)
    have "a_id x \<notin> a_id ` set ?rs"
      using that assms(1) rs(1) by (auto simp: uniq_def distinct_map inj_on_def)
    then show ?thesis using that(2) set_overwrite [OF assms(1) _ rs(2) relink_content(2)] rs(1) by (auto simp: r(2))
  qed
  then show ?thesis using r la relink_content(1) by simp
qed



text \<open>
  An interrupted re-anchoring reverses the history. If the database fails right after the
  sequence numbers were negated, and the repair is then run again on a healthy database, it
  answers that the chain is intact, and the chain holds the events in reverse order.
\<close>

theorem interrupted_repair_reverses_history:
  assumes "uniq a_id rows" and "verify_rows sha 0 [] (tenant_rows t rows)" and "tenant_rows t rows \<noteq> []"
    and "TrimSpace t \<noteq> []"
    and "RepairAuditChain sha t (rows, [False, False, True]) = (r1, rows1, [])"
    and "RepairAuditChain sha t (rows1, []) = (r2, rows2, fs)"
  shows "r1 = Inl DbFault \<and> r2 = Inr True \<and>
    map hashed_fields (ListAuditsAll t rows2) = rev (map hashed_fields (ListAuditsAll t rows))"
proof -
  let ?rs = "tenant_rows t rows" and ?neg = "\<lambda>x. x\<lparr>a_seq := a_seq x * - 1\<rparr>"
  have rs: "ListAuditsAll t rows = ?rs" by (rule list_audits_verified [OF assms(2)])
  have t: "t \<noteq> []" using assms(4) by (auto simp: TrimSpace_def)
  have r1: "r1 = Inl DbFault" "rows1 = sql_update (\<lambda>x. a_tenant_id x = t) ?neg rows"
    using assms(3-5) t by (cases ?rs; auto simp: RepairAuditChain_def reanchorAuditChain_def rs)+
  have u: "uniq a_id rows1" using assms(1) unfolding r1(2) by (subst uniq_update) simp_all
  have f: "filter (\<lambda>r. a_tenant_id r = t) rows1 = map ?neg ?rs"
    by (simp add: r1(2) sql_update_def tenant_rows_def filter_map comp_def)
  have "ListAuditsAll t rows1 = map ?neg (rev ?rs)"
    unfolding ListAuditsAll_def f
  proof (rule map_sorted_distinct_set_unique [of a_seq])
    have d: "distinct (map a_seq ?rs)" unfolding distinct_conv_nth using verify_seq [OF assms(2)] by simp
    have "map a_seq (map ?neg ?rs) = map uminus (map a_seq ?rs)" by (simp add: comp_def)
    then have dn: "distinct (map a_seq (map ?neg ?rs))" using d by (simp add: distinct_map inj_on_def)
    then show "distinct (map a_seq (sort_key a_seq (map ?neg ?rs)))"
      by (simp only: distinct_map [of a_seq] distinct_sort set_sort simp_thms)
    show "distinct (map a_seq (map ?neg (rev ?rs)))" using dn by (simp only: rev_map [symmetric] distinct_rev)
    show "inj_on a_seq (set (sort_key a_seq (map ?neg ?rs)) \<union> set (map ?neg (rev ?rs)))"
      using dn by (simp add: distinct_map inj_on_imageI)
    show "sorted (map a_seq (map ?neg (rev ?rs)))"
      using verify_sorted [OF assms(2)] by (simp add: comp_def sorted_wrt_map sorted_wrt_rev)
  qed simp_all
  then have "map hashed_fields (ListAuditsAll t rows1) = rev (map hashed_fields ?rs)"
    by (simp add: rev_map comp_def hashed_fields_def)
  then show ?thesis using r1(1) repair_effect [OF u assms(4,6)] rs by simp
qed

theorem interrupted_repair_reverses_history_witness:
  "let d1 = snd (RepairAuditChain toy_sha ''t'' (two_rows, [False, False, True]))
   in fst (RepairAuditChain toy_sha ''t'' d1) = Inr True"
proof -
  let ?x = "RepairAuditChain toy_sha ''t'' (two_rows, [False, False, True])"
  let ?y = "RepairAuditChain toy_sha ''t'' (fst (snd ?x), [])"
  have h: "uniq a_id two_rows" "verify_rows toy_sha 0 [] (tenant_rows ''t'' two_rows)"
    "tenant_rows ''t'' two_rows \<noteq> []" "TrimSpace ''t'' \<noteq> []" by code_simp+
  have fs: "snd (snd ?x) = []" by code_simp
  then have x: "?x = (fst ?x, fst (snd ?x), [])" by (metis prod.collapse)
  have y: "?y = (fst ?y, fst (snd ?y), snd (snd ?y))" by (simp only: prod.collapse)
  have "snd ?x = (fst (snd ?x), [])" using fs by (metis prod.collapse)
  then show ?thesis using interrupted_repair_reverses_history [OF h x y] unfolding Let_def by metis
qed

end
