(* ===== verification/Route_Theorems.thy ===== *)
theory Route_Theorems
  imports Route_Checks Middleware_Gates Audit_Integrity
begin

text \<open>
  What the access table guarantees: its rules are well formed and its scopes are guarded, and exactly
  two routes of the authenticated group are refused to everybody. The witnesses of the theorems on the
  middleware are here, since they look rules up in the table.
\<close>

section \<open>The rules\<close>

lemma route_rule_declared:
  assumes "r \<in> set access_table"
  obtains d where "map_of ResourceTypeRegistry (ru_resource r) = Some d" "ru_action r \<in> set (rd_allowed_actions d)"
  using declared_all assms by (force simp: list_all_iff asks_def action_table)

text \<open>
  C40: The access rules are well formed. Every rule asks for an action that the registry declares for
  its resource, under one of the five methods, and has the scope of the resource. A rule lets a request
  address all workspaces only if it is one of the reads that are audited, and a write may address
  another workspace only under a rule that demands the acting context and an approval.
\<close>

theorem access_rules_well_formed:
  assumes "r \<in> set accessRules"
  shows "\<exists>d. map_of ResourceTypeRegistry (ru_resource r) = Some d \<and> ru_action r \<in> set (rd_allowed_actions d) \<and>
    ru_resource_scope r = rd_resource_scope d \<and> ru_method r \<in> set methods \<and>
    AllowedScopeCurrent \<in> set (ru_allowed_scope r) \<and>
    (AllowedScopeAll \<in> set (ru_allowed_scope r) \<longrightarrow> ru_method r = ''GET'' \<and> ru_audit_required r) \<and>
    (AllowedScopeSpecific \<in> set (ru_allowed_scope r) \<longrightarrow> (if ru_method r = ''GET'' then ru_audit_required r
       else ru_acting_context r \<and> ru_cross_tenant_write r \<and> ru_requires_approval r))"
proof -
  obtain r0 where r0: "r0 \<in> set access_table" and r: "r = with_contract r0"
    using assms by (auto simp: accessRules_def withRouteContracts_def)
  obtain d where d: "map_of ResourceTypeRegistry (ru_resource r0) = Some d" "ru_action r0 \<in> set (rd_allowed_actions d)"
    using r0 by (rule route_rule_declared)
  show ?thesis using d access_table_tidy [OF r0]
    by (auto simp: r with_contract_def tidy_def allowedScopesFor_def routeClassFor_def route_consts split: if_splits)
qed

section \<open>The routes\<close>

lemma access_key_method: "(p, m) \<in> set access_keys \<Longrightarrow> m \<in> set methods"
  using access_table_tidy by (auto simp: set_access_keys route_key_def tidy_def)

lemma route_plain: "(m, p) \<in> set protected_routes \<Longrightarrow> plain_method m"
  using keys_in_table [of m p] access_key_method methods_plain
  by (auto simp: flipped_def unruled_def plain_method_def)

lemma unruled_registered: "list_all (List.member routes_router_8) unruled"
  by code_simp

text \<open>
  C39: Two routes are closed to everybody. Of all the routes of the authenticated group, exactly
  \<^verbatim>\<open>GET /api/v1/chat/:id/references\<close> and \<^verbatim>\<open>GET /api/v1/search-apps/dataset-options\<close> have no access
  rule; since the middleware refuses what has no rule, every request on them is answered with 403,
  whatever the user, the platform administrator included.
\<close>

theorem two_routes_refused_to_everybody:
  "{p \<in> set protected_routes. byKey accessRules (fst p @ '' '' @ ''/api/v1'' @ snd p) = None} =
     {(''GET'', ''/chat/:id/references''), (''GET'', ''/search-apps/dataset-options'')} \<and>
   (\<forall>cx env d. (rq_method (gc_request cx) = ''GET'' \<and>
      rq_full_path (gc_request cx) \<in> {''/api/v1/chat/:id/references'', ''/api/v1/search-apps/dataset-options''}) \<longrightarrow>
      RBAC env accessRules cx d = (Inl (Forbidden ''forbidden''), d))"
proof
  show s: "{p \<in> set protected_routes. byKey accessRules (fst p @ '' '' @ ''/api/v1'' @ snd p) = None} =
     {(''GET'', ''/chat/:id/references''), (''GET'', ''/search-apps/dataset-options'')}" (is "?L = ?R")
  proof
    show "?L \<subseteq> ?R"
    proof
      fix x assume "x \<in> ?L"
      then obtain m p where x: "x = (m, p)" "(m, p) \<in> set protected_routes"
        "byKey accessRules (m @ '' '' @ ''/api/v1'' @ p) = None" by (cases x) auto
      then have "(p, m) \<notin> set access_keys" using rule_missing_iff [OF route_plain] by blast
      with keys_in_table [OF x(2)] show "x \<in> ?R" by (auto simp: x(1) flipped_def unruled_def)
    qed
  next
    show "?R \<subseteq> ?L"
    proof
      fix x assume R: "x \<in> ?R"
      then obtain m p where x: "x = (m, p)" "(p, m) \<in> set flipped" "plain_method m"
        by (cases x) (auto simp: flipped_def unruled_def plain_method_def)
      have "x \<in> set unruled" using R by (simp add: unruled_def)
      then have "x \<in> set routes_router_8" using unruled_registered by (auto simp: list_all_iff List.member_iff)
      then show "x \<in> ?L"
        using rule_missing_iff [OF x(3)] unruled_not_in_table [OF x(2)] by (simp add: x(1) protected_routes_def)
    qed
  qed
  show "\<forall>cx env d. (rq_method (gc_request cx) = ''GET'' \<and>
      rq_full_path (gc_request cx) \<in> {''/api/v1/chat/:id/references'', ''/api/v1/search-apps/dataset-options''}) \<longrightarrow>
      RBAC env accessRules cx d = (Inl (Forbidden ''forbidden''), d)"
  proof (intro allI impI)
    fix cx :: gin_context and env d
    assume "rq_method (gc_request cx) = ''GET'' \<and>
      rq_full_path (gc_request cx) \<in> {''/api/v1/chat/:id/references'', ''/api/v1/search-apps/dataset-options''}"
    then obtain p where p: "(p, ''GET'') \<in> set flipped" and
      k: "rq_method (gc_request cx) @ '' '' @ rq_full_path (gc_request cx) = ''GET'' @ '' '' @ ''/api/v1'' @ p"
      by (auto simp: flipped_def unruled_def)
    have "plain_method ''GET''" by (simp add: plain_method_def)
    then have "byKey accessRules (''GET'' @ '' '' @ ''/api/v1'' @ p) = None"
      using rule_missing_iff unruled_not_in_table [OF p] by blast
    then show "RBAC env accessRules cx d = (Inl (Forbidden ''forbidden''), d)" unfolding RBAC_def k by simp
  qed
qed

section \<open>Witnesses\<close>

text \<open>The two rules for the collection of agents, which only one part of the table has.\<close>

definition agent_routes :: "(string \<times> string) list" where
  "agent_routes = [(''GET'', ''/agents''), (''POST'', ''/agents'')]"

lemma agents_elsewhere:
  "sieve keys_24 (sieve keys_23 (sieve keys_22 (sieve keys_21 (sieve keys_20 (sieve keys_19 (sieve keys_18 (sieve keys_17 (sieve keys_16 (sieve keys_15 (sieve keys_14 (sieve keys_13 (sieve keys_12 (sieve keys_11 (sieve keys_10 (sieve keys_09 (sieve keys_08 (sieve keys_07 (sieve keys_05 (sieve keys_04 (sieve keys_03 (sieve keys_02 (sieve keys_01 agent_routes)))))))))))))))))))))) = agent_routes"
  by code_simp

lemma agents_here:
  "filter (\<lambda>r. fst (route_key r) = ''/agents'') access_rules_06 =
   [rule_at ''GET'' ''/agents'' ''read'' ''agent'' None, rule_at ''POST'' ''/agents'' ''manage'' ''agent'' None]"
  by code_simp

lemma sieve_outE:
  assumes "(m, p) \<in> set (sieve ks rs)" and "(m, p) \<in> set rs \<Longrightarrow> (p, m) \<notin> set ks \<Longrightarrow> R"
  shows R
  using assms by (auto simp: sieve_def List.member_iff)

lemma agents_table:
  assumes "r \<in> set access_table" and "route_key r = (''/agents'', m)" and "(m, ''/agents'') \<in> set agent_routes"
  shows "r \<in> set access_rules_06"
proof -
  have "route_key r \<notin> set keys_01 \<and> route_key r \<notin> set keys_02 \<and> route_key r \<notin> set keys_03 \<and> route_key r \<notin> set keys_04 \<and> route_key r \<notin> set keys_05 \<and> route_key r \<notin> set keys_07 \<and> route_key r \<notin> set keys_08 \<and> route_key r \<notin> set keys_09 \<and> route_key r \<notin> set keys_10 \<and> route_key r \<notin> set keys_11 \<and> route_key r \<notin> set keys_12 \<and> route_key r \<notin> set keys_13 \<and> route_key r \<notin> set keys_14 \<and> route_key r \<notin> set keys_15 \<and> route_key r \<notin> set keys_16 \<and> route_key r \<notin> set keys_17 \<and> route_key r \<notin> set keys_18 \<and> route_key r \<notin> set keys_19 \<and> route_key r \<notin> set keys_20 \<and> route_key r \<notin> set keys_21 \<and> route_key r \<notin> set keys_22 \<and> route_key r \<notin> set keys_23 \<and> route_key r \<notin> set keys_24"
    unfolding assms(2) using assms(3) [folded arg_cong [OF agents_elsewhere, of set]]
    by (elim sieve_outE, intro conjI) assumption+
  then show ?thesis using assms(1) unfolding access_table_def set_append Un_iff
    by (elim disjE) (simp_all add: in_keys)
qed

lemma agents_rule:
  assumes "(m, ''/agents'') \<in> set agent_routes"
    and "r = rule_at m ''/agents'' a ''agent'' None" "r \<in> set access_rules_06"
  shows "byKey accessRules (m @ '' '' @ ''/api/v1/agents'') = Some (with_contract r)"
proof -
  have m: "plain_method m" using assms(1) by (auto simp: agent_routes_def plain_method_def)
  have r: "r \<in> set access_table" "route_key r = (''/agents'', m)" using assms(2,3) by (auto simp: access_table_def)
  then have "rule_key r = m @ '' '' @ ''/api/v1'' @ ''/agents''" using tidy_key_eq [OF access_table_tidy m] by blast
  then have "byKey access_table (m @ '' '' @ ''/api/v1'' @ ''/agents'') \<noteq> None"
    using r(1) unfolding byKey_None by (metis imageI)
  then obtain r' where b: "byKey access_table (m @ '' '' @ ''/api/v1'' @ ''/agents'') = Some r'" by blast
  then have r': "r' \<in> set access_table" "route_key r' = (''/agents'', m)"
    using byKey_Some tidy_key_eq [OF access_table_tidy m] by blast+
  have "{r, r'} \<subseteq> set (filter (\<lambda>r. fst (route_key r) = ''/agents'') access_rules_06)"
    using agents_table [OF r assms(1)] agents_table [OF r' assms(1)] r(2) r'(2) by simp
  then have "r' = r" unfolding agents_here using r(2) r'(2) by auto
  with b show ?thesis by (simp add: accessRules_def byKey_contracts)
qed

lemma agents_rules:
  "byKey accessRules ''GET /api/v1/agents'' = Some (with_contract (rule_at ''GET'' ''/agents'' ''read'' ''agent'' None))"
  "byKey accessRules ''POST /api/v1/agents'' = Some (with_contract (rule_at ''POST'' ''/agents'' ''manage'' ''agent'' None))"
proof -
  have "set (filter (\<lambda>r. fst (route_key r) = ''/agents'') access_rules_06) \<subseteq> set access_rules_06" by auto
  then have "rule_at ''GET'' ''/agents'' ''read'' ''agent'' None \<in> set access_rules_06"
    "rule_at ''POST'' ''/agents'' ''manage'' ''agent'' None \<in> set access_rules_06"
    unfolding agents_here by simp_all
  from agents_rule [OF _ refl this(1)] agents_rule [OF _ refl this(2)]
  show "byKey accessRules ''GET /api/v1/agents'' = Some (with_contract (rule_at ''GET'' ''/agents'' ''read'' ''agent'' None))"
    "byKey accessRules ''POST /api/v1/agents'' = Some (with_contract (rule_at ''POST'' ''/agents'' ''manage'' ''agent'' None))"
    by (simp_all add: agent_routes_def)
qed

end
