(* ===== verification/Middleware_Witnesses.thy ===== *)
theory Middleware_Witnesses
  imports Route_Theorems
begin

text \<open>
  The theorems on the request middleware applied to concrete requests: a workspace \<open>t1\<close> with an
  administrator \<open>eve\<close>, who may also read across workspaces, and a platform user \<open>pam\<close>; a disabled
  workspace \<open>t2\<close> and an active one \<open>t3\<close>.
\<close>

definition gate_tenant :: "string \<Rightarrow> string \<Rightarrow> tenant" where
  "gate_tenant i st = \<lparr>te_id = i, te_name = i, te_status = st\<rparr>"

definition gate_ids :: id_store where
  "gate_ids = \<lparr>tenants = [gate_tenant ''t1'' ''active'', gate_tenant ''t2'' ''disabled'', gate_tenant ''t3'' ''active''],
     users = [demo_user ''eve'' ''t1'' ''r'', demo_user ''pam'' ''t1'' ''pf''],
     roles = [demo_role ''r'' ''tenant'' [], demo_role ''pf'' ''platform'' []],
     user_roles = [(''eve'', ''r''), (''pam'', ''pf'')],
     permissions = [demo_rule ''r'' ''manage'' ''agent'' ''allow'', demo_rule ''r'' ''governance.read'' ''tenant'' ''allow'',
       demo_rule ''pf'' ''manage'' ''agent'' ''allow'', demo_rule ''pf'' ''governance.manage'' ''tenant'' ''allow'',
       demo_rule ''pf'' ''governance.read'' ''tenant'' ''allow''],
     teams = [], user_teams = [], team_projects = [], project_members = []\<rparr>"

definition gate_store :: mw_store where
  "gate_store = \<lparr>mw_ids = gate_ids, tb_parser_policies = [], tb_quality_profiles = [], tb_logical_documents = [],
     tb_dataset_links = [], tb_tool_registries = [], tb_source_routing_rules = [], tb_db_connections = [],
     tb_query_templates = [], tb_knowledge_strategies = [], tb_evidence_snapshots = [], tb_eval_case_evidence = [],
     tb_outbox_events = [], tb_eval_cases = [], tb_memory_operations = [], tb_projects = [], mw_audits = []\<rparr>"

definition gate_claims :: "string \<Rightarrow> claims" where
  "gate_claims u = \<lparr>cl_uid = u, cl_tid = ''t1'', cl_username = u, cl_role = ''r'', cl_typ = TokenAccess, cl_jti = [],
     cl_issued_at = 0, cl_expires_at = 10\<rparr>"

definition gate_env :: "bool \<Rightarrow> mw_env" where
  "gate_env approvals = \<lparr>me_jwt = \<lparr>jl_sign = (\<lambda>_ _. None), jl_verify = (\<lambda>_ _ t. Some (gate_claims t))\<rparr>,
     me_manager = \<lparr>jm_secret = [], jm_access_ttl = 1, jm_refresh_ttl = 1\<rparr>, me_now = 1, me_allowed_origins = [],
     me_url_parse = (\<lambda>_. None), me_json = (\<lambda>_. None), me_print = (\<lambda>_. []), me_sha = toy_sha, me_new_id = ''n'',
     me_attempts = quiet_env [], me_approval_enabled = approvals\<rparr>"

definition agents_request :: "string \<Rightarrow> (string \<times> string) list \<Rightarrow> (string \<times> string) list \<Rightarrow> http_request" where
  "agents_request m q h = \<lparr>rq_method = m, rq_full_path = ''/api/v1/agents'', rq_params = [], rq_query = q,
     rq_headers = h, rq_cookies = [], rq_host = ''h'', rq_body = None, rq_body_limit = 1, rq_client_ip = ''ip'',
     rq_request_id = ''rid''\<rparr>"

definition agents_context :: "string \<Rightarrow> string \<Rightarrow> (string \<times> string) list \<Rightarrow> (string \<times> string) list \<Rightarrow> gin_context" where
  "agents_context u m q h = \<lparr>gc_request = agents_request m q h, gc_user_id = u, gc_tenant_id = ''t1'', gc_role = ''r'',
     gc_username = u, gc_tenant_scope = None, gc_governance_target = None\<rparr>"

lemma gate_clean: "\<forall>p\<in>set (permissions (mw_ids gate_store)). clean_rule p"
  by (simp add: gate_store_def gate_ids_def demo_rule_def clean_rule_def)

lemma gate_ids [simp]: "mw_ids gate_store = gate_ids"
  by (simp add: gate_store_def)

lemma agents_RBAC:
  "RBAC env accessRules (agents_context u ''GET'' q h) =
     apply_rule env (with_contract (rule_at ''GET'' ''/agents'' ''read'' ''agent'' None)) (agents_context u ''GET'' q h)"
  "RBAC env accessRules (agents_context u ''POST'' q h) =
     apply_rule env (with_contract (rule_at ''POST'' ''/agents'' ''manage'' ''agent'' None)) (agents_context u ''POST'' q h)"
  using agents_rules by (simp_all add: RBAC_def agents_context_def agents_request_def)

lemma not_isl_fst: "\<not> isl (fst x) \<Longrightarrow> \<exists>a d. x = (Inr a, d)"
  by (cases x; cases "fst x") auto

theorem handler_reached_only_authorized_witness:
  "\<exists>r u. r \<in> set accessRules \<and> rule_key r = ''GET /api/v1/agents'' \<and> active_user gate_ids ''eve'' u \<and>
     allowed gate_ids u (ru_action r) (ru_resource r)"
proof -
  let ?h = "[(''Authorization'', ''Bearer eve'')]"
  have a: "Auth (gate_env False) (agents_request ''GET'' [] ?h) (gate_store, [True]) = (Inl (Http 500 500 ''internal server error''), gate_store, [])"
    "Auth (gate_env False) (agents_request ''GET'' [] ?h) (gate_store, [False]) = (Inr (agents_context ''eve'' ''GET'' [] ?h), gate_store, [])"
    by code_simp+
  have c: "cookieCSRFHandler (gate_env False) (agents_request ''GET'' [] ?h) = Inr ()" by code_simp
  have "\<not> isl (fst (apply_rule (gate_env False) (with_contract (rule_at ''GET'' ''/agents'' ''read'' ''agent'' None))
    (agents_context ''eve'' ''GET'' [] ?h) (gate_store, [])))" by code_simp
  then obtain cx d where "RBAC (gate_env False) accessRules (agents_context ''eve'' ''GET'' [] ?h) (gate_store, []) = (Inr cx, d)"
    unfolding agents_RBAC using not_isl_fst by blast
  then have p: "protected (gate_env False) (agents_request ''GET'' [] ?h) (gate_store, [False]) = (Inr cx, d)"
    using c a(2) by (simp add: protected_def chk_ok)
  have t: "presented_token (agents_request ''GET'' [] ?h) = Some ''eve''" by code_simp
  have j: "jwt_Parse (me_jwt (gate_env False)) (me_manager (gate_env False)) (me_now (gate_env False)) ''eve'' = Some (gate_claims ''eve'')"
    by (simp add: jwt_Parse_def gate_env_def)
  from handler_reached_only_authorized [OF gate_clean p] t j show ?thesis
    by (auto simp: gate_claims_def agents_request_def)
qed


theorem cross_workspace_read_is_audited_witness:
  "\<exists>u ref. active_user gate_ids ''eve'' u \<and> ref \<in> set (GovernanceReadRefs ''agent'') \<and> allowed gate_ids u (fst ref) (snd ref)"
proof -
  let ?cx = "agents_context ''eve'' ''GET'' [(''scope'', ''specific''), (''tenant_id'', ''t3'')] []"
  let ?r = "with_contract (rule_at ''GET'' ''/agents'' ''read'' ''agent'' None)"
  have 1: "\<not> isl (fst (apply_rule (gate_env False) ?r ?cx (gate_store, [])))"
    "(case fst (apply_rule (gate_env False) ?r ?cx (gate_store, [])) of Inl _ \<Rightarrow> None
      | Inr cx \<Rightarrow> map_option ts_kind (gc_tenant_scope cx)) = Some TenantScopeSpecific" by code_simp+
  then obtain cx d where e: "apply_rule (gate_env False) ?r ?cx (gate_store, []) = (Inr cx, d)" using not_isl_fst by blast
  then have r: "RBAC (gate_env False) accessRules ?cx (gate_store, []) = (Inr cx, d)" unfolding agents_RBAC .
  from 1(2) e obtain sc where sc: "gc_tenant_scope cx = Some sc" "ts_kind sc \<noteq> TenantScopeCurrent" by auto
  have m: "rq_method (gc_request ?cx) = ''GET''" "gc_tenant_scope ?cx = None"
    by (simp_all add: agents_context_def agents_request_def)
  from cross_workspace_read_is_audited [OF gate_clean r m sc] obtain r' u ref where
    "byKey accessRules (''GET '' @ rq_full_path (gc_request ?cx)) = Some r'" "active_user gate_ids ''eve'' u"
    "ref \<in> set (GovernanceReadRefs (ru_resource r'))" "allowed gate_ids u (fst ref) (snd ref)"
    by (auto simp: agents_context_def)
  moreover from this(1) have "ru_resource r' = ''agent''"
    using agents_rules(1) by (auto simp: agents_context_def agents_request_def rule_at_def)
  ultimately show ?thesis by metis
qed

lemma quiet_audit: "\<not> isl (RecordAudit sha parse print newID now e (quiet_env []))"
  by (simp add: RecordAudit_def CreateAudit_def Let_def append_loop.simps append_once_def quiet_env_def
      audit_conflict_def auditAppendMaxRetries_def)

lemma eve_allowed:
  "\<exists>u. active_user gate_ids ''eve'' u \<and> us_tenant_id u = ''t1'' \<and> allowed gate_ids u ''manage'' ''agent'' \<and>
     allowed gate_ids u ''governance.read'' ''tenant'' \<and> \<not> allowed gate_ids u ''governance.manage'' ''tenant''"
proof -
  note spec = Authorize_spec [OF gate_clean, simplified]
  have e: "fst (Authorize ''eve'' ''manage'' ''agent'' (gate_ids, [])) = Inr ()"
    "fst (Authorize ''eve'' ''governance.read'' ''tenant'' (gate_ids, [])) = Inr ()"
    "fst (Authorize ''eve'' ''governance.manage'' ''tenant'' (gate_ids, [])) \<noteq> Inr ()" by code_simp+
  then obtain u where u: "active_user gate_ids ''eve'' u" "allowed gate_ids u ''manage'' ''agent''" unfolding spec by blast
  have row: "active_user gate_ids ''eve'' v \<Longrightarrow> v = u" for v using u(1) by (simp add: active_user_def)
  have "map_option us_tenant_id (row_at us_id ''eve'' (users gate_ids)) = Some ''t1''" by code_simp
  then have "us_tenant_id u = ''t1''" using u(1) by (simp add: active_user_def)
  with u e(2,3) row show ?thesis unfolding spec by blast
qed


text \<open>A page of another site makes the browser send the access cookie along with basic credentials.\<close>

definition foreign_request :: http_request where
  "foreign_request = (agents_request ''GET'' [] [(''Authorization'', ''Basic eA==''), (''Sec-Fetch-Site'', ''cross-site''),
     (''Origin'', ''https://evil'')])\<lparr>rq_cookies := [(''rgx_access'', ''eve'')]\<rparr>"

theorem csrf_skipped_for_unused_authorization_witness:
  "GetHeader ''Sec-Fetch-Site'' foreign_request = ''cross-site'' \<and> presented_token foreign_request = Some ''eve'' \<and>
   protected (gate_env False) foreign_request = chk (Auth (gate_env False) foreign_request) (RBAC (gate_env False) accessRules)"
proof -
  have "has_cookie ''rgx_access'' foreign_request" "GetHeader ''Authorization'' foreign_request \<noteq> []"
    "\<not> HasPrefix (GetHeader ''Authorization'' foreign_request) ''Bearer ''" by code_simp+
  from csrf_skipped_for_unused_authorization [OF this, of "gate_env False"]
  have "presented_token foreign_request = Cookie ''rgx_access'' foreign_request"
    "protected (gate_env False) foreign_request = chk (Auth (gate_env False) foreign_request) (RBAC (gate_env False) accessRules)" by auto
  moreover have "Cookie ''rgx_access'' foreign_request = Some ''eve''"
    "GetHeader ''Sec-Fetch-Site'' foreign_request = ''cross-site''" by code_simp+
  ultimately show ?thesis by simp
qed

theorem access_rules_well_formed_witness:
  "\<exists>r\<in>set accessRules. rule_key r = ''POST /api/v1/agents'' \<and> ru_acting_context r \<and> ru_requires_approval r"
proof -
  let ?r = "with_contract (rule_at ''POST'' ''/agents'' ''manage'' ''agent'' None)"
  have r: "?r \<in> set accessRules" "rule_key ?r = ''POST /api/v1/agents''" using byKey_Some [OF agents_rules(2)] by blast+
  have "AllowedScopeSpecific \<in> set (ru_allowed_scope ?r)" "ru_method ?r \<noteq> ''GET''" by code_simp+
  with access_rules_well_formed [OF r(1)] have "ru_acting_context ?r \<and> ru_requires_approval ?r" by auto
  with r show ?thesis by blast
qed

theorem two_routes_refused_to_everybody_witness:
  "RBAC (gate_env True) accessRules ((agents_context ''pam'' ''GET'' [] [])\<lparr>gc_request :=
      (agents_request ''GET'' [] [])\<lparr>rq_full_path := ''/api/v1/search-apps/dataset-options''\<rparr>\<rparr>) (gate_store, []) =
    (Inl (Forbidden ''forbidden''), gate_store, [])"
  by (rule conjunct2 [OF two_routes_refused_to_everybody, rule_format]) (simp add: agents_request_def)

end
