(* ===== verification/Http_Headers.thy ===== *)
theory Http_Headers
  imports Middleware
begin

text \<open>
  The middleware in front of every route: the CORS answer (\<^verbatim>\<open>internal/middleware/cors.go\<close>), the security
  headers (\<^verbatim>\<open>security.go\<close>), the request id (\<^verbatim>\<open>requestid.go\<close>), and the two token checks that do not use
  accounts, for runtime reports (\<^verbatim>\<open>runtime_report.go\<close>) and for metrics (\<^verbatim>\<open>metrics_auth.go\<close>), with the key
  of the gateway's rate limit (\<^verbatim>\<open>ratelimit.go\<close>). Response headers are a list of names and values.
\<close>

section \<open>Headers\<close>

definition set_header :: "string \<Rightarrow> string \<Rightarrow> (string \<times> string) list \<Rightarrow> (string \<times> string) list" where
  "set_header k v hs = filter (\<lambda>h. fst h \<noteq> k) hs @ [(k, v)]"

definition add_header :: "string \<Rightarrow> string \<Rightarrow> (string \<times> string) list \<Rightarrow> (string \<times> string) list" where
  "add_header k v hs = hs @ [(k, v)]"

definition int_text :: "int \<Rightarrow> string" where
  "int_text i = (if i < 0 then CHR ''-'' # nat_digits (nat (- i)) else nat_digits (nat i))"

fun join_with :: "string \<Rightarrow> string list \<Rightarrow> string" where
  "join_with sep [] = []"
| "join_with sep [x] = x"
| "join_with sep (x # y # ys) = x @ sep @ join_with sep (y # ys)"

record security_config =
  sc_allowed_origins :: "string list"
  sc_allowed_methods :: "string list"
  sc_allowed_headers :: "string list"
  sc_allow_credentials :: bool
  sc_max_age_sec :: int
  sc_hsts_enabled :: bool
  sc_hsts_max_age_sec :: int
  sc_hsts_include_subdomains :: bool
  sc_content_security_policy :: string
  sc_frame_options :: string

definition cors_echo :: "security_config \<Rightarrow> string \<Rightarrow> string" where
  "cors_echo cfg origin =
     (let allowed = map (\<lambda>o'. ToLower (TrimSpace o')) (sc_allowed_origins cfg) in
      if origin = [] then []
      else if ''*'' \<in> set allowed then ''*''
      else if ToLower origin \<in> set allowed then origin
      else [])"

text \<open>The answer has the headers and whether the request ends here, with status 204.\<close>

definition corsHandler :: "security_config \<Rightarrow> http_request \<Rightarrow> (string \<times> string) list \<Rightarrow> (string \<times> string) list \<times> bool" where
  "corsHandler cfg rq hs =
     (let methods = (if sc_allowed_methods cfg = [] then [''GET'', ''POST'', ''PUT'', ''DELETE'', ''PATCH'', ''OPTIONS'']
            else sc_allowed_methods cfg);
          headers = (if sc_allowed_headers cfg = [] then [''Content-Type'', ''Authorization'', ''X-Request-Id'']
            else sc_allowed_headers cfg);
          maxAge = (if sc_max_age_sec cfg \<le> 0 then 600 else sc_max_age_sec cfg);
          echoed = cors_echo cfg (GetHeader ''Origin'' rq);
          hs1 = (if echoed = [] then hs
            else (let hs2 = add_header ''Vary'' ''Origin''
                   (set_header ''Access-Control-Max-Age'' (int_text maxAge)
                    (set_header ''Access-Control-Allow-Headers'' (join_with '', '' headers)
                     (set_header ''Access-Control-Allow-Methods'' (join_with '', '' methods)
                      (set_header ''Access-Control-Allow-Origin'' echoed hs))))
                  in if sc_allow_credentials cfg \<and> echoed \<noteq> ''*''
                     then set_header ''Access-Control-Allow-Credentials'' ''true'' hs2 else hs2))
      in (hs1, rq_method rq = ''OPTIONS''))"

definition securityHeadersHandler :: "security_config \<Rightarrow> (string \<times> string) list \<Rightarrow> (string \<times> string) list" where
  "securityHeadersHandler cfg hs =
     (let hs1 = set_header ''Referrer-Policy'' ''no-referrer''
            (set_header ''Permissions-Policy'' ''camera=(), microphone=(), geolocation=(), payment=()''
             (set_header ''X-Frame-Options'' (if sc_frame_options cfg = [] then ''DENY'' else sc_frame_options cfg)
              (set_header ''X-Content-Type-Options'' ''nosniff'' hs)));
          hs2 = (if sc_content_security_policy cfg = [] then hs1
            else set_header ''Content-Security-Policy'' (sc_content_security_policy cfg) hs1)
      in if sc_hsts_enabled cfg
         then set_header ''Strict-Transport-Security''
           (''max-age='' @ int_text (sc_hsts_max_age_sec cfg) @
            (if sc_hsts_include_subdomains cfg then ''; includeSubDomains'' else [])) hs2
         else hs2)"

definition RequestID :: "string \<Rightarrow> string \<Rightarrow> http_request \<Rightarrow> (string \<times> string) list \<Rightarrow> http_request \<times> (string \<times> string) list" where
  "RequestID header uuid rq hs =
     (let rid = (if GetHeader header rq = [] then uuid else GetHeader header rq)
      in (rq\<lparr>rq_request_id := rid\<rparr>, set_header ''X-Trace-Id'' rid (set_header header rid hs)))"

section \<open>Service tokens\<close>

definition RuntimeReportAuth :: "string \<Rightarrow> http_request \<Rightarrow> err + unit" where
  "RuntimeReportAuth token rq =
     (let header = GetHeader ''Authorization'' rq in
      if token = [] then Inl (Http 503 503 ''runtime report service token is not configured'')
      else if \<not> HasPrefix header ''Bearer '' then Inl (Unauthorized ''missing runtime report token'')
      else let submitted = TrimSpace (TrimPrefix header ''Bearer '') in
      if submitted = [] \<or> submitted \<noteq> token then Inl (Unauthorized ''invalid runtime report token'')
      else Inr ())"

text \<open>
  The metrics endpoint: \<open>networks\<close> are the parsed entries of the allow list, each the set of addresses
  it contains; \<open>remote\<close> is the peer address, if it parses. A refusal is its status.
\<close>

definition metricsAuthHandler :: "string \<Rightarrow> ('ip \<Rightarrow> bool) list \<Rightarrow> 'ip option \<Rightarrow> http_request \<Rightarrow> int + unit" where
  "metricsAuthHandler token networks remote rq =
     (let header = GetHeader ''Authorization'' rq in
      if token = [] then Inl 404
      else if (case remote of None \<Rightarrow> False | Some ip \<Rightarrow> \<exists>n\<in>set networks. n ip) then Inr ()
      else if length header \<le> 7 \<or> \<not> EqualFold (take 7 header) ''Bearer '' then Inl 401
      else if drop 7 header \<noteq> token then Inl 401
      else Inr ())"

definition BearerKey :: "(string \<Rightarrow> string) \<Rightarrow> http_request \<Rightarrow> string" where
  "BearerKey sha256 rq =
     (let raw = GetHeader ''Authorization'' rq in
      if 7 < length raw \<and> EqualFold (take 7 raw) ''Bearer '' then ''key:'' @ hex_encode (sha256 (drop 7 raw))
      else rq_client_ip rq)"

section \<open>What they guarantee\<close>

lemma cors_echo_cases: "cors_echo cfg origin \<in> {[], ''*'', origin}"
  by (simp add: cors_echo_def Let_def)

text \<open>
  Credentials are offered only to one concrete origin, the one of the request, and only if the
  configuration lists it: a configured \<open>*\<close> never combines with credentials.
\<close>

theorem cors_credentials_are_for_listed_origin:
  assumes "(''Access-Control-Allow-Credentials'', v) \<in> set (fst (corsHandler cfg rq []))"
  shows "sc_allow_credentials cfg \<and> v = ''true'' \<and>
    (''Access-Control-Allow-Origin'', GetHeader ''Origin'' rq) \<in> set (fst (corsHandler cfg rq [])) \<and>
    ToLower (GetHeader ''Origin'' rq) \<in> (\<lambda>o'. ToLower (TrimSpace o')) ` set (sc_allowed_origins cfg)"
proof -
  let ?e = "cors_echo cfg (GetHeader ''Origin'' rq)"
  have 1: "?e \<noteq> []" "?e \<noteq> ''*''" "sc_allow_credentials cfg" "v = ''true''"
    using assms by (auto simp: corsHandler_def Let_def set_header_def add_header_def split: if_splits)
  then have e: "?e = GetHeader ''Origin'' rq" "ToLower (GetHeader ''Origin'' rq) \<in> (\<lambda>o'. ToLower (TrimSpace o')) ` set (sc_allowed_origins cfg)"
    by (auto simp: cors_echo_def Let_def split: if_splits)
  have "(''Access-Control-Allow-Origin'', ?e) \<in> set (fst (corsHandler cfg rq []))"
    using 1 by (simp add: corsHandler_def Let_def set_header_def add_header_def)
  with 1 e show ?thesis by simp
qed

text \<open>
  A runtime report passes only with the configured token. The submitted token is trimmed but the
  configured one is not, so a configured token with a blank at either end admits no report at all.
\<close>

theorem padded_report_token_admits_nothing:
  assumes "TrimSpace token \<noteq> token"
  shows "isl (RuntimeReportAuth token rq)"
proof -
  have "TrimSpace (TrimSpace x) = TrimSpace x" for x
  proof -
    have e: "dropWhile is_space (rev (dropWhile is_space (rev (dropWhile is_space x)))) = rev (dropWhile is_space (rev (dropWhile is_space x)))"
    proof (cases "dropWhile is_space x")
      case Nil
      then show ?thesis by (simp only: rev.simps dropWhile.simps)
    next
      case (Cons c cs)
      then have c: "\<not> is_space c" by (metis hd_dropWhile list.distinct(1) list.sel(1))
      have "\<exists>zs. rev (dropWhile is_space (rev (c # cs))) = c # zs"
        using c by (auto simp: dropWhile_append) (metis rev_rev_ident)
      then show ?thesis using c by (auto simp: Cons)
    qed
    show ?thesis unfolding TrimSpace_def e by simp
  qed
  then show ?thesis using assms by (auto simp: RuntimeReportAuth_def Let_def)
qed

text \<open>
  The key of the gateway's limit and the key the gateway resolves. The limiter reads the key from a
  header with the bearer scheme, in any case, and falls back to the address of the client; the gateway
  also takes a header without the scheme as the key. So one key has a budget of its own under the
  scheme, and beside it, without the scheme, the budget of every address it is sent from.
\<close>

definition gateway_raw_key :: "http_request \<Rightarrow> string" where
  "gateway_raw_key rq =
     (let raw = GetHeader ''Authorization'' rq in
      if 7 < length raw \<and> take 7 raw = ''Bearer '' then drop 7 raw else raw)"

theorem bare_key_is_limited_by_address:
  assumes "GetHeader ''Authorization'' rq = key" and "\<not> EqualFold (take 7 key) ''Bearer ''" and "key \<noteq> []"
    and "GetHeader ''Authorization'' rq' = ''Bearer '' @ key"
  shows "gateway_raw_key rq = key \<and> gateway_raw_key rq' = key \<and>
    BearerKey sha256 rq = rq_client_ip rq \<and> BearerKey sha256 rq' = ''key:'' @ hex_encode (sha256 key)"
proof -
  have "take 7 key \<noteq> ''Bearer ''" using assms(2) by (auto simp: EqualFold_def)
  then show ?thesis using assms by (auto simp: gateway_raw_key_def BearerKey_def EqualFold_def Let_def)
qed

end
