(* ===== verification/Job_Queue.thy ===== *)
theory Job_Queue
  imports Sql_Table Go_Base
begin

text \<open>
  The durable job table, \<^verbatim>\<open>internal/repository/job.go\<close>. A definition with the suffix \<open>_tx\<close> is the
  effect of a method on the rows; the method itself runs it on the faulting database. Rows that a
  query orders by \<open>run_after\<close> come in insertion order where it ties. The columns \<open>created_at\<close>
  and \<open>updated_at\<close>, which no operation reads, are left out; \<open>parse\<close> stands for
  \<^verbatim>\<open>json.Unmarshal\<close>.
\<close>

section \<open>Rows\<close>

datatype job_status =
  JobStatusQueued | JobStatusRunning | JobStatusSucceeded | JobStatusFailed | JobStatusCanceled

record job =
  j_id :: string
  j_kind :: string
  j_key :: string
  j_tenant_id :: string
  j_payload :: string
  j_status :: job_status
  j_attempts :: int
  j_max_retry :: int
  j_last_error :: string
  j_result :: string
  j_run_after :: int
  j_last_heartbeat :: int

definition defaultJobMaxRetry :: int where
  "defaultJobMaxRetry = 3"

definition never :: int where
  "never = - 62135596800 * 1000000000"

section \<open>Transactions\<close>

definition prepare_job :: "string \<Rightarrow> int \<Rightarrow> job \<Rightarrow> job" where
  "prepare_job newID now j =
     j\<lparr>j_id := (if j_id j = [] then newID else j_id j),
       j_max_retry := (if j_max_retry j \<le> 0 then defaultJobMaxRetry else j_max_retry j),
       j_run_after := (if j_run_after j = never then now else j_run_after j)\<rparr>"

definition EnqueueJob_tx :: "string \<Rightarrow> int \<Rightarrow> job \<Rightarrow> job list \<Rightarrow> bool \<times> job list" where
  "EnqueueJob_tx newID now j rows = insert_ignore j_key (prepare_job newID now j) rows"

text \<open>Claiming: the due candidates, then each in turn under the guard that it is still queued.\<close>

definition due_ids :: "int \<Rightarrow> int \<Rightarrow> job list \<Rightarrow> string list" where
  "due_ids limit now rows =
     map j_id (take (nat limit)
       (sort_key j_run_after (filter (\<lambda>j. j_status j = JobStatusQueued \<and> j_run_after j \<le> now) rows)))"

definition claim_one_tx :: "string \<Rightarrow> int \<Rightarrow> job list \<Rightarrow> int \<times> job list" where
  "claim_one_tx jobID now rows =
     (let hit = (\<lambda>j. j_id j = jobID \<and> j_status j = JobStatusQueued)
      in (sql_count hit rows,
          sql_update hit (\<lambda>j. j\<lparr>j_status := JobStatusRunning, j_last_heartbeat := now\<rparr>) rows))"

fun claim_loop :: "string list \<Rightarrow> int \<Rightarrow> job list \<Rightarrow> string list \<times> job list" where
  "claim_loop [] now rows = ([], rows)"
| "claim_loop (jid # ids) now rows =
     (let (n, rows1) = claim_one_tx jid now rows; (claimed, rows2) = claim_loop ids now rows1
      in (if n = 1 then jid # claimed else claimed, rows2))"

definition ClaimJobs_tx :: "int \<Rightarrow> int \<Rightarrow> job list \<Rightarrow> job list \<times> job list" where
  "ClaimJobs_tx limit now rows =
     (let (claimed, rows1) = claim_loop (due_ids (if limit \<le> 0 then 1 else limit) now rows) now rows
      in (sort_key j_run_after (filter (\<lambda>j. j_id j \<in> set claimed) rows1), rows1))"

definition running :: "string \<Rightarrow> job \<Rightarrow> bool" where
  "running jobID j \<longleftrightarrow> j_id j = jobID \<and> j_status j = JobStatusRunning"

definition HeartbeatJob_tx :: "string \<Rightarrow> int \<Rightarrow> job list \<Rightarrow> job list" where
  "HeartbeatJob_tx jobID now = sql_update (running jobID) (\<lambda>j. j\<lparr>j_last_heartbeat := now\<rparr>)"

definition CompleteJob_tx :: "string \<Rightarrow> int \<Rightarrow> string \<Rightarrow> job list \<Rightarrow> job list" where
  "CompleteJob_tx jobID attempts result =
     sql_update (running jobID)
       (\<lambda>j. j\<lparr>j_status := JobStatusSucceeded, j_attempts := attempts, j_last_error := [], j_result := result\<rparr>)"

definition RetryJob_tx :: "string \<Rightarrow> int \<Rightarrow> string \<Rightarrow> int \<Rightarrow> job list \<Rightarrow> job list" where
  "RetryJob_tx jobID attempts lastError runAfter =
     sql_update (running jobID)
       (\<lambda>j. j\<lparr>j_status := JobStatusQueued, j_attempts := attempts, j_last_error := lastError,
              j_run_after := runAfter\<rparr>)"

definition FailJob_tx :: "string \<Rightarrow> int \<Rightarrow> string \<Rightarrow> job list \<Rightarrow> job list" where
  "FailJob_tx jobID attempts lastError =
     sql_update (running jobID)
       (\<lambda>j. j\<lparr>j_status := JobStatusFailed, j_attempts := attempts, j_last_error := lastError\<rparr>)"

definition stale_job :: "int \<Rightarrow> job \<Rightarrow> bool" where
  "stale_job before j \<longleftrightarrow> j_status j = JobStatusRunning \<and> j_last_heartbeat j < before"

definition RequeueStaleJobs_tx :: "int \<Rightarrow> int \<Rightarrow> job list \<Rightarrow> int \<times> job list" where
  "RequeueStaleJobs_tx before now rows =
     (sql_count (stale_job before) rows,
      sql_update (stale_job before)
        (\<lambda>j. j\<lparr>j_status := JobStatusQueued, j_run_after := now,
               j_last_error := ''requeued: runner heartbeat expired''\<rparr>) rows)"

definition active :: "job \<Rightarrow> bool" where
  "active j \<longleftrightarrow> j_status j = JobStatusQueued \<or> j_status j = JobStatusRunning"

definition ResetFailedJobByKey_tx :: "string \<Rightarrow> string \<Rightarrow> string \<Rightarrow> int \<Rightarrow> int \<Rightarrow> job list \<Rightarrow> bool \<times> job list" where
  "ResetFailedJobByKey_tx kind key payload maxRetry now rows =
     (let hit = (\<lambda>j. j_kind j = kind \<and> j_key j = key \<and> j_status j = JobStatusFailed)
      in (0 < sql_count hit rows,
          sql_update hit
            (\<lambda>j. j\<lparr>j_status := JobStatusQueued, j_payload := payload, j_attempts := 0, j_last_error := [],
                   j_run_after := now,
                   j_max_retry := (if maxRetry \<le> 0 then defaultJobMaxRetry else maxRetry)\<rparr>) rows))"

section \<open>Payload filters\<close>

text \<open>A filter and a decoded payload are Go maps; a missing member compares as \<^verbatim>\<open>nil\<close>.\<close>

definition payloadMatches :: "(string \<times> json) list \<Rightarrow> (string \<times> json) list \<Rightarrow> bool" where
  "payloadMatches payload flt =
     list_all (\<lambda>(k, expected). (case map_of (rev payload) k of None \<Rightarrow> JNull | Some v \<Rightarrow> v) = expected) flt"

definition decode_map :: "(string \<Rightarrow> json option) \<Rightarrow> string \<Rightarrow> (string \<times> json) list option" where
  "decode_map parse raw =
     (case parse raw of Some (JObj kvs) \<Rightarrow> Some kvs | Some JNull \<Rightarrow> Some [] | _ \<Rightarrow> None)"

definition cancel_candidates ::
  "(string \<Rightarrow> json option) \<Rightarrow> string \<Rightarrow> string \<Rightarrow> (string \<times> json) list \<Rightarrow> job list \<Rightarrow> string list" where
  "cancel_candidates parse kind tenantID flt rows =
     map j_id (filter (\<lambda>j. j_kind j = kind \<and> j_tenant_id j = tenantID \<and>
       j_status j = JobStatusQueued \<and> j_payload j \<noteq> [] \<and>
       (case decode_map parse (j_payload j) of None \<Rightarrow> False
        | Some kvs \<Rightarrow> kvs \<noteq> [] \<and> payloadMatches kvs flt)) rows)"

definition cancel_tx :: "string list \<Rightarrow> job list \<Rightarrow> int \<times> job list" where
  "cancel_tx ids rows =
     (let hit = (\<lambda>j. j_id j \<in> set ids \<and> j_status j = JobStatusQueued)
      in (sql_count hit rows,
          sql_update hit (\<lambda>j. j\<lparr>j_status := JobStatusCanceled,
            j_last_error := ''canceled: scheduled reconciliation disabled''\<rparr>) rows))"

definition CountActiveJobsWithPayload_tx ::
  "(string \<Rightarrow> json option) \<Rightarrow> string \<Rightarrow> string \<Rightarrow> string \<Rightarrow> (string \<times> json) list \<Rightarrow> job list \<Rightarrow> int" where
  "CountActiveJobsWithPayload_tx parse kind tenantID excludeID flt rows =
     (if flt = [] then 0
      else sql_count (\<lambda>j. j_kind j = kind \<and> active j \<and> (tenantID \<noteq> [] \<longrightarrow> j_tenant_id j = tenantID) \<and>
             (excludeID \<noteq> [] \<longrightarrow> j_id j \<noteq> excludeID) \<and> j_payload j \<noteq> [] \<and>
             (case decode_map parse (j_payload j) of None \<Rightarrow> False | Some kvs \<Rightarrow> payloadMatches kvs flt)) rows)"

section \<open>Repository methods\<close>

definition EnqueueJob :: "string \<Rightarrow> int \<Rightarrow> job \<Rightarrow> job list db \<Rightarrow> (err + bool) \<times> job list db" where
  "EnqueueJob newID now j = db_run (\<lambda>rows. let (ins, rows') = EnqueueJob_tx newID now j rows in (Inr ins, rows'))"

definition ClaimJobs :: "int \<Rightarrow> int \<Rightarrow> job list db \<Rightarrow> (err + job list) \<times> job list db" where
  "ClaimJobs limit now = db_run (\<lambda>rows. let (js, rows') = ClaimJobs_tx limit now rows in (Inr js, rows'))"

definition HeartbeatJob :: "string \<Rightarrow> int \<Rightarrow> job list db \<Rightarrow> (err + unit) \<times> job list db" where
  "HeartbeatJob jobID now = db_run (\<lambda>rows. (Inr (), HeartbeatJob_tx jobID now rows))"

definition CompleteJob :: "string \<Rightarrow> int \<Rightarrow> string \<Rightarrow> job list db \<Rightarrow> (err + unit) \<times> job list db" where
  "CompleteJob jobID attempts result = db_run (\<lambda>rows. (Inr (), CompleteJob_tx jobID attempts result rows))"

definition RetryJob :: "string \<Rightarrow> int \<Rightarrow> string \<Rightarrow> int \<Rightarrow> job list db \<Rightarrow> (err + unit) \<times> job list db" where
  "RetryJob jobID attempts lastError runAfter =
     db_run (\<lambda>rows. (Inr (), RetryJob_tx jobID attempts lastError runAfter rows))"

definition FailJob :: "string \<Rightarrow> int \<Rightarrow> string \<Rightarrow> job list db \<Rightarrow> (err + unit) \<times> job list db" where
  "FailJob jobID attempts lastError = db_run (\<lambda>rows. (Inr (), FailJob_tx jobID attempts lastError rows))"

definition RequeueStaleJobs :: "int \<Rightarrow> int \<Rightarrow> job list db \<Rightarrow> (err + int) \<times> job list db" where
  "RequeueStaleJobs before now =
     db_run (\<lambda>rows. let (n, rows') = RequeueStaleJobs_tx before now rows in (Inr n, rows'))"

definition CountActiveJobs :: "string \<Rightarrow> string \<Rightarrow> job list db \<Rightarrow> (err + int) \<times> job list db" where
  "CountActiveJobs kind tenantID =
     db_run (\<lambda>rows. (Inr (sql_count (\<lambda>j. j_kind j = kind \<and> active j \<and>
       (tenantID \<noteq> [] \<longrightarrow> j_tenant_id j = tenantID)) rows), rows))"

definition CountActiveJobsExcept :: "string \<Rightarrow> string \<Rightarrow> string \<Rightarrow> job list db \<Rightarrow> (err + int) \<times> job list db" where
  "CountActiveJobsExcept kind tenantID excludeID =
     db_run (\<lambda>rows. (Inr (sql_count (\<lambda>j. j_kind j = kind \<and> active j \<and>
       (tenantID \<noteq> [] \<longrightarrow> j_tenant_id j = tenantID) \<and> (excludeID \<noteq> [] \<longrightarrow> j_id j \<noteq> excludeID)) rows), rows))"

definition CountActiveJobsByKey :: "string \<Rightarrow> string \<Rightarrow> job list db \<Rightarrow> (err + int) \<times> job list db" where
  "CountActiveJobsByKey kind key =
     db_run (\<lambda>rows. (Inr (sql_count (\<lambda>j. j_kind j = kind \<and> j_key j = key \<and> active j) rows), rows))"

definition CancelQueuedJobsWithPayload :: "(string \<Rightarrow> json option) \<Rightarrow> string \<Rightarrow> string \<Rightarrow> (string \<times> json) list \<Rightarrow>
  job list db \<Rightarrow> (err + int) \<times> job list db" where
  "CancelQueuedJobsWithPayload parse kind tenantID flt d =
     (if flt = [] then (Inr 0, d)
      else case db_run (\<lambda>rows. (Inr (cancel_candidates parse kind tenantID flt rows), rows)) d of
             (Inl e, d1) \<Rightarrow> (Inl e, d1)
           | (Inr ids, d1) \<Rightarrow>
               if ids = [] then (Inr 0, d1)
               else db_run (\<lambda>rows. let (n, rows') = cancel_tx ids rows in (Inr n, rows')) d1)"

definition CountActiveJobsWithPayload :: "(string \<Rightarrow> json option) \<Rightarrow> string \<Rightarrow> string \<Rightarrow> string \<Rightarrow>
  (string \<times> json) list \<Rightarrow> job list db \<Rightarrow> (err + int) \<times> job list db" where
  "CountActiveJobsWithPayload parse kind tenantID excludeID flt =
     db_run (\<lambda>rows. (Inr (CountActiveJobsWithPayload_tx parse kind tenantID excludeID flt rows), rows))"

definition ResetFailedJobByKey ::
  "string \<Rightarrow> string \<Rightarrow> string \<Rightarrow> int \<Rightarrow> int \<Rightarrow> job list db \<Rightarrow> (err + bool) \<times> job list db" where
  "ResetFailedJobByKey kind key payload maxRetry now =
     db_run (\<lambda>rows. let (b, rows') = ResetFailedJobByKey_tx kind key payload maxRetry now rows in (Inr b, rows'))"

definition GetJob :: "string \<Rightarrow> string \<Rightarrow> job list db \<Rightarrow> (err + job option) \<times> job list db" where
  "GetJob tenantID jobID =
     db_run (\<lambda>rows. (Inr (sql_first (\<lambda>j. j_id j = jobID \<and> j_tenant_id j = tenantID) rows), rows))"

definition CountJobsByStatus :: "job list db \<Rightarrow> (err + (job_status \<times> int) list) \<times> job list db" where
  "CountJobsByStatus =
     db_run (\<lambda>rows. (Inr (map (\<lambda>st. (st, sql_count (\<lambda>j. j_status j = st) rows))
       (remdups (map j_status rows))), rows))"

lemmas job_tx_defs [queue_defs] = claim_one_tx_def HeartbeatJob_tx_def CompleteJob_tx_def RetryJob_tx_def
  FailJob_tx_def RequeueStaleJobs_tx_def ResetFailedJobByKey_tx_def cancel_tx_def

end
