(* ===== verification/Approval_Store.thy ===== *)
theory Approval_Store
  imports Authz Job_Queue
begin

text \<open>
  The approval tables and the repository methods of \<^verbatim>\<open>internal/repository/approval.go\<close>,
  \<^verbatim>\<open>acting_context.go\<close> and \<^verbatim>\<open>approval_operation.go\<close> that create, decide, cancel, expire, execute, settle
  and purge an approval, with the row types of \<^verbatim>\<open>internal/model/approval.go\<close> and
  \<^verbatim>\<open>approval_operation.go\<close>. Descriptive columns no operation reads are left out, columns that hold
  marshalled lists are the lists, and the audit entry a transaction appends is recorded by its action
  and approval; the chain itself is modelled in \<open>Audit_Chain\<close>. The jobs are the rows of
  \<open>Job_Queue\<close>.
\<close>

section \<open>Rows\<close>

datatype approval_status =
    ApprovalStatusPendingApproval
  | ApprovalStatusApproved
  | ApprovalStatusRejected
  | ApprovalStatusCanceled
  | ApprovalStatusExpired
  | ApprovalStatusExecuting
  | ApprovalStatusCompleted
  | ApprovalStatusExecutionFailed

datatype step_status =
    ApprovalStepPending
  | ApprovalStepCurrent
  | ApprovalStepApproved
  | ApprovalStepRejected
  | ApprovalStepSkipped
  | ApprovalStepExpired

definition ApprovalApproverRole :: string where
  "ApprovalApproverRole = ''role''"

definition ApprovalApproverUser :: string where
  "ApprovalApproverUser = ''user''"

definition ApprovalApproverTeam :: string where
  "ApprovalApproverTeam = ''team''"

definition ApprovalModeAny :: string where
  "ApprovalModeAny = ''any''"

definition ApprovalModeAll :: string where
  "ApprovalModeAll = ''all''"

definition ApprovalDecisionApprove :: string where
  "ApprovalDecisionApprove = ''approve''"

definition ApprovalDecisionReject :: string where
  "ApprovalDecisionReject = ''reject''"

record approver =
  av_type :: string
  av_value :: string

text \<open>The specification of a step in a policy, and the conditions under which a policy applies.\<close>

record step_spec =
  sp_step_no :: int
  sp_name :: string
  sp_approver_type :: string
  sp_approver_value :: string
  sp_mode :: string
  sp_approvers :: "approver list"
  sp_required :: int
  sp_expire_hours :: int

record condition =
  co_field :: string
  co_op :: string
  co_value :: "json option"

text \<open>A policy; its conditions are \<open>None\<close> if the column does not hold a condition document.\<close>

record policy =
  po_id :: string
  po_tenant_id :: string
  po_object_type :: string
  po_action :: string
  po_enabled :: bool
  po_priority :: int
  po_conditions :: "condition list option"
  po_steps :: "step_spec list option"
  po_expire_hours :: int
  po_version :: int
  po_created_by :: string

record approval =
  ap_id :: string
  ap_tenant_id :: string
  ap_request_no :: string
  ap_object_type :: string
  ap_object_id :: string
  ap_action :: string
  ap_payload_json :: string
  ap_snapshot_json :: string
  ap_target_tenant_id :: string
  ap_resource_version :: string
  ap_action_hash :: string
  ap_status :: approval_status
  ap_policy_id :: string
  ap_policy_version :: int
  ap_current_step :: int
  ap_requester_id :: string
  ap_idempotency_key :: string
  ap_expires_at :: int
  ap_decided_at :: "int option"
  ap_executed_at :: "int option"
  ap_result_json :: string
  ap_last_error :: string
  ap_updated_at :: int

record approval_step =
  st_id :: string
  st_tenant_id :: string
  st_approval_id :: string
  st_step_no :: int
  st_name :: string
  st_approver_type :: string
  st_approver_value :: string
  st_mode :: string
  st_approvers :: "approver list"
  st_required :: int
  st_status :: step_status
  st_acted_by :: "string option"
  st_decision :: string
  st_comment :: string
  st_due_at :: "int option"
  st_acted_at :: "int option"

record step_actor =
  sa_tenant_id :: string
  sa_approval_id :: string
  sa_step_id :: string
  sa_actor_id :: string
  sa_delegated_by :: string
  sa_decision :: string
  sa_comment :: string
  sa_acted_at :: int

record delegation =
  dg_id :: string
  dg_tenant_id :: string
  dg_principal_id :: string
  dg_delegate_id :: string
  dg_object_type :: string
  dg_action :: string
  dg_starts_at :: int
  dg_ends_at :: int

record approval_credential =
  cd_id :: string
  cd_approval_id :: string
  cd_tenant_id :: string
  cd_ciphertext :: string
  cd_consumed_at :: "int option"
  cd_retain_until_at :: "int option"

datatype context_status =
    ActingContextActive
  | ActingContextClaimed
  | ActingContextConsumed
  | ActingContextFailed
  | ActingContextExpired
  | ActingContextRevoked

record acting_context =
  cx_id :: string
  cx_actor_id :: string
  cx_actor_tenant_id :: string
  cx_actor_role :: string
  cx_target_tenant_id :: string
  cx_resource_type :: string
  cx_resource_id :: string
  cx_resource_version :: string
  cx_action :: string
  cx_approval_id :: string
  cx_attempt_no :: int
  cx_action_hash :: string
  cx_idempotency_key :: string
  cx_request_id :: string
  cx_claimed_by :: string
  cx_claim_expires_at :: "int option"
  cx_expires_at :: int
  cx_status :: context_status

datatype operation_status =
    ApprovalOperationRunning
  | ApprovalOperationCompleted
  | ApprovalOperationFailed
  | ApprovalOperationUnknown

record operation =
  op_id :: string
  op_tenant_id :: string
  op_approval_id :: string
  op_acting_context_id :: string
  op_attempt_no :: int
  op_fingerprint :: string
  op_action_hash :: string
  op_status :: operation_status
  op_result_json :: string
  op_last_error :: string
  op_claimed_by :: string
  op_updated_at :: int

record ap_store =
  as_ids :: id_store
  approvals :: "approval list"
  approval_steps :: "approval_step list"
  step_actors :: "step_actor list"
  delegations :: "delegation list"
  credentials :: "approval_credential list"
  policies :: "policy list"
  acting_contexts :: "acting_context list"
  operations :: "operation list"
  ap_jobs :: "job list"
  ap_audits :: "(string \<times> string) list"

definition on_ap_ids :: "(id_store db \<Rightarrow> 'a \<times> id_store db) \<Rightarrow> ap_store db \<Rightarrow> 'a \<times> ap_store db" where
  "on_ap_ids m d = (let (r, i, fs) = m (as_ids (fst d), snd d) in (r, (fst d)\<lparr>as_ids := i\<rparr>, fs))"

text \<open>The job table as the runner uses it, and the separate transaction of \<^verbatim>\<open>RecordAudit\<close>.\<close>

definition on_ap_jobs :: "(job list db \<Rightarrow> 'a \<times> job list db) \<Rightarrow> ap_store db \<Rightarrow> 'a \<times> ap_store db" where
  "on_ap_jobs m d = (let (r, js, fs) = m (ap_jobs (fst d), snd d) in (r, (fst d)\<lparr>ap_jobs := js\<rparr>, fs))"

definition ap_RecordAudit :: "string \<Rightarrow> string \<Rightarrow> ap_store db \<Rightarrow> (err + unit) \<times> ap_store db" where
  "ap_RecordAudit action i = db_run (\<lambda>s. (Inr (), s\<lparr>ap_audits := ap_audits s @ [(action, i)]\<rparr>))"

definition ErrDuplicatedKey :: err where
  "ErrDuplicatedKey = Failure ''duplicated key not allowed''"

section \<open>Approvers of a step\<close>

definition ApprovalStepApprovers :: "approval_step \<Rightarrow> approver list" where
  "ApprovalStepApprovers step =
     (if st_approvers step = [] then [\<lparr>av_type = st_approver_type step, av_value = st_approver_value step\<rparr>]
      else st_approvers step)"

definition ApprovalStepRequiredApprovals :: "approval_step \<Rightarrow> int" where
  "ApprovalStepRequiredApprovals step =
     (if st_mode step = ApprovalModeAll then
        let n = int (length (ApprovalStepApprovers step)) in
        if 0 < st_required step \<and> st_required step \<le> n then st_required step else n
      else 1)"

section \<open>Reads\<close>

definition store_GetApproval :: "string \<Rightarrow> string \<Rightarrow> ap_store db \<Rightarrow> (err + approval option) \<times> ap_store db" where
  "store_GetApproval tenantID i = query (\<lambda>s. sql_first (\<lambda>a. ap_tenant_id a = tenantID \<and> ap_id a = i) (approvals s))"

definition GetApprovalByID :: "string \<Rightarrow> ap_store db \<Rightarrow> (err + approval option) \<times> ap_store db" where
  "GetApprovalByID i = query (\<lambda>s. row_at ap_id i (approvals s))"

definition GetApprovalByIdempotencyKey :: "string \<Rightarrow> string \<Rightarrow> ap_store db \<Rightarrow> (err + approval option) \<times> ap_store db" where
  "GetApprovalByIdempotencyKey tenantID key =
     query (\<lambda>s. sql_first (\<lambda>a. ap_tenant_id a = tenantID \<and> ap_idempotency_key a = key) (approvals s))"

definition ListApprovalSteps :: "string \<Rightarrow> string \<Rightarrow> ap_store db \<Rightarrow> (err + approval_step list) \<times> ap_store db" where
  "ListApprovalSteps tenantID i = query (\<lambda>s. sort_key st_step_no
     (filter (\<lambda>x. st_tenant_id x = tenantID \<and> st_approval_id x = i) (approval_steps s)))"

definition find_step :: "string \<Rightarrow> string \<Rightarrow> int \<Rightarrow> ap_store \<Rightarrow> approval_step option" where
  "find_step tenantID i no s = sql_first (\<lambda>x. st_tenant_id x = tenantID \<and> st_approval_id x = i \<and> st_step_no x = no)
     (approval_steps s)"

definition CurrentApprovalStep :: "string \<Rightarrow> string \<Rightarrow> ap_store db \<Rightarrow> (err + approval_step option) \<times> ap_store db" where
  "CurrentApprovalStep tenantID i =
     chk (query (\<lambda>s. sql_first (\<lambda>a. ap_tenant_id a = tenantID \<and> ap_id a = i) (approvals s))) (\<lambda>ap.
       case ap of
         None \<Rightarrow> ret None
       | Some a \<Rightarrow> query (find_step tenantID i (ap_current_step a)))"

definition ListApprovalStepActors :: "string \<Rightarrow> string \<Rightarrow> string \<Rightarrow> ap_store db \<Rightarrow> (err + step_actor list) \<times> ap_store db" where
  "ListApprovalStepActors tenantID i stepID = query (\<lambda>s. sort_key sa_acted_at
     (filter (\<lambda>x. sa_tenant_id x = tenantID \<and> sa_approval_id x = i \<and> sa_step_id x = stepID) (step_actors s)))"

definition ListActiveApprovalDelegations :: "string \<Rightarrow> string \<Rightarrow> string \<Rightarrow> string \<Rightarrow> int \<Rightarrow> ap_store db \<Rightarrow>
  (err + delegation list) \<times> ap_store db" where
  "ListActiveApprovalDelegations tenantID delegateID objectType action now = query (\<lambda>s. filter (\<lambda>x.
     dg_tenant_id x = tenantID \<and> dg_delegate_id x = delegateID \<and> dg_starts_at x \<le> now \<and> now < dg_ends_at x \<and>
     (dg_object_type x = [] \<or> dg_object_type x = objectType) \<and> (dg_action x = [] \<or> dg_action x = action)) (delegations s))"

section \<open>Writes\<close>

definition CreateApprovalWithAudit_tx :: "approval \<Rightarrow> approval_step list \<Rightarrow> approval_credential option \<Rightarrow> string \<Rightarrow>
  ap_store \<Rightarrow> (err + unit) \<times> ap_store" where
  "CreateApprovalWithAudit_tx a steps cred action s =
     (let steps' = map (\<lambda>x. x\<lparr>st_approval_id := ap_id a\<rparr>) steps in
      if (\<exists>x\<in>set (approvals s). ap_id x = ap_id a \<or> (ap_tenant_id x = ap_tenant_id a \<and>
            (ap_idempotency_key x = ap_idempotency_key a \<or> ap_request_no x = ap_request_no a))) \<or>
         (\<exists>c\<in>set_option cred. \<exists>x\<in>set (credentials s). cd_id x = cd_id c) \<or>
         \<not> distinct (map st_id (approval_steps s @ steps')) \<or>
         \<not> distinct (map (\<lambda>x. (st_approval_id x, st_step_no x)) (approval_steps s @ steps'))
      then (Inl ErrDuplicatedKey, s)
      else (Inr (), s\<lparr>credentials := credentials s @ (case cred of None \<Rightarrow> [] | Some c \<Rightarrow> [c]),
              approvals := approvals s @ [a], approval_steps := approval_steps s @ steps',
              ap_audits := ap_audits s @ [(action, ap_id a)]\<rparr>))"

definition TransitionApproval_tx :: "string \<Rightarrow> string \<Rightarrow> approval_status \<Rightarrow> approval_status \<Rightarrow> (approval \<Rightarrow> approval) \<Rightarrow>
  int \<Rightarrow> ap_store \<Rightarrow> bool \<times> ap_store" where
  "TransitionApproval_tx tenantID i from to updates now s =
     (let hit = (\<lambda>a. ap_tenant_id a = tenantID \<and> ap_id a = i \<and> ap_status a = from) in
      (sql_count hit (approvals s) = 1,
       s\<lparr>approvals := sql_update hit (\<lambda>a. updates (a\<lparr>ap_status := to, ap_updated_at := now\<rparr>)) (approvals s)\<rparr>))"

definition TransitionApproval :: "string \<Rightarrow> string \<Rightarrow> approval_status \<Rightarrow> approval_status \<Rightarrow> (approval \<Rightarrow> approval) \<Rightarrow>
  int \<Rightarrow> ap_store db \<Rightarrow> (err + bool) \<times> ap_store db" where
  "TransitionApproval tenantID i from to updates now =
     db_run (\<lambda>s. let (ok, s') = TransitionApproval_tx tenantID i from to updates now s in (Inr ok, s'))"

text \<open>The outcome of a decision on a step: its status and whether it is complete.\<close>

definition step_verdict :: "string \<Rightarrow> approval_step \<Rightarrow> int \<Rightarrow> step_status \<times> bool" where
  "step_verdict decision step approved =
     (if decision = ApprovalDecisionReject then (ApprovalStepRejected, True)
      else if ApprovalStepRequiredApprovals step \<le> approved then (ApprovalStepApproved, True)
      else (ApprovalStepCurrent, False))"

definition decided_approval :: "string \<Rightarrow> bool \<Rightarrow> bool \<Rightarrow> int \<Rightarrow> int \<Rightarrow> approval \<Rightarrow> approval" where
  "decided_approval decision completed last_step no now a =
     (let b = a\<lparr>ap_updated_at := now\<rparr> in
      if decision = ApprovalDecisionReject then b\<lparr>ap_status := ApprovalStatusRejected, ap_decided_at := Some now\<rparr>
      else if completed \<and> last_step then b\<lparr>ap_status := ApprovalStatusApproved, ap_decided_at := Some now\<rparr>
      else if completed then b\<lparr>ap_status := ApprovalStatusPendingApproval, ap_current_step := no + 1\<rparr>
      else b)"

definition count_approvals :: "approval_step \<Rightarrow> step_actor list \<Rightarrow> int" where
  "count_approvals step rows = int (length (filter (\<lambda>x. sa_tenant_id x = st_tenant_id step \<and>
     sa_approval_id x = st_approval_id step \<and> sa_step_id x = st_id step \<and> sa_decision x = ApprovalDecisionApprove) rows))"

definition DecideApprovalStep_tx :: "string \<Rightarrow> string \<Rightarrow> string \<Rightarrow> string \<Rightarrow> string \<Rightarrow> string \<Rightarrow> int \<Rightarrow> string \<Rightarrow>
  ap_store \<Rightarrow> (err + approval \<times> bool) \<times> ap_store" where
  "DecideApprovalStep_tx tenantID i actorID delegatedBy decision comment now action s =
     (case sql_first (\<lambda>a. ap_tenant_id a = tenantID \<and> ap_id a = i \<and> ap_status a = ApprovalStatusPendingApproval)
             (approvals s) of
        None \<Rightarrow> (Inl RecordNotFound, s)
      | Some a \<Rightarrow>
     (case sql_first (\<lambda>x. st_tenant_id x = tenantID \<and> st_approval_id x = i \<and> st_step_no x = ap_current_step a \<and>
             st_status x = ApprovalStepCurrent) (approval_steps s) of
        None \<Rightarrow> (Inl RecordNotFound, s)
      | Some step \<Rightarrow>
          if \<exists>x\<in>set (step_actors s). sa_tenant_id x = tenantID \<and> sa_approval_id x = i \<and> sa_step_id x = st_id step \<and>
               sa_actor_id x = actorID
          then (Inl ErrDuplicatedKey, s)
          else
          let actors = step_actors s @ [\<lparr>sa_tenant_id = tenantID, sa_approval_id = i, sa_step_id = st_id step,
                 sa_actor_id = actorID, sa_delegated_by = delegatedBy, sa_decision = decision,
                 sa_comment = comment, sa_acted_at = now\<rparr>];
              (status, completed) = step_verdict decision step (count_approvals step actors);
              next_step = (if completed then find_step tenantID i (st_step_no step + 1) s else None);
              steps1 = (case next_step of None \<Rightarrow> approval_steps s
                | Some n \<Rightarrow> sql_update (\<lambda>x. st_id x = st_id n) (\<lambda>x. x\<lparr>st_status := ApprovalStepCurrent\<rparr>) (approval_steps s));
              steps2 = sql_update (\<lambda>x. st_id x = st_id step) (\<lambda>x. x\<lparr>st_status := status, st_decision := decision,
                 st_comment := comment, st_acted_by := Some actorID, st_acted_at := Some now\<rparr>) steps1;
              approvals1 = sql_update (\<lambda>x. ap_tenant_id x = tenantID \<and> ap_id x = i \<and>
                   ap_status x = ApprovalStatusPendingApproval \<and> ap_current_step x = ap_current_step a)
                 (decided_approval decision completed (next_step = None) (st_step_no step) now) (approvals s)
          in if sql_count (\<lambda>x. ap_tenant_id x = tenantID \<and> ap_id x = i \<and>
                   ap_status x = ApprovalStatusPendingApproval \<and> ap_current_step x = ap_current_step a) (approvals s) \<noteq> 1
             then (Inl RecordNotFound, s)
             else case sql_first (\<lambda>x. ap_tenant_id x = tenantID \<and> ap_id x = i) approvals1 of
               None \<Rightarrow> (Inl RecordNotFound, s)
             | Some updated \<Rightarrow>
                 (Inr (updated, ap_status updated = ApprovalStatusApproved),
                  s\<lparr>step_actors := actors, approval_steps := steps2, approvals := approvals1,
                    ap_audits := ap_audits s @ [(action, i)]\<rparr>)))"

definition DecideApprovalStep :: "string \<Rightarrow> string \<Rightarrow> string \<Rightarrow> string \<Rightarrow> string \<Rightarrow> string \<Rightarrow> int \<Rightarrow> string \<Rightarrow>
  ap_store db \<Rightarrow> (err + approval \<times> bool) \<times> ap_store db" where
  "DecideApprovalStep tenantID i actorID delegatedBy decision comment now action =
     db_run (DecideApprovalStep_tx tenantID i actorID delegatedBy decision comment now action)"

text \<open>The transaction of the expiry sweep for one approval.\<close>

definition expire_approval_tx :: "approval \<Rightarrow> int \<Rightarrow> ap_store \<Rightarrow> ap_store" where
  "expire_approval_tx a now s =
     (let hit = (\<lambda>x. ap_tenant_id x = ap_tenant_id a \<and> ap_id x = ap_id a \<and> ap_status x = ApprovalStatusPendingApproval) in
      if sql_count hit (approvals s) \<noteq> 1 then
        s\<lparr>approvals := sql_update hit (\<lambda>x. x\<lparr>ap_status := ApprovalStatusExpired, ap_decided_at := Some now,
            ap_updated_at := now\<rparr>) (approvals s)\<rparr>
      else s\<lparr>approvals := sql_update hit (\<lambda>x. x\<lparr>ap_status := ApprovalStatusExpired, ap_decided_at := Some now,
            ap_updated_at := now\<rparr>) (approvals s), ap_audits := ap_audits s @ [(''approval.expired'', ap_id a)]\<rparr>)"

definition SettleApprovalExecution_tx :: "string \<Rightarrow> string \<Rightarrow> bool \<Rightarrow> string \<Rightarrow> string \<Rightarrow> string \<Rightarrow> int \<Rightarrow> int \<Rightarrow> string \<Rightarrow>
  ap_store \<Rightarrow> (err + unit) \<times> ap_store" where
  "SettleApprovalExecution_tx tenantID i success resultJSON lastError credentialID retainUntil now action s =
     (let hit = (\<lambda>a. ap_tenant_id a = tenantID \<and> ap_id a = i \<and> ap_status a = ApprovalStatusExecuting) in
      if sql_count hit (approvals s) \<noteq> 1 then (Inl RecordNotFound, s)
      else (Inr (), s\<lparr>
        approvals := sql_update hit (\<lambda>a. if success
          then a\<lparr>ap_status := ApprovalStatusCompleted, ap_result_json := resultJSON, ap_updated_at := now,
                 ap_executed_at := Some now, ap_last_error := []\<rparr>
          else a\<lparr>ap_status := ApprovalStatusExecutionFailed, ap_result_json := resultJSON, ap_updated_at := now,
                 ap_last_error := lastError\<rparr>) (approvals s),
        credentials := (if success
          then filter (\<lambda>c. \<not> (cd_tenant_id c = tenantID \<and> cd_approval_id c = i)) (credentials s)
          else if credentialID \<noteq> [] then
            sql_update (\<lambda>c. cd_tenant_id c = tenantID \<and> cd_id c = credentialID)
              (\<lambda>c. c\<lparr>cd_consumed_at := Some now, cd_retain_until_at := Some retainUntil\<rparr>) (credentials s)
          else credentials s),
        ap_audits := ap_audits s @ [(action, i)]\<rparr>))"

definition SettleApprovalExecution :: "string \<Rightarrow> string \<Rightarrow> bool \<Rightarrow> string \<Rightarrow> string \<Rightarrow> string \<Rightarrow> int \<Rightarrow> int \<Rightarrow> string \<Rightarrow>
  ap_store db \<Rightarrow> (err + unit) \<times> ap_store db" where
  "SettleApprovalExecution tenantID i success resultJSON lastError credentialID retainUntil now action =
     db_run (SettleApprovalExecution_tx tenantID i success resultJSON lastError credentialID retainUntil now action)"

definition CreateApprovalWithAudit :: "approval \<Rightarrow> approval_step list \<Rightarrow> approval_credential option \<Rightarrow> string \<Rightarrow>
  ap_store db \<Rightarrow> (err + unit) \<times> ap_store db" where
  "CreateApprovalWithAudit a steps cred action = db_run (CreateApprovalWithAudit_tx a steps cred action)"

section \<open>Credentials\<close>

text \<open>Rows come in the order of their creation; the youngest is the last one.\<close>

definition GetRetainedApprovalCredential :: "string \<Rightarrow> string \<Rightarrow> int \<Rightarrow> ap_store db \<Rightarrow>
  (err + approval_credential option) \<times> ap_store db" where
  "GetRetainedApprovalCredential tenantID i now = query (\<lambda>s.
     case sql_first (\<lambda>c. cd_tenant_id c = tenantID \<and> cd_approval_id c = i) (rev (credentials s)) of
       None \<Rightarrow> None
     | Some c \<Rightarrow>
         if cd_consumed_at c \<noteq> None \<and> (case cd_retain_until_at c of None \<Rightarrow> True | Some t \<Rightarrow> t < now) then None else Some c)"

definition DeleteExpiredApprovalCredentials_tx :: "int \<Rightarrow> int \<Rightarrow> ap_store \<Rightarrow> (err + int) \<times> ap_store" where
  "DeleteExpiredApprovalCredentials_tx now limit s =
     (let n = nat (if limit \<le> 0 \<or> 1000 < limit then 1000 else limit);
          gone = take n (filter (\<lambda>c. cd_consumed_at c \<noteq> None \<and> (case cd_retain_until_at c of None \<Rightarrow> False | Some t \<Rightarrow> t < now))
            (credentials s))
      in (Inr (int (length gone)), s\<lparr>credentials := filter (\<lambda>c. cd_id c \<notin> set (map cd_id gone)) (credentials s)\<rparr>))"

section \<open>The expiry sweep\<close>

definition expiryBatchSize :: nat where
  "expiryBatchSize = 500"

definition overdue :: "int \<Rightarrow> approval \<Rightarrow> bool" where
  "overdue now a \<longleftrightarrow> ap_status a = ApprovalStatusPendingApproval \<and> ap_expires_at a < now"

definition overdue_batch :: "int \<Rightarrow> ap_store \<Rightarrow> approval list" where
  "overdue_batch now s = take expiryBatchSize (sort_key ap_expires_at (filter (overdue now) (approvals s)))"

fun expire_each :: "approval list \<Rightarrow> int \<Rightarrow> int \<Rightarrow> ap_store db \<Rightarrow> (int \<times> err option) \<times> ap_store db" where
  "expire_each [] now n d = ((n, None), d)"
| "expire_each (a # as) now n d =
     (case db_run (\<lambda>s. (Inr (), expire_approval_tx a now s)) d of
        (Inl e, d1) \<Rightarrow> ((n, Some e), d1)
      | (Inr _, d1) \<Rightarrow> expire_each as now (n + 1) d1)"

definition still_overdue :: "int \<Rightarrow> ap_store \<Rightarrow> nat" where
  "still_overdue now s = length (filter (overdue now) (approvals s))"

lemma approvals_expire: "approvals (expire_approval_tx a now s) =
    sql_update (\<lambda>x. ap_tenant_id x = ap_tenant_id a \<and> ap_id x = ap_id a \<and> ap_status x = ApprovalStatusPendingApproval)
      (\<lambda>x. x\<lparr>ap_status := ApprovalStatusExpired, ap_decided_at := Some now, ap_updated_at := now\<rparr>) (approvals s)"
  by (simp add: expire_approval_tx_def Let_def)

lemma count_update_mono:
  assumes "\<And>x. x \<in> set rows \<Longrightarrow> Q x \<Longrightarrow> \<not> P (f x)"
  shows "length (filter P (sql_update Q f rows)) + length (filter (\<lambda>x. P x \<and> Q x) rows) = length (filter P rows)"
  using assms by (induction rows) (auto simp: sql_update_def)

lemma still_overdue_expire:
  "still_overdue now (expire_approval_tx a t s) + length (filter (\<lambda>x. overdue now x \<and> ap_tenant_id x = ap_tenant_id a \<and>
     ap_id x = ap_id a \<and> ap_status x = ApprovalStatusPendingApproval) (approvals s)) = still_overdue now s"
  unfolding still_overdue_def approvals_expire by (rule count_update_mono) (simp add: overdue_def)

lemma expire_each_mono: "expire_each as t n d = (r, d1) \<Longrightarrow> still_overdue now (fst d1) \<le> still_overdue now (fst d)"
proof (induction as arbitrary: n d)
  case (Cons a as)
  obtain s fs where d: "d = (s, fs)" by fastforce
  obtain x s2 fs2 where x: "db_run (\<lambda>s. (Inr (), expire_approval_tx a t s)) d = (x, s2, fs2)" by (metis prod_cases3)
  have "still_overdue now s2 \<le> still_overdue now s"
    using x [unfolded d] by (rule db_run_cases) (use still_overdue_expire [of now a t s] in auto)
  moreover have "still_overdue now (fst d1) \<le> still_overdue now s2"
    using Cons x by (cases x) fastforce+
  ultimately show ?case by (simp add: d)
qed simp

lemma expire_each_less:
  assumes "expire_each (a # as) t n d = ((m, None), d1)" and "a \<in> set (approvals (fst d))" and "overdue now a"
  shows "still_overdue now (fst d1) < still_overdue now (fst d)"
proof -
  obtain s fs where d: "d = (s, fs)" by fastforce
  obtain x s2 fs2 where x: "db_run (\<lambda>s. (Inr (), expire_approval_tx a t s)) d = (x, s2, fs2)" by (metis prod_cases3)
  then obtain u where u: "x = Inr u" using assms(1) by (cases x) auto
  let ?hits = "filter (\<lambda>x. overdue now x \<and> ap_tenant_id x = ap_tenant_id a \<and> ap_id x = ap_id a \<and>
      ap_status x = ApprovalStatusPendingApproval) (approvals s)"
  have "?hits \<noteq> []" using assms(2, 3) by (auto simp: d overdue_def filter_empty_conv)
  then have "0 < length ?hits" by simp
  then have "still_overdue now (expire_approval_tx a t s) < still_overdue now s"
    using still_overdue_expire [of now a t s] by linarith
  moreover have "s2 = expire_approval_tx a t s" using x [unfolded d u] by (rule db_run_cases) auto
  moreover have "still_overdue now (fst d1) \<le> still_overdue now s2"
    using assms(1) x u by (auto dest: expire_each_mono [where now = now])
  ultimately show ?thesis by (simp add: d)
qed

function ExpireApprovals_loop :: "int \<Rightarrow> int \<Rightarrow> ap_store db \<Rightarrow> (int \<times> err option) \<times> ap_store db" where
  "ExpireApprovals_loop now expired d =
     (case query (overdue_batch now) d of
        (Inl e, d1) \<Rightarrow> ((expired, Some e), d1)
      | (Inr batch, d1) \<Rightarrow>
          if batch = [] then ((expired, None), d1)
          else case expire_each batch now expired d1 of
                 ((n, Some e), d2) \<Rightarrow> ((n, Some e), d2)
               | ((n, None), d2) \<Rightarrow>
                   if length batch < expiryBatchSize then ((n, None), d2) else ExpireApprovals_loop now n d2)"
  by pat_completeness auto

termination
proof (relation "measure (\<lambda>(now, n, d). still_overdue now (fst d))", goal_cases)
  case (2 now expired d q d1 batch x d2 n e)
  then have q: "query (overdue_batch now) d = (Inr batch, d1)" and x: "expire_each batch now expired d1 = ((n, None), d2)"
    by simp_all
  have b: "batch = overdue_batch now (fst d)" "fst d1 = fst d" using query_cases [OF q] by auto
  obtain a as where c: "batch = a # as" using 2 by (cases batch) auto
  have "a \<in> set (filter (overdue now) (approvals (fst d)))"
    using b(1) c by (metis list.set_intros(1) overdue_batch_def set_sort set_take_subset subsetD)
  then show ?case using expire_each_less [OF x [unfolded c], of now] b(2) by simp
qed simp

declare ExpireApprovals_loop.simps [simp del]

definition ExpireApprovals :: "int \<Rightarrow> ap_store db \<Rightarrow> (int \<times> err option) \<times> ap_store db" where
  "ExpireApprovals now = ExpireApprovals_loop now 0"

section \<open>The purge\<close>

definition settled_statuses :: "approval_status list" where
  "settled_statuses = [ApprovalStatusRejected, ApprovalStatusCanceled, ApprovalStatusExpired, ApprovalStatusCompleted,
     ApprovalStatusExecutionFailed]"

definition purge_approval_tx :: "approval \<Rightarrow> ap_store \<Rightarrow> (err + unit) \<times> ap_store" where
  "purge_approval_tx a s =
     (if sql_count (\<lambda>x. ap_tenant_id x = ap_tenant_id a \<and> ap_id x = ap_id a) (approvals s) \<noteq> 1 then (Inl RecordNotFound, s)
      else (Inr (), s\<lparr>
        credentials := filter (\<lambda>c. \<not> (cd_tenant_id c = ap_tenant_id a \<and> cd_approval_id c = ap_id a)) (credentials s),
        approval_steps := filter (\<lambda>x. \<not> (st_tenant_id x = ap_tenant_id a \<and> st_approval_id x = ap_id a)) (approval_steps s),
        approvals := filter (\<lambda>x. \<not> (ap_tenant_id x = ap_tenant_id a \<and> ap_id x = ap_id a)) (approvals s),
        ap_audits := ap_audits s @ [(''approval.purged'', ap_id a)]\<rparr>))"

fun purge_each :: "approval list \<Rightarrow> int \<Rightarrow> ap_store db \<Rightarrow> (int \<times> err option) \<times> ap_store db" where
  "purge_each [] n d = ((n, None), d)"
| "purge_each (a # as) n d =
     (case db_run (purge_approval_tx a) d of
        (Inl e, d1) \<Rightarrow> ((n, Some e), d1)
      | (Inr _, d1) \<Rightarrow> purge_each as (n + 1) d1)"

definition DeleteExpiredApprovalRecords :: "int \<Rightarrow> int \<Rightarrow> int \<Rightarrow> ap_store db \<Rightarrow> (int \<times> err option) \<times> ap_store db" where
  "DeleteExpiredApprovalRecords now retentionDays limit d =
     (if retentionDays \<le> 0 \<or> limit \<le> 0 then ((0, None), d)
      else
        let n = nat (if 1000 < limit then 1000 else limit); cutoff = now - retentionDays * 86400 * nanos_per_sec in
        case query (\<lambda>s. take n (filter (\<lambda>a. ap_status a \<in> set settled_statuses \<and> ap_updated_at a < cutoff) (approvals s))) d of
          (Inl e, d1) \<Rightarrow> ((0, Some e), d1)
        | (Inr as, d1) \<Rightarrow> purge_each as 0 d1)"

section \<open>Delegations and policies\<close>

definition store_CreateApprovalDelegation :: "delegation \<Rightarrow> ap_store db \<Rightarrow> (err + unit) \<times> ap_store db" where
  "store_CreateApprovalDelegation g = db_run (\<lambda>s.
     if dg_id g \<in> dg_id ` set (delegations s) then (Inl ErrDuplicatedKey, s)
     else (Inr (), s\<lparr>delegations := delegations s @ [g]\<rparr>))"

definition store_DeleteApprovalDelegation :: "string \<Rightarrow> string \<Rightarrow> string \<Rightarrow> ap_store db \<Rightarrow> (err + bool) \<times> ap_store db" where
  "store_DeleteApprovalDelegation tenantID i principalID = db_run (\<lambda>s.
     let hit = (\<lambda>g. dg_tenant_id g = tenantID \<and> dg_id g = i \<and> dg_principal_id g = principalID) in
     (Inr (sql_count hit (delegations s) = 1), s\<lparr>delegations := filter (\<lambda>g. \<not> hit g) (delegations s)\<rparr>))"

definition store_ListApprovalPolicies :: "string \<Rightarrow> ap_store db \<Rightarrow> (err + policy list) \<times> ap_store db" where
  "store_ListApprovalPolicies tenantID = query (\<lambda>s.
     sort_key po_priority
       (let mine = filter (\<lambda>p. po_tenant_id p = [] \<or> po_tenant_id p = tenantID) (policies s);
            recent = rev (sort_key po_version (rev mine))
        in filter (\<lambda>p. po_tenant_id p \<noteq> []) recent @ filter (\<lambda>p. po_tenant_id p = []) recent))"

definition ListAllApprovalPolicies :: "ap_store db \<Rightarrow> (err + policy list) \<times> ap_store db" where
  "ListAllApprovalPolicies = query policies"

definition GetApprovalPolicyByID :: "string \<Rightarrow> ap_store db \<Rightarrow> (err + policy option) \<times> ap_store db" where
  "GetApprovalPolicyByID i = query (\<lambda>s. row_at po_id i (policies s))"

definition UpsertApprovalPolicy_tx :: "policy \<Rightarrow> ap_store \<Rightarrow> (err + unit) \<times> ap_store" where
  "UpsertApprovalPolicy_tx p s =
     (if \<exists>q\<in>set (policies s). po_id q \<noteq> po_id p \<and> po_tenant_id q = po_tenant_id p \<and>
           po_object_type q = po_object_type p \<and> po_action q = po_action p
      then (Inl ErrDuplicatedKey, s)
      else if po_id p \<in> po_id ` set (policies s)
      then (Inr (), s\<lparr>policies := sql_update (\<lambda>q. po_id q = po_id p) (\<lambda>_. p) (policies s)\<rparr>)
      else (Inr (), s\<lparr>policies := policies s @ [p]\<rparr>))"

definition UpsertApprovalPolicy :: "policy \<Rightarrow> ap_store db \<Rightarrow> (err + unit) \<times> ap_store db" where
  "UpsertApprovalPolicy p = db_run (UpsertApprovalPolicy_tx p)"

section \<open>Acting contexts\<close>

definition CreateActingContext_tx :: "acting_context \<Rightarrow> ap_store \<Rightarrow> (err + unit) \<times> ap_store" where
  "CreateActingContext_tx c s =
     (if \<exists>x\<in>set (acting_contexts s). cx_id x = cx_id c \<or>
           (cx_approval_id x = cx_approval_id c \<and> cx_attempt_no x = cx_attempt_no c)
      then (Inl ErrDuplicatedKey, s)
      else (Inr (), s\<lparr>acting_contexts := acting_contexts s @ [c]\<rparr>))"

definition CreateActingContext :: "acting_context \<Rightarrow> ap_store db \<Rightarrow> (err + unit) \<times> ap_store db" where
  "CreateActingContext c = db_run (CreateActingContext_tx c)"

definition GetActingContextByApproval :: "string \<Rightarrow> ap_store db \<Rightarrow> (err + acting_context option) \<times> ap_store db" where
  "GetActingContextByApproval i = query (\<lambda>s.
     case rev (sort_key cx_attempt_no (filter (\<lambda>c. cx_approval_id c = i) (acting_contexts s))) of
       [] \<Rightarrow> None | c # _ \<Rightarrow> Some c)"

definition GetActingContext :: "string \<Rightarrow> ap_store db \<Rightarrow> (err + acting_context option) \<times> ap_store db" where
  "GetActingContext i = query (\<lambda>s. row_at cx_id i (acting_contexts s))"

definition CompleteActingContext_tx :: "string \<Rightarrow> context_status \<Rightarrow> context_status \<Rightarrow> ap_store \<Rightarrow> bool \<times> ap_store" where
  "CompleteActingContext_tx i from to s =
     (let hit = (\<lambda>c. cx_id c = i \<and> cx_status c = from) in
      (sql_count hit (acting_contexts s) = 1,
       s\<lparr>acting_contexts := sql_update hit (\<lambda>c. c\<lparr>cx_status := to\<rparr>) (acting_contexts s)\<rparr>))"

definition CompleteActingContext :: "string \<Rightarrow> context_status \<Rightarrow> context_status \<Rightarrow> ap_store db \<Rightarrow> (err + bool) \<times> ap_store db" where
  "CompleteActingContext i from to =
     db_run (\<lambda>s. let (ok, s') = CompleteActingContext_tx i from to s in (Inr ok, s'))"

section \<open>Operations\<close>

definition GetApprovalOperationByContext :: "string \<Rightarrow> ap_store db \<Rightarrow> (err + operation option) \<times> ap_store db" where
  "GetApprovalOperationByContext i = query (\<lambda>s. row_at op_acting_context_id i (operations s))"

definition GetLatestApprovalOperation :: "string \<Rightarrow> string \<Rightarrow> ap_store db \<Rightarrow> (err + operation option) \<times> ap_store db" where
  "GetLatestApprovalOperation tenantID i = query (\<lambda>s.
     case rev (sort_key op_attempt_no (filter (\<lambda>x. op_tenant_id x = tenantID \<and> op_approval_id x = i) (operations s))) of
       [] \<Rightarrow> None | x # _ \<Rightarrow> Some x)"

definition ClaimActingContextForOperation_tx :: "string \<Rightarrow> string \<Rightarrow> int \<Rightarrow> int \<Rightarrow> operation \<Rightarrow> ap_store \<Rightarrow>
  (err + operation option) \<times> ap_store" where
  "ClaimActingContextForOperation_tx contextID claimedBy now claimExpiresAt oper s =
     (let hit = (\<lambda>c. cx_id c = contextID \<and> cx_status c = ActingContextActive \<and> now < cx_expires_at c);
          claimed = sql_update hit (\<lambda>c. c\<lparr>cx_status := ActingContextClaimed, cx_claimed_by := claimedBy,
            cx_claim_expires_at := Some claimExpiresAt\<rparr>) (acting_contexts s)
      in if sql_count hit (acting_contexts s) \<noteq> 1 then (Inr None, s\<lparr>acting_contexts := claimed\<rparr>)
         else case row_at op_acting_context_id contextID (operations s) of
                Some existing \<Rightarrow> (Inr (Some existing), s\<lparr>acting_contexts := claimed\<rparr>)
              | None \<Rightarrow>
                  if \<exists>x\<in>set (operations s). op_id x = op_id oper \<or>
                       op_acting_context_id x = op_acting_context_id oper \<or>
                       (op_approval_id x = op_approval_id oper \<and> op_attempt_no x = op_attempt_no oper)
                  then (Inl ErrDuplicatedKey, s)
                  else (Inr (Some oper), s\<lparr>acting_contexts := claimed, operations := operations s @ [oper]\<rparr>))"

definition ClaimActingContextForOperation :: "string \<Rightarrow> string \<Rightarrow> int \<Rightarrow> int \<Rightarrow> operation \<Rightarrow> ap_store db \<Rightarrow>
  (err + operation option) \<times> ap_store db" where
  "ClaimActingContextForOperation contextID claimedBy now claimExpiresAt oper =
     db_run (ClaimActingContextForOperation_tx contextID claimedBy now claimExpiresAt oper)"

definition CompleteApprovalOperation_tx :: "string \<Rightarrow> operation_status \<Rightarrow> operation_status \<Rightarrow> string \<Rightarrow> string \<Rightarrow> int \<Rightarrow>
  ap_store \<Rightarrow> bool \<times> ap_store" where
  "CompleteApprovalOperation_tx i from to resultJSON lastError now s =
     (let hit = (\<lambda>x. op_id x = i \<and> op_status x = from \<and> op_status x \<notin>
            {ApprovalOperationCompleted, ApprovalOperationFailed, ApprovalOperationUnknown}) in
      (sql_count hit (operations s) = 1,
       s\<lparr>operations := sql_update hit (\<lambda>x. x\<lparr>op_status := to, op_result_json := resultJSON,
          op_last_error := lastError, op_updated_at := now\<rparr>) (operations s)\<rparr>))"

definition CompleteApprovalOperation :: "string \<Rightarrow> operation_status \<Rightarrow> operation_status \<Rightarrow> string \<Rightarrow> string \<Rightarrow> int \<Rightarrow>
  ap_store db \<Rightarrow> (err + bool) \<times> ap_store db" where
  "CompleteApprovalOperation i from to resultJSON lastError now = db_run (\<lambda>s.
     let (ok, s') = CompleteApprovalOperation_tx i from to resultJSON lastError now s in (Inr ok, s'))"

definition MarkStaleApprovalOperationUnknown_tx :: "string \<Rightarrow> int \<Rightarrow> int \<Rightarrow> ap_store \<Rightarrow> bool \<times> ap_store" where
  "MarkStaleApprovalOperationUnknown_tx i staleBefore now s =
     (let hit = (\<lambda>x. op_id x = i \<and> op_status x = ApprovalOperationRunning \<and> op_updated_at x < staleBefore) in
      (sql_count hit (operations s) = 1,
       s\<lparr>operations := sql_update hit (\<lambda>x. x\<lparr>op_status := ApprovalOperationUnknown,
          op_last_error := ''approval operation outcome is unknown'', op_updated_at := now\<rparr>) (operations s)\<rparr>))"

definition MarkStaleApprovalOperationUnknown :: "string \<Rightarrow> int \<Rightarrow> int \<Rightarrow> ap_store db \<Rightarrow> (err + bool) \<times> ap_store db" where
  "MarkStaleApprovalOperationUnknown i staleBefore now = db_run (\<lambda>s.
     let (ok, s') = MarkStaleApprovalOperationUnknown_tx i staleBefore now s in (Inr ok, s'))"

end
