(* ===== verification/Approval_Policy.thy ===== *)
theory Approval_Policy
  imports Complex_Main Approval_Store Rate_Limit
begin

text \<open>
  Approval policies, \<^verbatim>\<open>internal/service/approval.go\<close>: the conditions of a policy, the choice of the
  policy that governs a request, the cache of policies, the validation of the steps of a policy,
  the steps an approval gets from its policy, and how administrators save policies. A decoded JSON
  value is a \<open>json\<close>; \<open>go_fmt\<close> holds what the code uses of \<^verbatim>\<open>fmt.Sprint\<close> and of the parser of numbers.
  The process runs without the optional shared cache.
\<close>

section \<open>Conditions\<close>

datatype go_any = GoInt int | GoJson json

record go_fmt =
  Sprint :: "go_any \<Rightarrow> string"
  parse_real :: "string \<Rightarrow> rat option"

text \<open>The nearest double of an integer, ties to even.\<close>

fun bit_length :: "nat \<Rightarrow> nat" where
  "bit_length n = (if n = 0 then 0 else Suc (bit_length (n div 2)))"

declare bit_length.simps [simp del]

definition round53 :: "nat \<Rightarrow> nat" where
  "round53 n = (if n < 2 ^ 53 then n
     else let e = bit_length n - 53; q = n div 2 ^ e; r = n mod 2 ^ e; half = 2 ^ (e - 1)
          in (if half < r \<or> (r = half \<and> odd q) then q + 1 else q) * 2 ^ e)"

definition float64 :: "int \<Rightarrow> rat" where
  "float64 v = (if v < 0 then - of_nat (round53 (nat (- v))) else of_nat (round53 (nat v)))"

definition json_number :: "go_fmt \<Rightarrow> json \<Rightarrow> rat option" where
  "json_number lib j =
     (case j of JInt n \<Rightarrow> if \<bar>n\<bar> < 2 ^ 1024 then Some (float64 n) else None | JReal t \<Rightarrow> parse_real lib t | _ \<Rightarrow> None)"

definition decodeApprovalScalar :: "go_fmt \<Rightarrow> json option \<Rightarrow> string" where
  "decodeApprovalScalar lib raw = (case raw of None \<Rightarrow> [] | Some j \<Rightarrow> Sprint lib (GoJson j))"

definition decodeApprovalNumber :: "go_fmt \<Rightarrow> json option \<Rightarrow> rat option" where
  "decodeApprovalNumber lib raw = (case raw of None \<Rightarrow> None | Some JNull \<Rightarrow> Some 0 | Some j \<Rightarrow> json_number lib j)"

definition approvalNumber :: "go_fmt \<Rightarrow> go_any \<Rightarrow> rat option" where
  "approvalNumber lib v = (case v of GoInt n \<Rightarrow> Some (float64 n) | GoJson j \<Rightarrow> json_number lib j)"

text \<open>Decoding into a list of strings; \<^verbatim>\<open>null\<close> decodes to the zero value.\<close>

fun strings_of :: "json list \<Rightarrow> string list option" where
  "strings_of [] = Some []"
| "strings_of (JStr s # js) = map_option (Cons s) (strings_of js)"
| "strings_of (JNull # js) = map_option (Cons []) (strings_of js)"
| "strings_of (_ # js) = None"

definition decode_strings :: "json option \<Rightarrow> string list option" where
  "decode_strings raw = (case raw of Some (JArr js) \<Rightarrow> strings_of js | Some JNull \<Rightarrow> Some [] | _ \<Rightarrow> None)"

definition matchApprovalCondition :: "go_fmt \<Rightarrow> condition \<Rightarrow> go_any option \<Rightarrow> bool" where
  "matchApprovalCondition lib c found =
     (let v = (case found of None \<Rightarrow> GoJson JNull | Some x \<Rightarrow> x); exists = (found \<noteq> None);
          text = Sprint lib v; operand = decodeApprovalScalar lib (co_value c);
          compare = (\<lambda>f. case (decodeApprovalNumber lib (co_value c), approvalNumber lib v) of
            (Some threshold, Some number) \<Rightarrow> f number threshold | _ \<Rightarrow> False)
      in if co_op c = ''exists'' then exists
         else if co_op c = ''eq'' then exists \<and> text = operand
         else if co_op c = ''neq'' then \<not> exists \<or> text \<noteq> operand
         else if co_op c = ''prefix'' then exists \<and> HasPrefix text operand
         else if co_op c = ''gt'' then compare (>)
         else if co_op c = ''gte'' then compare (\<ge>)
         else if co_op c = ''lt'' then compare (<)
         else if co_op c = ''lte'' then compare (\<le>)
         else if co_op c = ''in'' then (case decode_strings (co_value c) of None \<Rightarrow> False | Some vs \<Rightarrow> text \<in> set vs)
         else False)"

type_synonym attrs = "(string \<times> go_any) list"

definition matchApprovalConditions :: "go_fmt \<Rightarrow> condition list \<Rightarrow> attrs \<Rightarrow> bool" where
  "matchApprovalConditions lib cs attrs = list_all (\<lambda>c. matchApprovalCondition lib c (map_of attrs (co_field c))) cs"

section \<open>Which policy governs a request\<close>

definition selectedConditionCount :: "policy \<Rightarrow> nat" where
  "selectedConditionCount p = (case po_conditions p of None \<Rightarrow> 0 | Some cs \<Rightarrow> length cs)"

definition applicable :: "go_fmt \<Rightarrow> attrs \<Rightarrow> policy \<Rightarrow> bool" where
  "applicable lib attrs p \<longleftrightarrow> po_enabled p \<and>
     (case po_conditions p of None \<Rightarrow> False | Some cs \<Rightarrow> matchApprovalConditions lib cs attrs)"

definition outranks :: "policy \<Rightarrow> policy \<Rightarrow> bool \<Rightarrow> bool" where
  "outranks p selected tenantMatched \<longleftrightarrow>
     \<not> (tenantMatched \<and> po_tenant_id p = []) \<and> \<not> po_priority selected < po_priority p \<and>
     \<not> (po_priority p = po_priority selected \<and> selectedConditionCount p \<le> selectedConditionCount selected)"

fun select_loop :: "go_fmt \<Rightarrow> attrs \<Rightarrow> (policy \<times> bool) option \<Rightarrow> policy list \<Rightarrow> policy option" where
  "select_loop lib attrs sel [] = map_option fst sel"
| "select_loop lib attrs sel (p # ps) =
     (if \<not> applicable lib attrs p then select_loop lib attrs sel ps
      else case sel of
             None \<Rightarrow> select_loop lib attrs (Some (p, po_tenant_id p \<noteq> [])) ps
           | Some (q, tenantMatched) \<Rightarrow>
               if outranks p q tenantMatched then select_loop lib attrs (Some (p, po_tenant_id p \<noteq> [])) ps
               else select_loop lib attrs sel ps)"

definition selectApprovalPolicy :: "go_fmt \<Rightarrow> policy list \<Rightarrow> attrs \<Rightarrow> policy option" where
  "selectApprovalPolicy lib ps attrs = select_loop lib attrs None ps"

section \<open>The service\<close>

record ap_config =
  cf_enabled :: bool
  cf_default_expire_hours :: int
  cf_execution_max_retries :: int
  cf_expire_scan_interval_sec :: int
  cf_reminder_before_hours :: int
  cf_policy_cache_ttl_sec :: int
  cf_retention_days :: int

record 's ap_svc =
  sv_db :: "ap_store db"
  sv_config :: ap_config
  sv_revision :: string
  sv_cache :: "string \<rightharpoonup> policy list \<times> int"
  sv_decisions :: 's
  sv_submits :: 's

definition on_sv :: "(ap_store db \<Rightarrow> 'a \<times> ap_store db) \<Rightarrow> 's ap_svc \<Rightarrow> 'a \<times> 's ap_svc" where
  "on_sv m v = (let (r, d) = m (sv_db v) in (r, v\<lparr>sv_db := d\<rparr>))"

definition positive_or :: "int \<Rightarrow> int \<Rightarrow> int" where
  "positive_or n fallback = (if n \<le> 0 then fallback else n)"

definition SetApprovalConfig :: "(ap_config \<Rightarrow> string) \<Rightarrow> ap_config \<Rightarrow> 's ap_svc \<Rightarrow> 's ap_svc" where
  "SetApprovalConfig approvalConfigRevision cfg v =
     (let cfg' = cfg\<lparr>cf_default_expire_hours := positive_or (cf_default_expire_hours cfg) 72,
            cf_execution_max_retries := positive_or (cf_execution_max_retries cfg) 3,
            cf_expire_scan_interval_sec := positive_or (cf_expire_scan_interval_sec cfg) 3600,
            cf_reminder_before_hours := positive_or (cf_reminder_before_hours cfg) 24,
            cf_policy_cache_ttl_sec := (if cf_policy_cache_ttl_sec cfg < 0 then 0 else cf_policy_cache_ttl_sec cfg)\<rparr>
      in v\<lparr>sv_config := cfg', sv_revision := approvalConfigRevision cfg', sv_cache := Map.empty\<rparr>)"

definition sharedApprovalCacheKey :: "string \<Rightarrow> string \<Rightarrow> string \<Rightarrow> 's ap_svc \<Rightarrow> err + string" where
  "sharedApprovalCacheKey tenantID objectType action v =
     (if sv_revision v = [] then Inl (Failure ''approval policy cache is not initialized'')
      else Inr (tenantID @ '':'' @ objectType @ '':'' @ action))"

definition invalidateApprovalPolicyCache :: "string \<Rightarrow> string \<Rightarrow> string \<Rightarrow> 's ap_svc \<Rightarrow> (err + unit) \<times> 's ap_svc" where
  "invalidateApprovalPolicyCache tenantID objectType action v =
     (case sharedApprovalCacheKey tenantID objectType action v of
        Inl e \<Rightarrow> (Inl e, v)
      | Inr key \<Rightarrow> (Inr (), v\<lparr>sv_cache := (sv_cache v)(key := None)\<rparr>))"

definition matchApprovalPolicy :: "go_fmt \<Rightarrow> string \<Rightarrow> string \<Rightarrow> string \<Rightarrow> attrs \<Rightarrow> int \<Rightarrow> 's ap_svc \<Rightarrow>
  (err + policy option) \<times> 's ap_svc" where
  "matchApprovalPolicy lib tenantID objectType action attrs now v =
     (case sharedApprovalCacheKey tenantID objectType action v of
        Inl e \<Rightarrow> (Inl e, v)
      | Inr key \<Rightarrow>
          let ttl = cf_policy_cache_ttl_sec (sv_config v) * nanos_per_sec in
          case (if 0 < ttl then sv_cache v key else None) of
            Some (ps, expireAt) \<Rightarrow>
              if now < expireAt then (Inr (selectApprovalPolicy lib ps attrs), v)
              else chk (on_sv (store_ListApprovalPolicies tenantID)) (\<lambda>ps w.
                (Inr (selectApprovalPolicy lib ps attrs), w\<lparr>sv_cache := (sv_cache w)(key \<mapsto> (ps, now + ttl))\<rparr>)) v
          | None \<Rightarrow> chk (on_sv (store_ListApprovalPolicies tenantID)) (\<lambda>ps w.
              (Inr (selectApprovalPolicy lib ps attrs),
               if 0 < ttl then w\<lparr>sv_cache := (sv_cache w)(key \<mapsto> (ps, now + ttl))\<rparr> else w)) v)"

section \<open>Steps\<close>

definition maxApprovalsPerStep :: nat where
  "maxApprovalsPerStep = 50"

fun check_approvers :: "string list \<Rightarrow> approver list \<Rightarrow> err + unit" where
  "check_approvers seen [] = Inr ()"
| "check_approvers seen (a # as) =
     (let key = av_type a @ '':'' @ av_value a in
      if av_type a \<notin> {ApprovalApproverRole, ApprovalApproverUser, ApprovalApproverTeam}
      then Inl (BadRequest 40084 ''invalid approval approver type'')
      else if av_value a = [] then Inl (BadRequest 40083 ''approval approver value is required'')
      else if key \<in> set seen then Inl (BadRequest 40083 ''approval approvers must be unique'')
      else check_approvers (key # seen) as)"

definition required_approvals :: "string \<Rightarrow> int \<Rightarrow> nat \<Rightarrow> err + int" where
  "required_approvals mode required n =
     (if mode \<noteq> ApprovalModeAll then Inr 1
      else let r = (if required = 0 then int n else required) in
           if int n < r then Inl (BadRequest 40083 ''required approvals exceed approver count'') else Inr r)"

definition normalize_step :: "step_spec \<Rightarrow> err + step_spec" where
  "normalize_step sp =
     (if sp_approvers sp = [] \<and> (sp_approver_type sp = [] \<or> sp_approver_value sp = [])
      then Inl (BadRequest 40083 ''approval step name and approver are required'')
      else
        let approvers = (if sp_approvers sp = []
              then [\<lparr>av_type = sp_approver_type sp, av_value = sp_approver_value sp\<rparr>] else sp_approvers sp);
            mode = (if sp_mode sp = [] then ApprovalModeAny else sp_mode sp)
        in if maxApprovalsPerStep < length approvers then Inl (BadRequest 40083 ''too many approvers in approval step'')
           else if mode \<noteq> ApprovalModeAny \<and> mode \<noteq> ApprovalModeAll then Inl (BadRequest 40083 ''invalid approval mode'')
           else case check_approvers [] approvers of
                  Inl e \<Rightarrow> Inl e
                | Inr _ \<Rightarrow> (case required_approvals mode (sp_required sp) (length approvers) of
                    Inl e \<Rightarrow> Inl e
                  | Inr r \<Rightarrow> Inr (sp\<lparr>sp_approvers := approvers, sp_mode := mode, sp_required := r,
                      sp_approver_type := av_type (hd approvers), sp_approver_value := av_value (hd approvers)\<rparr>)))"

fun normalize_steps :: "step_spec list \<Rightarrow> err + step_spec list" where
  "normalize_steps [] = Inr []"
| "normalize_steps (sp # sps) =
     (case normalize_step sp of
        Inl e \<Rightarrow> Inl e
      | Inr sp' \<Rightarrow> (case normalize_steps sps of Inl e \<Rightarrow> Inl e | Inr sps' \<Rightarrow> Inr (sp' # sps')))"

fun check_sequence :: "nat \<Rightarrow> approver list \<Rightarrow> step_spec list \<Rightarrow> err + unit" where
  "check_sequence i previous [] = Inr ()"
| "check_sequence i previous (sp # sps) =
     (if sp_step_no sp \<noteq> int i + 1 then Inl (BadRequest 40082 ''approval step numbers must be sequential'')
      else if sp_name sp = [] then Inl (BadRequest 40083 ''approval step name is required'')
      else if 0 < i \<and> (\<exists>c\<in>set (sp_approvers sp). av_type c = ApprovalApproverUser \<and>
          (\<exists>p\<in>set previous. av_type p = ApprovalApproverUser \<and> av_value p = av_value c))
      then Inl (BadRequest 40085 ''the same user cannot approve adjacent steps'')
      else check_sequence (Suc i) (sp_approvers sp) sps)"

definition validateApprovalSteps :: "step_spec list \<Rightarrow> err + step_spec list" where
  "validateApprovalSteps sps =
     (case normalize_steps sps of
        Inl e \<Rightarrow> Inl e
      | Inr sps' \<Rightarrow> (case check_sequence 0 [] sps' of Inl e \<Rightarrow> Inl e | Inr _ \<Rightarrow> Inr sps'))"

definition time_Hour :: int where
  "time_Hour = 3600 * nanos_per_sec"

definition step_of_spec :: "string \<Rightarrow> policy \<Rightarrow> int \<Rightarrow> nat \<Rightarrow> string \<Rightarrow> step_spec \<Rightarrow> approval_step" where
  "step_of_spec tenantID p now i newID sp =
     \<lparr>st_id = newID, st_tenant_id = tenantID, st_approval_id = ''pending'', st_step_no = sp_step_no sp,
      st_name = sp_name sp, st_approver_type = sp_approver_type sp, st_approver_value = sp_approver_value sp,
      st_mode = sp_mode sp, st_approvers = sp_approvers sp, st_required = sp_required sp,
      st_status = (if i = 0 then ApprovalStepCurrent else ApprovalStepPending), st_acted_by = None,
      st_decision = [], st_comment = [],
      st_due_at = Some (now + wrap64 (positive_or (sp_expire_hours sp) (po_expire_hours p) * time_Hour)), st_acted_at = None\<rparr>"

definition approvalStepsFromPolicy :: "string \<Rightarrow> policy \<Rightarrow> int \<Rightarrow> (nat \<Rightarrow> string) \<Rightarrow> err + approval_step list" where
  "approvalStepsFromPolicy tenantID p now newID =
     (case po_steps p of
        None \<Rightarrow> Inl (Internal ''invalid approval policy steps'')
      | Some sps \<Rightarrow>
          if sps = [] then Inl (Internal ''approval policy has no steps'')
          else case validateApprovalSteps sps of
                 Inl _ \<Rightarrow> Inl (Internal ''invalid approval policy steps'')
               | Inr sps' \<Rightarrow> Inr (map (\<lambda>(i, sp). step_of_spec tenantID p now i (newID i) sp) (enumerate 0 sps')))"

section \<open>Saving a policy\<close>

record policy_request =
  pr_id :: string
  pr_tenant_id :: string
  pr_object_type :: string
  pr_action :: string
  pr_enabled :: bool
  pr_priority :: int
  pr_conditions :: "condition list"
  pr_expire_hours :: int
  pr_steps :: "step_spec list"

definition policy_tenant :: "authz_context \<Rightarrow> string \<Rightarrow> policy_request \<Rightarrow> 's ap_svc \<Rightarrow> (err + string) \<times> 's ap_svc" where
  "policy_tenant ac actorTenantID req =
     (if \<not> ac_platform ac then ret actorTenantID
      else
        chk (if pr_tenant_id req = [] then ret ()
             else chk (on_sv (on_ap_ids (GetTenant (pr_tenant_id req)))) (\<lambda>t.
               if t = None then fail (BadRequest 40102 ''approval policy tenant target must exist'') else ret ())) (\<lambda>_.
        if pr_id req = [] then ret (pr_tenant_id req)
        else chk (on_sv (GetApprovalPolicyByID (pr_id req))) (\<lambda>existing.
          case existing of
            None \<Rightarrow> fail (NotFound ''approval policy not found'')
          | Some p \<Rightarrow>
              if pr_tenant_id req \<noteq> [] \<and> pr_tenant_id req \<noteq> po_tenant_id p
              then fail (Http 409 40910 ''approval policy tenant target cannot change'')
              else ret (po_tenant_id p))))"

definition policy_version :: "authz_context \<Rightarrow> string \<Rightarrow> string \<Rightarrow> string \<Rightarrow> 's ap_svc \<Rightarrow> (err + string \<times> int) \<times> 's ap_svc" where
  "policy_version ac actorTenantID i newID =
     (if i = [] then ret (newID, 1)
      else chk (on_sv (GetApprovalPolicyByID i)) (\<lambda>existing.
        case existing of
          None \<Rightarrow> fail (NotFound ''approval policy not found'')
        | Some p \<Rightarrow>
            if \<not> ac_platform ac \<and> po_tenant_id p \<noteq> actorTenantID then fail (NotFound ''approval policy not found'')
            else ret (i, po_version p + 1)))"

definition SaveApprovalPolicy :: "string \<Rightarrow> string \<Rightarrow> policy_request \<Rightarrow> string \<Rightarrow> 's ap_svc \<Rightarrow> (err + policy) \<times> 's ap_svc" where
  "SaveApprovalPolicy actorID actorTenantID req newID =
     chk (on_sv (on_ap_ids (Authorize actorID ''manage'' ''approval-policy''))) (\<lambda>_.
     chk (on_sv (on_ap_ids (authz actorID))) (\<lambda>ac.
     chk (policy_tenant ac actorTenantID req) (\<lambda>tenantID.
       if pr_object_type req = [] \<or> pr_action req = [] then fail (BadRequest 40080 ''object_type and action are required'')
       else if pr_steps req = [] then fail (BadRequest 40081 ''at least one approval step is required'')
       else case validateApprovalSteps (pr_steps req) of
              Inl e \<Rightarrow> fail e
            | Inr steps \<Rightarrow>
                chk (policy_version ac actorTenantID (pr_id req) newID) (\<lambda>(i, version) v.
                  let p = \<lparr>po_id = i, po_tenant_id = tenantID, po_object_type = pr_object_type req,
                        po_action = pr_action req, po_enabled = pr_enabled req,
                        po_priority = positive_or (pr_priority req) 100, po_conditions = Some (pr_conditions req),
                        po_steps = Some steps,
                        po_expire_hours = positive_or (pr_expire_hours req) (cf_default_expire_hours (sv_config v)),
                        po_version = version, po_created_by = actorID\<rparr>
                  in chk (on_sv (UpsertApprovalPolicy p)) (\<lambda>_.
                     chk (invalidateApprovalPolicyCache (po_tenant_id p) (po_object_type p) (po_action p)) (\<lambda>_. ret p)) v))))"

end
