(* ===== verification/Job_Runner.thy ===== *)
theory Job_Runner
  imports Job_Queue
begin

text \<open>
  The in-process runner over the job table, \<^verbatim>\<open>internal/service/worker.go\<close>: configuration
  defaults, registration, enqueueing, one poll, the settlement of a finished claim and its
  backoff. A worker is the outcome of its \<^verbatim>\<open>Run\<close>: the error message, if any. Goroutines are the
  interleaving of the steps in \<open>Job_Leases\<close>; metrics and log lines are not modelled.
\<close>

section \<open>Configuration\<close>

record worker_config =
  PollInterval :: int
  BatchSize :: int
  HeartbeatInterval :: int
  HeartbeatTimeout :: int
  RequeueInterval :: int
  JobTimeout :: int
  BaseBackoff :: int
  MaxBackoff :: int

definition DefaultWorkerConfig :: worker_config where
  "DefaultWorkerConfig = \<lparr>PollInterval = nanos_per_sec, BatchSize = 10,
     HeartbeatInterval = 10 * nanos_per_sec, HeartbeatTimeout = 300 * nanos_per_sec,
     RequeueInterval = 60 * nanos_per_sec, JobTimeout = 600 * nanos_per_sec,
     BaseBackoff = 2 * nanos_per_sec, MaxBackoff = 300 * nanos_per_sec\<rparr>"

definition or_default :: "int \<Rightarrow> int \<Rightarrow> int" where
  "or_default d x = (if x \<le> 0 then d else x)"

record runner =
  rn_cfg :: worker_config
  rn_workers :: "string list"
  rn_running :: "string set"

definition NewRunner :: "worker_config \<Rightarrow> runner" where
  "NewRunner cfg = \<lparr>rn_cfg = \<lparr>
     PollInterval = or_default nanos_per_sec (PollInterval cfg),
     BatchSize = or_default 10 (BatchSize cfg),
     HeartbeatInterval = or_default (10 * nanos_per_sec) (HeartbeatInterval cfg),
     HeartbeatTimeout = or_default (300 * nanos_per_sec) (HeartbeatTimeout cfg),
     RequeueInterval = or_default (60 * nanos_per_sec) (RequeueInterval cfg),
     JobTimeout = or_default (600 * nanos_per_sec) (JobTimeout cfg),
     BaseBackoff = or_default (2 * nanos_per_sec) (BaseBackoff cfg),
     MaxBackoff = or_default (300 * nanos_per_sec) (MaxBackoff cfg)\<rparr>,
     rn_workers = [], rn_running = {}\<rparr>"

definition Register :: "string \<Rightarrow> runner \<Rightarrow> bool \<times> runner" where
  "Register kind r =
     (if kind \<in> set (rn_workers r) then (False, r) else (True, r\<lparr>rn_workers := kind # rn_workers r\<rparr>))"

definition new_job :: "string \<Rightarrow> string \<Rightarrow> string \<Rightarrow> string \<Rightarrow> int \<Rightarrow> int \<Rightarrow> job" where
  "new_job kind key tenantID payload runAfter maxRetry =
     \<lparr>j_id = [], j_kind = kind, j_key = key, j_tenant_id = tenantID, j_payload = payload,
      j_status = JobStatusQueued, j_attempts = 0, j_max_retry = maxRetry, j_last_error = [],
      j_result = [], j_run_after = runAfter, j_last_heartbeat = never\<rparr>"

definition Enqueue :: "string \<Rightarrow> int \<Rightarrow> string \<Rightarrow> string \<Rightarrow> string \<Rightarrow> string \<Rightarrow> int \<Rightarrow> int \<Rightarrow>
  job list db \<Rightarrow> (err + bool) \<times> job list db" where
  "Enqueue newID now kind key tenantID payload runAfter maxRetry =
     EnqueueJob newID now (new_job kind key tenantID payload runAfter maxRetry)"

section \<open>Backoff\<close>

text \<open>The loop of \<^verbatim>\<open>backoff\<close>, with \<open>n\<close> doublings to go.\<close>

fun backoff_loop :: "int \<Rightarrow> nat \<Rightarrow> int \<Rightarrow> int" where
  "backoff_loop mx 0 d = (if mx < d then mx else d)"
| "backoff_loop mx (Suc n) d = (let d2 = wrap64 (d * 2) in if mx \<le> d2 then mx else backoff_loop mx n d2)"

definition backoff :: "worker_config \<Rightarrow> int \<Rightarrow> int" where
  "backoff cfg attempt = backoff_loop (MaxBackoff cfg) (nat (attempt - 1)) (BaseBackoff cfg)"

section \<open>Settlement\<close>

record job_event =
  je_tenant :: string
  je_job :: string

text \<open>
  \<open>job\<close> is the row as it was claimed, \<open>runErr\<close> the error of the run. The answer is whether the
  failure alert is sent, and the database after the one write.
\<close>

definition settle :: "worker_config \<Rightarrow> int \<Rightarrow> job \<Rightarrow> string option \<Rightarrow> job list db \<Rightarrow> job_event list \<times> job list db" where
  "settle cfg now j runErr d =
     (let attempts = j_attempts j + 1 in
      case runErr of
        None \<Rightarrow> ([], snd (CompleteJob (j_id j) attempts (j_result j) d))
      | Some e \<Rightarrow>
          if attempts < j_max_retry j
          then ([], snd (RetryJob (j_id j) attempts e (now + backoff cfg attempts) d))
          else ([\<lparr>je_tenant = j_tenant_id j, je_job = j_id j\<rparr>], snd (FailJob (j_id j) attempts e d)))"

section \<open>Polling\<close>

definition ensureJobTenantActive :: "(string \<Rightarrow> err + string option) \<Rightarrow> job \<Rightarrow> string option" where
  "ensureJobTenantActive getTenant j =
     (case getTenant (j_tenant_id j) of
        Inl e \<Rightarrow> Some ''workspace lifecycle check failed''
      | Inr st \<Rightarrow> if st \<noteq> Some ''active'' then Some ''workspace is disabled or missing'' else None)"

fun dispatch :: "(string \<Rightarrow> err + string option) \<Rightarrow> job list \<Rightarrow> runner \<Rightarrow> job list db \<Rightarrow>
  job list \<times> runner \<times> job list db" where
  "dispatch getTenant [] r d = ([], r, d)"
| "dispatch getTenant (j # js) r d =
     (case ensureJobTenantActive getTenant j of
        Some e \<Rightarrow> dispatch getTenant js r (snd (FailJob (j_id j) (j_attempts j + 1) e d))
      | None \<Rightarrow>
          if j_kind j \<notin> set (rn_workers r)
          then dispatch getTenant js r
                 (snd (FailJob (j_id j) (j_attempts j + 1) (''no worker registered for kind '' @ j_kind j) d))
          else let (started, r', d') =
                     dispatch getTenant js (r\<lparr>rn_running := insert (j_id j) (rn_running r)\<rparr>) d
               in (j # started, r', d'))"

definition pollOnce :: "(string \<Rightarrow> err + string option) \<Rightarrow> int \<Rightarrow> runner \<Rightarrow> job list db \<Rightarrow>
  job list \<times> runner \<times> job list db" where
  "pollOnce getTenant now r d =
     (case ClaimJobs (BatchSize (rn_cfg r)) now d of
        (Inl e, d1) \<Rightarrow> ([], r, d1)
      | (Inr jobs, d1) \<Rightarrow> dispatch getTenant jobs r d1)"

definition requeue_tick :: "int \<Rightarrow> runner \<Rightarrow> job list db \<Rightarrow> (err + int) \<times> job list db" where
  "requeue_tick now r = RequeueStaleJobs (now - HeartbeatTimeout (rn_cfg r)) now"

definition runClaim_finish :: "int \<Rightarrow> job \<Rightarrow> string option \<Rightarrow> runner \<Rightarrow> job list db \<Rightarrow>
  job_event list \<times> runner \<times> job list db" where
  "runClaim_finish now j runErr r d =
     (let (evs, d1) = settle (rn_cfg r) now j runErr d
      in (evs, r\<lparr>rn_running := rn_running r - {j_id j}\<rparr>, d1))"

section \<open>Backoff is exact and capped\<close>

lemma backoff_loop_min:
  assumes "0 < d" and "d \<le> mx" and "mx < 2 ^ 62"
  shows "backoff_loop mx n d = min (d * 2 ^ n) mx"
  using assms
proof (induction n arbitrary: d)
  case (Suc n)
  have w: "wrap64 (d * 2) = d * 2"
    using Suc.prems by (intro wrap64_id) (simp add: int64_def min_int64_def max_int64_def)
  show ?case
  proof (cases "mx \<le> d * 2")
    case True
    have "d * 2 \<le> d * 2 ^ Suc n" using Suc.prems(1) by simp
    then show ?thesis using True w by (simp add: min_def)
  next
    case False
    then show ?thesis using Suc.IH [of "d * 2"] Suc.prems w by (simp add: algebra_simps)
  qed
qed (simp add: min_def)

text \<open>
  The retry delay is exponential and capped. For a positive base delay that is at most the
  cap, and a cap below 146 years, the delay before the retry after attempt \<open>n\<close> is exactly the
  smaller of the base doubled \<open>n - 1\<close> times and the cap, for every \<open>n\<close>, without overflow.
\<close>

theorem backoff_exponential_capped:
  assumes "0 < BaseBackoff cfg" and "BaseBackoff cfg \<le> MaxBackoff cfg" and "MaxBackoff cfg < 2 ^ 62"
  shows "backoff cfg n = min (BaseBackoff cfg * 2 ^ nat (n - 1)) (MaxBackoff cfg)"
  unfolding backoff_def by (rule backoff_loop_min [OF assms])

theorem backoff_exponential_capped_witness:
  "backoff DefaultWorkerConfig 3 = 8 * nanos_per_sec \<and> backoff DefaultWorkerConfig 40 = 300 * nanos_per_sec"
proof -
  have h: "0 < BaseBackoff DefaultWorkerConfig" "BaseBackoff DefaultWorkerConfig \<le> MaxBackoff DefaultWorkerConfig"
    "MaxBackoff DefaultWorkerConfig < 2 ^ 62"
    by (simp_all add: DefaultWorkerConfig_def nanos_per_sec_def)
  show ?thesis
    using backoff_exponential_capped [OF h, of 3] backoff_exponential_capped [OF h, of 40]
    by (simp add: DefaultWorkerConfig_def nanos_per_sec_def min_def)
qed

end
