(* ===== verification/Acting_Context.thy ===== *)
theory Acting_Context
  imports Approval_Policy Job_Runner
begin

text \<open>
  The execution authorization of an approved action: fingerprints, \<^verbatim>\<open>prepareActingContext\<close> and
  \<^verbatim>\<open>validateApprovalExecutionPayload\<close> of \<^verbatim>\<open>internal/service/acting_context.go\<close>, the operation records of
  \<^verbatim>\<open>internal/service/approval_operation.go\<close> and \<^verbatim>\<open>enqueueApprovalExecution\<close> of
  \<^verbatim>\<open>internal/service/approval_action.go\<close>. \<open>act_lib\<close> holds SHA-256 (as hexadecimal text), JSON scanning
  and the encoding of a struct of strings and of a document.
\<close>

record act_lib =
  al_fmt :: go_fmt
  al_sha256 :: "string \<Rightarrow> string"
  al_unmarshal :: "string \<Rightarrow> json option"
  al_marshal :: "(string \<times> string) list \<Rightarrow> string"
  al_marshal_json :: "json \<Rightarrow> string"
  al_reencode :: "string \<Rightarrow> string"

section \<open>Fingerprints\<close>

definition ApprovalObjectEnterpriseBinding :: string where
  "ApprovalObjectEnterpriseBinding = ''enterprise-binding''"

definition ApprovalObjectEnterpriseConnection :: string where
  "ApprovalObjectEnterpriseConnection = ''enterprise-connection''"

definition ApprovalObjectDocumentChunk :: string where
  "ApprovalObjectDocumentChunk = ''document-chunk''"

definition ApprovalObjectCompilationRun :: string where
  "ApprovalObjectCompilationRun = ''compilation-run''"

definition actingSHA256Hex :: "act_lib \<Rightarrow> string \<Rightarrow> string" where
  "actingSHA256Hex lib v = ''sha256:'' @ al_sha256 lib v"

text \<open>The members of a JSON object, and a member read as a string or as any value.\<close>

definition object_members :: "act_lib \<Rightarrow> string \<Rightarrow> (string \<times> json) list" where
  "object_members lib raw =
     (if raw = [] then [] else case al_unmarshal lib raw of Some (JObj kvs) \<Rightarrow> kvs | _ \<Rightarrow> [])"

definition member_value :: "(string \<times> json) list \<Rightarrow> string \<Rightarrow> json" where
  "member_value kvs k = (case map_of (rev kvs) k of None \<Rightarrow> JNull | Some v \<Rightarrow> v)"

definition string_member :: "(string \<times> json) list \<Rightarrow> string \<Rightarrow> string" where
  "string_member kvs k = (case member_value kvs k of JStr s \<Rightarrow> s | _ \<Rightarrow> [])"

definition approvalTargetTenant :: "act_lib \<Rightarrow> approval \<Rightarrow> string" where
  "approvalTargetTenant lib a =
     (let named = string_member (object_members lib (ap_payload_json a)) ''tenant_id'' in
      if ap_target_tenant_id a \<noteq> [] then ap_target_tenant_id a
      else if ap_object_type a = ApprovalObjectEnterpriseBinding \<and> named \<noteq> [] then named
      else ap_tenant_id a)"

definition approvalResourceVersion :: "act_lib \<Rightarrow> approval \<Rightarrow> string" where
  "approvalResourceVersion lib a =
     (let snapshot = object_members lib (ap_snapshot_json a);
          text = (\<lambda>k. Sprint (al_fmt lib) (GoJson (member_value snapshot k)));
          binding = string_member snapshot ''binding_id''; connection = string_member snapshot ''connection_id'';
          general = (if ap_snapshot_json a = [] \<or> ap_snapshot_json a = ''{}'' then ''new''
            else ''snapshot:'' @ actingSHA256Hex lib (ap_snapshot_json a))
      in if ap_resource_version a \<noteq> [] then ap_resource_version a
         else if ap_object_type a = ApprovalObjectEnterpriseBinding \<and> binding \<noteq> []
         then ''binding:'' @ binding @ '':v'' @ text ''binding_version''
         else if ap_object_type a \<in> {ApprovalObjectEnterpriseConnection, ApprovalObjectEnterpriseBinding} \<and> connection \<noteq> []
         then ''connection:'' @ connection @ '':v'' @ text ''connection_version''
         else general)"

definition fingerprint_text :: "act_lib \<Rightarrow> string \<Rightarrow> string \<Rightarrow> string \<Rightarrow> string \<Rightarrow> string \<Rightarrow> string \<Rightarrow> string" where
  "fingerprint_text lib tenant resourceType resourceID version action payload =
     actingSHA256Hex lib (al_marshal lib [(''target_tenant_id'', tenant), (''resource_type'', resourceType),
       (''resource_id'', resourceID), (''resource_version'', version), (''action'', action),
       (''requested_change_hash'', actingSHA256Hex lib payload)])"

definition computeApprovalActionHash :: "act_lib \<Rightarrow> approval \<Rightarrow> string" where
  "computeApprovalActionHash lib a = fingerprint_text lib (approvalTargetTenant lib a) (ap_object_type a)
     (ap_object_id a) (approvalResourceVersion lib a) (ap_action a) (ap_payload_json a)"

definition approvalOperationFingerprint :: "act_lib \<Rightarrow> approval \<Rightarrow> acting_context \<Rightarrow> string" where
  "approvalOperationFingerprint lib a c = fingerprint_text lib (cx_target_tenant_id c) (cx_resource_type c)
     (cx_resource_id c) (cx_resource_version c) (cx_action c) (ap_payload_json a)"

definition newApprovalOperation :: "act_lib \<Rightarrow> approval \<Rightarrow> acting_context \<Rightarrow> string \<Rightarrow> int \<Rightarrow> string \<Rightarrow> operation" where
  "newApprovalOperation lib a c claimedBy now newID =
     \<lparr>op_id = newID, op_tenant_id = cx_target_tenant_id c, op_approval_id = ap_id a, op_acting_context_id = cx_id c,
      op_attempt_no = cx_attempt_no c, op_fingerprint = approvalOperationFingerprint lib a c,
      op_action_hash = cx_action_hash c, op_status = ApprovalOperationRunning, op_result_json = ''{}'',
      op_last_error = [], op_claimed_by = claimedBy, op_updated_at = now\<rparr>"

section \<open>Contexts\<close>

definition actingContextTTL :: int where
  "actingContextTTL = 300 * nanos_per_sec"

definition actingContextClaimTTL :: int where
  "actingContextClaimTTL = 60 * nanos_per_sec"

definition ErrContext :: "string \<Rightarrow> err" where
  "ErrContext m = Http 409 40972 m"

text \<open>What the latest context of an approval means for a new one: it is used, or the attempt it was.\<close>

definition latest_context :: "acting_context option \<Rightarrow> int \<Rightarrow> ap_store db \<Rightarrow>
  (err + acting_context option) \<times> ap_store db" where
  "latest_context existing now =
     (case existing of
        None \<Rightarrow> ret None
      | Some c \<Rightarrow> (case cx_status c of
          ActingContextActive \<Rightarrow>
            if now < cx_expires_at c then ret (Some c)
            else chk (CompleteActingContext (cx_id c) ActingContextActive ActingContextExpired) (\<lambda>_. ret None)
        | ActingContextClaimed \<Rightarrow> fail (ErrContext ''acting context is already claimed'')
        | _ \<Rightarrow> ret None))"

definition active_requester :: "approval \<Rightarrow> ap_store db \<Rightarrow> (err + user) \<times> ap_store db" where
  "active_requester a = chk (on_ap_ids (GetUser (ap_requester_id a))) (\<lambda>u.
     case u of
       None \<Rightarrow> fail (Unauthorized ''approval requester is disabled or missing'')
     | Some actor \<Rightarrow>
         if us_status actor \<noteq> UserStatusActive then fail (Unauthorized ''approval requester is disabled or missing'')
         else ret actor)"

definition new_context :: "act_lib \<Rightarrow> approval \<Rightarrow> user \<Rightarrow> int \<Rightarrow> int \<Rightarrow> string \<Rightarrow> acting_context" where
  "new_context lib a actor attempt now newID =
     \<lparr>cx_id = newID, cx_actor_id = us_id actor, cx_actor_tenant_id = us_tenant_id actor, cx_actor_role = us_role actor,
      cx_target_tenant_id = approvalTargetTenant lib a, cx_resource_type = ap_object_type a,
      cx_resource_id = ap_object_id a, cx_resource_version = approvalResourceVersion lib a, cx_action = ap_action a,
      cx_approval_id = ap_id a, cx_attempt_no = attempt, cx_action_hash = computeApprovalActionHash lib a,
      cx_idempotency_key = ap_idempotency_key a, cx_request_id = ap_request_no a, cx_claimed_by = [],
      cx_claim_expires_at = None, cx_expires_at = now + actingContextTTL, cx_status = ActingContextActive\<rparr>"

definition concurrent_winner :: "approval \<Rightarrow> string \<Rightarrow> int \<Rightarrow> ap_store db \<Rightarrow> (err + acting_context) \<times> ap_store db" where
  "concurrent_winner a actionHash now = chk (GetActingContextByApproval (ap_id a)) (\<lambda>w.
     case w of
       None \<Rightarrow> fail (ErrContext ''concurrent approval acting context identity mismatch'')
     | Some c \<Rightarrow>
         if cx_action_hash c \<noteq> actionHash \<or> cx_idempotency_key c \<noteq> ap_idempotency_key a
         then fail (ErrContext ''concurrent approval acting context identity mismatch'')
         else if cx_status c = ActingContextActive \<and> now < cx_expires_at c then ret c
         else if cx_status c = ActingContextClaimed then fail (ErrContext ''acting context is already claimed'')
         else fail (ErrContext ''acting context state changed concurrently''))"

definition prepareActingContext :: "act_lib \<Rightarrow> approval \<Rightarrow> int \<Rightarrow> string \<Rightarrow> ap_store db \<Rightarrow>
  (err + acting_context) \<times> ap_store db" where
  "prepareActingContext lib a now newID =
     chk (GetActingContextByApproval (ap_id a)) (\<lambda>existing.
     chk (latest_context existing now) (\<lambda>usable.
       case usable of
         Some c \<Rightarrow> ret c
       | None \<Rightarrow>
           chk (active_requester a) (\<lambda>actor.
             let actionHash = computeApprovalActionHash lib a in
             if ap_action_hash a \<noteq> [] \<and> ap_action_hash a \<noteq> actionHash
             then fail (ErrContext ''approval action fingerprint has changed'')
             else
               let attempt = (case existing of None \<Rightarrow> 1 | Some c \<Rightarrow> cx_attempt_no c + 1);
                   c = new_context lib a actor attempt now newID
               in (\<lambda>d. case CreateActingContext c d of
                     (Inr _, d1) \<Rightarrow> (Inr c, d1)
                   | (Inl e, d1) \<Rightarrow> if e = ErrDuplicatedKey then concurrent_winner a actionHash now d1 else (Inl e, d1)))))"

section \<open>The execution job\<close>

record payload =
  pl_approval_id :: string
  pl_target_tenant_id :: string
  pl_acting_context_id :: string
  pl_action_hash :: string
  pl_idempotency_key :: string
  pl_request_id :: string

definition JobKindApprovalExecute :: string where
  "JobKindApprovalExecute = ''approval_execute''"

definition ApprovalExecutionJobKeyPrefix :: string where
  "ApprovalExecutionJobKeyPrefix = ''approval_execute:''"

definition execution_payload :: "act_lib \<Rightarrow> approval \<Rightarrow> acting_context \<Rightarrow> string" where
  "execution_payload lib a c = al_marshal lib [(''acting_context_id'', cx_id c),
     (''approval_action_hash'', cx_action_hash c), (''approval_id'', ap_id a),
     (''idempotency_key'', cx_idempotency_key c), (''request_id'', cx_request_id c),
     (''target_tenant_id'', cx_target_tenant_id c)]"

definition enqueueApprovalExecution :: "act_lib \<Rightarrow> ap_config \<Rightarrow> bool \<Rightarrow> approval \<Rightarrow> int \<Rightarrow> string \<Rightarrow> string \<Rightarrow> ap_store db \<Rightarrow>
  (err + bool) \<times> ap_store db" where
  "enqueueApprovalExecution lib cfg hasRunner a now contextID jobID =
     (if \<not> hasRunner then ret False
      else
        let key = ApprovalExecutionJobKeyPrefix @ ap_id a; retries = cf_execution_max_retries cfg in
        chk (on_ap_jobs (CountActiveJobsByKey JobKindApprovalExecute key)) (\<lambda>n.
          if 0 < n then ret False
          else chk (prepareActingContext lib a now contextID) (\<lambda>c.
            let body = execution_payload lib a c in
            chk (on_ap_jobs (Enqueue jobID now JobKindApprovalExecute key (ap_tenant_id a) body never retries)) (\<lambda>inserted.
              if inserted then ret True
              else on_ap_jobs (ResetFailedJobByKey JobKindApprovalExecute key body retries now)))))"

definition payload_upd :: "payload \<Rightarrow> string \<Rightarrow> json \<Rightarrow> payload \<times> bool" where
  "payload_upd p k v =
     (let set = (\<lambda>f. case v of JStr s \<Rightarrow> (f s, True) | JNull \<Rightarrow> (p, True) | _ \<Rightarrow> (p, False)) in
      if k = ''approval_id'' then set (\<lambda>s. p\<lparr>pl_approval_id := s\<rparr>)
      else if k = ''target_tenant_id'' then set (\<lambda>s. p\<lparr>pl_target_tenant_id := s\<rparr>)
      else if k = ''acting_context_id'' then set (\<lambda>s. p\<lparr>pl_acting_context_id := s\<rparr>)
      else if k = ''approval_action_hash'' then set (\<lambda>s. p\<lparr>pl_action_hash := s\<rparr>)
      else if k = ''idempotency_key'' then set (\<lambda>s. p\<lparr>pl_idempotency_key := s\<rparr>)
      else if k = ''request_id'' then set (\<lambda>s. p\<lparr>pl_request_id := s\<rparr>)
      else (p, True))"

definition no_payload :: payload where
  "no_payload = \<lparr>pl_approval_id = [], pl_target_tenant_id = [], pl_acting_context_id = [], pl_action_hash = [],
     pl_idempotency_key = [], pl_request_id = []\<rparr>"

definition decode_payload :: "act_lib \<Rightarrow> string \<Rightarrow> err + payload" where
  "decode_payload lib raw =
     (case unmarshal payload_upd no_payload (al_unmarshal lib raw) of
        (p, True) \<Rightarrow> Inr p | (_, False) \<Rightarrow> Inl (Failure ''cannot decode job payload''))"

definition approvalAuthorizationResource :: "string \<Rightarrow> string" where
  "approvalAuthorizationResource objectType =
     (if objectType = ApprovalObjectDocumentChunk then ''document''
      else if objectType = ApprovalObjectCompilationRun then ''compilation'' else objectType)"

definition context_mismatch :: "act_lib \<Rightarrow> approval \<Rightarrow> user \<Rightarrow> acting_context \<Rightarrow> string option" where
  "context_mismatch lib a actor c =
     map_option fst (find (\<lambda>(_, actual, expected). actual \<noteq> expected)
       [(''approval'', cx_approval_id c, ap_id a), (''resource type'', cx_resource_type c, ap_object_type a),
        (''resource id'', cx_resource_id c, ap_object_id a), (''action'', cx_action c, ap_action a),
        (''actor'', cx_actor_id c, us_id actor), (''actor tenant'', cx_actor_tenant_id c, us_tenant_id actor),
        (''actor role'', cx_actor_role c, us_role actor),
        (''target tenant'', cx_target_tenant_id c, approvalTargetTenant lib a),
        (''approval hash'', cx_action_hash c, computeApprovalActionHash lib a),
        (''idempotency key'', cx_idempotency_key c, ap_idempotency_key a),
        (''request id'', cx_request_id c, ap_request_no a)])"

definition payload_error :: "act_lib \<Rightarrow> approval \<Rightarrow> payload \<Rightarrow> err option" where
  "payload_error lib a p =
     (if pl_approval_id p = [] \<or> pl_approval_id p \<noteq> ap_id a
      then Some (BadRequest 40073 ''acting context approval identity is invalid'')
      else if pl_acting_context_id p = [] \<or> pl_action_hash p = [] \<or> pl_idempotency_key p = [] \<or> pl_request_id p = []
      then Some (BadRequest 40073 ''acting context payload is incomplete'')
      else if pl_target_tenant_id p \<noteq> approvalTargetTenant lib a
      then Some (ErrContext ''acting context target tenant mismatch'')
      else if ap_action_hash a \<noteq> [] \<and> ap_action_hash a \<noteq> computeApprovalActionHash lib a
      then Some (ErrContext ''approval action fingerprint has changed'')
      else if pl_action_hash p \<noteq> computeApprovalActionHash lib a
      then Some (ErrContext ''acting context action fingerprint mismatch'')
      else if pl_idempotency_key p \<noteq> ap_idempotency_key a \<or> pl_request_id p \<noteq> ap_request_no a
      then Some (ErrContext ''acting context idempotency identity mismatch'')
      else None)"

definition validateApprovalExecutionPayload :: "act_lib \<Rightarrow> approval \<Rightarrow> payload \<Rightarrow> ap_store db \<Rightarrow>
  (err + acting_context) \<times> ap_store db" where
  "validateApprovalExecutionPayload lib a p =
     (case payload_error lib a p of
        Some e \<Rightarrow> fail e
      | None \<Rightarrow>
          chk (active_requester a) (\<lambda>actor.
          chk (GetActingContext (pl_acting_context_id p)) (\<lambda>found.
            case found of
              None \<Rightarrow> fail (NotFound ''acting context not found'')
            | Some c \<Rightarrow> (case context_mismatch lib a actor c of
                Some name \<Rightarrow> fail (ErrContext (''acting context '' @ name @ '' mismatch''))
              | None \<Rightarrow>
                  chk (on_ap_ids (AuthorizeABAC (us_id actor) ''manage'' (approvalAuthorizationResource (ap_object_type a))
                      (approvalTargetTenant lib a) [] [])) (\<lambda>_.
                    if cx_status c = ActingContextRevoked then fail (ErrContext ''acting context is not executable'')
                    else ret c)))))"

end
