(* ===== verification/Approval_Worker.thy ===== *)
theory Approval_Worker
  imports Acting_Context
begin

text \<open>
  The worker that executes an approved action, \<^verbatim>\<open>internal/service/approval_executor.go\<close>: \<^verbatim>\<open>Run\<close>,
  \<^verbatim>\<open>resolveApprovalExecution\<close>, \<^verbatim>\<open>claimApprovalOperation\<close>, \<^verbatim>\<open>reconcileApprovalOperation\<close> and
  \<^verbatim>\<open>finishApprovalExecution\<close>. What the executor of the action does outside the approval tables is the
  argument \<open>executor\<close>: whether one is registered, what its checks say and what the execution
  returns. The result of a run records the contexts under which the executor was called.
\<close>

record executor =
  ex_registered :: "string \<Rightarrow> bool"
  ex_healthy :: "err option"
  ex_resource :: "approval \<Rightarrow> err option"
  ex_validate :: "approval \<Rightarrow> err option"
  ex_execute :: "approval \<Rightarrow> err + string"
  ex_message :: "err \<Rightarrow> string"

record run_result =
  rr_error :: "err option"
  rr_job_result :: string
  rr_executed :: "string list"

datatype resolved = Proceed operation | Settled "string option"

definition errApprovalOperationPending :: err where
  "errApprovalOperationPending = Failure ''approval operation outcome is pending''"

definition approvalOperationPendingWindow :: int where
  "approvalOperationPendingWindow = 300 * nanos_per_sec"

text \<open>Newlines become blanks after the message (ASCII text) is cut to 512 bytes.\<close>

definition sanitizeApprovalError :: "executor \<Rightarrow> err \<Rightarrow> string" where
  "sanitizeApprovalError ex e =
     map (\<lambda>c. if c = CHR 0x0A \<or> c = CHR 0x0D then CHR '' '' else c) (take 512 (ex_message ex e))"

text \<open>A call whose error is discarded.\<close>

definition quietly :: "('d \<Rightarrow> 'a \<times> 'd) \<Rightarrow> ('d \<Rightarrow> 'b) \<Rightarrow> 'd \<Rightarrow> 'b" where
  "quietly m f d = f (snd (m d))"

section \<open>Settling an execution\<close>

text \<open>
  Every caller settles for good (\<^verbatim>\<open>final\<close> is true). The result is \<open>Inr ()\<close> if the settlement
  succeeded; the source then returns the error of the execution, \<^verbatim>\<open>nil\<close> for a success.
\<close>

definition finishApprovalExecution :: "act_lib \<Rightarrow> executor \<Rightarrow> approval \<Rightarrow> bool \<Rightarrow> string \<Rightarrow> err \<Rightarrow> int \<Rightarrow> ap_store db \<Rightarrow>
  (err + unit) \<times> ap_store db" where
  "finishApprovalExecution lib ex a success resultJSON execErr now =
     chk (GetRetainedApprovalCredential (ap_tenant_id a) (ap_id a) now) (\<lambda>cred.
       quietly (GetLatestApprovalOperation (approvalTargetTenant lib a) (ap_id a))
       (SettleApprovalExecution (ap_tenant_id a) (ap_id a) success resultJSON
         (if success then [] else sanitizeApprovalError ex execErr)
         (case cred of None \<Rightarrow> [] | Some c \<Rightarrow> cd_id c) (now + 24 * time_Hour) now
         (if success then ''approval.executed'' else ''approval.execution_failed'')))"

section \<open>Claim and reconciliation\<close>

definition claimApprovalOperation :: "act_lib \<Rightarrow> approval \<Rightarrow> acting_context \<Rightarrow> string \<Rightarrow> int \<Rightarrow> string \<Rightarrow> ap_store db \<Rightarrow>
  (err + operation) \<times> ap_store db" where
  "claimApprovalOperation lib a c jobID now newID =
     chk (ClaimActingContextForOperation (cx_id c) jobID now (now + actingContextClaimTTL)
            (newApprovalOperation lib a c jobID now newID)) (\<lambda>r.
       case r of None \<Rightarrow> fail (ErrContext ''acting context is not claimable'') | Some oper \<Rightarrow> ret oper)"

definition release_context :: "acting_context \<Rightarrow> context_status \<Rightarrow> ap_store db \<Rightarrow> (err + unit) \<times> ap_store db" where
  "release_context c to =
     (if cx_status c = ActingContextClaimed
      then chk (CompleteActingContext (cx_id c) ActingContextClaimed to) (\<lambda>_. ret ()) else ret ())"

definition ErrConflict :: err where
  "ErrConflict = ErrContext ''approval operation result conflicts with approval state''"

text \<open>An operation that did not succeed settles the approval as failed with the given message.\<close>

definition reconcile_failed :: "act_lib \<Rightarrow> executor \<Rightarrow> approval \<Rightarrow> acting_context \<Rightarrow> string \<Rightarrow> int \<Rightarrow> ap_store db \<Rightarrow>
  (err + resolved) \<times> ap_store db" where
  "reconcile_failed lib ex a c msg now =
     chk (if ap_status a = ApprovalStatusExecuting
          then chk (finishApprovalExecution lib ex a False ''{}'' (Failure msg) now) (\<lambda>_. ret True)
          else ret (ap_status a = ApprovalStatusExecutionFailed)) (\<lambda>failed.
       if failed then chk (release_context c ActingContextFailed) (\<lambda>_. ret (Settled None)) else fail ErrConflict)"

definition reconcileApprovalOperation :: "act_lib \<Rightarrow> executor \<Rightarrow> approval \<Rightarrow> acting_context \<Rightarrow> operation \<Rightarrow> int \<Rightarrow>
  ap_store db \<Rightarrow> (err + resolved) \<times> ap_store db" where
  "reconcileApprovalOperation lib ex a c oper now =
     (if op_approval_id oper \<noteq> ap_id a \<or> op_tenant_id oper \<noteq> cx_target_tenant_id c \<or>
         op_acting_context_id oper \<noteq> cx_id c \<or> op_action_hash oper \<noteq> cx_action_hash c \<or>
         op_fingerprint oper \<noteq> approvalOperationFingerprint lib a c
      then fail (ErrContext ''approval operation identity mismatch'')
      else case op_status oper of
        ApprovalOperationCompleted \<Rightarrow>
          chk (if ap_status a = ApprovalStatusExecuting
               then chk (finishApprovalExecution lib ex a True (al_reencode lib (op_result_json oper)) (Failure []) now)
                      (\<lambda>_. ret True)
               else ret (ap_status a = ApprovalStatusCompleted)) (\<lambda>completed.
            if completed
            then chk (release_context c ActingContextConsumed) (\<lambda>_. ret (Settled (Some (op_result_json oper))))
            else fail ErrConflict)
      | ApprovalOperationFailed \<Rightarrow> reconcile_failed lib ex a c (op_last_error oper) now
      | ApprovalOperationUnknown \<Rightarrow>
          reconcile_failed lib ex a c ''approval operation outcome is unknown; reconciliation required'' now
      | ApprovalOperationRunning \<Rightarrow> fail errApprovalOperationPending)"

section \<open>What a run finds\<close>

record run_args =
  ra_now :: int
  ra_operation_id :: string
  ra_context_id :: string

definition claim_and_proceed :: "act_lib \<Rightarrow> executor \<Rightarrow> approval \<Rightarrow> acting_context \<Rightarrow> string \<Rightarrow> run_args \<Rightarrow> ap_store db \<Rightarrow>
  (err + resolved) \<times> ap_store db" where
  "claim_and_proceed lib ex a c jobID args =
     chk (claimApprovalOperation lib a c jobID (ra_now args) (ra_operation_id args)) (\<lambda>oper.
       if op_status oper \<noteq> ApprovalOperationRunning then reconcileApprovalOperation lib ex a c oper (ra_now args)
       else ret (Proceed oper))"

definition unresolved :: "operation option \<Rightarrow> bool" where
  "unresolved latest \<longleftrightarrow> (case latest of None \<Rightarrow> False
     | Some x \<Rightarrow> op_status x = ApprovalOperationRunning \<or> op_status x = ApprovalOperationUnknown)"

definition refuse_unresolved :: "approval \<Rightarrow> acting_context \<Rightarrow> ap_store db \<Rightarrow> (err + unit) \<times> ap_store db" where
  "refuse_unresolved a c = chk (GetLatestApprovalOperation (cx_target_tenant_id c) (ap_id a)) (\<lambda>latest.
     if unresolved latest then fail (ErrContext ''prior approval operation outcome is unresolved'') else ret ())"

text \<open>A claimed or consumed context without an operation settles a running approval as failed.\<close>

definition settle_without_operation :: "act_lib \<Rightarrow> executor \<Rightarrow> approval \<Rightarrow> string \<Rightarrow> int \<Rightarrow> ap_store db \<Rightarrow>
  (err + resolved) \<times> ap_store db" where
  "settle_without_operation lib ex a msg now =
     (if ap_status a = ApprovalStatusExecuting
      then chk (finishApprovalExecution lib ex a False ''{}'' (Failure msg) now) (\<lambda>_. ret (Settled None))
      else ret (Settled None))"

definition claim_held :: "acting_context \<Rightarrow> int \<Rightarrow> bool" where
  "claim_held c now = (case cx_claim_expires_at c of None \<Rightarrow> False | Some t \<Rightarrow> now < t)"

definition resolve_claimed :: "act_lib \<Rightarrow> executor \<Rightarrow> approval \<Rightarrow> acting_context \<Rightarrow> int \<Rightarrow> ap_store db \<Rightarrow>
  (err + resolved) \<times> ap_store db" where
  "resolve_claimed lib ex a c now = chk (GetApprovalOperationByContext (cx_id c)) (\<lambda>found.
     case found of
       Some x \<Rightarrow>
         if op_status x \<in> {ApprovalOperationCompleted, ApprovalOperationFailed}
         then reconcileApprovalOperation lib ex a c x now
         else if claim_held c now then fail (ErrContext ''acting context is already claimed'')
         else if op_status x \<noteq> ApprovalOperationRunning then reconcileApprovalOperation lib ex a c x now
         else if now - op_updated_at x < approvalOperationPendingWindow then fail errApprovalOperationPending
         else chk (MarkStaleApprovalOperationUnknown (op_id x) (now - approvalOperationPendingWindow) now) (\<lambda>_.
           reconcileApprovalOperation lib ex a c (x\<lparr>op_status := ApprovalOperationUnknown\<rparr>) now)
     | None \<Rightarrow>
         if claim_held c now then fail (ErrContext ''acting context is already claimed'')
         else quietly (CompleteActingContext (cx_id c) ActingContextClaimed ActingContextFailed)
           (settle_without_operation lib ex a
              ''claimed acting context has no operation result; reconciliation required'' now))"

definition resolve_expired :: "act_lib \<Rightarrow> executor \<Rightarrow> approval \<Rightarrow> acting_context \<Rightarrow> string \<Rightarrow> run_args \<Rightarrow> ap_store db \<Rightarrow>
  (err + resolved) \<times> ap_store db" where
  "resolve_expired lib ex a c jobID args =
     chk (refuse_unresolved a c) (\<lambda>_.
     chk (prepareActingContext lib a (ra_now args) (ra_context_id args)) (\<lambda>retry.
       if cx_action_hash retry \<noteq> cx_action_hash c
       then fail (ErrContext ''approval action fingerprint changed during retry'')
       else claim_and_proceed lib ex a retry jobID args))"

definition resolve_failed :: "act_lib \<Rightarrow> executor \<Rightarrow> approval \<Rightarrow> acting_context \<Rightarrow> string \<Rightarrow> run_args \<Rightarrow> ap_store db \<Rightarrow>
  (err + resolved) \<times> ap_store db" where
  "resolve_failed lib ex a c jobID args = chk (GetApprovalOperationByContext (cx_id c)) (\<lambda>found.
     case found of
       Some x \<Rightarrow>
         if op_status x = ApprovalOperationFailed \<and> ap_status a = ApprovalStatusApproved
         then chk (prepareActingContext lib a (ra_now args) (ra_context_id args)) (\<lambda>retry.
                claim_and_proceed lib ex a retry jobID args)
         else reconcileApprovalOperation lib ex a c x (ra_now args)
     | None \<Rightarrow>
         chk (refuse_unresolved a c) (\<lambda>_.
         chk (prepareActingContext lib a (ra_now args) (ra_context_id args)) (\<lambda>retry.
           claim_and_proceed lib ex a retry jobID args)))"

definition resolve_consumed :: "act_lib \<Rightarrow> executor \<Rightarrow> approval \<Rightarrow> acting_context \<Rightarrow> int \<Rightarrow> ap_store db \<Rightarrow>
  (err + resolved) \<times> ap_store db" where
  "resolve_consumed lib ex a c now = chk (GetApprovalOperationByContext (cx_id c)) (\<lambda>found.
     case found of
       None \<Rightarrow> settle_without_operation lib ex a
         ''consumed acting context has no operation result; reconciliation required'' now
     | Some x \<Rightarrow> reconcileApprovalOperation lib ex a c x now)"

definition resolveApprovalExecution :: "act_lib \<Rightarrow> executor \<Rightarrow> approval \<Rightarrow> acting_context \<Rightarrow> string \<Rightarrow> run_args \<Rightarrow> ap_store db \<Rightarrow>
  (err + resolved) \<times> ap_store db" where
  "resolveApprovalExecution lib ex a c jobID args =
     (case cx_status c of
        ActingContextActive \<Rightarrow> claim_and_proceed lib ex a c jobID args
      | ActingContextExpired \<Rightarrow> resolve_expired lib ex a c jobID args
      | ActingContextFailed \<Rightarrow> resolve_failed lib ex a c jobID args
      | ActingContextClaimed \<Rightarrow> resolve_claimed lib ex a c (ra_now args)
      | ActingContextConsumed \<Rightarrow> resolve_consumed lib ex a c (ra_now args)
      | ActingContextRevoked \<Rightarrow> fail (ErrContext ''acting context is not executable''))"

section \<open>A run\<close>

text \<open>
  The operation is recorded as failed and the context of the job payload, which need not be the
  one that was claimed, is released; both errors are discarded.
\<close>

definition abandon :: "operation \<Rightarrow> acting_context \<Rightarrow> string \<Rightarrow> int \<Rightarrow> (ap_store db \<Rightarrow> 'a) \<Rightarrow> ap_store db \<Rightarrow> 'a" where
  "abandon oper c msg now f =
     quietly (CompleteApprovalOperation (op_id oper) ApprovalOperationRunning ApprovalOperationFailed ''{}'' msg now)
     (quietly (CompleteActingContext (cx_id c) ActingContextClaimed ActingContextFailed) f)"

definition run_outcome :: "job \<Rightarrow> string list \<Rightarrow> err option \<Rightarrow> ap_store db \<Rightarrow> run_result \<times> ap_store db" where
  "run_outcome j executed e d = (\<lparr>rr_error = e, rr_job_result = j_result j, rr_executed = executed\<rparr>, d)"

definition finish_run :: "act_lib \<Rightarrow> executor \<Rightarrow> job \<Rightarrow> approval \<Rightarrow> string list \<Rightarrow> err \<Rightarrow> int \<Rightarrow> ap_store db \<Rightarrow>
  run_result \<times> ap_store db" where
  "finish_run lib ex j a executed e now d =
     (case finishApprovalExecution lib ex a False ''{}'' e now d of
        (Inl settleErr, d1) \<Rightarrow> run_outcome j executed (Some settleErr) d1
      | (Inr _, d1) \<Rightarrow> run_outcome j executed (Some e) d1)"

definition execute_and_settle :: "act_lib \<Rightarrow> executor \<Rightarrow> job \<Rightarrow> approval \<Rightarrow> acting_context \<Rightarrow> operation \<Rightarrow> int \<Rightarrow> ap_store db \<Rightarrow>
  run_result \<times> ap_store db" where
  "execute_and_settle lib ex j a c oper now d =
     (let executed = [op_acting_context_id oper] in
      case ex_execute ex a of
        Inl e \<Rightarrow>
          (case CompleteApprovalOperation (op_id oper) ApprovalOperationRunning ApprovalOperationFailed ''{}''
                  (sanitizeApprovalError ex e) now d of
             (Inl e1, d1) \<Rightarrow> run_outcome j executed (Some e1) d1
           | (Inr _, d1) \<Rightarrow>
               (case CompleteActingContext (cx_id c) ActingContextClaimed ActingContextFailed d1 of
                  (Inl e2, d2) \<Rightarrow> run_outcome j executed (Some e2) d2
                | (Inr _, d2) \<Rightarrow> finish_run lib ex j a executed e now d2))
      | Inr result \<Rightarrow>
          (case CompleteApprovalOperation (op_id oper) ApprovalOperationRunning ApprovalOperationCompleted result [] now d of
             (Inl e1, d1) \<Rightarrow> run_outcome j executed (Some e1) d1
           | (Inr _, d1) \<Rightarrow>
               (case finishApprovalExecution lib ex a True result (Failure []) now d1 of
                  (Inl e2, d2) \<Rightarrow> run_outcome j executed (Some e2) d2
                | (Inr _, d2) \<Rightarrow>
                    (case CompleteActingContext (cx_id c) ActingContextClaimed ActingContextConsumed d2 of
                       (Inl e3, d3) \<Rightarrow> run_outcome j executed (Some e3) d3
                     | (Inr _, d3) \<Rightarrow> run_outcome j executed None d3))))"

definition run_checks :: "act_lib \<Rightarrow> executor \<Rightarrow> job \<Rightarrow> approval \<Rightarrow> acting_context \<Rightarrow> operation \<Rightarrow> int \<Rightarrow> ap_store db \<Rightarrow>
  run_result \<times> ap_store db" where
  "run_checks lib ex j a c oper now =
     (if \<not> ex_registered ex (ap_object_type a @ ''.'' @ ap_action a)
      then abandon oper c ''approval executor not found'' now
             (finish_run lib ex j a [] (BadRequest 40073 ''approval executor not found'') now)
      else case ex_healthy ex of
        Some e \<Rightarrow> abandon oper c ''approval executor unhealthy'' now (finish_run lib ex j a [] e now)
      | None \<Rightarrow> (case ex_resource ex a of
          Some e \<Rightarrow> abandon oper c ''approval resource revalidation failed'' now (finish_run lib ex j a [] e now)
        | None \<Rightarrow> (case ex_validate ex a of
            Some e \<Rightarrow> abandon oper c ''approval validation failed'' now (finish_run lib ex j a [] e now)
          | None \<Rightarrow> execute_and_settle lib ex j a c oper now)))"

definition run_claimed :: "act_lib \<Rightarrow> executor \<Rightarrow> job \<Rightarrow> approval \<Rightarrow> acting_context \<Rightarrow> operation \<Rightarrow> int \<Rightarrow> ap_store db \<Rightarrow>
  run_result \<times> ap_store db" where
  "run_claimed lib ex j a c oper now d =
     (if ap_status a = ApprovalStatusApproved
      then (case TransitionApproval (ap_tenant_id a) (ap_id a) ApprovalStatusApproved ApprovalStatusExecuting id now d of
              (Inl e, d1) \<Rightarrow> abandon oper c ''approval transition failed'' now (run_outcome j [] (Some e)) d1
            | (Inr claimed, d1) \<Rightarrow>
                if claimed then run_checks lib ex j (a\<lparr>ap_status := ApprovalStatusExecuting\<rparr>) c oper now d1
                else run_outcome j [] None d1)
      else if ap_status a = ApprovalStatusExecuting then run_checks lib ex j a c oper now d
      else abandon oper c ''approval is not executing'' now (run_outcome j [] None) d)"

text \<open>Everything before the claim decision, as one sequence of calls.\<close>

definition run_resolve :: "act_lib \<Rightarrow> executor \<Rightarrow> job \<Rightarrow> run_args \<Rightarrow> ap_store db \<Rightarrow>
  (err + approval \<times> acting_context \<times> resolved) \<times> ap_store db" where
  "run_resolve lib ex j args =
     (case decode_payload lib (j_payload j) of
        Inl e \<Rightarrow> fail e
      | Inr p \<Rightarrow>
          chk (store_GetApproval (j_tenant_id j) (pl_approval_id p)) (\<lambda>found.
            case found of
              None \<Rightarrow> fail (NotFound ''approval not found'')
            | Some a \<Rightarrow>
                chk (validateApprovalExecutionPayload lib a p) (\<lambda>c.
                chk (resolveApprovalExecution lib ex a c (j_id j) args) (\<lambda>r. ret (a, c, r)))))"

definition worker_Run :: "act_lib \<Rightarrow> executor \<Rightarrow> job \<Rightarrow> run_args \<Rightarrow> ap_store db \<Rightarrow> run_result \<times> ap_store db" where
  "worker_Run lib ex j args d =
     (case run_resolve lib ex j args d of
        (Inl e, d1) \<Rightarrow> run_outcome j [] (Some e) d1
      | (Inr (a, c, Settled res), d1) \<Rightarrow>
          (\<lparr>rr_error = None, rr_job_result = (case res of None \<Rightarrow> j_result j | Some x \<Rightarrow> x), rr_executed = []\<rparr>, d1)
      | (Inr (a, c, Proceed oper), d1) \<Rightarrow> run_claimed lib ex j a c oper (ra_now args) d1)"

end
