(* ===== verification/Secrets.thy ===== *)
theory Secrets
  imports Go_Base
begin

text \<open>
  Credentials at rest, \<^verbatim>\<open>internal/pkg/crypto\<close>: a sealed value is the standard base64 text of the
  nonce followed by the ciphertext. Base64 is modelled; the block cipher in counter mode is the
  argument \<open>aead\<close>, with the sealing and the opening function of a key.
\<close>

section \<open>base64.StdEncoding\<close>

definition b64_char :: "nat \<Rightarrow> char" where
  "b64_char n =
     (if n < 26 then char_of (65 + n) else if n < 52 then char_of (71 + n)
      else if n < 62 then char_of (n - 4) else if n = 62 then CHR ''+'' else CHR 0x2F)"

definition b64_val :: "char \<Rightarrow> nat option" where
  "b64_val c =
     (let n = of_char c :: nat in
      if 65 \<le> n \<and> n \<le> 90 then Some (n - 65) else if 97 \<le> n \<and> n \<le> 122 then Some (n - 71)
      else if 48 \<le> n \<and> n \<le> 57 then Some (n + 4) else if n = 43 then Some 62
      else if n = 47 then Some 63 else None)"

fun EncodeToString :: "string \<Rightarrow> string" where
  "EncodeToString [] = []"
| "EncodeToString [a] =
     (let x = of_char a :: nat
      in [b64_char (x div 4), b64_char (x mod 4 * 16), CHR ''='', CHR ''=''])"
| "EncodeToString [a, b] =
     (let x = of_char a :: nat; y = of_char b
      in [b64_char (x div 4), b64_char (x mod 4 * 16 + y div 16), b64_char (y mod 16 * 4), CHR ''=''])"
| "EncodeToString (a # b # c # cs) =
     (let x = of_char a :: nat; y = of_char b; z = of_char c
      in [b64_char (x div 4), b64_char (x mod 4 * 16 + y div 16), b64_char (y mod 16 * 4 + z div 64),
          b64_char (z mod 64)] @ EncodeToString cs)"

text \<open>
  The decoder works on groups of four characters. Padding ends the text; bits under the padding
  are not checked. Line breaks are skipped wherever they are.
\<close>

definition b64_group2 :: "char \<Rightarrow> char \<Rightarrow> string option" where
  "b64_group2 a b =
     (case (b64_val a, b64_val b) of (Some p, Some q) \<Rightarrow> Some [char_of (p * 4 + q div 16)] | _ \<Rightarrow> None)"

definition b64_group3 :: "char \<Rightarrow> char \<Rightarrow> char \<Rightarrow> string option" where
  "b64_group3 a b c =
     (case (b64_val a, b64_val b, b64_val c) of
        (Some p, Some q, Some r) \<Rightarrow> Some [char_of (p * 4 + q div 16), char_of (q mod 16 * 16 + r div 4)]
      | _ \<Rightarrow> None)"

definition b64_group4 :: "char \<Rightarrow> char \<Rightarrow> char \<Rightarrow> char \<Rightarrow> string option" where
  "b64_group4 a b c d =
     (case (b64_val a, b64_val b, b64_val c, b64_val d) of
        (Some p, Some q, Some r, Some t) \<Rightarrow>
          Some [char_of (p * 4 + q div 16), char_of (q mod 16 * 16 + r div 4), char_of (r mod 4 * 64 + t)]
      | _ \<Rightarrow> None)"

fun b64_groups :: "string \<Rightarrow> string option" where
  "b64_groups [] = Some []"
| "b64_groups (a # b # c # d # cs) =
     (if d = CHR ''='' then
        (if cs \<noteq> [] then None else if c = CHR ''='' then b64_group2 a b else b64_group3 a b c)
      else case b64_group4 a b c d of
             None \<Rightarrow> None
           | Some g \<Rightarrow> map_option ((@) g) (b64_groups cs))"
| "b64_groups _ = None"

definition DecodeString :: "string \<Rightarrow> string option" where
  "DecodeString s = b64_groups (filter (\<lambda>c. c \<noteq> CHR 0x0A \<and> c \<noteq> CHR 0x0D) s)"

lemma b64_val_char: "n < 64 \<Longrightarrow> b64_val (b64_char n) = Some n"
  by (auto simp: b64_val_def b64_char_def Let_def)

lemma b64_char_plain:
  "n < 64 \<Longrightarrow> b64_char n \<noteq> CHR ''=''" "n < 64 \<Longrightarrow> b64_char n \<noteq> CHR 0x0A" "n < 64 \<Longrightarrow> b64_char n \<noteq> CHR 0x0D"
  using b64_val_char [of n] by (auto simp: b64_val_def)

lemma digit_split:
  assumes "r < b"
  shows "(m * b + r) div b = m" "(m * b + r) mod b = (r :: nat)"
  using assms by simp_all

lemma sextets:
  assumes "x < 256" "y < 256" "z < (256 :: nat)"
  shows "x div 4 < 64" "x mod 4 * 16 + y div 16 < 64" "y mod 16 * 4 + z div 64 < 64" "z mod 64 < 64"
    "x div 4 * 4 + (x mod 4 * 16 + y div 16) div 16 = x"
    "(x mod 4 * 16 + y div 16) mod 16 * 16 + (y mod 16 * 4 + z div 64) div 4 = y"
    "(y mod 16 * 4 + z div 64) mod 4 * 64 + z mod 64 = z"
proof -
  have q: "y div 16 < 16" "z div 64 < 4" and m: "x mod 4 < 4" "y mod 16 < 16" "z mod 64 < 64"
    using assms by (simp_all add: div_less_iff_less_mult)
  show "x div 4 < 64" using assms by (simp add: div_less_iff_less_mult)
  show "x mod 4 * 16 + y div 16 < 64" "y mod 16 * 4 + z div 64 < 64" "z mod 64 < 64" using q m by linarith+
  show "x div 4 * 4 + (x mod 4 * 16 + y div 16) div 16 = x"
    "(x mod 4 * 16 + y div 16) mod 16 * 16 + (y mod 16 * 4 + z div 64) div 4 = y"
    "(y mod 16 * 4 + z div 64) mod 4 * 64 + z mod 64 = z"
    unfolding digit_split [OF q(1)] digit_split [OF q(2)] by (rule div_mult_mod_eq)+
qed

lemma group4_encode:
  fixes a b c :: char
  defines "x \<equiv> of_char a :: nat" and "y \<equiv> of_char b :: nat" and "z \<equiv> of_char c :: nat"
  shows "b64_group4 (b64_char (x div 4)) (b64_char (x mod 4 * 16 + y div 16))
    (b64_char (y mod 16 * 4 + z div 64)) (b64_char (z mod 64)) = Some [a, b, c]"
proof -
  have l: "x < 256" "y < 256" "z < 256" by (simp_all add: x_def y_def z_def)
  note s = sextets [OF l]
  show ?thesis unfolding b64_group4_def b64_val_char [OF s(1)] b64_val_char [OF s(2)] b64_val_char [OF s(3)]
      b64_val_char [OF s(4)] option.case prod.case s(5-7)
    by (simp add: x_def y_def z_def)
qed

lemma group3_encode:
  fixes a b :: char
  defines "x \<equiv> of_char a :: nat" and "y \<equiv> of_char b :: nat"
  shows "b64_group3 (b64_char (x div 4)) (b64_char (x mod 4 * 16 + y div 16))
    (b64_char (y mod 16 * 4)) = Some [a, b]"
proof -
  have l: "x < 256" "y < 256" "0 < (256 :: nat)" by (simp_all add: x_def y_def)
  note s = sextets [OF l]
  have "y mod 16 * 4 < 64" "(x mod 4 * 16 + y div 16) mod 16 * 16 + y mod 16 * 4 div 4 = y"
    using s(3,6) by simp_all
  note t = this
  show ?thesis unfolding b64_group3_def b64_val_char [OF s(1)] b64_val_char [OF s(2)] b64_val_char [OF t(1)]
      option.case prod.case s(5) t(2)
    by (simp add: x_def y_def)
qed

lemma encode_plain: "filter (\<lambda>c. c \<noteq> CHR 0x0A \<and> c \<noteq> CHR 0x0D) (EncodeToString s) = EncodeToString s"
proof (induction s rule: EncodeToString.induct)
  case (2 a)
  show ?case using sextets [of "of_char a" 0 0] by (simp add: Let_def b64_char_plain)
next
  case (3 a b)
  show ?case using sextets [of "of_char a" "of_char b" 0] by (simp add: Let_def b64_char_plain)
next
  case (4 a b c cs)
  then show ?case using sextets [of "of_char a" "of_char b" "of_char c"]
    by (simp add: Let_def b64_char_plain)
qed simp

lemma groups_encode: "b64_groups (EncodeToString s) = Some s"
proof (induction s rule: EncodeToString.induct)
  case (2 a)
  show ?case using sextets [of "of_char a" 0 0] by (simp add: Let_def b64_group2_def b64_val_char)
next
  case (3 a b)
  show ?case using sextets [of "of_char a" "of_char b" 0] group3_encode [of a b]
    by (simp add: Let_def b64_char_plain)
next
  case (4 a b c cs)
  then show ?case using sextets(4) [of "of_char a" "of_char b" "of_char c"] group4_encode [of a b c]
    by (simp add: Let_def b64_char_plain)
qed simp

lemma DecodeString_EncodeToString: "DecodeString (EncodeToString s) = Some s"
  by (simp add: DecodeString_def encode_plain groups_encode)

section \<open>Envelopes\<close>

record envelope =
  env_nonce :: string
  env_data :: string

definition marshal_envelope :: "envelope \<Rightarrow> string" where
  "marshal_envelope env = env_nonce env @ env_data env"

definition unmarshal_envelope :: "string \<Rightarrow> envelope option" where
  "unmarshal_envelope raw =
     (if length raw < 12 then None else Some \<lparr>env_nonce = take 12 raw, env_data = drop 12 raw\<rparr>)"

record aead =
  aead_seal :: "string \<Rightarrow> string \<Rightarrow> string \<Rightarrow> string"
  aead_open :: "string \<Rightarrow> string \<Rightarrow> string \<Rightarrow> string option"

definition Encrypt :: "aead \<Rightarrow> string \<Rightarrow> string option \<Rightarrow> string \<Rightarrow> string option" where
  "Encrypt lib key random plaintext =
     (if length key \<noteq> 32 then None
      else case random of
             None \<Rightarrow> None
           | Some nonce \<Rightarrow> Some (EncodeToString (marshal_envelope
               \<lparr>env_nonce = nonce, env_data = aead_seal lib key nonce plaintext\<rparr>)))"

definition Decrypt :: "aead \<Rightarrow> string \<Rightarrow> string \<Rightarrow> string option" where
  "Decrypt lib key sealed =
     (if length key \<noteq> 32 then None
      else case DecodeString sealed of
             None \<Rightarrow> None
           | Some raw \<Rightarrow>
               (case unmarshal_envelope raw of
                  None \<Rightarrow> None
                | Some env \<Rightarrow> if length (env_nonce env) \<noteq> 12 then None
                    else aead_open lib key (env_nonce env) (env_data env)))"

lemma Decrypt_Encrypt:
  assumes "aead_open lib key nonce (aead_seal lib key nonce plaintext) = Some plaintext"
    and "length nonce = 12" and "Encrypt lib key (Some nonce) plaintext = Some sealed"
  shows "Decrypt lib key sealed = Some plaintext"
  using assms by (auto simp: Encrypt_def Decrypt_def DecodeString_EncodeToString marshal_envelope_def
      unmarshal_envelope_def split: if_splits)

end
