(* ===== verification/Approvals.thy ===== *)
theory Approvals
  imports Approval_Worker Secrets
begin

text \<open>
  The approval workflow, \<^verbatim>\<open>internal/service/approval.go\<close> and \<^verbatim>\<open>internal/service/approval_action.go\<close>:
  submission and the gates in front of governed operations, decisions with delegation, cancellation,
  retry and maintenance. What \<^verbatim>\<open>resolveApprovalTarget\<close> says of the object of a request (its
  attributes and snapshot, or an error) and whether reopening a knowledge task after a decision
  fails are arguments; notifications have no effect here.
\<close>

section \<open>Submission\<close>

record submit_request =
  sr_tenant_id :: string
  sr_object_type :: string
  sr_action :: string
  sr_object_id :: string
  sr_payload :: "(string \<times> json) list"
  sr_idempotency_key :: string

record submit_env =
  se_lib :: act_lib
  se_aead :: aead
  se_key :: string
  se_target :: "string \<Rightarrow> submit_request \<Rightarrow> err + attrs \<times> (string \<times> json) list"
  se_approval_id :: string
  se_request_suffix :: string
  se_step_id :: "nat \<Rightarrow> string"
  se_credential_id :: string
  se_nonce :: "string option"

definition approvalSubmitLimit :: int where
  "approvalSubmitLimit = 10"

definition approvalSubmitWindow :: int where
  "approvalSubmitWindow = 600 * nanos_per_sec"

definition approvalDecisionLimit :: int where
  "approvalDecisionLimit = 30"

definition approvalDecisionWindow :: int where
  "approvalDecisionWindow = 60 * nanos_per_sec"

definition id_char :: "char \<Rightarrow> bool" where
  "id_char c \<longleftrightarrow> (let n = of_char c :: nat in (65 \<le> n \<and> n \<le> 90) \<or> (97 \<le> n \<and> n \<le> 122) \<or> (48 \<le> n \<and> n \<le> 57)) \<or>
     c \<in> set ''_.:-''"

definition approvalIDPattern :: "string \<Rightarrow> bool" where
  "approvalIDPattern s \<longleftrightarrow> 1 \<le> length s \<and> length s \<le> 128 \<and> list_all id_char s"

definition compact_date :: "int \<Rightarrow> string" where
  "compact_date t = (let (y, m, d) = civil (day_of t) in format_year y @ pad 2 (nat m) @ pad 2 (nat d))"

text \<open>
  The credential of a submission: the member \<^verbatim>\<open>api_key\<close> printed and trimmed, encrypted if the text is
  not empty; the member then leaves the payload.
\<close>

definition submit_credential :: "submit_env \<Rightarrow> string \<Rightarrow> (string \<times> json) list \<Rightarrow>
  err + approval_credential option \<times> (string \<times> json) list" where
  "submit_credential env tenantID kvs =
     (let apiKey = TrimSpace (Sprint (al_fmt (se_lib env)) (GoJson (member_value kvs ''api_key''))) in
      if apiKey = [] then Inr (None, kvs)
      else case Encrypt (se_aead env) (se_key env) (se_nonce env) apiKey of
             None \<Rightarrow> Inl (Internal ''failed to encrypt approval credential'')
           | Some ciphertext \<Rightarrow> Inr (Some \<lparr>cd_id = se_credential_id env, cd_approval_id = se_approval_id env,
               cd_tenant_id = tenantID, cd_ciphertext = ciphertext, cd_consumed_at = None, cd_retain_until_at = None\<rparr>,
               filter (\<lambda>(k, _). k \<noteq> ''api_key'') kvs))"

definition draft_approval :: "submit_env \<Rightarrow> string \<Rightarrow> string \<Rightarrow> submit_request \<Rightarrow> policy \<Rightarrow> (string \<times> json) list \<Rightarrow>
  (string \<times> json) list \<Rightarrow> int \<Rightarrow> approval" where
  "draft_approval env actorID tenantID req p kvs snapshot now =
     (let draft = \<lparr>ap_id = se_approval_id env, ap_tenant_id = tenantID,
            ap_request_no = ''APR-'' @ compact_date now @ ''-'' @ take 8 (se_request_suffix env),
            ap_object_type = sr_object_type req, ap_object_id = sr_object_id req, ap_action = sr_action req,
            ap_payload_json = al_marshal_json (se_lib env) (JObj kvs),
            ap_snapshot_json = al_marshal_json (se_lib env) (JObj snapshot),
            ap_target_tenant_id = [], ap_resource_version = [], ap_action_hash = [],
            ap_status = ApprovalStatusPendingApproval, ap_policy_id = po_id p, ap_policy_version = po_version p,
            ap_current_step = 1, ap_requester_id = actorID, ap_idempotency_key = sr_idempotency_key req,
            ap_expires_at = now + wrap64 (po_expire_hours p * time_Hour), ap_decided_at = None, ap_executed_at = None,
            ap_result_json = ''{}'', ap_last_error = [], ap_updated_at = now\<rparr>
      in draft\<lparr>ap_target_tenant_id := approvalTargetTenant (se_lib env) draft,
            ap_resource_version := approvalResourceVersion (se_lib env) draft,
            ap_action_hash := computeApprovalActionHash (se_lib env) draft\<rparr>)"

definition submit_limited :: "'s limiter \<Rightarrow> string \<Rightarrow> int \<Rightarrow> 's ap_svc \<Rightarrow> (err + unit) \<times> 's ap_svc" where
  "submit_limited lmt actorID now v =
     (case lim_Count lmt actorID approvalSubmitWindow now (sv_submits v) of
        (Inl e, s1) \<Rightarrow> (Inl e, v\<lparr>sv_submits := s1\<rparr>)
      | (Inr n, s1) \<Rightarrow>
          if approvalSubmitLimit \<le> n
          then (Inl (Http 429 42940 ''too many approval submissions; try later''), v\<lparr>sv_submits := s1\<rparr>)
          else (case lim_Incr lmt actorID approvalSubmitWindow now s1 of
                  (Inl e, s2) \<Rightarrow> (Inl e, v\<lparr>sv_submits := s2\<rparr>)
                | (Inr _, s2) \<Rightarrow> (Inr (), v\<lparr>sv_submits := s2\<rparr>)))"

definition file_approval :: "'s limiter \<Rightarrow> submit_env \<Rightarrow> string \<Rightarrow> string \<Rightarrow> submit_request \<Rightarrow> policy \<Rightarrow> (string \<times> json) list \<Rightarrow> int \<Rightarrow>
  's ap_svc \<Rightarrow> (err + approval option) \<times> 's ap_svc" where
  "file_approval lmt env actorID tenantID req p snapshot now =
     chk (submit_limited lmt actorID now) (\<lambda>_.
       case approvalStepsFromPolicy tenantID p now (se_step_id env) of
         Inl e \<Rightarrow> fail e
       | Inr steps \<Rightarrow> (case submit_credential env tenantID (sr_payload req) of
           Inl e \<Rightarrow> fail e
         | Inr (cred, kvs) \<Rightarrow>
             let a = draft_approval env actorID tenantID req p kvs snapshot now
             in chk (on_sv (CreateApprovalWithAudit a steps cred ''approval.submitted'')) (\<lambda>_. ret (Some a))))"

definition SubmitApproval :: "'s limiter \<Rightarrow> submit_env \<Rightarrow> string \<Rightarrow> submit_request \<Rightarrow> int \<Rightarrow> 's ap_svc \<Rightarrow>
  (err + approval option) \<times> 's ap_svc" where
  "SubmitApproval lmt env actorID req now v =
     (if \<not> cf_enabled (sv_config v) then (Inl (BadRequest 40086 ''approval workflow is disabled''), v)
      else chk (on_sv (on_ap_ids (authz actorID))) (\<lambda>ac.
        let tenantID = (if ac_platform ac \<and> sr_tenant_id req \<noteq> [] then sr_tenant_id req else us_tenant_id (ac_user ac)) in
        if \<not> approvalIDPattern (sr_idempotency_key req)
        then fail (BadRequest 40087 ''idempotency_key must be 1-128 URL-safe characters'')
        else if sr_object_type req = [] \<or> sr_action req = []
        then fail (BadRequest 40088 ''object_type and action are required'')
        else chk (on_sv (GetApprovalByIdempotencyKey tenantID (sr_idempotency_key req))) (\<lambda>existing.
          if existing \<noteq> None then ret existing
          else case se_target env tenantID req of
            Inl e \<Rightarrow> fail e
          | Inr (attrs, snapshot) \<Rightarrow>
              chk (matchApprovalPolicy (al_fmt (se_lib env)) tenantID (sr_object_type req) (sr_action req) attrs now) (\<lambda>found.
                case found of
                  None \<Rightarrow> ret None
                | Some p \<Rightarrow> file_approval lmt env actorID tenantID req p snapshot now))) v)"

definition approvalAlwaysRequired :: "string \<Rightarrow> bool" where
  "approvalAlwaysRequired objectType \<longleftrightarrow>
     objectType = ApprovalObjectEnterpriseConnection \<or> objectType = ApprovalObjectEnterpriseBinding"

definition gate_request :: "string \<Rightarrow> string \<Rightarrow> string \<Rightarrow> string \<Rightarrow> (string \<times> json) list \<Rightarrow> string \<Rightarrow> string \<Rightarrow> submit_request" where
  "gate_request tenantID objectType action objectID kvs idempotencyKey newID =
     \<lparr>sr_tenant_id = tenantID, sr_object_type = objectType, sr_action = action, sr_object_id = objectID,
      sr_payload = kvs, sr_idempotency_key = (if idempotencyKey = [] then newID else idempotencyKey)\<rparr>"

definition ApprovalGateForTenant :: "'s limiter \<Rightarrow> submit_env \<Rightarrow> string \<Rightarrow> string \<Rightarrow> string \<Rightarrow> string \<Rightarrow> string \<Rightarrow>
  (string \<times> json) list \<Rightarrow> string \<Rightarrow> string \<Rightarrow> int \<Rightarrow> 's ap_svc \<Rightarrow> (err + approval option) \<times> 's ap_svc" where
  "ApprovalGateForTenant lmt env actorID targetTenantID objectType action objectID kvs idempotencyKey newID now v =
     (if targetTenantID = [] then (Inl (BadRequest 40000 ''target tenant is required''), v)
      else if \<not> cf_enabled (sv_config v)
      then (Inl (BadRequest 40086 ''approval workflow must be enabled for cross-tenant writes''), v)
      else SubmitApproval lmt env actorID (gate_request targetTenantID objectType action objectID kvs idempotencyKey newID) now v)"

definition approvalGate :: "'s limiter \<Rightarrow> submit_env \<Rightarrow> string \<Rightarrow> string \<Rightarrow> string \<Rightarrow> string \<Rightarrow> (string \<times> json) list \<Rightarrow> string \<Rightarrow> bool \<Rightarrow>
  string \<Rightarrow> int \<Rightarrow> 's ap_svc \<Rightarrow> (err + approval option) \<times> 's ap_svc" where
  "approvalGate lmt env actorID objectType action objectID kvs idempotencyKey force newID now v =
     (let required = (force \<or> approvalAlwaysRequired objectType) in
      if \<not> cf_enabled (sv_config v)
      then (if required then Inl (BadRequest 40086 ''approval workflow must be enabled for governed operations'')
            else Inr None, v)
      else chk (SubmitApproval lmt env actorID (gate_request [] objectType action objectID kvs idempotencyKey newID) now) (\<lambda>a.
        if a = None \<and> required then fail (BadRequest 40089 ''approval policy is required for governed operations'')
        else ret a) v)"

text \<open>The credential of an approval as its executor reads it.\<close>

definition approvalCredentialValue :: "aead \<Rightarrow> string \<Rightarrow> approval \<Rightarrow> int \<Rightarrow> ap_store db \<Rightarrow> (err + string) \<times> ap_store db" where
  "approvalCredentialValue lib key a now =
     chk (GetRetainedApprovalCredential (ap_tenant_id a) (ap_id a) now) (\<lambda>cred.
       case cred of
         None \<Rightarrow> ret []
       | Some c \<Rightarrow>
           if cd_ciphertext c = [] then ret []
           else (case Decrypt lib key (cd_ciphertext c) of
                   None \<Rightarrow> fail (Internal ''failed to decrypt approval credential'')
                 | Some raw \<Rightarrow> ret raw))"

section \<open>Decisions\<close>

definition ErrStateChanged :: err where
  "ErrStateChanged = Http 409 40909 ''approval state changed''"

definition getVisibleApproval :: "string \<Rightarrow> string \<Rightarrow> string \<Rightarrow> ap_store db \<Rightarrow> (err + approval) \<times> ap_store db" where
  "getVisibleApproval actorID actorTenantID approvalID = chk (on_ap_ids (authz actorID)) (\<lambda>ac.
     chk (if ac_platform ac then GetApprovalByID approvalID else store_GetApproval actorTenantID approvalID) (\<lambda>found.
       case found of
         None \<Rightarrow> fail (NotFound ''approval not found'')
       | Some a \<Rightarrow>
           if \<not> ac_platform ac \<and> ap_tenant_id a \<noteq> actorTenantID then fail (Forbidden ''approval not found'')
           else if ac_platform ac then ret a
           else chk (on_ap_ids (Authorize actorID ''read'' ''approval'')) (\<lambda>_. ret a)))"

definition ListUserTeams :: "string \<Rightarrow> id_store db \<Rightarrow> (err + team list) \<times> id_store db" where
  "ListUserTeams userID = query (\<lambda>s. filter (\<lambda>t. (userID, tm_id t) \<in> set (user_teams s)) (teams s))"

definition approvalUserRoles :: "string \<Rightarrow> ap_store db \<Rightarrow> (err + string list \<times> string list) \<times> ap_store db" where
  "approvalUserRoles actorID =
     chk (on_ap_ids (ListRolesByUser actorID)) (\<lambda>rs.
     chk (on_ap_ids (expandRoles rs)) (\<lambda>roleIDs.
     chk (on_ap_ids (ListUserTeams actorID)) (\<lambda>ts. ret (roleIDs, map tm_id ts))))"

definition approvalApproverMatches :: "approval_step \<Rightarrow> string \<Rightarrow> string list \<Rightarrow> string list \<Rightarrow> bool" where
  "approvalApproverMatches step actorID roleIDs teamIDs =
     (if st_approver_type step = ApprovalApproverUser then st_approver_value step = actorID
      else if st_approver_type step = ApprovalApproverRole then st_approver_value step \<in> set roleIDs
      else if st_approver_type step = ApprovalApproverTeam then st_approver_value step \<in> set teamIDs
      else False)"

definition delegating_principal :: "approval_step \<Rightarrow> delegation list \<Rightarrow> string" where
  "delegating_principal step gs =
     (case find (\<lambda>g. \<exists>x\<in>set (ApprovalStepApprovers step). av_type x = ApprovalApproverUser \<and>
         av_value x = dg_principal_id g \<and> dg_principal_id g \<noteq> []) gs of
        None \<Rightarrow> [] | Some g \<Rightarrow> dg_principal_id g)"

fun no_earlier_decision :: "approval \<Rightarrow> approval_step list \<Rightarrow> int \<Rightarrow> string \<Rightarrow> ap_store db \<Rightarrow> (err + unit) \<times> ap_store db" where
  "no_earlier_decision a [] no actorID = ret ()"
| "no_earlier_decision a (x # xs) no actorID =
     (if no \<le> st_step_no x then no_earlier_decision a xs no actorID
      else chk (ListApprovalStepActors (ap_tenant_id a) (ap_id a) (st_id x)) (\<lambda>actors.
        if actorID \<in> set (map sa_actor_id actors) then fail (Forbidden ''user cannot approve multiple steps'')
        else no_earlier_decision a xs no actorID))"

definition approver_of :: "approval \<Rightarrow> approval_step \<Rightarrow> string \<Rightarrow> int \<Rightarrow> ap_store db \<Rightarrow> (err + string) \<times> ap_store db" where
  "approver_of a step actorID now = chk (approvalUserRoles actorID) (\<lambda>(roleIDs, teamIDs).
     if approvalApproverMatches step actorID roleIDs teamIDs then ret []
     else chk (ListActiveApprovalDelegations (ap_tenant_id a) actorID (ap_object_type a) (ap_action a) now) (\<lambda>gs.
       let principal = delegating_principal step gs in
       if principal = [] then fail (Forbidden ''not authorized for this approval step'') else ret principal))"

text \<open>
  A decision reads and checks first, and commits in one transaction later; \<open>decide_check\<close> is the
  first half, up to the call of \<^verbatim>\<open>DecideApprovalStep\<close>.
\<close>

definition decide_check :: "string \<Rightarrow> string \<Rightarrow> string \<Rightarrow> int \<Rightarrow> ap_store db \<Rightarrow> (err + approval \<times> string) \<times> ap_store db" where
  "decide_check actorID actorTenantID approvalID now =
     chk (getVisibleApproval actorID actorTenantID approvalID) (\<lambda>a.
       if ap_status a \<noteq> ApprovalStatusPendingApproval then fail ErrStateChanged
       else if ap_expires_at a < now then fail (Http 409 40902 ''approval has expired'')
       else if ap_requester_id a = actorID then fail (Forbidden ''requester cannot approve'')
       else chk (CurrentApprovalStep (ap_tenant_id a) (ap_id a)) (\<lambda>found.
         case found of
           None \<Rightarrow> fail (Http 409 40903 ''approval step state changed'')
         | Some step \<Rightarrow>
             if st_status step \<noteq> ApprovalStepCurrent then fail (Http 409 40903 ''approval step state changed'')
             else if (case st_due_at step of None \<Rightarrow> False | Some t \<Rightarrow> t < now) then fail (Http 409 40904 ''approval step has expired'')
             else chk (approver_of a step actorID now) (\<lambda>delegatedBy.
                  chk (ListApprovalSteps (ap_tenant_id a) (ap_id a)) (\<lambda>steps.
                  chk (no_earlier_decision a steps (st_step_no step) actorID) (\<lambda>_. ret (a, delegatedBy))))))"

definition decide_commit :: "approval \<Rightarrow> string \<Rightarrow> string \<Rightarrow> string \<Rightarrow> string \<Rightarrow> int \<Rightarrow> ap_store db \<Rightarrow>
  (err + approval \<times> bool) \<times> ap_store db" where
  "decide_commit a actorID delegatedBy decision comment now d =
     (case DecideApprovalStep (ap_tenant_id a) (ap_id a) actorID delegatedBy decision comment now
             (if decision = ApprovalDecisionReject then ''approval.rejected'' else ''approval.approved'') d of
        (Inl e, d1) \<Rightarrow>
          (Inl (if e = ErrDuplicatedKey then Http 409 40905 ''approval actor already decided''
                else if e = RecordNotFound then ErrStateChanged else e), d1)
      | (Inr r, d1) \<Rightarrow> (Inr r, d1))"

record decide_env =
  de_lib :: act_lib
  de_has_runner :: bool
  de_reopen :: "approval \<Rightarrow> err option"
  de_context_id :: string
  de_job_id :: string

definition reopen_task :: "decide_env \<Rightarrow> approval \<Rightarrow> ap_store db \<Rightarrow> (err + unit) \<times> ap_store db" where
  "reopen_task env a = (case de_reopen env a of None \<Rightarrow> ret () | Some e \<Rightarrow> fail e)"

definition schedule :: "decide_env \<Rightarrow> ap_config \<Rightarrow> approval \<Rightarrow> int \<Rightarrow> ap_store db \<Rightarrow> (err + bool) \<times> ap_store db" where
  "schedule env cfg a now =
     enqueueApprovalExecution (de_lib env) cfg (de_has_runner env) a now (de_context_id env) (de_job_id env)"

definition decide_finish :: "decide_env \<Rightarrow> ap_config \<Rightarrow> approval \<times> bool \<Rightarrow> int \<Rightarrow> ap_store db \<Rightarrow> (err + approval) \<times> ap_store db" where
  "decide_finish env cfg r now = (case r of (updated, final) \<Rightarrow>
     chk (if ap_status updated = ApprovalStatusRejected then reopen_task env updated else ret ()) (\<lambda>_.
     chk (if final then schedule env cfg updated now else ret False) (\<lambda>_. ret updated)))"

definition decision_limited :: "'s limiter \<Rightarrow> string \<Rightarrow> int \<Rightarrow> 's ap_svc \<Rightarrow> (err + unit) \<times> 's ap_svc" where
  "decision_limited lmt actorID now v =
     (case lim_Count lmt actorID approvalDecisionWindow now (sv_decisions v) of
        (Inl e, s1) \<Rightarrow> (Inl e, v\<lparr>sv_decisions := s1\<rparr>)
      | (Inr n, s1) \<Rightarrow>
          if approvalDecisionLimit \<le> n
          then (Inl (Http 429 42941 ''too many approval decisions; try later''), v\<lparr>sv_decisions := s1\<rparr>)
          else (case lim_Incr lmt actorID approvalDecisionWindow now s1 of
                  (Inl e, s2) \<Rightarrow> (Inl e, v\<lparr>sv_decisions := s2\<rparr>)
                | (Inr _, s2) \<Rightarrow> (Inr (), v\<lparr>sv_decisions := s2\<rparr>)))"

definition DecideApproval :: "'s limiter \<Rightarrow> decide_env \<Rightarrow> string \<Rightarrow> string \<Rightarrow> string \<Rightarrow> string \<Rightarrow> string \<Rightarrow> int \<Rightarrow> 's ap_svc \<Rightarrow>
  (err + approval) \<times> 's ap_svc" where
  "DecideApproval lmt env actorID actorTenantID approvalID decision comment now v =
     (if decision \<noteq> ApprovalDecisionApprove \<and> decision \<noteq> ApprovalDecisionReject
      then (Inl (BadRequest 40096 ''decision must be approve or reject''), v)
      else if TrimSpace comment = [] then (Inl (BadRequest 40097 ''comment is required''), v)
      else if 512 < length comment then (Inl (BadRequest 40098 ''comment must be at most 512 characters''), v)
      else chk (decision_limited lmt actorID now) (\<lambda>_.
           chk (on_sv (decide_check actorID actorTenantID approvalID now)) (\<lambda>(a, delegatedBy).
           chk (on_sv (decide_commit a actorID delegatedBy decision comment now)) (\<lambda>r.
             on_sv (decide_finish env (sv_config v) r now)))) v)"

section \<open>Batches\<close>

record batch_result =
  br_id :: string
  br_outcome :: "err + approval"

fun batch_ids_ok :: "string list \<Rightarrow> string list \<Rightarrow> bool" where
  "batch_ids_ok seen [] = True"
| "batch_ids_ok seen (i # is) = (i \<noteq> [] \<and> i \<notin> set seen \<and> batch_ids_ok (i # seen) is)"

fun decide_each :: "'s limiter \<Rightarrow> decide_env \<Rightarrow> string \<Rightarrow> string \<Rightarrow> string \<Rightarrow> string \<Rightarrow> int \<Rightarrow> string list \<Rightarrow> 's ap_svc \<Rightarrow>
  batch_result list \<times> 's ap_svc" where
  "decide_each lmt env actorID actorTenantID decision comment now [] v = ([], v)"
| "decide_each lmt env actorID actorTenantID decision comment now (i # is) v =
     (case DecideApproval lmt env actorID actorTenantID i decision comment now v of
        (r, v1) \<Rightarrow> (case decide_each lmt env actorID actorTenantID decision comment now is v1 of
          (rs, v2) \<Rightarrow> (\<lparr>br_id = i, br_outcome = r\<rparr> # rs, v2)))"

definition BatchDecideApprovals :: "'s limiter \<Rightarrow> decide_env \<Rightarrow> string \<Rightarrow> string \<Rightarrow> string \<Rightarrow> string list \<Rightarrow> string \<Rightarrow> int \<Rightarrow>
  's ap_svc \<Rightarrow> (err + batch_result list) \<times> 's ap_svc" where
  "BatchDecideApprovals lmt env actorID actorTenantID decision ids comment now v =
     (if decision \<noteq> ApprovalDecisionApprove \<and> decision \<noteq> ApprovalDecisionReject
      then (Inl (BadRequest 40101 ''decision must be approve or reject''), v)
      else if ids = [] \<or> 100 < length ids then (Inl (BadRequest 40101 ''batch size must be between 1 and 100''), v)
      else if TrimSpace comment = [] then (Inl (BadRequest 40097 ''comment is required''), v)
      else if 512 < length comment then (Inl (BadRequest 40098 ''comment must be at most 512 characters''), v)
      else if \<not> batch_ids_ok [] ids then (Inl (BadRequest 40101 ''batch ids must be unique and non-empty''), v)
      else (case decide_each lmt env actorID actorTenantID decision comment now ids v of (rs, v1) \<Rightarrow> (Inr rs, v1)))"

section \<open>Cancellation and retry\<close>

text \<open>The source dereferences the approval it reads again; a purge in between makes that a panic.\<close>

definition ErrNilApproval :: err where
  "ErrNilApproval = Failure ''nil pointer dereference''"

definition reread :: "approval \<Rightarrow> ap_store db \<Rightarrow> (err + approval option) \<times> ap_store db" where
  "reread a = store_GetApproval (ap_tenant_id a) (ap_id a)"

definition cancelApproval :: "approval \<Rightarrow> int \<Rightarrow> ap_store db \<Rightarrow> (err + approval option) \<times> ap_store db" where
  "cancelApproval a now =
     chk (TransitionApproval (ap_tenant_id a) (ap_id a) ApprovalStatusPendingApproval ApprovalStatusCanceled
            (\<lambda>x. x\<lparr>ap_decided_at := Some now\<rparr>) now) (\<lambda>ok.
       if \<not> ok then fail ErrStateChanged
       else chk (ap_RecordAudit ''approval.canceled'' (ap_id a)) (\<lambda>_. reread a))"

definition CancelApproval :: "decide_env \<Rightarrow> string \<Rightarrow> string \<Rightarrow> string \<Rightarrow> string \<Rightarrow> int \<Rightarrow> ap_store db \<Rightarrow>
  (err + approval) \<times> ap_store db" where
  "CancelApproval env actorID actorTenantID approvalID comment now =
     (if TrimSpace comment = [] then fail (BadRequest 40099 ''comment is required'')
      else chk (getVisibleApproval actorID actorTenantID approvalID) (\<lambda>a.
        if ap_status a \<noteq> ApprovalStatusPendingApproval then fail ErrStateChanged
        else chk (if ap_requester_id a \<noteq> actorID then on_ap_ids (Authorize actorID ''manage'' ''approval'') else ret ()) (\<lambda>_.
             chk (cancelApproval a now) (\<lambda>updated.
               case updated of
                 None \<Rightarrow> fail ErrNilApproval
               | Some u \<Rightarrow> chk (reopen_task env u) (\<lambda>_. ret u)))))"

definition RetryApprovalExecution :: "decide_env \<Rightarrow> ap_config \<Rightarrow> string \<Rightarrow> string \<Rightarrow> string \<Rightarrow> string \<Rightarrow> int \<Rightarrow> ap_store db \<Rightarrow>
  (err + approval) \<times> ap_store db" where
  "RetryApprovalExecution env cfg actorID actorTenantID approvalID comment now =
     (if TrimSpace comment = [] then fail (BadRequest 40099 ''comment is required'')
      else chk (on_ap_ids (Authorize actorID ''manage'' ''approval'')) (\<lambda>_.
           chk (getVisibleApproval actorID actorTenantID approvalID) (\<lambda>a.
             if ap_status a \<noteq> ApprovalStatusExecutionFailed then fail ErrStateChanged
             else chk (TransitionApproval (ap_tenant_id a) (ap_id a) ApprovalStatusExecutionFailed ApprovalStatusApproved
                         (\<lambda>x. x\<lparr>ap_last_error := []\<rparr>) now) (\<lambda>ok.
               if \<not> ok then fail ErrStateChanged
               else chk (ap_RecordAudit ''approval.retry'' (ap_id a)) (\<lambda>_.
                    chk (reread a) (\<lambda>updated.
                      case updated of
                        None \<Rightarrow> fail ErrNilApproval
                      | Some u \<Rightarrow> chk (schedule env cfg u now) (\<lambda>_. ret u)))))))"

section \<open>Delegations\<close>

record delegation_request =
  dr_delegate_id :: string
  dr_object_type :: string
  dr_action :: string
  dr_starts_at :: int
  dr_ends_at :: int

definition delegable_objects :: "string list" where
  "delegable_objects = [''dataset'', ''document'', ''document-chunk'', ''api-key'', ''chat'', ''agent'', ''model-provider'',
     ''model-instance'', ''model-model'']"

definition delegable_actions :: "string list" where
  "delegable_actions = [''create'', ''update'', ''delete'', ''revoke'', ''test'', ''parse'', ''stop'', ''enable'', ''disable'']"

definition CreateApprovalDelegation :: "string \<Rightarrow> string \<Rightarrow> delegation_request \<Rightarrow> int \<Rightarrow> string \<Rightarrow> ap_store db \<Rightarrow>
  (err + delegation) \<times> ap_store db" where
  "CreateApprovalDelegation actorID actorTenantID req now newID =
     chk (on_ap_ids (Authorize actorID ''read'' ''approval'')) (\<lambda>_.
       if dr_delegate_id req = [] \<or> dr_delegate_id req = actorID
       then fail (BadRequest 40100 ''delegate_id must identify another user'')
       else if dr_ends_at req < dr_starts_at req \<or> dr_ends_at req < now
       then fail (BadRequest 40100 ''delegation window is invalid'')
       else if 90 * 24 * time_Hour < dr_ends_at req - dr_starts_at req
       then fail (BadRequest 40100 ''delegation window is too long'')
       else chk (on_ap_ids (GetUser (dr_delegate_id req))) (\<lambda>delegate.
         if (case delegate of None \<Rightarrow> True | Some u \<Rightarrow> us_tenant_id u \<noteq> actorTenantID)
         then fail (BadRequest 40100 ''delegate must belong to the same tenant'')
         else if dr_object_type req \<noteq> [] \<and> dr_object_type req \<notin> set delegable_objects
         then fail (BadRequest 40100 ''unsupported delegation object type'')
         else if dr_action req \<noteq> [] \<and> dr_action req \<notin> set delegable_actions
         then fail (BadRequest 40100 ''unsupported delegation action'')
         else
           let g = \<lparr>dg_id = newID, dg_tenant_id = actorTenantID, dg_principal_id = actorID,
                 dg_delegate_id = dr_delegate_id req, dg_object_type = dr_object_type req, dg_action = dr_action req,
                 dg_starts_at = dr_starts_at req, dg_ends_at = dr_ends_at req\<rparr>
           in chk (store_CreateApprovalDelegation g) (\<lambda>_. ret g)))"

definition DeleteApprovalDelegation :: "string \<Rightarrow> string \<Rightarrow> string \<Rightarrow> ap_store db \<Rightarrow> (err + bool) \<times> ap_store db" where
  "DeleteApprovalDelegation actorID actorTenantID delegationID =
     chk (on_ap_ids (Authorize actorID ''read'' ''approval'')) (\<lambda>_.
       store_DeleteApprovalDelegation actorTenantID delegationID actorID)"

end
