(* ===== verification/Approval_Invariant.thy ===== *)
theory Approval_Invariant
  imports Approvals Authz_Props
begin

text \<open>
  Decisions, cancellations, expiry, execution and purges interleave at the granularity of their
  transactions; a decision is checked in one step and committed in a later one. In every state
  reached, an approval that was granted carries the signatures its steps ask for.
\<close>

section \<open>Signatures\<close>

definition step_of :: "approval \<Rightarrow> approval_step \<Rightarrow> bool" where
  "step_of a x \<longleftrightarrow> st_tenant_id x = ap_tenant_id a \<and> st_approval_id x = ap_id a"

definition on_step :: "approval_step \<Rightarrow> step_actor \<Rightarrow> bool" where
  "on_step x r \<longleftrightarrow> sa_tenant_id r = st_tenant_id x \<and> sa_approval_id r = st_approval_id x \<and> sa_step_id r = st_id x"

definition signers :: "ap_store \<Rightarrow> approval_step \<Rightarrow> string set" where
  "signers s x = sa_actor_id ` {r \<in> set (step_actors s). on_step x r \<and> sa_decision r = ApprovalDecisionApprove}"

definition signed :: "ap_store \<Rightarrow> approval_step \<Rightarrow> bool" where
  "signed s x \<longleftrightarrow> st_status x = ApprovalStepApproved \<and> ApprovalStepRequiredApprovals x \<le> int (card (signers s x))"

definition granted_statuses :: "approval_status set" where
  "granted_statuses = {ApprovalStatusApproved, ApprovalStatusExecuting, ApprovalStatusCompleted, ApprovalStatusExecutionFailed}"

definition steps_of :: "ap_store \<Rightarrow> approval \<Rightarrow> approval_step set" where
  "steps_of s a = {x \<in> set (approval_steps s). step_of a x}"

text \<open>The steps of an approval are numbered from one, and those that are over are signed.\<close>

definition progress :: "ap_store \<Rightarrow> approval \<Rightarrow> bool" where
  "progress s a \<longleftrightarrow>
     (\<exists>n\<ge>1. st_step_no ` steps_of s a = {1..n} \<and>
        (ap_status a = ApprovalStatusPendingApproval \<longrightarrow> 1 \<le> ap_current_step a \<and> ap_current_step a \<le> n)) \<and>
     (\<forall>x\<in>steps_of s a. ap_status a \<in> granted_statuses \<or>
        (ap_status a = ApprovalStatusPendingApproval \<and> st_step_no x < ap_current_step a) \<longrightarrow> signed s x)"

definition actor_key :: "step_actor \<Rightarrow> string \<times> string \<times> string \<times> string" where
  "actor_key r = (sa_tenant_id r, sa_approval_id r, sa_step_id r, sa_actor_id r)"

definition wf_approvals :: "ap_store \<Rightarrow> bool" where
  "wf_approvals s \<longleftrightarrow>
     uniq ap_id (approvals s) \<and> uniq st_id (approval_steps s) \<and>
     uniq (\<lambda>x. (st_approval_id x, st_step_no x)) (approval_steps s) \<and> uniq actor_key (step_actors s) \<and>
     (\<forall>x\<in>set (approval_steps s). \<exists>a\<in>set (approvals s). step_of a x) \<and>
     (\<forall>a\<in>set (approvals s). progress s a) \<and>
     (\<forall>r\<in>set (step_actors s). \<forall>a\<in>set (approvals s).
        sa_tenant_id r = ap_tenant_id a \<and> sa_approval_id r = ap_id a \<longrightarrow> sa_actor_id r \<noteq> ap_requester_id a)"

lemma wf_approvalsI:
  assumes "uniq ap_id (approvals s)" "uniq st_id (approval_steps s)"
    "uniq (\<lambda>x. (st_approval_id x, st_step_no x)) (approval_steps s)" "uniq actor_key (step_actors s)"
    "\<And>x. x \<in> set (approval_steps s) \<Longrightarrow> \<exists>a\<in>set (approvals s). step_of a x"
    "\<And>a. a \<in> set (approvals s) \<Longrightarrow> progress s a"
    "\<And>r a. r \<in> set (step_actors s) \<Longrightarrow> a \<in> set (approvals s) \<Longrightarrow> sa_tenant_id r = ap_tenant_id a \<Longrightarrow>
       sa_approval_id r = ap_id a \<Longrightarrow> sa_actor_id r \<noteq> ap_requester_id a"
  shows "wf_approvals s"
  using assms unfolding wf_approvals_def by simp

lemma wf_approvalsD:
  assumes "wf_approvals s"
  shows "uniq ap_id (approvals s)" "uniq st_id (approval_steps s)"
    "uniq (\<lambda>x. (st_approval_id x, st_step_no x)) (approval_steps s)" "uniq actor_key (step_actors s)"
    "\<And>x. x \<in> set (approval_steps s) \<Longrightarrow> \<exists>a\<in>set (approvals s). step_of a x"
    "\<And>a. a \<in> set (approvals s) \<Longrightarrow> progress s a"
    "\<And>r a. r \<in> set (step_actors s) \<Longrightarrow> a \<in> set (approvals s) \<Longrightarrow> sa_tenant_id r = ap_tenant_id a \<Longrightarrow>
       sa_approval_id r = ap_id a \<Longrightarrow> sa_actor_id r \<noteq> ap_requester_id a"
  using assms unfolding wf_approvals_def by simp_all

lemma signers_cong: "step_actors s' = step_actors s \<Longrightarrow> signers s' x = signers s x"
  by (simp add: signers_def)

lemma signed_cong: "step_actors s' = step_actors s \<Longrightarrow> signed s' x = signed s x"
  by (simp add: signed_def signers_def)

lemma finite_signers [simp]: "finite (signers s x)"
  by (simp add: signers_def)

lemma signers_mono: "set (step_actors s) \<subseteq> set (step_actors s') \<Longrightarrow> signers s x \<subseteq> signers s' x"
  by (auto simp: signers_def)

lemma signed_mono: "set (step_actors s) \<subseteq> set (step_actors s') \<Longrightarrow> signed s x \<Longrightarrow> signed s' x"
  using card_mono [OF finite_signers signers_mono, of s s' x] by (auto simp: signed_def)

lemma card_signers: "uniq actor_key (step_actors s) \<Longrightarrow> int (card (signers s x)) = count_approvals x (step_actors s)"
proof -
  assume u: "uniq actor_key (step_actors s)"
  let ?P = "\<lambda>r. on_step x r \<and> sa_decision r = ApprovalDecisionApprove"
  have "inj_on sa_actor_id {r \<in> set (step_actors s). ?P r}"
    using uniq_inj [OF u] by (auto simp: inj_on_def on_step_def actor_key_def)
  then have "card (signers s x) = card (set (filter ?P (step_actors s)))"
    by (simp add: signers_def card_image)
  also have "\<dots> = length (filter ?P (step_actors s))"
    using u by (intro distinct_card) (auto simp: uniq_def distinct_map)
  also have "int \<dots> = count_approvals x (step_actors s)"
    by (simp add: count_approvals_def on_step_def conj_assoc)
  finally show ?thesis by simp
qed

section \<open>Changes that keep the steps\<close>

text \<open>A change of an approval that keeps its identity and neither reopens nor grants it.\<close>

definition lawful :: "approval \<Rightarrow> approval \<Rightarrow> bool" where
  "lawful a b \<longleftrightarrow> ap_id b = ap_id a \<and> ap_tenant_id b = ap_tenant_id a \<and> ap_requester_id b = ap_requester_id a \<and>
     (ap_status b = ApprovalStatusPendingApproval \<longrightarrow>
        ap_status a = ApprovalStatusPendingApproval \<and> ap_current_step b = ap_current_step a) \<and>
     (ap_status b \<in> granted_statuses \<longrightarrow> ap_status a \<in> granted_statuses)"

lemma lawful_refl [simp]: "lawful a a"
  by (simp add: lawful_def)

lemma steps_of_lawful: "lawful a b \<Longrightarrow> approval_steps s' = approval_steps s \<Longrightarrow> steps_of s' b = steps_of s a"
  by (auto simp: steps_of_def step_of_def lawful_def)

lemma progress_lawful:
  assumes "progress s a" "lawful a b" "approval_steps s' = approval_steps s" "step_actors s' = step_actors s"
  shows "progress s' b"
proof -
  note so = steps_of_lawful [OF assms(2, 3)] and sg = signed_cong [OF assms(4)]
  show ?thesis
    using assms(1, 2) unfolding progress_def so sg lawful_def by (auto 0 3)
qed

lemma wf_lawful:
  assumes "wf_approvals s" "approvals s' = map f (approvals s)" "\<And>a. a \<in> set (approvals s) \<Longrightarrow> lawful a (f a)"
    and eq: "approval_steps s' = approval_steps s" "step_actors s' = step_actors s"
  shows "wf_approvals s'"
proof (rule wf_approvalsI)
  note w = wf_approvalsD [OF assms(1)]
  have "map ap_id (approvals s') = map ap_id (approvals s)"
    using assms(3) by (simp add: assms(2) lawful_def)
  then show "uniq ap_id (approvals s')" using w(1) by (simp add: uniq_def)
  show "uniq st_id (approval_steps s')" "uniq (\<lambda>x. (st_approval_id x, st_step_no x)) (approval_steps s')"
    "uniq actor_key (step_actors s')" using w(2-4) by (simp_all add: eq)
  show "\<exists>a\<in>set (approvals s'). step_of a x" if "x \<in> set (approval_steps s')" for x
    using w(5) [of x] that assms(3) by (fastforce simp: eq assms(2) step_of_def lawful_def)
  show "progress s' a" if "a \<in> set (approvals s')" for a
    using that w(6) assms(3) eq by (auto simp: assms(2) intro: progress_lawful)
  show "sa_actor_id r \<noteq> ap_requester_id a" if "r \<in> set (step_actors s')" "a \<in> set (approvals s')"
    "sa_tenant_id r = ap_tenant_id a" "sa_approval_id r = ap_id a" for r a
    using that w(7) [of r] assms(3) by (fastforce simp: eq assms(2) lawful_def)
qed

lemma wf_same: "wf_approvals s \<Longrightarrow> approvals s' = approvals s \<Longrightarrow> approval_steps s' = approval_steps s \<Longrightarrow>
    step_actors s' = step_actors s \<Longrightarrow> wf_approvals s'"
  by (rule wf_lawful [where f = id]) simp_all

section \<open>Deciding a step\<close>

text \<open>What a decision writes: an actor row, the step, perhaps its successor, and the approval.\<close>

definition decision_row :: "approval_step \<Rightarrow> string \<Rightarrow> string \<Rightarrow> string \<Rightarrow> string \<Rightarrow> int \<Rightarrow> step_actor" where
  "decision_row x actorID by decision comment now = \<lparr>sa_tenant_id = st_tenant_id x, sa_approval_id = st_approval_id x,
     sa_step_id = st_id x, sa_actor_id = actorID, sa_delegated_by = by, sa_decision = decision, sa_comment = comment,
     sa_acted_at = now\<rparr>"

definition decided_step :: "approval_step \<Rightarrow> approval_step option \<Rightarrow> step_status \<Rightarrow> string \<Rightarrow> string \<Rightarrow> string \<Rightarrow> int \<Rightarrow>
  approval_step \<Rightarrow> approval_step" where
  "decided_step step nxt verdict actorID decision comment now y =
     (if st_id y = st_id step then y\<lparr>st_status := verdict, st_decision := decision, st_comment := comment,
        st_acted_by := Some actorID, st_acted_at := Some now\<rparr>
      else if (\<exists>n. nxt = Some n \<and> st_id y = st_id n) then y\<lparr>st_status := ApprovalStepCurrent\<rparr> else y)"

definition decides :: "string \<Rightarrow> string \<Rightarrow> string \<Rightarrow> string \<Rightarrow> string \<Rightarrow> string \<Rightarrow> int \<Rightarrow> ap_store \<Rightarrow> approval \<Rightarrow> approval_step \<Rightarrow>
  approval_step option \<Rightarrow> bool \<Rightarrow> ap_store \<Rightarrow> bool" where
  "decides t i actorID by decision comment now s a step nxt completed s' \<longleftrightarrow>
     a \<in> set (approvals s) \<and> ap_tenant_id a = t \<and> ap_id a = i \<and> ap_status a = ApprovalStatusPendingApproval \<and>
     step \<in> steps_of s a \<and> st_step_no step = ap_current_step a \<and> st_status step = ApprovalStepCurrent \<and>
     (\<forall>r\<in>set (step_actors s). on_step step r \<longrightarrow> sa_actor_id r \<noteq> actorID) \<and>
     step_actors s' = step_actors s @ [decision_row step actorID by decision comment now] \<and>
     (\<exists>verdict. step_verdict decision step (count_approvals step (step_actors s')) = (verdict, completed) \<and>
        set (approval_steps s') = decided_step step nxt verdict actorID decision comment now ` set (approval_steps s) \<and>
        map st_id (approval_steps s') = map st_id (approval_steps s) \<and>
        map (\<lambda>x. (st_approval_id x, st_step_no x)) (approval_steps s') =
          map (\<lambda>x. (st_approval_id x, st_step_no x)) (approval_steps s)) \<and>
     nxt = (if completed then find_step t i (st_step_no step + 1) s else None) \<and>
     approvals s' = map (\<lambda>x. if ap_tenant_id x = t \<and> ap_id x = i \<and> ap_status x = ApprovalStatusPendingApproval \<and>
        ap_current_step x = ap_current_step a then decided_approval decision completed (nxt = None) (st_step_no step) now x else x)
        (approvals s)"

lemma DecideApprovalStep_tx_decides:
  assumes "DecideApprovalStep_tx t i actorID by decision comment now action s = (Inr r, s')"
  shows "\<exists>a step nxt completed. decides t i actorID by decision comment now s a step nxt completed s'"
proof -
  obtain a where a: "sql_first (\<lambda>a. ap_tenant_id a = t \<and> ap_id a = i \<and> ap_status a = ApprovalStatusPendingApproval)
      (approvals s) = Some a"
    using assms by (auto simp: DecideApprovalStep_tx_def split: option.splits)
  obtain step where x: "sql_first (\<lambda>x. st_tenant_id x = t \<and> st_approval_id x = i \<and> st_step_no x = ap_current_step a \<and>
      st_status x = ApprovalStepCurrent) (approval_steps s) = Some step"
    using assms a by (auto simp: DecideApprovalStep_tx_def split: option.splits)
  let ?row = "decision_row step actorID by decision comment now"
  note aD = sql_firstD [OF a] and xD = sql_firstD [OF x]
  obtain verdict completed where v: "step_verdict decision step (count_approvals step (step_actors s @ [?row])) = (verdict, completed)"
    by fastforce
  have row: "\<lparr>sa_tenant_id = t, sa_approval_id = i, sa_step_id = st_id step, sa_actor_id = actorID, sa_delegated_by = by,
      sa_decision = decision, sa_comment = comment, sa_acted_at = now\<rparr> = ?row"
    using xD by (simp add: decision_row_def)
  note e = assms [unfolded DecideApprovalStep_tx_def a x option.case row Let_def v prod.case]
  have fresh: "\<forall>r\<in>set (step_actors s). on_step step r \<longrightarrow> sa_actor_id r \<noteq> actorID"
    using e xD by (auto simp: on_step_def split: if_splits)
  define nxt where "nxt = (if completed then find_step t i (st_step_no step + 1) s else None)"
  let ?steps1 = "case nxt of None \<Rightarrow> approval_steps s
    | Some n \<Rightarrow> sql_update (\<lambda>x. st_id x = st_id n) (\<lambda>x. x\<lparr>st_status := ApprovalStepCurrent\<rparr>) (approval_steps s)"
  let ?steps2 = "sql_update (\<lambda>x. st_id x = st_id step) (\<lambda>x. x\<lparr>st_status := verdict, st_decision := decision,
    st_comment := comment, st_acted_by := Some actorID, st_acted_at := Some now\<rparr>) ?steps1"
  let ?rows = "sql_update (\<lambda>x. ap_tenant_id x = t \<and> ap_id x = i \<and> ap_status x = ApprovalStatusPendingApproval \<and>
    ap_current_step x = ap_current_step a) (decided_approval decision completed (nxt = None) (st_step_no step) now) (approvals s)"
  have s': "step_actors s' = step_actors s @ [?row]" "approval_steps s' = ?steps2" "approvals s' = ?rows"
    using e unfolding nxt_def [symmetric] by (auto split: if_splits option.splits)
  have "?steps2 = map (decided_step step nxt verdict actorID decision comment now) (approval_steps s)"
    by (cases nxt) (auto simp: sql_update_def decided_step_def)
  then have st: "approval_steps s' = map (decided_step step nxt verdict actorID decision comment now) (approval_steps s)"
    using s'(2) by simp
  have "decides t i actorID by decision comment now s a step nxt completed s'"
    unfolding decides_def
  proof (intro conjI exI [of _ verdict])
    show "step_verdict decision step (count_approvals step (step_actors s')) = (verdict, completed)" using v s'(1) by simp
    show "map st_id (approval_steps s') = map st_id (approval_steps s)"
      "map (\<lambda>x. (st_approval_id x, st_step_no x)) (approval_steps s') =
        map (\<lambda>x. (st_approval_id x, st_step_no x)) (approval_steps s)"
      by (simp_all add: st decided_step_def)
    show "set (approval_steps s') = decided_step step nxt verdict actorID decision comment now ` set (approval_steps s)"
      by (simp add: st)
    show "step \<in> steps_of s a" using aD xD by (simp add: steps_of_def step_of_def)
    show "nxt = (if completed then find_step t i (st_step_no step + 1) s else None)" by (rule nxt_def)
    show "step_actors s' = step_actors s @ [?row]" by (rule s'(1))
  qed (use aD xD fresh s'(3) in \<open>simp_all add: sql_update_def\<close>)
  then show ?thesis by blast
qed

lemma decided_step_fields [simp]:
  "st_id (decided_step step nxt v actorID decision comment now y) = st_id y"
  "st_step_no (decided_step step nxt v actorID decision comment now y) = st_step_no y"
  "step_of a (decided_step step nxt v actorID decision comment now y) = step_of a y"
  "on_step (decided_step step nxt v actorID decision comment now y) = on_step y"
  "st_mode (decided_step step nxt v actorID decision comment now y) = st_mode y"
  "st_required (decided_step step nxt v actorID decision comment now y) = st_required y"
  "ApprovalStepApprovers (decided_step step nxt v actorID decision comment now y) = ApprovalStepApprovers y"
  by (auto simp: decided_step_def step_of_def on_step_def fun_eq_iff ApprovalStepApprovers_def)

lemma required_decided [simp]: "ApprovalStepRequiredApprovals (decided_step step nxt v actorID decision comment now y) =
    ApprovalStepRequiredApprovals y"
  by (simp add: ApprovalStepRequiredApprovals_def Let_def)

lemma decided_approval_fields [simp]:
  "ap_id (decided_approval decision c l no now a) = ap_id a"
  "ap_tenant_id (decided_approval decision c l no now a) = ap_tenant_id a"
  "ap_requester_id (decided_approval decision c l no now a) = ap_requester_id a"
  by (auto simp: decided_approval_def Let_def)

lemma steps_of_step: "y \<in> steps_of s b \<Longrightarrow> y \<in> set (approval_steps s) \<and> step_of b y"
  by (simp add: steps_of_def)

lemma step_of_same:
  assumes "wf_approvals s" "a \<in> set (approvals s)" "b \<in> set (approvals s)" "step_of a y" "step_of b y"
  shows "a = b"
  using uniq_inj [OF wf_approvalsD(1) [OF assms(1)] assms(2, 3)] assms(4, 5) by (simp add: step_of_def)

lemma steps_of_decided:
  assumes "set (approval_steps s') = decided_step step nxt v actorID decision comment now ` set (approval_steps s)"
    and "ap_id b' = ap_id b" "ap_tenant_id b' = ap_tenant_id b"
  shows "steps_of s' b' = decided_step step nxt v actorID decision comment now ` steps_of s b"
  using assms(2, 3) by (auto simp: steps_of_def assms(1) step_of_def decided_step_def)

lemma step_no_unique:
  assumes "wf_approvals s" "x \<in> steps_of s a" "y \<in> steps_of s a" "st_step_no x = st_step_no y"
  shows "x = y"
  using uniq_inj [OF wf_approvalsD(3) [OF assms(1)], of x y] assms(2-4) by (auto simp: steps_of_def step_of_def)

lemma step_id_unique:
  assumes "wf_approvals s" "x \<in> set (approval_steps s)" "y \<in> set (approval_steps s)" "st_id x = st_id y"
  shows "x = y"
  using uniq_inj [OF wf_approvalsD(2) [OF assms(1)] assms(2, 3)] assms(4) by simp

lemma decided_step_other:
  assumes "wf_approvals s" "y \<in> set (approval_steps s)" "step \<in> set (approval_steps s)" "y \<noteq> step"
    and "\<And>n. nxt = Some n \<Longrightarrow> n \<in> set (approval_steps s) \<and> y \<noteq> n"
  shows "decided_step step nxt v actorID decision comment now y = y"
  using step_id_unique [OF assms(1, 2)] assms(3-5) unfolding decided_step_def by metis

lemma next_step:
  assumes "find_step t i no s = Some n" "ap_tenant_id a = t" "ap_id a = i"
  shows "n \<in> steps_of s a \<and> st_step_no n = no"
  using assms by (auto simp: find_step_def steps_of_def step_of_def dest: sql_firstD)

lemma no_next_step: "find_step (ap_tenant_id a) (ap_id a) no s = None \<Longrightarrow> no \<notin> st_step_no ` steps_of s a"
  by (auto simp: find_step_def sql_first_None steps_of_def step_of_def)

text \<open>The approval that is decided.\<close>

lemma progress_decided:
  assumes w: "wf_approvals s" "wf_approvals s \<Longrightarrow> uniq actor_key (step_actors s')"
    and d: "decides t i actorID by decision comment now s a step nxt completed s'"
  shows "progress s' (decided_approval decision completed (nxt = None) (st_step_no step) now a)" (is "progress s' ?b")
proof -
  obtain v where v: "step_verdict decision step (count_approvals step (step_actors s')) = (v, completed)"
    and st: "set (approval_steps s') = decided_step step nxt v actorID decision comment now ` set (approval_steps s)"
    using d by (auto simp: decides_def)
  let ?f = "decided_step step nxt v actorID decision comment now"
  have a: "a \<in> set (approvals s)" "ap_tenant_id a = t" "ap_id a = i" "ap_status a = ApprovalStatusPendingApproval"
    and x: "step \<in> steps_of s a" "st_step_no step = ap_current_step a"
    and nxt: "nxt = (if completed then find_step t i (st_step_no step + 1) s else None)"
    and rows: "set (step_actors s) \<subseteq> set (step_actors s')"
    using d by (auto simp: decides_def)
  have so: "steps_of s' ?b = ?f ` steps_of s a" by (rule steps_of_decided [OF st]) simp_all
  have no: "st_step_no ` steps_of s' ?b = st_step_no ` steps_of s a" by (simp add: so image_image)
  obtain n where n: "n \<ge> 1" "st_step_no ` steps_of s a = {1..n}" "1 \<le> ap_current_step a" "ap_current_step a \<le> n"
    and before: "\<And>y. y \<in> steps_of s a \<Longrightarrow> st_step_no y < ap_current_step a \<Longrightarrow> signed s y"
    using wf_approvalsD(6) [OF w(1) a(1)] a(4) unfolding progress_def by blast
  have early: "signed s' (?f y)" if "y \<in> steps_of s a" "st_step_no y < ap_current_step a" for y
  proof -
    have "?f y = y"
      using that x nxt next_step [OF _ a(2, 3)] by (intro decided_step_other [OF w(1)]) (auto simp: steps_of_def split: if_splits)
    then show ?thesis using signed_mono [OF rows before [OF that]] by simp
  qed
  have this_step: "signed s' (?f step)" if "completed" "decision \<noteq> ApprovalDecisionReject"
  proof -
    have "v = ApprovalStepApproved" "ApprovalStepRequiredApprovals step \<le> count_approvals step (step_actors s')"
      using v that by (auto simp: step_verdict_def split: if_splits)
    then show ?thesis using card_signers [OF w(2) [OF w(1)], of step]
      by (simp add: signed_def signers_def) (simp add: decided_step_def)
  qed
  have upto: "signed s' (?f y)" if "y \<in> steps_of s a" "st_step_no y \<le> ap_current_step a" "completed"
    "decision \<noteq> ApprovalDecisionReject" for y
    using that early [of y] this_step x step_no_unique [OF w(1) that(1) x(1)] by force
  have last_step: "ap_current_step a = n" if "completed" "nxt = None"
    using no_next_step [of a "ap_current_step a + 1" s] n that nxt a x(2) by auto
  have more: "ap_current_step a + 1 \<le> n" if "completed" "nxt \<noteq> None"
    using nxt that next_step [OF _ a(2, 3), of "st_step_no step + 1" s] n(2) x(2) by force
  show ?thesis
  proof (cases "decision = ApprovalDecisionReject \<or> \<not> completed")
    case True
    have "\<forall>y\<in>steps_of s' ?b. st_step_no y < ap_current_step a \<longrightarrow> signed s' y" using early unfolding so by auto
    then show ?thesis using True n no a(4)
      by (auto simp: progress_def decided_approval_def Let_def granted_statuses_def)
  next
    case False
    have "\<forall>y\<in>steps_of s' ?b. st_step_no y \<le> ap_current_step a \<longrightarrow> signed s' y" using False upto unfolding so by auto
    moreover have "st_step_no y \<le> n" if "y \<in> steps_of s' ?b" for y using no n(2) that by fastforce
    ultimately show ?thesis using False n no last_step more x(2) a(4)
      by (cases "nxt = None") (auto simp: progress_def decided_approval_def Let_def granted_statuses_def)
  qed
qed

text \<open>Another approval keeps its steps.\<close>

lemma progress_undecided:
  assumes w: "wf_approvals s" and d: "decides t i actorID by decision comment now s a step nxt completed s'"
    and b: "b \<in> set (approvals s)" "b \<noteq> a"
  shows "progress s' b"
proof -
  obtain v where st: "set (approval_steps s') = decided_step step nxt v actorID decision comment now ` set (approval_steps s)"
    using d by (auto simp: decides_def)
  have a: "a \<in> set (approvals s)" "ap_tenant_id a = t" "ap_id a = i" and x: "step \<in> steps_of s a"
    and nxt: "nxt = (if completed then find_step t i (st_step_no step + 1) s else None)"
    and rows: "set (step_actors s) \<subseteq> set (step_actors s')"
    using d by (auto simp: decides_def)
  have "decided_step step nxt v actorID decision comment now y = y" if "y \<in> steps_of s b" for y
  proof (rule decided_step_other [OF w])
    have o: "y \<noteq> z" if "z \<in> steps_of s a" for z
      using step_of_same [OF w b(1) a(1), of y] steps_of_step [OF \<open>y \<in> steps_of s b\<close>] steps_of_step [OF that] b(2) by blast
    show "y \<noteq> step" using o [OF x] .
    show "n \<in> set (approval_steps s) \<and> y \<noteq> n" if "nxt = Some n" for n
      using o [of n] nxt that next_step [OF _ a(2, 3)] by (auto simp: steps_of_def split: if_splits)
  qed (use that x in \<open>auto simp: steps_of_def\<close>)
  then have "steps_of s' b = steps_of s b" using steps_of_decided [OF st, of b b] by simp
  then show ?thesis using wf_approvalsD(6) [OF w b(1)] signed_mono [OF rows] unfolding progress_def by auto
qed

lemma wf_decides:
  assumes w: "wf_approvals s" and d: "decides t i actorID by decision comment now s a step nxt completed s'"
    and r: "ap_requester_id a \<noteq> actorID"
  shows "wf_approvals s'"
proof (rule wf_approvalsI)
  note wD = wf_approvalsD [OF w]
  let ?row = "decision_row step actorID by decision comment now"
  let ?f = "\<lambda>x. if ap_tenant_id x = t \<and> ap_id x = i \<and> ap_status x = ApprovalStatusPendingApproval \<and>
    ap_current_step x = ap_current_step a then decided_approval decision completed (nxt = None) (st_step_no step) now x else x"
  have ap: "approvals s' = map ?f (approvals s)" and rows: "step_actors s' = step_actors s @ [?row]"
    and ids: "map st_id (approval_steps s') = map st_id (approval_steps s)"
      "map (\<lambda>x. (st_approval_id x, st_step_no x)) (approval_steps s') = map (\<lambda>x. (st_approval_id x, st_step_no x)) (approval_steps s)"
    and a: "a \<in> set (approvals s)" "ap_tenant_id a = t" "ap_id a = i" "ap_status a = ApprovalStatusPendingApproval"
    and x: "step \<in> steps_of s a" and fresh: "\<forall>r\<in>set (step_actors s). on_step step r \<longrightarrow> sa_actor_id r \<noteq> actorID"
    using d by (auto simp: decides_def)
  have "map ap_id (approvals s') = map ap_id (approvals s)" by (simp add: ap)
  then show "uniq ap_id (approvals s')" using wD(1) by (simp add: uniq_def)
  show "uniq st_id (approval_steps s')" "uniq (\<lambda>x. (st_approval_id x, st_step_no x)) (approval_steps s')"
    using wD(2, 3) ids by (simp_all add: uniq_def)
  show u: "uniq actor_key (step_actors s')"
    using wD(4) fresh unfolding rows uniq_append by (auto simp: actor_key_def decision_row_def on_step_def)
  show "\<exists>b\<in>set (approvals s'). step_of b y" if y: "y \<in> set (approval_steps s')" for y
  proof -
    obtain v where st: "set (approval_steps s') = decided_step step nxt v actorID decision comment now ` set (approval_steps s)"
      using d by (auto simp: decides_def)
    obtain z where z: "z \<in> set (approval_steps s)" "y = decided_step step nxt v actorID decision comment now z"
      using y [unfolded st] by (rule imageE)
    then obtain b where "b \<in> set (approvals s)" "step_of b y" using wD(5) [OF z(1)] by auto
    then show ?thesis by (intro bexI [of _ "?f b"]) (auto simp: ap step_of_def)
  qed
  show "progress s' b" if b: "b \<in> set (approvals s')" for b
  proof -
    obtain c where c: "c \<in> set (approvals s)" "b = ?f c" using b by (auto simp: ap)
    show ?thesis
    proof (cases "c = a")
      case True
      then show ?thesis using progress_decided [OF w u d] c a by simp
    next
      case False
      then have "ap_id c \<noteq> i" using uniq_inj [OF wD(1) c(1) a(1)] a(3) by auto
      then show ?thesis using progress_undecided [OF w d c(1) False] c(2) by simp
    qed
  qed
  show "sa_actor_id q \<noteq> ap_requester_id b" if q: "q \<in> set (step_actors s')" "b \<in> set (approvals s')"
    "sa_tenant_id q = ap_tenant_id b" "sa_approval_id q = ap_id b" for q b
  proof -
    obtain c where c: "c \<in> set (approvals s)" "b = ?f c" using q(2) by (auto simp: ap)
    then have c': "ap_tenant_id b = ap_tenant_id c" "ap_id b = ap_id c" "ap_requester_id b = ap_requester_id c" by simp_all
    show ?thesis
    proof (cases "q = ?row")
      case True
      then have "ap_id c = i" using q(4) c' x a(3) by (simp add: decision_row_def steps_of_def step_of_def)
      then have "c = a" using uniq_inj [OF wD(1) c(1) a(1)] a(3) by simp
      then show ?thesis using r True c' by (simp add: decision_row_def)
    next
      case False
      then show ?thesis using wD(7) [of q c] q c(1) c' by (auto simp: rows)
    qed
  qed
qed

section \<open>Submission and purge\<close>

lemma enumerate_steps:
  "check_sequence k prev sps = Inr () \<Longrightarrow> map st_step_no (map (\<lambda>(i, sp). step_of_spec t p now i (ids i) sp) (enumerate k sps)) =
    map (\<lambda>i. int i + 1) [k..<k + length sps]"
proof (induction sps arbitrary: k prev)
  case (Cons sp sps)
  then have "sp_step_no sp = int k + 1" and c: "check_sequence (Suc k) (sp_approvers sp) sps = Inr ()"
    by (auto split: if_splits)
  moreover have "[k..<k + length (sp # sps)] = k # [Suc k..<Suc k + length sps]" by (simp add: upt_conv_Cons del: upt_Suc)
  ultimately show ?case using Cons.IH [OF c] by (simp add: step_of_spec_def del: upt_Suc)
qed simp

lemma normalize_steps_length: "normalize_steps sps = Inr sps' \<Longrightarrow> length sps' = length sps"
  by (induction sps arbitrary: sps') (auto split: sum.splits)

lemma steps_from_policy:
  assumes "approvalStepsFromPolicy t p now ids = Inr steps"
  shows "steps \<noteq> [] \<and> (\<forall>x\<in>set steps. st_tenant_id x = t) \<and> map st_step_no steps = map (\<lambda>i. int i + 1) [0..<length steps]"
proof -
  obtain sps sps' where sps: "po_steps p = Some sps" "sps \<noteq> []" "validateApprovalSteps sps = Inr sps'"
    and steps: "steps = map (\<lambda>(i, sp). step_of_spec t p now i (ids i) sp) (enumerate 0 sps')"
    using assms by (auto simp: approvalStepsFromPolicy_def split: option.splits if_splits sum.splits)
  have n: "length sps' = length sps" and c: "check_sequence 0 [] sps' = Inr ()"
    using sps(3) by (auto simp: validateApprovalSteps_def normalize_steps_length split: sum.splits)
  show ?thesis using enumerate_steps [OF c, of t p now ids] sps(2) n
    by (auto simp: steps step_of_spec_def)
qed

lemma image_step_numbers: "map st_step_no steps = map (\<lambda>i. int i + 1) [0..<length steps] \<Longrightarrow>
    st_step_no ` set steps = {1..int (length steps)}"
proof -
  assume "map st_step_no steps = map (\<lambda>i. int i + 1) [0..<length steps]"
  then have "st_step_no ` set steps = (\<lambda>i. int i + 1) ` {0..<length steps}"
    by (metis list.set_map set_upt)
  also have "\<dots> = {1..int (length steps)}"
  proof (intro set_eqI iffI)
    fix k :: int
    assume "k \<in> {1..int (length steps)}"
    then show "k \<in> (\<lambda>i. int i + 1) ` {0..<length steps}" by (intro image_eqI [of _ _ "nat (k - 1)"]) auto
  qed auto
  finally show ?thesis .
qed

end
