(* ===== verification/Approval_Checks.thy ===== *)
theory Approval_Checks
  imports Approvals Authz_Props
begin

text \<open>
  What a decision that passes its check was checked for, under faults anywhere: the specification
  of an eligible approver in terms of the stored roles, teams and delegations.
\<close>

section \<open>Reads under faults\<close>

lemma on_ap_ids_healthy: "m (as_ids s, []) = (r, as_ids s, []) \<Longrightarrow> on_ap_ids m (s, []) = (r, s, [])"
  by (simp add: on_ap_ids_def)

lemma sound_on_ap_ids [intro]:
  assumes "sound m"
  shows "sound (on_ap_ids m)"
  unfolding sound_def
proof (intro allI impI)
  fix s fs a d
  assume e: "on_ap_ids m (s, fs) = (Inr a, d)"
  obtain i fs1 where m: "m (as_ids s, fs) = (Inr a, i, fs1)" and d: "d = (s\<lparr>as_ids := i\<rparr>, fs1)"
    using e by (auto simp: on_ap_ids_def Let_def split: prod.splits)
  from soundD [OF assms m] have "m (as_ids s, []) = (Inr a, as_ids s, [])" "i = as_ids s" by simp_all
  then show "on_ap_ids m (s, []) = (Inr a, s, []) \<and> fst d = s" by (simp add: on_ap_ids_healthy d)
qed

lemmas ap_reads = store_GetApproval_def GetApprovalByID_def ListApprovalSteps_def ListApprovalStepActors_def
  ListActiveApprovalDelegations_def ListUserTeams_def

lemma sound_CurrentApprovalStep: "sound (CurrentApprovalStep t i)"
  unfolding CurrentApprovalStep_def by (intro sound_rules)

lemma sound_getVisible: "sound (getVisibleApproval actorID tenantID i)"
  unfolding getVisibleApproval_def ap_reads
  by (intro sound_rules sound_if sound_on_ap_ids sound_authz sound_Authorize)

lemma sound_userRoles: "sound (approvalUserRoles actorID)"
  unfolding approvalUserRoles_def ap_reads expandRoles_def
  by (intro sound_rules sound_on_ap_ids sound_expand_loop) (simp_all add: id_reads)

lemma sound_no_earlier: "sound (no_earlier_decision a xs no actorID)"
  by (induction xs) (auto simp: ap_reads simp del: ret_eq fail_eq intro!: sound_rules)

lemma sound_approver_of: "sound (approver_of a step actorID now)"
  unfolding approver_of_def ap_reads Let_def
proof (rule sound_chk [OF sound_userRoles])
  fix x :: "string list \<times> string list"
  show "sound (case x of (roleIDs, teamIDs) \<Rightarrow>
     if approvalApproverMatches step actorID roleIDs teamIDs then ret []
     else chk (query (\<lambda>s. filter (\<lambda>x. dg_tenant_id x = ap_tenant_id a \<and> dg_delegate_id x = actorID \<and> dg_starts_at x \<le> now \<and>
       now < dg_ends_at x \<and> (dg_object_type x = [] \<or> dg_object_type x = ap_object_type a) \<and>
       (dg_action x = [] \<or> dg_action x = ap_action a)) (delegations s))) (\<lambda>gs.
       if delegating_principal step gs = [] then fail (Forbidden ''not authorized for this approval step'')
       else ret (delegating_principal step gs)))"
    by (cases x) (auto simp del: ret_eq fail_eq intro!: sound_rules)
qed

lemma sound_decide_check: "sound (decide_check actorID tenantID i now)"
  unfolding decide_check_def ListApprovalSteps_def
  by (intro sound_rules sound_if sound_getVisible sound_CurrentApprovalStep sound_approver_of sound_no_earlier)

section \<open>Eligible approvers\<close>

definition roles_held :: "id_store \<Rightarrow> string \<Rightarrow> string set" where
  "roles_held s userID = (parent_rel s)\<^sup>* `` ({ro_id r | r. r \<in> set (roles s) \<and> (userID, ro_id r) \<in> set (user_roles s)} - {[]})"

text \<open>The user, role or team the step was made for is the first of its approvers.\<close>

definition named_approver :: "ap_store \<Rightarrow> approval_step \<Rightarrow> string \<Rightarrow> bool" where
  "named_approver s step actorID \<longleftrightarrow>
     st_approver_type step = ApprovalApproverUser \<and> st_approver_value step = actorID \<or>
     st_approver_type step = ApprovalApproverRole \<and> st_approver_value step \<in> roles_held (as_ids s) actorID \<or>
     st_approver_type step = ApprovalApproverTeam \<and>
       (\<exists>t\<in>set (teams (as_ids s)). tm_id t = st_approver_value step \<and> (actorID, tm_id t) \<in> set (user_teams (as_ids s)))"

definition acts_for :: "ap_store \<Rightarrow> approval \<Rightarrow> approval_step \<Rightarrow> string \<Rightarrow> int \<Rightarrow> string \<Rightarrow> bool" where
  "acts_for s a step actorID now pr \<longleftrightarrow> (\<exists>g\<in>set (delegations s).
     dg_tenant_id g = ap_tenant_id a \<and> dg_delegate_id g = actorID \<and> dg_principal_id g = pr \<and> pr \<noteq> [] \<and>
     dg_starts_at g \<le> now \<and> now < dg_ends_at g \<and>
     (dg_object_type g = [] \<or> dg_object_type g = ap_object_type a) \<and> (dg_action g = [] \<or> dg_action g = ap_action a) \<and>
     (\<exists>x\<in>set (ApprovalStepApprovers step). av_type x = ApprovalApproverUser \<and> av_value x = pr))"

definition eligible :: "ap_store \<Rightarrow> approval \<Rightarrow> approval_step \<Rightarrow> string \<Rightarrow> int \<Rightarrow> string \<Rightarrow> bool" where
  "eligible s a step actorID now by \<longleftrightarrow>
     (if by = [] then named_approver s step actorID
      else \<not> named_approver s step actorID \<and> acts_for s a step actorID now by)"

lemma userRoles_healthy: "\<exists>roleIDs. approvalUserRoles actorID (s, []) =
    (Inr (roleIDs, map tm_id (filter (\<lambda>t. (actorID, tm_id t) \<in> set (user_teams (as_ids s))) (teams (as_ids s)))), s, []) \<and>
    set roleIDs = roles_held (as_ids s) actorID"
proof -
  let ?rs = "sort_key ro_id (concat (map (\<lambda>r. map (\<lambda>_. r)
    (filter (\<lambda>ur. ur = (actorID, ro_id r)) (user_roles (as_ids s)))) (roles (as_ids s))))"
  have set: "set ?rs = {r \<in> set (roles (as_ids s)). (actorID, ro_id r) \<in> set (user_roles (as_ids s))}" by (rule user_roles_set)
  then have mine: "ro_id ` set ?rs = {ro_id r | r. r \<in> set (roles (as_ids s)) \<and> (actorID, ro_id r) \<in> set (user_roles (as_ids s))}"
    by auto
  obtain rids where e: "expandRoles ?rs (as_ids s, []) = (Inr rids, as_ids s, [])"
    and r: "set rids = (parent_rel (as_ids s))\<^sup>* `` (ro_id ` set ?rs - {[]})"
    using expandRoles_closure [of ?rs "as_ids s"] by blast
  have "ListRolesByUser actorID (as_ids s, []) = (Inr ?rs, as_ids s, [])" by (simp add: ListRolesByUser_def)
  moreover have "ListUserTeams actorID (as_ids s, []) =
      (Inr (filter (\<lambda>t. (actorID, tm_id t) \<in> set (user_teams (as_ids s))) (teams (as_ids s))), as_ids s, [])"
    by (simp add: ListUserTeams_def)
  ultimately show ?thesis using e r unfolding mine roles_held_def [symmetric]
    by (auto simp: approvalUserRoles_def chk_def on_ap_ids_healthy)
qed

lemma approver_of_spec:
  assumes "approver_of a step actorID now (s, []) = (Inr by, d)"
  shows "eligible s a step actorID now by"
proof -
  let ?gs = "filter (\<lambda>x. dg_tenant_id x = ap_tenant_id a \<and> dg_delegate_id x = actorID \<and> dg_starts_at x \<le> now \<and> now < dg_ends_at x \<and>
     (dg_object_type x = [] \<or> dg_object_type x = ap_object_type a) \<and> (dg_action x = [] \<or> dg_action x = ap_action a)) (delegations s)"
  obtain rids where u: "approvalUserRoles actorID (s, []) =
      (Inr (rids, map tm_id (filter (\<lambda>t. (actorID, tm_id t) \<in> set (user_teams (as_ids s))) (teams (as_ids s)))), s, [])"
    and r: "set rids = roles_held (as_ids s) actorID"
    using userRoles_healthy by blast
  have m: "approvalApproverMatches step actorID rids
      (map tm_id (filter (\<lambda>t. (actorID, tm_id t) \<in> set (user_teams (as_ids s))) (teams (as_ids s)))) \<longleftrightarrow> named_approver s step actorID"
    using r by (auto simp: approvalApproverMatches_def named_approver_def ApprovalApproverUser_def ApprovalApproverRole_def
        ApprovalApproverTeam_def image_iff)
  show ?thesis
  proof (cases "named_approver s step actorID")
    case True
    then show ?thesis using assms u m by (simp add: approver_of_def chk_def eligible_def)
  next
    case False
    then have byD: "by = delegating_principal step ?gs" "by \<noteq> []"
      using assms u m by (auto simp: approver_of_def chk_def ListActiveApprovalDelegations_def Let_def split: if_splits)
    then obtain g where "find (\<lambda>g. \<exists>x\<in>set (ApprovalStepApprovers step). av_type x = ApprovalApproverUser \<and>
        av_value x = dg_principal_id g \<and> dg_principal_id g \<noteq> []) ?gs = Some g" "by = dg_principal_id g"
      by (auto simp: delegating_principal_def split: option.splits)
    then show ?thesis using False byD(2) by (auto simp: eligible_def acts_for_def dest!: find_Some_in)
  qed
qed

lemma no_earlier_spec:
  assumes "no_earlier_decision a xs no actorID (s, []) = (Inr u, d)" "x \<in> set xs" "st_step_no x < no"
    and "r \<in> set (step_actors s)" "sa_tenant_id r = ap_tenant_id a" "sa_approval_id r = ap_id a" "sa_step_id r = st_id x"
  shows "sa_actor_id r \<noteq> actorID"
  using assms by (induction xs) (auto simp: ListApprovalStepActors_def split: if_splits)

text \<open>Everything a decision was checked for, on the tables the check read.\<close>

definition checked :: "ap_store \<Rightarrow> string \<Rightarrow> string \<Rightarrow> int \<Rightarrow> approval \<Rightarrow> approval_step \<Rightarrow> string \<Rightarrow> bool" where
  "checked s actorID i now a step by \<longleftrightarrow>
     a \<in> set (approvals s) \<and> ap_id a = i \<and> ap_status a = ApprovalStatusPendingApproval \<and> now \<le> ap_expires_at a \<and>
     ap_requester_id a \<noteq> actorID \<and> (\<exists>u. active_user (as_ids s) actorID u) \<and>
     find_step (ap_tenant_id a) i (ap_current_step a) s = Some step \<and> st_status step = ApprovalStepCurrent \<and>
     (\<forall>t. st_due_at step = Some t \<longrightarrow> now \<le> t) \<and> eligible s a step actorID now by \<and>
     (\<forall>r\<in>set (step_actors s). \<forall>x\<in>set (approval_steps s). st_tenant_id x = ap_tenant_id a \<and> st_approval_id x = i \<and>
        st_step_no x < ap_current_step a \<and> sa_tenant_id r = ap_tenant_id a \<and> sa_approval_id r = i \<and> sa_step_id r = st_id x \<longrightarrow>
        sa_actor_id r \<noteq> actorID)"

lemma getVisible_spec:
  assumes "getVisibleApproval actorID tenantID i (s, []) = (Inr a, d)"
  shows "a \<in> set (approvals s) \<and> ap_id a = i \<and> (\<exists>u. active_user (as_ids s) actorID u)"
proof -
  obtain ac d1 where ac: "on_ap_ids (authz actorID) (s, []) = (Inr ac, d1)"
    using assms unfolding getVisibleApproval_def by (rule chk_InrE)
  then have d1: "d1 = (s, [])" using soundD [OF sound_on_ap_ids [OF sound_authz] ac] ac by simp
  have "\<exists>u. active_user (as_ids s) actorID u"
  proof (rule ccontr)
    assume "\<nexists>u. active_user (as_ids s) actorID u"
    then show False using ac authz_inactive by (fastforce simp: on_ap_ids_def)
  qed
  moreover have "a \<in> set (approvals s) \<and> ap_id a = i"
    using assms ac d1
    by (auto simp: getVisibleApproval_def chk_def ap_reads row_at_def sql_first_def dest!: find_Some_in
        split: if_splits option.splits prod.splits sum.splits)
  ultimately show ?thesis by blast
qed

lemma decide_check_spec:
  assumes u: "uniq ap_id (approvals s)" and c: "decide_check actorID tenantID i now (s, fs) = (Inr (a, by), d)"
  shows "fst d = s \<and> (\<exists>step. checked s actorID i now a step by)"
proof -
  have h: "decide_check actorID tenantID i now (s, []) = (Inr (a, by), s, [])" "fst d = s"
    using soundD [OF sound_decide_check c] by simp_all
  obtain b d1 where v: "getVisibleApproval actorID tenantID i (s, []) = (Inr b, d1)"
    using h(1) unfolding decide_check_def by (rule chk_InrE)
  have d1: "d1 = (s, [])" using soundD [OF sound_getVisible v] v by simp
  note b = getVisible_spec [OF v]
  note h1 = h(1) [unfolded decide_check_def, unfolded chk_ok [where m = "getVisibleApproval actorID tenantID i" and d = "(s, [])", OF v], unfolded d1]
  have st: "ap_status b = ApprovalStatusPendingApproval" "now \<le> ap_expires_at b" "ap_requester_id b \<noteq> actorID"
    using h1 by (auto split: if_splits)
  have row: "sql_first (\<lambda>x. ap_tenant_id x = ap_tenant_id b \<and> ap_id x = i) (approvals s) = Some b"
  proof -
    obtain c where c: "sql_first (\<lambda>x. ap_tenant_id x = ap_tenant_id b \<and> ap_id x = i) (approvals s) = Some c"
      using b by (cases "sql_first (\<lambda>x. ap_tenant_id x = ap_tenant_id b \<and> ap_id x = i) (approvals s)")
        (auto simp: sql_first_def find_None_conv)
    then have "c \<in> set (approvals s)" "ap_id c = i" by (auto simp: sql_first_def dest: find_Some_in)
    then have "c = b" using b u by (auto simp: uniq_def distinct_map inj_on_def)
    then show ?thesis using c by simp
  qed
  have "CurrentApprovalStep (ap_tenant_id b) (ap_id b) (s, []) =
      (Inr (find_step (ap_tenant_id b) i (ap_current_step b) s), s, [])"
    using row b by (simp add: CurrentApprovalStep_def)
  note current = chk_ok [where m = "CurrentApprovalStep (ap_tenant_id b) (ap_id b)" and d = "(s, [])", OF this]
  have g: "\<not> ap_status b \<noteq> ApprovalStatusPendingApproval" "\<not> ap_expires_at b < now" using st by simp_all
  note h2 = h1 [unfolded if_not_P [OF g(1)] if_not_P [OF g(2)] if_not_P [OF st(3)] current]
  obtain step where step: "find_step (ap_tenant_id b) i (ap_current_step b) s = Some step"
    "st_status step = ApprovalStepCurrent" "\<forall>t. st_due_at step = Some t \<longrightarrow> now \<le> t"
    using h2 st by (auto simp: not_less split: option.splits if_splits)
  have no: "st_step_no step = ap_current_step b"
    using step(1) by (auto simp: find_step_def sql_first_def dest: find_Some_in)
  have h3: "chk (approver_of b step actorID now) (\<lambda>delegatedBy. chk (ListApprovalSteps (ap_tenant_id b) (ap_id b)) (\<lambda>steps.
      chk (no_earlier_decision b steps (st_step_no step) actorID) (\<lambda>_. ret (b, delegatedBy)))) (s, []) = (Inr (a, by), s, [])"
    using h2 st step by (auto simp: not_less split: if_splits)
  obtain p d2 where p: "approver_of b step actorID now (s, []) = (Inr p, d2)" using h3 by (rule chk_InrE)
  have d2: "d2 = (s, [])" using soundD [OF sound_approver_of p] p by simp
  let ?steps = "sort_key st_step_no (filter (\<lambda>x. st_tenant_id x = ap_tenant_id b \<and> st_approval_id x = ap_id b) (approval_steps s))"
  have h4: "chk (no_earlier_decision b ?steps (st_step_no step) actorID) (\<lambda>_. ret (b, p)) (s, []) = (Inr (a, by), s, [])"
    using h3 [unfolded chk_ok [where m = "approver_of b step actorID now" and d = "(s, [])", OF p], unfolded d2] by (simp add: ListApprovalSteps_def)
  obtain q d3 where q: "no_earlier_decision b ?steps (st_step_no step) actorID (s, []) = (Inr q, d3)" using h4 by (rule chk_InrE)
  have ab: "a = b" "by = p" using h4 [unfolded chk_ok [where m = "no_earlier_decision b ?steps (st_step_no step) actorID" and d = "(s, [])", OF q]] by simp_all
  have "checked s actorID i now a step by"
    unfolding checked_def ab using b st step approver_of_spec [OF p] no_earlier_spec [OF q] no by auto
  then show ?thesis using h(2) by blast
qed

end
