(* ===== verification/Approval_Props.thy ===== *)
theory Approval_Props
  imports Approval_Invariant Approval_Checks
begin

text \<open>
  The interleaving of approval operations, the signatures of granted approvals, who may decide, and
  what the separation of check and commit lets through.
\<close>

section \<open>Submission and purge keep the invariant\<close>

lemma CreateApproval_tx:
  assumes "CreateApprovalWithAudit_tx a steps cred action s = (Inr (), s')"
  shows "approvals s' = approvals s @ [a]"
    and "approval_steps s' = approval_steps s @ map (\<lambda>x. x\<lparr>st_approval_id := ap_id a\<rparr>) steps"
    and "step_actors s' = step_actors s" and "ap_id a \<notin> ap_id ` set (approvals s)"
    and "uniq st_id (approval_steps s')" and "uniq (\<lambda>x. (st_approval_id x, st_step_no x)) (approval_steps s')"
  using assms
  by (auto simp: CreateApprovalWithAudit_tx_def Let_def uniq_def simp del: map_append distinct_append map_map split: if_splits)

lemma wf_submit:
  assumes w: "wf_approvals s" and c: "CreateApprovalWithAudit_tx a steps cred action s = (Inr (), s')"
    and p: "approvalStepsFromPolicy (ap_tenant_id a) p now ids = Inr steps"
    and a: "ap_status a = ApprovalStatusPendingApproval" "ap_current_step a = 1"
    and fresh: "\<forall>r\<in>set (step_actors s). sa_approval_id r \<noteq> ap_id a"
  shows "wf_approvals s'"
proof (rule wf_approvalsI)
  note wD = wf_approvalsD [OF w] and cD = CreateApproval_tx [OF c] and sp = steps_from_policy [OF p]
  let ?new = "map (\<lambda>x. x\<lparr>st_approval_id := ap_id a\<rparr>) steps"
  have new: "step_of a x \<longleftrightarrow> x \<in> set ?new" if "x \<in> set (approval_steps s')" for x
  proof
    assume o: "step_of a x"
    have "x \<notin> set (approval_steps s)" using wD(5) [of x] o cD(4) by (force simp: step_of_def)
    then show "x \<in> set ?new" using that cD(2) by simp
  qed (use sp in \<open>auto simp: step_of_def\<close>)
  have old: "steps_of s' b = steps_of s b" if "b \<in> set (approvals s)" for b
    using that cD(2, 4) by (auto simp: steps_of_def step_of_def)
  have "steps_of s' a = set ?new" using new cD(2) by (auto simp: steps_of_def)
  then have no: "st_step_no ` steps_of s' a = {1..int (length steps)}"
    using image_step_numbers [of steps] sp by (simp add: image_image)
  show "uniq ap_id (approvals s')" using wD(1) cD(1, 4) by (simp add: uniq_append)
  show "uniq st_id (approval_steps s')" "uniq (\<lambda>x. (st_approval_id x, st_step_no x)) (approval_steps s')" by fact+
  show "uniq actor_key (step_actors s')" using wD(4) cD(3) by simp
  show "\<exists>b\<in>set (approvals s'). step_of b x" if "x \<in> set (approval_steps s')" for x
    using that new [OF that] wD(5) [of x] cD(1, 2) by auto
  show "progress s' b" if "b \<in> set (approvals s')" for b
  proof (cases "b = a")
    case True
    have "int (length steps) \<ge> 1" using sp by (cases steps) auto
    moreover have "\<not> st_step_no x < 1" if "x \<in> steps_of s' a" for x using imageI [OF that, of st_step_no] no by simp
    ultimately show ?thesis using no a True by (auto simp: progress_def granted_statuses_def)
  next
    case False
    then have b: "b \<in> set (approvals s)" using that cD(1) by simp
    show ?thesis using wD(6) [OF b] unfolding progress_def old [OF b] signed_cong [OF cD(3)] .
  qed
  show "sa_actor_id r \<noteq> ap_requester_id b" if "r \<in> set (step_actors s')" "b \<in> set (approvals s')"
    "sa_tenant_id r = ap_tenant_id b" "sa_approval_id r = ap_id b" for r b
    using that wD(7) [of r b] fresh cD(1, 3) by auto
qed

lemma uniq_filter: "uniq key rows \<Longrightarrow> uniq key (filter P rows)"
  by (simp add: uniq_def distinct_map_filter)

lemma wf_purge:
  assumes w: "wf_approvals s" and c: "purge_approval_tx a s = (Inr (), s')"
  shows "wf_approvals s'"
proof (rule wf_approvalsI)
  note wD = wf_approvalsD [OF w]
  have ap: "approvals s' = filter (\<lambda>x. \<not> (ap_tenant_id x = ap_tenant_id a \<and> ap_id x = ap_id a)) (approvals s)"
    and st: "approval_steps s' = filter (\<lambda>x. \<not> (st_tenant_id x = ap_tenant_id a \<and> st_approval_id x = ap_id a)) (approval_steps s)"
    and rows: "step_actors s' = step_actors s"
    using c by (auto simp: purge_approval_tx_def split: if_splits)
  show "uniq ap_id (approvals s')" "uniq st_id (approval_steps s')"
    "uniq (\<lambda>x. (st_approval_id x, st_step_no x)) (approval_steps s')" "uniq actor_key (step_actors s')"
    using wD(1-4) by (simp_all add: ap st rows uniq_filter)
  show "\<exists>b\<in>set (approvals s'). step_of b x" if "x \<in> set (approval_steps s')" for x
    using wD(5) [of x] that by (auto simp: ap st step_of_def)
  show "progress s' b" if "b \<in> set (approvals s')" for b
  proof -
    have "steps_of s' b = steps_of s b" using that by (auto simp: ap st steps_of_def step_of_def)
    then show ?thesis using wD(6) [of b] that unfolding progress_def signed_cong [OF rows] by (simp add: ap)
  qed
  show "sa_actor_id r \<noteq> ap_requester_id b" if "r \<in> set (step_actors s')" "b \<in> set (approvals s')"
    "sa_tenant_id r = ap_tenant_id b" "sa_approval_id r = ap_id b" for r b
    using that wD(7) [of r b] by (auto simp: ap rows)
qed

section \<open>The interleaving\<close>

text \<open>
  A state is the tables and the decisions that passed their check and wait for their commit: the
  approval as the check read it, the actor and the principal acted for. Identifiers of approvals
  are never used twice.
\<close>

type_synonym ap_sys = "ap_store \<times> (approval \<times> string \<times> string) list"

inductive ap_step :: "ap_sys \<Rightarrow> ap_sys \<Rightarrow> bool" where
  submit: "approvalStepsFromPolicy t p now (se_step_id env) = Inr steps \<Longrightarrow>
    CreateApprovalWithAudit_tx (draft_approval env actorID t req p kvs snapshot now) steps cred ''approval.submitted'' s =
      (Inr (), s') \<Longrightarrow>
    \<forall>r\<in>set (step_actors s). sa_approval_id r \<noteq> se_approval_id env \<Longrightarrow>
    \<forall>w\<in>set W. ap_id (fst w) \<noteq> se_approval_id env \<Longrightarrow> ap_step (s, W) (s', W)"
| check: "decide_check actorID tenantID i now (s, fs) = (Inr (a, by), d) \<Longrightarrow> ap_step (s, W) (s, (a, actorID, by) # W)"
| commit: "(a, actorID, by) \<in> set W \<Longrightarrow> decision \<in> {ApprovalDecisionApprove, ApprovalDecisionReject} \<Longrightarrow>
    decide_commit a actorID by decision comment now (s, fs) = (r, s', fs') \<Longrightarrow>
    ap_step (s, W) (s', remove1 (a, actorID, by) W)"
| cancel: "cancelApproval a now (s, fs) = (r, s', fs') \<Longrightarrow> ap_step (s, W) (s', W)"
| expire: "ap_step (s, W) (expire_approval_tx a now s, W)"
| purge: "purge_approval_tx a s = (Inr (), s') \<Longrightarrow> ap_step (s, W) (s', W)"
| claim: "TransitionApproval t i ApprovalStatusApproved ApprovalStatusExecuting id now (s, fs) = (r', s', fs') \<Longrightarrow>
    ap_step (s, W) (s', W)"
| settle: "SettleApprovalExecution t i success resultJSON lastError credentialID retainUntil now action (s, fs) = (q, s', fs') \<Longrightarrow>
    ap_step (s, W) (s', W)"
| retry: "TransitionApproval t i ApprovalStatusExecutionFailed ApprovalStatusApproved (\<lambda>x. x\<lparr>ap_last_error := []\<rparr>) now (s, fs) =
    (r', s', fs') \<Longrightarrow> ap_step (s, W) (s', W)"
| other: "approvals s' = approvals s \<Longrightarrow> approval_steps s' = approval_steps s \<Longrightarrow> step_actors s' = step_actors s \<Longrightarrow>
    ap_step (s, W) (s', W)"

definition empty_approvals :: "ap_store \<Rightarrow> bool" where
  "empty_approvals s \<longleftrightarrow> approvals s = [] \<and> approval_steps s = [] \<and> step_actors s = []"

text \<open>A waiting decision is by an actor other than the requester of the approval.\<close>

definition requesters :: "ap_store \<Rightarrow> (string \<times> string) set" where
  "requesters s = (\<lambda>a. (ap_id a, ap_requester_id a)) ` set (approvals s)"

definition wf_waiting :: "ap_store \<Rightarrow> (approval \<times> string \<times> string) list \<Rightarrow> bool" where
  "wf_waiting s W \<longleftrightarrow> (\<forall>(a, actorID, by)\<in>set W. actorID \<noteq> ap_requester_id a \<and>
     (\<forall>q. (ap_id a, q) \<in> requesters s \<longrightarrow> q = ap_requester_id a))"

lemma wf_waitingD:
  assumes "wf_waiting s W" "(a, actorID, by) \<in> set W"
  shows "actorID \<noteq> ap_requester_id a" "b \<in> set (approvals s) \<Longrightarrow> ap_id b = ap_id a \<Longrightarrow> ap_requester_id b = ap_requester_id a"
  using bspec [OF assms(1) [unfolded wf_waiting_def] assms(2)] by (simp_all add: requesters_def image_iff) metis

lemma wf_waiting_sub: "wf_waiting s W \<Longrightarrow> requesters s' \<subseteq> requesters s \<Longrightarrow> set W' \<subseteq> set W \<Longrightarrow> wf_waiting s' W'"
  unfolding wf_waiting_def by blast

definition keeps :: "ap_store \<Rightarrow> ap_store \<Rightarrow> bool" where
  "keeps s s' \<longleftrightarrow> wf_approvals s' \<and> requesters s' \<subseteq> requesters s"

lemma keeps_refl: "wf_approvals s \<Longrightarrow> keeps s s"
  by (simp add: keeps_def)

lemma keeps_update:
  assumes "wf_approvals s" "approvals s' = sql_update P g (approvals s)"
    and "\<And>a. a \<in> set (approvals s) \<Longrightarrow> P a \<Longrightarrow> lawful a (g a)"
    and "approval_steps s' = approval_steps s" "step_actors s' = step_actors s"
  shows "keeps s s'"
proof -
  have "requesters s' \<subseteq> requesters s"
    using assms(3) by (auto simp: requesters_def assms(2) sql_update_def lawful_def simp del: if_image_distrib)
  moreover have "wf_approvals s'"
    by (rule wf_lawful [OF assms(1) assms(2) [unfolded sql_update_def] _ assms(4, 5)]) (simp add: assms(3))
  ultimately show ?thesis by (simp add: keeps_def)
qed

lemma approvals_update: "approvals (s\<lparr>approvals := rows\<rparr>) = rows"
  by simp

lemma keeps_transition:
  assumes "wf_approvals s" "TransitionApproval t i from to f now (s, fs) = (r, s', fs')"
    and "\<And>a. a \<in> set (approvals s) \<Longrightarrow> ap_status a = from \<Longrightarrow> lawful a (f (a\<lparr>ap_status := to, ap_updated_at := now\<rparr>))"
  shows "keeps s s'"
  using assms(2) unfolding TransitionApproval_def
proof (rule db_run_cases)
  fix ok
  assume "(let (ok, s') = TransitionApproval_tx t i from to f now s in (Inr ok, s')) = (Inr ok :: err + bool, s')"
  then have s': "s' = s\<lparr>approvals := sql_update (\<lambda>a. ap_tenant_id a = t \<and> ap_id a = i \<and> ap_status a = from)
      (\<lambda>a. f (a\<lparr>ap_status := to, ap_updated_at := now\<rparr>)) (approvals s)\<rparr>"
    by (simp add: TransitionApproval_tx_def Let_def)
  show ?thesis unfolding s' by (rule keeps_update [OF assms(1) approvals_update]) (simp_all add: assms(3))
qed (use assms(1) in \<open>simp add: keeps_refl\<close>)

lemma cancel_cases:
  assumes "cancelApproval a now (s, fs) = (r, s', fs')"
  obtains t i q s1 fs1 where "TransitionApproval t i ApprovalStatusPendingApproval ApprovalStatusCanceled
      (\<lambda>x. x\<lparr>ap_decided_at := Some now\<rparr>) now (s, fs) = (q, s1, fs1)"
    "approvals s' = approvals s1" "approval_steps s' = approval_steps s1" "step_actors s' = step_actors s1"
proof -
  obtain q s1 fs1 where q: "TransitionApproval (ap_tenant_id a) (ap_id a) ApprovalStatusPendingApproval ApprovalStatusCanceled
      (\<lambda>x. x\<lparr>ap_decided_at := Some now\<rparr>) now (s, fs) = (q, s1, fs1)" by (metis prod_cases3)
  have "approvals s' = approvals s1 \<and> approval_steps s' = approval_steps s1 \<and> step_actors s' = step_actors s1"
  proof (cases "q = Inr True")
    case True
    obtain u s2 fs2 where u: "ap_RecordAudit ''approval.canceled'' (ap_id a) (s1, fs1) = (u, s2, fs2)" by (metis prod_cases3)
    have "approvals s2 = approvals s1 \<and> approval_steps s2 = approval_steps s1 \<and> step_actors s2 = step_actors s1"
      using u unfolding ap_RecordAudit_def by (rule db_run_cases) auto
    moreover have "s' = s2"
      using assms q True u by (cases u) (auto simp: cancelApproval_def chk_def reread_def store_GetApproval_def query_eq)
    ultimately show ?thesis by simp
  next
    case False
    then show ?thesis using assms q by (cases q) (auto simp: cancelApproval_def chk_def)
  qed
  then show thesis using that q by blast
qed

lemma keeps_expire: "wf_approvals s \<Longrightarrow> keeps s (expire_approval_tx a now s)"
  by (rule keeps_update [OF _ approvals_expire])
     (auto simp: expire_approval_tx_def Let_def lawful_def granted_statuses_def)

lemma keeps_settle:
  assumes "wf_approvals s"
    "SettleApprovalExecution t i success resultJSON lastError credentialID retainUntil now action (s, fs) = (q, s', fs')"
  shows "keeps s s'"
  using assms(2) unfolding SettleApprovalExecution_def
proof (rule db_run_cases)
  fix u
  assume "SettleApprovalExecution_tx t i success resultJSON lastError credentialID retainUntil now action s = (Inr u, s')"
  then have eq: "approvals s' = sql_update (\<lambda>a. ap_tenant_id a = t \<and> ap_id a = i \<and> ap_status a = ApprovalStatusExecuting)
      (\<lambda>a. if success
        then a\<lparr>ap_status := ApprovalStatusCompleted, ap_result_json := resultJSON, ap_updated_at := now,
               ap_executed_at := Some now, ap_last_error := []\<rparr>
        else a\<lparr>ap_status := ApprovalStatusExecutionFailed, ap_result_json := resultJSON, ap_updated_at := now,
               ap_last_error := lastError\<rparr>) (approvals s)"
    and "approval_steps s' = approval_steps s" "step_actors s' = step_actors s"
    unfolding SettleApprovalExecution_tx_def Let_def by (simp_all split: if_split_asm) auto
  then show ?thesis by (intro keeps_update [OF assms(1) eq]) (auto simp: lawful_def granted_statuses_def)
qed (use assms(1) in \<open>simp add: keeps_refl\<close>)

lemma keeps_same:
  assumes "keeps s s1" "approvals s' = approvals s1" "approval_steps s' = approval_steps s1" "step_actors s' = step_actors s1"
  shows "keeps s s'"
  using assms wf_same [of s1 s'] by (auto simp: keeps_def requesters_def)

lemma keeps_cancel:
  assumes "wf_approvals s" "cancelApproval a now (s, fs) = (r, s', fs')"
  shows "keeps s s'"
  using assms(2)
proof (rule cancel_cases)
  fix t i q s1 fs1
  assume t: "TransitionApproval t i ApprovalStatusPendingApproval ApprovalStatusCanceled
      (\<lambda>x. x\<lparr>ap_decided_at := Some now\<rparr>) now (s, fs) = (q, s1, fs1)"
    and e: "approvals s' = approvals s1" "approval_steps s' = approval_steps s1" "step_actors s' = step_actors s1"
  have "keeps s s1" by (rule keeps_transition [OF assms(1) t]) (simp add: lawful_def granted_statuses_def)
  then show ?thesis using e by (rule keeps_same)
qed

lemma keeps_purge:
  assumes "wf_approvals s" "purge_approval_tx a s = (Inr (), s')"
  shows "keeps s s'"
  using wf_purge [OF assms] assms(2) by (auto simp: keeps_def requesters_def purge_approval_tx_def split: if_splits)

lemma decide_commit_cases:
  assumes "decide_commit a actorID by decision comment now (s, fs) = (r, s', fs')"
  obtains "s' = s" "\<exists>e. r = Inl e"
  | b step nxt completed where "decides (ap_tenant_id a) (ap_id a) actorID by decision comment now s b step nxt completed s'"
proof -
  obtain q s1 fs1 where q: "DecideApprovalStep (ap_tenant_id a) (ap_id a) actorID by decision comment now
      (if decision = ApprovalDecisionReject then ''approval.rejected'' else ''approval.approved'') (s, fs) = (q, s1, fs1)"
    by (metis prod_cases3)
  have s1: "s1 = s'" using assms q by (cases q) (auto simp: decide_commit_def)
  show thesis
    using q unfolding DecideApprovalStep_def
  proof (rule db_run_cases)
    fix e
    assume "q = Inl e" "s1 = s"
    then show thesis using that(1) s1 assms q by (auto simp: decide_commit_def)
  next
    fix x
    assume "DecideApprovalStep_tx (ap_tenant_id a) (ap_id a) actorID by decision comment now
      (if decision = ApprovalDecisionReject then ''approval.rejected'' else ''approval.approved'') s = (Inr x, s1)"
    then show thesis using that(2) s1 DecideApprovalStep_tx_decides by blast
  qed
qed

lemma keeps_commit:
  assumes w: "wf_approvals s" "wf_waiting s W" "(a, actorID, by) \<in> set W"
    and c: "decide_commit a actorID by decision comment now (s, fs) = (r, s', fs')"
  shows "keeps s s'"
  using c
proof (cases rule: decide_commit_cases)
  case 1
  then show ?thesis using w(1) by (simp add: keeps_refl)
next
  case (2 b step nxt completed)
  have b: "b \<in> set (approvals s)" "ap_id b = ap_id a" using 2 by (simp_all add: decides_def)
  then have "ap_requester_id b \<noteq> actorID" using wf_waitingD [OF w(2, 3)] by metis
  then have "wf_approvals s'" by (rule wf_decides [OF w(1) 2])
  moreover have "map (\<lambda>a. (ap_id a, ap_requester_id a)) (approvals s') = map (\<lambda>a. (ap_id a, ap_requester_id a)) (approvals s)"
    using 2 by (simp add: decides_def)
  then have "requesters s' = requesters s" unfolding requesters_def by (metis list.set_map)
  ultimately show ?thesis by (simp add: keeps_def)
qed

lemma ap_step_invariant:
  assumes "ap_step y y'" "wf_approvals (fst y)" "wf_waiting (fst y) (snd y)"
  shows "wf_approvals (fst y') \<and> wf_waiting (fst y') (snd y')"
  using assms
proof (induction rule: ap_step.induct)
  case (submit t p now env steps actorID req kvs snapshot cred s s' W)
  let ?a = "draft_approval env actorID t req p kvs snapshot now"
  have a: "ap_tenant_id ?a = t" "ap_id ?a = se_approval_id env" "ap_status ?a = ApprovalStatusPendingApproval"
    "ap_current_step ?a = 1" by (simp_all add: draft_approval_def Let_def)
  have "wf_approvals s'" using wf_submit [OF _ submit(2), of p now "se_step_id env"] submit a by simp
  moreover have "requesters s' = insert (ap_id ?a, ap_requester_id ?a) (requesters s)"
    using CreateApproval_tx(1) [OF submit(2)] by (simp add: requesters_def)
  ultimately show ?case using submit(4, 6) a(2) unfolding wf_waiting_def by fastforce
next
  case (check actorID tenantID i now s fs a pby d W)
  have u: "uniq ap_id (approvals s)" using check(2) by (simp add: wf_approvalsD(1))
  from decide_check_spec [OF this check(1)] have a: "a \<in> set (approvals s)" "ap_requester_id a \<noteq> actorID"
    by (auto simp: checked_def)
  have "q = ap_requester_id a" if "(ap_id a, q) \<in> requesters s" for q
    using that uniq_inj [OF u a(1)] by (auto simp: requesters_def)
  then show ?case using check a by (auto simp: wf_waiting_def)
next
  case (commit a actorID pby W decision comment now s fs r s' fs')
  have "keeps s s'" using commit by (intro keeps_commit [OF _ _ commit(1, 3)]) simp_all
  then show ?case using commit(5) set_remove1_subset [of "(a, actorID, pby)" W]
    by (auto simp: keeps_def intro: wf_waiting_sub)
next
  case (cancel a now s fs r s' fs' W)
  then show ?case using keeps_cancel [OF _ cancel(1)] by (auto simp: keeps_def intro: wf_waiting_sub)
next
  case (expire s W a now)
  then show ?case using keeps_expire [of s a now] by (auto simp: keeps_def intro: wf_waiting_sub)
next
  case (purge a s s' W)
  then show ?case using keeps_purge [OF _ purge(1)] by (auto simp: keeps_def intro: wf_waiting_sub)
next
  case (claim t i now s fs r' s' fs' W)
  have "keeps s s'" using claim(2) by (intro keeps_transition [OF _ claim(1)]) (auto simp: lawful_def granted_statuses_def)
  then show ?case using claim(3) by (auto simp: keeps_def intro: wf_waiting_sub)
next
  case (settle t i success resultJSON lastError credentialID retainUntil now action s fs q s' fs' W)
  then show ?case using keeps_settle [OF _ settle(1)] by (auto simp: keeps_def intro: wf_waiting_sub)
next
  case (retry t i now s fs r' s' fs' W)
  have "keeps s s'" using retry(2) by (intro keeps_transition [OF _ retry(1)]) (auto simp: lawful_def granted_statuses_def)
  then show ?case using retry(3) by (auto simp: keeps_def intro: wf_waiting_sub)
next
  case (other s' s W)
  then show ?case using keeps_same [OF keeps_refl, of s s'] by (auto simp: keeps_def intro: wf_waiting_sub)
qed

end
