(* ===== verification/Approval_Theorems.thy ===== *)
theory Approval_Theorems
  imports Approval_Props
begin

text \<open>
  A tenant with a requester, a lead and a further user, and a policy whose first step is for leads
  and whose second step is for that user. Concrete runs on it witness the properties and show what
  two decisions of one actor that overlap can do.
\<close>

definition ap_user :: "string \<Rightarrow> user" where
  "ap_user i = \<lparr>us_id = i, us_tenant_id = ''t1'', us_username = i, us_password_hash = [], us_email = [], us_role = ''member'',
     us_status = ''active''\<rparr>"

definition ap_role :: "string \<Rightarrow> role" where
  "ap_role i = \<lparr>ro_id = i, ro_tenant_id = ''t1'', ro_name = i, ro_scope = ''tenant'', ro_description = [], ro_parent_id = []\<rparr>"

definition ap_ids :: id_store where
  "ap_ids = \<lparr>tenants = [\<lparr>te_id = ''t1'', te_name = ''T'', te_status = ''active''\<rparr>],
     users = map ap_user [''req'', ''ann'', ''bob''], roles = map ap_role [''member'', ''lead''],
     user_roles = [(''req'', ''member''), (''ann'', ''member''), (''bob'', ''member''), (''ann'', ''lead'')],
     permissions = [\<lparr>p_id = ''p1'', p_role_id = ''member'', p_action = ''manage'', p_resource = ''*'', p_effect = ''allow''\<rparr>],
     teams = [], user_teams = [], team_projects = [], project_members = []\<rparr>"

definition ap_empty :: ap_store where
  "ap_empty = \<lparr>as_ids = ap_ids, approvals = [], approval_steps = [], step_actors = [], delegations = [], credentials = [],
     policies = [], acting_contexts = [], operations = [], ap_jobs = [], ap_audits = []\<rparr>"

definition demo_fmt :: go_fmt where
  "demo_fmt = \<lparr>Sprint = (\<lambda>v. case v of GoJson (JStr s) \<Rightarrow> s | GoJson JNull \<Rightarrow> ''<nil>'' | _ \<Rightarrow> ''?''), parse_real = (\<lambda>_. None)\<rparr>"

definition demo_lib :: act_lib where
  "demo_lib = \<lparr>al_fmt = demo_fmt, al_sha256 = id,
     al_unmarshal = (\<lambda>_. None), al_marshal = (\<lambda>kvs. concat (map snd kvs)), al_marshal_json = (\<lambda>_. ''{}''), al_reencode = id\<rparr>"

definition demo_aead :: aead where
  "demo_aead = \<lparr>aead_seal = (\<lambda>k n p. p), aead_open = (\<lambda>k n c. Some c)\<rparr>"

definition demo_spec :: "int \<Rightarrow> string \<Rightarrow> string \<Rightarrow> step_spec" where
  "demo_spec no ty v = \<lparr>sp_step_no = no, sp_name = ''step'', sp_approver_type = ty, sp_approver_value = v, sp_mode = [],
     sp_approvers = [], sp_required = 0, sp_expire_hours = 0\<rparr>"

definition demo_policy :: policy where
  "demo_policy = \<lparr>po_id = ''pol'', po_tenant_id = ''t1'', po_object_type = ''dataset'', po_action = ''delete'', po_enabled = True,
     po_priority = 1, po_conditions = Some [], po_steps = Some [demo_spec 1 ''role'' ''lead'', demo_spec 2 ''user'' ''bob''],
     po_expire_hours = 72, po_version = 1, po_created_by = ''root''\<rparr>"

definition demo_env :: submit_env where
  "demo_env = \<lparr>se_lib = demo_lib, se_aead = demo_aead, se_key = replicate 32 (CHR ''k''),
     se_target = (\<lambda>_ _. Inr ([], [])), se_approval_id = ''a1'', se_request_suffix = ''00000001'',
     se_step_id = (\<lambda>i. if i = 0 then ''s1'' else ''s2''), se_credential_id = ''c1'', se_nonce = Some (replicate 12 (CHR ''n''))\<rparr>"

definition demo_request :: submit_request where
  "demo_request = \<lparr>sr_tenant_id = [], sr_object_type = ''dataset'', sr_action = ''delete'', sr_object_id = ''d1'', sr_payload = [],
     sr_idempotency_key = ''k1''\<rparr>"

text \<open>The states of the runs, written out: as submitted, after the lead's approval, and after a second one.\<close>

definition demo_row :: "approval_status \<Rightarrow> int \<Rightarrow> int \<Rightarrow> int option \<Rightarrow> approval" where
  "demo_row st no upd decided = \<lparr>ap_id = ''a1'', ap_tenant_id = ''t1'', ap_request_no = ''APR-19700101-00000001'',
     ap_object_type = ''dataset'', ap_object_id = ''d1'', ap_action = ''delete'', ap_payload_json = ''{}'', ap_snapshot_json = ''{}'',
     ap_target_tenant_id = ''t1'', ap_resource_version = ''new'', ap_action_hash = ''sha256:t1datasetd1newdeletesha256:{}'',
     ap_status = st, ap_policy_id = ''pol'', ap_policy_version = 1, ap_current_step = no, ap_requester_id = ''req'',
     ap_idempotency_key = ''k1'', ap_expires_at = 259200000000000, ap_decided_at = decided, ap_executed_at = None,
     ap_result_json = ''{}'', ap_last_error = [], ap_updated_at = upd\<rparr>"

definition demo_step :: "string \<Rightarrow> int \<Rightarrow> string \<Rightarrow> string \<Rightarrow> step_status \<Rightarrow> approval_step" where
  "demo_step i no ty v st = \<lparr>st_id = i, st_tenant_id = ''t1'', st_approval_id = ''a1'', st_step_no = no, st_name = ''step'',
     st_approver_type = ty, st_approver_value = v, st_mode = ''any'', st_approvers = [\<lparr>av_type = ty, av_value = v\<rparr>],
     st_required = 1, st_status = st, st_acted_by = None, st_decision = [], st_comment = [],
     st_due_at = Some 259200000000000, st_acted_at = None\<rparr>"

definition demo_acted :: "string \<Rightarrow> approval_step \<Rightarrow> approval_step" where
  "demo_acted actor x = x\<lparr>st_acted_by := Some actor, st_decision := ''approve'', st_comment := ''ok'', st_acted_at := Some 1\<rparr>"

definition demo_actor :: "string \<Rightarrow> string \<Rightarrow> step_actor" where
  "demo_actor i actor = \<lparr>sa_tenant_id = ''t1'', sa_approval_id = ''a1'', sa_step_id = i, sa_actor_id = actor, sa_delegated_by = [],
     sa_decision = ''approve'', sa_comment = ''ok'', sa_acted_at = 1\<rparr>"

definition demo_steps :: "approval_step list" where
  "demo_steps = map (\<lambda>x. x\<lparr>st_approval_id := ''pending''\<rparr>)
     [demo_step ''s1'' 1 ''role'' ''lead'' ApprovalStepCurrent, demo_step ''s2'' 2 ''user'' ''bob'' ApprovalStepPending]"

definition demo_approval :: approval where
  "demo_approval = demo_row ApprovalStatusPendingApproval 1 0 None"

definition demo_a2 :: approval where
  "demo_a2 = demo_row ApprovalStatusPendingApproval 2 1 None"

definition demo_s1 :: ap_store where
  "demo_s1 = ap_empty\<lparr>approvals := [demo_approval],
     approval_steps := [demo_step ''s1'' 1 ''role'' ''lead'' ApprovalStepCurrent, demo_step ''s2'' 2 ''user'' ''bob'' ApprovalStepPending],
     ap_audits := [(''approval.submitted'', ''a1'')]\<rparr>"

definition demo_s2 :: ap_store where
  "demo_s2 = ap_empty\<lparr>approvals := [demo_a2],
     approval_steps := [demo_acted ''ann'' (demo_step ''s1'' 1 ''role'' ''lead'' ApprovalStepApproved),
       demo_step ''s2'' 2 ''user'' ''bob'' ApprovalStepCurrent],
     step_actors := [demo_actor ''s1'' ''ann''],
     ap_audits := [(''approval.submitted'', ''a1''), (''approval.approved'', ''a1'')]\<rparr>"

definition demo_final :: "string \<Rightarrow> ap_store" where
  "demo_final actor = ap_empty\<lparr>approvals := [demo_row ApprovalStatusApproved 2 1 (Some 1)],
     approval_steps := [demo_acted ''ann'' (demo_step ''s1'' 1 ''role'' ''lead'' ApprovalStepApproved),
       demo_acted actor (demo_step ''s2'' 2 ''user'' ''bob'' ApprovalStepApproved)],
     step_actors := [demo_actor ''s1'' ''ann'', demo_actor ''s2'' actor],
     ap_audits := [(''approval.submitted'', ''a1''), (''approval.approved'', ''a1''), (''approval.approved'', ''a1'')]\<rparr>"

definition demo_raced :: ap_store where
  "demo_raced = demo_final ''ann''"

definition demo_granted :: ap_store where
  "demo_granted = demo_final ''bob''"

lemma demo_submitted: "ap_step (ap_empty, []) (demo_s1, [])"
proof (rule ap_step.submit)
  show "approvalStepsFromPolicy ''t1'' demo_policy 0 (se_step_id demo_env) = Inr demo_steps" by code_simp
  show "CreateApprovalWithAudit_tx (draft_approval demo_env ''req'' ''t1'' demo_request demo_policy [] [] 0) demo_steps None
      ''approval.submitted'' ap_empty = (Inr (), demo_s1)" by code_simp
qed (simp_all add: ap_empty_def)

lemma demo_check: "decide_check ''ann'' ''t1'' ''a1'' 1 (demo_s1, []) = (Inr (demo_approval, []), demo_s1, [])"
  by code_simp

lemma demo_check2: "decide_check ''bob'' ''t1'' ''a1'' 1 (demo_s2, []) = (Inr (demo_a2, []), demo_s2, [])"
  by code_simp

lemma demo_commit1:
  "fst (snd (decide_commit demo_approval ''ann'' [] ApprovalDecisionApprove ''ok'' 1 (demo_s1, []))) = demo_s2"
  by code_simp

lemma demo_commit_raced:
  "fst (snd (decide_commit demo_approval ''ann'' [] ApprovalDecisionApprove ''ok'' 1 (demo_s2, []))) = demo_raced"
  by code_simp

lemma demo_commit_granted:
  "fst (snd (decide_commit demo_a2 ''bob'' [] ApprovalDecisionApprove ''ok'' 1 (demo_s2, []))) = demo_granted"
  by code_simp

lemma committed_step:
  assumes "fst (snd (decide_commit a actorID on decision comment now (s, fs))) = s'"
    and "decision \<in> {ApprovalDecisionApprove, ApprovalDecisionReject}"
  shows "ap_step (s, (a, actorID, on) # W) (s', W)"
  using ap_step.commit [of a actorID on "(a, actorID, on) # W" decision comment now s fs
      "fst (decide_commit a actorID on decision comment now (s, fs))" s'
      "snd (snd (decide_commit a actorID on decision comment now (s, fs)))"] assms
  by (simp add: prod_eq_iff)

lemma required_positive: "1 \<le> ApprovalStepRequiredApprovals x"
proof -
  have "ApprovalStepApprovers x \<noteq> []" by (simp add: ApprovalStepApprovers_def)
  then have "1 \<le> int (length (ApprovalStepApprovers x))" by (cases "ApprovalStepApprovers x") auto
  then show ?thesis by (auto simp: ApprovalStepRequiredApprovals_def Let_def)
qed

lemma reachable_invariant:
  assumes "ap_step\<^sup>*\<^sup>* (s0, []) y" "empty_approvals s0"
  shows "wf_approvals (fst y) \<and> wf_waiting (fst y) (snd y)"
  using assms(1)
proof (induction rule: rtranclp_induct)
  case base
  then show ?case using assms(2) by (simp add: empty_approvals_def wf_approvals_def wf_waiting_def)
next
  case (step y z)
  then show ?case using ap_step_invariant by blast
qed

section \<open>Granted approvals\<close>

text \<open>
  C28: However submissions, checks and commits of decisions, cancellations, expiry, purges, claims,
  settlements and retries interleave, with database faults anywhere, an approval that is granted,
  being executed, executed or failed in execution has steps, and each of them was signed by at
  least as many different people as it asks for, at least one, none of them the requester.
\<close>

theorem granted_approvals_are_signed:
  assumes "ap_step\<^sup>*\<^sup>* (s0, []) (s, W)" and "empty_approvals s0"
    and "a \<in> set (approvals s)" and "ap_status a \<in> granted_statuses"
  shows "steps_of s a \<noteq> {} \<and> (\<forall>x\<in>steps_of s a. 1 \<le> ApprovalStepRequiredApprovals x \<and>
    ApprovalStepRequiredApprovals x \<le> int (card (signers s x)) \<and> ap_requester_id a \<notin> signers s x)"
proof
  have w: "wf_approvals s" using reachable_invariant [OF assms(1, 2)] by simp
  have p: "progress s a" by (rule wf_approvalsD(6) [OF w assms(3)])
  then show "steps_of s a \<noteq> {}" by (auto simp: progress_def)
  show "\<forall>x\<in>steps_of s a. 1 \<le> ApprovalStepRequiredApprovals x \<and>
      ApprovalStepRequiredApprovals x \<le> int (card (signers s x)) \<and> ap_requester_id a \<notin> signers s x"
  proof (intro ballI conjI required_positive)
    fix x
    assume x: "x \<in> steps_of s a"
    then show "ApprovalStepRequiredApprovals x \<le> int (card (signers s x))"
      using p assms(4) by (auto simp: progress_def signed_def)
    show "ap_requester_id a \<notin> signers s x"
    proof
      assume "ap_requester_id a \<in> signers s x"
      then obtain r where r: "r \<in> set (step_actors s)" "on_step x r" "sa_actor_id r = ap_requester_id a"
        by (auto simp: signers_def)
      then show False using wf_approvalsD(7) [OF w r(1) assms(3)] x by (simp add: on_step_def steps_of_def step_of_def)
    qed
  qed
qed

lemma demo_granted_run: "ap_step\<^sup>*\<^sup>* (ap_empty, []) (demo_granted, [])"
proof -
  have "ap_step (demo_s1, []) (demo_s1, [(demo_approval, ''ann'', [])])" by (rule ap_step.check [OF demo_check])
  moreover have "ap_step (demo_s1, [(demo_approval, ''ann'', [])]) (demo_s2, [])" by (rule committed_step [OF demo_commit1]) simp
  moreover have "ap_step (demo_s2, []) (demo_s2, [(demo_a2, ''bob'', [])])" by (rule ap_step.check [OF demo_check2])
  moreover have "ap_step (demo_s2, [(demo_a2, ''bob'', [])]) (demo_granted, [])" by (rule committed_step [OF demo_commit_granted]) simp
  ultimately show ?thesis using demo_submitted by (auto intro: converse_rtranclp_into_rtranclp)
qed

theorem granted_approvals_are_signed_witness:
  "\<exists>a\<in>set (approvals demo_granted). ap_status a = ApprovalStatusApproved \<and>
     (\<forall>x\<in>steps_of demo_granted a. 1 \<le> int (card (signers demo_granted x)) \<and> ''req'' \<notin> signers demo_granted x)"
proof -
  let ?a = "hd (approvals demo_granted)"
  have a: "?a \<in> set (approvals demo_granted)" "ap_status ?a = ApprovalStatusApproved" "ap_requester_id ?a = ''req''" by code_simp+
  have "empty_approvals ap_empty" by code_simp
  from granted_approvals_are_signed [OF demo_granted_run this a(1)] a show ?thesis
    by (intro bexI [of _ ?a]) (auto simp: granted_statuses_def)
qed


end
