(* ===== verification/Approval_Maintenance.thy ===== *)
theory Approval_Maintenance
  imports Approvals
begin

text \<open>
  The detail view with the one-time reveal of an issued API key, and the periodic maintenance,
  \<^verbatim>\<open>internal/service/approval_action.go\<close>: expiry, reminders, the re-enqueueing of approved actions and
  the retention sweeps. A reminder is the type of the event and the approval it is about.
\<close>

section \<open>The detail view\<close>

definition ReplaceApprovalResult :: "string \<Rightarrow> string \<Rightarrow> string \<Rightarrow> int \<Rightarrow> ap_store db \<Rightarrow> (err + unit) \<times> ap_store db" where
  "ReplaceApprovalResult tenantID approvalID resultJSON now = db_run (\<lambda>s.
     let hit = (\<lambda>a. ap_tenant_id a = tenantID \<and> ap_id a = approvalID) in
     if length (filter hit (approvals s)) \<noteq> 1 then (Inl RecordNotFound, s)
     else (Inr (), s\<lparr>approvals := sql_update hit (\<lambda>a. a\<lparr>ap_result_json := resultJSON, ap_updated_at := now\<rparr>) (approvals s)\<rparr>))"

text \<open>
  A result that is not an object is an error, \<^verbatim>\<open>null\<close> is an empty one. The result holds the secret and
  the members to store instead, without the ciphertext and with the mark of the reveal.
\<close>

definition consumeApprovalSecret :: "act_lib \<Rightarrow> aead \<Rightarrow> string \<Rightarrow> approval \<Rightarrow> err + (string \<times> (string \<times> json) list) option" where
  "consumeApprovalSecret lib ae key a =
     (case al_unmarshal lib (ap_result_json a) of
        Some (JObj kvs) \<Rightarrow>
          let ciphertext = string_member kvs ''api_key_ciphertext'' in
          if ciphertext = [] then Inr None
          else (case Decrypt ae key ciphertext of
                  None \<Rightarrow> Inl (Internal ''failed to decrypt approval secret'')
                | Some secret \<Rightarrow> Inr (Some (secret,
                    filter (\<lambda>(k, _). k \<noteq> ''api_key_ciphertext'') kvs @ [(''api_key_revealed'', JBool True)])))
      | Some JNull \<Rightarrow> Inr None
      | _ \<Rightarrow> Inl (Failure ''cannot decode approval result''))"

definition owns_new_key :: "string \<Rightarrow> approval \<Rightarrow> bool" where
  "owns_new_key actorID a \<longleftrightarrow> ap_action a = ''create'' \<and> ap_object_type a = ''api-key'' \<and>
     ap_status a = ApprovalStatusCompleted \<and> ap_requester_id a = actorID"

fun steps_with_actors :: "approval \<Rightarrow> approval_step list \<Rightarrow> ap_store db \<Rightarrow>
  (err + (approval_step \<times> step_actor list) list) \<times> ap_store db" where
  "steps_with_actors a [] = ret []"
| "steps_with_actors a (x # xs) =
     chk (ListApprovalStepActors (ap_tenant_id a) (ap_id a) (st_id x)) (\<lambda>actors.
     chk (steps_with_actors a xs) (\<lambda>rest. ret ((x, actors) # rest)))"

text \<open>The stored text is read again to add the secret to what the caller gets.\<close>

definition reveal_secret :: "act_lib \<Rightarrow> aead \<Rightarrow> string \<Rightarrow> string \<Rightarrow> approval \<Rightarrow> int \<Rightarrow> ap_store db \<Rightarrow> (err + approval) \<times> ap_store db" where
  "reveal_secret lib ae key actorID a now =
     (if \<not> owns_new_key actorID a then ret a
      else case consumeApprovalSecret lib ae key a of
        Inl e \<Rightarrow> fail e
      | Inr None \<Rightarrow> ret a
      | Inr (Some (secret, kvs)) \<Rightarrow>
          let stored = al_marshal_json lib (JObj kvs) in
          chk (ReplaceApprovalResult (ap_tenant_id a) (ap_id a) stored now) (\<lambda>_.
            ret (if secret = [] then a
                 else a\<lparr>ap_result_json := al_marshal_json lib (JObj (object_members lib stored @ [(''api_key'', JStr secret)]))\<rparr>)))"

definition GetApproval :: "act_lib \<Rightarrow> aead \<Rightarrow> string \<Rightarrow> string \<Rightarrow> string \<Rightarrow> string \<Rightarrow> int \<Rightarrow> ap_store db \<Rightarrow>
  (err + approval \<times> (approval_step \<times> step_actor list) list) \<times> ap_store db" where
  "GetApproval lib ae key actorID actorTenantID approvalID now =
     chk (getVisibleApproval actorID actorTenantID approvalID) (\<lambda>a.
     chk (ListApprovalSteps (ap_tenant_id a) (ap_id a)) (\<lambda>steps.
     chk (steps_with_actors a steps) (\<lambda>detailed.
     chk (reveal_secret lib ae key actorID a now) (\<lambda>shown.
     chk (ap_RecordAudit ''approval.viewed'' (ap_id a)) (\<lambda>_. ret (shown, detailed))))))"

section \<open>Maintenance\<close>

definition ListApprovedApprovals :: "nat \<Rightarrow> int \<Rightarrow> ap_store db \<Rightarrow> (err + approval list) \<times> ap_store db" where
  "ListApprovedApprovals limit before = query (\<lambda>s.
     take limit (sort_key (\<lambda>a. case ap_decided_at a of None \<Rightarrow> 0 | Some t \<Rightarrow> t)
       (filter (\<lambda>a. ap_status a = ApprovalStatusApproved \<and> (case ap_decided_at a of None \<Rightarrow> False | Some t \<Rightarrow> t < before))
         (approvals s))))"

definition CountApprovalsByStatus :: "approval_status \<Rightarrow> ap_store db \<Rightarrow> (err + nat) \<times> ap_store db" where
  "CountApprovalsByStatus st = query (\<lambda>s. length (filter (\<lambda>a. ap_status a = st) (approvals s)))"

definition DeleteExpiredApprovalCredentials :: "int \<Rightarrow> int \<Rightarrow> ap_store db \<Rightarrow> (err + int) \<times> ap_store db" where
  "DeleteExpiredApprovalCredentials now limit = db_run (DeleteExpiredApprovalCredentials_tx now limit)"

text \<open>The count and the first page, 200 rows, of the pending approvals by expiry.\<close>

definition pending_page :: "ap_store db \<Rightarrow> (err + approval list) \<times> ap_store db" where
  "pending_page = chk (CountApprovalsByStatus ApprovalStatusPendingApproval) (\<lambda>_. query (\<lambda>s.
     take 200 (sort_key ap_expires_at (filter (\<lambda>a. ap_status a = ApprovalStatusPendingApproval) (approvals s)))))"

definition reminder_for :: "ap_config \<Rightarrow> int \<Rightarrow> approval \<Rightarrow> approval_step \<Rightarrow> (string \<times> string) list" where
  "reminder_for cfg now a step =
     (let due = (case st_due_at step of None \<Rightarrow> now | Some t \<Rightarrow> t) in
      if due < now then [(''approval.overdue'', ap_id a)]
      else if due < now + wrap64 (cf_reminder_before_hours cfg * time_Hour) then [(''approval.due_soon'', ap_id a)]
      else [])"

fun remind_each :: "ap_config \<Rightarrow> int \<Rightarrow> approval list \<Rightarrow> ap_store db \<Rightarrow> (string \<times> string) list \<times> ap_store db" where
  "remind_each cfg now [] d = ([], d)"
| "remind_each cfg now (a # as) d =
     (case CurrentApprovalStep (ap_tenant_id a) (ap_id a) d of
        (Inr (Some step), d1) \<Rightarrow> (let (evs, d2) = remind_each cfg now as d1 in (reminder_for cfg now a step @ evs, d2))
      | (_, d1) \<Rightarrow> remind_each cfg now as d1)"

definition emitApprovalReminders :: "ap_config \<Rightarrow> int \<Rightarrow> ap_store db \<Rightarrow> (err + (string \<times> string) list) \<times> ap_store db" where
  "emitApprovalReminders cfg now = chk pending_page (\<lambda>rows d. let (evs, d1) = remind_each cfg now rows d in (Inr evs, d1))"

fun enqueue_each :: "decide_env \<Rightarrow> ap_config \<Rightarrow> int \<Rightarrow> (nat \<Rightarrow> string) \<Rightarrow> nat \<Rightarrow> approval list \<Rightarrow> ap_store db \<Rightarrow> (err + unit) \<times> ap_store db" where
  "enqueue_each env cfg now ids k [] = ret ()"
| "enqueue_each env cfg now ids k (a # as) =
     chk (schedule (env\<lparr>de_context_id := ids (2 * k), de_job_id := ids (2 * k + 1)\<rparr>) cfg a now) (\<lambda>_.
       enqueue_each env cfg now ids (Suc k) as)"

text \<open>\<open>routes\<close> is the outcome of \<^verbatim>\<open>DeleteExpiredRouteData\<close>, a sweep of other tables.\<close>

definition RunApprovalMaintenance :: "decide_env \<Rightarrow> ap_config \<Rightarrow> (nat \<Rightarrow> string) \<Rightarrow> err option \<Rightarrow> int \<Rightarrow> ap_store db \<Rightarrow>
  (err + (string \<times> string) list) \<times> ap_store db" where
  "RunApprovalMaintenance env cfg ids routes now =
     (\<lambda>d. case ExpireApprovals now d of
        ((_, Some e), d1) \<Rightarrow> (Inl e, d1)
      | ((_, None), d1) \<Rightarrow>
          chk (emitApprovalReminders cfg now) (\<lambda>evs.
          chk (ListApprovedApprovals 200 (now - 60 * nanos_per_sec)) (\<lambda>approved.
          chk (enqueue_each env cfg now ids 0 approved) (\<lambda>_.
          chk (DeleteExpiredApprovalCredentials now 1000) (\<lambda>_.
          chk (\<lambda>d2. case DeleteExpiredApprovalRecords now (cf_retention_days cfg) 1000 d2 of
                 ((_, Some e), d3) \<Rightarrow> (Inl e, d3) | ((_, None), d3) \<Rightarrow> (Inr (), d3)) (\<lambda>_.
          chk (case routes of None \<Rightarrow> ret () | Some e \<Rightarrow> fail e) (\<lambda>_.
          chk (CountApprovalsByStatus ApprovalStatusPendingApproval) (\<lambda>_. ret evs))))))) d1)"

end
