(* ===== verification/Approval_Contexts.thy ===== *)
theory Approval_Contexts
  imports Approval_Maintenance "HOL-Library.Multiset"
begin

text \<open>
  Execution authorizations over time: a context that left the active state never becomes active
  again, and the executor is called at most once under each, however the runs of the worker and
  other calls interleave.
\<close>

section \<open>Calls that keep a property of the tables\<close>

text \<open>\<open>stays I m\<close>: whatever \<open>m\<close> returns and whatever faults occur, \<open>I\<close> holds after it if it held before.\<close>

definition stays :: "('s \<Rightarrow> bool) \<Rightarrow> ('s db \<Rightarrow> 'a \<times> 's db) \<Rightarrow> bool" where
  "stays I m \<longleftrightarrow> (\<forall>d. I (fst d) \<longrightarrow> I (fst (snd (m d))))"

lemma staysI: "(\<And>s fs r s1 fs1. I s \<Longrightarrow> m (s, fs) = (r, s1, fs1) \<Longrightarrow> I s1) \<Longrightarrow> stays I m"
  unfolding stays_def by (metis prod.collapse)

lemma staysD: "stays I m \<Longrightarrow> m d = (r, d1) \<Longrightarrow> I (fst d) \<Longrightarrow> I (fst d1)"
  unfolding stays_def by (metis snd_conv)

named_theorems stays_intro

lemma stays_run [stays_intro]: "(\<And>s a s1. I s \<Longrightarrow> body s = (Inr a, s1) \<Longrightarrow> I s1) \<Longrightarrow> stays I (db_run body)"
  by (rule staysI, erule db_run_cases) auto

lemma stays_ret [stays_intro]: "stays I (ret a)" "stays I (fail e)"
  by (simp_all add: stays_def)

lemma stays_chk [stays_intro]: "stays I m \<Longrightarrow> (\<And>a. stays I (f a)) \<Longrightarrow> stays I (chk m f)"
  unfolding stays_def chk_def by (auto split: prod.splits sum.splits) (metis fst_conv snd_conv)+

lemma stays_case:
  assumes "stays I m" "\<And>e. stays I (f e)" "\<And>a. stays I (g a)"
  shows "stays I (\<lambda>d. case m d of (Inl e, d1) \<Rightarrow> f e d1 | (Inr a, d1) \<Rightarrow> g a d1)"
  using assms unfolding stays_def by (auto split: prod.splits sum.splits) (metis fst_conv snd_conv)+

lemma stays_query [stays_intro]: "stays I (query f)"
  unfolding query_def by (rule stays_run) auto

lemma stays_quietly [stays_intro]: "stays I m \<Longrightarrow> stays I f \<Longrightarrow> stays I (quietly m f)"
  unfolding stays_def quietly_def by (metis prod.collapse)

lemma stays_on_ap_ids [stays_intro]: "(\<And>s i. I s \<Longrightarrow> I (s\<lparr>as_ids := i\<rparr>)) \<Longrightarrow> stays I (on_ap_ids m)"
  by (auto simp: stays_def on_ap_ids_def split: prod.splits)

lemma stays_on_ap_jobs [stays_intro]: "(\<And>s js. I s \<Longrightarrow> I (s\<lparr>ap_jobs := js\<rparr>)) \<Longrightarrow> stays I (on_ap_jobs m)"
  by (auto simp: stays_def on_ap_jobs_def split: prod.splits)

section \<open>Spent contexts\<close>

definition spent :: "ap_store \<Rightarrow> string set" where
  "spent s = cx_id ` {c \<in> set (acting_contexts s). cx_status c \<noteq> ActingContextActive}"

definition ctx_inv :: "string set \<Rightarrow> ap_store \<Rightarrow> bool" where
  "ctx_inv S s \<longleftrightarrow> uniq cx_id (acting_contexts s) \<and> S \<subseteq> spent s"

lemma ctx_inv_same: "acting_contexts s' = acting_contexts s \<Longrightarrow> ctx_inv S s' = ctx_inv S s"
  by (simp add: ctx_inv_def spent_def)

lemma ctx_inv_update:
  assumes "ctx_inv S s" "acting_contexts s' = sql_update P g (acting_contexts s)"
    and "\<And>c. cx_id (g c) = cx_id c" "\<And>c. P c \<Longrightarrow> cx_status (g c) \<noteq> ActingContextActive"
  shows "ctx_inv S s'"
proof -
  have "map cx_id (acting_contexts s') = map cx_id (acting_contexts s)"
    unfolding assms(2) by (simp add: sql_update_def assms(3))
  moreover have "spent s \<subseteq> spent s'"
  proof
    fix i
    assume "i \<in> spent s"
    then obtain c where c: "c \<in> set (acting_contexts s)" "cx_status c \<noteq> ActingContextActive" "cx_id c = i"
      by (auto simp: spent_def)
    let ?c = "if P c then g c else c"
    have "?c \<in> set (acting_contexts s')" using c(1) by (simp add: assms(2) sql_update_def)
    moreover have "cx_status ?c \<noteq> ActingContextActive" "cx_id ?c = i" using c assms(3, 4) by auto
    ultimately show "i \<in> spent s'" unfolding spent_def by blast
  qed
  ultimately show ?thesis using assms(1) by (auto simp: ctx_inv_def uniq_def)
qed

lemma stays_ctx_same [stays_intro]:
  "(\<And>s a s1. body s = (Inr a, s1) \<Longrightarrow> acting_contexts s1 = acting_contexts s) \<Longrightarrow> stays (ctx_inv S) (db_run body)"
  by (rule stays_run) (metis ctx_inv_same)

lemma stays_ctx_ids: "stays (ctx_inv S) (on_ap_ids m)" "stays (ctx_inv S) (on_ap_jobs n)"
  by (rule stays_intro, simp add: ctx_inv_def spent_def)+

lemma stays_complete_context: "to \<noteq> ActingContextActive \<Longrightarrow> stays (ctx_inv S) (CompleteActingContext i from to)"
  unfolding CompleteActingContext_def
  by (rule stays_run) (auto simp: CompleteActingContext_tx_def Let_def intro: ctx_inv_update)

lemma stays_create_context: "stays (ctx_inv S) (CreateActingContext c)"
  unfolding CreateActingContext_def
  by (rule stays_run) (auto simp: CreateActingContext_tx_def ctx_inv_def spent_def uniq_append split: if_splits; blast)

lemmas context_calls = store_GetApproval_def GetActingContextByApproval_def GetActingContext_def GetApprovalOperationByContext_def
  GetLatestApprovalOperation_def

text \<open>Calls on the other tables.\<close>

lemma stays_ctx_other [stays_intro]:
  "stays (ctx_inv S) (CompleteApprovalOperation i from to res err now)"
  "stays (ctx_inv S) (MarkStaleApprovalOperationUnknown i before now)"
  "stays (ctx_inv S) (TransitionApproval t i from' to' upd now)"
  "stays (ctx_inv S) (SettleApprovalExecution t i success res err cred keep now action)"
  "stays (ctx_inv S) (GetRetainedApprovalCredential t i now)"
  unfolding CompleteApprovalOperation_def MarkStaleApprovalOperationUnknown_def TransitionApproval_def SettleApprovalExecution_def
    GetRetainedApprovalCredential_def
  by (rule stays_ctx_same, auto simp: CompleteApprovalOperation_tx_def MarkStaleApprovalOperationUnknown_tx_def
      TransitionApproval_tx_def SettleApprovalExecution_tx_def Let_def split: if_splits)+ (rule stays_query)

lemma stays_read_ids [stays_intro]: "stays I (on_ap_ids (query f))"
proof (rule staysI)
  fix s fs r s1 fs1
  assume "I s" and e: "on_ap_ids (query f) (s, fs) = (r, s1, fs1)"
  obtain q i gs where "query f (as_ids s, fs) = (q, i, gs)" by (metis prod_cases3)
  with e query_cases [OF this] have "s1 = s" by (auto simp: on_ap_ids_def)
  then show "I s1" using \<open>I s\<close> by simp
qed

lemma stays_active_requester: "stays I (active_requester a)"
  unfolding active_requester_def GetUser_def by (intro stays_chk stays_read_ids) (auto intro: stays_ret split: option.splits)

text \<open>Preparing a context expires contexts and creates one for the approval.\<close>

lemma stays_prepare_by:
  assumes complete: "\<And>i. stays I (CompleteActingContext i ActingContextActive ActingContextExpired)"
    and create: "\<And>c. cx_approval_id c = ap_id a \<Longrightarrow> stays I (CreateActingContext c)"
  shows "stays I (prepareActingContext lib a now newID)"
proof -
  have latest: "stays I (latest_context existing now)" for existing
    unfolding latest_context_def by (auto intro!: stays_intro complete split: option.splits context_status.splits)
  have winner: "stays I (concurrent_winner a h now)" for h
    unfolding concurrent_winner_def context_calls by (auto intro!: stays_intro split: option.splits)
  have new: "stays I (\<lambda>d. case CreateActingContext (new_context lib a u k now newID) d of
      (Inl e, d1) \<Rightarrow> if e = ErrDuplicatedKey then concurrent_winner a h now d1 else (Inl e, d1)
      | (Inr _, d1) \<Rightarrow> (Inr (new_context lib a u k now newID), d1))" for u k h
  proof (rule stays_case [OF create])
    show "stays I (\<lambda>d1. if e = ErrDuplicatedKey then concurrent_winner a h now d1 else (Inl e, d1))" for e
      using winner [of h] by (cases "e = ErrDuplicatedKey") (simp_all add: stays_def)
  qed (simp_all add: new_context_def stays_def)
  show ?thesis
    unfolding prepareActingContext_def context_calls Let_def
    by (intro stays_chk stays_query latest) (auto intro!: stays_chk stays_active_requester stays_ret new split: option.splits)
qed

lemma stays_prepare: "stays (ctx_inv S) (prepareActingContext lib a now newID)"
  by (rule stays_prepare_by) (simp_all add: stays_complete_context stays_create_context)

lemma stays_finish: "stays (ctx_inv S) (finishApprovalExecution lib ex a success res e now)"
  unfolding finishApprovalExecution_def context_calls by (intro stays_intro)

lemma stays_release: "to \<noteq> ActingContextActive \<Longrightarrow> stays (ctx_inv S) (release_context c to)"
  unfolding release_context_def by (auto intro!: stays_intro stays_complete_context)

text \<open>A property that does not depend on contexts and jobs survives the scheduling.\<close>

lemma stays_prepare_any:
  assumes "\<And>s cs. I s \<Longrightarrow> I (s\<lparr>acting_contexts := cs\<rparr>)"
  shows "stays I (prepareActingContext lib a now newID)"
  by (rule stays_prepare_by; unfold CompleteActingContext_def CreateActingContext_def; rule stays_run)
    (auto simp: CompleteActingContext_tx_def CreateActingContext_tx_def Let_def assms split: if_splits)

lemma stays_enqueue_any:
  assumes "\<And>s cs. I s \<Longrightarrow> I (s\<lparr>acting_contexts := cs\<rparr>)" "\<And>s js. I s \<Longrightarrow> I (s\<lparr>ap_jobs := js\<rparr>)"
  shows "stays I (enqueueApprovalExecution lib cfg hasRunner a now contextID jobID)"
  unfolding enqueueApprovalExecution_def Let_def
  by (auto intro!: stays_chk stays_ret stays_on_ap_jobs stays_prepare_any assms)

section \<open>Claims\<close>

text \<open>
  A call that resolves an execution keeps the invariant, and if the run goes on it does so under a
  context that was active before and is spent now.
\<close>

definition grants :: "string set \<Rightarrow> (ap_store db \<Rightarrow> (err + resolved) \<times> ap_store db) \<Rightarrow> bool" where
  "grants S m \<longleftrightarrow> stays (ctx_inv S) m \<and> (\<forall>d oper d1. ctx_inv S (fst d) \<longrightarrow> m d = (Inr (Proceed oper), d1) \<longrightarrow>
     op_acting_context_id oper \<notin> S \<and> ctx_inv (insert (op_acting_context_id oper) S) (fst d1))"

lemma grants_settled: "grants S (ret (Settled r))" "grants S (fail e)"
  by (simp_all add: grants_def stays_ret)

lemma grantsI:
  assumes "stays (ctx_inv S) m"
    and "\<And>d oper d1. ctx_inv S (fst d) \<Longrightarrow> m d = (Inr (Proceed oper), d1) \<Longrightarrow>
      op_acting_context_id oper \<notin> S \<and> ctx_inv (insert (op_acting_context_id oper) S) (fst d1)"
  shows "grants S m"
  using assms unfolding grants_def by blast

lemma grantsD:
  assumes "grants S m"
  shows "stays (ctx_inv S) m"
    and "m d = (Inr (Proceed oper), d1) \<Longrightarrow> ctx_inv S (fst d) \<Longrightarrow>
      op_acting_context_id oper \<notin> S \<and> ctx_inv (insert (op_acting_context_id oper) S) (fst d1)"
  using assms unfolding grants_def by blast+

lemma grants_chk:
  assumes m: "stays (ctx_inv S) m" and f: "\<And>a. grants S (f a)"
  shows "grants S (chk m f)"
proof (rule grantsI)
  show "stays (ctx_inv S) (chk m f)" by (rule stays_chk [OF m grantsD(1) [OF f]])
  fix d oper d1
  assume i: "ctx_inv S (fst d)" and "chk m f d = (Inr (Proceed oper), d1)"
  from this(2) obtain a d2 where a: "m d = (Inr a, d2)" "f a d2 = (Inr (Proceed oper), d1)" by (rule chk_InrE)
  show "op_acting_context_id oper \<notin> S \<and> ctx_inv (insert (op_acting_context_id oper) S) (fst d1)"
    by (rule grantsD(2) [OF f a(2) staysD [OF m a(1) i]])
qed

lemma grants_quietly:
  assumes m: "stays (ctx_inv S) m" and f: "grants S f"
  shows "grants S (quietly m f)"
proof (rule grantsI)
  show "stays (ctx_inv S) (quietly m f)" by (rule stays_quietly [OF m grantsD(1) [OF f]])
  fix d oper d1
  assume i: "ctx_inv S (fst d)" and q: "quietly m f d = (Inr (Proceed oper), d1)"
  have "ctx_inv S (fst (snd (m d)))" using m i unfolding stays_def by blast
  then show "op_acting_context_id oper \<notin> S \<and> ctx_inv (insert (op_acting_context_id oper) S) (fst d1)"
    by (rule grantsD(2) [OF f q [unfolded quietly_def]])
qed

lemma sql_count_ex: "sql_count P rows \<noteq> 0 \<Longrightarrow> \<exists>x\<in>set rows. P x"
  by (auto simp: sql_count_def filter_empty_conv)

lemma claim_spends:
  assumes i: "ctx_inv S (fst d)" and o: "op_acting_context_id new = i"
    and c: "ClaimActingContextForOperation i jobID now until new d = (Inr (Some oper), d1)"
  shows "op_acting_context_id oper = i \<and> i \<notin> S \<and> ctx_inv (insert i S) (fst d1)"
proof -
  obtain s fs where d: "d = (s, fs)" by fastforce
  obtain s1 fs1 where d1: "d1 = (s1, fs1)" by fastforce
  let ?hit = "\<lambda>c. cx_id c = i \<and> cx_status c = ActingContextActive \<and> now < cx_expires_at c"
  let ?g = "\<lambda>c. c\<lparr>cx_status := ActingContextClaimed, cx_claimed_by := jobID, cx_claim_expires_at := Some until\<rparr>"
  have tx: "ClaimActingContextForOperation_tx i jobID now until new s = (Inr (Some oper), s1)"
    using c unfolding ClaimActingContextForOperation_def d d1 by (rule db_run_cases) auto
  then have cs: "acting_contexts s1 = sql_update ?hit ?g (acting_contexts s)" and n: "sql_count ?hit (acting_contexts s) = 1"
    and p: "op_acting_context_id oper = i"
    using o by (auto simp: ClaimActingContextForOperation_tx_def Let_def row_at_def sql_first_def dest!: find_Some_in
        split: if_splits option.splits)
  have "\<exists>x\<in>set (acting_contexts s). ?hit x"
    by (rule sql_count_ex) (simp add: n)
  then obtain x where x: "x \<in> set (acting_contexts s)" "?hit x" by blast
  have "uniq cx_id (acting_contexts s)" using i by (simp add: ctx_inv_def d)
  note same = uniq_inj [OF this _ x(1)]
  have "i \<notin> spent s"
  proof
    assume "i \<in> spent s"
    then obtain y where "y \<in> set (acting_contexts s)" "cx_status y \<noteq> ActingContextActive" "cx_id y = i" by (auto simp: spent_def)
    then show False using same [of y] x(2) by simp
  qed
  moreover have "i \<in> spent s1"
  proof -
    have "?g x \<in> set (acting_contexts s1)" using x by (force simp: cs sql_update_def)
    then show ?thesis using x(2) unfolding spent_def by (intro image_eqI [of _ _ "?g x"]) simp_all
  qed
  moreover have "ctx_inv S s1" by (rule ctx_inv_update [OF _ cs]) (use i in \<open>auto simp: d\<close>)
  ultimately show ?thesis using i p by (auto simp: ctx_inv_def d d1)
qed

lemma grants_reconcile: "grants S (reconcileApprovalOperation lib ex a c oper now)"
proof -
  have failed: "grants S (reconcile_failed lib ex a c msg now)" for msg
    unfolding reconcile_failed_def
    by (auto intro!: grants_chk grants_settled stays_chk stays_ret stays_finish stays_release)
  show ?thesis
    unfolding reconcileApprovalOperation_def
    by (auto intro!: failed grants_chk grants_settled stays_chk stays_ret stays_finish stays_release split: operation_status.splits)
qed

lemma grants_claim: "grants S (claim_and_proceed lib ex a c jobID args)"
proof -
  let ?new = "newApprovalOperation lib a c jobID (ra_now args) (ra_operation_id args)"
  have st: "stays (ctx_inv S) (ClaimActingContextForOperation (cx_id c) jobID now until ?new)" for now until
    unfolding ClaimActingContextForOperation_def
    by (rule stays_run) (auto simp: ClaimActingContextForOperation_tx_def Let_def intro: ctx_inv_update split: if_splits option.splits)
  have claim: "stays (ctx_inv S) (claimApprovalOperation lib a c jobID (ra_now args) (ra_operation_id args))"
    unfolding claimApprovalOperation_def by (auto intro!: stays_chk st stays_ret split: option.splits)
  show ?thesis
  proof (rule grantsI)
    show "stays (ctx_inv S) (claim_and_proceed lib ex a c jobID args)"
      unfolding claim_and_proceed_def by (auto intro!: stays_chk claim stays_ret grantsD(1) [OF grants_reconcile])
    fix d oper d1
    assume i: "ctx_inv S (fst d)" and "claim_and_proceed lib ex a c jobID args d = (Inr (Proceed oper), d1)"
    from this(2) obtain p d2 where p: "claimApprovalOperation lib a c jobID (ra_now args) (ra_operation_id args) d = (Inr p, d2)"
      "(if op_status p \<noteq> ApprovalOperationRunning then reconcileApprovalOperation lib ex a c p (ra_now args)
        else ret (Proceed p)) d2 = (Inr (Proceed oper), d1)"
      unfolding claim_and_proceed_def by (rule chk_InrE)
    show "op_acting_context_id oper \<notin> S \<and> ctx_inv (insert (op_acting_context_id oper) S) (fst d1)"
    proof (cases "op_status p = ApprovalOperationRunning")
      case True
      from p(1) obtain d3 where "ClaimActingContextForOperation (cx_id c) jobID (ra_now args) (ra_now args + actingContextClaimTTL) ?new d =
          (Inr (Some p), d3)" "d3 = d2"
        unfolding claimApprovalOperation_def by (rule chk_InrE) (auto split: option.splits)
      from claim_spends [OF i _ this(1)] this(2) show ?thesis using p(2) True by (simp add: newApprovalOperation_def)
    next
      case False
      then show ?thesis using grantsD(2) [OF grants_reconcile _ staysD [OF claim p(1) i]] p(2) by simp
    qed
  qed
qed

lemma grants_resolve: "grants S (resolveApprovalExecution lib ex a c jobID args)"
proof -
  have refuse: "stays (ctx_inv S) (refuse_unresolved a c)"
    unfolding refuse_unresolved_def context_calls by (auto intro!: stays_intro)
  have settle: "grants S (settle_without_operation lib ex a msg now)" for msg now
    unfolding settle_without_operation_def by (auto intro!: grants_chk grants_settled stays_finish)
  have by_context: "stays (ctx_inv S) (GetApprovalOperationByContext i)" for i
    unfolding context_calls by (rule stays_query)
  have "grants S (resolve_claimed lib ex a c now)" for now
    unfolding resolve_claimed_def
    by (auto intro!: grants_chk grants_settled grants_quietly grants_reconcile settle by_context stays_ctx_other
        stays_complete_context split: option.splits)
  moreover have "grants S (resolve_expired lib ex a c jobID args)"
    unfolding resolve_expired_def by (auto intro!: grants_chk grants_settled grants_claim refuse stays_prepare)
  moreover have "grants S (resolve_failed lib ex a c jobID args)"
    unfolding resolve_failed_def
    by (auto intro!: grants_chk grants_claim grants_reconcile by_context refuse stays_prepare split: option.splits)
  moreover have "grants S (resolve_consumed lib ex a c now)" for now
    unfolding resolve_consumed_def by (auto intro!: grants_chk grants_reconcile settle by_context split: option.splits)
  ultimately show ?thesis
    unfolding resolveApprovalExecution_def by (auto intro: grants_claim grants_settled split: context_status.splits)
qed

section \<open>Runs\<close>

lemma resolve_run:
  assumes "ctx_inv S (fst d)" "run_resolve lib ex j args d = (r, d1)"
  shows "ctx_inv S (fst d1)"
    and "r = Inr (a, c, Proceed oper) \<Longrightarrow> op_acting_context_id oper \<notin> S \<and> ctx_inv (insert (op_acting_context_id oper) S) (fst d1)"
proof -
  have found: "stays (ctx_inv S) (store_GetApproval t i)" for t i unfolding context_calls by (rule stays_query)
  have valid: "stays (ctx_inv S) (validateApprovalExecutionPayload lib b p)" for b p
    unfolding validateApprovalExecutionPayload_def context_calls
    by (auto intro!: stays_chk stays_ret stays_active_requester stays_ctx_ids stays_query split: option.splits)
  have "stays (ctx_inv S) (run_resolve lib ex j args)"
    unfolding run_resolve_def
    by (auto intro!: stays_chk stays_ret found valid grantsD(1) [OF grants_resolve] split: sum.splits option.splits)
  from staysD [OF this assms(2, 1)] show "ctx_inv S (fst d1)" .
  show "op_acting_context_id oper \<notin> S \<and> ctx_inv (insert (op_acting_context_id oper) S) (fst d1)"
    if r: "r = Inr (a, c, Proceed oper)"
  proof -
    obtain p where p: "decode_payload lib (j_payload j) = Inr p"
      using assms(2) r by (cases "decode_payload lib (j_payload j)") (auto simp: run_resolve_def)
    note e = assms(2) [unfolded r run_resolve_def p sum.case]
    obtain b d2 where b: "store_GetApproval (j_tenant_id j) (pl_approval_id p) d = (Inr (Some b), d2)"
      "chk (validateApprovalExecutionPayload lib b p) (\<lambda>c. chk (resolveApprovalExecution lib ex b c (j_id j) args)
        (\<lambda>r. ret (b, c, r))) d2 = (Inr (a, c, Proceed oper), d1)"
      using e by (elim chk_InrE) (auto split: option.splits elim!: chk_InrE)
    obtain x d3 where x: "validateApprovalExecutionPayload lib b p d2 = (Inr x, d3)"
      "chk (resolveApprovalExecution lib ex b x (j_id j) args) (\<lambda>r. ret (b, x, r)) d3 = (Inr (a, c, Proceed oper), d1)"
      using b(2) by (rule chk_InrE)
    obtain y d4 where y: "resolveApprovalExecution lib ex b x (j_id j) args d3 = (Inr y, d4)" "y = Proceed oper" "d4 = d1"
      using x(2) by (rule chk_InrE) auto
    show ?thesis
      using grantsD(2) [OF grants_resolve y(1) [unfolded y(2, 3)] staysD [OF valid x(1) staysD [OF found b(1) assms(1)]]] .
  qed
qed

lemma stays_outcome: "stays I (run_outcome j executed e)"
  by (simp add: stays_def run_outcome_def)

lemma stays_abandon: "stays (ctx_inv S) f \<Longrightarrow> stays (ctx_inv S) (abandon oper c msg now f)"
  unfolding abandon_def by (intro stays_quietly stays_ctx_other stays_complete_context) simp_all

lemma stays_finish_run: "stays (ctx_inv S) (finish_run lib ex j a executed e now)"
  unfolding finish_run_def [abs_def] by (intro stays_case stays_finish stays_outcome)

lemma stays_execute: "stays (ctx_inv S) (execute_and_settle lib ex j a c oper now)"
proof (cases "ex_execute ex a")
  case (Inl e)
  show ?thesis
    unfolding execute_and_settle_def [abs_def] Inl Let_def sum.case
    by (intro stays_case stays_ctx_other stays_outcome stays_complete_context stays_finish_run) simp
next
  case (Inr r)
  show ?thesis
    unfolding execute_and_settle_def [abs_def] Inr Let_def sum.case
    by (intro stays_case stays_ctx_other stays_outcome stays_complete_context stays_finish) simp
qed

lemma stays_run_checks: "stays (ctx_inv S) (run_checks lib ex j a c oper now)"
  unfolding run_checks_def by (auto intro!: stays_abandon stays_finish_run stays_execute split: option.splits)

lemma stays_run_claimed: "stays (ctx_inv S) (run_claimed lib ex j a c oper now)"
proof -
  have "stays (ctx_inv S) (\<lambda>d. if b then run_checks lib ex j x c oper now d else run_outcome j [] None d)" for b x
    by (cases b) (simp_all add: stays_run_checks stays_outcome)
  note t = stays_case [OF stays_ctx_other(3) stays_abandon [OF stays_outcome] this]
  show ?thesis
    unfolding run_claimed_def [abs_def]
    by (cases "ap_status a = ApprovalStatusApproved"; cases "ap_status a = ApprovalStatusExecuting")
      (simp_all add: t stays_run_checks stays_abandon stays_outcome)
qed

text \<open>What a run executed is nothing or the context of its operation.\<close>

definition yields :: "('a \<Rightarrow> bool) \<Rightarrow> ('d \<Rightarrow> 'a \<times> 'd) \<Rightarrow> bool" where
  "yields P m \<longleftrightarrow> (\<forall>d. P (fst (m d)))"

lemma yields_case:
  assumes "\<And>e. yields P (f e)" "\<And>a. yields P (g a)"
  shows "yields P (\<lambda>d. case m d of (Inl e, d1) \<Rightarrow> f e d1 | (Inr a, d1) \<Rightarrow> g a d1)"
  using assms by (simp add: yields_def split: prod.splits sum.splits)

lemma yields_quietly: "yields P f \<Longrightarrow> yields P (quietly m f)"
  by (simp add: yields_def quietly_def)

definition executed_under :: "operation \<Rightarrow> run_result \<Rightarrow> bool" where
  "executed_under oper rr \<longleftrightarrow> rr_executed rr \<in> {[], [op_acting_context_id oper]}"

lemma executed_under_claim: "yields (executed_under oper) (run_claimed lib ex j a c oper now)"
proof -
  let ?P = "executed_under oper" and ?i = "op_acting_context_id oper"
  have out: "yields ?P (run_outcome j [] e)" "yields ?P (run_outcome j [?i] e)" for e
    by (simp_all add: yields_def run_outcome_def executed_under_def)
  have fin: "yields ?P (finish_run lib ex j x [] e now)" "yields ?P (finish_run lib ex j x [?i] e now)" for x e
    unfolding finish_run_def [abs_def] by (intro yields_case out)+
  have "yields ?P (execute_and_settle lib ex j x c oper now)" for x
    unfolding execute_and_settle_def [abs_def] Let_def
    by (cases "ex_execute ex x", simp_all only: sum.case) (intro yields_case out fin)+
  then have checks: "yields ?P (run_checks lib ex j x c oper now)" for x
    unfolding run_checks_def abandon_def by (auto intro!: yields_quietly fin split: option.splits)
  have "yields ?P (\<lambda>d. if b then run_checks lib ex j x c oper now d else run_outcome j [] None d)" for b x
    by (cases b) (simp_all add: checks out)
  note t = yields_case [OF yields_quietly [OF yields_quietly [OF out(1)]] this]
  show ?thesis
    unfolding run_claimed_def [abs_def] abandon_def
    by (cases "ap_status a = ApprovalStatusApproved"; cases "ap_status a = ApprovalStatusExecuting")
      (simp_all add: t checks yields_quietly out)
qed

section \<open>The interleaving of runs\<close>

text \<open>
  A state is the tables, the runs that hold a claim and have not called their executor yet, and the
  contexts under which an executor was called so far. A run resolves its job and may then execute;
  in between other runs resolve and execute, approvals are scheduled, and other calls change the
  other tables.
\<close>

type_synonym run = "approval \<times> acting_context \<times> operation"

type_synonym run_sys = "ap_store \<times> run list \<times> string list"

inductive run_step :: "run_sys \<Rightarrow> run_sys \<Rightarrow> bool" where
  claims: "run_resolve lib ex j args (s, fs) = (Inr (a, c, Proceed oper), s', fs') \<Longrightarrow>
    run_step (s, W, L) (s', (a, c, oper) # W, L)"
| settles: "run_resolve lib ex j args (s, fs) = (r, s', fs') \<Longrightarrow> run_step (s, W, L) (s', W, L)"
| executes: "(a, c, oper) \<in> set W \<Longrightarrow> run_claimed lib ex j a c oper now (s, fs) = (rr, s', fs') \<Longrightarrow>
    run_step (s, W, L) (s', remove1 (a, c, oper) W, rr_executed rr @ L)"
| schedules: "enqueueApprovalExecution lib cfg hasRunner a now contextID jobID (s, fs) = (q, s', fs') \<Longrightarrow>
    run_step (s, W, L) (s', W, L)"
| otherwise: "acting_contexts s' = acting_contexts s \<Longrightarrow> run_step (s, W, L) (s', W, L)"

definition claims_of :: "run list \<Rightarrow> string list" where
  "claims_of W = map (\<lambda>(a, c, oper). op_acting_context_id oper) W"

definition run_inv :: "run_sys \<Rightarrow> bool" where
  "run_inv y \<longleftrightarrow> (case y of (s, W, L) \<Rightarrow> distinct (claims_of W @ L) \<and> ctx_inv (set (claims_of W @ L)) s)"

lemma mset_claims_remove1:
  "(a, c, oper) \<in> set W \<Longrightarrow> mset (claims_of W) = add_mset (op_acting_context_id oper) (mset (claims_of (remove1 (a, c, oper) W)))"
  by (induction W) (auto simp: claims_of_def)

lemma stays_enqueue: "stays (ctx_inv S) (enqueueApprovalExecution lib cfg hasRunner a now contextID jobID)"
  unfolding enqueueApprovalExecution_def Let_def by (auto intro!: stays_chk stays_ret stays_ctx_ids stays_prepare)

lemma run_step_invariant: "run_step y z \<Longrightarrow> run_inv y \<Longrightarrow> run_inv z"
proof (induction rule: run_step.induct)
  case (claims lib ex j args s fs a c oper s' fs' W L)
  then show ?case using resolve_run [OF _ claims(1), of "set (claims_of W @ L)"] by (simp add: run_inv_def claims_of_def)
next
  case (settles lib ex j args s fs r s' fs' W L)
  then show ?case using resolve_run(1) [OF _ settles(1), of "set (claims_of W @ L)"] by (simp add: run_inv_def)
next
  case (executes a c oper W lib ex j now s fs rr s' fs' L)
  let ?W = "remove1 (a, c, oper) W"
  have m: "mset (claims_of W @ L) = mset (claims_of ?W @ op_acting_context_id oper # L)"
    using mset_claims_remove1 [OF executes(1)] by simp
  have "distinct (claims_of ?W @ op_acting_context_id oper # L)"
    "set (claims_of ?W @ op_acting_context_id oper # L) = set (claims_of W @ L)"
    using executes(3) mset_eq_imp_distinct_iff [OF m] mset_eq_setD [OF m] by (simp_all add: run_inv_def)
  moreover have "ctx_inv (set (claims_of W @ L)) s'"
    using staysD [OF stays_run_claimed executes(2), of "set (claims_of W @ L)"] executes(3) by (simp add: run_inv_def)
  moreover have "rr_executed rr \<in> {[], [op_acting_context_id oper]}"
    using executed_under_claim [of oper lib ex j a c now] executes(2) unfolding yields_def executed_under_def by (metis fst_conv)
  ultimately show ?case by (auto simp: run_inv_def ctx_inv_def)
next
  case (schedules lib cfg hasRunner a now contextID jobID s fs q s' fs' W L)
  then show ?case using staysD [OF stays_enqueue schedules(1), of "set (claims_of W @ L)"] by (simp add: run_inv_def)
next
  case (otherwise s' s W L)
  then show ?case using ctx_inv_same [OF otherwise(1)] by (simp add: run_inv_def)
qed

end
