(* ===== verification/Approval_Liveness.thy ===== *)
theory Approval_Liveness
  imports Approval_Contexts
begin

text \<open>
  What the approval workflow gets done: the expiry sweep ends and leaves nothing overdue, a retry
  whose job has ended is never run, and one approved action of a disabled requester stops the
  maintenance of all tenants.
\<close>

section \<open>The expiry sweep\<close>

definition expired_row :: "int \<Rightarrow> approval \<Rightarrow> approval" where
  "expired_row now a = a\<lparr>ap_status := ApprovalStatusExpired, ap_decided_at := Some now, ap_updated_at := now\<rparr>"

definition expire_set :: "int \<Rightarrow> approval set \<Rightarrow> approval list \<Rightarrow> approval list" where
  "expire_set now A rows = map (\<lambda>x. if x \<in> A then expired_row now x else x) rows"

lemma expired_row_fields [simp]: "ap_id (expired_row now a) = ap_id a" "ap_status (expired_row now a) = ApprovalStatusExpired"
  by (simp_all add: expired_row_def)

lemma uniq_expire_set: "uniq ap_id rows \<Longrightarrow> uniq ap_id (expire_set now A rows)"
  by (simp add: uniq_def expire_set_def comp_def if_distrib cong: if_cong)

lemma expire_one:
  assumes "uniq ap_id rows" "a \<in> set rows" "ap_status a = ApprovalStatusPendingApproval" "a \<notin> A"
    and "approvals s = expire_set now A rows"
  shows "approvals (expire_approval_tx a now s) = expire_set now (insert a A) rows"
proof -
  have "x = a" if "x \<in> set rows" "ap_id x = ap_id a" for x using uniq_inj [OF assms(1) that(1) assms(2) that(2)] .
  then show ?thesis
    using assms(3, 4) by (auto simp: approvals_expire assms(5) expire_set_def sql_update_def expired_row_def)
qed

lemma expire_each_healthy:
  assumes "uniq ap_id rows" "set as \<subseteq> set rows" "distinct as" "set as \<inter> A = {}"
    and "\<forall>a\<in>set as. ap_status a = ApprovalStatusPendingApproval" and "approvals s = expire_set now A rows"
  shows "\<exists>s'. expire_each as now n (s, []) = ((n + int (length as), None), s', []) \<and> approvals s' = expire_set now (A \<union> set as) rows"
  using assms
proof (induction as arbitrary: A s n)
  case (Cons a as)
  then have "approvals (expire_approval_tx a now s) = expire_set now (insert a A) rows" by (intro expire_one) auto
  with Cons.prems Cons.IH [of "insert a A" "expire_approval_tx a now s" "n + 1"] show ?case by (auto simp: ac_simps)
qed simp

lemma expire_set_empty [simp]: "expire_set now {} rows = rows"
  by (simp add: expire_set_def)

lemma expire_batch:
  assumes "uniq ap_id (approvals s)"
  shows "\<exists>s'. expire_each (overdue_batch now s) now n (s, []) = ((n + int (length (overdue_batch now s)), None), s', []) \<and>
    approvals s' = expire_set now (set (overdue_batch now s)) (approvals s)"
proof -
  have d: "distinct (approvals s)" using assms by (simp add: uniq_def distinct_map)
  have sub: "set (overdue_batch now s) \<subseteq> {a \<in> set (approvals s). overdue now a}"
    unfolding overdue_batch_def by (metis set_sort set_filter set_take_subset)
  have "distinct (overdue_batch now s)" using d by (simp add: overdue_batch_def)
  with expire_each_healthy [OF assms, of "overdue_batch now s" "{}" s now n] sub show ?thesis by (auto simp: overdue_def)
qed

lemma overdue_left: "filter (overdue now) (expire_set now A rows) = filter (\<lambda>x. x \<notin> A) (filter (overdue now) rows)"
  by (induction rows) (auto simp: expire_set_def overdue_def)

lemma set_overdue_batch: "set (overdue_batch now s) \<subseteq> {a \<in> set (approvals s). overdue now a}"
  unfolding overdue_batch_def by (metis set_sort set_filter set_take_subset)

lemma length_overdue_batch: "length (overdue_batch now s) = min (still_overdue now s) expiryBatchSize"
  by (simp add: overdue_batch_def still_overdue_def)

lemma distinct_overdue_batch: "distinct (approvals s) \<Longrightarrow> distinct (overdue_batch now s)"
  by (simp add: overdue_batch_def)

lemma still_overdue_left:
  assumes "distinct (approvals s)" "approvals s' = expire_set now (set (overdue_batch now s)) (approvals s)"
  shows "still_overdue now s' + length (overdue_batch now s) = still_overdue now s"
proof -
  let ?o = "filter (overdue now) (approvals s)" and ?b = "overdue_batch now s"
  have "length (filter (\<lambda>x. x \<in> set ?b) ?o) = card (set ?o \<inter> set ?b)"
    using assms(1) distinct_length_filter [of ?o] by (simp add: Int_commute)
  also have "set ?o \<inter> set ?b = set ?b" using set_overdue_batch [of now s] by auto
  also have "card (set ?b) = length ?b" by (rule distinct_card) (rule distinct_overdue_batch [OF assms(1)])
  finally show ?thesis
    using sum_length_filter_compl [of "\<lambda>x. x \<in> set ?b" ?o] by (simp add: still_overdue_def assms(2) overdue_left)
qed

lemma expire_set_again:
  "A \<subseteq> {a \<in> set rows. overdue now a} \<Longrightarrow>
    expire_set now {a \<in> set (expire_set now A rows). overdue now a} (expire_set now A rows) = expire_set now {a \<in> set rows. overdue now a} rows"
  by (auto simp: expire_set_def overdue_def split: if_splits)

lemma ExpireApprovals_loop_healthy:
  assumes "uniq ap_id (approvals s)"
  shows "\<exists>s'. ExpireApprovals_loop now n (s, []) = ((n + int (still_overdue now s), None), s', []) \<and>
    approvals s' = expire_set now {a \<in> set (approvals s). overdue now a} (approvals s)"
  using assms
proof (induction "still_overdue now s" arbitrary: s n rule: less_induct)
  case less
  let ?b = "overdue_batch now s"
  have d: "distinct (approvals s)" using less.prems by (simp add: uniq_def distinct_map)
  obtain s1 where s1: "expire_each ?b now n (s, []) = ((n + int (length ?b), None), s1, [])"
    "approvals s1 = expire_set now (set ?b) (approvals s)"
    using expire_batch [OF less.prems] by blast
  note left = still_overdue_left [OF d s1(2)]
  show ?case
  proof (cases "length ?b < expiryBatchSize")
    case True
    then have all: "length ?b = still_overdue now s" using length_overdue_batch [of now s] by simp
    then have "?b = sort_key ap_expires_at (filter (overdue now) (approvals s))"
      by (simp add: overdue_batch_def still_overdue_def)
    then have "set ?b = {a \<in> set (approvals s). overdue now a}" by simp
    then have fin: "approvals s1 = expire_set now {a \<in> set (approvals s). overdue now a} (approvals s)" using s1(2) by simp
    have "ExpireApprovals_loop now n (s, []) = ((n + int (still_overdue now s), None), s1, [])"
      by (subst ExpireApprovals_loop.simps) (use s1(1) True all in auto)
    then show ?thesis using fin by blast
  next
    case False
    then have len: "length ?b = expiryBatchSize" using length_overdue_batch [of now s] by simp
    then have "?b \<noteq> []" by (auto simp: expiryBatchSize_def)
    then have "still_overdue now s1 < still_overdue now s" using left by (cases ?b) auto
    from less.hyps [OF this, of "n + int (length ?b)"] uniq_expire_set [OF less.prems]
    obtain s2 where "ExpireApprovals_loop now (n + int (length ?b)) (s1, []) =
        ((n + int (length ?b) + int (still_overdue now s1), None), s2, [])"
      "approvals s2 = expire_set now {a \<in> set (approvals s1). overdue now a} (approvals s1)"
      using s1(2) by auto
    then show ?thesis
      using s1 len \<open>?b \<noteq> []\<close> left expire_set_again [OF set_overdue_batch [of now s]]
      by (simp add: ExpireApprovals_loop.simps [of now n "(s, [])"] flip: left)
  qed
qed

text \<open>
  C33: The expiry sweep ends on every table: on a healthy database it reports exactly the number of
  pending approvals whose expiry has passed, marks all of them as expired, however many batches that
  takes, and leaves every other approval as it is.
\<close>

theorem expiry_sweep_completes:
  assumes "uniq ap_id (approvals s)"
  shows "\<exists>s'. ExpireApprovals now (s, []) = ((int (length (filter (overdue now) (approvals s))), None), s', []) \<and>
    approvals s' = map (\<lambda>a. if overdue now a then expired_row now a else a) (approvals s) \<and> filter (overdue now) (approvals s') = []"
proof -
  let ?o = "{a \<in> set (approvals s). overdue now a}"
  obtain s' where s': "ExpireApprovals now (s, []) = ((int (still_overdue now s), None), s', [])"
    "approvals s' = expire_set now ?o (approvals s)"
    using ExpireApprovals_loop_healthy [OF assms, of now 0] by (auto simp: ExpireApprovals_def)
  have "filter (overdue now) (approvals s') = []" by (simp add: s'(2) overdue_left)
  moreover have "approvals s' = map (\<lambda>a. if overdue now a then expired_row now a else a) (approvals s)"
    by (auto simp: s'(2) expire_set_def)
  ultimately show ?thesis using s'(1) by (simp add: still_overdue_def)
qed

section \<open>What the sweeps and the scheduling keep\<close>

lemma stays_conj: "stays I m \<Longrightarrow> stays K m \<Longrightarrow> stays (\<lambda>s. I s \<and> K s) m"
  by (simp add: stays_def)

lemma stays_jobs: "stays J m \<Longrightarrow> stays (\<lambda>s. J (ap_jobs s)) (on_ap_jobs m)"
  unfolding stays_def on_ap_jobs_def by (auto split: prod.splits) (metis fst_conv snd_conv)

lemma stays_expire_each:
  assumes "\<And>a s. I s \<Longrightarrow> I (expire_approval_tx a now s)"
  shows "stays I (expire_each as now n)"
proof (induction as arbitrary: n)
  case (Cons a as)
  have "stays I (db_run (\<lambda>s. (Inr (), expire_approval_tx a now s)))" by (rule stays_run) (use assms in auto)
  then show ?case using Cons unfolding stays_def by (auto split: prod.splits sum.splits) (metis fst_conv snd_conv)+
qed (simp add: stays_def)

lemma stays_expire:
  assumes "\<And>a now s. I s \<Longrightarrow> I (expire_approval_tx a now s)"
  shows "stays I (ExpireApprovals now)"
proof -
  have "I (fst d) \<Longrightarrow> I (fst (snd (ExpireApprovals_loop now n d)))" for n d
  proof (induction now n d rule: ExpireApprovals_loop.induct)
    case (1 now n d)
    obtain r d1 where q: "query (overdue_batch now) d = (r, d1)" by (cases "query (overdue_batch now) d")
    have i: "I (fst d1)" by (rule staysD [where I = I, OF stays_query q 1(2)])
    show ?case
    proof (cases r)
      case (Inr batch)
      obtain m e d2 where x: "expire_each batch now n d1 = ((m, e), d2)" by (metis surj_pair)
      have i2: "I (fst d2)" by (rule staysD [where I = I, OF stays_expire_each x i]) (rule assms)
      show ?thesis
        using 1(1) [OF q [symmetric] Inr _ x [symmetric] _ _ _ i2] i i2
        by (auto simp: ExpireApprovals_loop.simps [of now n d] q x Inr split: option.splits)
    qed (simp add: ExpireApprovals_loop.simps [of now n d] q i)
  qed
  then show ?thesis by (simp add: stays_def ExpireApprovals_def)
qed

lemma stays_swept:
  assumes "stays I m" "stays I f"
  shows "stays I (\<lambda>d. case m d of ((_, Some e), d1) \<Rightarrow> (Inl e, d1) | ((_, None), d1) \<Rightarrow> f d1)"
  using assms unfolding stays_def by (auto split: prod.splits option.splits) (metis fst_conv snd_conv)+

lemma stays_purge:
  assumes "\<And>a s s'. I s \<Longrightarrow> purge_approval_tx a s = (Inr (), s') \<Longrightarrow> I s'"
  shows "stays I (DeleteExpiredApprovalRecords now days limit)"
proof -
  have each: "stays I (purge_each as n)" for as n
  proof (induction as arbitrary: n)
    case (Cons a as)
    have "stays I (db_run (purge_approval_tx a))" by (rule stays_run) (use assms in auto)
    then show ?case using Cons unfolding stays_def by (auto split: prod.splits sum.splits) (metis fst_conv snd_conv)+
  qed (simp add: stays_def)
  have q: "stays I (\<lambda>d. case query f d of (Inl e, d1) \<Rightarrow> ((0, Some e), d1) | (Inr as, d1) \<Rightarrow> purge_each as 0 d1)" for f
    by (intro stays_case stays_query each) (simp add: stays_def)
  show ?thesis using q unfolding stays_def DeleteExpiredApprovalRecords_def Let_def by simp
qed

lemma stays_reminders: "stays I (emitApprovalReminders cfg now)"
proof -
  have step: "stays I (CurrentApprovalStep t i)" for t i
    unfolding CurrentApprovalStep_def by (auto intro!: stays_intro split: option.splits)
  have each: "stays I (remind_each cfg now as)" for as
  proof (induction as)
    case (Cons a as)
    then show ?case
      using step [of "ap_tenant_id a" "ap_id a"] unfolding stays_def
      by (auto split: prod.splits sum.splits option.splits) (metis fst_conv snd_conv)+
  qed (simp add: stays_def)
  have "stays I (\<lambda>d. let (evs, d1) = remind_each cfg now rows d in (Inr evs, d1))" for rows
    using each [of rows] unfolding stays_def by (auto simp: split_beta)
  then show ?thesis
    unfolding emitApprovalReminders_def pending_page_def CountApprovalsByStatus_def by (auto intro!: stays_intro)
qed

text \<open>Maintenance keeps what expiry, scheduling, the two sweeps and changes of credentials keep.\<close>

lemma stays_maintenance:
  assumes "\<And>a now s. I s \<Longrightarrow> I (expire_approval_tx a now s)" "\<And>env a. stays I (schedule env cfg a now)"
    and "\<And>a s s'. I s \<Longrightarrow> purge_approval_tx a s = (Inr (), s') \<Longrightarrow> I s'" "\<And>s cs. I s \<Longrightarrow> I (s\<lparr>credentials := cs\<rparr>)"
  shows "stays I (RunApprovalMaintenance env cfg ids routes now)"
proof -
  have each: "stays I (enqueue_each env cfg now ids k as)" for k as
    by (induction as arbitrary: k) (auto intro!: stays_intro assms(2))
  have creds: "stays I (DeleteExpiredApprovalCredentials now limit)" for limit
    unfolding DeleteExpiredApprovalCredentials_def
    by (rule stays_run) (auto simp: DeleteExpiredApprovalCredentials_tx_def Let_def assms(4))
  have "stays I (DeleteExpiredApprovalRecords now days limit)" for days limit by (rule stays_purge) (rule assms(3))
  then have purge: "stays I (\<lambda>d2. case DeleteExpiredApprovalRecords now days limit d2 of
      ((_, Some e), d3) \<Rightarrow> (Inl e, d3) | ((_, None), d3) \<Rightarrow> (Inr (), d3))" for days limit
    by (rule stays_swept) (simp add: stays_def)
  have rest: "stays I (chk (emitApprovalReminders cfg now) (\<lambda>evs.
      chk (ListApprovedApprovals 200 (now - 60 * nanos_per_sec)) (\<lambda>approved.
      chk (enqueue_each env cfg now ids 0 approved) (\<lambda>_.
      chk (DeleteExpiredApprovalCredentials now 1000) (\<lambda>_.
      chk (\<lambda>d2. case DeleteExpiredApprovalRecords now (cf_retention_days cfg) 1000 d2 of
             ((_, Some e), d3) \<Rightarrow> (Inl e, d3) | ((_, None), d3) \<Rightarrow> (Inr (), d3)) (\<lambda>_.
      chk (case routes of None \<Rightarrow> ret () | Some e \<Rightarrow> fail e) (\<lambda>_.
      chk (CountApprovalsByStatus ApprovalStatusPendingApproval) (\<lambda>_. ret evs))))))))"
    unfolding ListApprovedApprovals_def CountApprovalsByStatus_def
    by (intro stays_chk stays_reminders stays_query each creds purge) (auto intro: stays_ret split: option.splits)
  have "stays I (ExpireApprovals now)" by (rule stays_expire) (rule assms(1))
  then show ?thesis unfolding RunApprovalMaintenance_def by (rule stays_swept [OF _ rest])
qed

section \<open>Retries of an execution whose job has ended\<close>

definition execution_key :: "string \<Rightarrow> string" where
  "execution_key i = ApprovalExecutionJobKeyPrefix @ i"

definition jobs_of :: "string \<Rightarrow> job list \<Rightarrow> job list" where
  "jobs_of i js = filter (\<lambda>j. j_key j = execution_key i) js"

text \<open>The jobs of an approval are \<open>J\<close>, there is one, and every one has succeeded.\<close>

definition ended :: "string \<Rightarrow> job list \<Rightarrow> job list \<Rightarrow> bool" where
  "ended i J js \<longleftrightarrow> jobs_of i js = J \<and> J \<noteq> [] \<and> (\<forall>j\<in>set J. j_status j = JobStatusSucceeded)"

lemma ended_update:
  assumes "ended i J js" "\<And>j. j_key (f j) = j_key j" "\<And>j. j \<in> set js \<Longrightarrow> P j \<Longrightarrow> j_status j \<noteq> JobStatusSucceeded"
  shows "ended i J (sql_update P f js)"
proof -
  have "jobs_of i (sql_update P f js) = map (\<lambda>j. if P j then f j else j) (jobs_of i js)"
    by (induction js) (auto simp: jobs_of_def sql_update_def assms(2))
  also have "\<dots> = jobs_of i js"
  proof (rule map_idI)
    fix j
    assume "j \<in> set (jobs_of i js)"
    then show "(if P j then f j else j) = j" using assms(1) assms(3) [of j] by (auto simp: ended_def jobs_of_def)
  qed
  finally show ?thesis using assms(1) by (simp add: ended_def)
qed

lemma stays_ended_enqueue: "stays (ended i J) (Enqueue jobID now kind key t body runAfter retries)"
  unfolding Enqueue_def EnqueueJob_def
proof (rule stays_run)
  fix js b js'
  assume e: "ended i J js" and "(let (ins, rows') = EnqueueJob_tx jobID now (new_job kind key t body runAfter retries) js in (Inr ins, rows')) =
    (Inr b, js')"
  then consider "js' = js" | j where "js' = js @ [j]" "j_key j = key" "key \<notin> j_key ` set js"
    by (auto simp: EnqueueJob_tx_def insert_ignore_def prepare_job_def new_job_def split: if_splits)
  then show "ended i J js'"
  proof cases
    case 2
    then have "key \<noteq> execution_key i" using e by (fastforce simp: ended_def jobs_of_def filter_empty_conv image_iff)
    then show ?thesis using e 2 by (simp add: ended_def jobs_of_def)
  qed (use e in simp)
qed

lemma stays_ended_reset: "stays (ended i J) (ResetFailedJobByKey kind key body retries now)"
  unfolding ResetFailedJobByKey_def
  by (rule stays_run) (auto simp: ResetFailedJobByKey_tx_def Let_def intro!: ended_update)

lemma stays_ended: "stays (\<lambda>s. ended i J (ap_jobs s)) (enqueueApprovalExecution lib cfg hasRunner a now contextID jobID)"
proof -
  have "stays (ended i J) (CountActiveJobsByKey kind key)" for kind key
    unfolding CountActiveJobsByKey_def by (rule stays_run) simp
  then show ?thesis
    unfolding enqueueApprovalExecution_def Let_def
    by (auto intro!: stays_chk stays_ret stays_jobs stays_ended_enqueue stays_ended_reset stays_prepare_any)
qed

lemma stays_ended_maintenance: "stays (\<lambda>s. ended i J (ap_jobs s)) (RunApprovalMaintenance env cfg ids routes now)"
  by (rule stays_maintenance) (auto simp: schedule_def stays_ended expire_approval_tx_def purge_approval_tx_def Let_def split: if_splits)

lemma retry_reads_approved:
  assumes u: "uniq ap_id (approvals s)"
    and t: "TransitionApproval (ap_tenant_id a) (ap_id a) st ApprovalStatusApproved (\<lambda>x. x\<lparr>ap_last_error := []\<rparr>) now (s, fs) = (Inr True, s1, fs1)"
    and "approvals s2 = approvals s1" and "reread a (s2, fs2) = (Inr (Some x), d)"
  shows "ap_status x = ApprovalStatusApproved"
proof -
  let ?hit = "\<lambda>b. ap_tenant_id b = ap_tenant_id a \<and> ap_id b = ap_id a \<and> ap_status b = st"
  have s1: "approvals s1 = sql_update ?hit (\<lambda>b. b\<lparr>ap_status := ApprovalStatusApproved, ap_updated_at := now, ap_last_error := []\<rparr>) (approvals s)"
    and n: "sql_count ?hit (approvals s) = 1"
    using t unfolding TransitionApproval_def by (auto simp: TransitionApproval_tx_def Let_def elim!: db_run_cases)
  obtain b where b: "b \<in> set (approvals s)" "?hit b" using sql_count_ex [of ?hit "approvals s"] n by fastforce
  have "sql_first (\<lambda>b. ap_tenant_id b = ap_tenant_id a \<and> ap_id b = ap_id a) (approvals s2) = Some x"
    using query_cases [OF assms(4) [unfolded reread_def store_GetApproval_def]] by simp
  then have "x \<in> set (approvals s1)" "ap_id x = ap_id a" using assms(3) by (auto dest!: sql_firstD)
  then obtain c where "c \<in> set (approvals s)" "ap_id c = ap_id a"
    "x = (if ?hit c then c\<lparr>ap_status := ApprovalStatusApproved, ap_updated_at := now, ap_last_error := []\<rparr> else c)"
    by (auto simp: s1 sql_update_def)
  moreover from this have "c = b" using uniq_inj [OF u _ b(1)] b(2) by simp
  ultimately show ?thesis using b by simp
qed

lemma stays_getVisible: "(\<And>s i. I s \<Longrightarrow> I (s\<lparr>as_ids := i\<rparr>)) \<Longrightarrow> stays I (getVisibleApproval actorID t i)"
  unfolding getVisibleApproval_def GetApprovalByID_def store_GetApproval_def
  by (auto intro!: stays_chk stays_on_ap_ids stays_query stays_ret split: option.splits)

lemma stays_audit: "(\<And>s l. I s \<Longrightarrow> I (s\<lparr>ap_audits := l\<rparr>)) \<Longrightarrow> stays I (ap_RecordAudit action i)"
  unfolding ap_RecordAudit_def by (rule stays_run) auto

lemma stays_ended_retry: "stays (\<lambda>s. ended i J (ap_jobs s)) (RetryApprovalExecution env cfg actorID t i' comment now)"
proof -
  have "stays (\<lambda>s. ended i J (ap_jobs s)) (TransitionApproval t2 i2 st st2 upd now)" for t2 i2 st st2 upd
    unfolding TransitionApproval_def by (rule stays_run) (auto simp: TransitionApproval_tx_def Let_def)
  then show ?thesis
    unfolding RetryApprovalExecution_def schedule_def reread_def store_GetApproval_def
    by (auto intro!: stays_chk stays_ret stays_on_ap_ids stays_getVisible stays_audit stays_query stays_ended split: option.splits)
qed


section \<open>Approved actions of disabled requesters\<close>

definition decided_key :: "approval \<Rightarrow> int" where
  "decided_key a = (case ap_decided_at a of None \<Rightarrow> 0 | Some t \<Rightarrow> t)"

definition approved_due :: "int \<Rightarrow> approval \<Rightarrow> bool" where
  "approved_due before a \<longleftrightarrow>
     ap_status a = ApprovalStatusApproved \<and> (case ap_decided_at a of None \<Rightarrow> False | Some t \<Rightarrow> t < before)"

definition approved_page :: "int \<Rightarrow> approval list \<Rightarrow> approval list" where
  "approved_page before rows = take 200 (sort_key decided_key (filter (approved_due before) rows))"

lemma ListApproved_page: "ListApprovedApprovals 200 before = query (\<lambda>s. approved_page before (approvals s))"
  by (simp add: ListApprovedApprovals_def approved_page_def approved_due_def [abs_def] decided_key_def [abs_def])

definition requester_disabled :: "approval \<Rightarrow> ap_store \<Rightarrow> bool" where
  "requester_disabled a s \<longleftrightarrow> (\<forall>u\<in>set (users (as_ids s)). us_id u = ap_requester_id a \<longrightarrow> us_status u \<noteq> UserStatusActive)"

definition never_scheduled :: "string \<Rightarrow> ap_store \<Rightarrow> bool" where
  "never_scheduled i s \<longleftrightarrow> (\<forall>c\<in>set (acting_contexts s). cx_approval_id c \<noteq> i) \<and> (\<forall>j\<in>set (ap_jobs s). j_key j \<noteq> execution_key i)"

text \<open>What stays while the maintenance cannot get past the approval.\<close>

definition blocked :: "approval \<Rightarrow> ap_store \<Rightarrow> int \<Rightarrow> ap_store \<Rightarrow> bool" where
  "blocked a s0 before s \<longleftrightarrow> requester_disabled a s \<and> never_scheduled (ap_id a) s \<and> credentials s = credentials s0 \<and>
     filter (approved_due before) (approvals s) = filter (approved_due before) (approvals s0) \<and>
     (\<forall>b\<in>set (approvals s0). ap_status b \<noteq> ApprovalStatusPendingApproval \<longrightarrow> b \<in> set (approvals s))"

lemma filter_sql_update: "(\<And>x. Q x \<Longrightarrow> \<not> P x \<and> \<not> P (f x)) \<Longrightarrow> filter P (sql_update Q f rows) = filter P rows"
  by (induction rows) (auto simp: sql_update_def)

lemma blocked_expire: "blocked a s0 before s \<Longrightarrow> blocked a s0 before (expire_approval_tx x now s)"
proof -
  assume b: "blocked a s0 before s"
  have f: "filter (approved_due before) (approvals (expire_approval_tx x now s)) = filter (approved_due before) (approvals s)"
    unfolding approvals_expire by (rule filter_sql_update) (simp add: approved_due_def)
  have "y \<in> set (approvals (expire_approval_tx x now s))" if "y \<in> set (approvals s)" "ap_status y \<noteq> ApprovalStatusPendingApproval" for y
    using that by (force simp: approvals_expire sql_update_def)
  then show ?thesis
    using b f by (auto simp: blocked_def requester_disabled_def never_scheduled_def expire_approval_tx_def Let_def)
qed

lemma blocked_same:
  "blocked a s0 before s \<Longrightarrow> as_ids s' = as_ids s \<Longrightarrow> credentials s' = credentials s \<Longrightarrow> approvals s' = approvals s \<Longrightarrow>
    never_scheduled (ap_id a) s' \<Longrightarrow> blocked a s0 before s'"
  by (simp add: blocked_def requester_disabled_def)

lemma stays_blocked_jobs:
  assumes "stays (\<lambda>js. \<forall>j\<in>set js. j_key j \<noteq> execution_key (ap_id a)) m"
  shows "stays (blocked a s0 before) (on_ap_jobs m)"
  using assms unfolding stays_def on_ap_jobs_def
  by (auto simp: blocked_def requester_disabled_def never_scheduled_def split: prod.splits) (metis fst_conv snd_conv)

lemma stays_blocked_other:
  assumes "ap_id x \<noteq> ap_id a"
  shows "stays (blocked a s0 before) (enqueueApprovalExecution lib cfg hasRunner x now contextID jobID)"
proof -
  let ?k = "ApprovalExecutionJobKeyPrefix @ ap_id x"
  have "stays (blocked a s0 before) (prepareActingContext lib x now contextID)"
    by (rule stays_prepare_by; unfold CompleteActingContext_def CreateActingContext_def; rule stays_run)
      (use assms in \<open>auto simp: CompleteActingContext_tx_def CreateActingContext_tx_def Let_def never_scheduled_def blocked_def
        sql_update_def requester_disabled_def split: if_splits\<close>)
  moreover have "stays (blocked a s0 before) (on_ap_jobs (Enqueue jobID now kind ?k t body runAfter retries))"
    for kind t body runAfter retries
    by (rule stays_blocked_jobs, unfold Enqueue_def EnqueueJob_def, rule stays_run)
      (use assms in \<open>auto simp: EnqueueJob_tx_def insert_ignore_def prepare_job_def new_job_def execution_key_def split: if_splits\<close>)
  moreover have "stays (blocked a s0 before) (on_ap_jobs (ResetFailedJobByKey kind key body retries now))" for kind key body retries
    by (rule stays_blocked_jobs, unfold ResetFailedJobByKey_def, rule stays_run)
      (auto simp: ResetFailedJobByKey_tx_def sql_update_def Let_def)
  moreover have "stays (blocked a s0 before) (on_ap_jobs (CountActiveJobsByKey kind key))" for kind key
    by (rule stays_blocked_jobs, unfold CountActiveJobsByKey_def, rule stays_run) simp
  ultimately show ?thesis unfolding enqueueApprovalExecution_def Let_def by (auto intro!: stays_chk stays_ret)
qed

text \<open>Scheduling the approval itself fails, whatever faults occur, and changes nothing.\<close>

lemma chk_cases:
  assumes "chk m f d = (r, d2)"
  obtains e where "m d = (Inl e, d2)" "r = Inl e" | a d1 where "m d = (Inr a, d1)" "f a d1 = (r, d2)"
  using assms by (auto simp: chk_def split: prod.splits sum.splits)

lemma on_ap_jobs_query:
  assumes "on_ap_jobs (query f) (s, fs) = (r, d)"
  shows "fst d = s \<and> (r = Inl DbFault \<or> r = Inr (f (ap_jobs s)))"
proof -
  obtain q js gs where q: "query f (ap_jobs s, fs) = (q, js, gs)" by (metis prod_cases3)
  then show ?thesis using assms query_cases [OF q] by (auto simp: on_ap_jobs_def)
qed

lemma on_ap_ids_query:
  assumes "on_ap_ids (query f) (s, fs) = (r, d)"
  shows "fst d = s \<and> (r = Inl DbFault \<or> r = Inr (f (as_ids s)))"
proof -
  obtain q i gs where q: "query f (as_ids s, fs) = (q, i, gs)" by (metis prod_cases3)
  then show ?thesis using assms query_cases [OF q] by (auto simp: on_ap_ids_def)
qed

lemma disabled_requester_fails:
  assumes "requester_disabled a s" "active_requester a (s, fs) = (r, d)"
  shows "fst d = s \<and> (\<exists>e. r = Inl e)"
  using assms(2) unfolding active_requester_def GetUser_def
proof (rule chk_cases)
  fix e
  assume "on_ap_ids (query (\<lambda>s. row_at us_id (ap_requester_id a) (users s))) (s, fs) = (Inl e, d)" "r = Inl e"
  then show ?thesis using on_ap_ids_query by blast
next
  fix u d1
  assume u: "on_ap_ids (query (\<lambda>s. row_at us_id (ap_requester_id a) (users s))) (s, fs) = (Inr u, d1)"
    and c: "(case u of None \<Rightarrow> fail (Unauthorized ''approval requester is disabled or missing'')
      | Some actor \<Rightarrow> if us_status actor \<noteq> UserStatusActive then fail (Unauthorized ''approval requester is disabled or missing'')
          else ret actor) d1 = (r, d)"
  have "fst d1 = s" "u = row_at us_id (ap_requester_id a) (users (as_ids s))" using on_ap_ids_query [OF u] by auto
  moreover from this have "us_status x \<noteq> UserStatusActive" if "u = Some x" for x
    using assms(1) that sql_firstD [of "\<lambda>r. us_id r = ap_requester_id a" "users (as_ids s)" x]
    by (simp add: requester_disabled_def row_at_def)
  ultimately show ?thesis using c by (auto split: option.splits)
qed

lemma blocked_prepare:
  assumes b: "blocked a s0 before s" and e: "prepareActingContext lib a now contextID (s, fs) = (r, d)"
  shows "fst d = s \<and> (\<exists>e. r = Inl e)"
  using e unfolding prepareActingContext_def
proof (rule chk_cases)
  fix err
  assume "GetActingContextByApproval (ap_id a) (s, fs) = (Inl err, d)" "r = Inl err"
  then show ?thesis using query_cases unfolding GetActingContextByApproval_def by fastforce
next
  fix c d1
  assume q: "GetActingContextByApproval (ap_id a) (s, fs) = (Inr c, d1)"
  have "filter (\<lambda>c. cx_approval_id c = ap_id a) (acting_contexts s) = []"
    using b by (auto simp: blocked_def never_scheduled_def filter_empty_conv)
  then have c: "c = None" "fst d1 = s" using query_cases [OF q [unfolded GetActingContextByApproval_def]] by auto
  obtain gs where d1: "d1 = (s, gs)" using c(2) by (cases d1) auto
  assume "chk (latest_context c now) (\<lambda>usable. case usable of Some c \<Rightarrow> ret c | None \<Rightarrow> chk (active_requester a) (\<lambda>actor.
      let actionHash = computeApprovalActionHash lib a in
      if ap_action_hash a \<noteq> [] \<and> ap_action_hash a \<noteq> actionHash then fail (ErrContext ''approval action fingerprint has changed'')
      else let attempt = (case c of None \<Rightarrow> 1 | Some c \<Rightarrow> cx_attempt_no c + 1); c = new_context lib a actor attempt now contextID
        in (\<lambda>d. case CreateActingContext c d of (Inr _, d1) \<Rightarrow> (Inr c, d1)
          | (Inl e, d1) \<Rightarrow> if e = ErrDuplicatedKey then concurrent_winner a actionHash now d1 else (Inl e, d1)))) d1 = (r, d)"
  then obtain f where "chk (active_requester a) f (s, gs) = (r, d)"
    by (simp add: chk_def [of "latest_context c now"] latest_context_def c d1)
  then show ?thesis by (rule chk_cases) (use disabled_requester_fails b in \<open>fastforce simp: blocked_def\<close>)+
qed

lemma blocked_schedule:
  assumes b: "blocked a s0 before s" and e: "enqueueApprovalExecution lib cfg True a now contextID jobID (s, fs) = (r, d)"
  shows "fst d = s \<and> (\<exists>e. r = Inl e)"
proof -
  let ?count = "\<lambda>js. sql_count (\<lambda>j. j_kind j = JobKindApprovalExecute \<and> j_key j = ApprovalExecutionJobKeyPrefix @ ap_id a \<and> active j) js"
  have jobs: "?count (ap_jobs s) = 0"
    using b by (auto simp: sql_count_def blocked_def never_scheduled_def execution_key_def filter_empty_conv)
  have q: "CountActiveJobsByKey JobKindApprovalExecute (ApprovalExecutionJobKeyPrefix @ ap_id a) = query ?count"
    by (simp add: CountActiveJobsByKey_def query_def)
  have "\<exists>f. chk (on_ap_jobs (query ?count)) (\<lambda>n. if 0 < n then ret False else chk (prepareActingContext lib a now contextID) f) (s, fs) = (r, d)"
    using e unfolding enqueueApprovalExecution_def Let_def q by auto
  then obtain f where "chk (on_ap_jobs (query ?count)) (\<lambda>n. if 0 < n then ret False else chk (prepareActingContext lib a now contextID) f) (s, fs) =
      (r, d)" by blast
  then show ?thesis
  proof (rule chk_cases)
    fix err
    assume "on_ap_jobs (query ?count) (s, fs) = (Inl err, d)" "r = Inl err"
    then show ?thesis using on_ap_jobs_query by blast
  next
    fix n d1
    assume "on_ap_jobs (query ?count) (s, fs) = (Inr n, d1)"
      and f: "(if 0 < n then ret False else chk (prepareActingContext lib a now contextID) f) d1 = (r, d)"
    from on_ap_jobs_query [OF this(1)] jobs have "n = 0" "fst d1 = s" by auto
    then obtain gs where "chk (prepareActingContext lib a now contextID) f (s, gs) = (r, d)" using f by (cases d1) auto
    then show ?thesis by (rule chk_cases) (use blocked_prepare [OF b] in fastforce)+
  qed
qed

lemma blocked_schedule_call:
  assumes "blocked a s0 before s" "de_has_runner env" "schedule env cfg a now (s, fs) = (r, d)"
  shows "fst d = s \<and> (\<exists>e. r = Inl e)"
  by (rule blocked_schedule [OF assms(1)]) (use assms(2, 3) in \<open>simp add: schedule_def\<close>)

lemma blocked_enqueue_each:
  assumes "blocked a s0 before s" and "enqueue_each env cfg now ids k as (s, fs) = (r, d)" and "de_has_runner env"
    and "a \<in> set as" and "\<forall>x\<in>set as. ap_id x = ap_id a \<longrightarrow> x = a"
  shows "blocked a s0 before (fst d) \<and> (\<exists>e. r = Inl e)"
  using assms
proof (induction as arbitrary: k s fs)
  case (Cons x as)
  let ?env = "env\<lparr>de_context_id := ids (2 * k), de_job_id := ids (2 * k + 1)\<rparr>"
  from Cons.prems(2) have "chk (schedule ?env cfg x now) (\<lambda>_. enqueue_each env cfg now ids (Suc k) as) (s, fs) = (r, d)" by simp
  then show ?case
  proof (rule chk_cases)
    fix e
    assume e: "schedule ?env cfg x now (s, fs) = (Inl e, d)" "r = Inl e"
    have "blocked a s0 before (fst d)"
    proof (cases "x = a")
      case True
      then show ?thesis using blocked_schedule_call [OF Cons.prems(1) _ e(1) [unfolded True]] Cons.prems(1, 3) by simp
    next
      case False
      then have "ap_id x \<noteq> ap_id a" using Cons.prems(5) by auto
      from staysD [OF stays_blocked_other [OF this] e(1) [unfolded schedule_def]] Cons.prems(1) show ?thesis by simp
    qed
    then show ?thesis using e by blast
  next
    fix b d1
    assume b: "schedule ?env cfg x now (s, fs) = (Inr b, d1)" and r: "enqueue_each env cfg now ids (Suc k) as d1 = (r, d)"
    have "x \<noteq> a"
    proof
      assume "x = a"
      then show False using blocked_schedule_call [OF Cons.prems(1), of ?env cfg now fs "Inr b" d1] b Cons.prems(3) by simp
    qed
    then have "ap_id x \<noteq> ap_id a" and a: "a \<in> set as" using Cons.prems(4, 5) by auto
    then have "blocked a s0 before (fst d1)"
      using staysD [OF stays_blocked_other b [unfolded schedule_def]] Cons.prems(1) by simp
    then show ?thesis using Cons.IH [of "fst d1" "Suc k" "snd d1"] r a Cons.prems(3, 5) by simp
  qed
qed simp

text \<open>
  One approved action whose requester was disabled before it could be scheduled stops the
  maintenance of every tenant: as long as it is among the approved actions to schedule, each run
  ends with an error at that point, whatever else is in the tables and whatever faults occur. No
  consumed credential is deleted and no settled approval is purged.
\<close>

theorem disabled_requester_blocks_maintenance:
  assumes "uniq ap_id (approvals s)" and "de_has_runner env"
    and "a \<in> set (approved_page (now - 60 * nanos_per_sec) (approvals s))"
    and "requester_disabled a s" and "never_scheduled (ap_id a) s"
    and m: "RunApprovalMaintenance env cfg ids routes now (s, fs) = (r, s', fs')"
  shows "(\<exists>e. r = Inl e) \<and> credentials s' = credentials s \<and>
    (\<forall>b\<in>set (approvals s). ap_status b \<noteq> ApprovalStatusPendingApproval \<longrightarrow> b \<in> set (approvals s'))"
proof -
  let ?t = "now - 60 * nanos_per_sec"
  let ?I = "blocked a s ?t"
  have i: "?I s" using assms(4, 5) by (simp add: blocked_def)
  have "(\<exists>e. r = Inl e) \<and> ?I s'"
  proof -
    obtain n e d1 where x: "ExpireApprovals now (s, fs) = ((n, e), d1)" by (metis surj_pair)
    have "stays ?I (ExpireApprovals now)" by (rule stays_expire) (rule blocked_expire)
    from staysD [OF this x] i have i1: "?I (fst d1)" by simp
    show ?thesis
    proof (cases e)
      case (Some err)
      then show ?thesis using m x i1 by (auto simp: RunApprovalMaintenance_def)
    next
      case None
      then obtain f where "chk (emitApprovalReminders cfg now) (\<lambda>evs. chk (ListApprovedApprovals 200 ?t) (\<lambda>approved.
          chk (enqueue_each env cfg now ids 0 approved) (f evs))) d1 = (r, s', fs')"
        using m x by (fastforce simp: RunApprovalMaintenance_def)
      then show ?thesis
      proof (rule chk_cases)
        fix err
        assume "emitApprovalReminders cfg now d1 = (Inl err, s', fs')" "r = Inl err"
        then show ?thesis using staysD [where I = ?I, OF stays_reminders _ i1] by fastforce
      next
        fix evs d2
        assume d2: "emitApprovalReminders cfg now d1 = (Inr evs, d2)"
          and rest: "chk (ListApprovedApprovals 200 ?t) (\<lambda>approved. chk (enqueue_each env cfg now ids 0 approved) (f evs)) d2 = (r, s', fs')"
        have i2: "?I (fst d2)" by (rule staysD [where I = ?I, OF stays_reminders d2 i1])
        from rest show ?thesis
        proof (rule chk_cases)
          fix err
          assume "ListApprovedApprovals 200 ?t d2 = (Inl err, s', fs')" "r = Inl err"
          then show ?thesis using query_cases [of _ d2] i2 by (fastforce simp: ListApproved_page)
        next
          fix page d3
          assume p: "ListApprovedApprovals 200 ?t d2 = (Inr page, d3)"
            and c: "chk (enqueue_each env cfg now ids 0 page) (f evs) d3 = (r, s', fs')"
          have d3: "fst d3 = fst d2" "page = approved_page ?t (approvals (fst d2))"
            using query_cases [OF p [unfolded ListApproved_page]] by auto
          then have page: "page = approved_page ?t (approvals s)" using i2 by (simp add: blocked_def approved_page_def)
          have sub: "set page \<subseteq> set (approvals s)"
            unfolding page approved_page_def by (metis filter_is_subset set_sort set_take_subset subset_trans)
          have only: "\<forall>x\<in>set page. ap_id x = ap_id a \<longrightarrow> x = a"
            using uniq_inj [OF assms(1)] sub assms(3) page by blast
          obtain gs where d3': "d3 = (fst d2, gs)" using d3 by (cases d3) auto
          have a: "a \<in> set page" using assms(3) page by simp
          from c show ?thesis
            by (rule chk_cases) (use blocked_enqueue_each [OF i2 _ assms(2) a only, of cfg now ids 0 gs] d3' in fastforce)+
        qed
      qed
    qed
  qed
  then show ?thesis by (auto simp: blocked_def)
qed

end
