(* ===== verification/Approval_Policy_Props.thy ===== *)
theory Approval_Policy_Props
  imports Approvals
begin

text \<open>
  Approval policies: a saved policy yields its steps at every submission, the policy that governs a
  request does not depend on what is requested, and what a submission stores as a credential.
\<close>

section \<open>Saved steps\<close>

lemma check_approvers_nonempty: "check_approvers seen as = Inr () \<Longrightarrow> a \<in> set as \<Longrightarrow> av_type a \<noteq> [] \<and> av_value a \<noteq> []"
  by (induction as arbitrary: seen)
    (auto simp: Let_def ApprovalApproverRole_def ApprovalApproverUser_def ApprovalApproverTeam_def split: if_splits)

lemma normalize_step_stable:
  assumes "normalize_step sp = Inr sp'"
  shows "normalize_step sp' = Inr sp'"
proof -
  define as where "as = (if sp_approvers sp = [] then [\<lparr>av_type = sp_approver_type sp, av_value = sp_approver_value sp\<rparr>] else sp_approvers sp)"
  define mode where "mode = (if sp_mode sp = [] then ApprovalModeAny else sp_mode sp)"
  have ne: "as \<noteq> []" "0 < length as" by (auto simp: as_def)
  obtain r where c: "length as \<le> maxApprovalsPerStep" "mode = ApprovalModeAny \<or> mode = ApprovalModeAll" "check_approvers [] as = Inr ()"
    "required_approvals mode (sp_required sp) (length as) = Inr r"
    "sp' = sp\<lparr>sp_approvers := as, sp_mode := mode, sp_required := r, sp_approver_type := av_type (hd as), sp_approver_value := av_value (hd as)\<rparr>"
    using assms unfolding normalize_step_def Let_def as_def [symmetric] mode_def [symmetric]
    by (auto split: if_splits sum.splits)
  have "required_approvals mode r (length as) = Inr r" using c(4) ne by (auto simp: required_approvals_def Let_def split: if_splits)
  moreover have "mode \<noteq> []" using c(2) by (auto simp: ApprovalModeAny_def ApprovalModeAll_def)
  ultimately show ?thesis using c ne by (simp add: normalize_step_def)
qed

lemma normalize_steps_stable: "normalize_steps sps = Inr sps' \<Longrightarrow> normalize_steps sps' = Inr sps'"
  by (induction sps arbitrary: sps') (auto split: sum.splits dest: normalize_step_stable)

lemma validate_stable: "validateApprovalSteps sps = Inr sps' \<Longrightarrow> validateApprovalSteps sps' = Inr sps'"
  by (auto simp: validateApprovalSteps_def normalize_steps_stable split: sum.splits)

lemma validate_empty: "validateApprovalSteps sps = Inr [] \<longleftrightarrow> sps = []"
  by (cases sps) (auto simp: validateApprovalSteps_def split: sum.splits)


section \<open>Selection\<close>

text \<open>
  Which policy governs a request does not depend on the type of the object or on the action, as
  long as no cached list is used: the policies of the tenant are not filtered by the object type and
  the action they were saved for.
\<close>

theorem selection_ignores_object_and_action:
  assumes "sv_cache v = Map.empty"
  shows "fst (matchApprovalPolicy lib tenantID objectType action attrs now v) =
    fst (matchApprovalPolicy lib tenantID objectType2 action2 attrs now v)"
  using assms
  by (auto simp: matchApprovalPolicy_def sharedApprovalCacheKey_def chk_def on_sv_def Let_def split: prod.splits sum.splits if_splits)

section \<open>Credentials\<close>

text \<open>
  A submission whose payload has no API key stores a credential nevertheless: the absent member is
  printed as the text nil in angle brackets, which is not empty, and this text is what the executor
  later gets as the API key. The hypotheses are that the formatter prints a nil interface that way, as
  the documentation of Go's fmt package says, and that the cipher opens what it sealed.
\<close>

theorem missing_api_key_becomes_nil_text:
  assumes "Sprint (al_fmt (se_lib env)) (GoJson JNull) = ''<nil>''" and "''api_key'' \<notin> set (map fst kvs)"
    and "length (se_key env) = 32" and "se_nonce env = Some nonce"
    and "length nonce = 12" and "\<And>p. aead_open (se_aead env) (se_key env) nonce (aead_seal (se_aead env) (se_key env) nonce p) = Some p"
  shows "\<exists>c. submit_credential env tenantID kvs = Inr (Some c, kvs) \<and>
    Decrypt (se_aead env) (se_key env) (cd_ciphertext c) = Some ''<nil>''"
proof -
  let ?nil = "''<nil>''"
  have "map_of (rev kvs) ''api_key'' = None" using assms(2) by (auto simp: map_of_eq_None_iff)
  then have m: "member_value kvs ''api_key'' = JNull" by (simp add: member_value_def)
  have t: "TrimSpace ?nil = ?nil" by code_simp
  obtain sealed where e: "Encrypt (se_aead env) (se_key env) (se_nonce env) ?nil = Some sealed"
    using assms(3, 4) by (simp add: Encrypt_def)
  have f: "filter (\<lambda>(k, _). k \<noteq> ''api_key'') kvs = kvs" using assms(2) by (force simp: filter_id_conv)
  have "Decrypt (se_aead env) (se_key env) sealed = Some ?nil"
    by (rule Decrypt_Encrypt [OF assms(6) assms(5) e [unfolded assms(4)]])
  then show ?thesis using e by (simp add: submit_credential_def m t assms(1) f Let_def)
qed

end
