(* ===== verification/Approval_Execution.thy ===== *)
theory Approval_Execution
  imports Approval_Theorems Approval_Liveness Approval_Policy_Props
begin

text \<open>
  The execution of granted approvals: each execution authorization is used at most once; and who may
  decide. Concrete runs witness these and the properties of
  \<^verbatim>\<open>Approval_Liveness\<close> and \<^verbatim>\<open>Approval_Policy_Props\<close>.
\<close>

section \<open>Executions\<close>

definition codec_lib :: act_lib where
  "codec_lib = demo_lib\<lparr>al_unmarshal := (\<lambda>raw. if raw = ''{}'' then Some (JObj []) else
     Some (JObj [(''acting_context_id'', JStr ''x1''), (''approval_action_hash'', JStr ''sha256:t1datasetd1newdeletesha256:{}''),
       (''approval_id'', JStr ''a1''), (''idempotency_key'', JStr ''k1''), (''request_id'', JStr ''APR-19700101-00000001''),
       (''target_tenant_id'', JStr ''t1'')]))\<rparr>"

definition demo_cfg :: ap_config where
  "demo_cfg = \<lparr>cf_enabled = True, cf_default_expire_hours = 72, cf_execution_max_retries = 3, cf_expire_scan_interval_sec = 3600,
     cf_reminder_before_hours = 24, cf_policy_cache_ttl_sec = 0, cf_retention_days = 30\<rparr>"

definition demo_executor :: executor where
  "demo_executor = \<lparr>ex_registered = (\<lambda>_. True), ex_healthy = None, ex_resource = (\<lambda>_. None), ex_validate = (\<lambda>_. None),
     ex_execute = (\<lambda>_. Inr ''{}''), ex_message = (\<lambda>_. [])\<rparr>"

definition demo_context :: acting_context where
  "demo_context = \<lparr>cx_id = ''x1'', cx_actor_id = ''req'', cx_actor_tenant_id = ''t1'', cx_actor_role = ''member'',
     cx_target_tenant_id = ''t1'', cx_resource_type = ''dataset'', cx_resource_id = ''d1'', cx_resource_version = ''new'',
     cx_action = ''delete'', cx_approval_id = ''a1'', cx_attempt_no = 1, cx_action_hash = ''sha256:t1datasetd1newdeletesha256:{}'',
     cx_idempotency_key = ''k1'', cx_request_id = ''APR-19700101-00000001'', cx_claimed_by = [], cx_claim_expires_at = None,
     cx_expires_at = 300000000002, cx_status = ActingContextActive\<rparr>"

definition demo_operation :: operation where
  "demo_operation = \<lparr>op_id = ''o1'', op_tenant_id = ''t1'', op_approval_id = ''a1'', op_acting_context_id = ''x1'', op_attempt_no = 1,
     op_fingerprint = ''sha256:t1datasetd1newdeletesha256:{}'', op_action_hash = ''sha256:t1datasetd1newdeletesha256:{}'',
     op_status = ApprovalOperationRunning, op_result_json = ''{}'', op_last_error = [], op_claimed_by = ''j1'', op_updated_at = 3\<rparr>"

definition demo_job :: job where
  "demo_job = \<lparr>j_id = ''j1'', j_kind = ''approval_execute'', j_key = ''approval_execute:a1'', j_tenant_id = ''t1'',
     j_payload = ''x1sha256:t1datasetd1newdeletesha256:{}a1k1APR-19700101-00000001t1'', j_status = JobStatusQueued, j_attempts = 0,
     j_max_retry = 3, j_last_error = [], j_result = [], j_run_after = 2, j_last_heartbeat = never\<rparr>"

definition demo_scheduled :: ap_store where
  "demo_scheduled = demo_granted\<lparr>acting_contexts := [demo_context], ap_jobs := [demo_job]\<rparr>"

definition demo_claimed :: ap_store where
  "demo_claimed = demo_scheduled\<lparr>operations := [demo_operation], acting_contexts :=
     [demo_context\<lparr>cx_status := ActingContextClaimed, cx_claimed_by := ''j1'', cx_claim_expires_at := Some 60000000003\<rparr>]\<rparr>"

lemma demo_schedules: "fst (snd (enqueueApprovalExecution codec_lib demo_cfg True (demo_row ApprovalStatusApproved 2 1 (Some 1)) 2
    ''x1'' ''j1'' (demo_granted, []))) = demo_scheduled"
  by code_simp

lemma demo_claims: "run_resolve codec_lib demo_executor demo_job \<lparr>ra_now = 3, ra_operation_id = ''o1'', ra_context_id = ''x2''\<rparr>
    (demo_scheduled, []) = (Inr (demo_row ApprovalStatusApproved 2 1 (Some 1), demo_context, Proceed demo_operation), demo_claimed, [])"
  by code_simp

lemma demo_executes: "rr_executed (fst (run_claimed codec_lib demo_executor demo_job (demo_row ApprovalStatusApproved 2 1 (Some 1))
    demo_context demo_operation 4 (demo_claimed, []))) = [''x1'']"
  by code_simp

text \<open>
  C29: However runs of the approval worker, the scheduling of approved actions and other calls
  interleave, with database faults anywhere, the executor of an action is called at most once under
  each execution authorization (acting context): a claim is granted on an active context only, and a
  context that left the active state never returns to it.
\<close>

theorem context_executed_once:
  assumes "run_step\<^sup>*\<^sup>* (s0, [], []) (s, W, L)" and "acting_contexts s0 = []"
  shows "distinct L \<and> set L \<subseteq> spent s"
proof -
  have "run_inv (s, W, L)"
    using assms(1)
  proof (induction rule: rtranclp_induct)
    case base
    then show ?case using assms(2) by (simp add: run_inv_def claims_of_def ctx_inv_def)
  qed (blast intro: run_step_invariant)
  then show ?thesis by (auto simp: run_inv_def ctx_inv_def)
qed

theorem context_executed_once_witness:
  "\<exists>s. run_step\<^sup>*\<^sup>* (demo_granted, [], []) (s, [], [''x1'']) \<and> ''x1'' \<in> spent s"
proof -
  let ?w = "(demo_row ApprovalStatusApproved 2 1 (Some 1), demo_context, demo_operation)"
  let ?r = "run_claimed codec_lib demo_executor demo_job (demo_row ApprovalStatusApproved 2 1 (Some 1)) demo_context demo_operation 4
    (demo_claimed, [])"
  have 1: "run_step (demo_granted, [], []) (demo_scheduled, [], [])"
    using demo_schedules by (intro run_step.schedules) (auto simp: prod_eq_iff)
  have 2: "run_step (demo_scheduled, [], []) (demo_claimed, [?w], [])" by (rule run_step.claims [OF demo_claims])
  have 3: "run_step (demo_claimed, [?w], []) (fst (snd ?r), [], [''x1''])"
    using run_step.executes [of "fst ?w" "fst (snd ?w)" "snd (snd ?w)" "[?w]" codec_lib demo_executor demo_job 4 demo_claimed "[]"
        "fst ?r" "fst (snd ?r)" "snd (snd ?r)" "[]"] demo_executes by simp
  have run: "run_step\<^sup>*\<^sup>* (demo_granted, [], []) (fst (snd ?r), [], [''x1''])"
    using 1 2 3 by (auto intro: converse_rtranclp_into_rtranclp)
  have start: "acting_contexts demo_granted = []" by code_simp
  have "''x1'' \<in> spent (fst (snd ?r))" using context_executed_once [OF run start] by simp
  then show ?thesis using run by blast
qed

section \<open>Decisions\<close>

lemma on_sv_cases:
  assumes "on_sv m v = (r, v')"
  obtains d where "m (sv_db v) = (r, d)" "v' = v\<lparr>sv_db := d\<rparr>"
  using assms by (auto simp: on_sv_def split: prod.splits)

lemma decision_limited_db: "decision_limited lmt actorID now v = (r, v') \<Longrightarrow> sv_db v' = sv_db v"
  by (auto simp: decision_limited_def split: prod.splits sum.splits if_splits)

lemma decide_finish_actors:
  assumes "decide_finish env cfg r now d = (q, d1)"
  shows "step_actors (fst d1) = step_actors (fst d)"
proof -
  have "stays (\<lambda>s. step_actors s = step_actors (fst d)) (decide_finish env cfg r now)"
    unfolding decide_finish_def reopen_task_def schedule_def
    by (auto intro!: stays_chk stays_ret stays_enqueue_any split: prod.splits option.splits)
  from staysD [OF this assms] show ?thesis by simp
qed


definition demo_decision :: "(err + approval) \<times> memory ap_svc" where
  "demo_decision = DecideApproval Memory \<lparr>de_lib = codec_lib, de_has_runner = True, de_reopen = (\<lambda>_. None), de_context_id = ''x1'',
     de_job_id = ''j1''\<rparr> ''ann'' ''t1'' ''a1'' ApprovalDecisionApprove ''ok'' 1
     \<lparr>sv_db = (demo_s1, []), sv_config = demo_cfg, sv_revision = ''r'', sv_cache = Map.empty, sv_decisions = NewMemory, sv_submits = NewMemory\<rparr>"


section \<open>Witnesses of the liveness properties\<close>

theorem expiry_sweep_completes_witness:
  "\<exists>s'. ExpireApprovals 259200000000001 (demo_s1, []) = ((1, None), s', []) \<and> map ap_status (approvals s') = [ApprovalStatusExpired]"
proof -
  let ?t = 259200000000001
  have u: "uniq ap_id (approvals demo_s1)" unfolding uniq_def by code_simp
  have n: "int (length (filter (overdue ?t) (approvals demo_s1))) = 1" by code_simp
  have m: "map ap_status (map (\<lambda>a. if overdue ?t a then expired_row ?t a else a) (approvals demo_s1)) = [ApprovalStatusExpired]"
    by code_simp
  from expiry_sweep_completes [OF u, of ?t, unfolded n] obtain s' where "ExpireApprovals ?t (demo_s1, []) = ((1, None), s', [])"
    "approvals s' = map (\<lambda>a. if overdue ?t a then expired_row ?t a else a) (approvals demo_s1)" by blast
  then show ?thesis using m by (intro exI [of _ s'] conjI) simp_all
qed

definition demo_env2 :: decide_env where
  "demo_env2 = \<lparr>de_lib = codec_lib, de_has_runner = True, de_reopen = (\<lambda>_. None), de_context_id = ''x2'', de_job_id = ''j2''\<rparr>"

definition demo_failed :: ap_store where
  "demo_failed = demo_granted\<lparr>approvals := [demo_row ApprovalStatusExecutionFailed 2 1 (Some 1)],
     ap_jobs := [demo_job\<lparr>j_status := JobStatusSucceeded\<rparr>]\<rparr>"

definition demo_retry :: "(err + approval) \<times> ap_store db" where
  "demo_retry = RetryApprovalExecution demo_env2 demo_cfg ''ann'' ''t1'' ''a1'' ''again'' 10 (demo_failed, [])"


definition demo_disabled :: ap_store where
  "demo_disabled = demo_granted\<lparr>as_ids := ap_ids\<lparr>users := [(ap_user ''req'')\<lparr>us_status := ''disabled''\<rparr>, ap_user ''ann'', ap_user ''bob'']\<rparr>\<rparr>"

definition demo_maintained :: "(err + (string \<times> string) list) \<times> ap_store db" where
  "demo_maintained = RunApprovalMaintenance demo_env2 demo_cfg (\<lambda>_. ''x2'') None 60000000002 (demo_disabled, [])"

theorem disabled_requester_blocks_maintenance_witness:
  "(\<exists>e. fst demo_maintained = Inl e) \<and> credentials (fst (snd demo_maintained)) = credentials demo_disabled"
proof -
  let ?a = "demo_row ApprovalStatusApproved 2 1 (Some 1)"
  have "uniq ap_id (approvals demo_disabled)" unfolding uniq_def by code_simp
  moreover have "de_has_runner demo_env2" by code_simp
  moreover have "?a \<in> set (approved_page (60000000002 - 60 * nanos_per_sec) (approvals demo_disabled))" by code_simp
  moreover have "requester_disabled ?a demo_disabled" unfolding requester_disabled_def by code_simp
  moreover have "never_scheduled (ap_id ?a) demo_disabled" unfolding never_scheduled_def by code_simp
  moreover have "RunApprovalMaintenance demo_env2 demo_cfg (\<lambda>_. ''x2'') None 60000000002 (demo_disabled, []) =
      (fst demo_maintained, fst (snd demo_maintained), snd (snd demo_maintained))" by (simp add: demo_maintained_def)
  ultimately show ?thesis using disabled_requester_blocks_maintenance by blast
qed

section \<open>Witnesses of the policy properties\<close>

definition demo_svc :: "ap_store \<Rightarrow> memory ap_svc" where
  "demo_svc s = \<lparr>sv_db = (s, []), sv_config = demo_cfg, sv_revision = ''r'', sv_cache = Map.empty, sv_decisions = NewMemory,
     sv_submits = NewMemory\<rparr>"

definition demo_save :: "(err + policy) \<times> memory ap_svc" where
  "demo_save = SaveApprovalPolicy ''ann'' ''t1'' \<lparr>pr_id = [], pr_tenant_id = [], pr_object_type = ''dataset'', pr_action = ''delete'',
     pr_enabled = True, pr_priority = 1, pr_conditions = [], pr_expire_hours = 72,
     pr_steps = [demo_spec 1 ''role'' ''lead'', demo_spec 2 ''user'' ''bob'']\<rparr> ''pol'' (demo_svc ap_empty)"


theorem selection_ignores_object_and_action_witness:
  "fst (matchApprovalPolicy demo_fmt ''t1'' ''api-key'' ''create'' [] 0 (demo_svc (ap_empty\<lparr>policies := [demo_policy]\<rparr>))) =
     Inr (Some demo_policy) \<and> po_object_type demo_policy = ''dataset'' \<and> po_action demo_policy = ''delete''"
proof -
  let ?v = "demo_svc (ap_empty\<lparr>policies := [demo_policy]\<rparr>)"
  have "sv_cache ?v = Map.empty" by (simp add: demo_svc_def)
  note same = selection_ignores_object_and_action [OF this, of demo_fmt "''t1''" "''api-key''" "''create''" "[]" 0 "''dataset''" "''delete''"]
  have "fst (matchApprovalPolicy demo_fmt ''t1'' ''dataset'' ''delete'' [] 0 ?v) = Inr (Some demo_policy)" by code_simp
  then show ?thesis unfolding same by (simp add: demo_policy_def)
qed

theorem missing_api_key_becomes_nil_text_witness:
  "\<exists>c. submit_credential demo_env ''t1'' [] = Inr (Some c, []) \<and>
     Decrypt (se_aead demo_env) (se_key demo_env) (cd_ciphertext c) = Some ''<nil>''"
proof (rule missing_api_key_becomes_nil_text)
  show "Sprint (al_fmt (se_lib demo_env)) (GoJson JNull) = ''<nil>''" by code_simp
  show "length (se_key demo_env) = 32" by code_simp
  show "se_nonce demo_env = Some (replicate 12 (CHR ''n''))" by code_simp
  show "aead_open (se_aead demo_env) (se_key demo_env) (replicate 12 (CHR ''n''))
      (aead_seal (se_aead demo_env) (se_key demo_env) (replicate 12 (CHR ''n'')) p) = Some p" for p
    by (simp add: demo_env_def demo_aead_def)
qed simp_all

end
