(* ===== verification/Gateway_Model.thy ===== *)
theory Gateway_Model
  imports Sql_Table
begin

text \<open>
  The rows of the gateway's tables (\<^verbatim>\<open>internal/model/metrics.go\<close>, \<^verbatim>\<open>quota_bucket.go\<close>,
  \<^verbatim>\<open>assets.go\<close>) and the store that holds them. Columns keep their names. Left out are the
  surrogate \<^verbatim>\<open>id\<close> of the balance rows and the \<^verbatim>\<open>updated_at\<close> columns, which no operation of
  the gateway reads, and the attribution columns of a reservation, which no operation writes.
  Times are nanoseconds since the Unix epoch.
\<close>

section \<open>Balances\<close>

text \<open>
  The six balance columns that \<^verbatim>\<open>QuotaLimit\<close> and \<^verbatim>\<open>QuotaBucket\<close> share; both rows extend it.
\<close>

record balance =
  token_limit :: int
  tokens_used :: int
  pending :: int
  request_limit :: int
  requests_used :: int
  pending_requests :: int

record quota_limit = balance +
  ql_tenant_id :: string
  ql_key_id :: string
  ql_period_start :: string

record quota_bucket = balance +
  qb_tenant_id :: string
  qb_dimension :: string
  qb_dimension_key :: string
  qb_period_start :: string

section \<open>Reservations\<close>

datatype resv_status = QuotaReservationPending | QuotaReservationFinalized | QuotaReservationReleased

record quota_reservation =
  r_request_id :: string
  r_tenant_id :: string
  r_key_id :: string
  r_period_start :: string
  r_estimated :: int
  r_actual_tokens :: int
  r_status :: resv_status
  r_applied :: bool
  r_created_at :: int

record quota_bucket_reservation =
  br_request_id :: string
  br_tenant_id :: string
  br_dimension :: string
  br_dimension_key :: string
  br_period_start :: string
  br_estimated :: int
  br_actual_tokens :: int
  br_status :: resv_status
  br_applied :: bool
  br_created_at :: int

section \<open>Credentials and metering\<close>

text \<open>
  \<^verbatim>\<open>ScopesJSON\<close> and \<^verbatim>\<open>AllowedIPsJSON\<close> hold JSON text; \<^verbatim>\<open>ExpiredAt\<close> is nullable.
\<close>

record api_key =
  k_id :: string
  k_tenant_id :: string
  k_user_id :: string
  k_name :: string
  k_key_hash :: string
  k_prefix :: string
  k_token_quota :: int
  k_request_quota :: int
  k_scopes_json :: string
  k_allowed_ips_json :: string
  k_expired_at :: "int option"
  k_enabled :: bool
  k_last_used_at :: "int option"

record meter_request =
  m_request_id :: string
  m_tenant_id :: string
  m_user_id :: string
  m_key_id :: string
  m_date :: string

record quota_usage =
  u_tenant_id :: string
  u_user_id :: string
  u_key_id :: string
  u_request_id :: string
  u_date :: string
  u_tokens_in :: int
  u_tokens_out :: int
  u_requests :: int
  u_estimated :: bool

record cost_metric =
  c_request_id :: string
  c_tenant_id :: string
  c_user_id :: string
  c_key_id :: string
  c_date :: string
  c_model :: string
  c_scenario :: string
  c_tokens_in :: int
  c_tokens_out :: int
  c_estimated :: bool

datatype idem_status =
  IdempotencyInProgress | IdempotencyCompleted | IdempotencyFailed | IdempotencyExpired

record gateway_idempotency =
  i_id :: string
  i_tenant_id :: string
  i_principal_id :: string
  i_idempotency_key :: string
  i_request_fingerprint :: string
  i_status :: idem_status
  i_request_id :: string
  i_response_ref :: string
  i_created_at :: int
  i_expires_at :: int
  i_completed_at :: "int option"

section \<open>The store\<close>

record gw_store =
  quota_limits :: "quota_limit list"
  quota_reservations :: "quota_reservation list"
  quota_buckets :: "quota_bucket list"
  quota_bucket_reservations :: "quota_bucket_reservation list"
  meter_requests :: "meter_request list"
  quota_usages :: "quota_usage list"
  cost_metrics :: "cost_metric list"
  gateway_idempotencies :: "gateway_idempotency list"

definition empty_store :: gw_store where
  "empty_store = \<lparr>quota_limits = [], quota_reservations = [], quota_buckets = [],
     quota_bucket_reservations = [], meter_requests = [], quota_usages = [], cost_metrics = [],
     gateway_idempotencies = []\<rparr>"

text \<open>The unique indexes of the tables.\<close>

definition limit_key :: "quota_limit \<Rightarrow> string \<times> string" where
  "limit_key q = (ql_key_id q, ql_period_start q)"

definition bucket_key :: "quota_bucket \<Rightarrow> string \<times> string" where
  "bucket_key q = (qb_dimension_key q, qb_period_start q)"

definition usage_scope :: "quota_usage \<Rightarrow> string \<times> string \<times> string \<times> string" where
  "usage_scope u = (u_tenant_id u, u_user_id u, u_key_id u, u_date u)"

definition idem_key :: "gateway_idempotency \<Rightarrow> string \<times> string \<times> string" where
  "idem_key i = (i_tenant_id i, i_principal_id i, i_idempotency_key i)"

text \<open>\<open>ExpiresAt\<close> is one day after creation.\<close>

definition nanos_per_day :: int where
  "nanos_per_day = 86400000000000"

end
