(* ===== verification/Budget_Ledger.thy ===== *)
theory Budget_Ledger
  imports Gateway_Model
begin

text \<open>
  What the two quota ledgers of the gateway (per API key: \<^verbatim>\<open>repository/quota.go\<close>; per tenant,
  model or assistant bucket: \<^verbatim>\<open>repository/quota_bucket.go\<close>) have in common: the SQL expressions
  over the balance columns, and the interface \<open>budget_ledger\<close> with the lemmas that follow from
  it alone (exactly-once settlement, pending equals the open reservations, no overshoot).
\<close>

section \<open>The SQL expressions over a balance row\<close>

definition boolToInt :: "bool \<Rightarrow> int" where
  "boolToInt value = (if value then 1 else 0)"

text \<open>\<^verbatim>\<open>CASE WHEN x - y < 0 THEN 0 ELSE x - y END\<close>\<close>

definition clamp_sub :: "int \<Rightarrow> int \<Rightarrow> int" where
  "clamp_sub x y = (if x - y < 0 then 0 else x - y)"

definition reserve_guard :: "int \<Rightarrow> bool \<Rightarrow> 'z balance_scheme \<Rightarrow> bool" where
  "reserve_guard est reserveRequest b \<longleftrightarrow>
     (token_limit b \<le> 0 \<or> tokens_used b + pending b + est \<le> token_limit b) \<and>
     (request_limit b \<le> 0 \<or>
        requests_used b + pending_requests b + boolToInt reserveRequest \<le> request_limit b)"

definition reserve_balance :: "int \<Rightarrow> bool \<Rightarrow> 'z balance_scheme \<Rightarrow> 'z balance_scheme" where
  "reserve_balance est reserveRequest b =
     b\<lparr>pending := (if 0 < est then pending b + est else pending b),
       pending_requests :=
         (if reserveRequest then pending_requests b + 1 else pending_requests b)\<rparr>"

definition charge_balance :: "int \<Rightarrow> int \<Rightarrow> 'z balance_scheme \<Rightarrow> 'z balance_scheme" where
  "charge_balance actual est b =
     b\<lparr>tokens_used := tokens_used b + actual,
       pending := clamp_sub (pending b) est,
       requests_used := requests_used b + 1,
       pending_requests := clamp_sub (pending_requests b) 1\<rparr>"

definition free_balance :: "int \<Rightarrow> int \<Rightarrow> 'z balance_scheme \<Rightarrow> 'z balance_scheme" where
  "free_balance tokens requests b =
     b\<lparr>pending := clamp_sub (pending b) tokens,
       pending_requests := clamp_sub (pending_requests b) requests\<rparr>"

definition quotaRemaining :: "int \<Rightarrow> int \<Rightarrow> int \<Rightarrow> int" where
  "quotaRemaining limit used pend =
     (if limit \<le> 0 then - 1
      else let remaining = wrap64 (wrap64 (limit - used) - pend)
           in if remaining < 0 then 0 else remaining)"

definition errQuotaExceeded :: err where
  "errQuotaExceeded = Failure ''quota exceeded''"

lemma errQuotaExceeded_neq [simp]: "errQuotaExceeded \<noteq> DbFault" "DbFault \<noteq> errQuotaExceeded"
  by (simp_all add: errQuotaExceeded_def)

lemmas balance_expr_defs = reserve_balance_def charge_balance_def free_balance_def

lemma truncate_balance_exprs [simp]:
  "balance.truncate (reserve_balance e rr b) = reserve_balance e rr (balance.truncate b)"
  "balance.truncate (charge_balance n e b) = charge_balance n e (balance.truncate b)"
  "balance.truncate (free_balance e n b) = free_balance e n (balance.truncate b)"
  by (simp_all add: balance_expr_defs balance.defs)

lemma reserve_guard_truncate [simp]:
  "reserve_guard e rr (balance.truncate b) = reserve_guard e rr b"
  by (simp add: reserve_guard_def balance.defs)

lemma clamp_sub_nonneg [simp]: "0 \<le> clamp_sub x y"
  by (simp add: clamp_sub_def)

lemma clamp_sub_exact: "y \<le> x \<Longrightarrow> clamp_sub x y = x - y"
  by (simp add: clamp_sub_def)

section \<open>Reservations as the ledgers see them\<close>

record 'a entry =
  e_acct :: 'a
  e_est :: int
  e_status :: resv_status
  e_applied :: bool

definition is_open :: "'a entry \<Rightarrow> bool" where
  "is_open e \<longleftrightarrow> e_status e = QuotaReservationPending \<and> e_applied e"

definition open_ids :: "(string \<rightharpoonup> 'a entry) \<Rightarrow> 'a \<Rightarrow> string set" where
  "open_ids f a = {r. \<exists>e. f r = Some e \<and> is_open e \<and> e_acct e = a}"

definition open_sum :: "(string \<rightharpoonup> 'a entry) \<Rightarrow> 'a \<Rightarrow> int" where
  "open_sum f a = (\<Sum>r\<in>open_ids f a. e_est (the (f r)))"

definition closed_at :: "(string \<rightharpoonup> 'a entry) \<Rightarrow> string \<Rightarrow> bool" where
  "closed_at f r \<longleftrightarrow> (\<forall>e. f r = Some e \<longrightarrow> \<not> is_open e)"

lemma open_ids_upd_same:
  "f r = Some e \<Longrightarrow> is_open e' = is_open e \<Longrightarrow> e_acct e' = e_acct e \<Longrightarrow>
   open_ids (f(r \<mapsto> e')) a = open_ids f a"
  by (auto simp: open_ids_def)

lemma open_ids_close:
  "f r = Some e \<Longrightarrow> is_open e \<Longrightarrow> \<not> is_open e' \<Longrightarrow>
   open_ids (f(r \<mapsto> e')) a = (if a = e_acct e then open_ids f a - {r} else open_ids f a)"
  by (auto simp: open_ids_def)

lemma open_ids_add:
  "closed_at f r \<Longrightarrow> is_open e \<Longrightarrow>
   open_ids (f(r \<mapsto> e)) a = (if a = e_acct e then insert r (open_ids f a) else open_ids f a)"
  by (auto simp: open_ids_def closed_at_def)

lemma open_ids_shut:
  "closed_at f r \<Longrightarrow> \<not> is_open e \<Longrightarrow>
   open_ids (f(r \<mapsto> e)) a = open_ids f a"
  by (auto simp: open_ids_def closed_at_def)

lemma finite_open_ids: "finite (dom f) \<Longrightarrow> finite (open_ids f a)"
  by (rule finite_subset [where B = "dom f"]) (auto simp: open_ids_def)

lemma open_sum_agree:
  assumes "open_ids f' a = open_ids f a" and "\<And>r. r \<in> open_ids f a \<Longrightarrow> f' r = f r"
  shows "open_sum f' a = open_sum f a"
  using assms by (simp add: open_sum_def)

lemma open_sum_close:
  assumes "finite (dom f)" and "f r = Some e" and "is_open e" and "\<not> is_open e'"
  shows "open_sum (f(r \<mapsto> e')) a = (if a = e_acct e then open_sum f a - e_est e else open_sum f a)"
proof -
  let ?I = "open_ids f a"
  have fin: "finite ?I" using assms(1) by (rule finite_open_ids)
  have ids: "open_ids (f(r \<mapsto> e')) a = ?I - {r}"
    using assms(2-4) by (auto simp: open_ids_def)
  have eq: "open_sum (f(r \<mapsto> e')) a = (\<Sum>x\<in>?I - {r}. e_est (the (f x)))"
    unfolding open_sum_def ids by (rule sum.cong) auto
  show ?thesis
  proof (cases "a = e_acct e")
    case True
    then have "r \<in> ?I" using assms(2,3) by (auto simp: open_ids_def)
    then show ?thesis using eq fin assms(2) True by (simp add: open_sum_def sum_diff1)
  next
    case False
    then have "r \<notin> ?I" using assms(2) by (auto simp: open_ids_def)
    then show ?thesis using eq False by (simp add: open_sum_def)
  qed
qed

lemma open_sum_open:
  assumes "finite (dom f)" and "closed_at f r" and "is_open e"
  shows "open_sum (f(r \<mapsto> e)) a = (if a = e_acct e then open_sum f a + e_est e else open_sum f a)"
proof -
  have fin: "finite (open_ids f a)" using assms(1) by (rule finite_open_ids)
  have r: "r \<notin> open_ids f a" using assms(2) by (auto simp: open_ids_def closed_at_def)
  have same: "(\<Sum>x\<in>open_ids f a. e_est (the ((f(r \<mapsto> e)) x))) = open_sum f a"
    unfolding open_sum_def by (rule sum.cong) (use r in auto)
  show ?thesis
  proof (cases "a = e_acct e")
    case True
    then show ?thesis using same fin r
      by (simp add: open_sum_def open_ids_add [OF assms(2,3)])
  next
    case False
    then show ?thesis using same by (simp add: open_sum_def open_ids_add [OF assms(2,3)])
  qed
qed

lemma open_sum_shut:
  assumes "closed_at f r" and "\<not> is_open e"
  shows "open_sum (f(r \<mapsto> e)) a = open_sum f a"
proof -
  have "r \<notin> open_ids f a" using assms(1) by (auto simp: open_ids_def closed_at_def)
  then show ?thesis
    by (intro open_sum_agree) (auto simp: open_ids_shut [OF assms])
qed

lemma open_est_le_sum:
  assumes "finite (dom f)" and "f r = Some e" and "is_open e"
    and "\<And>x e. f x = Some e \<Longrightarrow> 0 \<le> e_est e"
  shows "e_est e \<le> open_sum f (e_acct e)"
proof -
  have "r \<in> open_ids f (e_acct e)" using assms(2,3) by (auto simp: open_ids_def)
  moreover have "\<And>x. x \<in> open_ids f (e_acct e) \<Longrightarrow> 0 \<le> e_est (the (f x))"
    using assms(4) by (auto simp: open_ids_def)
  ultimately have "e_est (the (f r)) \<le> open_sum f (e_acct e)"
    unfolding open_sum_def using finite_open_ids [OF assms(1)] by (intro member_le_sum) auto
  then show ?thesis using assms(2) by simp
qed

text \<open>
  The two balance invariants. \<open>balanced\<close>: the pending columns are exactly the open
  reservations (\<open>flag\<close> says for which accounts a reservation also holds a request slot).
  \<open>in_budget\<close>: what is spent and held never exceeds a configured limit.
\<close>

definition balanced :: "('a \<Rightarrow> bool) \<Rightarrow> ('a \<Rightarrow> balance option) \<Rightarrow> (string \<rightharpoonup> 'a entry) \<Rightarrow> bool" where
  "balanced flag bl f \<longleftrightarrow>
     (\<forall>r e. f r = Some e \<longrightarrow> 0 \<le> e_est e) \<and>
     (\<forall>a b. bl a = Some b \<longrightarrow> pending b = open_sum f a \<and>
        pending_requests b = (if flag a then int (card (open_ids f a)) else 0))"

definition in_budget :: "'z balance_scheme \<Rightarrow> bool" where
  "in_budget b \<longleftrightarrow>
     (0 < token_limit b \<longrightarrow> tokens_used b + pending b \<le> token_limit b) \<and>
     (0 < request_limit b \<longrightarrow> requests_used b + pending_requests b \<le> request_limit b)"

lemma in_budget_truncate [simp]: "in_budget (balance.truncate b) = in_budget b"
  by (simp add: in_budget_def balance.defs)

lemma in_budget_reserve: "reserve_guard est rr b \<Longrightarrow> 0 \<le> est \<Longrightarrow> in_budget (reserve_balance est rr b)"
  by (auto simp: in_budget_def reserve_guard_def reserve_balance_def boolToInt_def)

lemma in_budget_charge:
  assumes "in_budget b" and "n \<le> est" and "est \<le> pending b"
    and "0 < request_limit b \<longrightarrow> 1 \<le> pending_requests b"
  shows "in_budget (charge_balance n est b)"
  using assms by (auto simp: in_budget_def charge_balance_def clamp_sub_def)

lemma in_budget_free:
  assumes "in_budget b" and "0 \<le> e" and "0 \<le> n" and "0 \<le> pending b" and "0 \<le> pending_requests b"
  shows "in_budget (free_balance e n b)"
  using assms by (auto simp: in_budget_def free_balance_def clamp_sub_def)

lemma balancedD:
  assumes "balanced flag bl f"
  shows "\<And>r e. f r = Some e \<Longrightarrow> 0 \<le> e_est e"
    and "\<And>a b. bl a = Some b \<Longrightarrow> pending b = open_sum f a"
    and "\<And>a b. bl a = Some b \<Longrightarrow>
           pending_requests b = (if flag a then int (card (open_ids f a)) else 0)"
  using assms by (auto simp: balanced_def)

lemma open_sum_nonneg: "balanced flag bl f \<Longrightarrow> 0 \<le> open_sum f a"
  unfolding open_sum_def by (rule sum_nonneg) (auto simp: open_ids_def dest: balancedD(1))

lemma open_card_pos:
  assumes "finite (dom f)" and "f r = Some e" and "is_open e"
  shows "1 \<le> int (card (open_ids f (e_acct e)))"
proof -
  have "r \<in> open_ids f (e_acct e)" using assms(2,3) by (auto simp: open_ids_def)
  then have "0 < card (open_ids f (e_acct e))"
    using finite_open_ids [OF assms(1)] by (auto simp: card_gt_0_iff)
  then show ?thesis by simp
qed

text \<open>Closing an open reservation and opening one keep \<open>balanced\<close>.\<close>

lemma balanced_close:
  assumes bl: "balanced flag bl f" and fin: "finite (dom f)"
    and e: "f r = Some e" "is_open e" "\<not> is_open e'" "e_est e' = e_est e"
    and g: "\<And>b. pending (g b) = clamp_sub (pending b) (e_est e)"
      "\<And>b. pending_requests (g b) = clamp_sub (pending_requests b) 1"
  shows "balanced flag (bl(e_acct e := map_option g (bl (e_acct e)))) (f(r \<mapsto> e'))"
proof -
  have ids: "open_ids (f(r \<mapsto> e')) a = open_ids f a - (if a = e_acct e then {r} else {})" for a
    using e by (auto simp: open_ids_def)
  have mem: "r \<in> open_ids f (e_acct e)" using e by (auto simp: open_ids_def)
  have le: "e_est e \<le> open_sum f (e_acct e)"
    using open_est_le_sum [OF fin e(1,2)] balancedD(1) [OF bl] by blast
  have pos: "1 \<le> int (card (open_ids f (e_acct e)))" by (rule open_card_pos [OF fin e(1,2)])
  have card: "int (card (open_ids f (e_acct e) - {r})) = int (card (open_ids f (e_acct e))) - 1"
    using mem pos by (simp add: card_Diff_singleton_if of_nat_diff)
  show ?thesis unfolding balanced_def
  proof (intro conjI allI impI)
    fix x c assume c: "(f(r \<mapsto> e')) x = Some c"
    show "0 \<le> e_est c"
    proof (cases "x = r")
      case True
      then have "e_est c = e_est e" using c e(4) by simp
      then show ?thesis using balancedD(1) [OF bl e(1)] by simp
    next
      case False
      then show ?thesis using c balancedD(1) [OF bl] by simp
    qed
  next
    fix a b assume b: "(bl(e_acct e := map_option g (bl (e_acct e)))) a = Some b"
    show "pending b = open_sum (f(r \<mapsto> e')) a"
      using b le balancedD(2) [OF bl]
      by (auto simp: open_sum_close [OF fin e(1-3)] g clamp_sub_exact split: if_splits)
    show "pending_requests b = (if flag a then int (card (open_ids (f(r \<mapsto> e')) a)) else 0)"
      using b pos balancedD(3) [OF bl]
      by (auto simp: ids g card clamp_sub_def split: if_splits)
  qed
qed

lemma balanced_shut:
  assumes "balanced flag bl f" and "closed_at f r" and "\<not> is_open e" and "0 \<le> e_est e"
  shows "balanced flag bl (f(r \<mapsto> e))"
proof -
  have "open_sum (f(r \<mapsto> e)) a = open_sum f a" and "open_ids (f(r \<mapsto> e)) a = open_ids f a" for a
    by (rule open_sum_shut [OF assms(2,3)], rule open_ids_shut [OF assms(2,3)])
  then show ?thesis using assms(1,4) by (simp add: balanced_def)
qed

lemma balanced_open:
  assumes bl: "balanced flag bl f" and fin: "finite (dom f)" and c: "closed_at f r"
    and e: "is_open e" "0 \<le> e_est e" and b: "bl (e_acct e) = Some b"
    and b': "pending b' = pending b + e_est e"
      "pending_requests b' = pending_requests b + boolToInt (flag (e_acct e))"
  shows "balanced flag (bl(e_acct e \<mapsto> b')) (f(r \<mapsto> e))"
proof -
  have r: "r \<notin> open_ids f (e_acct e)" using c by (auto simp: open_ids_def closed_at_def)
  show ?thesis unfolding balanced_def
  proof (intro conjI allI impI)
    fix x d assume "(f(r \<mapsto> e)) x = Some d"
    then show "0 \<le> e_est d" using balancedD(1) [OF bl, of x d] e by (auto split: if_splits)
  next
    fix a d assume d: "(bl(e_acct e \<mapsto> b')) a = Some d"
    show "pending d = open_sum (f(r \<mapsto> e)) a"
      using d b b' balancedD(2) [OF bl] by (auto simp: open_sum_open [OF fin c e(1)] split: if_splits)
    show "pending_requests d = (if flag a then int (card (open_ids (f(r \<mapsto> e)) a)) else 0)"
      using d b b' r balancedD(3) [OF bl] finite_open_ids [OF fin]
      by (auto simp: open_ids_add [OF c e(1)] boolToInt_def split: if_splits)
  qed
qed

text \<open>Releasing a whole set of pending reservations of one account in one statement.\<close>

lemma balanced_release_set:
  assumes bl: "balanced flag bl f" and fin: "finite (dom f)"
    and S: "\<And>r. r \<in> S \<Longrightarrow> \<exists>e. f r = Some e \<and> e_acct e = a"
    and R: "R = S \<inter> open_ids f a"
    and tot: "tk = (\<Sum>r\<in>R. e_est (the (f r)))"
    and f': "f' = (\<lambda>r. if r \<in> S then
      map_option (\<lambda>e. e\<lparr>e_status := QuotaReservationReleased\<rparr>) (f r) else f r)"
  shows "balanced flag (bl(a := map_option (free_balance tk (int (card R))) (bl a))) f'"
proof -
  have finI: "finite (open_ids f x)" for x using fin by (rule finite_open_ids)
  have RI: "R \<subseteq> open_ids f a" and finR: "finite R" using R finI by (auto intro: finite_subset)
  have ids: "open_ids f' x = (if x = a then open_ids f a - R else open_ids f x)" for x
  proof (rule set_eqI)
    fix r
    show "r \<in> open_ids f' x \<longleftrightarrow> r \<in> (if x = a then open_ids f a - R else open_ids f x)"
    proof (cases "r \<in> S")
      case True
      then obtain e where e: "f r = Some e" "e_acct e = a" using S by blast
      then have "r \<notin> open_ids f' x" using True by (simp add: open_ids_def f' is_open_def)
      moreover have "r \<in> open_ids f a \<Longrightarrow> r \<in> R" using True R by simp
      moreover have "x \<noteq> a \<Longrightarrow> r \<notin> open_ids f x" using e by (simp add: open_ids_def)
      ultimately show ?thesis by auto
    next
      case False
      then show ?thesis by (auto simp: open_ids_def f' R)
    qed
  qed
  have est: "x \<in> open_ids f' y \<Longrightarrow> e_est (the (f' x)) = e_est (the (f x))" for x y
    by (auto simp: f' open_ids_def)
  have sum: "open_sum f' x = (if x = a then open_sum f a - tk else open_sum f x)" for x
  proof -
    have "open_sum f' x = (\<Sum>r\<in>open_ids f' x. e_est (the (f r)))"
      unfolding open_sum_def by (rule sum.cong) (auto dest: est)
    then show ?thesis using sum_diff [OF finI RI, of "\<lambda>r. e_est (the (f r))"]
      by (auto simp: ids open_sum_def tot)
  qed
  have tot_le: "tk \<le> open_sum f a"
    unfolding tot open_sum_def
    by (rule sum_mono2 [OF finI RI]) (auto simp: open_ids_def dest: balancedD(1) [OF bl])
  have card: "int (card (open_ids f a - R)) = int (card (open_ids f a)) - int (card R)"
    and card_le: "card R \<le> card (open_ids f a)"
    using RI finI finR by (auto simp: card_Diff_subset card_mono of_nat_diff)
  show ?thesis unfolding balanced_def
  proof (intro conjI allI impI)
    fix x e assume "f' x = Some e"
    then show "0 \<le> e_est e"
      using balancedD(1) [OF bl] by (auto simp: f' split: if_splits)
  next
    fix x b assume b: "(bl(a := map_option (free_balance tk (int (card R))) (bl a))) x = Some b"
    show "pending b = open_sum f' x"
      using b tot_le balancedD(2) [OF bl]
      by (auto simp: sum free_balance_def clamp_sub_exact split: if_splits)
    show "pending_requests b = (if flag x then int (card (open_ids f' x)) else 0)"
    proof (cases "x = a")
      case True
      then obtain z where "bl a = Some z"
          and "pending_requests b = clamp_sub (pending_requests z) (int (card R))"
        using b by (auto simp: free_balance_def)
      then show ?thesis using True card card_le balancedD(3) [OF bl, of a z]
        by (simp add: ids clamp_sub_def)
    qed (use b balancedD(3) [OF bl] in \<open>simp add: ids\<close>)
  qed
qed

section \<open>The interface\<close>

text \<open>
  A budget ledger over states \<open>'s\<close> and accounts \<open>'a\<close>: the balance of an account, the
  reservation with a request id, and the four transactions. The laws say what each does to the
  balances and the reservations and that it keeps the table invariant.
\<close>

locale budget_ledger =
  fixes bal :: "'s \<Rightarrow> 'a \<Rightarrow> balance option"
    and resv :: "'s \<Rightarrow> string \<rightharpoonup> 'a entry"
    and invar :: "'s \<Rightarrow> bool"
    and reserve :: "'a \<Rightarrow> string \<Rightarrow> int \<Rightarrow> bool \<Rightarrow> 's \<Rightarrow> (err + unit) \<times> 's"
    and finalize :: "string \<Rightarrow> int \<Rightarrow> 's \<Rightarrow> 's"
    and release :: "string \<Rightarrow> 's \<Rightarrow> 's"
  assumes finite_resv: "finite (dom (resv s))"
    and reserve_ok: "invar s \<Longrightarrow> bal s a = Some b \<Longrightarrow> 0 < est \<or> rr \<Longrightarrow> reserve_guard est rr b \<Longrightarrow>
      fst (reserve a r est rr s) = Inr () \<and>
      bal (snd (reserve a r est rr s)) = (bal s)(a \<mapsto> reserve_balance est rr b) \<and>
      resv (snd (reserve a r est rr s)) =
        (resv s)(r := map_option (\<lambda>e. e\<lparr>e_applied := True\<rparr>) (resv s r))"
    and reserve_denied: "invar s \<Longrightarrow> bal s a = Some b \<Longrightarrow> 0 < est \<or> rr \<Longrightarrow> \<not> reserve_guard est rr b \<Longrightarrow>
      reserve a r est rr s = (Inl errQuotaExceeded, s)"
    and finalize_open: "invar s \<Longrightarrow> resv s r = Some e \<Longrightarrow> is_open e \<Longrightarrow>
      bal (finalize r n s) = (bal s)(e_acct e :=
        map_option (charge_balance n (e_est e)) (bal s (e_acct e))) \<and>
      resv (finalize r n s) = (resv s)(r \<mapsto> e\<lparr>e_status := QuotaReservationFinalized\<rparr>)"
    and finalize_closed: "closed_at (resv s) r \<Longrightarrow> finalize r n s = s"
    and release_open: "invar s \<Longrightarrow> resv s r = Some e \<Longrightarrow> is_open e \<Longrightarrow>
      bal (release r s) = (bal s)(e_acct e :=
        map_option (free_balance (e_est e) 1) (bal s (e_acct e))) \<and>
      resv (release r s) = (resv s)(r \<mapsto> e\<lparr>e_status := QuotaReservationReleased\<rparr>)"
    and release_unapplied: "invar s \<Longrightarrow> resv s r = Some e \<Longrightarrow>
      e_status e = QuotaReservationPending \<Longrightarrow> \<not> e_applied e \<Longrightarrow>
      bal (release r s) = bal s \<and>
      resv (release r s) = (resv s)(r \<mapsto> e\<lparr>e_status := QuotaReservationReleased\<rparr>)"
    and release_settled: "(\<And>e. resv s r = Some e \<Longrightarrow> e_status e \<noteq> QuotaReservationPending) \<Longrightarrow>
      release r s = s"
    and invar_reserve: "invar s \<Longrightarrow> invar (snd (reserve a r est rr s))"
    and invar_finalize: "invar s \<Longrightarrow> invar (finalize r n s)"
    and invar_release: "invar s \<Longrightarrow> invar (release r s)"
begin

text \<open>Settlement happens once: after the first settlement of a request every later one is a no-op.\<close>

lemma settled_after_finalize:
  assumes "invar s" and "resv s r = Some e" and "is_open e"
  shows "closed_at (resv (finalize r n s)) r"
    and "\<And>e'. resv (finalize r n s) r = Some e' \<Longrightarrow> e_status e' \<noteq> QuotaReservationPending"
  using finalize_open [OF assms, of n] by (auto simp: closed_at_def is_open_def)

lemma settled_after_release:
  assumes "invar s" and "resv s r = Some e" and "e_status e = QuotaReservationPending"
  shows "closed_at (resv (release r s)) r"
    and "\<And>e'. resv (release r s) r = Some e' \<Longrightarrow> e_status e' \<noteq> QuotaReservationPending"
proof -
  have "resv (release r s) = (resv s)(r \<mapsto> e\<lparr>e_status := QuotaReservationReleased\<rparr>)"
    using release_open [OF assms(1,2)] release_unapplied [OF assms]
    by (cases "e_applied e") (auto simp: is_open_def assms(3))
  then show "closed_at (resv (release r s)) r"
    and "\<And>e'. resv (release r s) r = Some e' \<Longrightarrow> e_status e' \<noteq> QuotaReservationPending"
    by (auto simp: closed_at_def is_open_def)
qed

lemma finalize_finalize: "invar s \<Longrightarrow> finalize r m (finalize r n s) = finalize r n s"
proof (cases "closed_at (resv s) r")
  case False
  assume "invar s"
  with False show ?thesis
    by (auto simp: closed_at_def intro!: finalize_closed dest: settled_after_finalize)
qed (simp add: finalize_closed)

lemma release_finalize:
  assumes "invar s" and "resv s r = Some e" and "is_open e"
  shows "release r (finalize r n s) = finalize r n s"
  by (rule release_settled) (rule settled_after_finalize(2) [OF assms])

lemma release_release: "invar s \<Longrightarrow> release r (release r s) = release r s"
proof (cases "\<exists>e. resv s r = Some e \<and> e_status e = QuotaReservationPending")
  case True
  assume inv: "invar s"
  from True obtain e where "resv s r = Some e" and "e_status e = QuotaReservationPending" by blast
  then show ?thesis using inv by (intro release_settled) (rule settled_after_release(2))
next
  case False
  then have "release r s = s" by (intro release_settled) auto
  then show ?thesis by simp
qed

lemma finalize_release:
  assumes "invar s"
  shows "finalize r n (release r s) = release r s"
proof (cases "\<exists>e. resv s r = Some e \<and> e_status e = QuotaReservationPending")
  case True
  then show ?thesis using assms
    by (intro finalize_closed) (auto intro: settled_after_release(1))
next
  case False
  then have "release r s = s" by (intro release_settled) auto
  moreover have "closed_at (resv s) r" using False by (auto simp: closed_at_def is_open_def)
  ultimately show ?thesis by (simp add: finalize_closed)
qed

text \<open>Each transaction keeps the pending columns equal to the open reservations.\<close>

lemma balanced_finalize:
  assumes "invar s" and "balanced flag (bal s) (resv s)"
  shows "balanced flag (bal (finalize r n s)) (resv (finalize r n s))"
proof (cases "closed_at (resv s) r")
  case False
  then obtain e where e: "resv s r = Some e" "is_open e" by (auto simp: closed_at_def)
  then show ?thesis
    using finalize_open [OF assms(1) e, of n]
    by (auto intro!: balanced_close assms finite_resv simp: is_open_def charge_balance_def)
qed (simp add: finalize_closed assms)

lemma balanced_release:
  assumes "invar s" and bal: "balanced flag (bal s) (resv s)"
  shows "balanced flag (bal (release r s)) (resv (release r s))"
proof (cases "\<exists>e. resv s r = Some e \<and> e_status e = QuotaReservationPending")
  case True
  then obtain e where e: "resv s r = Some e" "e_status e = QuotaReservationPending" by blast
  show ?thesis
  proof (cases "e_applied e")
    case True
    then have "is_open e" using e by (simp add: is_open_def)
    then show ?thesis using release_open [OF assms(1) e(1)]
      by (auto intro!: balanced_close bal finite_resv e simp: is_open_def free_balance_def)
  next
    case False
    then have "closed_at (resv s) r" using e by (auto simp: closed_at_def is_open_def)
    then show ?thesis using release_unapplied [OF assms(1) e False] balancedD(1) [OF bal e(1)]
      by (auto intro!: balanced_shut bal simp: is_open_def)
  qed
next
  case False
  then have "release r s = s" by (intro release_settled) auto
  then show ?thesis using bal by simp
qed

lemma balanced_reserve:
  assumes "invar s" and bal: "balanced flag (bal s) (resv s)"
    and e: "resv s r = Some e" "e_status e = QuotaReservationPending" "\<not> e_applied e"
    and b: "bal s (e_acct e) = Some b"
    and rr: "rr = flag (e_acct e)" and est: "0 < e_est e"
  shows "balanced flag (bal (snd (reserve (e_acct e) r (e_est e) rr s)))
           (resv (snd (reserve (e_acct e) r (e_est e) rr s)))"
proof (cases "reserve_guard (e_est e) rr b")
  case True
  let ?e = "e\<lparr>e_applied := True\<rparr>"
  have c: "closed_at (resv s) r" using e by (auto simp: closed_at_def is_open_def)
  have "balanced flag ((bal s)(e_acct ?e \<mapsto> reserve_balance (e_est e) rr b)) ((resv s)(r \<mapsto> ?e))"
    by (rule balanced_open [OF bal finite_resv c])
      (use e b rr est in \<open>auto simp: is_open_def reserve_balance_def boolToInt_def\<close>)
  then show ?thesis using reserve_ok [OF assms(1) b disjI1 [OF est] True, of r] e(1) by simp
next
  case False
  then show ?thesis using reserve_denied [OF assms(1) b disjI1 [OF est] False, of r] bal by simp
qed

text \<open>No account overshoots, as long as a metered request costs at most its estimate.\<close>

lemma in_budget_finalize:
  assumes "invar s" and bal: "balanced flag (bal s) (resv s)"
    and w: "\<And>a b. bal s a = Some b \<Longrightarrow> in_budget b \<and> (0 < request_limit b \<longrightarrow> flag a)"
    and n: "\<And>e. resv s r = Some e \<Longrightarrow> n \<le> e_est e"
    and b: "bal (finalize r n s) a = Some b"
  shows "in_budget b \<and> (0 < request_limit b \<longrightarrow> flag a)"
proof (cases "closed_at (resv s) r")
  case False
  then obtain e where e: "resv s r = Some e" "is_open e" by (auto simp: closed_at_def)
  have up: "bal (finalize r n s) = (bal s)(e_acct e :=
      map_option (charge_balance n (e_est e)) (bal s (e_acct e)))"
    using finalize_open [OF assms(1) e] by blast
  show ?thesis
  proof (cases "a = e_acct e")
    case True
    then obtain b0 where b0: "bal s a = Some b0" "b = charge_balance n (e_est e) b0"
      using b up by auto
    have le: "e_est e \<le> pending b0"
      using open_est_le_sum [OF finite_resv e] balancedD(1,2) [OF bal] b0 True by metis
    have pr: "0 < request_limit b0 \<longrightarrow> 1 \<le> pending_requests b0"
      using balancedD(3) [OF bal b0(1)] w [OF b0(1)] open_card_pos [OF finite_resv e] True by auto
    show ?thesis using in_budget_charge [OF _ n [OF e(1)] le pr] w [OF b0(1)] b0(2)
      by (simp add: charge_balance_def)
  next
    case False
    then show ?thesis using b up w by simp
  qed
qed (use b w in \<open>simp add: finalize_closed\<close>)

lemma in_budget_release:
  assumes "invar s" and bal: "balanced flag (bal s) (resv s)"
    and w: "\<And>a b. bal s a = Some b \<Longrightarrow> in_budget b \<and> (0 < request_limit b \<longrightarrow> flag a)"
    and b: "bal (release r s) a = Some b"
  shows "in_budget b \<and> (0 < request_limit b \<longrightarrow> flag a)"
proof (cases "\<exists>e. resv s r = Some e \<and> is_open e")
  case True
  then obtain e where e: "resv s r = Some e" "is_open e" by blast
  have up: "bal (release r s) = (bal s)(e_acct e :=
      map_option (free_balance (e_est e) 1) (bal s (e_acct e)))"
    using release_open [OF assms(1) e] by blast
  show ?thesis
  proof (cases "a = e_acct e")
    case True
    then obtain b0 where b0: "bal s a = Some b0" "b = free_balance (e_est e) 1 b0"
      using b up by auto
    have "0 \<le> pending b0" and "0 \<le> pending_requests b0"
      using balancedD(2,3) [OF bal b0(1)] open_sum_nonneg [OF bal] by auto
    then show ?thesis using in_budget_free [of b0 "e_est e" 1] w [OF b0(1)] balancedD(1) [OF bal e(1)] b0(2)
      by (simp add: free_balance_def)
  next
    case False
    then show ?thesis using b up w by simp
  qed
next
  case False
  then have "bal (release r s) = bal s"
  proof (cases "\<exists>e. resv s r = Some e \<and> e_status e = QuotaReservationPending")
    case True
    with False show ?thesis using release_unapplied [OF assms(1)] by (auto simp: is_open_def)
  next
    case False
    then have "release r s = s" by (intro release_settled) auto
    then show ?thesis by simp
  qed
  then show ?thesis using b w by simp
qed

lemma in_budget_reserve_step:
  assumes "invar s" and w: "\<And>a b. bal s a = Some b \<Longrightarrow> in_budget b \<and> (0 < request_limit b \<longrightarrow> flag a)"
    and "bal s a0 = Some b0" and est: "0 < est"
    and b: "bal (snd (reserve a0 r est rr s)) a = Some b"
  shows "in_budget b \<and> (0 < request_limit b \<longrightarrow> flag a)"
proof (cases "reserve_guard est rr b0")
  case True
  have up: "bal (snd (reserve a0 r est rr s)) = (bal s)(a0 \<mapsto> reserve_balance est rr b0)"
    using reserve_ok [OF assms(1,3) disjI1 [OF est] True] by blast
  show ?thesis
  proof (cases "a = a0")
    case True
    then have "b = reserve_balance est rr b0" using b up by simp
    then show ?thesis using in_budget_reserve [OF \<open>reserve_guard est rr b0\<close>] w [OF assms(3)] est True
      by (simp add: reserve_balance_def)
  next
    case False
    then show ?thesis using b up w by simp
  qed
next
  case False
  then show ?thesis using reserve_denied [OF assms(1,3) disjI1 [OF est] False, of r] b w by simp
qed

end

end
