(* ===== verification/Quota_Ledger.thy ===== *)
theory Quota_Ledger
  imports Budget_Ledger
begin

text \<open>
  The per-key quota ledger, \<^verbatim>\<open>internal/repository/quota.go\<close>. Each method of the source is one
  definition over the faulting database; the body of its transaction is a definition of its own
  (suffix \<open>_tx\<close>) on the tables alone. The lemmas show that the ledger implements the interface
  \<open>budget_ledger\<close> and carry its invariants over every interleaving of ledger transactions.
\<close>

section \<open>Transactions\<close>

definition UpsertQuotaLimit_tx :: "quota_limit \<Rightarrow> gw_store \<Rightarrow> gw_store" where
  "UpsertQuotaLimit_tx q s =
     s\<lparr>quota_limits := snd (insert_ignore limit_key q (quota_limits s))\<rparr>"

definition AddQuotaReservation_tx :: "quota_reservation \<Rightarrow> gw_store \<Rightarrow> bool \<times> gw_store" where
  "AddQuotaReservation_tx r s =
     (let (inserted, rows) = insert_ignore r_request_id r (quota_reservations s)
      in (inserted, s\<lparr>quota_reservations := rows\<rparr>))"

definition ReserveQuotaTokens_tx ::
  "string \<Rightarrow> string \<Rightarrow> string \<Rightarrow> int \<Rightarrow> bool \<Rightarrow> gw_store \<Rightarrow> (err + unit) \<times> gw_store" where
  "ReserveQuotaTokens_tx keyID periodStart requestID est reserveRequest s =
     (if \<not> 0 < est \<and> \<not> reserveRequest then (Inr (), s)
      else let hit = (\<lambda>q. limit_key q = (keyID, periodStart) \<and> reserve_guard est reserveRequest q)
           in if sql_count hit (quota_limits s) = 0 then (Inl errQuotaExceeded, s)
              else (Inr (), s\<lparr>
                quota_limits := sql_update hit (reserve_balance est reserveRequest) (quota_limits s),
                quota_reservations :=
                  sql_update (\<lambda>r. r_request_id r = requestID) (r_applied_update (\<lambda>_. True))
                    (quota_reservations s)\<rparr>))"

definition FinalizeQuotaReservation_tx :: "string \<Rightarrow> int \<Rightarrow> gw_store \<Rightarrow> gw_store" where
  "FinalizeQuotaReservation_tx requestID actual s =
     (case row_at r_request_id requestID (quota_reservations s) of
        None \<Rightarrow> s
      | Some r \<Rightarrow>
          if r_status r \<noteq> QuotaReservationPending then s
          else if \<not> r_applied r then s
          else s\<lparr>
            quota_reservations :=
              sql_update (\<lambda>x. r_request_id x = requestID)
                (\<lambda>x. x\<lparr>r_status := QuotaReservationFinalized, r_actual_tokens := actual\<rparr>)
                (quota_reservations s),
            quota_limits :=
              sql_update (\<lambda>q. limit_key q = (r_key_id r, r_period_start r))
                (charge_balance actual (r_estimated r)) (quota_limits s)\<rparr>)"

definition ReleaseQuotaReservation_tx :: "string \<Rightarrow> gw_store \<Rightarrow> gw_store" where
  "ReleaseQuotaReservation_tx requestID s =
     (case row_at r_request_id requestID (quota_reservations s) of
        None \<Rightarrow> s
      | Some r \<Rightarrow>
          if r_status r \<noteq> QuotaReservationPending then s
          else s\<lparr>
            quota_reservations :=
              sql_update (\<lambda>x. r_request_id x = requestID)
                (r_status_update (\<lambda>_. QuotaReservationReleased)) (quota_reservations s),
            quota_limits :=
              (if r_applied r then
                 sql_update (\<lambda>q. limit_key q = (r_key_id r, r_period_start r))
                   (free_balance (r_estimated r) 1) (quota_limits s)
               else quota_limits s)\<rparr>)"

definition stale_reservations :: "string \<Rightarrow> string \<Rightarrow> int \<Rightarrow> gw_store \<Rightarrow> quota_reservation list" where
  "stale_reservations keyID periodStart before s =
     filter (\<lambda>r. r_key_id r = keyID \<and> r_period_start r = periodStart \<and>
               r_status r = QuotaReservationPending \<and> r_created_at r < before)
       (quota_reservations s)"

definition ReapStaleQuotaReservations_tx ::
  "string \<Rightarrow> string \<Rightarrow> int \<Rightarrow> gw_store \<Rightarrow> int \<times> gw_store" where
  "ReapStaleQuotaReservations_tx keyID periodStart before s =
     (let stale = stale_reservations keyID periodStart before s;
          applied = filter r_applied stale;
          released = wrap64 (sum_list (map r_estimated applied));
          releasedRequests = int (length applied)
      in if stale = [] then (0, s)
         else (released, s\<lparr>
           quota_reservations :=
             sql_update (\<lambda>x. r_request_id x \<in> set (map r_request_id stale))
               (r_status_update (\<lambda>_. QuotaReservationReleased)) (quota_reservations s),
           quota_limits :=
             sql_update (\<lambda>q. limit_key q = (keyID, periodStart))
               (free_balance released releasedRequests) (quota_limits s)\<rparr>))"

lemmas quota_tx_defs [ledger_defs] = UpsertQuotaLimit_tx_def AddQuotaReservation_tx_def
  ReserveQuotaTokens_tx_def FinalizeQuotaReservation_tx_def ReleaseQuotaReservation_tx_def
  ReapStaleQuotaReservations_tx_def

section \<open>Repository methods\<close>

definition UpsertQuotaLimit :: "quota_limit \<Rightarrow> gw_store db \<Rightarrow> (err + unit) \<times> gw_store db" where
  "UpsertQuotaLimit q = db_run (\<lambda>s. (Inr (), UpsertQuotaLimit_tx q s))"

definition GetQuotaLimit ::
  "string \<Rightarrow> string \<Rightarrow> gw_store db \<Rightarrow> (err + quota_limit option) \<times> gw_store db" where
  "GetQuotaLimit keyID periodStart =
     db_run (\<lambda>s. (Inr (row_at limit_key (keyID, periodStart) (quota_limits s)), s))"

definition AddQuotaReservation ::
  "quota_reservation \<Rightarrow> gw_store db \<Rightarrow> (err + bool) \<times> gw_store db" where
  "AddQuotaReservation r =
     db_run (\<lambda>s. let (inserted, s') = AddQuotaReservation_tx r s in (Inr inserted, s'))"

definition ReserveQuotaTokens :: "string \<Rightarrow> string \<Rightarrow> string \<Rightarrow> int \<Rightarrow> bool \<Rightarrow> gw_store db \<Rightarrow>
  (err + bool \<times> int \<times> int) \<times> gw_store db" where
  "ReserveQuotaTokens keyID periodStart requestID est reserveRequest d =
     (let (res, d1) =
            db_run (ReserveQuotaTokens_tx keyID periodStart requestID est reserveRequest) d;
          answer = (\<lambda>applied.
            case GetQuotaLimit keyID periodStart d1 of
              (Inl e, d2) \<Rightarrow> (Inl e, d2)
            | (Inr None, d2) \<Rightarrow> (Inl RecordNotFound, d2)
            | (Inr (Some q), d2) \<Rightarrow>
                (Inr (applied, quotaRemaining (token_limit q) (tokens_used q) (pending q),
                   quotaRemaining (request_limit q) (requests_used q) (pending_requests q)), d2))
      in case res of
           Inr _ \<Rightarrow> answer True
         | Inl e \<Rightarrow> if e = errQuotaExceeded then answer False else (Inl e, d1))"

definition GetQuotaReservation ::
  "string \<Rightarrow> gw_store db \<Rightarrow> (err + quota_reservation option) \<times> gw_store db" where
  "GetQuotaReservation requestID =
     db_run (\<lambda>s. (Inr (row_at r_request_id requestID (quota_reservations s)), s))"

definition FinalizeQuotaReservation ::
  "string \<Rightarrow> int \<Rightarrow> gw_store db \<Rightarrow> (err + unit) \<times> gw_store db" where
  "FinalizeQuotaReservation requestID actual =
     db_run (\<lambda>s. (Inr (), FinalizeQuotaReservation_tx requestID actual s))"

definition ReleaseQuotaReservation :: "string \<Rightarrow> gw_store db \<Rightarrow> (err + unit) \<times> gw_store db" where
  "ReleaseQuotaReservation requestID =
     db_run (\<lambda>s. (Inr (), ReleaseQuotaReservation_tx requestID s))"

definition ReapStaleQuotaReservations ::
  "string \<Rightarrow> string \<Rightarrow> int \<Rightarrow> gw_store db \<Rightarrow> (err + int) \<times> gw_store db" where
  "ReapStaleQuotaReservations keyID periodStart before =
     db_run (\<lambda>s. let (released, s') = ReapStaleQuotaReservations_tx keyID periodStart before s
                 in (Inr released, s'))"

section \<open>The ledger implements the interface\<close>

type_synonym account = "string \<times> string"

definition quota_bal :: "gw_store \<Rightarrow> account \<Rightarrow> balance option" where
  "quota_bal s a = map_option balance.truncate (row_at limit_key a (quota_limits s))"

definition quota_entry :: "quota_reservation \<Rightarrow> account entry" where
  "quota_entry r = \<lparr>e_acct = (r_key_id r, r_period_start r), e_est = r_estimated r,
     e_status = r_status r, e_applied = r_applied r\<rparr>"

definition quota_resv :: "gw_store \<Rightarrow> string \<rightharpoonup> account entry" where
  "quota_resv s r = map_option quota_entry (row_at r_request_id r (quota_reservations s))"

definition quota_invar :: "gw_store \<Rightarrow> bool" where
  "quota_invar s \<longleftrightarrow> uniq limit_key (quota_limits s) \<and> uniq r_request_id (quota_reservations s)"

lemma limit_key_exprs [simp]:
  "limit_key (reserve_balance e rr q) = limit_key q"
  "limit_key (charge_balance n e q) = limit_key q"
  "limit_key (free_balance e n q) = limit_key q"
  by (simp_all add: limit_key_def balance_expr_defs)

lemma quota_entry_simps [simp]:
  "e_acct (quota_entry r) = (r_key_id r, r_period_start r)"
  "e_est (quota_entry r) = r_estimated r"
  "e_status (quota_entry r) = r_status r"
  "e_applied (quota_entry r) = r_applied r"
  by (simp_all add: quota_entry_def)

lemma quota_resvE:
  assumes "quota_resv s r = Some e"
  obtains row where "row_at r_request_id r (quota_reservations s) = Some row"
    and "e = quota_entry row" and "r_request_id row = r"
  using assms by (auto simp: quota_resv_def dest: row_at_SomeD)

lemma quota_balE:
  assumes "quota_bal s a = Some b"
  obtains q where "row_at limit_key a (quota_limits s) = Some q" and "b = balance.truncate q"
    and "limit_key q = a"
  using assms by (auto simp: quota_bal_def dest: row_at_SomeD)

lemma quota_resv_update:
  "(\<And>x. r_request_id (f x) = r_request_id x) \<Longrightarrow>
   row_at r_request_id r (quota_reservations s) = Some row \<Longrightarrow>
   quota_reservations s' = sql_update (\<lambda>x. r_request_id x = r) f (quota_reservations s) \<Longrightarrow>
   quota_resv s' = (quota_resv s)(r \<mapsto> quota_entry (f row))"
  by (auto simp: fun_eq_iff quota_resv_def row_at_update option.map_comp
      intro!: option.map_cong dest: row_at_SomeD)

lemma quota_bal_update:
  "(\<And>q. limit_key (f q) = limit_key q) \<Longrightarrow>
   (\<And>q. balance.truncate (f q) = g (balance.truncate q)) \<Longrightarrow>
   quota_limits s' = sql_update (\<lambda>q. limit_key q = a) f (quota_limits s) \<Longrightarrow>
   quota_bal s' = (quota_bal s)(a := map_option g (quota_bal s a))"
  by (auto simp: fun_eq_iff quota_bal_def row_at_update option.map_comp
      intro!: option.map_cong dest: row_at_SomeD)

lemma finite_quota_resv: "finite (dom (quota_resv s))"
  by (rule finite_subset [where B = "r_request_id ` set (quota_reservations s)"])
    (auto simp: quota_resv_def dest!: row_at_SomeD)

lemma reserve_tx_granted:
  assumes "quota_invar s" and "quota_bal s (k, p) = Some b" and "0 < est \<or> rr"
    and "reserve_guard est rr b"
  shows "fst (ReserveQuotaTokens_tx k p r est rr s) = Inr () \<and>
    quota_bal (snd (ReserveQuotaTokens_tx k p r est rr s)) =
      (quota_bal s)((k, p) \<mapsto> reserve_balance est rr b) \<and>
    quota_resv (snd (ReserveQuotaTokens_tx k p r est rr s)) =
      (quota_resv s)(r := map_option (\<lambda>e. e\<lparr>e_applied := True\<rparr>) (quota_resv s r))"
proof -
  obtain q where q: "row_at limit_key (k, p) (quota_limits s) = Some q" "b = balance.truncate q"
    using assms(2) by (rule quota_balE)
  let ?hit = "\<lambda>q. limit_key q = (k, p) \<and> reserve_guard est rr q"
  have g: "reserve_guard est rr q" using assms(4) q by simp
  have cnt: "sql_count ?hit (quota_limits s) = 1"
    using count_key [of limit_key "quota_limits s" "(k, p)" "reserve_guard est rr"] assms(1) q g
    by (simp add: quota_invar_def)
  have bal: "map_option balance.truncate (row_at limit_key x
      (sql_update ?hit (reserve_balance est rr) (quota_limits s))) =
      (if x = (k, p) then Some (reserve_balance est rr b) else quota_bal s x)" for x
    using q g by (auto simp: row_at_update quota_bal_def option.map_comp
        intro!: option.map_cong dest: row_at_SomeD)
  have res: "map_option quota_entry (row_at r_request_id x (sql_update
      (\<lambda>y. r_request_id y = r) (r_applied_update (\<lambda>_. True)) (quota_reservations s))) =
      (if x = r then map_option (\<lambda>e. e\<lparr>e_applied := True\<rparr>) (quota_resv s r) else quota_resv s x)" for x
    by (auto simp: row_at_update quota_resv_def option.map_comp quota_entry_def
        intro!: option.map_cong dest: row_at_SomeD)
  show ?thesis using assms(3) cnt bal res
    by (auto simp: ReserveQuotaTokens_tx_def Let_def fun_eq_iff quota_bal_def quota_resv_def)
qed

lemma reserve_tx_denied:
  assumes "quota_invar s" and "quota_bal s (k, p) = Some b" and "0 < est \<or> rr"
    and "\<not> reserve_guard est rr b"
  shows "ReserveQuotaTokens_tx k p r est rr s = (Inl errQuotaExceeded, s)"
proof -
  obtain q where q: "row_at limit_key (k, p) (quota_limits s) = Some q" "b = balance.truncate q"
    using assms(2) by (rule quota_balE)
  have "sql_count (\<lambda>q. limit_key q = (k, p) \<and> reserve_guard est rr q) (quota_limits s) = 0"
    using count_key [of limit_key "quota_limits s" "(k, p)" "reserve_guard est rr"] assms(1,4) q
    by (simp add: quota_invar_def)
  then show ?thesis using assms(3) by (auto simp: ReserveQuotaTokens_tx_def Let_def)
qed

lemma finalize_tx_open:
  assumes "quota_resv s r = Some e" and "is_open e"
  shows "quota_bal (FinalizeQuotaReservation_tx r n s) = (quota_bal s)(e_acct e :=
      map_option (charge_balance n (e_est e)) (quota_bal s (e_acct e))) \<and>
    quota_resv (FinalizeQuotaReservation_tx r n s) =
      (quota_resv s)(r \<mapsto> e\<lparr>e_status := QuotaReservationFinalized\<rparr>)"
proof -
  obtain row where row: "row_at r_request_id r (quota_reservations s) = Some row"
      "e = quota_entry row" using assms(1) by (rule quota_resvE)
  let ?s = "FinalizeQuotaReservation_tx r n s"
  have eq: "quota_reservations ?s = sql_update (\<lambda>x. r_request_id x = r)
      (\<lambda>x. x\<lparr>r_status := QuotaReservationFinalized, r_actual_tokens := n\<rparr>) (quota_reservations s)"
    "quota_limits ?s = sql_update (\<lambda>q. limit_key q = e_acct e) (charge_balance n (e_est e)) (quota_limits s)"
    using row assms(2) by (simp_all add: FinalizeQuotaReservation_tx_def is_open_def)
  show ?thesis
    using quota_resv_update [OF _ row(1) eq(1)] quota_bal_update [OF _ _ eq(2)] row(2)
    by (simp add: quota_entry_def)
qed

lemma release_tx_pending:
  assumes "quota_resv s r = Some e" and "e_status e = QuotaReservationPending"
  shows "quota_bal (ReleaseQuotaReservation_tx r s) = (if e_applied e then
      (quota_bal s)(e_acct e := map_option (free_balance (e_est e) 1) (quota_bal s (e_acct e)))
      else quota_bal s) \<and>
    quota_resv (ReleaseQuotaReservation_tx r s) =
      (quota_resv s)(r \<mapsto> e\<lparr>e_status := QuotaReservationReleased\<rparr>)"
proof -
  obtain row where row: "row_at r_request_id r (quota_reservations s) = Some row"
      "e = quota_entry row" using assms(1) by (rule quota_resvE)
  let ?s = "ReleaseQuotaReservation_tx r s"
  have eq: "quota_reservations ?s = sql_update (\<lambda>x. r_request_id x = r)
      (r_status_update (\<lambda>_. QuotaReservationReleased)) (quota_reservations s)"
    "quota_limits ?s = (if e_applied e then
       sql_update (\<lambda>q. limit_key q = e_acct e) (free_balance (e_est e) 1) (quota_limits s)
       else quota_limits s)"
    using row assms(2) by (simp_all add: ReleaseQuotaReservation_tx_def)
  have res: "quota_resv ?s = (quota_resv s)(r \<mapsto> e\<lparr>e_status := QuotaReservationReleased\<rparr>)"
    using quota_resv_update [OF _ row(1) eq(1)] row(2) by (simp add: quota_entry_def)
  show ?thesis
  proof (cases "e_applied e")
    case True
    with eq(2) have "quota_limits ?s =
      sql_update (\<lambda>q. limit_key q = e_acct e) (free_balance (e_est e) 1) (quota_limits s)" by simp
    from quota_bal_update [OF _ _ this] res True show ?thesis by simp
  next
    case False
    with eq(2) res show ?thesis by (simp add: quota_bal_def fun_eq_iff)
  qed
qed

lemma quota_invar_txs:
  "quota_invar s \<Longrightarrow> quota_invar (UpsertQuotaLimit_tx q s)"
  "quota_invar s \<Longrightarrow> quota_invar (snd (AddQuotaReservation_tx row s))"
  "quota_invar s \<Longrightarrow> quota_invar (snd (ReserveQuotaTokens_tx k p r est rr s))"
  "quota_invar s \<Longrightarrow> quota_invar (FinalizeQuotaReservation_tx r n s)"
  "quota_invar s \<Longrightarrow> quota_invar (ReleaseQuotaReservation_tx r s)"
  "quota_invar s \<Longrightarrow> quota_invar (snd (ReapStaleQuotaReservations_tx k p t s))"
  by (auto simp: quota_invar_def quota_tx_defs Let_def table_simps
      split: option.splits prod.splits dest!: sym [of "insert_ignore _ _ _"])
    (metis snd_conv uniq_insert_ignore)+

interpretation key_ledger: budget_ledger quota_bal quota_resv quota_invar
  "\<lambda>a. ReserveQuotaTokens_tx (fst a) (snd a)" FinalizeQuotaReservation_tx
  ReleaseQuotaReservation_tx
proof (unfold_locales, goal_cases)
  case (1 s)
  show ?case by (rule finite_quota_resv)
next
  case (2 s a b est rr r)
  then show ?case using reserve_tx_granted [of s "fst a" "snd a" b est rr r] by simp
next
  case (3 s a b est rr r)
  then show ?case using reserve_tx_denied [of s "fst a" "snd a" b est rr r] by simp
next
  case (4 s r e n)
  then show ?case by (intro finalize_tx_open)
next
  case (5 s r n)
  then show ?case
    by (auto simp: closed_at_def quota_resv_def FinalizeQuotaReservation_tx_def is_open_def
        split: option.splits)
next
  case (6 s r e)
  then show ?case using release_tx_pending [of s r e] by (simp add: is_open_def)
next
  case (7 s r e)
  then show ?case using release_tx_pending [of s r e] by simp
next
  case (8 s r)
  then show ?case
    by (auto simp: quota_resv_def ReleaseQuotaReservation_tx_def split: option.splits)
qed (auto intro: quota_invar_txs)

end
