(* ===== verification/Bucket_Ledger.thy ===== *)
theory Bucket_Ledger
  imports Budget_Ledger
begin

text \<open>
  The bucket ledger, \<^verbatim>\<open>internal/repository/quota_bucket.go\<close>: the same balances per (tenant,
  dimension, dimension key, period), with its own reservations.
\<close>

type_synonym bucket = "string \<times> string \<times> string \<times> string"

definition bucket_acct :: "quota_bucket \<Rightarrow> bucket" where
  "bucket_acct q = (qb_tenant_id q, qb_dimension q, qb_dimension_key q, qb_period_start q)"

definition br_acct :: "quota_bucket_reservation \<Rightarrow> bucket" where
  "br_acct r = (br_tenant_id r, br_dimension r, br_dimension_key r, br_period_start r)"

section \<open>Transactions\<close>

text \<open>
  The conflict target of the upsert is the unique index (dimension key, period); on a conflict
  every column is overwritten.
\<close>

definition UpsertQuotaBucket_tx :: "quota_bucket \<Rightarrow> gw_store \<Rightarrow> gw_store" where
  "UpsertQuotaBucket_tx q s =
     (if row_at bucket_key (bucket_key q) (quota_buckets s) = None
      then s\<lparr>quota_buckets := quota_buckets s @ [q]\<rparr>
      else s\<lparr>quota_buckets :=
        sql_update (\<lambda>x. bucket_key x = bucket_key q) (\<lambda>_. q) (quota_buckets s)\<rparr>)"

definition AddQuotaBucketReservation_tx ::
  "quota_bucket_reservation \<Rightarrow> gw_store \<Rightarrow> bool \<times> gw_store" where
  "AddQuotaBucketReservation_tx r s =
     (let (inserted, rows) = insert_ignore br_request_id r (quota_bucket_reservations s)
      in (inserted, s\<lparr>quota_bucket_reservations := rows\<rparr>))"

definition ReserveQuotaBucketTokens_tx ::
  "bucket \<Rightarrow> string \<Rightarrow> int \<Rightarrow> bool \<Rightarrow> gw_store \<Rightarrow> (err + unit) \<times> gw_store" where
  "ReserveQuotaBucketTokens_tx bk requestID est reserveRequest s =
     (let hit = (\<lambda>q. bucket_acct q = bk \<and> reserve_guard est reserveRequest q)
      in if sql_count hit (quota_buckets s) = 0 then (Inl errQuotaExceeded, s)
         else (Inr (), s\<lparr>
           quota_buckets := sql_update hit (reserve_balance est reserveRequest) (quota_buckets s),
           quota_bucket_reservations :=
             sql_update (\<lambda>r. br_request_id r = requestID) (br_applied_update (\<lambda>_. True))
               (quota_bucket_reservations s)\<rparr>))"

definition FinalizeQuotaBucketReservation_tx :: "string \<Rightarrow> int \<Rightarrow> gw_store \<Rightarrow> gw_store" where
  "FinalizeQuotaBucketReservation_tx requestID actual s =
     (case row_at br_request_id requestID (quota_bucket_reservations s) of
        None \<Rightarrow> s
      | Some r \<Rightarrow>
          if br_status r \<noteq> QuotaReservationPending \<or> \<not> br_applied r then s
          else s\<lparr>
            quota_bucket_reservations :=
              sql_update (\<lambda>x. br_request_id x = requestID)
                (\<lambda>x. x\<lparr>br_status := QuotaReservationFinalized, br_actual_tokens := actual\<rparr>)
                (quota_bucket_reservations s),
            quota_buckets :=
              sql_update (\<lambda>q. bucket_acct q = br_acct r) (charge_balance actual (br_estimated r))
                (quota_buckets s)\<rparr>)"

definition ReleaseQuotaBucketReservation_tx :: "string \<Rightarrow> gw_store \<Rightarrow> gw_store" where
  "ReleaseQuotaBucketReservation_tx requestID s =
     (case row_at br_request_id requestID (quota_bucket_reservations s) of
        None \<Rightarrow> s
      | Some r \<Rightarrow>
          if br_status r \<noteq> QuotaReservationPending then s
          else s\<lparr>
            quota_bucket_reservations :=
              sql_update (\<lambda>x. br_request_id x = requestID)
                (br_status_update (\<lambda>_. QuotaReservationReleased)) (quota_bucket_reservations s),
            quota_buckets :=
              (if \<not> br_applied r then quota_buckets s
               else sql_update (\<lambda>q. bucket_acct q = br_acct r) (free_balance (br_estimated r) 1)
                      (quota_buckets s))\<rparr>)"

definition stale_bucket_reservations ::
  "bucket \<Rightarrow> int \<Rightarrow> gw_store \<Rightarrow> quota_bucket_reservation list" where
  "stale_bucket_reservations bk before s =
     filter (\<lambda>r. br_acct r = bk \<and> br_status r = QuotaReservationPending \<and> br_created_at r < before)
       (quota_bucket_reservations s)"

definition collectBucketIDs :: "quota_bucket_reservation list \<Rightarrow> string list" where
  "collectBucketIDs rows = map br_request_id rows"

fun reap_bucket_loop :: "quota_bucket_reservation list \<Rightarrow> int \<times> quota_bucket list \<Rightarrow>
  int \<times> quota_bucket list" where
  "reap_bucket_loop [] acc = acc"
| "reap_bucket_loop (r # rs) (released, rows) =
     reap_bucket_loop rs (wrap64 (released + br_estimated r),
       sql_update (\<lambda>q. bucket_acct q = br_acct r) (free_balance (br_estimated r) 1) rows)"

definition ReapStaleQuotaBucketReservations_tx :: "bucket \<Rightarrow> int \<Rightarrow> gw_store \<Rightarrow> int \<times> gw_store" where
  "ReapStaleQuotaBucketReservations_tx bk before s =
     (let stale = stale_bucket_reservations bk before s;
          (released, rows) = reap_bucket_loop stale (0, quota_buckets s)
      in (released, s\<lparr>
        quota_buckets := rows,
        quota_bucket_reservations :=
          sql_update (\<lambda>x. br_request_id x \<in> set (collectBucketIDs stale))
            (br_status_update (\<lambda>_. QuotaReservationReleased)) (quota_bucket_reservations s)\<rparr>))"

lemmas bucket_tx_defs [ledger_defs] = UpsertQuotaBucket_tx_def AddQuotaBucketReservation_tx_def
  ReserveQuotaBucketTokens_tx_def FinalizeQuotaBucketReservation_tx_def
  ReleaseQuotaBucketReservation_tx_def ReapStaleQuotaBucketReservations_tx_def

section \<open>Repository methods\<close>

definition UpsertQuotaBucket :: "quota_bucket \<Rightarrow> gw_store db \<Rightarrow> (err + unit) \<times> gw_store db" where
  "UpsertQuotaBucket q = db_run (\<lambda>s. (Inr (), UpsertQuotaBucket_tx q s))"

definition GetQuotaBucket :: "bucket \<Rightarrow> gw_store db \<Rightarrow> (err + quota_bucket option) \<times> gw_store db" where
  "GetQuotaBucket bk = db_run (\<lambda>s. (Inr (row_at bucket_acct bk (quota_buckets s)), s))"

definition AddQuotaBucketReservation ::
  "quota_bucket_reservation \<Rightarrow> gw_store db \<Rightarrow> (err + bool) \<times> gw_store db" where
  "AddQuotaBucketReservation r =
     db_run (\<lambda>s. let (inserted, s') = AddQuotaBucketReservation_tx r s in (Inr inserted, s'))"

definition GetQuotaBucketReservation ::
  "string \<Rightarrow> gw_store db \<Rightarrow> (err + quota_bucket_reservation option) \<times> gw_store db" where
  "GetQuotaBucketReservation requestID =
     db_run (\<lambda>s. (Inr (row_at br_request_id requestID (quota_bucket_reservations s)), s))"

definition ReserveQuotaBucketTokens :: "bucket \<Rightarrow> string \<Rightarrow> int \<Rightarrow> bool \<Rightarrow> gw_store db \<Rightarrow>
  (err + bool \<times> int \<times> int) \<times> gw_store db" where
  "ReserveQuotaBucketTokens bk requestID est reserveRequest d =
     (if \<not> 0 < est \<and> \<not> reserveRequest then (Inr (True, - 1, - 1), d)
      else let (res, d1) = db_run (ReserveQuotaBucketTokens_tx bk requestID est reserveRequest) d;
          answer = (\<lambda>applied.
            case GetQuotaBucket bk d1 of
              (Inl e, d2) \<Rightarrow> (Inl e, d2)
            | (Inr None, d2) \<Rightarrow> (Inl RecordNotFound, d2)
            | (Inr (Some q), d2) \<Rightarrow>
                (Inr (applied, quotaRemaining (token_limit q) (tokens_used q) (pending q),
                   quotaRemaining (request_limit q) (requests_used q) (pending_requests q)), d2))
      in case res of
           Inr _ \<Rightarrow> answer True
         | Inl e \<Rightarrow> if e = errQuotaExceeded then answer False else (Inl e, d1))"

definition FinalizeQuotaBucketReservation ::
  "string \<Rightarrow> int \<Rightarrow> gw_store db \<Rightarrow> (err + unit) \<times> gw_store db" where
  "FinalizeQuotaBucketReservation requestID actual =
     db_run (\<lambda>s. (Inr (), FinalizeQuotaBucketReservation_tx requestID actual s))"

definition ReleaseQuotaBucketReservation :: "string \<Rightarrow> gw_store db \<Rightarrow> (err + unit) \<times> gw_store db" where
  "ReleaseQuotaBucketReservation requestID =
     db_run (\<lambda>s. (Inr (), ReleaseQuotaBucketReservation_tx requestID s))"

definition ReapStaleQuotaBucketReservations ::
  "bucket \<Rightarrow> int \<Rightarrow> gw_store db \<Rightarrow> (err + int) \<times> gw_store db" where
  "ReapStaleQuotaBucketReservations bk before =
     db_run (\<lambda>s. let (released, s') = ReapStaleQuotaBucketReservations_tx bk before s
                 in (Inr released, s'))"

section \<open>The ledger implements the interface\<close>

definition bucket_bal :: "gw_store \<Rightarrow> bucket \<Rightarrow> balance option" where
  "bucket_bal s = view bucket_acct balance.truncate (quota_buckets s)"

definition bucket_entry :: "quota_bucket_reservation \<Rightarrow> bucket entry" where
  "bucket_entry r = \<lparr>e_acct = br_acct r, e_est = br_estimated r, e_status = br_status r,
     e_applied = br_applied r\<rparr>"

definition bucket_resv :: "gw_store \<Rightarrow> string \<rightharpoonup> bucket entry" where
  "bucket_resv s = view br_request_id bucket_entry (quota_bucket_reservations s)"

definition bucket_invar :: "gw_store \<Rightarrow> bool" where
  "bucket_invar s \<longleftrightarrow> uniq bucket_key (quota_buckets s) \<and>
     uniq br_request_id (quota_bucket_reservations s)"

lemma bucket_key_exprs [simp]:
  "bucket_key (reserve_balance e rr q) = bucket_key q"
  "bucket_key (charge_balance n e q) = bucket_key q"
  "bucket_key (free_balance e n q) = bucket_key q"
  "bucket_acct (reserve_balance e rr q) = bucket_acct q"
  "bucket_acct (charge_balance n e q) = bucket_acct q"
  "bucket_acct (free_balance e n q) = bucket_acct q"
  by (simp_all add: bucket_key_def bucket_acct_def balance_expr_defs)

lemma uniq_bucket_acct: "uniq bucket_key rows \<Longrightarrow> uniq bucket_acct rows"
proof -
  assume "uniq bucket_key rows"
  then have "distinct (map (\<lambda>(t, d, k, p). (k, p)) (map bucket_acct rows))"
    by (simp add: uniq_def bucket_key_def [abs_def] bucket_acct_def comp_def)
  then show ?thesis unfolding uniq_def distinct_map [of _ "map bucket_acct rows"] by simp
qed

lemma bucket_resvE:
  assumes "bucket_resv s r = Some e"
  obtains row where "row_at br_request_id r (quota_bucket_reservations s) = Some row"
    and "e = bucket_entry row"
  using assms by (auto simp: bucket_resv_def view_def)

lemma uniq_reap_loop: "uniq bucket_key rows \<Longrightarrow> uniq bucket_key (snd (reap_bucket_loop rs (n, rows)))"
  by (induction rs arbitrary: n rows) (auto simp: uniq_update)

lemma bucket_invar_txs:
  "bucket_invar s \<Longrightarrow> bucket_invar (UpsertQuotaBucket_tx q s)"
  "bucket_invar s \<Longrightarrow> bucket_invar (snd (AddQuotaBucketReservation_tx row s))"
  "bucket_invar s \<Longrightarrow> bucket_invar (snd (ReserveQuotaBucketTokens_tx bk r est rr s))"
  "bucket_invar s \<Longrightarrow> bucket_invar (FinalizeQuotaBucketReservation_tx r n s)"
  "bucket_invar s \<Longrightarrow> bucket_invar (ReleaseQuotaBucketReservation_tx r s)"
  "bucket_invar s \<Longrightarrow> bucket_invar (snd (ReapStaleQuotaBucketReservations_tx bk t s))"
proof -
  assume inv: "bucket_invar s"
  have "map bucket_key (sql_update (\<lambda>x. bucket_key x = bucket_key q) (\<lambda>_. q) (quota_buckets s)) =
      map bucket_key (quota_buckets s)"
    by (simp add: sql_update_def)
  then show "bucket_invar (UpsertQuotaBucket_tx q s)"
    using inv by (auto simp: bucket_invar_def UpsertQuotaBucket_tx_def uniq_def row_at_None_iff)
  show "bucket_invar (snd (AddQuotaBucketReservation_tx row s))"
    using inv by (auto simp: bucket_invar_def AddQuotaBucketReservation_tx_def split: prod.splits)
      (metis snd_conv uniq_insert_ignore)
  show "bucket_invar (snd (ReapStaleQuotaBucketReservations_tx bk t s))"
    using inv uniq_reap_loop [of "quota_buckets s" "stale_bucket_reservations bk t s" 0]
    by (auto simp: bucket_invar_def ReapStaleQuotaBucketReservations_tx_def Let_def table_simps
        split: prod.splits)
qed (auto simp: bucket_invar_def bucket_tx_defs Let_def table_simps split: option.splits)

lemma bucket_count:
  assumes "bucket_invar s" and "bucket_bal s bk = Some b"
  shows "sql_count (\<lambda>q. bucket_acct q = bk \<and> reserve_guard est rr q) (quota_buckets s) =
    (if reserve_guard est rr b then 1 else 0)"
proof -
  have "uniq bucket_acct (quota_buckets s)"
    using assms(1) by (simp add: bucket_invar_def uniq_bucket_acct)
  from count_key [OF this, of bk "reserve_guard est rr"] assms(2) show ?thesis
    by (auto simp: bucket_bal_def view_def)
qed

lemma bucket_release_pending:
  assumes "bucket_resv s r = Some e" and "e_status e = QuotaReservationPending"
  shows "bucket_bal (ReleaseQuotaBucketReservation_tx r s) = (if e_applied e then
      (bucket_bal s)(e_acct e := map_option (free_balance (e_est e) 1) (bucket_bal s (e_acct e)))
      else bucket_bal s) \<and>
    bucket_resv (ReleaseQuotaBucketReservation_tx r s) =
      (bucket_resv s)(r \<mapsto> e\<lparr>e_status := QuotaReservationReleased\<rparr>)"
proof -
  obtain row where row: "row_at br_request_id r (quota_bucket_reservations s) = Some row"
      "e = bucket_entry row" using assms(1) by (rule bucket_resvE)
  have "view br_request_id bucket_entry (sql_update (\<lambda>x. br_request_id x = r)
      (br_status_update (\<lambda>_. QuotaReservationReleased)) (quota_bucket_reservations s)) =
      (bucket_resv s)(r := map_option (\<lambda>e. e\<lparr>e_status := QuotaReservationReleased\<rparr>) (bucket_resv s r))"
    unfolding bucket_resv_def by (rule view_update) (auto simp: bucket_entry_def br_acct_def)
  moreover have "view bucket_acct balance.truncate (sql_update (\<lambda>q. bucket_acct q = br_acct row)
      (free_balance (br_estimated row) 1) (quota_buckets s)) = (bucket_bal s)(br_acct row :=
      map_option (free_balance (br_estimated row) 1) (bucket_bal s (br_acct row)))"
    unfolding bucket_bal_def by (rule view_update) simp_all
  ultimately show ?thesis using assms row
    by (simp add: ReleaseQuotaBucketReservation_tx_def bucket_resv_def bucket_bal_def bucket_entry_def)
qed

interpretation bucket_ledger: budget_ledger bucket_bal bucket_resv bucket_invar
  ReserveQuotaBucketTokens_tx FinalizeQuotaBucketReservation_tx ReleaseQuotaBucketReservation_tx
proof (unfold_locales, goal_cases)
  case (1 s)
  show ?case by (simp add: bucket_resv_def finite_dom_view)
next
  case (2 s a b est rr r)
  obtain q where q: "row_at bucket_acct a (quota_buckets s) = Some q" "b = balance.truncate q"
    using 2(2) by (auto simp: bucket_bal_def view_def)
  have "view br_request_id bucket_entry (sql_update (\<lambda>x. br_request_id x = r)
      (br_applied_update (\<lambda>_. True)) (quota_bucket_reservations s)) = (bucket_resv s)(r :=
      map_option (\<lambda>e. e\<lparr>e_applied := True\<rparr>) (bucket_resv s r))"
    unfolding bucket_resv_def by (rule view_update) (auto simp: bucket_entry_def br_acct_def)
  moreover have "view bucket_acct balance.truncate (sql_update
      (\<lambda>q. bucket_acct q = a \<and> reserve_guard est rr q) (reserve_balance est rr) (quota_buckets s)) =
      (bucket_bal s)(a \<mapsto> reserve_balance est rr b)"
    unfolding bucket_bal_def
    using view_update_at [of bucket_acct "reserve_balance est rr", OF _ q(1),
        where P = "reserve_guard est rr" and tr = balance.truncate] 2(4) q(2) by simp
  ultimately show ?case using bucket_count [OF 2(1,2), of est rr] 2(4)
    by (simp add: ReserveQuotaBucketTokens_tx_def bucket_resv_def bucket_bal_def)
next
  case (3 s a b est rr r)
  then show ?case using bucket_count [OF 3(1,2), of est rr]
    by (simp add: ReserveQuotaBucketTokens_tx_def)
next
  case (4 s r e n)
  obtain row where row: "row_at br_request_id r (quota_bucket_reservations s) = Some row"
      "e = bucket_entry row" using 4(2) by (rule bucket_resvE)
  have "view br_request_id bucket_entry (sql_update (\<lambda>x. br_request_id x = r)
      (\<lambda>x. x\<lparr>br_status := QuotaReservationFinalized, br_actual_tokens := n\<rparr>)
      (quota_bucket_reservations s)) = (bucket_resv s)(r :=
      map_option (\<lambda>e. e\<lparr>e_status := QuotaReservationFinalized\<rparr>) (bucket_resv s r))"
    unfolding bucket_resv_def by (rule view_update) (auto simp: bucket_entry_def br_acct_def)
  moreover have "view bucket_acct balance.truncate (sql_update (\<lambda>q. bucket_acct q = br_acct row)
      (charge_balance n (br_estimated row)) (quota_buckets s)) = (bucket_bal s)(br_acct row :=
      map_option (charge_balance n (br_estimated row)) (bucket_bal s (br_acct row)))"
    unfolding bucket_bal_def by (rule view_update) simp_all
  ultimately show ?case using 4 row
    by (simp add: FinalizeQuotaBucketReservation_tx_def bucket_resv_def bucket_bal_def is_open_def
        bucket_entry_def)
next
  case (5 s r n)
  then show ?case
    by (auto simp: closed_at_def bucket_resv_def view_def FinalizeQuotaBucketReservation_tx_def
        is_open_def bucket_entry_def split: option.splits)
next
  case (6 s r e)
  then show ?case
    using bucket_release_pending by (auto simp: is_open_def)
next
  case (7 s r e)
  then show ?case using bucket_release_pending by auto
next
  case (8 s r)
  then show ?case
    by (auto simp: bucket_resv_def view_def bucket_entry_def ReleaseQuotaBucketReservation_tx_def
        split: option.splits)
qed (auto intro: bucket_invar_txs)

section \<open>The ledger's guarantees\<close>

text \<open>
  A bucket reservation is settled once: after a finalization or a release, every later
  finalization or release of the same request id leaves the store as it is.
\<close>

theorem bucket_settlement_happens_once:
  assumes "bucket_invar s"
  shows "FinalizeQuotaBucketReservation_tx r m (FinalizeQuotaBucketReservation_tx r n s) =
      FinalizeQuotaBucketReservation_tx r n s \<and>
    FinalizeQuotaBucketReservation_tx r m (ReleaseQuotaBucketReservation_tx r s) =
      ReleaseQuotaBucketReservation_tx r s \<and>
    ReleaseQuotaBucketReservation_tx r (ReleaseQuotaBucketReservation_tx r s) =
      ReleaseQuotaBucketReservation_tx r s \<and>
    (FinalizeQuotaBucketReservation_tx r n s \<noteq> s \<longrightarrow>
       ReleaseQuotaBucketReservation_tx r (FinalizeQuotaBucketReservation_tx r n s) =
         FinalizeQuotaBucketReservation_tx r n s)"
proof -
  have "FinalizeQuotaBucketReservation_tx r n s \<noteq> s \<Longrightarrow> \<exists>e. bucket_resv s r = Some e \<and> is_open e"
    using bucket_ledger.finalize_closed [of s r n] by (auto simp: closed_at_def)
  then show ?thesis using bucket_ledger.finalize_finalize [OF assms] bucket_ledger.finalize_release [OF assms]
      bucket_ledger.release_release [OF assms] bucket_ledger.release_finalize [OF assms] by metis
qed

definition sample_bucket :: quota_bucket where
  "sample_bucket = \<lparr>token_limit = 100, tokens_used = 0, pending = 30, request_limit = 0, requests_used = 0,
     pending_requests = 0, qb_tenant_id = ''t'', qb_dimension = ''tenant'', qb_dimension_key = ''t'',
     qb_period_start = ''2026-02''\<rparr>"

definition sample_bucket_row :: "string \<Rightarrow> int \<Rightarrow> bool \<Rightarrow> int \<Rightarrow> quota_bucket_reservation" where
  "sample_bucket_row rid est applied at = \<lparr>br_request_id = rid, br_tenant_id = ''t'', br_dimension = ''tenant'',
     br_dimension_key = ''t'', br_period_start = ''2026-02'', br_estimated = est, br_actual_tokens = 0,
     br_status = QuotaReservationPending, br_applied = applied, br_created_at = at\<rparr>"

definition sample_bucket_store :: gw_store where
  "sample_bucket_store = empty_store\<lparr>quota_buckets := [sample_bucket],
     quota_bucket_reservations := [sample_bucket_row ''a'' 30 True 100, sample_bucket_row ''b'' 20 False 0]\<rparr>"

theorem bucket_settlement_happens_once_witness:
  "bucket_invar sample_bucket_store \<and>
   ReleaseQuotaBucketReservation_tx ''a'' (FinalizeQuotaBucketReservation_tx ''a'' 25 sample_bucket_store) =
     FinalizeQuotaBucketReservation_tx ''a'' 25 sample_bucket_store"
proof -
  have "bucket_invar sample_bucket_store"
    "FinalizeQuotaBucketReservation_tx ''a'' 25 sample_bucket_store \<noteq> sample_bucket_store" by code_simp+
  then show ?thesis using bucket_settlement_happens_once by blast
qed

text \<open>
  The stale sweep of a bucket subtracts the estimate of every stale pending reservation,
  whether it was applied to the bucket or not. With one stale reservation that never held
  anything, the bucket loses that many pending tokens and one pending request of others.
\<close>

theorem bucket_sweep_frees_unapplied:
  assumes "bucket_invar s" and "row_at bucket_acct bk (quota_buckets s) = Some b"
    and "stale_bucket_reservations bk before s = [r]"
  shows "row_at bucket_acct bk (quota_buckets (snd (ReapStaleQuotaBucketReservations_tx bk before s))) =
    Some (b\<lparr>pending := clamp_sub (pending b) (br_estimated r),
            pending_requests := clamp_sub (pending_requests b) 1\<rparr>)"
proof -
  have "br_acct r = bk"
    using arg_cong [OF assms(3), of set] by (auto simp: stale_bucket_reservations_def)
  then show ?thesis using assms(2,3)
    by (simp add: ReapStaleQuotaBucketReservations_tx_def row_at_update)
      (auto simp: free_balance_def dest: row_at_SomeD)
qed

text \<open>The witness: request \<open>a\<close> holds 30 tokens; sweeping the unapplied \<open>b\<close> leaves 10 of them.\<close>

theorem bucket_sweep_frees_unapplied_witness:
  "\<exists>b. row_at bucket_acct (''t'', ''tenant'', ''t'', ''2026-02'') (quota_buckets
     (snd (ReapStaleQuotaBucketReservations_tx (''t'', ''tenant'', ''t'', ''2026-02'') 50 sample_bucket_store))) =
     Some b \<and> pending b = 10"
proof -
  let ?bk = "(''t'', ''tenant'', ''t'', ''2026-02'')"
  have "bucket_invar sample_bucket_store"
    "row_at bucket_acct ?bk (quota_buckets sample_bucket_store) = Some sample_bucket"
    "stale_bucket_reservations ?bk 50 sample_bucket_store = [sample_bucket_row ''b'' 20 False 0]"
    by code_simp+
  from bucket_sweep_frees_unapplied [OF this] show ?thesis
    by (simp add: sample_bucket_def sample_bucket_row_def clamp_sub_def)
qed

text \<open>
  Buckets of different tenants share a key. Configuring the bucket of one tenant for a
  dimension key and period removes the bucket that another tenant (or another dimension) has
  under the same dimension key and period, balances included; that tenant is then without a
  bucket, which the gate treats as unlimited.
\<close>

theorem bucket_upsert_evicts_other_tenant:
  assumes "row_at bucket_acct bk (quota_buckets s) = Some b"
    and "bucket_key q = bucket_key b" and "bucket_acct q \<noteq> bk"
  shows "row_at bucket_acct bk (quota_buckets (UpsertQuotaBucket_tx q s)) = None \<and>
    row_at bucket_acct (bucket_acct q) (quota_buckets (UpsertQuotaBucket_tx q s)) = Some q"
proof -
  let ?rows = "quota_buckets s" and ?new = "sql_update (\<lambda>x. bucket_key x = bucket_key q) (\<lambda>_. q) (quota_buckets s)"
  have b: "b \<in> set ?rows" "bucket_acct b = bk" using row_at_SomeD [OF assms(1)] by auto
  have new: "quota_buckets (UpsertQuotaBucket_tx q s) = ?new"
    using b assms(2) by (auto simp: UpsertQuotaBucket_tx_def row_at_None_iff image_iff)
  have "bucket_acct x \<noteq> bk" if "x \<in> set ?new" for x
  proof
    assume eq: "bucket_acct x = bk"
    then have "x \<in> set ?rows" and "bucket_key x \<noteq> bucket_key q"
      using that assms(3) by (auto simp: sql_update_def split: if_splits)
    moreover have "bucket_key x = bucket_key b" using eq b(2) by (auto simp: bucket_acct_def bucket_key_def)
    ultimately show False using assms(2) by simp
  qed
  moreover have "bucket_acct x = bucket_acct q \<Longrightarrow> x = q" if "x \<in> set ?new" for x
    using that by (auto simp: sql_update_def bucket_acct_def bucket_key_def split: if_splits)
  moreover have "q \<in> set ?new" using b(1) assms(2) by (force simp: sql_update_def image_iff)
  moreover obtain z where "row_at bucket_acct (bucket_acct q) ?new = Some z"
    using calculation(3) by (cases "row_at bucket_acct (bucket_acct q) ?new") (auto simp: row_at_None_iff)
  ultimately show ?thesis unfolding new by (auto simp: row_at_None_iff dest!: row_at_SomeD)
qed

theorem bucket_upsert_evicts_other_tenant_witness:
  "row_at bucket_acct (''t'', ''tenant'', ''t'', ''2026-02'') (quota_buckets
     (UpsertQuotaBucket_tx (sample_bucket\<lparr>qb_tenant_id := ''x''\<rparr>) sample_bucket_store)) = None"
proof -
  have "row_at bucket_acct (''t'', ''tenant'', ''t'', ''2026-02'') (quota_buckets sample_bucket_store) = Some sample_bucket"
    "bucket_key (sample_bucket\<lparr>qb_tenant_id := ''x''\<rparr>) = bucket_key sample_bucket"
    "bucket_acct (sample_bucket\<lparr>qb_tenant_id := ''x''\<rparr>) \<noteq> (''t'', ''tenant'', ''t'', ''2026-02'')"
    by code_simp+
  from bucket_upsert_evicts_other_tenant [OF this] show ?thesis by blast
qed

end
