(* ===== verification/Gateway_Quota.thy ===== *)
theory Gateway_Quota
  imports Quota_Ledger Bucket_Ledger Go_Base
begin

text \<open>
  Quota preauthorization of the gateway, \<^verbatim>\<open>internal/service/gateway_quota.go\<close> and
  \<^verbatim>\<open>gateway_quota_bucket.go\<close>. The service state is the database with its fault oracle, the
  throttle of the stale sweep and the events sent to \<^verbatim>\<open>notify.Emit\<close>; log lines are not
  modelled. A service call reads the clock once: \<open>now\<close> is that instant, in nanoseconds.
\<close>

section \<open>State and results\<close>

record event =
  ev_type :: string
  ev_tenant :: string
  ev_resource_id :: string

record svc =
  svc_db :: "gw_store db"
  quotaLastReap :: "string \<rightharpoonup> int"
  svc_events :: "event list"

record quota_result =
  qr_enabled :: bool
  qr_token_enabled :: bool
  qr_remaining :: int
  qr_request_enabled :: bool
  qr_remaining_requests :: int

definition zero_result :: quota_result where
  "zero_result = \<lparr>qr_enabled = False, qr_token_enabled = False, qr_remaining = 0,
     qr_request_enabled = False, qr_remaining_requests = 0\<rparr>"

definition unlimited_result :: quota_result where
  "unlimited_result = zero_result\<lparr>qr_remaining := - 1, qr_remaining_requests := - 1\<rparr>"

abbreviation store_of :: "svc \<Rightarrow> gw_store" where
  "store_of v \<equiv> fst (svc_db v)"

definition emit :: "string \<Rightarrow> string \<Rightarrow> string \<Rightarrow> svc \<Rightarrow> svc" where
  "emit typ tenant resource v =
     v\<lparr>svc_events := svc_events v @ [\<lparr>ev_type = typ, ev_tenant = tenant, ev_resource_id = resource\<rparr>]\<rparr>"

text \<open>A repository call made by the service.\<close>

definition call :: "(gw_store db \<Rightarrow> 'a \<times> gw_store db) \<Rightarrow> svc \<Rightarrow> 'a \<times> svc" where
  "call m v = (let (a, d) = m (svc_db v) in (a, v\<lparr>svc_db := d\<rparr>))"

definition staleQuotaReapInterval :: int where
  "staleQuotaReapInterval = 60 * nanos_per_sec"

definition quotaPeriodStart :: "int \<Rightarrow> string" where
  "quotaPeriodStart now = format_month now"

section \<open>Estimates and remainders\<close>

definition est_field :: "int option \<times> int option \<Rightarrow> string \<Rightarrow> json \<Rightarrow> (int option \<times> int option) \<times> bool" where
  "est_field z k v =
     (if k = ''max_tokens'' then
        let (p, ok) = decode_int64_ptr (fst z) v in ((p, snd z), ok)
      else if k = ''max_completion_tokens'' then
        let (p, ok) = decode_int64_ptr (snd z) v in ((fst z, p), ok)
      else (z, True))"

definition completion_estimate :: "body \<Rightarrow> int" where
  "completion_estimate raw =
     (case fst (unmarshal est_field (None, None) (body_json raw)) of (mt, mct) \<Rightarrow>
        (case mt of
           Some m \<Rightarrow> if 0 < m then m
             else (case mct of Some c \<Rightarrow> if 0 < c then c else 64 | None \<Rightarrow> 64)
         | None \<Rightarrow> (case mct of Some c \<Rightarrow> if 0 < c then c else 64 | None \<Rightarrow> 64)))"

definition prompt_estimate :: "body \<Rightarrow> int" where
  "prompt_estimate raw = (let prompt = int (body_len raw div 2) in if prompt < 1 then 1 else prompt)"

definition estimateRequestTokens :: "body \<Rightarrow> int" where
  "estimateRequestTokens raw = wrap64 (prompt_estimate raw + completion_estimate raw)"

definition EstimateGatewayTokens :: "body \<Rightarrow> int" where
  "EstimateGatewayTokens raw = estimateRequestTokens raw"

definition quotaLimitRemaining :: "int \<Rightarrow> int \<Rightarrow> int \<Rightarrow> int" where
  "quotaLimitRemaining limit used pend =
     (if limit \<le> 0 then - 1
      else let remaining = wrap64 (wrap64 (limit - used) - pend)
           in if remaining < 0 then 0 else remaining)"

definition minQuotaRemaining :: "int \<Rightarrow> int \<Rightarrow> int" where
  "minQuotaRemaining a b = (if a < 0 then b else if b < 0 then a else if a < b then a else b)"

definition model_field :: "string \<Rightarrow> string \<Rightarrow> json \<Rightarrow> string \<times> bool" where
  "model_field z k v = (if k = ''model'' then decode_string z v else (z, True))"

definition extractModelName :: "body \<Rightarrow> string" where
  "extractModelName raw =
     (if body_len raw = 0 then ''''
      else case unmarshal model_field '''' (body_json raw) of
             (m, True) \<Rightarrow> TrimSpace m
           | (_, False) \<Rightarrow> '''')"

section \<open>The key gate\<close>

definition currentQuotaRemaining :: "string \<Rightarrow> string \<Rightarrow> svc \<Rightarrow> (err + int \<times> int) \<times> svc" where
  "currentQuotaRemaining keyID period v =
     (case call (GetQuotaLimit keyID period) v of
        (Inl e, v1) \<Rightarrow> (Inl e, v1)
      | (Inr None, v1) \<Rightarrow> (Inr (- 1, - 1), v1)
      | (Inr (Some q), v1) \<Rightarrow>
          (Inr (quotaLimitRemaining (token_limit q) (tokens_used q) (pending q),
             quotaLimitRemaining (request_limit q) (requests_used q) (pending_requests q)), v1))"

definition quotaLedgerErr :: "api_key \<Rightarrow> svc \<Rightarrow> err \<times> svc" where
  "quotaLedgerErr key v =
     (Http 502 50239 ''quota check failed, request rejected'',
      emit ''quota_ledger_error'' (k_tenant_id key) (k_id key) v)"

definition ledger_fail :: "api_key \<Rightarrow> quota_result \<Rightarrow> svc \<Rightarrow> (quota_result \<times> err option) \<times> svc" where
  "ledger_fail key result v = (let (e, v1) = quotaLedgerErr key v in ((result, Some e), v1))"

definition reapStaleQuota :: "api_key \<Rightarrow> string \<Rightarrow> int \<Rightarrow> svc \<Rightarrow> svc" where
  "reapStaleQuota key period now v =
     (let k = k_id key @ ''|'' @ period in
      if (case quotaLastReap v k of Some prev \<Rightarrow> now - prev < staleQuotaReapInterval | None \<Rightarrow> False)
      then v
      else snd (call (ReapStaleQuotaReservations (k_id key) period (now - staleQuotaReapInterval))
             (v\<lparr>quotaLastReap := (quotaLastReap v)(k \<mapsto> now)\<rparr>)))"

definition new_limit :: "api_key \<Rightarrow> string \<Rightarrow> quota_limit" where
  "new_limit key period =
     \<lparr>token_limit = k_token_quota key, tokens_used = 0, pending = 0,
      request_limit = k_request_quota key, requests_used = 0, pending_requests = 0,
      ql_tenant_id = k_tenant_id key, ql_key_id = k_id key, ql_period_start = period\<rparr>"

definition new_reservation :: "api_key \<Rightarrow> string \<Rightarrow> string \<Rightarrow> int \<Rightarrow> int \<Rightarrow> quota_reservation" where
  "new_reservation key requestID period est now =
     \<lparr>r_request_id = requestID, r_tenant_id = k_tenant_id key, r_key_id = k_id key,
      r_period_start = period, r_estimated = est, r_actual_tokens = 0,
      r_status = QuotaReservationPending, r_applied = False, r_created_at = now\<rparr>"

definition reserve_step :: "api_key \<Rightarrow> string \<Rightarrow> string \<Rightarrow> int \<Rightarrow> quota_result \<Rightarrow> svc \<Rightarrow>
  (quota_result \<times> err option) \<times> svc" where
  "reserve_step key period requestID est result v =
     (case call (ReserveQuotaTokens (k_id key) period requestID est (0 < k_request_quota key)) v of
        (Inl e, v1) \<Rightarrow> ledger_fail key result v1
      | (Inr (applied, tokenRemaining, requestRemaining), v1) \<Rightarrow>
          let result' = result\<lparr>qr_remaining := tokenRemaining, qr_remaining_requests := requestRemaining\<rparr>
          in if \<not> applied then
               let (_, v2) = call (ReleaseQuotaReservation requestID) v1;
                   v3 = emit ''quota_exceeded'' (k_tenant_id key) (k_id key) v2
               in ((result', Some (Http 429 42930
                     ''insufficient quota: monthly token or request budget exhausted for this key'')), v3)
             else ((result', None), v1))"

definition PreauthorizeGatewayQuota :: "api_key \<Rightarrow> body \<Rightarrow> string \<Rightarrow> int \<Rightarrow> svc \<Rightarrow>
  (quota_result \<times> err option) \<times> svc" where
  "PreauthorizeGatewayQuota key rawReq requestID now v =
     (let tokenEnabled = 0 < k_token_quota key; requestEnabled = 0 < k_request_quota key in
      if \<not> tokenEnabled \<and> \<not> requestEnabled then ((unlimited_result, None), v)
      else
      let period = quotaPeriodStart now;
          v1 = reapStaleQuota key period now v;
          result = \<lparr>qr_enabled = True, qr_token_enabled = tokenEnabled, qr_remaining = - 1,
                    qr_request_enabled = requestEnabled, qr_remaining_requests = - 1\<rparr>
      in case call (UpsertQuotaLimit (new_limit key period)) v1 of
           (Inl e, v2) \<Rightarrow> ledger_fail key result v2
         | (Inr _, v2) \<Rightarrow>
             let est = estimateRequestTokens rawReq in
             (case call (AddQuotaReservation (new_reservation key requestID period est now)) v2 of
                (Inl e, v3) \<Rightarrow> ledger_fail key result v3
              | (Inr inserted, v3) \<Rightarrow>
                  if \<not> inserted then
                    (case currentQuotaRemaining (k_id key) period v3 of
                       (Inl e, v4) \<Rightarrow> ledger_fail key result v4
                     | (Inr (t, r), v4) \<Rightarrow>
                         ((result\<lparr>qr_remaining := t, qr_remaining_requests := r\<rparr>, None), v4))
                  else reserve_step key period requestID est result v3))"

definition FinalizeGatewayQuota :: "api_key \<Rightarrow> string \<Rightarrow> int \<Rightarrow> svc \<Rightarrow> svc" where
  "FinalizeGatewayQuota key requestID actualTokens v =
     (if k_token_quota key \<le> 0 \<and> k_request_quota key \<le> 0 then v
      else snd (call (FinalizeQuotaReservation requestID actualTokens) v))"

definition ReleaseGatewayQuota :: "api_key \<Rightarrow> string \<Rightarrow> svc \<Rightarrow> svc" where
  "ReleaseGatewayQuota key requestID v =
     (if k_token_quota key \<le> 0 \<and> k_request_quota key \<le> 0 then v
      else snd (call (ReleaseQuotaReservation requestID) v))"

section \<open>The bucket gate\<close>

definition gatewayBucketQuotaExhausted :: int where
  "gatewayBucketQuotaExhausted = 42931"

definition reapStaleBucketQuota :: "bucket \<Rightarrow> int \<Rightarrow> svc \<Rightarrow> (err + int) \<times> svc" where
  "reapStaleBucketQuota bk now v =
     call (ReapStaleQuotaBucketReservations bk (now - staleQuotaReapInterval)) v"

definition new_bucket_reservation :: "api_key \<Rightarrow> string \<Rightarrow> bucket \<Rightarrow> int \<Rightarrow> int \<Rightarrow>
  quota_bucket_reservation" where
  "new_bucket_reservation key requestID bk est now =
     (case bk of (tenant, dimension, dimensionKey, period) \<Rightarrow>
       \<lparr>br_request_id = requestID, br_tenant_id = k_tenant_id key, br_dimension = dimension,
        br_dimension_key = dimensionKey, br_period_start = period, br_estimated = est,
        br_actual_tokens = 0, br_status = QuotaReservationPending, br_applied = False,
        br_created_at = now\<rparr>)"

definition bucket_reserve_step :: "api_key \<Rightarrow> bucket \<Rightarrow> string \<Rightarrow> int \<Rightarrow> bool \<Rightarrow> string \<Rightarrow> quota_result \<Rightarrow>
  svc \<Rightarrow> (quota_result \<times> err option) \<times> svc" where
  "bucket_reserve_step key bk requestID est requestEnabled dimension result v =
     (case call (ReserveQuotaBucketTokens bk requestID est requestEnabled) v of
        (Inl e, v1) \<Rightarrow>
          let (_, v2) = call (ReleaseQuotaBucketReservation requestID) v1
          in ledger_fail key result v2
      | (Inr (applied, tokenRemaining, requestRemaining), v1) \<Rightarrow>
          let result' = result\<lparr>qr_remaining := tokenRemaining, qr_remaining_requests := requestRemaining\<rparr>
          in if \<not> applied then
               let (_, v2) = call (ReleaseQuotaBucketReservation requestID) v1;
                   v3 = emit ''bucket_quota_exceeded'' (k_tenant_id key) (k_tenant_id key) v2
               in ((result', Some (Http 430 gatewayBucketQuotaExhausted
                     (''insufficient quota: '' @ dimension @ '' quota bucket budget exhausted''))), v3)
             else ((result', None), v1))"

definition PreauthorizeBucketQuota :: "api_key \<Rightarrow> string \<Rightarrow> int \<Rightarrow> bool \<Rightarrow> bool \<Rightarrow> string \<Rightarrow> string \<Rightarrow>
  int \<Rightarrow> svc \<Rightarrow> (quota_result \<times> err option) \<times> svc" where
  "PreauthorizeBucketQuota key requestID est tokenEnabled requestEnabled dimension dimensionKey now v =
     (let period = quotaPeriodStart now;
          bk = (k_tenant_id key, dimension, dimensionKey, period) in
      case call (GetQuotaBucket bk) v of
        (Inl e, v1) \<Rightarrow> ledger_fail key zero_result v1
      | (Inr None, v1) \<Rightarrow> ((unlimited_result, None), v1)
      | (Inr (Some b), v1) \<Rightarrow>
          if token_limit b \<le> 0 \<and> request_limit b \<le> 0 then ((unlimited_result, None), v1)
          else
          let result = \<lparr>qr_enabled = True, qr_token_enabled = tokenEnabled, qr_remaining = - 1,
                        qr_request_enabled = requestEnabled, qr_remaining_requests = - 1\<rparr> in
          (case reapStaleBucketQuota bk now v1 of
             (Inl e, v2) \<Rightarrow> ledger_fail key result v2
           | (Inr _, v2) \<Rightarrow>
               (case call (AddQuotaBucketReservation (new_bucket_reservation key requestID bk est now)) v2 of
                  (Inl e, v3) \<Rightarrow> ledger_fail key result v3
                | (Inr inserted, v3) \<Rightarrow>
                    if \<not> inserted then
                      (case call (GetQuotaBucket bk) v3 of
                         (Inl e, v4) \<Rightarrow> ledger_fail key result v4
                       | (Inr None, v4) \<Rightarrow> ((result, None), v4)
                       | (Inr (Some c), v4) \<Rightarrow>
                           ((result\<lparr>
                              qr_remaining := (if 0 < token_limit b then
                                quotaLimitRemaining (token_limit c) (tokens_used c) (pending c) else - 1),
                              qr_remaining_requests := (if 0 < request_limit b then
                                quotaLimitRemaining (request_limit c) (requests_used c) (pending_requests c)
                                else - 1)\<rparr>, None), v4))
                    else bucket_reserve_step key bk requestID est requestEnabled dimension result v3)))"

definition PreauthorizeTenantBucketQuota :: "api_key \<Rightarrow> string \<Rightarrow> int \<Rightarrow> bool \<Rightarrow> bool \<Rightarrow> int \<Rightarrow> svc \<Rightarrow>
  (quota_result \<times> err option) \<times> svc" where
  "PreauthorizeTenantBucketQuota key requestID est tokenEnabled requestEnabled now v =
     PreauthorizeBucketQuota key requestID est tokenEnabled requestEnabled ''tenant'' (k_tenant_id key) now v"

definition FinalizeTenantBucketQuota :: "api_key \<Rightarrow> string \<Rightarrow> int \<Rightarrow> svc \<Rightarrow> svc" where
  "FinalizeTenantBucketQuota key requestID actualTokens v =
     snd (call (FinalizeQuotaBucketReservation requestID actualTokens) v)"

definition ReleaseTenantBucketQuota :: "api_key \<Rightarrow> string \<Rightarrow> svc \<Rightarrow> svc" where
  "ReleaseTenantBucketQuota key requestID v = snd (call (ReleaseQuotaBucketReservation requestID) v)"

section \<open>The composite gate\<close>

definition combine_results :: "quota_result \<Rightarrow> quota_result \<Rightarrow> quota_result" where
  "combine_results result bres =
     (if qr_enabled result \<and> qr_enabled bres then
        result\<lparr>qr_enabled := True,
          qr_remaining := minQuotaRemaining (qr_remaining result) (qr_remaining bres),
          qr_remaining_requests := minQuotaRemaining (qr_remaining_requests result) (qr_remaining_requests bres),
          qr_token_enabled := qr_token_enabled result \<or> qr_token_enabled bres,
          qr_request_enabled := qr_request_enabled result \<or> qr_request_enabled bres\<rparr>
      else if qr_enabled bres then bres
      else result)"

definition PreauthorizeGatewayQuotaWithBucket :: "api_key \<Rightarrow> body \<Rightarrow> string \<Rightarrow> int \<Rightarrow> svc \<Rightarrow>
  (quota_result \<times> err option) \<times> svc" where
  "PreauthorizeGatewayQuotaWithBucket key rawReq requestID now v =
     (case PreauthorizeGatewayQuota key rawReq requestID now v of
        ((result, Some e), v1) \<Rightarrow> ((result, Some e), v1)
      | ((result, None), v1) \<Rightarrow>
          let est = estimateRequestTokens rawReq; modelName = extractModelName rawReq;
              te = 0 < k_token_quota key; re = 0 < k_request_quota key;
              ((bres0, berr0), v2) =
                (if modelName \<noteq> '''' then
                   PreauthorizeBucketQuota key requestID est te re ''model'' modelName now v1
                 else ((zero_result, None), v1));
              ((bres, berr), v3) =
                (if berr0 = None \<and> \<not> qr_enabled bres0 then
                   PreauthorizeTenantBucketQuota key requestID est te re now v2
                 else ((bres0, berr0), v2))
          in case berr of
               Some e \<Rightarrow> ((bres, Some e), ReleaseGatewayQuota key requestID v3)
             | None \<Rightarrow> ((combine_results result bres, None), v3))"

definition FinalizeGatewayQuotaWithBucket :: "api_key \<Rightarrow> string \<Rightarrow> int \<Rightarrow> svc \<Rightarrow> svc" where
  "FinalizeGatewayQuotaWithBucket key requestID actualTokens v =
     FinalizeTenantBucketQuota key requestID actualTokens
       (FinalizeGatewayQuota key requestID actualTokens v)"

definition ReleaseGatewayQuotaWithBucket :: "api_key \<Rightarrow> string \<Rightarrow> svc \<Rightarrow> svc" where
  "ReleaseGatewayQuotaWithBucket key requestID v =
     ReleaseTenantBucketQuota key requestID (ReleaseGatewayQuota key requestID v)"

end
