(* ===== verification/Service_Calls.thy ===== *)
theory Service_Calls
  imports Gateway_Quota
begin

text \<open>
  Facts on the repository calls a service makes: under any fault oracle a call either fails and
  leaves the tables alone or runs its transaction, and on a healthy database (no faults left in
  the oracle) it runs its transaction.
\<close>

lemma call_db_run:
  assumes "call (db_run body) v = (res, v')"
  obtains e where "res = Inl e" and "store_of v' = store_of v"
  | a where "res = Inr a" and "body (store_of v) = (Inr a, store_of v')"
proof -
  obtain s fs where d: "svc_db v = (s, fs)" by (cases "svc_db v") auto
  obtain s' fs' where d': "svc_db v' = (s', fs')" by (cases "svc_db v'") auto
  have "db_run body (s, fs) = (res, s', fs')"
    using assms d d' by (auto simp: call_def split: prod.splits)
  then show ?thesis by (rule db_run_cases) (use that d d' in auto)
qed

lemma call_events: "call m v = (r, v') \<Longrightarrow> svc_events v' = svc_events v \<and> quotaLastReap v' = quotaLastReap v"
  by (auto simp: call_def split: prod.splits)

definition healthy :: "svc \<Rightarrow> bool" where
  "healthy v \<longleftrightarrow> snd (svc_db v) = []"

lemma call_healthy:
  assumes "healthy v" and "body (store_of v) = (Inr a, s')"
  shows "call (db_run body) v = (Inr a, v\<lparr>svc_db := (s', [])\<rparr>)"
  using assms by (cases "svc_db v") (auto simp: call_def healthy_def)

lemma healthy_upd [simp]: "healthy (v\<lparr>svc_db := (s, [])\<rparr>)"
  by (simp add: healthy_def)

lemma healthy_db_run: "snd d = [] \<Longrightarrow> snd (snd (db_run body d)) = []"
  by (cases d) (auto split: prod.splits sum.splits)

lemma healthy_call_run: "healthy v \<Longrightarrow> call (db_run body) v = (r, v') \<Longrightarrow> healthy v'"
  using healthy_db_run [of "svc_db v" body] by (auto simp: healthy_def call_def split: prod.splits)

lemma healthy_call_Inr:
  assumes "healthy v" and "\<And>s. \<exists>a s'. body s = (Inr a, s')"
  shows "call (db_run body) v \<noteq> (Inl e, v')"
proof -
  obtain s where s: "svc_db v = (s, [])" using assms(1) by (cases "svc_db v") (auto simp: healthy_def)
  obtain a s' where "body s = (Inr a, s')" using assms(2) by blast
  then show ?thesis using s by (simp add: call_def)
qed

lemma healthy_call_tx:
  "healthy v \<Longrightarrow> call (db_run (\<lambda>s. let (a, s') = tx s in (Inr a, s'))) v \<noteq> (Inl e, v')"
  by (rule healthy_call_Inr) (simp_all add: Let_def split: prod.splits)

lemma call_keeps:
  assumes "\<And>s. f (snd (body s)) = f s" and "call (db_run body) v = (r, v')"
  shows "f (store_of v') = f (store_of v)"
  using assms(2) by (rule call_db_run) (use assms(1) in \<open>auto, metis snd_conv\<close>)


lemma emit_db [simp]: "svc_db (emit a b c v) = svc_db v" "healthy (emit a b c v) = healthy v"
  by (simp_all add: emit_def healthy_def)

end
