(* ===== verification/Model_Routes.thy ===== *)
theory Model_Routes
  imports Service_Calls
begin

text \<open>
  The routing tables of the gateway and the resolution of a request to a provider:
  \<^verbatim>\<open>resolveRoute\<close> of \<^verbatim>\<open>internal/service/gateway.go\<close>, the pin gate
  \<^verbatim>\<open>ValidateEnterpriseModelRoutePin\<close> of \<^verbatim>\<open>internal/service/enterprise_connection.go\<close> and the two
  ownership checks of agents and search apps. The gateway only reads these tables, so they are an
  argument, the catalog; a read still consumes the fault oracle of the database. \<open>parse\<close> scans
  JSON text of a column. Rows hold the columns the gateway reads.
\<close>

section \<open>Rows\<close>

record model_provider =
  mp_id :: string
  mp_tenant_id :: string
  mp_base_url :: string
  mp_api_key_enc :: string
  mp_enabled :: bool

record model_route =
  mr_id :: string
  mr_tenant_id :: string
  mr_provider_id :: string
  mr_scenario :: string
  mr_model_alias :: string
  mr_target_model :: string
  mr_enabled :: bool
  mr_current_pin_id :: string
  mr_current_pin_version :: int
  mr_created_at :: int

record route_pin =
  pin_id :: string
  pin_tenant_id :: string
  pin_route_id :: string
  pin_version :: int
  pin_connection_id :: string
  pin_connection_version :: int
  pin_binding_id :: string
  pin_binding_version :: int
  pin_model_ref :: string

record ent_connection =
  ec_id :: string
  ec_lifecycle_status :: string

record ent_connection_version =
  ecv_connection_id :: string
  ecv_version :: int

record ent_binding =
  eb_id :: string
  eb_tenant_id :: string
  eb_lifecycle_status :: string

record ent_binding_version =
  ebv_binding_id :: string
  ebv_version :: int
  ebv_connection_id :: string
  ebv_allowed_capabilities :: string
  ebv_allowed_model_refs :: string

record shadow =
  sh_id :: string
  sh_tenant_id :: string
  sh_owner_id :: string

record route_catalog =
  model_routes :: "model_route list"
  model_providers :: "model_provider list"
  route_pins :: "route_pin list"
  ent_connections :: "ent_connection list"
  ent_connection_versions :: "ent_connection_version list"
  ent_bindings :: "ent_binding list"
  ent_binding_versions :: "ent_binding_version list"
  agent_shadows :: "shadow list"
  search_app_shadows :: "shadow list"

definition EnterpriseLifecycleActive :: string where
  "EnterpriseLifecycleActive = ''ACTIVE''"

section \<open>Reads\<close>

definition catalog_read :: "'a \<Rightarrow> svc \<Rightarrow> (err + 'a) \<times> svc" where
  "catalog_read x = call (db_run (\<lambda>s. (Inr x, s)))"

definition ListModelRoutes :: "route_catalog \<Rightarrow> string \<Rightarrow> svc \<Rightarrow> (err + model_route list) \<times> svc" where
  "ListModelRoutes cat tenantID = catalog_read
     (sort_key (\<lambda>r. - mr_created_at r) (filter (\<lambda>r. mr_tenant_id r = tenantID) (model_routes cat)))"

definition GetModelProvider :: "route_catalog \<Rightarrow> string \<Rightarrow> string \<Rightarrow> svc \<Rightarrow> (err + model_provider option) \<times> svc" where
  "GetModelProvider cat tenantID pid = catalog_read
     (sql_first (\<lambda>p. mp_tenant_id p = tenantID \<and> mp_id p = pid) (model_providers cat))"

definition GetModelRouteEnterprisePin :: "route_catalog \<Rightarrow> string \<Rightarrow> string \<Rightarrow> string \<Rightarrow> int \<Rightarrow> svc \<Rightarrow>
  (err + route_pin option) \<times> svc" where
  "GetModelRouteEnterprisePin cat tenantID routeID pinID version = catalog_read
     (sql_first (\<lambda>p. pin_tenant_id p = tenantID \<and> pin_route_id p = routeID \<and> pin_id p = pinID \<and>
        pin_version p = version) (route_pins cat))"

definition GetEnterpriseConnection :: "route_catalog \<Rightarrow> string \<Rightarrow> svc \<Rightarrow> (err + ent_connection option) \<times> svc" where
  "GetEnterpriseConnection cat cid = catalog_read (sql_first (\<lambda>c. ec_id c = cid) (ent_connections cat))"

definition GetEnterpriseConnectionVersion ::
  "route_catalog \<Rightarrow> string \<Rightarrow> int \<Rightarrow> svc \<Rightarrow> (err + ent_connection_version option) \<times> svc" where
  "GetEnterpriseConnectionVersion cat cid version = catalog_read
     (sql_first (\<lambda>c. ecv_connection_id c = cid \<and> ecv_version c = version) (ent_connection_versions cat))"

definition GetEnterpriseBinding :: "route_catalog \<Rightarrow> string \<Rightarrow> svc \<Rightarrow> (err + ent_binding option) \<times> svc" where
  "GetEnterpriseBinding cat bid = catalog_read (sql_first (\<lambda>b. eb_id b = bid) (ent_bindings cat))"

definition GetEnterpriseBindingVersion ::
  "route_catalog \<Rightarrow> string \<Rightarrow> int \<Rightarrow> svc \<Rightarrow> (err + ent_binding_version option) \<times> svc" where
  "GetEnterpriseBindingVersion cat bid version = catalog_read
     (sql_first (\<lambda>b. ebv_binding_id b = bid \<and> ebv_version b = version) (ent_binding_versions cat))"

definition get_shadow :: "shadow list \<Rightarrow> string \<Rightarrow> string \<Rightarrow> bool \<Rightarrow> svc \<Rightarrow> (err + shadow option) \<times> svc" where
  "get_shadow rows tenantID sid scopeAll v =
     (if \<not> scopeAll \<and> tenantID = [] then (Inr None, v)
      else catalog_read (sql_first (\<lambda>a. sh_id a = sid \<and> (scopeAll \<or> sh_tenant_id a = tenantID)) rows) v)"

definition GetAgentShadow :: "route_catalog \<Rightarrow> string \<Rightarrow> string \<Rightarrow> bool \<Rightarrow> svc \<Rightarrow> (err + shadow option) \<times> svc" where
  "GetAgentShadow cat = get_shadow (agent_shadows cat)"

definition GetSearchAppShadow :: "route_catalog \<Rightarrow> string \<Rightarrow> string \<Rightarrow> bool \<Rightarrow> svc \<Rightarrow> (err + shadow option) \<times> svc" where
  "GetSearchAppShadow cat = get_shadow (search_app_shadows cat)"

section \<open>The pin gate\<close>

fun string_elements :: "json list \<Rightarrow> string list option" where
  "string_elements [] = Some []"
| "string_elements (JStr s # js) = map_option ((#) s) (string_elements js)"
| "string_elements (JNull # js) = map_option ((#) []) (string_elements js)"
| "string_elements (_ # js) = None"

definition decodeStringList :: "(string \<Rightarrow> json option) \<Rightarrow> string \<Rightarrow> string list" where
  "decodeStringList parse raw =
     (if raw = [] then []
      else case parse raw of
             Some (JArr js) \<Rightarrow> (case string_elements js of None \<Rightarrow> [] | Some xs \<Rightarrow> xs)
           | _ \<Rightarrow> [])"

definition modelCapabilityForScenario :: "string \<Rightarrow> string" where
  "modelCapabilityForScenario scenario =
     (let sc = ToLower (TrimSpace scenario)
      in if sc \<in> {''chat'', ''completion'', ''embedding'', ''rerank''} then sc else [])"

definition unavailable :: "string \<Rightarrow> err" where
  "unavailable msg = Http 503 50396 msg"

definition pin_authorized :: "(string \<Rightarrow> json option) \<Rightarrow> model_route \<Rightarrow> route_pin \<Rightarrow> ent_binding_version \<Rightarrow>
  err + route_pin option" where
  "pin_authorized parse route pin bv =
     (if pin_model_ref pin \<notin> set (decodeStringList parse (ebv_allowed_model_refs bv)) \<or>
         mr_target_model route \<noteq> pin_model_ref pin
      then Inl (unavailable ''enterprise model route is not authorized'')
      else let capability = modelCapabilityForScenario (mr_scenario route) in
      if capability = [] then Inl (unavailable ''enterprise model route capability is required'')
      else if capability \<notin> set (decodeStringList parse (ebv_allowed_capabilities bv))
      then Inl (unavailable ''enterprise binding does not authorize this capability'')
      else Inr (Some pin))"

definition ValidateEnterpriseModelRoutePin :: "(string \<Rightarrow> json option) \<Rightarrow> route_catalog \<Rightarrow> model_route \<Rightarrow>
  svc \<Rightarrow> (err + route_pin option) \<times> svc" where
  "ValidateEnterpriseModelRoutePin parse cat route v =
     (if mr_current_pin_id route = [] \<or> mr_current_pin_version route \<le> 0 then (Inr None, v)
      else case GetModelRouteEnterprisePin cat (mr_tenant_id route) (mr_id route)
                  (mr_current_pin_id route) (mr_current_pin_version route) v of
        (Inl e, v1) \<Rightarrow> (Inl e, v1)
      | (Inr None, v1) \<Rightarrow> (Inl (unavailable ''enterprise model route pin is unavailable''), v1)
      | (Inr (Some pin), v1) \<Rightarrow>
     (case GetEnterpriseConnection cat (pin_connection_id pin) v1 of
        (Inl e, v2) \<Rightarrow> (Inl e, v2)
      | (Inr c, v2) \<Rightarrow>
          if (case c of None \<Rightarrow> True | Some conn \<Rightarrow> ec_lifecycle_status conn \<noteq> EnterpriseLifecycleActive)
          then (Inl (unavailable ''enterprise connection version is unavailable''), v2)
          else
     (case GetEnterpriseConnectionVersion cat (pin_connection_id pin) (pin_connection_version pin) v2 of
        (Inl e, v3) \<Rightarrow> (Inl e, v3)
      | (Inr None, v3) \<Rightarrow> (Inl (unavailable ''enterprise connection version is unavailable''), v3)
      | (Inr (Some _), v3) \<Rightarrow>
     (case GetEnterpriseBinding cat (pin_binding_id pin) v3 of
        (Inl e, v4) \<Rightarrow> (Inl e, v4)
      | (Inr b, v4) \<Rightarrow>
          if (case b of None \<Rightarrow> True
              | Some binding \<Rightarrow> eb_tenant_id binding \<noteq> mr_tenant_id route \<or>
                  eb_lifecycle_status binding \<noteq> EnterpriseLifecycleActive)
          then (Inl (unavailable ''enterprise binding version is unavailable''), v4)
          else
     (case GetEnterpriseBindingVersion cat (pin_binding_id pin) (pin_binding_version pin) v4 of
        (Inl e, v5) \<Rightarrow> (Inl e, v5)
      | (Inr None, v5) \<Rightarrow> (Inl (unavailable ''enterprise binding version is unavailable''), v5)
      | (Inr (Some bv), v5) \<Rightarrow>
          if ebv_connection_id bv \<noteq> pin_connection_id pin
          then (Inl (unavailable ''enterprise binding version is unavailable''), v5)
          else (pin_authorized parse route pin bv, v5))))))"

section \<open>Routes\<close>

text \<open>The verb \<^verbatim>\<open>%q\<close> of \<^verbatim>\<open>fmt\<close>, on ASCII text.\<close>

definition quote_char :: "char \<Rightarrow> string" where
  "quote_char c =
     (let n = of_char c :: nat in
      if n = 34 \<or> n = 92 then [CHR 0x5C, c]
      else if n = 7 then [CHR 0x5C, CHR ''a''] else if n = 8 then [CHR 0x5C, CHR ''b'']
      else if n = 9 then [CHR 0x5C, CHR ''t''] else if n = 10 then [CHR 0x5C, CHR ''n'']
      else if n = 11 then [CHR 0x5C, CHR ''v''] else if n = 12 then [CHR 0x5C, CHR ''f'']
      else if n = 13 then [CHR 0x5C, CHR ''r'']
      else if n < 32 \<or> n = 127 then [CHR 0x5C, CHR ''x'', hex_digit (n div 16), hex_digit (n mod 16)]
      else [c])"

definition Quote :: "string \<Rightarrow> string" where
  "Quote s = [CHR 0x22] @ concat (map quote_char s) @ [CHR 0x22]"

definition resolveRoute :: "(string \<Rightarrow> json option) \<Rightarrow> route_catalog \<Rightarrow> string \<Rightarrow> body \<Rightarrow> svc \<Rightarrow>
  (err + model_route \<times> model_provider) \<times> svc" where
  "resolveRoute parse cat tenantID rawReq v =
     (case unmarshal model_field [] (body_json rawReq) of
        (_, False) \<Rightarrow> (Inl (BadRequest 40060 ''invalid request body''), v)
      | (name, True) \<Rightarrow>
          if name = [] then (Inl (BadRequest 40061 ''model is required''), v)
          else
     (case ListModelRoutes cat tenantID v of
        (Inl e, v1) \<Rightarrow> (Inl e, v1)
      | (Inr routes, v1) \<Rightarrow>
     (case find (\<lambda>r. mr_enabled r \<and> mr_model_alias r = name) routes of
        None \<Rightarrow> (Inl (NotFound (''no route for model '' @ Quote name)), v1)
      | Some route \<Rightarrow>
     (case ValidateEnterpriseModelRoutePin parse cat route v1 of
        (Inl e, v2) \<Rightarrow> (Inl e, v2)
      | (Inr _, v2) \<Rightarrow>
     (case GetModelProvider cat tenantID (mr_provider_id route) v2 of
        (Inl e, v3) \<Rightarrow> (Inl e, v3)
      | (Inr p, v3) \<Rightarrow>
          (case p of
             None \<Rightarrow> (Inl (NotFound ''model provider not found or disabled''), v3)
           | Some provider \<Rightarrow>
               if mp_enabled provider then (Inr (route, provider), v3)
               else (Inl (NotFound ''model provider not found or disabled''), v3)))))))"

section \<open>Ownership of agents and search apps\<close>

definition owned_target :: "string \<Rightarrow> api_key option \<Rightarrow> (string \<Rightarrow> svc \<Rightarrow> (err + shadow option) \<times> svc) \<Rightarrow> svc \<Rightarrow>
  err option \<times> svc" where
  "owned_target what keyp get v =
     (case keyp of
        None \<Rightarrow> (Some (Unauthorized ''missing api key''), v)
      | Some key \<Rightarrow>
          (case get (k_tenant_id key) v of
             (Inl e, v1) \<Rightarrow> (Some e, v1)
           | (Inr None, v1) \<Rightarrow> (Some (NotFound what), v1)
           | (Inr (Some r), v1) \<Rightarrow>
               (if sh_owner_id r = k_user_id key then None else Some (NotFound what), v1)))"

definition AuthorizeGatewaySearchAppTarget ::
  "route_catalog \<Rightarrow> api_key option \<Rightarrow> string \<Rightarrow> svc \<Rightarrow> err option \<times> svc" where
  "AuthorizeGatewaySearchAppTarget cat keyp searchAppID =
     owned_target ''search app not found'' keyp (\<lambda>t. GetSearchAppShadow cat t searchAppID False)"

definition AuthorizeGatewayAgentTarget ::
  "route_catalog \<Rightarrow> api_key option \<Rightarrow> string \<Rightarrow> svc \<Rightarrow> err option \<times> svc" where
  "AuthorizeGatewayAgentTarget cat keyp agentID =
     owned_target ''agent not found'' keyp (\<lambda>t. GetAgentShadow cat t agentID False)"

end
