(* ===== verification/Metering.thy ===== *)
theory Metering
  imports Gateway_Quota
begin

text \<open>
  Metering: the idempotent usage ledger and the daily aggregate of \<^verbatim>\<open>internal/repository/m2.go\<close>
  (\<^verbatim>\<open>upsertUsageTx\<close>, \<^verbatim>\<open>UpsertUsage\<close>, \<^verbatim>\<open>RecordUsage\<close>, \<^verbatim>\<open>RecordCostMetric\<close>), what the gateway
  does with them (\<^verbatim>\<open>recordUsage\<close> and \<^verbatim>\<open>writeCostMetric\<close> of \<^verbatim>\<open>service/gateway.go\<close>) and the
  scanner of usage blocks in a stream, \<^verbatim>\<open>pkg/sseutil\<close>. The floating point cost columns are not
  modelled; they are derived from the token counts and no operation reads them back.
\<close>

section \<open>The repository\<close>

definition upsertUsageTx :: "quota_usage \<Rightarrow> quota_usage list \<Rightarrow> quota_usage list" where
  "upsertUsageTx u rows =
     (if row_at usage_scope (usage_scope u) rows = None then rows @ [u]
      else sql_update (\<lambda>x. usage_scope x = usage_scope u)
             (\<lambda>x. x\<lparr>u_tokens_in := u_tokens_in x + u_tokens_in u,
                    u_tokens_out := u_tokens_out x + u_tokens_out u,
                    u_requests := u_requests x + u_requests u\<rparr>) rows)"

definition UpsertUsage :: "quota_usage \<Rightarrow> gw_store db \<Rightarrow> (err + unit) \<times> gw_store db" where
  "UpsertUsage u = db_run (\<lambda>s. (Inr (), s\<lparr>quota_usages := upsertUsageTx u (quota_usages s)\<rparr>))"

definition meter_row :: "quota_usage \<Rightarrow> meter_request" where
  "meter_row u = \<lparr>m_request_id = u_request_id u, m_tenant_id = u_tenant_id u, m_user_id = u_user_id u,
     m_key_id = u_key_id u, m_date = u_date u\<rparr>"

definition RecordUsage_tx :: "quota_usage \<Rightarrow> gw_store \<Rightarrow> bool \<times> gw_store" where
  "RecordUsage_tx u s =
     (let (created, rows) = insert_ignore m_request_id (meter_row u) (meter_requests s) in
      if \<not> created then (False, s)
      else (True, s\<lparr>meter_requests := rows, quota_usages := upsertUsageTx u (quota_usages s)\<rparr>))"

definition RecordUsage :: "quota_usage \<Rightarrow> gw_store db \<Rightarrow> (err + bool) \<times> gw_store db" where
  "RecordUsage u d =
     (if u_request_id u = [] then (Inl (Failure ''request_id is required for idempotent metering''), d)
      else db_run (\<lambda>s. let (metered, s') = RecordUsage_tx u s in (Inr metered, s')) d)"

definition RecordCostMetric_tx :: "cost_metric \<Rightarrow> gw_store \<Rightarrow> bool \<times> gw_store" where
  "RecordCostMetric_tx m s =
     (let (created, rows) = insert_ignore c_request_id m (cost_metrics s)
      in (created, s\<lparr>cost_metrics := rows\<rparr>))"

definition RecordCostMetric :: "cost_metric \<Rightarrow> gw_store db \<Rightarrow> (err + bool) \<times> gw_store db" where
  "RecordCostMetric m d =
     (if c_request_id m = [] then (Inl (Failure ''request_id is required for cost metering''), d)
      else db_run (\<lambda>s. let (created, s') = RecordCostMetric_tx m s in (Inr created, s')) d)"

section \<open>Usage blocks\<close>

text \<open>
  The \<^verbatim>\<open>usage\<close> member of a response decodes into a pointer to the two counters: \<^verbatim>\<open>null\<close> resets
  it, anything else allocates it.
\<close>

definition usage_counts :: "int \<times> int \<Rightarrow> string \<Rightarrow> json \<Rightarrow> (int \<times> int) \<times> bool" where
  "usage_counts z k v =
     (if k = ''prompt_tokens'' then let (i, ok) = decode_int64 (fst z) v in ((i, snd z), ok)
      else if k = ''completion_tokens'' then let (i, ok) = decode_int64 (snd z) v in ((fst z, i), ok)
      else (z, True))"

definition usage_field :: "(int \<times> int) option \<Rightarrow> string \<Rightarrow> json \<Rightarrow> (int \<times> int) option \<times> bool" where
  "usage_field z k v =
     (if k \<noteq> ''usage'' then (z, True)
      else if v = JNull then (None, True)
      else let (c, ok) = unmarshal usage_counts (case z of None \<Rightarrow> (0, 0) | Some c \<Rightarrow> c) (Some v)
           in (Some c, ok))"

text \<open>
  \<^verbatim>\<open>TrackUsage\<close> on one line. \<open>parse\<close> stands for the scanner of the JSON text of a line.
\<close>

definition TrackUsage :: "(string \<Rightarrow> json option) \<Rightarrow> string \<Rightarrow> int \<times> int \<Rightarrow> int \<times> int" where
  "TrackUsage parse line acc =
     (let trimmed = TrimSpace line in
      if \<not> HasPrefix trimmed ''data:'' then acc
      else let payload = TrimSpace (TrimPrefix trimmed ''data:'') in
      if payload = ''[DONE]'' \<or> payload = [] then acc
      else case unmarshal usage_field None (parse payload) of
             (Some (p, c), True) \<Rightarrow> (wrap64 (fst acc + p), wrap64 (snd acc + c))
           | _ \<Rightarrow> acc)"

section \<open>The service\<close>

definition new_cost_metric :: "api_key \<Rightarrow> string \<Rightarrow> string \<Rightarrow> int \<Rightarrow> int \<Rightarrow> string \<Rightarrow> bool \<Rightarrow> int \<Rightarrow> cost_metric" where
  "new_cost_metric key modelName scenario tIn tOut requestID estimated now =
     \<lparr>c_request_id = requestID, c_tenant_id = k_tenant_id key, c_user_id = k_user_id key,
      c_key_id = k_id key, c_date = format_date now, c_model = modelName, c_scenario = scenario,
      c_tokens_in = tIn, c_tokens_out = tOut, c_estimated = estimated\<rparr>"

definition writeCostMetric ::
  "api_key \<Rightarrow> string \<Rightarrow> string \<Rightarrow> int \<Rightarrow> int \<Rightarrow> string \<Rightarrow> bool \<Rightarrow> int \<Rightarrow> svc \<Rightarrow> svc" where
  "writeCostMetric key modelName scenario tIn tOut requestID estimated now v =
     snd (call (RecordCostMetric (new_cost_metric key modelName scenario tIn tOut requestID estimated now)) v)"

definition new_usage :: "api_key \<Rightarrow> string \<Rightarrow> int \<Rightarrow> int \<Rightarrow> bool \<Rightarrow> int \<Rightarrow> quota_usage" where
  "new_usage key requestID tIn tOut estimated now =
     \<lparr>u_tenant_id = k_tenant_id key, u_user_id = k_user_id key, u_key_id = k_id key,
      u_request_id = requestID, u_date = format_date now, u_tokens_in = tIn, u_tokens_out = tOut,
      u_requests = 1, u_estimated = estimated\<rparr>"

text \<open>
  The metering that ends both a completed response and a stream: counters that sum to zero are
  replaced by the estimate of \<open>fallback\<close>.
\<close>

definition meter_and_settle :: "api_key \<Rightarrow> string \<Rightarrow> int \<times> int \<Rightarrow> body \<Rightarrow> string \<Rightarrow> int \<Rightarrow> svc \<Rightarrow> svc" where
  "meter_and_settle key modelName counts fallback requestID now v =
     (let estimated = wrap64 (fst counts + snd counts) = 0;
          (tIn, tOut) = (if estimated then (estimateRequestTokens fallback, 64) else counts);
          (_, v1) = call (RecordUsage (new_usage key requestID tIn tOut estimated now)) v;
          v2 = writeCostMetric key modelName ''chat'' tIn tOut requestID estimated now v1
      in FinalizeGatewayQuotaWithBucket key requestID (wrap64 (tIn + tOut)) v2)"

definition recordUsage :: "api_key \<Rightarrow> string \<Rightarrow> body \<Rightarrow> string \<Rightarrow> int \<Rightarrow> svc \<Rightarrow> svc" where
  "recordUsage key modelName rbody requestID now v =
     meter_and_settle key modelName
       (case fst (unmarshal usage_field None (body_json rbody)) of None \<Rightarrow> (0, 0) | Some c \<Rightarrow> c)
       rbody requestID now v"

section \<open>The aggregate counts every request once\<close>

definition usage_of :: "(quota_usage \<Rightarrow> int) \<Rightarrow> gw_store \<Rightarrow> string \<times> string \<times> string \<times> string \<Rightarrow> int" where
  "usage_of col s sc = (case row_at usage_scope sc (quota_usages s) of None \<Rightarrow> 0 | Some u \<Rightarrow> col u)"

text \<open>Deliveries in order, and the ones that were metered.\<close>

fun deliver :: "quota_usage list \<Rightarrow> gw_store db \<Rightarrow> quota_usage list \<times> gw_store db" where
  "deliver [] d = ([], d)"
| "deliver (u # us) d =
     (case RecordUsage u d of (r, d1) \<Rightarrow>
        let (log, d2) = deliver us d1 in (if r = Inr True then u # log else log, d2))"

definition total_in_scope :: "(quota_usage \<Rightarrow> int) \<Rightarrow> quota_usage list \<Rightarrow> string \<times> string \<times> string \<times> string \<Rightarrow> int" where
  "total_in_scope col us sc = sum_list (map col (filter (\<lambda>u. usage_scope u = sc) us))"

lemma upsert_adds:
  assumes "col = u_tokens_in \<or> col = u_tokens_out \<or> col = u_requests"
  shows "(case row_at usage_scope sc (upsertUsageTx u rows) of None \<Rightarrow> 0 | Some x \<Rightarrow> col x) =
    (case row_at usage_scope sc rows of None \<Rightarrow> 0 | Some x \<Rightarrow> col x) + (if usage_scope u = sc then col u else 0)"
proof (cases "row_at usage_scope (usage_scope u) rows")
  case None
  then show ?thesis by (auto simp: upsertUsageTx_def row_at_append split: option.splits)
next
  case (Some x)
  have "usage_scope (y\<lparr>u_tokens_in := a, u_tokens_out := b, u_requests := c\<rparr>) = usage_scope y" for y a b c
    by (simp add: usage_scope_def)
  then show ?thesis using Some assms
    by (auto simp: upsertUsageTx_def row_at_update split: option.splits dest: row_at_SomeD)
qed

lemma RecordUsage_effect:
  assumes "RecordUsage u (s, fs) = (r, s', fs')"
  obtains "r = Inr True" and "u_request_id u \<notin> set (map m_request_id (meter_requests s))"
      and "meter_requests s' = meter_requests s @ [meter_row u]"
      and "quota_usages s' = upsertUsageTx u (quota_usages s)"
  | "r \<noteq> Inr True" and "s' = s"
proof (cases "u_request_id u = []")
  case True
  then have "r \<noteq> Inr True" and "s' = s" using assms by (auto simp: RecordUsage_def)
  then show ?thesis by (rule that(2))
next
  case False
  then have "db_run (\<lambda>s. let (metered, s') = RecordUsage_tx u s in (Inr metered, s')) (s, fs) = (r, s', fs')"
    using assms by (simp add: RecordUsage_def)
  then show ?thesis
    by (rule db_run_cases) (use that in \<open>auto simp: RecordUsage_tx_def insert_ignore_def meter_row_def Let_def
        split: prod.splits if_splits\<close>)
qed

lemma deliver_total:
  assumes "deliver us (s, fs) = (log, s', fs')"
    and "col = u_tokens_in \<or> col = u_tokens_out \<or> col = u_requests"
  shows "usage_of col s' sc = usage_of col s sc + total_in_scope col log sc \<and>
    set (map m_request_id (meter_requests s')) =
      set (map m_request_id (meter_requests s)) \<union> set (map u_request_id log) \<and>
    distinct (map u_request_id log) \<and>
    set (map u_request_id log) \<inter> set (map m_request_id (meter_requests s)) = {}"
  using assms(1)
proof (induction us arbitrary: s fs log)
  case Nil
  then show ?case by (simp add: total_in_scope_def)
next
  case (Cons u us)
  obtain r s1 fs1 where r: "RecordUsage u (s, fs) = (r, s1, fs1)" by (cases "RecordUsage u (s, fs)") auto
  obtain log1 where d: "deliver us (s1, fs1) = (log1, s', fs')"
    and log: "log = (if r = Inr True then u # log1 else log1)"
    using Cons.prems r by (auto split: prod.splits)
  note ih = Cons.IH [OF d]
  from r show ?case
  proof (rule RecordUsage_effect)
    assume a: "r = Inr True" "u_request_id u \<notin> set (map m_request_id (meter_requests s))"
      "meter_requests s1 = meter_requests s @ [meter_row u]"
      "quota_usages s1 = upsertUsageTx u (quota_usages s)"
    have "usage_of col s1 sc = usage_of col s sc + (if usage_scope u = sc then col u else 0)"
      using upsert_adds [OF assms(2)] a(4) by (simp add: usage_of_def)
    then show ?thesis using ih a log by (auto simp: total_in_scope_def meter_row_def)
  next
    assume "r \<noteq> Inr True" "s1 = s"
    then show ?thesis using ih log by simp
  qed
qed

text \<open>
  C5: Usage is counted once per request. Whatever usages are delivered, in whatever order, with
  whatever repetitions of a request id and whatever database faults in between, every request id
  is metered at most once, an id metered earlier is never metered again, and the daily aggregate
  of every scope grows by exactly the sums of the metered deliveries of that scope, in all three
  counters.
\<close>

theorem usage_counted_once_per_request:
  assumes "deliver us (s, fs) = (log, s', fs')"
  shows "distinct (map u_request_id log) \<and>
    set (map u_request_id log) \<inter> set (map m_request_id (meter_requests s)) = {} \<and>
    usage_of u_tokens_in s' sc = usage_of u_tokens_in s sc + total_in_scope u_tokens_in log sc \<and>
    usage_of u_tokens_out s' sc = usage_of u_tokens_out s sc + total_in_scope u_tokens_out log sc \<and>
    usage_of u_requests s' sc = usage_of u_requests s sc + total_in_scope u_requests log sc"
  using deliver_total [OF assms, of u_tokens_in sc] deliver_total [OF assms, of u_tokens_out sc]
    deliver_total [OF assms, of u_requests sc] by simp

definition sample_usage :: "string \<Rightarrow> int \<Rightarrow> quota_usage" where
  "sample_usage rid n = \<lparr>u_tenant_id = ''t'', u_user_id = ''u'', u_key_id = ''k'', u_request_id = rid,
     u_date = ''2026-02-01'', u_tokens_in = n, u_tokens_out = 1, u_requests = 1, u_estimated = False\<rparr>"

text \<open>The witness: a fault on the first delivery of \<open>a\<close>, a retry, and a repetition of \<open>a\<close>.\<close>

theorem usage_counted_once_per_request_witness:
  "usage_of u_tokens_in (fst (snd (deliver [sample_usage ''a'' 5, sample_usage ''a'' 5, sample_usage ''a'' 5,
     sample_usage ''b'' 7] (empty_store, [True])))) (''t'', ''u'', ''k'', ''2026-02-01'') = 12"
proof -
  let ?us = "[sample_usage ''a'' 5, sample_usage ''a'' 5, sample_usage ''a'' 5, sample_usage ''b'' 7]"
  let ?x = "deliver ?us (empty_store, [True])"
  have log: "fst ?x = [sample_usage ''a'' 5, sample_usage ''b'' 7]" by code_simp
  let ?sc = "(''t'', ''u'', ''k'', ''2026-02-01'')"
  have "?x = (fst ?x, fst (snd ?x), snd (snd ?x))" by (simp only: prod.collapse)
  note once = usage_counted_once_per_request [OF this, of ?sc]
  have "usage_of u_tokens_in empty_store ?sc = 0"
    "total_in_scope u_tokens_in [sample_usage ''a'' 5, sample_usage ''b'' 7] ?sc = 12" by code_simp+
  with once show ?thesis unfolding log by linarith
qed

end
