(* ===== verification/Idempotency.thy ===== *)
theory Idempotency
  imports Service_Calls
begin

text \<open>
  The retry ledger of the gateway: \<^verbatim>\<open>internal/service/gateway_idempotency.go\<close> over the
  \<^verbatim>\<open>GatewayIdempotency\<close> methods of \<^verbatim>\<open>internal/repository/m2.go\<close>. The digest \<open>sha\<close> (SHA-256 in
  hexadecimal) and the fresh row id \<open>newID\<close> are arguments. Bytes are characters.
\<close>

section \<open>The repository\<close>

definition CreateGatewayIdempotency_tx :: "gateway_idempotency \<Rightarrow> gw_store \<Rightarrow> bool \<times> gw_store" where
  "CreateGatewayIdempotency_tx r s =
     (if \<exists>x\<in>set (gateway_idempotencies s). idem_key x = idem_key r \<or> i_id x = i_id r then (False, s)
      else (True, s\<lparr>gateway_idempotencies := gateway_idempotencies s @ [r]\<rparr>))"

definition CreateGatewayIdempotency ::
  "gateway_idempotency \<Rightarrow> gw_store db \<Rightarrow> (err + bool) \<times> gw_store db" where
  "CreateGatewayIdempotency r d =
     (if i_tenant_id r = [] \<or> i_principal_id r = [] \<or> i_idempotency_key r = [] \<or> i_request_fingerprint r = []
      then (Inl (Failure ''tenant, principal, idempotency key and fingerprint are required''), d)
      else db_run (\<lambda>s. let (created, s') = CreateGatewayIdempotency_tx r s in (Inr created, s')) d)"

definition GetGatewayIdempotency :: "string \<Rightarrow> string \<Rightarrow> string \<Rightarrow> gw_store db \<Rightarrow>
  (err + gateway_idempotency option) \<times> gw_store db" where
  "GetGatewayIdempotency tenantID principalID idempotencyKey =
     db_run (\<lambda>s. (Inr (row_at idem_key (tenantID, principalID, idempotencyKey) (gateway_idempotencies s)), s))"

text \<open>The two terminal writes differ in the status they set.\<close>

definition settle_idempotency_tx ::
  "idem_status \<Rightarrow> string \<Rightarrow> string \<Rightarrow> string \<Rightarrow> int \<Rightarrow> gw_store \<Rightarrow> gw_store" where
  "settle_idempotency_tx st rowID requestID responseRef now s =
     s\<lparr>gateway_idempotencies :=
       sql_update (\<lambda>x. i_id x = rowID \<and> i_request_id x = requestID \<and> i_status x = IdempotencyInProgress)
         (\<lambda>x. x\<lparr>i_status := st, i_response_ref := responseRef, i_completed_at := Some now\<rparr>)
         (gateway_idempotencies s)\<rparr>"

definition store_CompleteGatewayIdempotency ::
  "string \<Rightarrow> string \<Rightarrow> string \<Rightarrow> int \<Rightarrow> gw_store db \<Rightarrow> (err + unit) \<times> gw_store db" where
  "store_CompleteGatewayIdempotency rowID requestID responseRef now =
     db_run (\<lambda>s. (Inr (), settle_idempotency_tx IdempotencyCompleted rowID requestID responseRef now s))"

definition store_FailGatewayIdempotency ::
  "string \<Rightarrow> string \<Rightarrow> string \<Rightarrow> int \<Rightarrow> gw_store db \<Rightarrow> (err + unit) \<times> gw_store db" where
  "store_FailGatewayIdempotency rowID requestID responseRef now =
     db_run (\<lambda>s. (Inr (), settle_idempotency_tx IdempotencyFailed rowID requestID responseRef now s))"

section \<open>The service\<close>

record idem_state =
  is_record :: "gateway_idempotency option"
  is_replayed :: bool

definition gatewayFingerprint :: "(string \<Rightarrow> string) \<Rightarrow> string \<Rightarrow> string \<Rightarrow> string \<Rightarrow> string \<Rightarrow> string" where
  "gatewayFingerprint sha idempotencyKey verb target content =
     sha (idempotencyKey @ [CHR 0x00] @ verb @ [CHR 0x00] @ target @ [CHR 0x00] @ content)"

definition new_idempotency ::
  "string \<Rightarrow> api_key \<Rightarrow> string \<Rightarrow> string \<Rightarrow> string \<Rightarrow> int \<Rightarrow> gateway_idempotency" where
  "new_idempotency newID key idempotencyKey fingerprint requestID now =
     \<lparr>i_id = newID, i_tenant_id = k_tenant_id key, i_principal_id = k_user_id key,
      i_idempotency_key = idempotencyKey, i_request_fingerprint = fingerprint,
      i_status = IdempotencyInProgress, i_request_id = requestID, i_response_ref = [],
      i_created_at = now, i_expires_at = now + nanos_per_day, i_completed_at = None\<rparr>"

definition resolve_existing :: "string \<Rightarrow> int \<Rightarrow> gateway_idempotency \<Rightarrow> err + idem_state" where
  "resolve_existing fingerprint now existing =
     (if i_request_fingerprint existing \<noteq> fingerprint
      then Inl (Http 409 40980 ''idempotency key conflicts with original request'')
      else if i_expires_at existing < now
      then Inr \<lparr>is_record = Some (existing\<lparr>i_status := IdempotencyExpired\<rparr>), is_replayed = False\<rparr>
      else if i_status existing = IdempotencyInProgress
      then Inr \<lparr>is_record = Some existing, is_replayed = False\<rparr>
      else if i_status existing = IdempotencyCompleted \<or> i_status existing = IdempotencyFailed
      then Inr \<lparr>is_record = Some existing, is_replayed = True\<rparr>
      else Inr \<lparr>is_record = Some existing, is_replayed = False\<rparr>)"

definition BeginGatewayIdempotency :: "(string \<Rightarrow> string) \<Rightarrow> string \<Rightarrow> api_key option \<Rightarrow> string \<Rightarrow>
  string \<Rightarrow> string \<Rightarrow> string \<Rightarrow> string \<Rightarrow> int \<Rightarrow> svc \<Rightarrow> (err + idem_state) \<times> svc" where
  "BeginGatewayIdempotency sha newID keyp idempotencyKey verb target content requestID now v =
     (case keyp of
        None \<Rightarrow> (Inr \<lparr>is_record = None, is_replayed = False\<rparr>, v)
      | Some key \<Rightarrow>
          if idempotencyKey = [] then (Inr \<lparr>is_record = None, is_replayed = False\<rparr>, v)
          else
          let fingerprint = gatewayFingerprint sha idempotencyKey verb target content;
              row = new_idempotency newID key idempotencyKey fingerprint requestID now
          in case call (CreateGatewayIdempotency row) v of
               (Inl e, v1) \<Rightarrow> (Inl (Http 502 50240 ''gateway idempotency ledger failed''), v1)
             | (Inr True, v1) \<Rightarrow> (Inr \<lparr>is_record = Some row, is_replayed = False\<rparr>, v1)
             | (Inr False, v1) \<Rightarrow>
                 (case call (GetGatewayIdempotency (k_tenant_id key) (k_user_id key) idempotencyKey) v1 of
                    (Inr (Some existing), v2) \<Rightarrow> (resolve_existing fingerprint now existing, v2)
                  | (_, v2) \<Rightarrow> (Inl (Http 502 50240 ''gateway idempotency lookup failed''), v2)))"

definition CompleteGatewayIdempotency :: "idem_state option \<Rightarrow> string \<Rightarrow> string \<Rightarrow> int \<Rightarrow> svc \<Rightarrow> svc" where
  "CompleteGatewayIdempotency st requestID responseRef now v =
     (case st of
        None \<Rightarrow> v
      | Some state \<Rightarrow>
          (case is_record state of
             None \<Rightarrow> v
           | Some r \<Rightarrow>
               if is_replayed state then v
               else snd (call (store_CompleteGatewayIdempotency (i_id r) requestID responseRef now) v)))"

definition FailGatewayIdempotency :: "idem_state option \<Rightarrow> string \<Rightarrow> string \<Rightarrow> int \<Rightarrow> svc \<Rightarrow> svc" where
  "FailGatewayIdempotency st requestID responseRef now v =
     (case st of
        None \<Rightarrow> v
      | Some state \<Rightarrow>
          (case is_record state of
             None \<Rightarrow> v
           | Some r \<Rightarrow>
               if is_replayed state then v
               else snd (call (store_FailGatewayIdempotency (i_id r) requestID responseRef now) v)))"

section \<open>The request fingerprint\<close>

text \<open>
  C7: The fingerprint identifies the request. If the digest has no collisions, and neither the
  idempotency key nor the method nor the target contains a NUL byte, two requests have the same
  fingerprint only if key, method, target and body agree: no part of one can pass for a part of
  another.
\<close>

theorem fingerprint_identifies_request:
  assumes "inj sha"
    and "CHR 0x00 \<notin> set k" and "CHR 0x00 \<notin> set m" and "CHR 0x00 \<notin> set t"
    and "CHR 0x00 \<notin> set k'" and "CHR 0x00 \<notin> set m'" and "CHR 0x00 \<notin> set t'"
  shows "gatewayFingerprint sha k m t b = gatewayFingerprint sha k' m' t' b' \<longleftrightarrow>
    k = k' \<and> m = m' \<and> t = t' \<and> b = b'"
proof
  assume "gatewayFingerprint sha k m t b = gatewayFingerprint sha k' m' t' b'"
  then have "k @ CHR 0x00 # (m @ CHR 0x00 # (t @ CHR 0x00 # b)) =
      k' @ CHR 0x00 # (m' @ CHR 0x00 # (t' @ CHR 0x00 # b'))"
    using assms(1) by (simp add: gatewayFingerprint_def inj_eq)
  then show "k = k' \<and> m = m' \<and> t = t' \<and> b = b'"
    using sep_unique [OF assms(2,5)] sep_unique [OF assms(3,6)] sep_unique [OF assms(4,7)] by metis
qed simp

theorem fingerprint_identifies_request_witness:
  "gatewayFingerprint id ''k'' ''POST'' ''/v1'' ''x'' \<noteq> gatewayFingerprint id ''k'' ''POST'' ''/v1/x'' []"
  using fingerprint_identifies_request [of id "''k''" "''POST''" "''/v1''" "''k''" "''POST''" "''/v1/x''" "''x''" "[]"]
  by simp

section \<open>The ledger over time\<close>

text \<open>What concurrent requests do to the ledger: create a row, or settle one.\<close>

inductive idem_step :: "gw_store \<Rightarrow> gw_store \<Rightarrow> bool" where
  create: "idem_step s (snd (CreateGatewayIdempotency_tx r s))"
| settle: "st = IdempotencyCompleted \<or> st = IdempotencyFailed \<Longrightarrow>
    idem_step s (settle_idempotency_tx st rowID requestID responseRef now s)"

definition idem_invar :: "gw_store \<Rightarrow> bool" where
  "idem_invar s \<longleftrightarrow> uniq idem_key (gateway_idempotencies s) \<and> uniq i_id (gateway_idempotencies s)"

lemma idem_key_settle [simp]:
  "idem_key (x\<lparr>i_status := a, i_response_ref := b, i_completed_at := c\<rparr>) = idem_key x"
  by (simp add: idem_key_def)

lemma idem_invar_step: "idem_step s t \<Longrightarrow> idem_invar s \<Longrightarrow> idem_invar t"
  by (induction rule: idem_step.induct)
    (auto simp: idem_invar_def CreateGatewayIdempotency_tx_def settle_idempotency_tx_def uniq_update uniq_append)

lemma terminal_step:
  assumes "idem_step s t" and "row_at idem_key k (gateway_idempotencies s) = Some r"
    and "i_status r \<noteq> IdempotencyInProgress"
  shows "row_at idem_key k (gateway_idempotencies t) = Some r"
  using assms
  by (induction rule: idem_step.induct)
    (auto simp: CreateGatewayIdempotency_tx_def settle_idempotency_tx_def row_at_update row_at_append)

lemma terminal_steps:
  assumes "idem_step\<^sup>*\<^sup>* s t" and "row_at idem_key k (gateway_idempotencies s) = Some r"
    and "i_status r \<noteq> IdempotencyInProgress"
  shows "row_at idem_key k (gateway_idempotencies t) = Some r"
  using assms by (induction rule: rtranclp_induct) (auto intro: terminal_step)

lemma settle_own_row:
  assumes "idem_invar s" and "row_at idem_key k (gateway_idempotencies s) = Some r"
    and "i_status r = IdempotencyInProgress"
  shows "row_at idem_key k (gateway_idempotencies (settle_idempotency_tx st (i_id r) (i_request_id r) ref now s)) =
    Some (r\<lparr>i_status := st, i_response_ref := ref, i_completed_at := Some now\<rparr>)"
  using assms by (simp add: settle_idempotency_tx_def row_at_update)

lemma begin_existing:
  assumes "healthy v" and "k_tenant_id key \<noteq> []" and "k_user_id key \<noteq> []" and "ik \<noteq> []"
    and "gatewayFingerprint sha ik verb target content \<noteq> []"
    and "row_at idem_key (k_tenant_id key, k_user_id key, ik) (gateway_idempotencies (store_of v)) = Some r"
  shows "BeginGatewayIdempotency sha newID (Some key) ik verb target content rid now v =
    (resolve_existing (gatewayFingerprint sha ik verb target content) now r, v)"
proof -
  obtain s where s: "svc_db v = (s, [])" using assms(1) by (cases "svc_db v") (auto simp: healthy_def)
  let ?row = "new_idempotency newID key ik (gatewayFingerprint sha ik verb target content) rid now"
  have key: "idem_key ?row = (k_tenant_id key, k_user_id key, ik)"
    by (simp add: idem_key_def new_idempotency_def)
  have "\<exists>x\<in>set (gateway_idempotencies s). idem_key x = idem_key ?row \<or> i_id x = i_id ?row"
    using row_at_SomeD [OF assms(6)] s key by auto
  then have "call (CreateGatewayIdempotency ?row) v = (Inr False, v)"
    using assms(2-5) s by (simp add: call_def CreateGatewayIdempotency_def CreateGatewayIdempotency_tx_def
        new_idempotency_def)
  moreover have "call (GetGatewayIdempotency (k_tenant_id key) (k_user_id key) ik) v = (Inr (Some r), v)"
    using assms(6) s by (simp add: call_def GetGatewayIdempotency_def)
  ultimately show ?thesis using assms(4) by (simp add: BeginGatewayIdempotency_def Let_def)
qed

text \<open>
  C6: A completed execution is replayed, not repeated. Let a request own the in-progress row of
  its idempotency key and complete it with a response. Whatever other requests then create and
  settle, a retry of the same principal with the same key and content before the row expires is
  answered from the row: it is marked replayed, carries the stored response, and writes nothing.
\<close>

theorem completed_execution_is_replayed:
  assumes "idem_invar s" and "row_at idem_key (k_tenant_id key, k_user_id key, ik) (gateway_idempotencies s) = Some r"
    and "i_status r = IdempotencyInProgress"
    and "i_request_fingerprint r = gatewayFingerprint sha ik verb target content"
    and "idem_step\<^sup>*\<^sup>* (settle_idempotency_tx IdempotencyCompleted (i_id r) (i_request_id r) ref done_at s) (store_of v)"
    and "healthy v" and "now \<le> i_expires_at r"
    and "k_tenant_id key \<noteq> []" and "k_user_id key \<noteq> []" and "ik \<noteq> []" and "i_request_fingerprint r \<noteq> []"
  shows "BeginGatewayIdempotency sha newID (Some key) ik verb target content rid now v =
    (Inr \<lparr>is_record = Some (r\<lparr>i_status := IdempotencyCompleted, i_response_ref := ref,
        i_completed_at := Some done_at\<rparr>), is_replayed = True\<rparr>, v)"
proof -
  let ?r = "r\<lparr>i_status := IdempotencyCompleted, i_response_ref := ref, i_completed_at := Some done_at\<rparr>"
  have "row_at idem_key (k_tenant_id key, k_user_id key, ik) (gateway_idempotencies (store_of v)) = Some ?r"
    by (rule terminal_steps [OF assms(5) settle_own_row [OF assms(1-3)]]) simp
  from begin_existing [OF assms(6,8-10) _ this] show ?thesis
    using assms(4,7,11) by (simp add: resolve_existing_def)
qed

text \<open>
  A reused key with other content is refused. On a healthy database, if the principal's
  idempotency key is taken by a row with another fingerprint, the request is answered 409
  whatever the status of the row, and nothing is written.
\<close>

theorem conflicting_reuse_is_refused:
  assumes "healthy v" and "k_tenant_id key \<noteq> []" and "k_user_id key \<noteq> []" and "ik \<noteq> []"
    and "gatewayFingerprint sha ik verb target content \<noteq> []"
    and "row_at idem_key (k_tenant_id key, k_user_id key, ik) (gateway_idempotencies (store_of v)) = Some r"
    and "i_request_fingerprint r \<noteq> gatewayFingerprint sha ik verb target content"
  shows "BeginGatewayIdempotency sha newID (Some key) ik verb target content rid now v =
    (Inl (Http 409 40980 ''idempotency key conflicts with original request''), v)"
  using begin_existing [OF assms(1-6)] assms(7) by (simp add: resolve_existing_def)


section \<open>A sample ledger\<close>

definition idem_sample_key :: api_key where
  "idem_sample_key = \<lparr>k_id = ''k1'', k_tenant_id = ''t1'', k_user_id = ''u1'', k_name = ''demo'',
     k_key_hash = ''h'', k_prefix = ''rk'', k_token_quota = 0, k_request_quota = 0,
     k_scopes_json = [], k_allowed_ips_json = [], k_expired_at = None, k_enabled = True,
     k_last_used_at = None\<rparr>"

definition idem_sample_row :: gateway_idempotency where
  "idem_sample_row = new_idempotency ''row1'' idem_sample_key ''retry-1''
     (gatewayFingerprint id ''retry-1'' ''POST'' ''/v1'' ''body'') ''req-1'' 0"

definition idem_sample_svc :: "gw_store \<Rightarrow> svc" where
  "idem_sample_svc s = \<lparr>svc_db = (s, []), quotaLastReap = Map.empty, svc_events = []\<rparr>"

definition idem_sample_store :: gw_store where
  "idem_sample_store = empty_store\<lparr>gateway_idempotencies := [idem_sample_row]\<rparr>"

theorem completed_execution_is_replayed_witness:
  "fst (BeginGatewayIdempotency id ''row2'' (Some idem_sample_key) ''retry-1'' ''POST'' ''/v1'' ''body'' ''req-2'' 9
     (idem_sample_svc (settle_idempotency_tx IdempotencyCompleted ''row1'' ''req-1'' ''answer'' 5 idem_sample_store))) =
   Inr \<lparr>is_record = Some (idem_sample_row\<lparr>i_status := IdempotencyCompleted, i_response_ref := ''answer'',
     i_completed_at := Some 5\<rparr>), is_replayed = True\<rparr>"
proof -
  let ?v = "idem_sample_svc (settle_idempotency_tx IdempotencyCompleted ''row1'' ''req-1'' ''answer'' 5 idem_sample_store)"
  have h: "idem_invar idem_sample_store"
    "row_at idem_key (k_tenant_id idem_sample_key, k_user_id idem_sample_key, ''retry-1'')
       (gateway_idempotencies idem_sample_store) = Some idem_sample_row"
    "i_status idem_sample_row = IdempotencyInProgress"
    "i_request_fingerprint idem_sample_row = gatewayFingerprint id ''retry-1'' ''POST'' ''/v1'' ''body''"
    by code_simp+
  have st: "idem_step\<^sup>*\<^sup>* (settle_idempotency_tx IdempotencyCompleted (i_id idem_sample_row)
      (i_request_id idem_sample_row) ''answer'' 5 idem_sample_store) (store_of ?v)"
    by (simp add: idem_sample_svc_def idem_sample_row_def new_idempotency_def)
  have ok: "healthy ?v" by (simp add: healthy_def idem_sample_svc_def)
  have c: "9 \<le> i_expires_at idem_sample_row" "k_tenant_id idem_sample_key \<noteq> []"
    "k_user_id idem_sample_key \<noteq> []" "''retry-1'' \<noteq> []" "i_request_fingerprint idem_sample_row \<noteq> []" by code_simp+
  show ?thesis using completed_execution_is_replayed [OF h st ok c] by simp
qed

theorem conflicting_reuse_is_refused_witness:
  "fst (BeginGatewayIdempotency id ''row2'' (Some idem_sample_key) ''retry-1'' ''POST'' ''/v1'' ''other'' ''req-2'' 9
     (idem_sample_svc idem_sample_store)) =
   Inl (Http 409 40980 ''idempotency key conflicts with original request'')"
proof -
  have "healthy (idem_sample_svc idem_sample_store)" "k_tenant_id idem_sample_key \<noteq> []"
    "k_user_id idem_sample_key \<noteq> []" "''retry-1'' \<noteq> []"
    "gatewayFingerprint id ''retry-1'' ''POST'' ''/v1'' ''other'' \<noteq> []"
    "row_at idem_key (k_tenant_id idem_sample_key, k_user_id idem_sample_key, ''retry-1'')
       (gateway_idempotencies (store_of (idem_sample_svc idem_sample_store))) = Some idem_sample_row"
    "i_request_fingerprint idem_sample_row \<noteq> gatewayFingerprint id ''retry-1'' ''POST'' ''/v1'' ''other''"
    by code_simp+
  from conflicting_reuse_is_refused [OF this] show ?thesis by (simp only: fst_conv)
qed


end
