(* ===== verification/Quota_Interleaving.thy ===== *)
theory Quota_Interleaving
  imports Quota_Ledger
begin

text \<open>
  Concurrent requests of a key are an interleaving of ledger transactions. \<open>quota_step\<close> has one
  rule per transaction, guarded by what the service guarantees when it issues it
  (\<^verbatim>\<open>service/gateway_quota.go\<close>): a budget row starts with zero balances, a reservation starts
  pending and not applied with a positive estimate, and a reservation is reserved once, with its
  own estimate. The estimates that a sweep adds up fit an int64. \<open>flag\<close> tells for which accounts requests are counted, \<open>cap\<close> whether a metered
  request is known to cost at most its estimate.
\<close>

definition stale_total :: "string \<Rightarrow> string \<Rightarrow> int \<Rightarrow> gw_store \<Rightarrow> int" where
  "stale_total k p before s = sum_list (map r_estimated (filter r_applied (stale_reservations k p before s)))"

inductive quota_step :: "(account \<Rightarrow> bool) \<Rightarrow> bool \<Rightarrow> gw_store \<Rightarrow> gw_store \<Rightarrow> bool"
  for flag :: "account \<Rightarrow> bool" and cap :: bool where
  upsert: "tokens_used q = 0 \<Longrightarrow> pending q = 0 \<Longrightarrow> requests_used q = 0 \<Longrightarrow> pending_requests q = 0 \<Longrightarrow>
    (0 < request_limit q \<longrightarrow> flag (limit_key q)) \<Longrightarrow> quota_step flag cap s (UpsertQuotaLimit_tx q s)"
| add: "r_status row = QuotaReservationPending \<Longrightarrow> \<not> r_applied row \<Longrightarrow> 0 < r_estimated row \<Longrightarrow>
    quota_step flag cap s (snd (AddQuotaReservation_tx row s))"
| reserve: "row_at r_request_id r (quota_reservations s) = Some row \<Longrightarrow>
    r_status row = QuotaReservationPending \<Longrightarrow> \<not> r_applied row \<Longrightarrow> 0 < r_estimated row \<Longrightarrow>
    row_at limit_key (r_key_id row, r_period_start row) (quota_limits s) = Some q \<Longrightarrow>
    quota_step flag cap s (snd (ReserveQuotaTokens_tx (r_key_id row) (r_period_start row) r
      (r_estimated row) (flag (r_key_id row, r_period_start row)) s))"
| finalize: "(cap \<longrightarrow> (\<forall>row. row_at r_request_id r (quota_reservations s) = Some row \<longrightarrow> n \<le> r_estimated row)) \<Longrightarrow>
    quota_step flag cap s (FinalizeQuotaReservation_tx r n s)"
| release: "quota_step flag cap s (ReleaseQuotaReservation_tx r s)"
| reap: "int64 (stale_total k p before s) \<Longrightarrow>
    quota_step flag cap s (snd (ReapStaleQuotaReservations_tx k p before s))"

inductive quota_reach :: "(account \<Rightarrow> bool) \<Rightarrow> bool \<Rightarrow> gw_store \<Rightarrow> bool"
  for flag :: "account \<Rightarrow> bool" and cap :: bool where
  start: "quota_limits s = [] \<Longrightarrow> quota_reservations s = [] \<Longrightarrow> quota_reach flag cap s"
| step: "quota_reach flag cap s \<Longrightarrow> quota_step flag cap s t \<Longrightarrow> quota_reach flag cap t"

definition quota_ok :: "(account \<Rightarrow> bool) \<Rightarrow> gw_store \<Rightarrow> bool" where
  "quota_ok flag s \<longleftrightarrow> quota_invar s \<and> balanced flag (quota_bal s) (quota_resv s) \<and>
     (\<forall>r e. quota_resv s r = Some e \<longrightarrow> is_open e \<longrightarrow> quota_bal s (e_acct e) \<noteq> None)"

definition quota_capped :: "(account \<Rightarrow> bool) \<Rightarrow> gw_store \<Rightarrow> bool" where
  "quota_capped flag s \<longleftrightarrow>
     (\<forall>a b. quota_bal s a = Some b \<longrightarrow> in_budget b \<and> (0 < request_limit b \<longrightarrow> flag a))"

section \<open>What each transaction does to the observations\<close>

lemma upsert_obs:
  "quota_bal (UpsertQuotaLimit_tx q s) = (if quota_bal s (limit_key q) = None
     then (quota_bal s)(limit_key q \<mapsto> balance.truncate q) else quota_bal s)"
  "quota_resv (UpsertQuotaLimit_tx q s) = quota_resv s"
  by (auto simp: fun_eq_iff quota_bal_def quota_resv_def UpsertQuotaLimit_tx_def table_simps)

lemma add_obs:
  "quota_bal (snd (AddQuotaReservation_tx row s)) = quota_bal s"
  "quota_resv (snd (AddQuotaReservation_tx row s)) = (if quota_resv s (r_request_id row) = None
     then (quota_resv s)(r_request_id row \<mapsto> quota_entry row) else quota_resv s)"
  by (auto simp: fun_eq_iff quota_bal_def quota_resv_def AddQuotaReservation_tx_def
      insert_ignore_eq row_at_append split: option.splits)

lemma stale_ids:
  assumes "uniq r_request_id (quota_reservations s)"
  shows "r \<in> r_request_id ` set (stale_reservations k p t s) \<longleftrightarrow>
    (\<exists>row. row_at r_request_id r (quota_reservations s) = Some row \<and> r_key_id row = k \<and>
      r_period_start row = p \<and> r_status row = QuotaReservationPending \<and> r_created_at row < t)"
  using row_at_in [OF assms] by (auto simp: stale_reservations_def dest: row_at_SomeD)

lemma reap_resv:
  "quota_resv (snd (ReapStaleQuotaReservations_tx k p t s)) =
     (\<lambda>r. if r \<in> r_request_id ` set (stale_reservations k p t s)
       then map_option (\<lambda>e. e\<lparr>e_status := QuotaReservationReleased\<rparr>) (quota_resv s r)
       else quota_resv s r)"
proof (rule ext)
  fix r
  let ?ids = "set (map r_request_id (stale_reservations k p t s))"
  have "row_at r_request_id r (sql_update (\<lambda>x. r_request_id x \<in> ?ids)
          (r_status_update (\<lambda>_. QuotaReservationReleased)) (quota_reservations s)) =
        map_option (\<lambda>x. if r \<in> ?ids then r_status_update (\<lambda>_. QuotaReservationReleased) x else x)
          (row_at r_request_id r (quota_reservations s))"
    by (auto simp: row_at_update intro!: option.map_cong dest: row_at_SomeD)
  then show "quota_resv (snd (ReapStaleQuotaReservations_tx k p t s)) r =
      (if r \<in> r_request_id ` set (stale_reservations k p t s)
       then map_option (\<lambda>e. e\<lparr>e_status := QuotaReservationReleased\<rparr>) (quota_resv s r)
       else quota_resv s r)"
    by (auto simp: ReapStaleQuotaReservations_tx_def Let_def quota_resv_def option.map_comp
        quota_entry_def o_def intro!: option.map_cong)
qed

lemma sum_list_by_id:
  assumes "uniq r_request_id rows" and "set xs \<subseteq> set rows" and "distinct xs"
  shows "sum_list (map r_estimated xs) =
    (\<Sum>r\<in>r_request_id ` set xs. r_estimated (the (row_at r_request_id r rows)))"
    and "card (r_request_id ` set xs) = length xs"
proof -
  have inj: "inj_on r_request_id (set xs)"
    using assms(1,2) by (auto simp: uniq_def distinct_map intro: inj_on_subset)
  have "row_at r_request_id (r_request_id x) rows = Some x" if "x \<in> set xs" for x
    using row_at_in [OF assms(1)] assms(2) that by blast
  then show "sum_list (map r_estimated xs) =
      (\<Sum>r\<in>r_request_id ` set xs. r_estimated (the (row_at r_request_id r rows)))"
    using assms(3) by (simp add: sum_list_distinct_conv_sum_set sum.reindex [OF inj])
  show "card (r_request_id ` set xs) = length xs"
    using assms(3) inj by (simp add: card_image distinct_card)
qed

lemma reap_none: "stale_reservations k p t s = [] \<Longrightarrow> snd (ReapStaleQuotaReservations_tx k p t s) = s"
  by (simp add: ReapStaleQuotaReservations_tx_def)

lemma reap_bal:
  fixes k p :: string and t :: int
  assumes "quota_invar s" and ne: "stale_reservations k p t s \<noteq> []" and fits: "int64 (stale_total k p t s)"
  defines "S \<equiv> r_request_id ` set (stale_reservations k p t s)"
  defines "R \<equiv> S \<inter> open_ids (quota_resv s) (k, p)"
  shows "quota_bal (snd (ReapStaleQuotaReservations_tx k p t s)) = (quota_bal s)((k, p) :=
    map_option (free_balance (\<Sum>r\<in>R. e_est (the (quota_resv s r))) (int (card R))) (quota_bal s (k, p)))"
    (is "?lhs = ?rhs")
proof -
  let ?stale = "stale_reservations k p t s"
  let ?app = "filter r_applied ?stale"
  have u: "uniq r_request_id (quota_reservations s)" using assms(1) by (simp add: quota_invar_def)
  have R: "R = r_request_id ` set ?app"
    using row_at_in [OF u]
    by (auto simp: R_def S_def open_ids_def quota_resv_def is_open_def stale_reservations_def image_iff
        dest: row_at_SomeD)
  have d: "distinct ?app" using u
    by (auto simp: uniq_def stale_reservations_def distinct_map)
  have sub: "set ?app \<subseteq> set (quota_reservations s)" by (auto simp: stale_reservations_def)
  have est: "e_est (the (quota_resv s r)) = r_estimated (the (row_at r_request_id r (quota_reservations s)))"
    if "r \<in> R" for r using that by (auto simp: R_def open_ids_def quota_resv_def)
  have sums: "sum_list (map r_estimated ?app) = (\<Sum>r\<in>R. e_est (the (quota_resv s r)))"
    "int (length ?app) = int (card R)"
    using sum_list_by_id [OF u sub d] est by (simp_all add: R cong: sum.cong)
  show ?thesis using ne fits
    by (intro quota_bal_update) (auto simp: ReapStaleQuotaReservations_tx_def Let_def stale_total_def sums)
qed

section \<open>The invariants\<close>

lemma quota_ok_upsert:
  assumes ok: "quota_ok flag s" and "tokens_used q = 0" "pending q = 0" "requests_used q = 0"
    "pending_requests q = 0"
  shows "quota_ok flag (UpsertQuotaLimit_tx q s)"
proof -
  have "open_ids (quota_resv s) (limit_key q) = {}" if "quota_bal s (limit_key q) = None"
    using ok that unfolding quota_ok_def open_ids_def by fastforce
  then have "balanced flag (quota_bal (UpsertQuotaLimit_tx q s)) (quota_resv s)"
    using ok assms(3,5) by (auto simp: quota_ok_def balanced_def upsert_obs open_sum_def balance.defs)
  then show ?thesis using ok by (auto simp: quota_ok_def upsert_obs quota_invar_txs)
qed

lemma quota_ok_add:
  assumes ok: "quota_ok flag s" and "\<not> r_applied row" "0 < r_estimated row"
  shows "quota_ok flag (snd (AddQuotaReservation_tx row s))"
proof -
  have "closed_at (quota_resv s) (r_request_id row)" if "quota_resv s (r_request_id row) = None"
    using that by (simp add: closed_at_def)
  then show ?thesis using ok assms(2,3)
    by (auto simp: quota_ok_def add_obs quota_invar_txs is_open_def intro!: balanced_shut)
qed

lemma quota_ok_reserve:
  assumes ok: "quota_ok flag s" and row: "row_at r_request_id r (quota_reservations s) = Some row"
    "r_status row = QuotaReservationPending" "\<not> r_applied row" "0 < r_estimated row"
    and q: "row_at limit_key (r_key_id row, r_period_start row) (quota_limits s) = Some q"
  shows "quota_ok flag (snd (ReserveQuotaTokens_tx (r_key_id row) (r_period_start row) r
      (r_estimated row) (flag (r_key_id row, r_period_start row)) s))" (is "quota_ok flag ?t")
proof -
  have e: "quota_resv s r = Some (quota_entry row)" using row(1) by (simp add: quota_resv_def)
  have b: "quota_bal s (e_acct (quota_entry row)) = Some (balance.truncate q)"
    using q by (simp add: quota_bal_def)
  have inv: "quota_invar s" and bl: "balanced flag (quota_bal s) (quota_resv s)"
    using ok by (auto simp: quota_ok_def)
  have "balanced flag (quota_bal ?t) (quota_resv ?t)"
    using key_ledger.balanced_reserve [OF inv bl e _ _ b] row by simp
  moreover have "quota_bal ?t (e_acct x) \<noteq> None" if "quota_resv ?t y = Some x" "is_open x" for x y
  proof -
    have "quota_bal ?t a \<noteq> None \<longleftrightarrow> quota_bal s a \<noteq> None" for a
      by (auto simp: quota_bal_def ReserveQuotaTokens_tx_def Let_def row_at_update)
    moreover have "\<exists>x'. quota_resv s y = Some x' \<and> e_acct x' = e_acct x \<and> (y \<noteq> r \<longrightarrow> x' = x)"
      using that(1)
      by (auto simp: quota_resv_def ReserveQuotaTokens_tx_def Let_def row_at_update quota_entry_def
          split: if_splits dest: row_at_SomeD)
    ultimately show ?thesis using ok b that e by (cases "y = r") (auto simp: quota_ok_def)
  qed
  ultimately show ?thesis using inv by (auto simp: quota_ok_def quota_invar_txs)
qed

lemma quota_ok_finalize: "quota_ok flag s \<Longrightarrow> quota_ok flag (FinalizeQuotaReservation_tx r n s)"
proof -
  assume ok: "quota_ok flag s"
  have "quota_bal (FinalizeQuotaReservation_tx r n s) a \<noteq> None \<longleftrightarrow> quota_bal s a \<noteq> None" for a
    by (auto simp: quota_bal_def FinalizeQuotaReservation_tx_def row_at_update split: option.splits)
  moreover have "\<exists>x'. quota_resv s y = Some x' \<and> (is_open x \<longrightarrow> is_open x') \<and> e_acct x' = e_acct x"
    if "quota_resv (FinalizeQuotaReservation_tx r n s) y = Some x" for y x
    using that
    by (auto simp: quota_resv_def FinalizeQuotaReservation_tx_def row_at_update quota_entry_def
        is_open_def split: option.splits if_splits)
  ultimately show ?thesis using ok key_ledger.balanced_finalize [of s flag r n]
    unfolding quota_ok_def by (metis quota_invar_txs(4))
qed

lemma quota_ok_release: "quota_ok flag s \<Longrightarrow> quota_ok flag (ReleaseQuotaReservation_tx r s)"
proof -
  assume ok: "quota_ok flag s"
  have "quota_bal (ReleaseQuotaReservation_tx r s) a \<noteq> None \<longleftrightarrow> quota_bal s a \<noteq> None" for a
    by (auto simp: quota_bal_def ReleaseQuotaReservation_tx_def row_at_update split: option.splits)
  moreover have "\<exists>x'. quota_resv s y = Some x' \<and> (is_open x \<longrightarrow> is_open x') \<and> e_acct x' = e_acct x"
    if "quota_resv (ReleaseQuotaReservation_tx r s) y = Some x" for y x
    using that
    by (auto simp: quota_resv_def ReleaseQuotaReservation_tx_def row_at_update quota_entry_def
        is_open_def split: option.splits if_splits)
  ultimately show ?thesis using ok key_ledger.balanced_release [of s flag r]
    unfolding quota_ok_def by (metis quota_invar_txs(5))
qed

lemma quota_ok_reap:
  assumes ok: "quota_ok flag s" and fits: "int64 (stale_total k p t s)"
  shows "quota_ok flag (snd (ReapStaleQuotaReservations_tx k p t s))" (is "quota_ok flag ?t")
proof (cases "stale_reservations k p t s = []")
  case False
  let ?S = "r_request_id ` set (stale_reservations k p t s)"
  have inv: "quota_invar s" and bl: "balanced flag (quota_bal s) (quota_resv s)"
    and u: "uniq r_request_id (quota_reservations s)"
    using ok by (auto simp: quota_ok_def quota_invar_def)
  have S: "r \<in> ?S \<Longrightarrow> \<exists>e. quota_resv s r = Some e \<and> e_acct e = (k, p)" for r
    unfolding stale_ids [OF u] by (auto simp: quota_resv_def)
  have "balanced flag (quota_bal ?t) (quota_resv ?t)"
    unfolding reap_bal [OF inv False fits] reap_resv
    by (rule balanced_release_set [OF bl finite_quota_resv S refl refl refl])
  moreover have "quota_bal ?t (e_acct x) \<noteq> None" if "quota_resv ?t y = Some x" "is_open x" for x y
    using that ok unfolding reap_bal [OF inv False fits] reap_resv
    by (fastforce simp: quota_ok_def is_open_def split: if_splits)
  ultimately show ?thesis using inv by (auto simp: quota_ok_def quota_invar_txs)
qed (simp add: reap_none ok)

lemma quota_ok_step: "quota_step flag cap s t \<Longrightarrow> quota_ok flag s \<Longrightarrow> quota_ok flag t"
  by (induction rule: quota_step.induct)
    (auto intro: quota_ok_upsert quota_ok_add quota_ok_reserve quota_ok_finalize quota_ok_release
      quota_ok_reap)

lemma quota_ok_reach: "quota_reach flag cap s \<Longrightarrow> quota_ok flag s"
proof (induction rule: quota_reach.induct)
  case (start s)
  then show ?case
    by (simp add: quota_ok_def quota_invar_def balanced_def quota_bal_def quota_resv_def)
next
  case (step s t)
  then show ?case by (blast intro: quota_ok_step)
qed

lemma quota_capped_step:
  assumes "quota_step flag True s t" and ok: "quota_ok flag s" and w: "quota_capped flag s"
  shows "quota_capped flag t"
  using assms(1)
proof cases
  case (upsert q)
  then show ?thesis using w
    by (auto simp: quota_capped_def upsert_obs in_budget_def balance.defs split: if_splits)
next
  case (add row)
  then show ?thesis using w by (simp add: quota_capped_def add_obs)
next
  case (reserve r row q)
  have b: "quota_bal s (r_key_id row, r_period_start row) = Some (balance.truncate q)"
    using reserve by (simp add: quota_bal_def)
  have inv: "quota_invar s" using ok by (simp add: quota_ok_def)
  show ?thesis
    using key_ledger.in_budget_reserve_step [OF inv _ b \<open>0 < r_estimated row\<close>, of flag] w reserve(1)
    unfolding quota_capped_def fst_conv snd_conv by blast
next
  case (finalize r n)
  have inv: "quota_invar s" and bl: "balanced flag (quota_bal s) (quota_resv s)"
    using ok by (auto simp: quota_ok_def)
  have n: "\<And>e. quota_resv s r = Some e \<Longrightarrow> n \<le> e_est e"
    using finalize(2) by (auto simp: quota_resv_def)
  show ?thesis using key_ledger.in_budget_finalize [OF inv bl _ n] w finalize(1)
    unfolding quota_capped_def by blast
next
  case (release r)
  have inv: "quota_invar s" and bl: "balanced flag (quota_bal s) (quota_resv s)"
    using ok by (auto simp: quota_ok_def)
  show ?thesis using key_ledger.in_budget_release [OF inv bl] w release unfolding quota_capped_def by blast
next
  case (reap k p before)
  note fits = reap(2)
  have inv: "quota_invar s" and bl: "balanced flag (quota_bal s) (quota_resv s)"
    using ok by (auto simp: quota_ok_def)
  show ?thesis
  proof (cases "stale_reservations k p before s = []")
    case False
    have "0 \<le> (\<Sum>r\<in>R \<inter> open_ids (quota_resv s) (k, p). e_est (the (quota_resv s r)))" for R
      by (rule sum_nonneg) (auto simp: open_ids_def dest: balancedD(1) [OF bl])
    moreover have "quota_bal s a = Some b \<Longrightarrow> 0 \<le> pending b \<and> 0 \<le> pending_requests b" for a b
      using balancedD(2,3) [OF bl] open_sum_nonneg [OF bl] by auto
    ultimately show ?thesis using w reap unfolding quota_capped_def
      by (auto simp: reap_bal [OF inv False fits] split: if_splits intro!: in_budget_free)
        (auto simp: free_balance_def)
  qed (simp add: reap reap_none w)
qed

lemma quota_capped_reach: "quota_reach flag True s \<Longrightarrow> quota_capped flag s"
proof (induction rule: quota_reach.induct)
  case (start s)
  then show ?case by (simp add: quota_capped_def quota_bal_def)
next
  case (step s t)
  then show ?case by (blast intro: quota_capped_step quota_ok_reach)
qed

section \<open>The ledger's guarantees\<close>

text \<open>The tokens and requests that the open reservations of an account hold.\<close>

definition open_rows :: "gw_store \<Rightarrow> account \<Rightarrow> quota_reservation list" where
  "open_rows s a = filter (\<lambda>r. r_status r = QuotaReservationPending \<and> r_applied r \<and>
     (r_key_id r, r_period_start r) = a) (quota_reservations s)"

lemma open_ids_rows:
  assumes "uniq r_request_id (quota_reservations s)"
  shows "open_ids (quota_resv s) a = r_request_id ` set (open_rows s a)"
  using row_at_in [OF assms]
  by (fastforce simp: open_ids_def open_rows_def quota_resv_def is_open_def dest: row_at_SomeD)

lemma open_sum_rows:
  assumes "uniq r_request_id (quota_reservations s)"
  shows "open_sum (quota_resv s) a = sum_list (map r_estimated (open_rows s a))"
    and "card (open_ids (quota_resv s) a) = length (open_rows s a)"
proof -
  have d: "distinct (open_rows s a)" "set (open_rows s a) \<subseteq> set (quota_reservations s)"
    using assms by (auto simp: open_rows_def uniq_def distinct_map)
  note sums = sum_list_by_id [OF assms d(2,1)]
  show "card (open_ids (quota_resv s) a) = length (open_rows s a)"
    using sums(2) by (simp add: open_ids_rows [OF assms])
  have "e_est (the (quota_resv s r)) = r_estimated (the (row_at r_request_id r (quota_reservations s)))"
    if "r \<in> r_request_id ` set (open_rows s a)" for r
    using that row_at_in [OF assms] d(2) by (force simp: quota_resv_def)
  then show "open_sum (quota_resv s) a = sum_list (map r_estimated (open_rows s a))"
    unfolding open_sum_def open_ids_rows [OF assms] sums(1) by (rule sum.cong [OF refl])
qed



text \<open>
  A reservation of the key ledger is settled once. After a finalization or a release, every
  later finalization or release of the same request id, with any metered tokens, leaves the
  store as it is; the same holds after a release of a reservation that was never applied.
\<close>

theorem key_settlement_happens_once:
  assumes "quota_invar s"
  shows "FinalizeQuotaReservation_tx r m (FinalizeQuotaReservation_tx r n s) = FinalizeQuotaReservation_tx r n s \<and>
    FinalizeQuotaReservation_tx r m (ReleaseQuotaReservation_tx r s) = ReleaseQuotaReservation_tx r s \<and>
    ReleaseQuotaReservation_tx r (ReleaseQuotaReservation_tx r s) = ReleaseQuotaReservation_tx r s \<and>
    (FinalizeQuotaReservation_tx r n s \<noteq> s \<longrightarrow>
       ReleaseQuotaReservation_tx r (FinalizeQuotaReservation_tx r n s) = FinalizeQuotaReservation_tx r n s)"
proof -
  have "FinalizeQuotaReservation_tx r n s \<noteq> s \<Longrightarrow> \<exists>e. quota_resv s r = Some e \<and> is_open e"
    using key_ledger.finalize_closed [of s r n] by (auto simp: closed_at_def)
  then show ?thesis using key_ledger.finalize_finalize [OF assms] key_ledger.finalize_release [OF assms]
      key_ledger.release_release [OF assms] key_ledger.release_finalize [OF assms] by metis
qed

section \<open>A sample run\<close>

definition run_limit :: quota_limit where
  "run_limit = \<lparr>token_limit = 100, tokens_used = 0, pending = 0, request_limit = 5, requests_used = 0,
     pending_requests = 0, ql_tenant_id = ''t'', ql_key_id = ''k'', ql_period_start = ''2026-02''\<rparr>"

definition run_row :: "string \<Rightarrow> int \<Rightarrow> quota_reservation" where
  "run_row rid est = \<lparr>r_request_id = rid, r_tenant_id = ''t'', r_key_id = ''k'', r_period_start = ''2026-02'',
     r_estimated = est, r_actual_tokens = 0, r_status = QuotaReservationPending, r_applied = False,
     r_created_at = 0\<rparr>"

definition run1 :: gw_store where
  "run1 = snd (AddQuotaReservation_tx (run_row ''b'' 40) (snd (AddQuotaReservation_tx (run_row ''a'' 30)
     (UpsertQuotaLimit_tx run_limit empty_store))))"

definition run2 :: gw_store where
  "run2 = snd (ReserveQuotaTokens_tx ''k'' ''2026-02'' ''b'' 40 True
     (snd (ReserveQuotaTokens_tx ''k'' ''2026-02'' ''a'' 30 True run1)))"

definition run3 :: gw_store where
  "run3 = FinalizeQuotaReservation_tx ''a'' 25 run2"

lemma run_reach: "quota_reach (\<lambda>_. True) True run3"
proof -
  let ?R = "quota_reach (\<lambda>_. True) True"
  have 0: "?R empty_store" by (rule quota_reach.start) (simp_all add: empty_store_def)
  have 1: "?R run1" unfolding run1_def
    by (intro quota_reach.step [OF _ quota_step.add] quota_reach.step [OF 0 quota_step.upsert])
      (simp_all add: run_row_def run_limit_def)
  have r: "row_at r_request_id ''a'' (quota_reservations run1) = Some (run_row ''a'' 30)"
    "row_at limit_key (''k'', ''2026-02'') (quota_limits run1) = Some run_limit"
    by code_simp+
  have "?R (snd (ReserveQuotaTokens_tx ''k'' ''2026-02'' ''a'' 30 True run1))"
    using quota_reach.step [OF 1 quota_step.reserve [OF r(1)]] r(2) by (simp add: run_row_def)
  moreover have "row_at r_request_id ''b'' (quota_reservations
      (snd (ReserveQuotaTokens_tx ''k'' ''2026-02'' ''a'' 30 True run1))) = Some (run_row ''b'' 40)"
    "row_at limit_key (''k'', ''2026-02'') (quota_limits
      (snd (ReserveQuotaTokens_tx ''k'' ''2026-02'' ''a'' 30 True run1))) \<noteq> None"
    by code_simp+
  ultimately have 2: "?R run2" unfolding run2_def
    using quota_reach.step [OF _ quota_step.reserve [where flag = "\<lambda>_. True" and cap = True]]
    by (fastforce simp: run_row_def)
  have "row_at r_request_id ''a'' (quota_reservations run2) = Some ((run_row ''a'' 30)\<lparr>r_applied := True\<rparr>)"
    by code_simp
  then show ?thesis unfolding run3_def
    by (intro quota_reach.step [OF 2 quota_step.finalize]) (simp add: run_row_def)
qed



theorem key_settlement_happens_once_witness:
  "quota_invar run2 \<and> run3 \<noteq> run2 \<and> ReleaseQuotaReservation_tx ''a'' run3 = run3"
proof -
  have "quota_invar run2" "run3 \<noteq> run2" by code_simp+
  then show ?thesis using key_settlement_happens_once [of run2 "''a''" 25 25] by (simp add: run3_def)
qed

end
