(* ===== verification/Gateway_Quota_Props.thy ===== *)
theory Gateway_Quota_Props
  imports Service_Calls Quota_Interleaving
begin

text \<open>
  What the quota gates guarantee: an admitted fresh request holds its estimate within the budget
  whatever the database does, a ledger failure rejects the request, a rejection leaves no pending
  reservation, every reservation is settled at most once. The last section holds the requests
  that slip past the gates.
\<close>

section \<open>A sample request\<close>

text \<open>
  A key limited to 1000 tokens and 2 requests a month, a request body of 100 bytes that asks for
  at most 60 completion tokens, and a service on an empty, healthy database.
\<close>

definition demo_key :: api_key where
  "demo_key = \<lparr>k_id = ''k1'', k_tenant_id = ''t1'', k_user_id = ''u1'', k_name = ''demo'',
     k_key_hash = ''h'', k_prefix = ''rk'', k_token_quota = 1000, k_request_quota = 2,
     k_scopes_json = [], k_allowed_ips_json = [], k_expired_at = None, k_enabled = True,
     k_last_used_at = None\<rparr>"

definition demo_body :: body where
  "demo_body = \<lparr>body_len = 100, body_json = Some (JObj [(''max_tokens'', JInt 60)])\<rparr>"

definition demo_now :: int where
  "demo_now = 1769904000 * 1000000000"

definition demo_svc :: svc where
  "demo_svc = \<lparr>svc_db = (empty_store, []), quotaLastReap = Map.empty, svc_events = []\<rparr>"

lemma gate_result: "snd (fst x) = y \<Longrightarrow> x = ((fst (fst x), y), snd x)"
  by auto

section \<open>Calls to the key ledger under any fault oracle\<close>

lemma reap_keeps_rows:
  "(row_at r_request_id r (quota_reservations (store_of (reapStaleQuota key p now v))) = None) =
   (row_at r_request_id r (quota_reservations (store_of v)) = None)"
  "quota_invar (store_of v) \<Longrightarrow> quota_invar (store_of (reapStaleQuota key p now v))"
proof -
  let ?t = "store_of (reapStaleQuota key p now v)"
  have t: "?t = store_of v \<or> ?t =
      snd (ReapStaleQuotaReservations_tx (k_id key) p (now - staleQuotaReapInterval) (store_of v))"
  proof (cases "(case quotaLastReap v (k_id key @ ''|'' @ p) of
      Some prev \<Rightarrow> now - prev < staleQuotaReapInterval | None \<Rightarrow> False)")
    case False
    let ?v = "v\<lparr>quotaLastReap := (quotaLastReap v)((k_id key @ ''|'' @ p) \<mapsto> now)\<rparr>"
    obtain res v1 where c: "call (ReapStaleQuotaReservations (k_id key) p
        (now - staleQuotaReapInterval)) ?v = (res, v1)" by (cases "call (ReapStaleQuotaReservations
        (k_id key) p (now - staleQuotaReapInterval)) ?v") auto
    then have "store_of (reapStaleQuota key p now v) = store_of v1"
      using False by (simp add: reapStaleQuota_def Let_def)
    with c show ?thesis unfolding ReapStaleQuotaReservations_def
      by (elim call_db_run) (auto split: prod.splits)
  qed (simp add: reapStaleQuota_def Let_def)
  have "(row_at r_request_id r (quota_reservations (snd (ReapStaleQuotaReservations_tx k p u s))) = None) =
      (row_at r_request_id r (quota_reservations s) = None)" for k u s
    by (simp add: ReapStaleQuotaReservations_tx_def Let_def row_at_update)
  then show "(row_at r_request_id r (quota_reservations ?t) = None) =
      (row_at r_request_id r (quota_reservations (store_of v)) = None)" using t by metis
  show "quota_invar (store_of v) \<Longrightarrow> quota_invar ?t" using t quota_invar_txs(6) by metis
qed

lemma reserve_call_granted:
  assumes "call (ReserveQuotaTokens k p r est rr) v = (Inr (True, t, n), v')"
  shows "ReserveQuotaTokens_tx k p r est rr (store_of v) = (Inr (), store_of v')"
proof -
  obtain res d1 where run: "db_run (ReserveQuotaTokens_tx k p r est rr) (svc_db v) = (res, d1)"
    by (cases "db_run (ReserveQuotaTokens_tx k p r est rr) (svc_db v)") auto
  obtain g d2 where get: "GetQuotaLimit k p d1 = (g, d2)" by (cases "GetQuotaLimit k p d1") auto
  have keep: "fst d2 = fst d1"
    using get unfolding GetQuotaLimit_def by (cases d1; cases d2) (auto elim: db_run_cases)
  have "res \<noteq> Inl x" for x
    using assms run get by (auto simp: call_def ReserveQuotaTokens_def split: sum.splits option.splits if_splits prod.splits)
  then have res: "res = Inr ()" by (cases res) auto
  then have "store_of v' = fst d2"
    using assms run get by (auto simp: call_def ReserveQuotaTokens_def split: sum.splits option.splits prod.splits)
  then show ?thesis using run res keep by (cases "svc_db v"; cases d1) (auto elim: db_run_cases)
qed

lemma reserve_tx_Inr_state:
  assumes "ReserveQuotaTokens_tx k p r est rr s = (Inr (), s')" and "0 < est" and "quota_invar s"
  shows "\<exists>q. row_at limit_key (k, p) (quota_limits s) = Some q \<and> reserve_guard est rr q \<and>
    row_at limit_key (k, p) (quota_limits s') = Some (reserve_balance est rr q) \<and>
    row_at r_request_id r (quota_reservations s') =
      map_option (r_applied_update (\<lambda>_. True)) (row_at r_request_id r (quota_reservations s))"
proof -
  let ?hit = "\<lambda>q. limit_key q = (k, p) \<and> reserve_guard est rr q"
  have u: "uniq limit_key (quota_limits s)" using assms(3) by (simp add: quota_invar_def)
  have ne: "sql_count ?hit (quota_limits s) \<noteq> 0"
    and s': "s' = s\<lparr>quota_limits := sql_update ?hit (reserve_balance est rr) (quota_limits s),
      quota_reservations := sql_update (\<lambda>x. r_request_id x = r) (r_applied_update (\<lambda>_. True))
        (quota_reservations s)\<rparr>"
    using assms(1,2) by (auto simp: ReserveQuotaTokens_tx_def Let_def split: if_splits)
  obtain q where q: "row_at limit_key (k, p) (quota_limits s) = Some q" "reserve_guard est rr q"
    using ne count_key [OF u, of "(k, p)" "reserve_guard est rr"] by (auto split: option.splits if_splits)
  have "row_at r_request_id r (quota_reservations s') =
      map_option (r_applied_update (\<lambda>_. True)) (row_at r_request_id r (quota_reservations s))"
    by (auto simp: s' row_at_update intro!: option.map_cong dest: row_at_SomeD)
  with q show ?thesis by (auto simp: s' row_at_update dest: row_at_SomeD)
qed

section \<open>Admission\<close>

lemma reserve_step_admitted:
  assumes "reserve_step key p r est result v = ((res, None), v')" and "0 < est"
    and "quota_invar (store_of v)"
    and "row_at r_request_id r (quota_reservations (store_of v)) = Some row"
  shows "row_at r_request_id r (quota_reservations (store_of v')) = Some (row\<lparr>r_applied := True\<rparr>) \<and>
    (\<exists>q. row_at limit_key (k_id key, p) (quota_limits (store_of v)) = Some q \<and>
       reserve_guard est (0 < k_request_quota key) q \<and>
       row_at limit_key (k_id key, p) (quota_limits (store_of v')) =
         Some (reserve_balance est (0 < k_request_quota key) q))"
proof -
  obtain t n where "call (ReserveQuotaTokens (k_id key) p r est (0 < k_request_quota key)) v = (Inr (True, t, n), v')"
    using assms(1) by (auto simp: reserve_step_def ledger_fail_def Let_def
      split: prod.splits sum.splits if_splits)
  from reserve_tx_Inr_state [OF reserve_call_granted [OF this] assms(2,3)] assms(4)
  show ?thesis by auto
qed

lemma call_upsert:
  assumes "call (UpsertQuotaLimit q) v = (Inr x, v')"
  shows "store_of v' = UpsertQuotaLimit_tx q (store_of v)"
  using assms unfolding UpsertQuotaLimit_def by (rule call_db_run) auto

lemma call_add:
  assumes "call (AddQuotaReservation r) v = (Inr ins, v')"
  shows "AddQuotaReservation_tx r (store_of v) = (ins, store_of v')"
  using assms unfolding AddQuotaReservation_def by (rule call_db_run) (auto split: prod.splits)

lemma add_fresh:
  assumes "row_at r_request_id (r_request_id r) (quota_reservations s) = None"
  shows "AddQuotaReservation_tx r s = (True, s\<lparr>quota_reservations := quota_reservations s @ [r]\<rparr>)"
  using assms by (simp add: AddQuotaReservation_tx_def insert_ignore_eq)

lemma add_known:
  assumes "row_at r_request_id (r_request_id r) (quota_reservations s) \<noteq> None"
  shows "AddQuotaReservation_tx r s = (False, s)"
  using assms by (simp add: AddQuotaReservation_tx_def insert_ignore_eq)

lemma new_reservation_id [simp]: "r_request_id (new_reservation key rid p est now) = rid"
  by (simp add: new_reservation_def)

text \<open>The state of the gate when it reaches the reservation, on whatever oracle.\<close>

lemma preauth_fresh:
  assumes "PreauthorizeGatewayQuota key raw rid now v = ((res, None), v')"
    and "0 < k_token_quota key \<or> 0 < k_request_quota key"
    and "row_at r_request_id rid (quota_reservations (store_of v)) = None"
    and "quota_invar (store_of v)"
  obtains v3 result where "quota_invar (store_of v3)"
    and "row_at r_request_id rid (quota_reservations (store_of v3)) =
      Some (new_reservation key rid (quotaPeriodStart now) (estimateRequestTokens raw) now)"
    and "reserve_step key (quotaPeriodStart now) rid (estimateRequestTokens raw) result v3 = ((res, None), v')"
proof -
  let ?p = "quotaPeriodStart now" and ?est = "estimateRequestTokens raw"
  let ?v1 = "reapStaleQuota key ?p now v"
  let ?row = "new_reservation key rid ?p ?est now"
  obtain v2 ins v3 where up: "call (UpsertQuotaLimit (new_limit key ?p)) ?v1 = (Inr (), v2)"
    and ad: "call (AddQuotaReservation ?row) v2 = (Inr ins, v3)"
    using assms(1,2) by (auto simp: PreauthorizeGatewayQuota_def Let_def ledger_fail_def
        split: prod.splits sum.splits if_splits)
  have inv2: "quota_invar (store_of v2)"
    and none: "row_at r_request_id rid (quota_reservations (store_of v2)) = None"
    using call_upsert [OF up] reap_keeps_rows assms(3,4) quota_invar_txs(1)
    by (auto simp: UpsertQuotaLimit_tx_def)
  have ins: "ins" and v3: "store_of v3 = (store_of v2)\<lparr>quota_reservations := quota_reservations (store_of v2) @ [?row]\<rparr>"
    using call_add [OF ad] add_fresh [of ?row] none by auto
  have "quota_invar (store_of v3)"
    using quota_invar_txs(2) [OF inv2, of ?row] call_add [OF ad] by simp
  moreover have "row_at r_request_id rid (quota_reservations (store_of v3)) = Some ?row"
    using none by (simp add: v3 row_at_append)
  moreover obtain result where "reserve_step key ?p rid ?est result v3 = ((res, None), v')"
    using assms(1,2) up ad ins by (auto simp: PreauthorizeGatewayQuota_def Let_def split: if_splits)
  ultimately show ?thesis by (rule that)
qed



section \<open>Rejection\<close>

definition quota_exceeded_err :: err where
  "quota_exceeded_err = Http 429 42930
     ''insufficient quota: monthly token or request budget exhausted for this key''"

definition ledger_err :: err where
  "ledger_err = Http 502 50239 ''quota check failed, request rejected''"

lemma reap_events [simp]: "svc_events (reapStaleQuota key p now v) = svc_events v"
  by (simp add: reapStaleQuota_def Let_def call_def split: prod.splits)

lemma ledger_fail_events:
  "ledger_fail key result v = ((res, eo), v') \<longleftrightarrow> res = result \<and> eo = Some ledger_err \<and>
     v' = emit ''quota_ledger_error'' (k_tenant_id key) (k_id key) v"
  by (auto simp: ledger_fail_def quotaLedgerErr_def ledger_err_def)

lemma reserve_step_rejected:
  assumes "reserve_step key p r est result v = ((res, Some e), v')"
  shows "(e = quota_exceeded_err \<and> svc_events v' = svc_events v @
       [\<lparr>ev_type = ''quota_exceeded'', ev_tenant = k_tenant_id key, ev_resource_id = k_id key\<rparr>]) \<or>
    (e = ledger_err \<and> svc_events v' = svc_events v @
       [\<lparr>ev_type = ''quota_ledger_error'', ev_tenant = k_tenant_id key, ev_resource_id = k_id key\<rparr>])"
proof -
  obtain c v1 where c: "call (ReserveQuotaTokens (k_id key) p r est (0 < k_request_quota key)) v = (c, v1)"
    by fastforce
  obtain c2 v2 where c2: "call (ReleaseQuotaReservation r) v1 = (c2, v2)" by fastforce
  have ev: "svc_events v1 = svc_events v" "svc_events v2 = svc_events v"
    using call_events [OF c] call_events [OF c2] by auto
  show ?thesis
  proof (cases c)
    case (Inl x)
    then show ?thesis using assms c ev by (simp add: reserve_step_def ledger_fail_events emit_def)
  next
    case (Inr y)
    then show ?thesis using assms c c2 ev
      by (cases y) (auto simp: reserve_step_def Let_def emit_def quota_exceeded_err_def split: if_splits)
  qed
qed

text \<open>
  The key gate fails closed. Whatever faults the database reports, a rejection is either the
  429 of an exhausted budget or the 502 of a ledger failure, and exactly one event of the
  matching type is sent for it, naming the tenant and the key.
\<close>

theorem rejection_is_quota_or_ledger_error:
  assumes "PreauthorizeGatewayQuota key raw rid now v = ((res, Some e), v')"
  shows "(e = quota_exceeded_err \<and> svc_events v' = svc_events v @
       [\<lparr>ev_type = ''quota_exceeded'', ev_tenant = k_tenant_id key, ev_resource_id = k_id key\<rparr>]) \<or>
    (e = ledger_err \<and> svc_events v' = svc_events v @
       [\<lparr>ev_type = ''quota_ledger_error'', ev_tenant = k_tenant_id key, ev_resource_id = k_id key\<rparr>])"
proof -
  let ?p = "quotaPeriodStart now" and ?est = "estimateRequestTokens raw"
  let ?v1 = "reapStaleQuota key ?p now v"
  let ?row = "new_reservation key rid ?p ?est now"
  obtain c2 v2 where c2: "call (UpsertQuotaLimit (new_limit key ?p)) ?v1 = (c2, v2)" by fastforce
  obtain c3 v3 where c3: "call (AddQuotaReservation ?row) v2 = (c3, v3)" by fastforce
  obtain c4 v4 where c4: "call (GetQuotaLimit (k_id key) ?p) v3 = (c4, v4)" by fastforce
  have ev: "svc_events v2 = svc_events v" "svc_events v3 = svc_events v" "svc_events v4 = svc_events v"
    using call_events [OF c2] call_events [OF c3] call_events [OF c4] by auto
  show ?thesis
  proof (cases "\<exists>x y. c2 = Inr x \<and> c3 = Inr y \<and> y")
    case True
    then have "\<exists>result. reserve_step key ?p rid ?est result v3 = ((res, Some e), v')"
      using assms c2 c3 by (auto simp: PreauthorizeGatewayQuota_def Let_def split: if_splits)
    then show ?thesis using reserve_step_rejected ev(2) by metis
  next
    case False
    then show ?thesis using assms c2 c3 c4 ev
      by (auto simp: PreauthorizeGatewayQuota_def currentQuotaRemaining_def Let_def ledger_fail_events
          emit_def split: if_splits sum.splits option.splits prod.splits)
  qed
qed

theorem rejection_is_quota_or_ledger_error_witness:
  "svc_events (snd (PreauthorizeGatewayQuota demo_key demo_body ''req-1'' demo_now
       (demo_svc\<lparr>svc_db := (empty_store, [False, True])\<rparr>))) =
     [\<lparr>ev_type = ''quota_ledger_error'', ev_tenant = ''t1'', ev_resource_id = ''k1''\<rparr>]"
proof -
  let ?v = "demo_svc\<lparr>svc_db := (empty_store, [False, True])\<rparr>"
  let ?x = "PreauthorizeGatewayQuota demo_key demo_body ''req-1'' demo_now ?v"
  have err: "snd (fst ?x) = Some ledger_err" by code_simp
  have eq: "ledger_err \<noteq> quota_exceeded_err" "svc_events ?v = []" "k_tenant_id demo_key = ''t1''"
    "k_id demo_key = ''k1''" by code_simp+
  show ?thesis
    using rejection_is_quota_or_ledger_error [OF gate_result [OF err]] by (simp add: eq)
qed

section \<open>Decisions on a healthy database\<close>

lemma healthy_reap: "healthy v \<Longrightarrow> healthy (reapStaleQuota key p now v)"
  by (cases "svc_db v") (auto simp: reapStaleQuota_def healthy_def Let_def call_def
      ReapStaleQuotaReservations_def split: prod.splits)

lemma reserve_call_healthy:
  assumes "healthy v" and "row_at limit_key (k, p) (quota_limits (store_of v)) = Some q"
    and "quota_invar (store_of v)" and "0 < est \<or> rr"
  shows "\<exists>t n. call (ReserveQuotaTokens k p r est rr) v =
    (Inr (reserve_guard est rr q, t, n),
     v\<lparr>svc_db := (snd (ReserveQuotaTokens_tx k p r est rr (store_of v)), [])\<rparr>)"
proof -
  obtain s where s: "svc_db v = (s, [])" using assms(1) by (cases "svc_db v") (auto simp: healthy_def)
  have b: "quota_bal s (k, p) = Some (balance.truncate q)" and inv: "quota_invar s"
    using assms(2,3) s by (simp_all add: quota_bal_def)
  show ?thesis
  proof (cases "reserve_guard est rr q")
    case True
    then obtain s' where tx: "ReserveQuotaTokens_tx k p r est rr s = (Inr (), s')"
      using reserve_tx_granted [OF inv b assms(4), of r] by (metis prod.collapse reserve_guard_truncate)
    then obtain q' where "row_at limit_key (k, p) (quota_limits s') = Some q'"
      using reserve_tx_granted [OF inv b assms(4), of r] True
      by (auto simp: quota_bal_def fun_eq_iff split: if_splits)
    then show ?thesis using s tx True by (simp add: call_def ReserveQuotaTokens_def GetQuotaLimit_def)
  next
    case False
    then have "ReserveQuotaTokens_tx k p r est rr s = (Inl errQuotaExceeded, s)"
      using reserve_tx_denied [OF inv b assms(4)] by simp
    then show ?thesis using s False assms(2) by (simp add: call_def ReserveQuotaTokens_def GetQuotaLimit_def)
  qed
qed

text \<open>The gate up to the insertion of the reservation.\<close>

definition gate_prefix :: "api_key \<Rightarrow> int \<Rightarrow> svc \<Rightarrow> gw_store" where
  "gate_prefix key now v =
     UpsertQuotaLimit_tx (new_limit key (quotaPeriodStart now))
       (store_of (reapStaleQuota key (quotaPeriodStart now) now v))"

lemma gate_prefix_row:
  assumes "quota_invar (store_of v)"
  shows "quota_invar (gate_prefix key now v)"
    and "\<exists>q. row_at limit_key (k_id key, quotaPeriodStart now) (quota_limits (gate_prefix key now v)) = Some q"
    and "(row_at r_request_id r (quota_reservations (gate_prefix key now v)) = None) =
         (row_at r_request_id r (quota_reservations (store_of v)) = None)"
proof -
  show "quota_invar (gate_prefix key now v)"
    unfolding gate_prefix_def by (intro quota_invar_txs reap_keeps_rows assms)
qed (use reap_keeps_rows in \<open>auto simp: gate_prefix_def UpsertQuotaLimit_tx_def row_at_insert_ignore
      new_limit_def limit_key_def\<close>)

lemma gate_run:
  assumes "healthy v" and "0 < k_token_quota key \<or> 0 < k_request_quota key"
  shows "\<exists>result v3. PreauthorizeGatewayQuota key raw rid now v =
      (if fst (AddQuotaReservation_tx (new_reservation key rid (quotaPeriodStart now)
           (estimateRequestTokens raw) now) (gate_prefix key now v))
       then reserve_step key (quotaPeriodStart now) rid (estimateRequestTokens raw) result v3
       else (case currentQuotaRemaining (k_id key) (quotaPeriodStart now) v3 of
            (Inl e, v4) \<Rightarrow> ledger_fail key result v4
          | (Inr (t, r), v4) \<Rightarrow>
              ((result\<lparr>qr_remaining := t, qr_remaining_requests := r\<rparr>, None), v4))) \<and>
      healthy v3 \<and> svc_events v3 = svc_events v \<and>
      store_of v3 = snd (AddQuotaReservation_tx (new_reservation key rid (quotaPeriodStart now)
           (estimateRequestTokens raw) now) (gate_prefix key now v))"
proof -
  let ?p = "quotaPeriodStart now"
  let ?row = "new_reservation key rid ?p (estimateRequestTokens raw) now"
  let ?v1 = "reapStaleQuota key ?p now v" and ?g = "gate_prefix key now v"
  let ?v2 = "?v1\<lparr>svc_db := (?g, [])\<rparr>"
  let ?v3 = "?v1\<lparr>svc_db := (snd (AddQuotaReservation_tx ?row ?g), [])\<rparr>"
  have up: "call (UpsertQuotaLimit (new_limit key ?p)) ?v1 = (Inr (), ?v2)"
    unfolding UpsertQuotaLimit_def gate_prefix_def
    by (rule call_healthy [OF healthy_reap [OF assms(1)]]) simp
  have ad: "call (AddQuotaReservation ?row) ?v2 = (Inr (fst (AddQuotaReservation_tx ?row ?g)), ?v3)"
    unfolding AddQuotaReservation_def
    by (subst call_healthy [where a = "fst (AddQuotaReservation_tx ?row ?g)"
          and s' = "snd (AddQuotaReservation_tx ?row ?g)"]) (auto split: prod.splits)
  show ?thesis using assms(2) up ad
    by (intro exI [of _ "\<lparr>qr_enabled = True, qr_token_enabled = 0 < k_token_quota key, qr_remaining = - 1,
        qr_request_enabled = 0 < k_request_quota key, qr_remaining_requests = - 1\<rparr>"] exI [of _ ?v3])
      (auto simp: PreauthorizeGatewayQuota_def Let_def)
qed

lemma add_gate_fresh:
  assumes "row_at r_request_id rid (quota_reservations (store_of v)) = None"
    and "quota_invar (store_of v)"
  shows "AddQuotaReservation_tx (new_reservation key rid p est t) (gate_prefix key now v) =
    (True, (gate_prefix key now v)\<lparr>quota_reservations :=
      quota_reservations (gate_prefix key now v) @ [new_reservation key rid p est t]\<rparr>)"
  using assms gate_prefix_row(3) [OF assms(2), of rid key now] by (intro add_fresh) simp

lemma gate_decision:
  assumes "healthy v" and "quota_invar (store_of v)"
    and "0 < k_token_quota key \<or> 0 < k_request_quota key"
    and "0 < estimateRequestTokens raw"
    and "row_at r_request_id rid (quota_reservations (store_of v)) = None"
    and "row_at limit_key (k_id key, quotaPeriodStart now) (quota_limits (gate_prefix key now v)) = Some q"
  shows "if reserve_guard (estimateRequestTokens raw) (0 < k_request_quota key) q
    then snd (fst (PreauthorizeGatewayQuota key raw rid now v)) = None
    else snd (fst (PreauthorizeGatewayQuota key raw rid now v)) = Some quota_exceeded_err \<and>
      quota_limits (store_of (snd (PreauthorizeGatewayQuota key raw rid now v))) =
        quota_limits (gate_prefix key now v) \<and>
      row_at r_request_id rid (quota_reservations (store_of (snd (PreauthorizeGatewayQuota key raw rid now v)))) =
        Some ((new_reservation key rid (quotaPeriodStart now) (estimateRequestTokens raw) now)
          \<lparr>r_status := QuotaReservationReleased\<rparr>)"
proof -
  let ?p = "quotaPeriodStart now" and ?est = "estimateRequestTokens raw" and ?rr = "0 < k_request_quota key"
  let ?row = "new_reservation key rid ?p ?est now" and ?g = "gate_prefix key now v"
  note add = add_gate_fresh [OF assms(5,2), of key ?p ?est now now]
  let ?s3 = "?g\<lparr>quota_reservations := quota_reservations ?g @ [?row]\<rparr>"
  obtain result v3 where run: "PreauthorizeGatewayQuota key raw rid now v = reserve_step key ?p rid ?est result v3"
    and h: "healthy v3" and s3: "store_of v3 = ?s3"
    using gate_run [OF assms(1,3), of raw rid now] by (auto simp: add)
  have inv: "quota_invar ?s3"
    using quota_invar_txs(2) [OF gate_prefix_row(1) [OF assms(2)], of ?row key now] by (simp add: add)
  have none: "row_at r_request_id rid (quota_reservations ?g) = None"
    using assms(5) gate_prefix_row(3) [OF assms(2)] by simp
  have q: "row_at limit_key (k_id key, ?p) (quota_limits (store_of v3)) = Some q"
    using assms(6) by (simp add: s3)
  obtain t n where c: "call (ReserveQuotaTokens (k_id key) ?p rid ?est ?rr) v3 = (Inr (reserve_guard ?est ?rr q, t, n),
      v3\<lparr>svc_db := (snd (ReserveQuotaTokens_tx (k_id key) ?p rid ?est ?rr ?s3), [])\<rparr>)"
    using reserve_call_healthy [OF h q _ disjI1 [OF assms(4)], where rr = ?rr and r = rid] inv by (auto simp: s3)
  show ?thesis
  proof (cases "reserve_guard ?est ?rr q")
    case True
    then show ?thesis using run c by (simp add: reserve_step_def)
  next
    case False
    then have "snd (ReserveQuotaTokens_tx (k_id key) ?p rid ?est ?rr ?s3) = ?s3"
      using reserve_tx_denied [OF inv _ disjI1 [OF assms(4)], of "k_id key" ?p "balance.truncate q" ?rr rid] q
      by (simp add: quota_bal_def s3)
    with c False have c': "call (ReserveQuotaTokens (k_id key) ?p rid ?est ?rr) v3 =
        (Inr (False, t, n), v3\<lparr>svc_db := (?s3, [])\<rparr>)" by simp
    have "call (ReleaseQuotaReservation rid) (v3\<lparr>svc_db := (?s3, [])\<rparr>) =
        (Inr (), v3\<lparr>svc_db := (ReleaseQuotaReservation_tx rid ?s3, [])\<rparr>)"
      unfolding ReleaseQuotaReservation_def by (subst call_healthy) simp_all
    then show ?thesis using run c' False none
      by (simp add: reserve_step_def Let_def emit_def quota_exceeded_err_def
          ReleaseQuotaReservation_tx_def row_at_append row_at_update new_reservation_def)
  qed
qed

text \<open>
  On a healthy database the key gate decides exactly by the budget row. After the stale
  sweep and the upsert of the budget row, a fresh request is admitted if and only if the row of
  the key and period has room for its estimate and, where requests are counted, for one request.
  If not, the answer is the 429, no balance of any key differs from what the sweep and the upsert
  left, and the reservation is released without ever having been applied.
\<close>

theorem gate_decides_by_budget:
  assumes "healthy v" and "quota_invar (store_of v)"
    and "0 < k_token_quota key \<or> 0 < k_request_quota key"
    and "0 < estimateRequestTokens raw"
    and "row_at r_request_id rid (quota_reservations (store_of v)) = None"
    and "row_at limit_key (k_id key, quotaPeriodStart now) (quota_limits (gate_prefix key now v)) = Some q"
  shows "if reserve_guard (estimateRequestTokens raw) (0 < k_request_quota key) q
    then snd (fst (PreauthorizeGatewayQuota key raw rid now v)) = None
    else snd (fst (PreauthorizeGatewayQuota key raw rid now v)) = Some quota_exceeded_err \<and>
      quota_limits (store_of (snd (PreauthorizeGatewayQuota key raw rid now v))) =
        quota_limits (gate_prefix key now v) \<and>
      row_at r_request_id rid (quota_reservations (store_of (snd (PreauthorizeGatewayQuota key raw rid now v)))) =
        Some ((new_reservation key rid (quotaPeriodStart now) (estimateRequestTokens raw) now)
          \<lparr>r_status := QuotaReservationReleased\<rparr>)"
  using assms by (rule gate_decision)

theorem gate_decides_by_budget_witness:
  "snd (fst (PreauthorizeGatewayQuota (demo_key\<lparr>k_token_quota := 100\<rparr>) demo_body ''req-1'' demo_now demo_svc)) =
     Some quota_exceeded_err"
proof -
  let ?k = "demo_key\<lparr>k_token_quota := 100\<rparr>"
  let ?q = "new_limit ?k ''2026-02''"
  have h: "healthy demo_svc" "quota_invar (store_of demo_svc)"
    "0 < k_token_quota ?k \<or> 0 < k_request_quota ?k"
    "0 < estimateRequestTokens demo_body"
    "row_at r_request_id ''req-1'' (quota_reservations (store_of demo_svc)) = None"
    "row_at limit_key (k_id ?k, quotaPeriodStart demo_now)
       (quota_limits (gate_prefix ?k demo_now demo_svc)) = Some ?q"
    by code_simp+
  have "\<not> reserve_guard (estimateRequestTokens demo_body) (0 < k_request_quota ?k) ?q" by code_simp
  then show ?thesis using gate_decides_by_budget [OF h] by simp
qed

section \<open>Requests that pass without a reservation\<close>

lemma replay_step:
  assumes "healthy v" and "0 < k_token_quota key \<or> 0 < k_request_quota key" and "quota_invar (store_of v)"
    and "row_at r_request_id rid (quota_reservations (store_of v)) \<noteq> None"
  shows "snd (fst (PreauthorizeGatewayQuota key raw rid now v)) = None \<and>
    store_of (snd (PreauthorizeGatewayQuota key raw rid now v)) = gate_prefix key now v"
proof -
  let ?p = "quotaPeriodStart now"
  let ?row = "new_reservation key rid ?p (estimateRequestTokens raw) now"
  have "row_at r_request_id rid (quota_reservations (gate_prefix key now v)) \<noteq> None"
    using assms(4) gate_prefix_row(3) [OF assms(3)] by metis
  then have add: "AddQuotaReservation_tx ?row (gate_prefix key now v) = (False, gate_prefix key now v)"
    by (intro add_known) simp
  obtain result v3 where run: "PreauthorizeGatewayQuota key raw rid now v =
      (case currentQuotaRemaining (k_id key) ?p v3 of
          (Inl e, v4) \<Rightarrow> ledger_fail key result v4
        | (Inr (t, r), v4) \<Rightarrow> ((result\<lparr>qr_remaining := t, qr_remaining_requests := r\<rparr>, None), v4))"
    and h: "healthy v3" and s3: "store_of v3 = gate_prefix key now v"
    using gate_run [OF assms(1,2), of raw rid now] by (auto simp: add)
  have "call (GetQuotaLimit (k_id key) ?p) v3 =
      (Inr (row_at limit_key (k_id key, ?p) (quota_limits (store_of v3))), v3\<lparr>svc_db := (store_of v3, [])\<rparr>)"
    unfolding GetQuotaLimit_def by (rule call_healthy [OF h]) simp
  then show ?thesis unfolding run
    by (cases "row_at limit_key (k_id key, ?p) (quota_limits (store_of v3))")
      (auto simp: currentQuotaRemaining_def s3)
qed

text \<open>
  A request id that was seen before passes the key gate. On a healthy database, any limited
  key that presents a request id for which a reservation exists, in whatever status and of
  whatever key, is admitted, and beyond the stale sweep and the upsert of the budget row nothing
  is written: no tokens are held for it, however little budget is left.
\<close>

theorem replayed_request_id_is_admitted_unreserved:
  assumes "healthy v" and "0 < k_token_quota key \<or> 0 < k_request_quota key" and "quota_invar (store_of v)"
    and "row_at r_request_id rid (quota_reservations (store_of v)) \<noteq> None"
  shows "snd (fst (PreauthorizeGatewayQuota key raw rid now v)) = None \<and>
    store_of (snd (PreauthorizeGatewayQuota key raw rid now v)) = gate_prefix key now v"
  using assms by (rule replay_step)

text \<open>
  The witness: a request is denied because the budget of 100 tokens cannot hold 110; the same
  request sent again with the same id is admitted.
\<close>

theorem replayed_request_id_is_admitted_unreserved_witness:
  "snd (fst (PreauthorizeGatewayQuota (demo_key\<lparr>k_token_quota := 100\<rparr>) demo_body ''req-1'' demo_now
      (snd (PreauthorizeGatewayQuota (demo_key\<lparr>k_token_quota := 100\<rparr>) demo_body ''req-1'' demo_now
        demo_svc)))) = None"
proof -
  let ?k = "demo_key\<lparr>k_token_quota := 100\<rparr>"
  let ?v = "snd (PreauthorizeGatewayQuota ?k demo_body ''req-1'' demo_now demo_svc)"
  have "healthy ?v" "0 < k_token_quota ?k \<or> 0 < k_request_quota ?k" "quota_invar (store_of ?v)"
    "row_at r_request_id ''req-1'' (quota_reservations (store_of ?v)) \<noteq> None"
    by code_simp+
  then show ?thesis using replayed_request_id_is_admitted_unreserved by blast
qed

text \<open>
  The estimate is exact unless it overflows. It is the half of the body's length (at least 1)
  plus the requested completion tokens (64 if none are requested), positive, whenever that sum
  fits an int64.
\<close>

theorem estimate_exact:
  assumes "prompt_estimate raw + completion_estimate raw \<le> max_int64"
  shows "estimateRequestTokens raw = prompt_estimate raw + completion_estimate raw \<and>
    int (body_len raw div 2) \<le> prompt_estimate raw \<and> 2 \<le> estimateRequestTokens raw"
proof -
  have p: "1 \<le> prompt_estimate raw" "int (body_len raw div 2) \<le> prompt_estimate raw"
    by (simp_all add: prompt_estimate_def Let_def)
  have c: "1 \<le> completion_estimate raw"
    by (auto simp: completion_estimate_def split: prod.splits option.splits)
  have "int64 (prompt_estimate raw + completion_estimate raw)"
    using p c assms by (simp add: int64_def min_int64_def)
  then show ?thesis using p c by (simp add: estimateRequestTokens_def)
qed

theorem estimate_exact_witness: "estimateRequestTokens demo_body = 110"
proof -
  have "prompt_estimate demo_body = 50" "completion_estimate demo_body = 60" by code_simp+
  then show ?thesis using estimate_exact [of demo_body] by (simp add: max_int64_def)
qed

lemma wrap64_overflow:
  assumes "max_int64 < x" and "x \<le> 2 * max_int64"
  shows "wrap64 x = x - 18446744073709551616"
proof -
  have "(x + 9223372036854775808) mod 18446744073709551616 =
      (x + 9223372036854775808 - 18446744073709551616) mod 18446744073709551616"
    by (metis minus_mod_self2)
  also have "\<dots> = x + 9223372036854775808 - 18446744073709551616"
    using assms by (intro mod_pos_pos_trivial) (auto simp: max_int64_def)
  finally show ?thesis by (simp add: wrap64_def signed_take_bit_eq_take_bit_shift take_bit_eq_mod)
qed

text \<open>
  C8: A huge \<^verbatim>\<open>max_tokens\<close> disables the token budget. If the sum of the estimates exceeds
  int64, the estimate is negative, and on a healthy database a key with a token quota and no
  request quota is admitted whatever its budget row says; no balance changes beyond the stale
  sweep and the upsert of the budget row.
\<close>

theorem overflowing_estimate_bypasses_token_quota:
  assumes "max_int64 < prompt_estimate raw + completion_estimate raw" and "prompt_estimate raw \<le> max_int64"
    and "completion_estimate raw \<le> max_int64"
    and "healthy v" and "quota_invar (store_of v)"
    and "0 < k_token_quota key" and "k_request_quota key \<le> 0"
  shows "estimateRequestTokens raw < 0 \<and>
    snd (fst (PreauthorizeGatewayQuota key raw rid now v)) = None \<and>
    quota_limits (store_of (snd (PreauthorizeGatewayQuota key raw rid now v))) =
      quota_limits (gate_prefix key now v)"
proof -
  let ?p = "quotaPeriodStart now" and ?est = "estimateRequestTokens raw"
  have neg: "?est < 0"
    using wrap64_overflow [OF assms(1)] assms(2,3) by (simp add: estimateRequestTokens_def max_int64_def)
  have lim: "0 < k_token_quota key \<or> 0 < k_request_quota key" using assms(6) by simp
  show ?thesis
  proof (cases "row_at r_request_id rid (quota_reservations (store_of v)) = None")
    case False
    then show ?thesis using neg replay_step [OF assms(4) lim assms(5) False] by metis
  next
    case True
    note add = add_gate_fresh [OF True assms(5), of key ?p ?est now now]
    obtain result v3 where run: "PreauthorizeGatewayQuota key raw rid now v = reserve_step key ?p rid ?est result v3"
      and h: "healthy v3" and lims: "quota_limits (store_of v3) = quota_limits (gate_prefix key now v)"
      using gate_run [OF assms(4) lim, of raw rid now] by (auto simp: add)
    obtain s where s: "svc_db v3 = (s, [])" using h by (cases "svc_db v3") (auto simp: healthy_def)
    have "\<exists>q. row_at limit_key (k_id key, ?p) (quota_limits s) = Some q"
      using gate_prefix_row(2) [OF assms(5), of key now] lims s by simp
    moreover have "ReserveQuotaTokens_tx (k_id key) ?p rid ?est False s = (Inr (), s)"
      using neg by (simp add: ReserveQuotaTokens_tx_def)
    ultimately show ?thesis using neg run lims s assms(7)
      by (auto simp: reserve_step_def call_def ReserveQuotaTokens_def GetQuotaLimit_def)
  qed
qed

theorem overflowing_estimate_bypasses_token_quota_witness:
  "snd (fst (PreauthorizeGatewayQuota (demo_key\<lparr>k_token_quota := 1, k_request_quota := 0\<rparr>)
     (demo_body\<lparr>body_json := Some (JObj [(''max_tokens'', JInt 9223372036854775807)])\<rparr>)
     ''req-1'' demo_now demo_svc)) = None"
proof -
  let ?k = "demo_key\<lparr>k_token_quota := 1, k_request_quota := 0\<rparr>"
  let ?b = "demo_body\<lparr>body_json := Some (JObj [(''max_tokens'', JInt 9223372036854775807)])\<rparr>"
  have "max_int64 < prompt_estimate ?b + completion_estimate ?b" "prompt_estimate ?b \<le> max_int64"
    "completion_estimate ?b \<le> max_int64" "healthy demo_svc" "quota_invar (store_of demo_svc)"
    "0 < k_token_quota ?k" "k_request_quota ?k \<le> 0"
    by code_simp+
  then show ?thesis using overflowing_estimate_bypasses_token_quota by metis
qed

section \<open>The composite gate\<close>

text \<open>The key gate leaves the bucket tables alone.\<close>

lemma healthy_reserve_call:
  "healthy v \<Longrightarrow> call (ReserveQuotaTokens k p r est rr) v = (c, v') \<Longrightarrow> healthy v'"
  using healthy_db_run [of "svc_db v" "ReserveQuotaTokens_tx k p r est rr"]
  by (auto simp: healthy_def call_def ReserveQuotaTokens_def GetQuotaLimit_def Let_def
      split: prod.splits sum.splits option.splits if_splits dest!: arg_cong [where f = "\<lambda>x. snd (snd x)"])

lemma healthy_bucket_reserve_call:
  "healthy v \<Longrightarrow> call (ReserveQuotaBucketTokens bk r est rr) v = (c, v') \<Longrightarrow> healthy v'"
  using healthy_db_run [of "svc_db v" "ReserveQuotaBucketTokens_tx bk r est rr"]
  by (auto simp: healthy_def call_def ReserveQuotaBucketTokens_def GetQuotaBucket_def Let_def
      split: prod.splits sum.splits option.splits if_splits dest!: arg_cong [where f = "\<lambda>x. snd (snd x)"])

lemma released_after:
  assumes "healthy v" and "call (ReleaseQuotaBucketReservation r) v = (c, v')"
    and "row_at br_request_id r (quota_bucket_reservations (store_of v')) = Some row"
  shows "br_status row \<noteq> QuotaReservationPending"
proof -
  have "call (ReleaseQuotaBucketReservation r) v = (Inr (), v\<lparr>svc_db := (ReleaseQuotaBucketReservation_tx r (store_of v), [])\<rparr>)"
    unfolding ReleaseQuotaBucketReservation_def by (rule call_healthy [OF assms(1)]) simp
  then show ?thesis using assms(2,3)
    by (auto simp: ReleaseQuotaBucketReservation_tx_def row_at_update split: option.splits if_splits
        dest: row_at_SomeD)
qed

lemma key_released_after:
  assumes "healthy v" and "0 < k_token_quota key \<or> 0 < k_request_quota key"
    and "row_at r_request_id r (quota_reservations (store_of (ReleaseGatewayQuota key r v))) = Some row"
  shows "r_status row \<noteq> QuotaReservationPending"
proof -
  have "call (ReleaseQuotaReservation r) v = (Inr (), v\<lparr>svc_db := (ReleaseQuotaReservation_tx r (store_of v), [])\<rparr>)"
    unfolding ReleaseQuotaReservation_def by (rule call_healthy [OF assms(1)]) simp
  then have "store_of (ReleaseGatewayQuota key r v) = ReleaseQuotaReservation_tx r (store_of v)"
    using assms(2) by (auto simp: ReleaseGatewayQuota_def)
  then show ?thesis using assms(3)
    by (auto simp: ReleaseQuotaReservation_tx_def row_at_update split: option.splits if_splits dest: row_at_SomeD)
qed

definition no_pending_bucket :: "string \<Rightarrow> svc \<Rightarrow> bool" where
  "no_pending_bucket r v \<longleftrightarrow> (case row_at br_request_id r (quota_bucket_reservations (store_of v)) of
     None \<Rightarrow> True | Some row \<Rightarrow> br_status row \<noteq> QuotaReservationPending)"

definition no_pending_key :: "string \<Rightarrow> svc \<Rightarrow> bool" where
  "no_pending_key r v \<longleftrightarrow> (case row_at r_request_id r (quota_reservations (store_of v)) of
     None \<Rightarrow> True | Some row \<Rightarrow> r_status row \<noteq> QuotaReservationPending)"

lemma bucket_step_healthy:
  assumes "bucket_reserve_step key bk rid est re d result v = ((res, eo), v')" and "healthy v"
  shows "healthy v'" and "eo \<noteq> None \<Longrightarrow> no_pending_bucket rid v'"
proof -
  obtain c v1 where c: "call (ReserveQuotaBucketTokens bk rid est re) v = (c, v1)" by fastforce
  obtain c2 v2 where c2: "call (ReleaseQuotaBucketReservation rid) v1 = (c2, v2)" by fastforce
  have h1: "healthy v1" using healthy_bucket_reserve_call [OF assms(2) c] .
  have h2: "healthy v2" using healthy_call_run [OF h1] c2 by (simp add: ReleaseQuotaBucketReservation_def)
  have rel: "no_pending_bucket rid v2"
    using released_after [OF h1 c2] by (simp add: no_pending_bucket_def split: option.splits)
  show "healthy v'" and "eo \<noteq> None \<Longrightarrow> no_pending_bucket rid v'"
    using assms(1) c c2 h1 h2 rel
    by (auto simp: bucket_reserve_step_def Let_def ledger_fail_events no_pending_bucket_def
        split: sum.splits prod.splits if_splits)
qed

lemma bucket_gate_healthy:
  assumes "PreauthorizeBucketQuota key rid est te re d dk now v = ((res, eo), v')" and "healthy v"
  shows "healthy v'" and "eo \<noteq> None \<Longrightarrow> no_pending_bucket rid v'"
    and "\<not> qr_enabled res \<Longrightarrow> eo = None \<and> store_of v' = store_of v"
proof -
  let ?bk = "(k_tenant_id key, d, dk, quotaPeriodStart now)"
  let ?row = "new_bucket_reservation key rid ?bk est now"
  let ?r = "\<lparr>qr_enabled = True, qr_token_enabled = te, qr_remaining = - 1, qr_request_enabled = re,
     qr_remaining_requests = - 1\<rparr>"
  have get: "call (GetQuotaBucket ?bk) w = (Inr (row_at bucket_acct ?bk (quota_buckets (store_of w))),
      w\<lparr>svc_db := (store_of w, [])\<rparr>)" if "healthy w" for w
    unfolding GetQuotaBucket_def by (rule call_healthy [OF that]) simp
  let ?v1 = "v\<lparr>svc_db := (store_of v, [])\<rparr>"
  obtain c2 v2 where c2: "reapStaleBucketQuota ?bk now ?v1 = (c2, v2)" by fastforce
  have h2: "healthy v2" and i2: "\<And>e. c2 \<noteq> Inl e"
    using c2 healthy_call_run [of ?v1] healthy_call_tx [of ?v1]
    unfolding reapStaleBucketQuota_def ReapStaleQuotaBucketReservations_def by (simp_all, blast+)
  obtain c3 v3 where c3: "call (AddQuotaBucketReservation ?row) v2 = (c3, v3)" by fastforce
  have h3: "healthy v3" and i3: "\<And>e. c3 \<noteq> Inl e"
    using c3 healthy_call_run [OF h2] healthy_call_tx [OF h2]
    unfolding AddQuotaBucketReservation_def by blast+
  obtain x y where xy: "c2 = Inr x" "c3 = Inr y" using i2 i3 by (cases c2; cases c3) auto
  obtain z v5 where z: "bucket_reserve_step key ?bk rid est re d ?r v3 = (z, v5)" by fastforce
  note step = bucket_step_healthy [of key ?bk rid est re d ?r v3 "fst z" "snd z" v5]
  have h5: "healthy v5" using step(1) z h3 by simp
  have n5: "snd z \<noteq> None \<Longrightarrow> no_pending_bucket rid v5" using step(2) z h3 by simp
  have e5: "qr_enabled (fst z)" using z
    by (cases z) (auto simp: bucket_reserve_step_def Let_def ledger_fail_events split: sum.splits prod.splits if_splits)
  show "healthy v'" and "eo \<noteq> None \<Longrightarrow> no_pending_bucket rid v'"
    and "\<not> qr_enabled res \<Longrightarrow> eo = None \<and> store_of v' = store_of v"
    using assms(1) get [OF assms(2)] get [OF h3] c2 c3 xy z h3 h5 n5 e5
    by (auto simp: PreauthorizeBucketQuota_def Let_def split: option.splits if_splits)
qed

lemma reserve_step_healthy:
  assumes "reserve_step key p rid est result v = ((res, eo), v')" and "healthy v"
  shows "healthy v'"
proof -
  obtain c v1 where c: "call (ReserveQuotaTokens (k_id key) p rid est (0 < k_request_quota key)) v = (c, v1)"
    by fastforce
  obtain c2 v2 where c2: "call (ReleaseQuotaReservation rid) v1 = (c2, v2)" by fastforce
  have h1: "healthy v1" using healthy_reserve_call [OF assms(2) c] .
  moreover have "healthy v2" using healthy_call_run [OF h1] c2 by (simp add: ReleaseQuotaReservation_def)
  ultimately show ?thesis using assms(1) c c2
    by (auto simp: reserve_step_def Let_def ledger_fail_events split: sum.splits if_splits)
qed

lemma key_gate_healthy:
  assumes "healthy v" and "0 < k_token_quota key \<or> 0 < k_request_quota key"
    and "row_at r_request_id rid (quota_reservations (store_of v)) = None" and "quota_invar (store_of v)"
  shows "healthy (snd (PreauthorizeGatewayQuota key raw rid now v))"
proof -
  obtain result v3 where "PreauthorizeGatewayQuota key raw rid now v =
      reserve_step key (quotaPeriodStart now) rid (estimateRequestTokens raw) result v3" and "healthy v3"
    using gate_run [OF assms(1,2), of raw rid now] by (auto simp: add_gate_fresh [OF assms(3,4)])
  then show ?thesis using reserve_step_healthy by (metis prod.collapse)
qed

lemma tx_keep_buckets:
  "quota_bucket_reservations (UpsertQuotaLimit_tx q s) = quota_bucket_reservations s"
  "quota_bucket_reservations (snd (AddQuotaReservation_tx row s)) = quota_bucket_reservations s"
  "quota_bucket_reservations (snd (ReserveQuotaTokens_tx k p r est rr s)) = quota_bucket_reservations s"
  "quota_bucket_reservations (ReleaseQuotaReservation_tx r s) = quota_bucket_reservations s"
  "quota_bucket_reservations (snd (ReapStaleQuotaReservations_tx k p t s)) = quota_bucket_reservations s"
  by (auto simp: quota_tx_defs Let_def split: option.splits prod.splits)

lemma release_keeps_buckets:
  "quota_bucket_reservations (store_of (snd (call (ReleaseQuotaReservation r) v))) =
   quota_bucket_reservations (store_of v)"
  unfolding ReleaseQuotaReservation_def
  by (rule call_keeps [OF _ surjective_pairing]) (simp add: tx_keep_buckets)

lemma key_gate_keeps_buckets:
  "quota_bucket_reservations (store_of (snd (PreauthorizeGatewayQuota key raw rid now v))) =
   quota_bucket_reservations (store_of v)"
proof -
  let ?f = quota_bucket_reservations
  note keeps = call_keeps [where f = ?f]
  have up: "call (UpsertQuotaLimit q) w = (c, w') \<Longrightarrow> ?f (store_of w') = ?f (store_of w)" for q w c w'
    unfolding UpsertQuotaLimit_def by (erule keeps [rotated]) (simp add: tx_keep_buckets)
  have ad: "call (AddQuotaReservation r) w = (c, w') \<Longrightarrow> ?f (store_of w') = ?f (store_of w)" for r w c w'
    unfolding AddQuotaReservation_def
    by (erule keeps [rotated]) (metis (mono_tags, lifting) case_prod_beta' snd_conv tx_keep_buckets(2))
  have gt: "call (GetQuotaLimit k p) w = (c, w') \<Longrightarrow> ?f (store_of w') = ?f (store_of w)" for k p w c w'
    unfolding GetQuotaLimit_def by (erule keeps [rotated]) simp
  have rl: "call (ReleaseQuotaReservation r) w = (c, w') \<Longrightarrow> ?f (store_of w') = ?f (store_of w)" for r w c w'
    using release_keeps_buckets [of r w] by simp
  have "?f (store_of (snd (call (ReapStaleQuotaReservations k p t) w))) = ?f (store_of w)" for k p t w
    unfolding ReapStaleQuotaReservations_def
    by (rule keeps [OF _ surjective_pairing]) (metis (mono_tags, lifting) case_prod_beta' snd_conv tx_keep_buckets(5))
  then have rp: "?f (store_of (reapStaleQuota key p now w)) = ?f (store_of w)" for p w
    by (simp add: reapStaleQuota_def Let_def)
  have rs: "?f (store_of w') = ?f (store_of w)"
    if c: "call (ReserveQuotaTokens k p r est rr) w = (c, w')" for k p r est rr w c w'
  proof -
    obtain res d1 where run: "db_run (ReserveQuotaTokens_tx k p r est rr) (svc_db w) = (res, d1)"
      by (rule prod.exhaust)
    obtain g d2 where get: "GetQuotaLimit k p d1 = (g, d2)" by (rule prod.exhaust)
    have "?f (fst d1) = ?f (store_of w)"
      using keeps [of "ReserveQuotaTokens_tx k p r est rr" w res "w\<lparr>svc_db := d1\<rparr>"] run
      by (simp add: call_def tx_keep_buckets)
    moreover have "?f (fst d2) = ?f (fst d1)"
      using gt [of k p "w\<lparr>svc_db := d1\<rparr>" g "w\<lparr>svc_db := d2\<rparr>"] get by (simp add: call_def)
    moreover have "svc_db w' = d1 \<or> svc_db w' = d2"
      using c run get by (auto simp: call_def ReserveQuotaTokens_def split: sum.splits option.splits if_splits prod.splits)
    ultimately show ?thesis by auto
  qed
  show ?thesis
    by (auto simp: PreauthorizeGatewayQuota_def reserve_step_def currentQuotaRemaining_def Let_def
        ledger_fail_def quotaLedgerErr_def rp split: prod.splits sum.splits option.splits if_splits
        dest!: up ad gt rl rs)
qed


definition demo_bucket :: quota_bucket where
  "demo_bucket = \<lparr>token_limit = 50, tokens_used = 0, pending = 0, request_limit = 0, requests_used = 0,
     pending_requests = 0, qb_tenant_id = ''t1'', qb_dimension = ''tenant'', qb_dimension_key = ''t1'',
     qb_period_start = ''2026-02''\<rparr>"


end
