(* ===== verification/Gateway_Chat.thy ===== *)
theory Gateway_Chat
  imports Model_Routes Metering Idempotency Secrets Gateway_Quota_Props
begin

text \<open>
  Forwarding of a chat request to the provider of its route: \<^verbatim>\<open>ChatCompletion\<close> and
  \<^verbatim>\<open>WriteStreamCompletion\<close> of \<^verbatim>\<open>internal/service/gateway.go\<close> and the handler functions
  \<^verbatim>\<open>gatewayModelRoute\<close>, \<^verbatim>\<open>gatewayIdempotencyReplay\<close>, \<^verbatim>\<open>setGatewayQuotaHeaders\<close> and
  \<^verbatim>\<open>gatewayStreamError\<close> of \<^verbatim>\<open>internal/handler/gateway.go\<close>. The provider and the network are
  arguments: an HTTP client maps a target, a credential and a request to a failure or a response,
  whose body arrives in chunks and may break off. Text is scanned by \<open>parse\<close>.
\<close>

section \<open>Provider and client\<close>

record http_response =
  rs_status :: int
  rs_content_type :: string
  rs_chunks :: "string list"
  rs_complete :: bool

record upstream =
  up_parse :: "string \<Rightarrow> json option"
  up_cipher :: aead
  up_encrypt_key :: string
  up_new_request :: "string \<Rightarrow> err option"
  up_do :: "string \<Rightarrow> string \<Rightarrow> string \<Rightarrow> http_response option"

definition body_of :: "upstream \<Rightarrow> string \<Rightarrow> body" where
  "body_of env raw = \<lparr>body_len = length raw, body_json = up_parse env raw\<rparr>"

text \<open>
  The writer the stream is relayed to: the client and a buffer that captures what was written. A
  write fails when the client is gone; then nothing of it is captured.
\<close>

record writer =
  wr_captured :: string
  wr_faults :: "err option list"

definition write_to :: "string \<Rightarrow> writer \<Rightarrow> err option \<times> writer" where
  "write_to p w =
     (case wr_faults w of
        [] \<Rightarrow> (None, w\<lparr>wr_captured := wr_captured w @ p\<rparr>)
      | None # fs \<Rightarrow> (None, w\<lparr>wr_captured := wr_captured w @ p, wr_faults := fs\<rparr>)
      | Some e # fs \<Rightarrow> (Some e, w\<lparr>wr_faults := fs\<rparr>))"

fun copy_to :: "string list \<Rightarrow> writer \<Rightarrow> writer" where
  "copy_to [] w = w"
| "copy_to (c # cs) w =
     (case write_to c w of (None, w1) \<Rightarrow> copy_to cs w1 | (Some _, w1) \<Rightarrow> w1)"

section \<open>The service\<close>

record chat_result =
  cr_status :: int
  cr_body :: string

definition TrimRightSlash :: "string \<Rightarrow> string" where
  "TrimRightSlash s = rev (dropWhile (\<lambda>c. c = CHR 0x2F) (rev s))"

text \<open>
  The common first half: route, credential, request, response. Every failure releases the
  reservation.
\<close>

definition forward :: "upstream \<Rightarrow> route_catalog \<Rightarrow> api_key \<Rightarrow> string \<Rightarrow> string \<Rightarrow> svc \<Rightarrow>
  (err + model_route \<times> http_response) \<times> svc" where
  "forward env cat key rawReq requestID v =
     (case resolveRoute (up_parse env) cat (k_tenant_id key) (body_of env rawReq) v of
        (Inl e, v1) \<Rightarrow> (Inl e, ReleaseGatewayQuotaWithBucket key requestID v1)
      | (Inr (route, provider), v1) \<Rightarrow>
     (case Decrypt (up_cipher env) (up_encrypt_key env) (mp_api_key_enc provider) of
        None \<Rightarrow> (Inl (Http 502 50220 ''failed to decrypt provider credential''),
                 ReleaseGatewayQuotaWithBucket key requestID v1)
      | Some apiKey \<Rightarrow>
          let target = TrimRightSlash (mp_base_url provider) @ ''/chat/completions'' in
     (case up_new_request env target of
        Some e \<Rightarrow> (Inl e, ReleaseGatewayQuotaWithBucket key requestID v1)
      | None \<Rightarrow>
     (case up_do env target apiKey rawReq of
        None \<Rightarrow> (Inl (Http 502 50221 ''provider request failed''),
                 ReleaseGatewayQuotaWithBucket key requestID
                   (emit ''provider_error'' (k_tenant_id key) (mp_id provider) v1))
      | Some resp \<Rightarrow> (Inr (route, resp), v1)))))"

definition ChatCompletion :: "upstream \<Rightarrow> route_catalog \<Rightarrow> api_key \<Rightarrow> string \<Rightarrow> string \<Rightarrow> int \<Rightarrow> svc \<Rightarrow>
  (err + chat_result) \<times> svc" where
  "ChatCompletion env cat key rawReq requestID now v =
     (case forward env cat key rawReq requestID v of
        (Inl e, v1) \<Rightarrow> (Inl e, v1)
      | (Inr (route, resp), v1) \<Rightarrow>
          if \<not> rs_complete resp then
            (Inl (Http 502 50222 ''read provider response failed''),
             ReleaseGatewayQuotaWithBucket key requestID v1)
          else let text = concat (rs_chunks resp) in
          if 300 \<le> rs_status resp then
            (Inr \<lparr>cr_status = rs_status resp, cr_body = text\<rparr>,
             ReleaseGatewayQuotaWithBucket key requestID v1)
          else
            (Inr \<lparr>cr_status = rs_status resp, cr_body = text\<rparr>,
             recordUsage key (mr_model_alias route) (body_of env text) requestID now v1))"

text \<open>\<^verbatim>\<open>ReadString\<close> of a buffered reader: a line with its line break, the rest, and whether it ended.\<close>

definition ReadString :: "string \<Rightarrow> string \<times> string \<times> bool" where
  "ReadString s =
     (let line = takeWhile (\<lambda>c. c \<noteq> CHR 0x0A) s in
      case drop (length line) s of
        [] \<Rightarrow> (line, [], True)
      | nl # rest \<Rightarrow> (line @ [nl], rest, False))"

lemma ReadString_shorter: "ReadString s = (line, rest, False) \<Longrightarrow> length rest < length s"
proof -
  assume a: "ReadString s = (line, rest, False)"
  let ?l = "takeWhile (\<lambda>c. c \<noteq> CHR 0x0A) s"
  obtain nl where "drop (length ?l) s = nl # rest"
    using a by (auto simp: ReadString_def Let_def split: list.splits)
  then have "Suc (length rest) = length s - length ?l" by (metis length_Cons length_drop)
  then show ?thesis by linarith
qed

function relay_loop :: "(string \<Rightarrow> json option) \<Rightarrow> string \<Rightarrow> int \<times> int \<Rightarrow> writer \<Rightarrow> err option \<times> (int \<times> int) \<times> writer" where
  "relay_loop parse s counts w =
     (case ReadString s of (line, rest, ended) \<Rightarrow>
        if line = [] then (if ended then (None, counts, w) else relay_loop parse rest counts w)
        else case write_to line w of
               (Some e, w1) \<Rightarrow> (Some e, counts, w1)
             | (None, w1) \<Rightarrow>
                 let counts1 = TrackUsage parse line counts in
                 if TrimSpace line = ''data: [DONE]'' \<or> ended then (None, counts1, w1)
                 else relay_loop parse rest counts1 w1)"
  by pat_completeness auto
termination
  by (relation "measure (\<lambda>(_, s, _). length s)") (auto dest: ReadString_shorter[OF sym])

declare relay_loop.simps [simp del]

definition WriteStreamCompletion :: "upstream \<Rightarrow> route_catalog \<Rightarrow> api_key \<Rightarrow> string \<Rightarrow> writer \<Rightarrow> string \<Rightarrow> int \<Rightarrow>
  svc \<Rightarrow> (int \<times> string \<times> err option) \<times> writer \<times> svc" where
  "WriteStreamCompletion env cat key rawReq w requestID now v =
     (case forward env cat key rawReq requestID v of
        (Inl e, v1) \<Rightarrow> ((0, [], Some e), w, v1)
      | (Inr (route, resp), v1) \<Rightarrow>
          let ct = (if rs_content_type resp = [] then ''text/event-stream'' else rs_content_type resp) in
          if 300 \<le> rs_status resp then ((rs_status resp, ct, None), copy_to (rs_chunks resp) w, v1)
          else
            case relay_loop (up_parse env) (concat (rs_chunks resp)) (0, 0) w of (werr, counts, w1) \<Rightarrow>
              ((case werr of Some e \<Rightarrow> (0, ct, Some e) | None \<Rightarrow> (200, ct, None)), w1,
               meter_and_settle key (mr_model_alias route) counts (body_of env rawReq) requestID now v1))"

section \<open>The handler\<close>

text \<open>
  What a handler answers: an error, a complete response, or a stream that has already committed to
  status 200, with the text written to it and the error frame that ends it. A handler also asks for
  audit entries (action, resource, resource id, detail).
\<close>

datatype gw_reply =
    ErrReply int int string
  | DataReply int string string
  | StreamReply string "json option"

record gw_outcome =
  go_reply :: gw_reply
  go_audits :: "(string \<times> string \<times> string \<times> string) list"
  go_svc :: svc

definition response_Err :: "err \<Rightarrow> gw_reply" where
  "response_Err e = (case e of Http st c m \<Rightarrow> ErrReply st c m | _ \<Rightarrow> ErrReply 500 500 ''internal server error'')"

definition error_text :: "string \<Rightarrow> err \<Rightarrow> string" where
  "error_text driver e =
     (case e of Http _ _ m \<Rightarrow> m | Failure m \<Rightarrow> m | RecordNotFound \<Rightarrow> ''record not found'' | DbFault \<Rightarrow> driver)"

definition FormatInt :: "int \<Rightarrow> string" where
  "FormatInt i = (if i < 0 then CHR ''-'' # nat_digits (nat (- i)) else nat_digits (nat i))"

definition setGatewayQuotaHeaders :: "quota_result \<Rightarrow> (string \<times> string) list" where
  "setGatewayQuotaHeaders quota =
     (if \<not> qr_enabled quota then []
      else (if qr_token_enabled quota then [(''X-Quota-Remaining'', FormatInt (qr_remaining quota))] else []) @
        (if qr_request_enabled quota
         then [(''X-Quota-Requests-Remaining'', FormatInt (qr_remaining_requests quota))] else []))"

definition gatewayModelName :: "upstream \<Rightarrow> string \<Rightarrow> string" where
  "gatewayModelName env raw = fst (unmarshal model_field [] (body_json (body_of env raw)))"

definition gatewayStreamError :: "err \<Rightarrow> json" where
  "gatewayStreamError e =
     (let (c, m) = (case e of Http _ c m \<Rightarrow> (c, m) | _ \<Rightarrow> (0, ''gateway request failed'')) in
      JObj [(''error'', JObj [(''code'', JInt c), (''message'', JStr m), (''type'', JStr ''gateway_error'')])])"

text \<open>\<open>driver\<close> is the text of an error of the database driver.\<close>

definition gatewayModelRoute :: "string \<Rightarrow> upstream \<Rightarrow> route_catalog \<Rightarrow> api_key \<Rightarrow> string \<Rightarrow> bool \<Rightarrow>
  err option list \<Rightarrow> string \<Rightarrow> idem_state \<Rightarrow> int \<Rightarrow> svc \<Rightarrow> gw_outcome" where
  "gatewayModelRoute driver env cat key raw stream wfaults requestID state now v =
     (if stream then
        (case WriteStreamCompletion env cat key raw \<lparr>wr_captured = [], wr_faults = wfaults\<rparr> requestID now v of
           ((_, _, Some e), w, v1) \<Rightarrow>
             \<lparr>go_reply = StreamReply (wr_captured w) (Some (gatewayStreamError e)),
              go_audits = [(''gateway.stream_error'', ''chat'', gatewayModelName env raw, error_text driver e)],
              go_svc = FailGatewayIdempotency (Some state) requestID (error_text driver e) now v1\<rparr>
         | ((_, _, None), w, v1) \<Rightarrow>
             \<lparr>go_reply = StreamReply (wr_captured w) None, go_audits = [],
              go_svc = CompleteGatewayIdempotency (Some state) requestID (wr_captured w) now v1\<rparr>)
      else
        (case ChatCompletion env cat key raw requestID now v of
           (Inl e, v1) \<Rightarrow>
             \<lparr>go_reply = response_Err e, go_audits = [],
              go_svc = FailGatewayIdempotency (Some state) requestID (error_text driver e) now v1\<rparr>
         | (Inr res, v1) \<Rightarrow>
             \<lparr>go_reply = DataReply (cr_status res) ''application/json'' (cr_body res),
              go_audits = [(''gateway.chat'', ''chat'', gatewayModelName env raw, [])],
              go_svc = CompleteGatewayIdempotency (Some state) requestID (cr_body res) now v1\<rparr>))"

definition gatewayIdempotencyReplay :: "string \<Rightarrow> idem_state \<Rightarrow> gw_reply" where
  "gatewayIdempotencyReplay path state =
     (case is_record state of
        None \<Rightarrow> response_Err (Http 502 50240 ''idempotency replay unavailable'')
      | Some r \<Rightarrow>
          if i_status r = IdempotencyInProgress then response_Err (Http 409 40981 ''IDEMPOTENCY_IN_PROGRESS'')
          else if i_status r = IdempotencyExpired then response_Err (Http 409 40982 ''idempotency record expired'')
          else if i_status r = IdempotencyFailed \<or> i_response_ref r = []
          then response_Err (Http 502 50241 ''idempotent request previously failed'')
          else if HasPrefix path ''/api/v1/chat/completions'' \<and> Contains (i_response_ref r) (CHR 0x0A # ''data:'')
          then StreamReply (i_response_ref r) None
          else DataReply 200 ''application/json'' (i_response_ref r))"

end
