(* ===== verification/Gateway_Chat_Props.thy ===== *)
theory Gateway_Chat_Props
  imports Gateway_Chat
begin

text \<open>
  What forwarding does with the reservation and the retry ledger: a complete response settles the
  reservation on every path, a stream settles it unless the provider refuses it, and a refused
  request is replayed as a success.
\<close>

section \<open>Reads and settlements on a healthy database\<close>

lemma catalog_read_healthy [simp]: "healthy v \<Longrightarrow> catalog_read x v = (Inr x, v)"
  by (cases v; cases "svc_db v") (auto simp: catalog_read_def call_def healthy_def)

lemma pin_healthy: "healthy v \<Longrightarrow> snd (ValidateEnterpriseModelRoutePin parse cat route v) = v"
  by (simp add: ValidateEnterpriseModelRoutePin_def GetModelRouteEnterprisePin_def
      GetEnterpriseConnection_def GetEnterpriseConnectionVersion_def GetEnterpriseBinding_def
      GetEnterpriseBindingVersion_def split: option.splits)

lemma resolveRoute_healthy:
  assumes "healthy v"
  shows "snd (resolveRoute parse cat t raw v) = v"
proof -
  define P where "P route = fst (ValidateEnterpriseModelRoutePin parse cat route v)" for route
  have P: "ValidateEnterpriseModelRoutePin parse cat route v = (P route, v)" for route
    using pin_healthy [OF assms] by (simp add: P_def prod_eq_iff)
  obtain name ok where u: "unmarshal model_field [] (body_json raw) = (name, ok)" by fastforce
  show ?thesis using assms
    by (simp add: resolveRoute_def ListModelRoutes_def GetModelProvider_def P u
        split: bool.split option.split sum.split)
qed

definition limited :: "api_key \<Rightarrow> bool" where
  "limited key \<longleftrightarrow> 0 < k_token_quota key \<or> 0 < k_request_quota key"

lemma release_healthy:
  assumes "healthy v" "limited key"
  shows "ReleaseGatewayQuotaWithBucket key r v = v\<lparr>svc_db :=
    (ReleaseQuotaBucketReservation_tx r (ReleaseQuotaReservation_tx r (store_of v)), [])\<rparr>"
  using assms by (cases "svc_db v") (auto simp: ReleaseGatewayQuotaWithBucket_def ReleaseGatewayQuota_def
      ReleaseTenantBucketQuota_def ReleaseQuotaReservation_def ReleaseQuotaBucketReservation_def
      limited_def healthy_def call_def)

lemma finalize_healthy:
  assumes "healthy v" "limited key"
  shows "FinalizeGatewayQuotaWithBucket key r n v = v\<lparr>svc_db :=
    (FinalizeQuotaBucketReservation_tx r n (FinalizeQuotaReservation_tx r n (store_of v)), [])\<rparr>"
  using assms by (cases "svc_db v") (auto simp: FinalizeGatewayQuotaWithBucket_def FinalizeGatewayQuota_def
      FinalizeTenantBucketQuota_def FinalizeQuotaReservation_def FinalizeQuotaBucketReservation_def
      limited_def healthy_def call_def)

text \<open>What the forwarding leaves of the reservation of a request and of the rest of the tables.\<close>

definition key_status :: "string \<Rightarrow> svc \<Rightarrow> resv_status option" where
  "key_status r v = map_option r_status (row_at r_request_id r (quota_reservations (store_of v)))"

definition bucket_status :: "string \<Rightarrow> svc \<Rightarrow> resv_status option" where
  "bucket_status r v = map_option br_status (row_at br_request_id r (quota_bucket_reservations (store_of v)))"

lemma tx_frames [simp]:
  "quota_bucket_reservations (ReleaseQuotaReservation_tx r s) = quota_bucket_reservations s"
  "quota_bucket_reservations (FinalizeQuotaReservation_tx r n s) = quota_bucket_reservations s"
  "quota_reservations (ReleaseQuotaBucketReservation_tx r s) = quota_reservations s"
  "quota_reservations (FinalizeQuotaBucketReservation_tx r n s) = quota_reservations s"
  "gateway_idempotencies (ReleaseQuotaReservation_tx r s) = gateway_idempotencies s"
  "gateway_idempotencies (FinalizeQuotaReservation_tx r n s) = gateway_idempotencies s"
  "gateway_idempotencies (ReleaseQuotaBucketReservation_tx r s) = gateway_idempotencies s"
  "gateway_idempotencies (FinalizeQuotaBucketReservation_tx r n s) = gateway_idempotencies s"
  by (simp_all add: ReleaseQuotaReservation_tx_def FinalizeQuotaReservation_tx_def
      ReleaseQuotaBucketReservation_tx_def FinalizeQuotaBucketReservation_tx_def split: option.split)

lemma release_tx_status:
  "map_option r_status (row_at r_request_id r (quota_reservations (ReleaseQuotaReservation_tx r s))) =
    (case row_at r_request_id r (quota_reservations s) of None \<Rightarrow> None
     | Some row \<Rightarrow> Some (if r_status row = QuotaReservationPending then QuotaReservationReleased else r_status row))"
  "map_option br_status (row_at br_request_id r (quota_bucket_reservations (ReleaseQuotaBucketReservation_tx r s))) =
    (case row_at br_request_id r (quota_bucket_reservations s) of None \<Rightarrow> None
     | Some row \<Rightarrow> Some (if br_status row = QuotaReservationPending then QuotaReservationReleased else br_status row))"
  by (auto simp: ReleaseQuotaReservation_tx_def ReleaseQuotaBucketReservation_tx_def row_at_update
      split: option.splits dest: row_at_SomeD)

lemma finalize_tx_status:
  "map_option r_status (row_at r_request_id r (quota_reservations (FinalizeQuotaReservation_tx r n s))) =
    (case row_at r_request_id r (quota_reservations s) of None \<Rightarrow> None
     | Some row \<Rightarrow> Some (if r_status row = QuotaReservationPending \<and> r_applied row
         then QuotaReservationFinalized else r_status row))"
  "map_option br_status (row_at br_request_id r (quota_bucket_reservations (FinalizeQuotaBucketReservation_tx r n s))) =
    (case row_at br_request_id r (quota_bucket_reservations s) of None \<Rightarrow> None
     | Some row \<Rightarrow> Some (if br_status row = QuotaReservationPending \<and> br_applied row
         then QuotaReservationFinalized else br_status row))"
  by (auto simp: FinalizeQuotaReservation_tx_def FinalizeQuotaBucketReservation_tx_def row_at_update
      split: option.splits dest: row_at_SomeD)

text \<open>
  A request holds its reservation if the rows with its id are pending and applied; \<open>settled_as\<close>
  compares the rows before and after.
\<close>

definition reserved :: "api_key \<Rightarrow> string \<Rightarrow> svc \<Rightarrow> bool" where
  "reserved key r v \<longleftrightarrow>
     (case row_at r_request_id r (quota_reservations (store_of v)) of None \<Rightarrow> True
      | Some row \<Rightarrow> limited key \<and> r_status row = QuotaReservationPending \<and> r_applied row) \<and>
     (case row_at br_request_id r (quota_bucket_reservations (store_of v)) of None \<Rightarrow> True
      | Some row \<Rightarrow> br_status row = QuotaReservationPending \<and> br_applied row)"

definition settled_as :: "resv_status \<Rightarrow> string \<Rightarrow> svc \<Rightarrow> svc \<Rightarrow> bool" where
  "settled_as st r v v' \<longleftrightarrow>
     key_status r v' = map_option (\<lambda>_. st) (key_status r v) \<and>
     bucket_status r v' = map_option (\<lambda>_. st) (bucket_status r v)"

lemmas status_defs = settled_as_def key_status_def bucket_status_def

lemma reserved_pending: "reserved key r v \<Longrightarrow> settled_as QuotaReservationPending r v v"
  by (auto simp: reserved_def status_defs split: option.splits)

lemma emit_frames [simp]: "reserved key r (emit a b c v) = reserved key r v"
  "settled_as st r (emit a b c v) v' = settled_as st r v v'"
  by (simp_all add: reserved_def status_defs)

lemma tx_absent [simp]:
  "row_at r_request_id r (quota_reservations s) = None \<Longrightarrow> ReleaseQuotaReservation_tx r s = s"
  "row_at r_request_id r (quota_reservations s) = None \<Longrightarrow> FinalizeQuotaReservation_tx r n s = s"
  by (simp_all add: ReleaseQuotaReservation_tx_def FinalizeQuotaReservation_tx_def)

lemma unlimited_settle:
  assumes "healthy v" "\<not> limited key"
  shows "ReleaseGatewayQuotaWithBucket key r v = v\<lparr>svc_db := (ReleaseQuotaBucketReservation_tx r (store_of v), [])\<rparr>"
    "FinalizeGatewayQuotaWithBucket key r n v = v\<lparr>svc_db := (FinalizeQuotaBucketReservation_tx r n (store_of v), [])\<rparr>"
  using assms by (cases "svc_db v"; auto simp: ReleaseGatewayQuotaWithBucket_def ReleaseGatewayQuota_def
      FinalizeGatewayQuotaWithBucket_def FinalizeGatewayQuota_def FinalizeTenantBucketQuota_def
      ReleaseTenantBucketQuota_def ReleaseQuotaBucketReservation_def FinalizeQuotaBucketReservation_def
      limited_def healthy_def call_def)+

lemma release_settles:
  assumes "healthy v" "reserved key r v"
  shows "settled_as QuotaReservationReleased r v (ReleaseGatewayQuotaWithBucket key r v)"
    "healthy (ReleaseGatewayQuotaWithBucket key r v)"
    "gateway_idempotencies (store_of (ReleaseGatewayQuotaWithBucket key r v)) = gateway_idempotencies (store_of v)"
  using assms by (cases "limited key"; auto simp: release_healthy unlimited_settle status_defs release_tx_status
      reserved_def split: option.splits)+

lemma finalize_settles:
  assumes "healthy v" "reserved key r v"
  shows "settled_as QuotaReservationFinalized r v (FinalizeGatewayQuotaWithBucket key r n v)"
    "healthy (FinalizeGatewayQuotaWithBucket key r n v)"
    "gateway_idempotencies (store_of (FinalizeGatewayQuotaWithBucket key r n v)) = gateway_idempotencies (store_of v)"
  using assms by (cases "limited key"; auto simp: finalize_healthy unlimited_settle status_defs finalize_tx_status
      reserved_def split: option.splits)+

text \<open>Metering writes its own tables only.\<close>

definition same_ledgers :: "svc \<Rightarrow> svc \<Rightarrow> bool" where
  "same_ledgers v v' \<longleftrightarrow>
     quota_reservations (store_of v') = quota_reservations (store_of v) \<and>
     quota_bucket_reservations (store_of v') = quota_bucket_reservations (store_of v) \<and>
     gateway_idempotencies (store_of v') = gateway_idempotencies (store_of v)"

lemma same_ledgersD:
  assumes "same_ledgers v v'"
  shows "reserved key r v' = reserved key r v" "settled_as st r v' v'' = settled_as st r v v''"
    "gateway_idempotencies (store_of v') = gateway_idempotencies (store_of v)"
  using assms by (simp_all add: same_ledgers_def reserved_def status_defs)

lemma record_usage_frame:
  assumes "healthy v"
  shows "healthy (snd (call (RecordUsage u) v)) \<and> same_ledgers v (snd (call (RecordUsage u) v))"
  using assms by (cases "svc_db v") (auto simp: RecordUsage_def RecordUsage_tx_def call_def healthy_def
      same_ledgers_def Let_def split: prod.splits)

lemma cost_metric_frame:
  assumes "healthy v"
  shows "healthy (writeCostMetric key a b i j r e now v) \<and> same_ledgers v (writeCostMetric key a b i j r e now v)"
  using assms by (cases "svc_db v") (auto simp: writeCostMetric_def RecordCostMetric_def RecordCostMetric_tx_def
      call_def healthy_def same_ledgers_def Let_def split: prod.splits)

lemma meter_settles:
  assumes "healthy v" "reserved key r v"
  shows "settled_as QuotaReservationFinalized r v (meter_and_settle key a c b r now v)"
    "healthy (meter_and_settle key a c b r now v)"
    "gateway_idempotencies (store_of (meter_and_settle key a c b r now v)) = gateway_idempotencies (store_of v)"
proof -
  define est where "est \<longleftrightarrow> wrap64 (fst c + snd c) = 0"
  obtain i j where ij: "(if est then (estimateRequestTokens b, 64) else c) = (i, j)" by fastforce
  have m: "meter_and_settle key a c b r now v =
      FinalizeGatewayQuotaWithBucket key r (wrap64 (i + j)) (writeCostMetric key a ''chat'' i j r est now
        (snd (call (RecordUsage (new_usage key r i j est now)) v)))"
    unfolding meter_and_settle_def est_def [symmetric] ij Let_def by (simp add: split_beta)
  define v1 where "v1 = snd (call (RecordUsage (new_usage key r i j est now)) v)"
  define v2 where "v2 = writeCostMetric key a ''chat'' i j r est now v1"
  have h: "healthy v1" "healthy v2" "same_ledgers v v1" "same_ledgers v1 v2"
    using assms record_usage_frame cost_metric_frame by (simp_all add: v1_def v2_def)
  have r2: "reserved key r v2" using assms(2) h(3,4) by (simp add: same_ledgersD)
  show "settled_as QuotaReservationFinalized r v (meter_and_settle key a c b r now v)"
    "healthy (meter_and_settle key a c b r now v)"
    "gateway_idempotencies (store_of (meter_and_settle key a c b r now v)) = gateway_idempotencies (store_of v)"
    unfolding m v1_def [symmetric] v2_def [symmetric]
    using finalize_settles [OF h(2) r2, of "wrap64 (i + j)"] same_ledgersD [OF h(3)] same_ledgersD [OF h(4)]
    by simp_all
qed

lemma forward_settles:
  assumes "healthy v" "reserved key r v" "forward env cat key raw r v = (res, v')"
  shows "healthy v' \<and> gateway_idempotencies (store_of v') = gateway_idempotencies (store_of v) \<and>
    (case res of Inl _ \<Rightarrow> settled_as QuotaReservationReleased r v v' | Inr _ \<Rightarrow> v' = v)"
proof -
  obtain ro where ro: "resolveRoute (up_parse env) cat (k_tenant_id key) (body_of env raw) v = (ro, v)"
    using resolveRoute_healthy [OF assms(1)] by (metis prod.collapse)
  have e: "healthy (emit a b c v)" "reserved key r (emit a b c v)" for a b c using assms by simp_all
  show ?thesis using assms(3) assms(1) release_settles [OF assms(1,2)] release_settles [OF e]
    by (auto simp: forward_def ro Let_def split: sum.splits option.splits)
qed

section \<open>Settlement\<close>

text \<open>
  C22: A complete response settles the reservation on every path. On a healthy database, for a
  request that holds its reservation, whatever the routing tables, the provider and the network do,
  \<^verbatim>\<open>ChatCompletion\<close> leaves the reservations of the request in both ledgers finalized if the provider
  answered with a status below 300 and released otherwise.
\<close>

theorem chat_completion_settles_reservation:
  assumes "healthy v" and "reserved key r v"
    and "ChatCompletion env cat key raw r now v = (res, v')"
  shows "settled_as (case res of Inl _ \<Rightarrow> QuotaReservationReleased
     | Inr c \<Rightarrow> if cr_status c < 300 then QuotaReservationFinalized else QuotaReservationReleased) r v v'"
proof -
  obtain f v1 where f: "forward env cat key raw r v = (f, v1)" by fastforce
  note fs = forward_settles [OF assms(1,2) f]
  show ?thesis
  proof (cases f)
    case (Inl e)
    then show ?thesis using fs assms(3) by (auto simp: ChatCompletion_def f)
  next
    case (Inr p)
    then have "v1 = v" using fs by simp
    then show ?thesis using Inr assms(3) release_settles(1) [OF assms(1,2)]
      by (auto simp: ChatCompletion_def f recordUsage_def Let_def meter_settles(1) [OF assms(1,2)]
          split: prod.splits if_splits)
  qed
qed

definition demo_catalog :: route_catalog where
  "demo_catalog = \<lparr>
     model_routes = [\<lparr>mr_id = ''r1'', mr_tenant_id = ''t1'', mr_provider_id = ''p1'', mr_scenario = ''chat'',
       mr_model_alias = ''m'', mr_target_model = ''gpt'', mr_enabled = True, mr_current_pin_id = [],
       mr_current_pin_version = 0, mr_created_at = 0\<rparr>],
     model_providers = [\<lparr>mp_id = ''p1'', mp_tenant_id = ''t1'', mp_base_url = ''http://up/'',
       mp_api_key_enc = EncodeToString (replicate 16 (CHR ''x'')), mp_enabled = True\<rparr>],
     route_pins = [], ent_connections = [], ent_connection_versions = [], ent_bindings = [],
     ent_binding_versions = [], agent_shadows = [], search_app_shadows = []\<rparr>"

definition demo_upstream :: "int \<Rightarrow> upstream" where
  "demo_upstream st = \<lparr>up_parse = (\<lambda>_. Some (JObj [(''model'', JStr ''m'')])),
     up_cipher = \<lparr>aead_seal = (\<lambda>_ _ p. p), aead_open = (\<lambda>_ _ d. Some d)\<rparr>,
     up_encrypt_key = replicate 32 (CHR ''k''), up_new_request = (\<lambda>_. None),
     up_do = (\<lambda>_ _ _. Some \<lparr>rs_status = st, rs_content_type = [], rs_chunks = [''busy''], rs_complete = True\<rparr>)\<rparr>"

definition demo_reserved :: svc where
  "demo_reserved = demo_svc\<lparr>svc_db := (empty_store\<lparr>quota_reservations :=
     [(new_reservation demo_key ''req-1'' ''2026-02'' 70 demo_now)\<lparr>r_applied := True\<rparr>]\<rparr>, [])\<rparr>"

lemma demo_reserved_holds: "healthy demo_reserved" "reserved demo_key ''req-1'' demo_reserved"
  "key_status ''req-1'' demo_reserved = Some QuotaReservationPending"
  by (simp_all add: demo_reserved_def healthy_def reserved_def limited_def demo_key_def empty_store_def
      new_reservation_def key_status_def)

lemma demo_forward:
  "\<exists>route. forward (demo_upstream st) demo_catalog demo_key ''x'' ''req-1'' demo_reserved =
     (Inr (route, \<lparr>rs_status = st, rs_content_type = [], rs_chunks = [''busy''], rs_complete = True\<rparr>), demo_reserved)"
  by (simp add: forward_def demo_upstream_def demo_catalog_def resolveRoute_def ListModelRoutes_def
      GetModelProvider_def ValidateEnterpriseModelRoutePin_def body_of_def unmarshal_def model_field_def ToLower_def
      to_lower_char_def decode_string_def demo_reserved_holds(1) sql_first_def Decrypt_def
      DecodeString_EncodeToString unmarshal_envelope_def demo_key_def)

theorem chat_completion_settles_reservation_witness:
  "settled_as QuotaReservationReleased ''req-1'' demo_reserved
     (snd (ChatCompletion (demo_upstream 503) demo_catalog demo_key ''x'' ''req-1'' demo_now demo_reserved)) \<and>
   key_status ''req-1'' demo_reserved = Some QuotaReservationPending"
proof -
  obtain res v' where c: "ChatCompletion (demo_upstream 503) demo_catalog demo_key ''x'' ''req-1'' demo_now
    demo_reserved = (res, v')" by fastforce
  moreover have "res = Inr \<lparr>cr_status = 503, cr_body = ''busy''\<rparr>"
    using c demo_forward [of 503] by (auto simp: ChatCompletion_def)
  ultimately show ?thesis
    using chat_completion_settles_reservation [OF demo_reserved_holds(1,2) c] demo_reserved_holds(3) by simp
qed

text \<open>
  A refused stream keeps its reservation. On a healthy database \<^verbatim>\<open>WriteStreamCompletion\<close> leaves
  the reservations of the request released if it failed before the provider answered, finalized if
  the stream was relayed, also if the client went away, and still pending if the provider answered
  with a status of 300 or more: then nothing settles them and they count against the budget until
  the stale sweep.
\<close>

theorem refused_stream_keeps_reservation:
  assumes "healthy v" and "reserved key r v"
    and "WriteStreamCompletion env cat key raw w r now v = ((st, ct, e), w', v')"
  shows "settled_as (if 300 \<le> st then QuotaReservationPending
     else if ct = [] then QuotaReservationReleased else QuotaReservationFinalized) r v v'"
proof -
  obtain f v1 where f: "forward env cat key raw r v = (f, v1)" by fastforce
  note fs = forward_settles [OF assms(1,2) f]
  show ?thesis
  proof (cases f)
    case (Inl e)
    then show ?thesis using fs assms(3) by (simp add: WriteStreamCompletion_def f)
  next
    case (Inr p)
    then have "v1 = v" using fs by simp
    then show ?thesis using Inr assms(3) reserved_pending [OF assms(2)] meter_settles(1) [OF assms(1,2)]
      by (auto simp: WriteStreamCompletion_def f Let_def split: prod.splits if_splits option.splits)
  qed
qed

theorem refused_stream_keeps_reservation_witness:
  "settled_as QuotaReservationPending ''req-1'' demo_reserved
     (snd (snd (WriteStreamCompletion (demo_upstream 503) demo_catalog demo_key ''x''
        \<lparr>wr_captured = [], wr_faults = []\<rparr> ''req-1'' demo_now demo_reserved))) \<and>
   key_status ''req-1'' demo_reserved = Some QuotaReservationPending"
proof -
  obtain st ct e w' v' where c: "WriteStreamCompletion (demo_upstream 503) demo_catalog demo_key ''x''
      \<lparr>wr_captured = [], wr_faults = []\<rparr> ''req-1'' demo_now demo_reserved = ((st, ct, e), w', v')"
    by (metis prod.exhaust)
  moreover have "st = 503"
    using c demo_forward [of 503] by (auto simp: WriteStreamCompletion_def Let_def)
  ultimately show ?thesis
    using refused_stream_keeps_reservation [OF demo_reserved_holds(1,2) c] demo_reserved_holds(3) by simp
qed

section \<open>The retry ledger after a refusal\<close>

lemma chat_keeps_retries:
  assumes "healthy v" and "reserved key r v" and "ChatCompletion env cat key raw r now v = (res, v')"
  shows "healthy v' \<and> gateway_idempotencies (store_of v') = gateway_idempotencies (store_of v)"
proof -
  obtain f v1 where f: "forward env cat key raw r v = (f, v1)" by fastforce
  note fs = forward_settles [OF assms(1,2) f]
  show ?thesis
  proof (cases f)
    case (Inl e)
    then show ?thesis using fs assms(3) by (auto simp: ChatCompletion_def f)
  next
    case (Inr p)
    then have "v1 = v" using fs by simp
    then show ?thesis using Inr assms(3) release_settles(2,3) [OF assms(1,2)]
      by (auto simp: ChatCompletion_def f recordUsage_def Let_def meter_settles(2,3) [OF assms(1,2)]
          split: prod.splits if_splits)
  qed
qed

lemma complete_healthy:
  assumes "healthy v" and "is_record st = Some row" and "\<not> is_replayed st"
    and "row_at i_id (i_id row) (gateway_idempotencies (store_of v)) = Some row"
    and "i_request_id row = r" and "i_status row = IdempotencyInProgress"
  shows "row_at i_id (i_id row) (gateway_idempotencies (store_of (CompleteGatewayIdempotency (Some st) r ref now v))) =
    Some (row\<lparr>i_status := IdempotencyCompleted, i_response_ref := ref, i_completed_at := Some now\<rparr>)"
  using assms by (cases "svc_db v") (auto simp: CompleteGatewayIdempotency_def store_CompleteGatewayIdempotency_def
      settle_idempotency_tx_def healthy_def call_def row_at_update)

text \<open>
  C23: A refusal is replayed as a success. If the provider refuses a request that carries an
  idempotency key, the client gets the status and the text of the refusal, but the retry ledger
  records the text as a completed response: before the entry expires every retry with the same
  content is answered from it with status 200.
\<close>

theorem refusal_is_replayed_as_success:
  assumes "healthy v" and "reserved key r v"
    and "ChatCompletion env cat key raw r now v = (Inr c, v1)" and "300 \<le> cr_status c"
    and "cr_body c \<noteq> []" and "\<not> Contains (cr_body c) (CHR 0x0A # ''data:'')"
    and "is_record st = Some row" and "\<not> is_replayed st"
    and "row_at i_id (i_id row) (gateway_idempotencies (store_of v)) = Some row"
    and "i_request_id row = r" and "i_status row = IdempotencyInProgress" and "later \<le> i_expires_at row"
  shows "go_reply (gatewayModelRoute driver env cat key raw False [] r st now v) =
      DataReply (cr_status c) ''application/json'' (cr_body c) \<and>
    (\<exists>row' st'. row_at i_id (i_id row) (gateway_idempotencies (store_of
         (go_svc (gatewayModelRoute driver env cat key raw False [] r st now v)))) = Some row' \<and>
       resolve_existing (i_request_fingerprint row) later row' = Inr st' \<and> is_replayed st' \<and>
       gatewayIdempotencyReplay path st' = DataReply 200 ''application/json'' (cr_body c))"
proof -
  have h: "healthy v1" "row_at i_id (i_id row) (gateway_idempotencies (store_of v1)) = Some row"
    using chat_keeps_retries [OF assms(1-3)] assms(9) by simp_all
  show ?thesis
    using complete_healthy [OF h(1) assms(7,8) h(2) assms(10,11), of "cr_body c" now] assms(5,6,12)
    by (simp add: gatewayModelRoute_def assms(3) resolve_existing_def gatewayIdempotencyReplay_def)
qed

definition demo_retry :: gateway_idempotency where
  "demo_retry = new_idempotency ''i1'' demo_key ''retry-1'' ''fp'' ''req-1'' demo_now"

definition demo_retrying :: svc where
  "demo_retrying = demo_reserved\<lparr>svc_db := ((store_of demo_reserved)\<lparr>gateway_idempotencies := [demo_retry]\<rparr>, [])\<rparr>"

lemma demo_retrying_holds: "healthy demo_retrying" "reserved demo_key ''req-1'' demo_retrying"
  "row_at i_id ''i1'' (gateway_idempotencies (store_of demo_retrying)) = Some demo_retry"
  using demo_reserved_holds by (simp_all add: demo_retrying_def reserved_def demo_retry_def new_idempotency_def)

lemma demo_chat_retrying:
  "\<exists>v1. ChatCompletion (demo_upstream 503) demo_catalog demo_key ''x'' ''req-1'' demo_now demo_retrying =
     (Inr \<lparr>cr_status = 503, cr_body = ''busy''\<rparr>, v1)"
  by (simp add: ChatCompletion_def forward_def demo_upstream_def demo_catalog_def resolveRoute_def ListModelRoutes_def
      GetModelProvider_def ValidateEnterpriseModelRoutePin_def body_of_def unmarshal_def model_field_def ToLower_def
      to_lower_char_def decode_string_def demo_retrying_holds(1) sql_first_def Decrypt_def
      DecodeString_EncodeToString unmarshal_envelope_def demo_key_def)

theorem refusal_is_replayed_as_success_witness:
  "go_reply (gatewayModelRoute ''db'' (demo_upstream 503) demo_catalog demo_key ''x'' False [] ''req-1''
     \<lparr>is_record = Some demo_retry, is_replayed = False\<rparr> demo_now demo_retrying) = DataReply 503 ''application/json'' ''busy'' \<and>
   (\<exists>row' st'. row_at i_id ''i1'' (gateway_idempotencies (store_of (go_svc (gatewayModelRoute ''db''
       (demo_upstream 503) demo_catalog demo_key ''x'' False [] ''req-1''
       \<lparr>is_record = Some demo_retry, is_replayed = False\<rparr> demo_now demo_retrying)))) = Some row' \<and>
     resolve_existing ''fp'' demo_now row' = Inr st' \<and> is_replayed st' \<and>
     gatewayIdempotencyReplay ''/api/v1/chat/completions'' st' = DataReply 200 ''application/json'' ''busy'')"
proof -
  obtain v1 where c: "ChatCompletion (demo_upstream 503) demo_catalog demo_key ''x'' ''req-1'' demo_now demo_retrying =
     (Inr \<lparr>cr_status = 503, cr_body = ''busy''\<rparr>, v1)" using demo_chat_retrying by blast
  show ?thesis
    using refusal_is_replayed_as_success [OF demo_retrying_holds(1,2) c,
        of "\<lparr>is_record = Some demo_retry, is_replayed = False\<rparr>" demo_retry demo_now "''db''" "''/api/v1/chat/completions''"]
      demo_retrying_holds(3)
    by (simp add: demo_retry_def new_idempotency_def nanos_per_day_def)
qed

end
