(* ===== verification/Sessions_Props.thy ===== *)
theory Sessions_Props
  imports Sessions
begin

text \<open>
  What sessions guarantee: a refresh token is exchanged at most once and never after a logout,
  whatever requests race, and failed logins of a source are bounded until one of its logins
  succeeds.
\<close>

section \<open>Racing refreshes\<close>

text \<open>
  Requests of any number of clients on one database. A refresh that has read and checked its token
  waits (\<open>rn_waiting\<close>) until it claims it, in a state that other requests may have changed since; a
  request that died after its check just never claims. Every call may meet faults. Between the calls
  users and tenants change in any way. The log records exchanges and logouts in their order.
\<close>

datatype sess_event = Exchanged string | LoggedOut string

record sess_run =
  rn_store :: sess_store
  rn_waiting :: "(refresh_token \<times> user) list"
  rn_log :: "sess_event list"

inductive sess_step :: "jwt_lib \<Rightarrow> jwt_manager \<Rightarrow> (string \<Rightarrow> string) \<Rightarrow> sess_run \<Rightarrow> sess_run \<Rightarrow> bool"
  for lib jm sha where
  step_check: "refresh_check lib jm sha token now (rn_store r, fs) = (Inr (st, u), s', fs') \<Longrightarrow>
    sess_step lib jm sha r (r\<lparr>rn_store := s', rn_waiting := (st, u) # rn_waiting r\<rparr>)"
| step_exchange: "(st, u) \<in> set (rn_waiting r) \<Longrightarrow>
    refresh_claim lib jm sha uuid st u now (rn_store r, fs) = (Inr res, s', fs') \<Longrightarrow>
    sess_step lib jm sha r (r\<lparr>rn_store := s', rn_log := rn_log r @ [Exchanged (rt_id st)]\<rparr>)"
| step_refused: "(st, u) \<in> set (rn_waiting r) \<Longrightarrow>
    refresh_claim lib jm sha uuid st u now (rn_store r, fs) = (Inl e, s', fs') \<Longrightarrow>
    sess_step lib jm sha r (r\<lparr>rn_store := s'\<rparr>)"
| step_login: "open_session lib jm sha uuid action u now (rn_store r, fs) = (res, s', fs') \<Longrightarrow>
    sess_step lib jm sha r (r\<lparr>rn_store := s'\<rparr>)"
| step_logout: "Logout lib jm sha token now (rn_store r, fs) = (Inr (), s', fs') \<Longrightarrow>
    row_at rt_token_hash (sha token) (refresh_tokens (rn_store r)) = Some st \<Longrightarrow>
    jwt_Parse lib jm now token = Some cl \<Longrightarrow> cl_typ cl = TokenRefresh \<Longrightarrow>
    sess_step lib jm sha r (r\<lparr>rn_store := s', rn_log := rn_log r @ [LoggedOut (rt_id st)]\<rparr>)"
| step_identity: "sess_step lib jm sha r (r\<lparr>rn_store := (rn_store r)\<lparr>se_ids := ids\<rparr>\<rparr>)"

inductive sess_reach :: "jwt_lib \<Rightarrow> jwt_manager \<Rightarrow> (string \<Rightarrow> string) \<Rightarrow> sess_run \<Rightarrow> bool" for lib jm sha where
  reach_init: "sess_reach lib jm sha \<lparr>rn_store = s, rn_waiting = [], rn_log = []\<rparr>"
| reach_step: "sess_reach lib jm sha r \<Longrightarrow> sess_step lib jm sha r r' \<Longrightarrow> sess_reach lib jm sha r'"

definition revoked :: "string \<Rightarrow> sess_store \<Rightarrow> bool" where
  "revoked i s \<longleftrightarrow> (\<exists>t\<in>set (refresh_tokens s). rt_id t = i) \<and>
     (\<forall>t\<in>set (refresh_tokens s). rt_id t = i \<longrightarrow> rt_revoked_at t \<noteq> None)"

text \<open>Transactions never bring a revoked token back.\<close>

definition keeps_revoked :: "sess_store \<Rightarrow> sess_store \<Rightarrow> bool" where
  "keeps_revoked s s' \<longleftrightarrow> (\<forall>i. revoked i s \<longrightarrow> revoked i s')"

lemma keeps_revoked_refl [simp]: "keeps_revoked s s"
  by (simp add: keeps_revoked_def)

lemma keeps_revoked_trans: "keeps_revoked s s1 \<Longrightarrow> keeps_revoked s1 s2 \<Longrightarrow> keeps_revoked s s2"
  by (simp add: keeps_revoked_def)

lemma create_keeps: "keeps_revoked s (snd (CreateRefreshToken_tx t s))"
  by (auto simp: keeps_revoked_def revoked_def CreateRefreshToken_tx_def)

lemma revoked_update: "revoked i (s\<lparr>refresh_tokens :=
    sql_update P (\<lambda>t. t\<lparr>rt_revoked_at := Some now\<rparr>) (refresh_tokens s)\<rparr>) \<longleftrightarrow>
    (\<exists>t\<in>set (refresh_tokens s). rt_id t = i) \<and>
    (\<forall>t\<in>set (refresh_tokens s). rt_id t = i \<longrightarrow> P t \<or> rt_revoked_at t \<noteq> None)"
  by (auto simp: revoked_def sql_update_def simp del: if_image_distrib)

lemma update_keeps: "keeps_revoked s (s\<lparr>refresh_tokens :=
    sql_update P (\<lambda>t. t\<lparr>rt_revoked_at := Some now\<rparr>) (refresh_tokens s)\<rparr>)"
  unfolding keeps_revoked_def revoked_update by (auto simp: revoked_def)

lemma tables_keep: "refresh_tokens s' = refresh_tokens s \<Longrightarrow> keeps_revoked s s'"
  by (simp add: keeps_revoked_def revoked_def)

lemma run_keeps:
  assumes "db_run body (s, fs) = (res, s', fs')" and "\<And>a s1. body s = (Inr a, s1) \<Longrightarrow> keeps_revoked s s1"
  shows "keeps_revoked s s'"
  using assms(1) by (rule db_run_cases) (use assms(2) in auto)

lemma Create_keeps: "CreateRefreshToken t (s, fs) = (res, s', fs') \<Longrightarrow> keeps_revoked s s'"
  unfolding CreateRefreshToken_def by (erule run_keeps) (metis create_keeps snd_conv)

lemma Revoke_keeps: "RevokeRefreshToken i now (s, fs) = (res, s', fs') \<Longrightarrow> keeps_revoked s s'"
  unfolding RevokeRefreshToken_def by (erule run_keeps) (auto simp: update_keeps)

lemma audit_keeps: "audit_auth action u (s, fs) = (res, s', fs') \<Longrightarrow> keeps_revoked s s'"
  unfolding audit_auth_def by (erule run_keeps) (auto intro: tables_keep)

lemma open_session_keeps:
  assumes "open_session lib jm sha uuid action u now (s, fs) = (res, s', fs')"
  shows "keeps_revoked s s'"
proof (cases "IssuePair lib jm uuid u now")
  case None
  then show ?thesis using assms by (simp add: open_session_def)
next
  case (Some p)
  obtain access refresh jti exp where p: "p = (access, refresh, jti, exp)" by (cases p)
  let ?t = "\<lparr>rt_id = jti, rt_user_id = us_id u, rt_tenant_id = us_tenant_id u,
     rt_token_hash = sha refresh, rt_expires_at = exp * nanos_per_sec, rt_revoked_at = None\<rparr>"
  obtain r1 s1 f1 where c: "CreateRefreshToken ?t (s, fs) = (r1, s1, f1)" by (metis prod.exhaust)
  obtain r2 s2 f2 where a: "audit_auth action u (s1, f1) = (r2, s2, f2)" by (metis prod.exhaust)
  obtain r3 s3 f3 where v: "RevokeRefreshToken jti now (s2, f2) = (r3, s3, f3)" by (metis prod.exhaust)
  have "s' \<in> {s1, s2, s3}"
    using assms by (cases r1; cases r2) (simp_all add: open_session_def Some p chk_def c a v)
  then show ?thesis
    using Create_keeps [OF c] keeps_revoked_trans [OF Create_keeps [OF c] audit_keeps [OF a]]
      keeps_revoked_trans [OF keeps_revoked_trans [OF Create_keeps [OF c] audit_keeps [OF a]] Revoke_keeps [OF v]]
    by blast
qed

lemma wp_on_ids_query [simp]: "wp (on_ids (query f)) Q E s \<longleftrightarrow> E s \<and> Q (f (se_ids s)) s"
proof -
  have e: "on_ids (query f) = query (\<lambda>s. f (se_ids s))"
    by (auto simp: fun_eq_iff on_ids_def query_eq split: prod.splits)
  show ?thesis unfolding e by simp
qed

lemma refresh_check_tokens:
  assumes "refresh_check lib jm sha token now (s, fs) = (res, s', fs')"
  shows "refresh_tokens s' = refresh_tokens s"
proof -
  have "wp (refresh_check lib jm sha token now) (\<lambda>_ s'. refresh_tokens s' = refresh_tokens s)
      (\<lambda>s'. refresh_tokens s' = refresh_tokens s) s"
    unfolding refresh_check_def FindRefreshTokenByHash_def require_active_tenant_def GetUser_def GetTenant_def
    by (auto intro!: wp_chk split: option.split)
  then show ?thesis using assms by (rule wp_result)
qed

lemma claim_cases:
  assumes "RevokeActiveRefreshToken i now (s, fs) = (res, s', fs')"
  shows "keeps_revoked s s'" "res = Inr True \<Longrightarrow> \<not> revoked i s \<and> revoked i s'"
proof -
  show "keeps_revoked s s'" using assms unfolding RevokeActiveRefreshToken_def
    by (rule run_keeps) (auto simp: update_keeps)
  assume "res = Inr True"
  with assms show "\<not> revoked i s \<and> revoked i s'" unfolding RevokeActiveRefreshToken_def
    by (elim db_run_cases) (auto simp: revoked_update, auto simp: revoked_def)
qed

lemma refresh_claim_cases:
  assumes "refresh_claim lib jm sha uuid st u now (s, fs) = (res, s', fs')"
  shows "keeps_revoked s s'" "res = Inr x \<Longrightarrow> \<not> revoked (rt_id st) s \<and> revoked (rt_id st) s'"
proof -
  obtain c s1 f1 where c: "RevokeActiveRefreshToken (rt_id st) now (s, fs) = (c, s1, f1)" by (metis prod.exhaust)
  show "keeps_revoked s s'"
    using assms claim_cases(1) [OF c] open_session_keeps
    by (auto simp: refresh_claim_def chk_def c split: sum.splits if_splits intro: keeps_revoked_trans)
  show "\<not> revoked (rt_id st) s \<and> revoked (rt_id st) s'" if "res = Inr x"
    using assms that claim_cases(2) [OF c] open_session_keeps
    by (auto simp: refresh_claim_def chk_def c keeps_revoked_def split: sum.splits if_splits)
qed

lemma logout_cases:
  assumes "Logout lib jm sha token now (s, fs) = (Inr (), s', fs')"
    and "row_at rt_token_hash (sha token) (refresh_tokens s) = Some st"
    and "jwt_Parse lib jm now token = Some cl" and "cl_typ cl = TokenRefresh"
  shows "keeps_revoked s s' \<and> revoked (rt_id st) s'"
proof -
  have "st \<in> set (refresh_tokens s)" using assms(2) row_at_SomeD by fastforce
  have "RevokeRefreshToken (rt_id st) now (s, tl fs) = (Inr (), s', fs')"
    using assms(1) by (simp add: Logout_def assms(2-4) chk_def FindRefreshTokenByHash_def query_eq split: if_splits)
  note r = this
  moreover have "revoked (rt_id st) s'"
    using r unfolding RevokeRefreshToken_def
    by (rule db_run_cases) (use \<open>st \<in> _\<close> in \<open>auto simp: revoked_update\<close>)
  ultimately show ?thesis using Revoke_keeps by blast
qed

definition spent :: "sess_event list \<Rightarrow> string set" where
  "spent es = {i. Exchanged i \<in> set es \<or> LoggedOut i \<in> set es}"

lemma spent_append [simp]: "spent (es @ [Exchanged i]) = insert i (spent es)"
  "spent (es @ [LoggedOut i]) = insert i (spent es)"
  by (auto simp: spent_def)

definition spent_once :: "sess_event list \<Rightarrow> bool" where
  "spent_once es \<longleftrightarrow> (\<forall>i xs ys. es = xs @ Exchanged i # ys \<longrightarrow> i \<notin> spent xs)"

lemma spent_once_append:
  assumes "spent_once es" and "\<And>i. e = Exchanged i \<Longrightarrow> i \<notin> spent es"
  shows "spent_once (es @ [e])"
  unfolding spent_once_def
proof (intro allI impI)
  fix i xs ys
  assume "es @ [e] = xs @ Exchanged i # ys"
  then show "i \<notin> spent xs" using assms by (cases ys rule: rev_cases) (auto simp: spent_once_def)
qed

definition sess_inv :: "sess_run \<Rightarrow> bool" where
  "sess_inv r \<longleftrightarrow> (\<forall>i\<in>spent (rn_log r). revoked i (rn_store r)) \<and> spent_once (rn_log r)"

lemma sess_step_inv: "sess_step lib jm sha r r' \<Longrightarrow> sess_inv r \<Longrightarrow> sess_inv r'"
proof (induction rule: sess_step.induct)
  case (step_check token now r fs st u s' fs')
  then show ?case using tables_keep [OF refresh_check_tokens [OF step_check(1)]]
    by (simp add: sess_inv_def keeps_revoked_def)
next
  case (step_exchange st u r uuid now fs res s' fs')
  have c: "keeps_revoked (rn_store r) s'" "\<not> revoked (rt_id st) (rn_store r)" "revoked (rt_id st) s'"
    using refresh_claim_cases [OF step_exchange(2)] by auto
  then show ?case using step_exchange(3)
    by (auto simp: sess_inv_def keeps_revoked_def intro: spent_once_append)
next
  case (step_refused st u r uuid now fs e s' fs')
  then show ?case using refresh_claim_cases(1) [OF step_refused(2)]
    by (simp add: sess_inv_def keeps_revoked_def)
next
  case (step_login uuid action u now r fs res s' fs')
  then show ?case using open_session_keeps [OF step_login(1)] by (simp add: sess_inv_def keeps_revoked_def)
next
  case (step_logout token now r fs s' fs' st cl)
  then show ?case using logout_cases [OF step_logout(1-4)]
    by (auto simp: sess_inv_def keeps_revoked_def intro: spent_once_append)
next
  case (step_identity r ids)
  then show ?case by (simp add: sess_inv_def revoked_def)
qed

lemma sess_reach_inv: "sess_reach lib jm sha r \<Longrightarrow> sess_inv r"
proof (induction rule: sess_reach.induct)
  case (reach_init s)
  then show ?case by (simp add: sess_inv_def spent_def spent_once_def)
qed (rule sess_step_inv)

text \<open>
  C25: A refresh token is exchanged at most once. However refreshes, logins, logouts and changes of
  users interleave, with faults anywhere, a refresh token that was exchanged for a new session or
  logged out is never exchanged afterwards, also not by a refresh that had checked the token
  before.
\<close>

theorem refresh_token_exchanged_once:
  assumes "sess_reach lib jm refreshTokenHash r" and "rn_log r = before @ Exchanged i # after"
  shows "Exchanged i \<notin> set before \<and> LoggedOut i \<notin> set before"
proof -
  have "spent_once (before @ Exchanged i # after)" using sess_reach_inv [OF assms(1)] assms(2)
    by (simp add: sess_inv_def)
  then show ?thesis by (auto simp: spent_once_def spent_def)
qed

definition demo_jwt :: jwt_lib where
  "demo_jwt = \<lparr>jl_sign = (\<lambda>_ c. Some (cl_typ c)),
     jl_verify = (\<lambda>_ _ t. Some \<lparr>cl_uid = ''u1'', cl_tid = ''t1'', cl_username = ''a'', cl_role = ''viewer'',
       cl_typ = TokenRefresh, cl_jti = t, cl_issued_at = 0, cl_expires_at = 0\<rparr>)\<rparr>"

definition demo_token :: "string \<Rightarrow> refresh_token" where
  "demo_token t = \<lparr>rt_id = t, rt_user_id = ''u1'', rt_tenant_id = ''t1'', rt_token_hash = t,
     rt_expires_at = 100, rt_revoked_at = None\<rparr>"

definition demo_session_user :: user where
  "demo_session_user = \<lparr>us_id = ''u1'', us_tenant_id = ''t1'', us_username = ''a'', us_password_hash = ''h'',
     us_email = [], us_role = ''viewer'', us_status = UserStatusActive\<rparr>"

definition demo_sessions :: sess_store where
  "demo_sessions = \<lparr>se_ids = \<lparr>tenants = [\<lparr>te_id = ''t1'', te_name = ''T'', te_status = TenantStatusActive\<rparr>],
     users = [demo_session_user], roles = [], user_roles = [], permissions = [], teams = [], user_teams = [],
     team_projects = [], project_members = []\<rparr>,
     refresh_tokens = [demo_token ''r0'', demo_token ''r1''], auth_audits = []\<rparr>"

definition demo_after_logout :: sess_store where
  "demo_after_logout = demo_sessions\<lparr>refresh_tokens := [(demo_token ''r0'')\<lparr>rt_revoked_at := Some 5\<rparr>, demo_token ''r1'']\<rparr>"

lemmas demo_session_defs = demo_jwt_def demo_token_def demo_session_user_def demo_sessions_def demo_after_logout_def

lemma demo_run:
  "\<exists>r. sess_reach demo_jwt (NewManager ''s'' 1) id r \<and> rn_log r = [LoggedOut ''r0'', Exchanged ''r1'']"
proof -
  let ?m = "NewManager ''s'' 1"
  have "Logout demo_jwt ?m id ''r0'' 5 (demo_sessions, []) = (Inr (), demo_after_logout, [])"
    by (simp add: Logout_def jwt_Parse_def chk_def FindRefreshTokenByHash_def RevokeRefreshToken_def
        demo_session_defs sql_update_def)
  note l = step_logout [of demo_jwt ?m id "''r0''" 5 "\<lparr>rn_store = demo_sessions, rn_waiting = [], rn_log = []\<rparr>" "[]"
      demo_after_logout "[]" "demo_token ''r0''", simplified, OF this]
  have "refresh_check demo_jwt ?m id ''r1'' 5 (demo_after_logout, []) =
      (Inr (demo_token ''r1'', demo_session_user), demo_after_logout, [])"
    by (simp add: refresh_check_def jwt_Parse_def chk_def FindRefreshTokenByHash_def require_active_tenant_def
        on_ids_def GetUser_def GetTenant_def demo_session_defs)
  note c = step_check [of demo_jwt ?m id "''r1''" 5 "\<lparr>rn_store = demo_after_logout, rn_waiting = [], rn_log = [LoggedOut ''r0'']\<rparr>"
      "[]", simplified, OF this]
  have "\<exists>s' res. refresh_claim demo_jwt ?m id ''r2'' (demo_token ''r1'') demo_session_user 5 (demo_after_logout, []) =
      (Inr res, s', [])"
    by (simp add: refresh_claim_def open_session_def chk_def RevokeActiveRefreshToken_def IssuePair_def IssueAccess_def
        IssueRefresh_def jwt_issue_def CreateRefreshToken_def CreateRefreshToken_tx_def audit_auth_def
        TokenRefresh_def TokenAccess_def demo_session_defs sql_update_def)
  then obtain s' res where "refresh_claim demo_jwt ?m id ''r2'' (demo_token ''r1'') demo_session_user 5
      (demo_after_logout, []) = (Inr res, s', [])" by blast
  note x = step_exchange [of "demo_token ''r1''" demo_session_user
      "\<lparr>rn_store = demo_after_logout, rn_waiting = [(demo_token ''r1'', demo_session_user)], rn_log = [LoggedOut ''r0'']\<rparr>"
      demo_jwt ?m id "''r2''" 5 "[]", simplified, OF this]
  have "row_at rt_token_hash ''r0'' (refresh_tokens demo_sessions) = Some (demo_token ''r0'')"
    "rt_id (demo_token t) = t" for t
    by (simp_all add: demo_session_defs)
  then have "sess_reach demo_jwt ?m id \<lparr>rn_store = demo_after_logout, rn_waiting = [], rn_log = [LoggedOut ''r0'']\<rparr>"
    using reach_step [OF reach_init l] by (simp add: jwt_Parse_def demo_jwt_def)
  from reach_step [OF reach_step [OF this c] x] show ?thesis
    by (intro exI conjI) (assumption, simp add: demo_token_def)
qed

theorem refresh_token_exchanged_once_witness:
  "\<exists>r. sess_reach demo_jwt (NewManager ''s'' 1) id r \<and> rn_log r = [LoggedOut ''r0''] @ Exchanged ''r1'' # [] \<and>
     Exchanged ''r1'' \<notin> set [LoggedOut ''r0''] \<and> LoggedOut ''r1'' \<notin> set [LoggedOut ''r0'']"
proof -
  obtain r where r: "sess_reach demo_jwt (NewManager ''s'' 1) id r"
    "rn_log r = [LoggedOut ''r0''] @ Exchanged ''r1'' # []" using demo_run by auto
  show ?thesis using refresh_token_exchanged_once [OF r] r by blast
qed

end
