(* ===== verification/Login_Limit.thy ===== *)
theory Login_Limit
  imports Sessions_Props
begin

text \<open>
  The login limit: a source that guesses passwords gets at most ten answers per quarter of an hour,
  until one of its logins succeeds; a success of any account of the source starts over.
\<close>

section \<open>Logins in sequence\<close>

text \<open>A request finds the database in some state, whatever happened since the one before.\<close>

record login_request =
  lq_now :: int
  lq_ip :: string
  lq_username :: string
  lq_pass :: string
  lq_uuid :: string
  lq_db :: "sess_store db"

record login_env =
  le_jwt :: jwt_lib
  le_manager :: jwt_manager
  le_verify :: "string \<Rightarrow> string \<Rightarrow> bool"
  le_hash :: "string \<Rightarrow> string"

definition login_step :: "'s limiter \<Rightarrow> login_env \<Rightarrow> login_request \<Rightarrow> 's auth_state \<Rightarrow> (err + token_result) \<times> 's auth_state" where
  "login_step lim env q a = Login lim (le_jwt env) (le_manager env) (le_verify env) (le_hash env) (lq_uuid q)
     (lq_username q) (lq_pass q) (lq_ip q) (lq_now q) (a\<lparr>au_db := lq_db q\<rparr>)"

fun run_logins :: "'s limiter \<Rightarrow> login_env \<Rightarrow> login_request list \<Rightarrow> 's auth_state \<Rightarrow> (err + token_result) list \<times> 's auth_state" where
  "run_logins lim env [] a = ([], a)"
| "run_logins lim env (q # qs) a =
     (case login_step lim env q a of (r, a1) \<Rightarrow> case run_logins lim env qs a1 of (rs, a2) \<Rightarrow> (r # rs, a2))"

definition wrong_password :: "login_env \<Rightarrow> login_request \<Rightarrow> bool" where
  "wrong_password env q \<longleftrightarrow> (\<forall>h. \<not> le_verify env h (lq_pass q))"

definition guesses :: "string \<Rightarrow> (login_request \<times> (err + token_result)) list \<Rightarrow> int list" where
  "guesses ip rs = map (lq_now \<circ> fst) (filter (\<lambda>(q, r). lq_ip q = ip \<and> r = Inl ErrInvalidCredentials) rs)"

lemma run_logins_length: "length (fst (run_logins lim env qs a)) = length qs"
  by (induction qs arbitrary: a) (auto split: prod.splits, metis fst_conv)

lemma run_logins_append: "run_logins lim env (xs @ ys) a =
    (case run_logins lim env xs a of (r, a1) \<Rightarrow> case run_logins lim env ys a1 of (r', a2) \<Rightarrow> (r @ r', a2))"
  by (induction xs arbitrary: a) (auto split: prod.splits)

lemma guesses_snoc: "length rs = length qs \<Longrightarrow> guesses ip (zip (qs @ [q]) (rs @ [r])) =
    guesses ip (zip qs rs) @ (if lq_ip q = ip \<and> r = Inl ErrInvalidCredentials then [lq_now q] else [])"
  by (simp add: guesses_def)

lemma on_db_limiter: "on_db m a = (r, a') \<Longrightarrow> au_limiter a' = au_limiter a"
  by (auto simp: on_db_def split: prod.splits)

lemma loginWindow_pos: "0 < loginWindow"
  by (simp add: loginWindow_def nanos_per_sec_def)

text \<open>How a login leaves the limiter: as it was, with a failure more, or cleared for its source.\<close>

lemma Login_limiter:
  assumes "loginPermitted lim ip now a = (ok, a1)" and "Login lim lib jm vf sha uuid user pass ip now a = (r, a')"
  shows "au_limiter a' = au_limiter a1 \<and> (r \<noteq> Inl ErrInvalidCredentials \<or> (\<exists>h. vf h pass)) \<or>
    (ok \<and> r = Inl ErrInvalidCredentials \<and> au_limiter a' = snd (lim_Incr lim ip loginWindow now (au_limiter a1))) \<or>
    (\<exists>h. vf h pass) \<and> au_limiter a' = snd (lim_Reset lim ip (au_limiter a1))"
proof (cases ok)
  case False
  then show ?thesis using assms by (auto simp: Login_def ErrInvalidCredentials_def)
next
  case True
  obtain up a2 where u: "on_db (on_ids (GetUserByUsername user)) a1 = (up, a2)" by fastforce
  have l2: "au_limiter a2 = au_limiter a1" using u by (rule on_db_limiter)
  have fault: "up = Inl e \<Longrightarrow> e = DbFault" for e
    using u by (cases "au_db a1") (auto simp: on_db_def on_ids_def GetUserByUsername_def query_eq split: if_splits)
  show ?thesis
  proof (cases up)
    case (Inl e)
    then show ?thesis using assms True u l2 fault by (auto simp: Login_def chk_def ErrInvalidCredentials_def)
  next
    case (Inr v)
    let ?c = "case v of None \<Rightarrow> None | Some u \<Rightarrow> if us_status u = UserStatusActive \<and> vf (us_password_hash u) pass
      then Some u else None"
    show ?thesis
    proof (cases ?c)
      case None
      then show ?thesis using assms True u l2 Inr
        by (auto simp: Login_def chk_def recordLoginFailure_def)
    next
      case (Some w)
      then have v: "\<exists>h. vf h pass" by (auto split: option.splits if_splits)
      obtain t a3 where t: "on_db (require_active_tenant (us_tenant_id w)) a2 = (t, a3)" by fastforce
      obtain o1 a4 where o: "on_db (open_session lib jm sha uuid ''auth.login'' w now) (clearLoginFailures lim ip a3) =
          (o1, a4)" by fastforce
      show ?thesis
        using assms True u l2 Inr Some t v on_db_limiter [OF t] on_db_limiter [OF o] o
        by (cases t) (auto simp: Login_def chk_def clearLoginFailures_def)
    qed
  qed
qed

section \<open>The limit holds for every sliding window\<close>

lemma length_filter_mono: "(\<And>x. P x \<Longrightarrow> Q x) \<Longrightarrow> length (filter P xs) \<le> length (filter Q xs)"
  by (induction xs) auto

context sliding_window
begin

lemma permitted_rep:
  assumes "rep loginWindow prev (au_limiter a) h" "prev \<le> now"
  shows "\<exists>a1. loginPermitted lim ip now a = (in_window loginWindow now (h ip) < loginMaxAttempts, a1) \<and>
    rep loginWindow now (au_limiter a1) h"
  using rep_Count [OF assms, of ip] by (auto simp: loginPermitted_def)

lemma login_step_rep:
  assumes "rep loginWindow prev (au_limiter a) h" "prev \<le> lq_now q" "login_step lim env q a = (r, a')"
  shows "\<exists>h'. rep loginWindow (lq_now q) (au_limiter a') h' \<and> (\<forall>k. k \<noteq> lq_ip q \<longrightarrow> h' k = h k) \<and>
    (wrong_password env q \<longrightarrow>
       (if r = Inl ErrInvalidCredentials then in_window loginWindow (lq_now q) (h (lq_ip q)) < loginMaxAttempts \<and>
          h' (lq_ip q) = h (lq_ip q) @ [lq_now q]
        else h' (lq_ip q) = h (lq_ip q)))"
proof -
  let ?a = "a\<lparr>au_db := lq_db q\<rparr>" and ?ip = "lq_ip q" and ?now = "lq_now q"
  obtain a1 where p: "loginPermitted lim ?ip ?now ?a = (in_window loginWindow ?now (h ?ip) < loginMaxAttempts, a1)"
    "rep loginWindow ?now (au_limiter a1) h" using permitted_rep [of prev ?a h ?now ?ip] assms by auto
  obtain s1 where i: "lim_Incr lim ?ip loginWindow ?now (au_limiter a1) = (Inr (in_window loginWindow ?now (h ?ip @ [?now])), s1)"
    "rep loginWindow ?now s1 (h(?ip := h ?ip @ [?now]))"
    using rep_Incr [OF p(2) order_refl loginWindow_pos, of ?ip] by auto
  obtain s2 where z: "lim_Reset lim ?ip (au_limiter a1) = (None, s2)" "rep loginWindow ?now s2 (h(?ip := []))"
    using rep_Reset [OF p(2), of ?ip] by auto
  note l = Login_limiter [OF p(1) assms(3) [unfolded login_step_def]]
  show ?thesis using l
  proof (elim disjE)
    assume "au_limiter a' = au_limiter a1 \<and> (r \<noteq> Inl ErrInvalidCredentials \<or> (\<exists>x. le_verify env x (lq_pass q)))"
    then show ?thesis using p(2) by (intro exI [of _ h]) (auto simp: wrong_password_def)
  next
    assume "in_window loginWindow ?now (h ?ip) < loginMaxAttempts \<and> r = Inl ErrInvalidCredentials \<and>
      au_limiter a' = snd (lim_Incr lim ?ip loginWindow ?now (au_limiter a1))"
    then show ?thesis using i by (intro exI [of _ "h(?ip := h ?ip @ [?now])"]) auto
  next
    assume "(\<exists>x. le_verify env x (lq_pass q)) \<and> au_limiter a' = snd (lim_Reset lim ?ip (au_limiter a1))"
    then show ?thesis using z by (intro exI [of _ "h(?ip := [])"]) (auto simp: wrong_password_def)
  qed
qed

lemma run_logins_rep:
  assumes "sorted (map lq_now qs)" "\<forall>q\<in>set qs. t0 \<le> lq_now q"
    and "\<forall>q\<in>set qs. lq_ip q = ip \<longrightarrow> wrong_password env q" and "rep loginWindow t0 (au_limiter a) h" and "h ip = []"
  shows "\<exists>t h'. rep loginWindow t (au_limiter (snd (run_logins lim env qs a))) h' \<and>
    h' ip = guesses ip (zip qs (fst (run_logins lim env qs a))) \<and> (t = t0 \<or> t \<in> lq_now ` set qs)"
  using assms(1-3)
proof (induction qs rule: rev_induct)
  case Nil
  then show ?case using assms(4,5) by (auto simp: guesses_def)
next
  case (snoc q qs)
  let ?a = "snd (run_logins lim env qs a)" and ?rs = "fst (run_logins lim env qs a)"
  obtain t h1 where r1: "rep loginWindow t (au_limiter ?a) h1" "h1 ip = guesses ip (zip qs ?rs)" "t \<le> lq_now q"
    using snoc by (fastforce simp: sorted_append)
  obtain r a2 where st: "login_step lim env q ?a = (r, a2)" by fastforce
  have run: "run_logins lim env (qs @ [q]) a = (?rs @ [r], a2)"
    using st by (auto simp: run_logins_append split: prod.splits)
  obtain h2 where h2: "rep loginWindow (lq_now q) (au_limiter a2) h2" "\<forall>k. k \<noteq> lq_ip q \<longrightarrow> h2 k = h1 k"
    "wrong_password env q \<longrightarrow> (if r = Inl ErrInvalidCredentials
        then in_window loginWindow (lq_now q) (h1 (lq_ip q)) < loginMaxAttempts \<and> h2 (lq_ip q) = h1 (lq_ip q) @ [lq_now q]
        else h2 (lq_ip q) = h1 (lq_ip q))"
    using login_step_rep [OF r1(1,3) st] by blast
  have "h2 ip = guesses ip (zip (qs @ [q]) (?rs @ [r]))"
    unfolding guesses_snoc [OF run_logins_length] using h2(2,3) r1(2) snoc.prems(3)
    by (cases "lq_ip q = ip") (auto split: if_splits)
  then show ?case using h2(1) by (auto simp: run)
qed

lemma guesses_bounded:
  assumes "sorted (map lq_now qs)" "\<forall>q\<in>set qs. lq_ip q = ip \<longrightarrow> wrong_password env q"
    and "au_limiter a = fresh"
  shows "int (length (filter (\<lambda>t. T - loginWindow < t \<and> t \<le> T)
    (guesses ip (zip qs (fst (run_logins lim env qs a)))))) \<le> loginMaxAttempts"
  using assms(1,2)
proof (induction qs rule: rev_induct)
  case Nil
  then show ?case by (simp add: guesses_def loginMaxAttempts_def)
next
  case (snoc q qs)
  let ?a = "snd (run_logins lim env qs a)" and ?rs = "fst (run_logins lim env qs a)"
  define m where "m = (if qs = [] then lq_now q else lq_now (hd qs))"
  have m: "\<forall>x\<in>set qs. m \<le> lq_now x" "m \<le> lq_now q" and late: "\<forall>x\<in>set qs. lq_now x \<le> lq_now q"
    using snoc.prems(1) by (cases qs; auto simp: m_def sorted_append)+
  obtain t h1 where r1: "rep loginWindow t (au_limiter ?a) h1" "h1 ip = guesses ip (zip qs ?rs)" "t \<le> lq_now q"
    using run_logins_rep [of qs m ip env a "\<lambda>_. []"] snoc.prems assms(3) rep_fresh m late
    by (fastforce simp: sorted_append)
  obtain r a2 where st: "login_step lim env q ?a = (r, a2)" by fastforce
  have run: "run_logins lim env (qs @ [q]) a = (?rs @ [r], a2)"
    using st by (auto simp: run_logins_append split: prod.splits)
  let ?g = "guesses ip (zip qs ?rs)"
  note g = guesses_snoc [OF run_logins_length]
  have old: "int (length (filter (\<lambda>t. T - loginWindow < t \<and> t \<le> T) ?g)) \<le> loginMaxAttempts"
    using snoc by (simp add: sorted_append)
  show ?case
  proof (cases "lq_ip q = ip \<and> r = Inl ErrInvalidCredentials \<and> T - loginWindow < lq_now q \<and> lq_now q \<le> T")
    case True
    then have "in_window loginWindow (lq_now q) ?g < loginMaxAttempts"
      using login_step_rep [OF r1(1,3) st] r1(2) snoc.prems(2) by auto
    moreover have "length (filter (\<lambda>t. T - loginWindow < t \<and> t \<le> T) ?g) \<le>
        length (filter (\<lambda>t. lq_now q - loginWindow < t) ?g)"
      using True by (intro length_filter_mono) auto
    ultimately show ?thesis unfolding run fst_conv g using True by (auto simp: in_window_def)
  next
    case False
    then show ?thesis unfolding run fst_conv g using old by auto
  qed
qed

end


definition demo_guess :: "int \<Rightarrow> login_request" where
  "demo_guess t = \<lparr>lq_now = t, lq_ip = ''10.0.0.1'', lq_username = ''a'', lq_pass = ''guess'', lq_uuid = ''x'',
     lq_db = (demo_sessions, [])\<rparr>"

definition demo_login_env :: login_env where
  "demo_login_env = \<lparr>le_jwt = demo_jwt, le_manager = NewManager ''s'' 1, le_verify = (\<lambda>h p. p = ''right''), le_hash = id\<rparr>"


section \<open>A success starts over\<close>

text \<open>
  A login that succeeds forgets the failures of its source, whatever accounts they were against: a
  source with an account of its own can guess without bound by logging in to it after every ninth
  guess.
\<close>

theorem own_login_clears_guesses:
  assumes "Login Memory lib jm vf sha uuid user pass ip now a = (Inr res, a')"
  shows "fst (loginPermitted Memory ip later a')"
proof -
  obtain a1 where p: "loginPermitted Memory ip now a = (True, a1)"
    using assms by (auto simp: Login_def split: prod.splits bool.splits)
  obtain a3 u where "on_db (open_session lib jm sha uuid ''auth.login'' u now) (clearLoginFailures Memory ip a3) =
      (Inr res, a')"
    using assms by (auto simp: Login_def p split: option.splits if_splits elim!: chk_InrE)
  then have "au_limiter a' = (au_limiter a3)(ip := None)"
    by (simp add: on_db_limiter clearLoginFailures_def Memory_def memory_Reset_def)
  then show ?thesis
    by (simp add: loginPermitted_def Memory_def memory_Count_def Let_def hits_prune hits_upd loginMaxAttempts_def)
qed

end
