(* ===== verification/Api_Keys.thy ===== *)
theory Api_Keys
  imports Identity_Store Gateway_Model Sql_Wp
begin

text \<open>
  Gateway credentials: \<^verbatim>\<open>internal/service/keys.go\<close>, \<^verbatim>\<open>api_key_scope.go\<close> and \<^verbatim>\<open>api_key_ip.go\<close> over the
  API key methods of \<^verbatim>\<open>internal/repository/m2.go\<close> and \<^verbatim>\<open>internal/pkg/keygen\<close>. Random bytes, the
  digest, fresh ids, the scanner and the printer of JSON text and the parsers of IP addresses are
  arguments; address comparison is modelled.
\<close>

unbundle bit_operations_syntax

section \<open>keygen\<close>

definition keygen_prefix :: string where
  "keygen_prefix = ''rgx_''"

definition keygen_New :: "string option \<Rightarrow> string option" where
  "keygen_New random = map_option (\<lambda>buf. keygen_prefix @ hex_encode buf) random"

definition keygen_Prefix :: "string \<Rightarrow> string" where
  "keygen_Prefix key = (if length key \<le> 8 then key else take 8 key @ ''...'' @ drop (length key - 4) key)"

definition IsValidRaw :: "string \<Rightarrow> bool" where
  "IsValidRaw key \<longleftrightarrow> HasPrefix key keygen_prefix \<and> length keygen_prefix < length key"

section \<open>The table\<close>

record key_store =
  ks_ids :: id_store
  api_keys :: "api_key list"

definition on_key_ids :: "(id_store db \<Rightarrow> 'a \<times> id_store db) \<Rightarrow> key_store db \<Rightarrow> 'a \<times> key_store db" where
  "on_key_ids m d = (let (r, i, fs) = m (ks_ids (fst d), snd d) in (r, (fst d)\<lparr>ks_ids := i\<rparr>, fs))"

definition CreateAPIKey_tx :: "api_key \<Rightarrow> key_store \<Rightarrow> (err + unit) \<times> key_store" where
  "CreateAPIKey_tx k s =
     (if \<exists>x\<in>set (api_keys s). k_id x = k_id k then (Inl (Failure ''duplicate key''), s)
      else (Inr (), s\<lparr>api_keys := api_keys s @ [k]\<rparr>))"

definition store_CreateAPIKey :: "api_key \<Rightarrow> key_store db \<Rightarrow> (err + unit) \<times> key_store db" where
  "store_CreateAPIKey k = db_run (CreateAPIKey_tx k)"

definition GetAPIKeyByHash :: "string \<Rightarrow> key_store db \<Rightarrow> (err + api_key option) \<times> key_store db" where
  "GetAPIKeyByHash hash = query (\<lambda>s. sql_first (\<lambda>k. k_key_hash k = hash) (api_keys s))"

definition GetAPIKey :: "string \<Rightarrow> string \<Rightarrow> key_store db \<Rightarrow> (err + api_key option) \<times> key_store db" where
  "GetAPIKey tenantID i = query (\<lambda>s. sql_first (\<lambda>k. k_tenant_id k = tenantID \<and> k_id k = i) (api_keys s))"

definition store_RevokeAPIKey :: "string \<Rightarrow> string \<Rightarrow> key_store db \<Rightarrow> (err + unit) \<times> key_store db" where
  "store_RevokeAPIKey tenantID i = db_run (\<lambda>s. (Inr (), s\<lparr>api_keys :=
     sql_update (\<lambda>k. k_id k = i \<and> k_tenant_id k = tenantID) (\<lambda>k. k\<lparr>k_enabled := False\<rparr>) (api_keys s)\<rparr>))"

definition TouchAPIKey :: "string \<Rightarrow> int \<Rightarrow> key_store db \<Rightarrow> (err + unit) \<times> key_store db" where
  "TouchAPIKey i now = db_run (\<lambda>s. (Inr (), s\<lparr>api_keys :=
     sql_update (\<lambda>k. k_id k = i) (\<lambda>k. k\<lparr>k_last_used_at := Some now\<rparr>) (api_keys s)\<rparr>))"

section \<open>Scopes\<close>

record api_key_scopes =
  sc_chat_apps :: "string list"
  sc_models :: "string list"
  sc_routes :: "string list"

definition APIKeyScopeChatApps :: string where
  "APIKeyScopeChatApps = ''chat_apps''"

definition APIKeyScopeModels :: string where
  "APIKeyScopeModels = ''models''"

definition APIKeyScopeRoutes :: string where
  "APIKeyScopeRoutes = ''routes''"

text \<open>
  A list of strings: \<^verbatim>\<open>null\<close> empties it, an array replaces it, with an empty string for an element of
  another type (an error, which the callers here ignore).
\<close>

definition decode_strings :: "string list \<Rightarrow> json \<Rightarrow> string list \<times> bool" where
  "decode_strings old v =
     (case v of
        JNull \<Rightarrow> ([], True)
      | JArr js \<Rightarrow> (map (\<lambda>j. case j of JStr s \<Rightarrow> s | _ \<Rightarrow> []) js, list_all (\<lambda>j. case j of JStr _ \<Rightarrow> True | JNull \<Rightarrow> True | _ \<Rightarrow> False) js)
      | _ \<Rightarrow> (old, False))"

definition scopes_field :: "api_key_scopes \<Rightarrow> string \<Rightarrow> json \<Rightarrow> api_key_scopes \<times> bool" where
  "scopes_field z k v =
     (if k = APIKeyScopeChatApps then let (xs, ok) = decode_strings (sc_chat_apps z) v in (z\<lparr>sc_chat_apps := xs\<rparr>, ok)
      else if k = APIKeyScopeModels then let (xs, ok) = decode_strings (sc_models z) v in (z\<lparr>sc_models := xs\<rparr>, ok)
      else if k = APIKeyScopeRoutes then let (xs, ok) = decode_strings (sc_routes z) v in (z\<lparr>sc_routes := xs\<rparr>, ok)
      else (z, True))"

definition parseAPIKeyScopes :: "(string \<Rightarrow> json option) \<Rightarrow> string \<Rightarrow> api_key_scopes" where
  "parseAPIKeyScopes parse raw =
     fst (unmarshal scopes_field \<lparr>sc_chat_apps = [], sc_models = [], sc_routes = []\<rparr> (parse raw))"

definition scopeAllows :: "string list \<Rightarrow> string \<Rightarrow> bool" where
  "scopeAllows vals x =
     (let y = TrimSpace x in if y = [] then False else list_ex (\<lambda>item. item = ''*'' \<or> item = y) vals)"

definition AuthorizeAPIKeyScope :: "(string \<Rightarrow> json option) \<Rightarrow> api_key option \<Rightarrow> string \<Rightarrow> string \<Rightarrow> err option" where
  "AuthorizeAPIKeyScope parse keyp dimension x =
     (case keyp of
        None \<Rightarrow> None
      | Some key \<Rightarrow>
          if k_scopes_json key = [] then None
          else
          let sc = parseAPIKeyScopes parse (k_scopes_json key);
              check = (\<lambda>allowed. if scopeAllows allowed x then None
                         else Some (Forbidden ''api key is not authorized for this scope''))
          in if dimension = APIKeyScopeChatApps then check (sc_chat_apps sc)
             else if dimension = APIKeyScopeModels then check (sc_models sc)
             else if dimension = APIKeyScopeRoutes then check (sc_routes sc)
             else Some (BadRequest 40042 ''unsupported api key scope''))"

section \<open>Source addresses\<close>

datatype addr = V4 "32 word" | V6 "128 word" string

record ip_lib =
  ip_ParseAddr :: "string \<Rightarrow> addr option"
  ip_ParsePrefix :: "string \<Rightarrow> (addr \<times> nat) option"

definition Unmap :: "addr \<Rightarrow> addr" where
  "Unmap a = (case a of V4 x \<Rightarrow> V4 x | V6 x z \<Rightarrow> if drop_bit 32 x = 0xffff then V4 (ucast x) else V6 x z)"

definition prefix_Contains :: "addr \<times> nat \<Rightarrow> addr \<Rightarrow> bool" where
  "prefix_Contains p a =
     (case (p, a) of
        ((V4 x, n), V4 y) \<Rightarrow> drop_bit (32 - n) (x XOR y) = 0
      | ((V6 x _, n), V6 y z) \<Rightarrow> z = [] \<and> drop_bit (128 - n) (x XOR y) = 0
      | _ \<Rightarrow> False)"

fun validateAPIKeyIPs :: "ip_lib \<Rightarrow> string list \<Rightarrow> err option" where
  "validateAPIKeyIPs lib [] = None"
| "validateAPIKeyIPs lib (x # xs) =
     (let y = TrimSpace x in
      if y = [] then Some (BadRequest 40043 ''api key allowed ip cannot be empty'')
      else if ip_ParseAddr lib y = None \<and> ip_ParsePrefix lib y = None
      then Some (BadRequest 40043 ''api key allowed ip must be an IP or CIDR'')
      else validateAPIKeyIPs lib xs)"

definition parseAPIKeyIPs :: "(string \<Rightarrow> json option) \<Rightarrow> string \<Rightarrow> string list" where
  "parseAPIKeyIPs parse raw = (case parse raw of None \<Rightarrow> [] | Some j \<Rightarrow> fst (decode_strings [] j))"

definition ip_allows :: "ip_lib \<Rightarrow> addr \<Rightarrow> string \<Rightarrow> bool" where
  "ip_allows lib a entry =
     (let y = TrimSpace entry in
      if y = [] then False
      else case ip_ParseAddr lib y of
             Some allowed \<Rightarrow> Unmap allowed = a
           | None \<Rightarrow> (case ip_ParsePrefix lib y of None \<Rightarrow> False | Some p \<Rightarrow> prefix_Contains p a))"

definition AuthorizeAPIKeyIP :: "ip_lib \<Rightarrow> (string \<Rightarrow> json option) \<Rightarrow> api_key option \<Rightarrow> string \<Rightarrow> err option" where
  "AuthorizeAPIKeyIP lib parse keyp source =
     (case keyp of
        None \<Rightarrow> None
      | Some key \<Rightarrow>
          if k_allowed_ips_json key = [] then None
          else case ip_ParseAddr lib (TrimSpace source) of
                 None \<Rightarrow> Some (Forbidden ''api key is not authorized from this ip'')
               | Some a \<Rightarrow>
                   if list_ex (ip_allows lib (Unmap a)) (parseAPIKeyIPs parse (k_allowed_ips_json key)) then None
                   else Some (Forbidden ''api key is not authorized from this ip''))"

section \<open>Keys\<close>

text \<open>\<open>print\<close> is the printer of JSON text; a missing list prints as an empty one.\<close>

definition scopes_json :: "api_key_scopes \<Rightarrow> json" where
  "scopes_json sc = JObj [(''chat_apps'', JArr (map JStr (sc_chat_apps sc))),
     (''models'', JArr (map JStr (sc_models sc))), (''routes'', JArr (map JStr (sc_routes sc)))]"

definition new_api_key :: "(json \<Rightarrow> string) \<Rightarrow> (string \<Rightarrow> string) \<Rightarrow> string \<Rightarrow> string \<Rightarrow> string \<Rightarrow> string \<Rightarrow> string \<Rightarrow>
  int option \<Rightarrow> int \<Rightarrow> int \<Rightarrow> api_key_scopes option \<Rightarrow> string list option \<Rightarrow> api_key" where
  "new_api_key print sha raw newID tenantID userID name expiry tokenQuota requestQuota scopes allowedIPs =
     \<lparr>k_id = newID, k_tenant_id = tenantID, k_user_id = userID, k_name = name,
      k_key_hash = sha raw, k_prefix = keygen_Prefix raw, k_token_quota = tokenQuota,
      k_request_quota = requestQuota,
      k_scopes_json = (case scopes of None \<Rightarrow> [] | Some sc \<Rightarrow> print (scopes_json sc)),
      k_allowed_ips_json = (case allowedIPs of None \<Rightarrow> [] | Some ips \<Rightarrow> print (JArr (map JStr ips))),
      k_expired_at = expiry, k_enabled = True, k_last_used_at = None\<rparr>"

definition CreateAPIKey :: "ip_lib \<Rightarrow> (json \<Rightarrow> string) \<Rightarrow> (string \<Rightarrow> string) \<Rightarrow> string option \<Rightarrow> string \<Rightarrow> string \<Rightarrow> string \<Rightarrow>
  string \<Rightarrow> int option \<Rightarrow> int \<Rightarrow> int \<Rightarrow> api_key_scopes option \<Rightarrow> string list option \<Rightarrow> key_store db \<Rightarrow>
  (err + string \<times> api_key) \<times> key_store db" where
  "CreateAPIKey lib print sha random newID tenantID userID name expiry tokenQuota requestQuota scopes allowedIPs =
     (if name = [] then fail (BadRequest 40040 ''key name is required'')
      else if tokenQuota < 0 then fail (BadRequest 40041 ''token_quota must be zero or a positive integer'')
      else if requestQuota < 0 then fail (BadRequest 40041 ''request_quota must be zero or a positive integer'')
      else case (case allowedIPs of None \<Rightarrow> None | Some ips \<Rightarrow> validateAPIKeyIPs lib ips) of
        Some e \<Rightarrow> fail e
      | None \<Rightarrow>
     (case keygen_New random of
        None \<Rightarrow> fail (Failure ''random source failed'')
      | Some raw \<Rightarrow>
          let k = new_api_key print sha raw newID tenantID userID name expiry tokenQuota requestQuota scopes allowedIPs
          in chk (store_CreateAPIKey k) (\<lambda>_. ret (raw, k))))"

definition RevokeAPIKey :: "string \<Rightarrow> string \<Rightarrow> key_store db \<Rightarrow> (err + unit) \<times> key_store db" where
  "RevokeAPIKey tenantID keyID = store_RevokeAPIKey tenantID keyID"

definition ResolveAPIKey :: "(string \<Rightarrow> string) \<Rightarrow> string \<Rightarrow> int \<Rightarrow> key_store db \<Rightarrow> (err + api_key) \<times> key_store db" where
  "ResolveAPIKey sha raw now =
     (if raw = [] then fail (Unauthorized ''missing api key'')
      else chk (GetAPIKeyByHash (sha raw)) (\<lambda>kp.
        case kp of
          None \<Rightarrow> fail (Unauthorized ''invalid api key'')
        | Some k \<Rightarrow>
            if \<not> k_enabled k then fail (Unauthorized ''invalid api key'')
            else chk (on_key_ids (GetTenant (k_tenant_id k))) (\<lambda>tp.
              case tp of
                None \<Rightarrow> fail (Forbidden ''workspace is disabled'')
              | Some tenant \<Rightarrow>
                  if te_status tenant \<noteq> TenantStatusActive then fail (Forbidden ''workspace is disabled'')
                  else if (case k_expired_at k of None \<Rightarrow> False | Some e \<Rightarrow> e < now)
                  then fail (Unauthorized ''api key expired'')
                  else chk (TouchAPIKey (k_id k) now) (\<lambda>_. ret k))))"

end
