(* ===== verification/Api_Key_Props.thy ===== *)
theory Api_Key_Props
  imports Api_Keys
begin

text \<open>
  What authenticates a gateway request: only a key that was handed out, is not revoked and not
  expired, for a tenant that is active, whatever requests came before and whatever faults they met.
\<close>

section \<open>Histories\<close>

datatype key_event = Issued string api_key | Revoked string

text \<open>
  Any sequence of calls with faults anywhere; users and tenants change in between. The log holds the
  keys that were handed out and the ids of the keys that were revoked.
\<close>

inductive key_step :: "(string \<Rightarrow> string) \<Rightarrow> key_store \<times> key_event list \<Rightarrow> key_store \<times> key_event list \<Rightarrow> bool"
  for sha where
  step_issue: "CreateAPIKey lib print sha random newID t u name ex tq rq scopes ips (s, fs) = (Inr (raw, k), s', fs') \<Longrightarrow>
    key_step sha (s, es) (s', es @ [Issued raw k])"
| step_no_issue: "CreateAPIKey lib print sha random newID t u name ex tq rq scopes ips (s, fs) = (Inl e, s', fs') \<Longrightarrow>
    key_step sha (s, es) (s', es)"
| step_revoke: "RevokeAPIKey t i (s, fs) = (Inr (), s', fs') \<Longrightarrow> \<exists>k\<in>set (api_keys s). k_id k = i \<and> k_tenant_id k = t \<Longrightarrow>
    key_step sha (s, es) (s', es @ [Revoked i])"
| step_no_revoke: "RevokeAPIKey t i (s, fs) = (res, s', fs') \<Longrightarrow> key_step sha (s, es) (s', es)"
| step_resolve: "ResolveAPIKey sha raw now (s, fs) = (res, s', fs') \<Longrightarrow> key_step sha (s, es) (s', es)"
| step_identity: "key_step sha (s, es) (s\<lparr>ks_ids := ids\<rparr>, es)"

inductive key_reach :: "(string \<Rightarrow> string) \<Rightarrow> key_store \<times> key_event list \<Rightarrow> bool" for sha where
  reach_init: "api_keys s = [] \<Longrightarrow> key_reach sha (s, [])"
| reach_step: "key_reach sha r \<Longrightarrow> key_step sha r r' \<Longrightarrow> key_reach sha r'"

text \<open>A row is what was handed out, up to the flag and the time of its last use.\<close>

definition same_key :: "api_key \<Rightarrow> api_key \<Rightarrow> bool" where
  "same_key k k0 \<longleftrightarrow> k_id k = k_id k0 \<and> k_tenant_id k = k_tenant_id k0 \<and> k_user_id k = k_user_id k0 \<and>
     k_name k = k_name k0 \<and> k_key_hash k = k_key_hash k0 \<and> k_prefix k = k_prefix k0 \<and>
     k_token_quota k = k_token_quota k0 \<and> k_request_quota k = k_request_quota k0 \<and>
     k_scopes_json k = k_scopes_json k0 \<and> k_allowed_ips_json k = k_allowed_ips_json k0 \<and>
     k_expired_at k = k_expired_at k0"

definition row_ok :: "(string \<Rightarrow> string) \<Rightarrow> key_event list \<Rightarrow> api_key \<Rightarrow> bool" where
  "row_ok sha es k \<longleftrightarrow> (\<exists>raw k0. Issued raw k0 \<in> set es \<and> k_key_hash k0 = sha raw \<and> same_key k k0) \<and>
     (k_enabled k \<longrightarrow> Revoked (k_id k) \<notin> set es)"

definition key_inv :: "(string \<Rightarrow> string) \<Rightarrow> key_store \<times> key_event list \<Rightarrow> bool" where
  "key_inv sha r \<longleftrightarrow> uniq k_id (api_keys (fst r)) \<and> (\<forall>k\<in>set (api_keys (fst r)). row_ok sha (snd r) k) \<and>
     (\<forall>i. Revoked i \<in> set (snd r) \<longrightarrow> (\<exists>k\<in>set (api_keys (fst r)). k_id k = i))"

lemma run_change:
  assumes "db_run body (s, fs) = (res, s', fs')" and "\<And>a s1. body s = (Inr a, s1) \<Longrightarrow> P s1" and "P s"
  shows "P s'"
  using assms(1) by (rule db_run_cases) (use assms(2,3) in auto)

lemma same_key_upd [simp]: "same_key (k\<lparr>k_last_used_at := x\<rparr>) k0 = same_key k k0"
  "same_key (k\<lparr>k_enabled := b\<rparr>) k0 = same_key k k0" "same_key k k"
  by (simp_all add: same_key_def)

lemma row_ok_upd: "row_ok sha es k \<Longrightarrow> row_ok sha es (k\<lparr>k_last_used_at := x\<rparr>)"
  "row_ok sha es k \<Longrightarrow> row_ok sha es (k\<lparr>k_enabled := False\<rparr>)"
  by (simp_all add: row_ok_def)

lemma inv_revoked: "key_inv sha (s, es) \<Longrightarrow> Revoked i \<in> set es \<Longrightarrow> \<exists>k\<in>set (api_keys s). k_id k = i"
  by (simp add: key_inv_def)

lemma update_inv:
  assumes "key_inv sha (s, es)" and "\<And>k. k_id (f k) = k_id k"
    and "\<And>k. k \<in> set (api_keys s) \<Longrightarrow> row_ok sha es k \<Longrightarrow> row_ok sha es' (if P k then f k else k)"
    and "\<And>i. Revoked i \<in> set es' \<Longrightarrow> \<exists>k\<in>set (api_keys s). k_id k = i"
  shows "key_inv sha (s\<lparr>api_keys := sql_update P f (api_keys s)\<rparr>, es')"
proof -
  have ids: "map k_id (sql_update P f (api_keys s)) = map k_id (api_keys s)"
    by (simp add: sql_update_def comp_def assms(2) if_distrib [of k_id] cong: if_cong)
  have ex: "(\<exists>k\<in>S. k_id k = i) \<longleftrightarrow> i \<in> k_id ` S" for S i by auto
  have "k_id ` set (sql_update P f (api_keys s)) = k_id ` set (api_keys s)"
    using arg_cong [OF ids, of set] unfolding list.set_map .
  then have "(\<exists>k\<in>set (sql_update P f (api_keys s)). k_id k = i) \<longleftrightarrow> (\<exists>k\<in>set (api_keys s). k_id k = i)" for i
    unfolding ex by simp
  moreover have "uniq k_id (sql_update P f (api_keys s))"
    using assms(1) unfolding key_inv_def uniq_def ids by simp
  moreover have "\<forall>k\<in>set (sql_update P f (api_keys s)). row_ok sha es' k"
    using assms(1,3) by (simp add: key_inv_def sql_update_def del: if_image_distrib)
  ultimately show ?thesis using assms(4) by (simp add: key_inv_def)
qed

lemma touch_inv:
  assumes "key_inv sha (s, es)" and "TouchAPIKey i now (s, fs) = (res, s', fs')"
  shows "key_inv sha (s', es)"
  using assms(2) unfolding TouchAPIKey_def
proof (rule run_change)
  have "key_inv sha (s\<lparr>api_keys := sql_update (\<lambda>k. k_id k = i) (\<lambda>k. k\<lparr>k_last_used_at := Some now\<rparr>) (api_keys s)\<rparr>, es)"
    using assms(1) by (rule update_inv) (simp_all add: row_ok_upd inv_revoked [OF assms(1)])
  then show "key_inv sha (s1, es)" if "(Inr (), s\<lparr>api_keys := sql_update (\<lambda>k. k_id k = i)
      (\<lambda>k. k\<lparr>k_last_used_at := Some now\<rparr>) (api_keys s)\<rparr>) = (Inr a, s1)" for a :: unit and s1 using that by auto
qed (rule assms(1))

lemma revoke_inv:
  assumes "key_inv sha (s, es)" and "RevokeAPIKey t i (s, fs) = (res, s', fs')"
  shows "key_inv sha (s', es)"
    "res = Inr () \<Longrightarrow> \<exists>k\<in>set (api_keys s). k_id k = i \<and> k_tenant_id k = t \<Longrightarrow> key_inv sha (s', es @ [Revoked i])"
proof -
  let ?s = "s\<lparr>api_keys := sql_update (\<lambda>k. k_id k = i \<and> k_tenant_id k = t) (\<lambda>k. k\<lparr>k_enabled := False\<rparr>) (api_keys s)\<rparr>"
  have keep: "key_inv sha (?s, es)"
    using assms(1) by (rule update_inv) (simp_all add: row_ok_upd inv_revoked [OF assms(1)])
  have one: "k = k'" if "k \<in> set (api_keys s)" "k' \<in> set (api_keys s)" "k_id k = k_id k'" for k k'
    using assms(1) that by (auto simp: key_inv_def uniq_def distinct_map inj_on_def)
  have gone: "key_inv sha (?s, es @ [Revoked i])" if ex: "\<exists>k\<in>set (api_keys s). k_id k = i \<and> k_tenant_id k = t"
    using assms(1)
  proof (rule update_inv)
    fix k assume k: "k \<in> set (api_keys s)" "row_ok sha es k"
    show "row_ok sha (es @ [Revoked i]) (if k_id k = i \<and> k_tenant_id k = t then k\<lparr>k_enabled := False\<rparr> else k)"
    proof (cases "k_id k = i")
      case True
      then have "k_tenant_id k = t" using ex one [OF k(1)] by metis
      then show ?thesis using True k(2) by (simp add: row_ok_def)
    qed (use k(2) in \<open>simp add: row_ok_def\<close>)
  next
    fix j assume "Revoked j \<in> set (es @ [Revoked i])"
    then show "\<exists>k\<in>set (api_keys s). k_id k = j" using ex inv_revoked [OF assms(1), of j] by auto
  qed simp
  show "key_inv sha (s', es)"
    using assms(2) unfolding RevokeAPIKey_def store_RevokeAPIKey_def
    by (rule run_change) (use keep assms(1) in auto)
  show "key_inv sha (s', es @ [Revoked i])" if "res = Inr ()" "\<exists>k\<in>set (api_keys s). k_id k = i \<and> k_tenant_id k = t"
    using assms(2) unfolding RevokeAPIKey_def store_RevokeAPIKey_def
    by (rule db_run_cases) (use gone [OF that(2)] that(1) in auto)
qed

lemma store_create_cases:
  assumes "chk (store_CreateAPIKey k) (\<lambda>_. ret x) (s, fs) = (res, s', fs')"
  shows "(\<exists>e. res = Inl e \<and> s' = s) \<or> res = Inr x \<and> CreateAPIKey_tx k s = (Inr (), s')"
proof -
  obtain r s1 f1 where r: "db_run (CreateAPIKey_tx k) (s, fs) = (r, s1, f1)" by (metis prod.exhaust)
  have e: "(case r of Inl e \<Rightarrow> (Inl e, s1, f1) | Inr _ \<Rightarrow> (Inr x, s1, f1)) = (res, s', fs')"
    using assms by (simp add: chk_def store_CreateAPIKey_def r split: sum.splits)
  from r show ?thesis by (rule db_run_cases) (use e in auto)
qed

lemma create_cases:
  assumes "CreateAPIKey lib print sha random newID t u name ex tq rq scopes ips (s, fs) = (res, s', fs')"
  shows "(\<exists>e. res = Inl e \<and> s' = s) \<or> (\<exists>raw. let k = new_api_key print sha raw newID t u name ex tq rq scopes ips in
    res = Inr (raw, k) \<and> CreateAPIKey_tx k s = (Inr (), s'))"
  using assms unfolding CreateAPIKey_def Let_def
  by (auto split: if_splits option.splits dest!: store_create_cases)

lemma create_inv:
  assumes "key_inv sha (s, es)"
    and "CreateAPIKey lib print sha random newID t u name ex tq rq scopes ips (s, fs) = (res, s', fs')"
  shows "case res of Inl _ \<Rightarrow> s' = s | Inr (raw, k) \<Rightarrow> key_inv sha (s', es @ [Issued raw k])"
proof -
  consider e where "res = Inl e" "s' = s" | raw k where "res = Inr (raw, k)" "k_key_hash k = sha raw"
      "CreateAPIKey_tx k s = (Inr (), s')"
    using create_cases [OF assms(2)] by (auto simp: Let_def new_api_key_def)
  then show ?thesis
  proof cases
    case 2
    from 2(3) have new: "k_id k \<notin> k_id ` set (api_keys s)" and s': "s' = s\<lparr>api_keys := api_keys s @ [k]\<rparr>"
      by (auto simp: CreateAPIKey_tx_def split: if_splits)
    have "row_ok sha (es @ [Issued raw k]) x" if "row_ok sha es x" for x
      using that by (auto simp: row_ok_def)
    moreover have "Revoked (k_id k) \<notin> set es" using assms(1) new unfolding key_inv_def fst_conv snd_conv by (metis imageI)
    then have "row_ok sha (es @ [Issued raw k]) k"
      unfolding row_ok_def using 2(2) by (intro conjI exI [of _ raw] exI [of _ k]) auto
    ultimately show ?thesis using assms(1) new 2(1) by (auto simp: key_inv_def s' uniq_def)
  qed simp
qed

lemma on_key_ids_query: "on_key_ids (query f) = query (\<lambda>s. f (ks_ids s))"
  by (auto simp: fun_eq_iff on_key_ids_def query_eq split: prod.splits)

text \<open>What a call that resolves a key read and wrote.\<close>

lemma resolve_tail:
  assumes "chk (TouchAPIKey i now) (\<lambda>_. ret k) (s, fs) = (res, s', fs')"
  shows "(res = Inr k \<or> (\<exists>e. res = Inl e)) \<and> (\<exists>r. TouchAPIKey i now (s, fs) = (r, s', fs'))"
  using assms by (auto simp: chk_def split: prod.splits sum.splits)

lemma resolve_cases:
  assumes "ResolveAPIKey sha raw now (s, fs) = (res, s', fs')"
  shows "(\<exists>e. res = Inl e \<and> s' = s) \<or>
    (\<exists>k t f1 r. sql_first (\<lambda>k. k_key_hash k = sha raw) (api_keys s) = Some k \<and> k_enabled k \<and>
      row_at te_id (k_tenant_id k) (tenants (ks_ids s)) = Some t \<and> te_status t = TenantStatusActive \<and>
      (\<forall>e. k_expired_at k = Some e \<longrightarrow> now \<le> e) \<and> TouchAPIKey (k_id k) now (s, f1) = (r, s', fs') \<and>
      (res = Inr k \<or> (\<exists>e. res = Inl e)))"
  using assms unfolding ResolveAPIKey_def GetAPIKeyByHash_def GetTenant_def on_key_ids_query
  by (auto simp: chk_query split: if_splits option.splits dest!: resolve_tail)

lemma key_step_inv: "key_step sha r r' \<Longrightarrow> key_inv sha r \<Longrightarrow> key_inv sha r'"
proof (induction rule: key_step.induct)
  case step_issue
  then show ?case using create_inv by fastforce
next
  case step_no_issue
  then show ?case using create_inv by fastforce
next
  case step_revoke
  then show ?case using revoke_inv(2) by blast
next
  case step_no_revoke
  then show ?case using revoke_inv(1) by blast
next
  case (step_resolve raw now s fs res s' fs' es)
  then show ?case using resolve_cases [OF step_resolve(1)] touch_inv by blast
next
  case step_identity
  then show ?case by (simp add: key_inv_def)
qed

lemma key_reach_inv: "key_reach sha r \<Longrightarrow> key_inv sha r"
proof (induction rule: key_reach.induct)
  case (reach_init s)
  then show ?case by (simp add: key_inv_def)
qed (rule key_step_inv)

text \<open>
  C24: Only live keys authenticate. If the digest has no collisions, then after any history of
  issued, revoked and used keys, with faults anywhere, a raw key is accepted only if it was handed
  out, for the tenant, the user, the scopes and the addresses it was created with, was not revoked
  since, has not expired, and its tenant is active.
\<close>

theorem only_live_keys_authenticate:
  assumes "inj sha" and "key_reach sha (s, es)"
    and "ResolveAPIKey sha raw now (s, fs) = (Inr k, s', fs')"
  shows "\<exists>k0 t. Issued raw k0 \<in> set es \<and> same_key k k0 \<and> Revoked (k_id k) \<notin> set es \<and>
    (\<forall>e. k_expired_at k = Some e \<longrightarrow> now \<le> e) \<and>
    row_at te_id (k_tenant_id k) (tenants (ks_ids s)) = Some t \<and> te_status t = TenantStatusActive"
proof -
  obtain t where k: "sql_first (\<lambda>k. k_key_hash k = sha raw) (api_keys s) = Some k" "k_enabled k"
    "row_at te_id (k_tenant_id k) (tenants (ks_ids s)) = Some t" "te_status t = TenantStatusActive"
    "\<forall>e. k_expired_at k = Some e \<longrightarrow> now \<le> e"
    using resolve_cases [OF assms(3)] by auto
  then have m: "k \<in> set (api_keys s)" "k_key_hash k = sha raw"
    by (auto simp: sql_first_def find_Some_iff)
  then obtain raw0 k0 where i: "Issued raw0 k0 \<in> set es" "k_key_hash k0 = sha raw0" "same_key k k0"
    "Revoked (k_id k) \<notin> set es"
    using key_reach_inv [OF assms(2)] k(2) by (auto simp: key_inv_def row_ok_def)
  have "sha raw0 = sha raw" using m(2) i(2,3) by (simp add: same_key_def)
  then have "raw0 = raw" using assms(1) by (simp add: inj_eq)
  then show ?thesis using i k by blast
qed

definition demo_key_store :: key_store where
  "demo_key_store = \<lparr>ks_ids = \<lparr>tenants = [\<lparr>te_id = ''t1'', te_name = ''T'', te_status = TenantStatusActive\<rparr>],
     users = [], roles = [], user_roles = [], permissions = [], teams = [], user_teams = [],
     team_projects = [], project_members = []\<rparr>, api_keys = []\<rparr>"

definition demo_ip_lib :: ip_lib where
  "demo_ip_lib = \<lparr>ip_ParseAddr = (\<lambda>_. None), ip_ParsePrefix = (\<lambda>_. None)\<rparr>"

definition demo_issued :: api_key where
  "demo_issued = new_api_key (\<lambda>_. []) id ''rgx_61'' ''k1'' ''t1'' ''u1'' ''ci'' (Some 50) 0 0 None None"

lemma demo_keygen: "keygen_New (Some ''a'') = Some ''rgx_61''"
  by code_simp

lemma demo_issue:
  "CreateAPIKey demo_ip_lib (\<lambda>_. []) id (Some ''a'') ''k1'' ''t1'' ''u1'' ''ci'' (Some 50) 0 0 None None (demo_key_store, []) =
     (Inr (''rgx_61'', demo_issued), demo_key_store\<lparr>api_keys := [demo_issued]\<rparr>, [])"
  by (simp add: CreateAPIKey_def demo_keygen Let_def chk_def
      store_CreateAPIKey_def CreateAPIKey_tx_def demo_key_store_def demo_issued_def)

theorem only_live_keys_authenticate_witness:
  "key_reach id (demo_key_store\<lparr>api_keys := [demo_issued]\<rparr>, [Issued ''rgx_61'' demo_issued]) \<and>
   (\<exists>k s'. ResolveAPIKey id ''rgx_61'' 40 (demo_key_store\<lparr>api_keys := [demo_issued]\<rparr>, []) = (Inr k, s', []) \<and>
     Revoked (k_id k) \<notin> set [Issued ''rgx_61'' demo_issued])"
proof -
  have r: "key_reach id (demo_key_store\<lparr>api_keys := [demo_issued]\<rparr>, [Issued ''rgx_61'' demo_issued])"
    using reach_step [OF reach_init step_issue [OF demo_issue, of "[]"]] by (simp add: demo_key_store_def)
  have "\<exists>s'. ResolveAPIKey id ''rgx_61'' 40 (demo_key_store\<lparr>api_keys := [demo_issued]\<rparr>, []) = (Inr demo_issued, s', [])"
    by (simp add: ResolveAPIKey_def GetAPIKeyByHash_def GetTenant_def on_key_ids_query chk_query TouchAPIKey_def
        chk_def [of "db_run _"] demo_key_store_def demo_issued_def new_api_key_def sql_first_def)
  then obtain s' where s': "ResolveAPIKey id ''rgx_61'' 40 (demo_key_store\<lparr>api_keys := [demo_issued]\<rparr>, []) =
      (Inr demo_issued, s', [])" by blast
  then show ?thesis using only_live_keys_authenticate [OF inj_on_id r s'] r by blast
qed

end
