(* ===== verification/Job_Leases.thy ===== *)
theory Job_Leases
  imports Job_Runner
begin

text \<open>
  Runners of any number of processes on one job table, as interleaved steps. A runner claims a
  job, works on it, sends heartbeats and settles it; it may crash at any moment; stale jobs are
  requeued. A requeue honours leases if no job that a live runner works on looks stale, which
  heartbeats more frequent than the timeout ensure. The last section shows what happens otherwise.
\<close>

section \<open>Steps\<close>

record job_sys =
  jobs :: "job list"
  claims :: "(nat \<times> job) list"

definition apply_settle :: "worker_config \<Rightarrow> int \<Rightarrow> job \<Rightarrow> string option \<Rightarrow> job list \<Rightarrow> job list" where
  "apply_settle cfg now j runErr rows = fst (snd (settle cfg now j runErr (rows, [])))"

inductive job_step :: "worker_config \<Rightarrow> job_sys \<Rightarrow> job_sys \<Rightarrow> bool" for cfg where
  enqueue: "newID \<noteq> [] \<Longrightarrow> row_at j_id newID (jobs s) = None \<Longrightarrow>
    job_step cfg s (s\<lparr>jobs := snd (EnqueueJob_tx newID now (new_job kind key t payload after mr) (jobs s))\<rparr>)"
| claim: "claim_one_tx jid now (jobs s) = (1, rows) \<Longrightarrow> row_at j_id jid rows = Some j \<Longrightarrow>
    job_step cfg s \<lparr>jobs = rows, claims = (w, j) # claims s\<rparr>"
| heartbeat: "job_step cfg s (s\<lparr>jobs := HeartbeatJob_tx jid now (jobs s)\<rparr>)"
| finish: "(w, j) \<in> set (claims s) \<Longrightarrow>
    job_step cfg s \<lparr>jobs = apply_settle cfg now j runErr (jobs s), claims = remove1 (w, j) (claims s)\<rparr>"
| refuse: "(w, j) \<in> set (claims s) \<Longrightarrow>
    job_step cfg s \<lparr>jobs = FailJob_tx (j_id j) (j_attempts j + 1) e (jobs s), claims = remove1 (w, j) (claims s)\<rparr>"
| crash: "job_step cfg s (s\<lparr>claims := filter (\<lambda>(v, _). v \<noteq> w) (claims s)\<rparr>)"
| requeue: "\<forall>(v, j)\<in>set (claims s). \<forall>row\<in>set (jobs s). j_id row = j_id j \<longrightarrow> \<not> stale_job before row \<Longrightarrow>
    job_step cfg s (s\<lparr>jobs := snd (RequeueStaleJobs_tx before now (jobs s))\<rparr>)"
| cancel: "job_step cfg s (s\<lparr>jobs := snd (cancel_tx ids (jobs s))\<rparr>)"
| reset: "job_step cfg s (s\<lparr>jobs := snd (ResetFailedJobByKey_tx kind key payload mr now (jobs s))\<rparr>)"

definition no_jobs :: job_sys where
  "no_jobs = \<lparr>jobs = [], claims = []\<rparr>"

section \<open>The invariant\<close>

definition counted :: "job \<Rightarrow> bool" where
  "counted r \<longleftrightarrow> 0 \<le> j_attempts r \<and> 0 < j_max_retry r \<and> j_attempts r \<le> j_max_retry r \<and>
     (active r \<longrightarrow> j_attempts r < j_max_retry r)"

definition held :: "job list \<Rightarrow> job \<Rightarrow> bool" where
  "held rows j \<longleftrightarrow> (\<exists>r. row_at j_id (j_id j) rows = Some r \<and> j_status r = JobStatusRunning \<and>
     j_attempts r = j_attempts j \<and> j_max_retry r = j_max_retry j)"

definition job_ok :: "job_sys \<Rightarrow> bool" where
  "job_ok s \<longleftrightarrow> uniq j_id (jobs s) \<and> (\<forall>r\<in>set (jobs s). counted r) \<and>
     distinct (map (\<lambda>(w, j). j_id j) (claims s)) \<and> (\<forall>(w, j)\<in>set (claims s). held (jobs s) j)"

text \<open>
  An update that keeps ids: it keeps the invariant for the claims \<open>cs\<close> if it keeps every row
  counted and touches no row that \<open>cs\<close> hold.
\<close>

lemma held_update:
  assumes "held rows j" and "\<And>r. j_id (f r) = j_id r"
    and "\<And>r. r \<in> set rows \<Longrightarrow> j_id r = j_id j \<Longrightarrow> j_status r = JobStatusRunning \<Longrightarrow> P r \<Longrightarrow>
      j_status (f r) = JobStatusRunning \<and> j_attempts (f r) = j_attempts r \<and> j_max_retry (f r) = j_max_retry r"
  shows "held (sql_update P f rows) j"
proof -
  obtain r where r: "row_at j_id (j_id j) rows = Some r" "j_status r = JobStatusRunning"
    "j_attempts r = j_attempts j" "j_max_retry r = j_max_retry j" using assms(1) by (auto simp: held_def)
  then have "r \<in> set rows" "j_id r = j_id j" by (auto dest: row_at_SomeD)
  with r assms(3) [of r] show ?thesis by (auto simp: held_def row_at_update assms(2))
qed

lemma counted_update:
  assumes "\<forall>r\<in>set rows. counted r" and "\<And>r. r \<in> set rows \<Longrightarrow> P r \<Longrightarrow> counted r \<Longrightarrow> counted (f r)"
  shows "\<forall>r\<in>set (sql_update P f rows). counted r"
  using assms by (auto simp: sql_update_def)

lemma job_ok_update:
  assumes "job_ok s" and "\<And>r. j_id (f r) = j_id r"
    and "\<And>r. P r \<Longrightarrow> counted r \<Longrightarrow> counted (f r)"
    and "\<And>w j r. (w, j) \<in> set (claims s) \<Longrightarrow> r \<in> set (jobs s) \<Longrightarrow> j_id r = j_id j \<Longrightarrow>
      j_status r = JobStatusRunning \<Longrightarrow> P r \<Longrightarrow>
      j_status (f r) = JobStatusRunning \<and> j_attempts (f r) = j_attempts r \<and> j_max_retry (f r) = j_max_retry r"
  shows "job_ok (s\<lparr>jobs := sql_update P f (jobs s)\<rparr>)"
proof -
  have "held (sql_update P f (jobs s)) j" if "(w, j) \<in> set (claims s)" for w j
    using assms(1) that by (intro held_update assms(2) assms(4) [OF that]) (auto simp: job_ok_def)
  moreover have "uniq j_id (sql_update P f (jobs s))"
    using assms(1) by (simp add: uniq_update assms(2) job_ok_def)
  moreover have "\<forall>r\<in>set (sql_update P f (jobs s)). counted r"
    by (rule counted_update) (use assms(1,3) in \<open>auto simp: job_ok_def\<close>)
  ultimately show ?thesis using assms(1) by (auto simp: job_ok_def)
qed

lemma remove1_claims:
  assumes "distinct (map (\<lambda>(w, j). j_id j) cs)" and "(w, j) \<in> set cs" and "(v, i) \<in> set (remove1 (w, j) cs)"
  shows "(v, i) \<in> set cs" and "j_id i \<noteq> j_id j"
proof -
  have d: "distinct cs" using assms(1) by (simp add: distinct_map)
  show "(v, i) \<in> set cs" using assms(3) notin_set_remove1 by metis
  have "(v, i) \<noteq> (w, j)" using assms(3) d by (auto simp: set_remove1_eq)
  moreover have "inj_on (\<lambda>(w, j). j_id j) (set cs)" using assms(1) by (simp only: distinct_map)
  ultimately show "j_id i \<noteq> j_id j"
    using inj_onD [of "\<lambda>(w, j). j_id j" "set cs" "(v, i)" "(w, j)"] assms(2) \<open>(v, i) \<in> set cs\<close> by auto
qed

text \<open>Settling a held claim by an update of its row.\<close>

lemma job_ok_settle:
  assumes ok: "job_ok s" and c: "(w, j) \<in> set (claims s)" and "\<And>r. j_id (f r) = j_id r"
    and "\<And>r. counted r \<Longrightarrow> j_status r = JobStatusRunning \<Longrightarrow> j_attempts r = j_attempts j \<Longrightarrow>
      j_max_retry r = j_max_retry j \<Longrightarrow> counted (f r)"
  shows "job_ok \<lparr>jobs = sql_update (running (j_id j)) f (jobs s), claims = remove1 (w, j) (claims s)\<rparr>"
proof -
  have d: "distinct (map (\<lambda>(w, j). j_id j) (claims s))" using ok by (simp add: job_ok_def)
  obtain x where x: "row_at j_id (j_id j) (jobs s) = Some x" "j_attempts x = j_attempts j" "j_max_retry x = j_max_retry j"
    using ok c by (auto simp: job_ok_def held_def)
  have u: "uniq j_id (jobs s)" using ok by (simp add: job_ok_def)
  have "held (sql_update (running (j_id j)) f (jobs s)) i" if "(v, i) \<in> set (remove1 (w, j) (claims s))" for v i
  proof (rule held_update)
    show "held (jobs s) i" using ok remove1_claims(1) [OF d c that] by (auto simp: job_ok_def)
  qed (use assms(3) remove1_claims(2) [OF d c that] in \<open>auto simp: running_def\<close>)
  moreover have "\<forall>r\<in>set (sql_update (running (j_id j)) f (jobs s)). counted r"
  proof (rule counted_update)
    fix r assume r: "r \<in> set (jobs s)" "running (j_id j) r" "counted r"
    then have "r = x" using row_at_in [OF u r(1)] x(1) by (simp add: running_def)
    then show "counted (f r)" using assms(4) r x by (simp add: running_def)
  qed (use ok in \<open>auto simp: job_ok_def\<close>)
  moreover have "distinct (map (\<lambda>(w, j). j_id j) (remove1 (w, j) (claims s)))"
    using d by (simp add: distinct_map inj_on_def)
  ultimately show ?thesis using u by (auto simp: job_ok_def uniq_update assms(3))
qed

lemma count_one:
  assumes "uniq j_id rows" and "sql_count (\<lambda>j. j_id j = jid \<and> Q j) rows = 1"
  obtains r where "row_at j_id jid rows = Some r" and "Q r"
  using count_key [OF assms(1), of jid Q] assms(2) by (auto split: option.splits if_splits)

lemma job_ok_claim:
  assumes ok: "job_ok s" and c: "claim_one_tx jid now (jobs s) = (1, rows)" and j: "row_at j_id jid rows = Some j"
  shows "job_ok \<lparr>jobs = rows, claims = (w, j) # claims s\<rparr>"
proof -
  let ?hit = "\<lambda>j. j_id j = jid \<and> j_status j = JobStatusQueued"
  let ?f = "\<lambda>j. j\<lparr>j_status := JobStatusRunning, j_last_heartbeat := now\<rparr>"
  have rows: "rows = sql_update ?hit ?f (jobs s)" and n: "sql_count ?hit (jobs s) = 1"
    using c by (auto simp: claim_one_tx_def Let_def)
  have u: "uniq j_id (jobs s)" using ok by (simp add: job_ok_def)
  obtain r where r: "row_at j_id jid (jobs s) = Some r" "j_status r = JobStatusQueued"
    using count_one [OF u n] .
  have jr: "j = ?f r" using j r row_at_SomeD [OF r(1)] by (simp add: rows row_at_update)
  have "job_ok (s\<lparr>jobs := rows\<rparr>)" unfolding rows
    by (rule job_ok_update [OF ok]) (auto simp: counted_def active_def)
  moreover have "j_id i \<noteq> j_id j" if "(v, i) \<in> set (claims s)" for v i
    using ok that r row_at_SomeD [OF r(1)] by (auto simp: job_ok_def held_def jr)
  moreover have "held rows j" using j row_at_SomeD [OF j] by (auto simp: held_def jr)
  ultimately show ?thesis by (fastforce simp: job_ok_def)
qed

lemma apply_settle_cases:
  "apply_settle cfg now j runErr rows = (case runErr of
     None \<Rightarrow> CompleteJob_tx (j_id j) (j_attempts j + 1) (j_result j) rows
   | Some e \<Rightarrow> if j_attempts j + 1 < j_max_retry j
       then RetryJob_tx (j_id j) (j_attempts j + 1) e (now + backoff cfg (j_attempts j + 1)) rows
       else FailJob_tx (j_id j) (j_attempts j + 1) e rows)"
  by (simp add: apply_settle_def settle_def CompleteJob_def RetryJob_def FailJob_def Let_def split: option.splits)

lemma job_ok_finish:
  assumes "job_ok s" and "(w, j) \<in> set (claims s)"
  shows "job_ok \<lparr>jobs = apply_settle cfg now j runErr (jobs s), claims = remove1 (w, j) (claims s)\<rparr>"
    and "job_ok \<lparr>jobs = FailJob_tx (j_id j) (j_attempts j + 1) e (jobs s), claims = remove1 (w, j) (claims s)\<rparr>"
proof -
  note settle = job_ok_settle [OF assms]
  have c: "job_ok \<lparr>jobs = CompleteJob_tx (j_id j) (j_attempts j + 1) x (jobs s), claims = remove1 (w, j) (claims s)\<rparr>" for x
    unfolding CompleteJob_tx_def by (rule settle) (auto simp: counted_def active_def)
  have r: "job_ok \<lparr>jobs = RetryJob_tx (j_id j) (j_attempts j + 1) x t (jobs s), claims = remove1 (w, j) (claims s)\<rparr>"
    if "j_attempts j + 1 < j_max_retry j" for x t
    unfolding RetryJob_tx_def by (rule settle) (use that in \<open>auto simp: counted_def active_def\<close>)
  show f: "job_ok \<lparr>jobs = FailJob_tx (j_id j) (j_attempts j + 1) e (jobs s), claims = remove1 (w, j) (claims s)\<rparr>" for e
    unfolding FailJob_tx_def by (rule settle) (auto simp: counted_def active_def)
  show "job_ok \<lparr>jobs = apply_settle cfg now j runErr (jobs s), claims = remove1 (w, j) (claims s)\<rparr>"
    using c r f by (simp add: apply_settle_cases split: option.splits)
qed

lemma job_ok_enqueue:
  assumes ok: "job_ok s" and "newID \<noteq> []" and "row_at j_id newID (jobs s) = None"
  shows "job_ok (s\<lparr>jobs := snd (EnqueueJob_tx newID now (new_job kind key t payload after mr) (jobs s))\<rparr>)"
proof -
  let ?j = "prepare_job newID now (new_job kind key t payload after mr)"
  have id: "j_id ?j = newID" and "counted ?j"
    using assms(2) by (auto simp: prepare_job_def new_job_def counted_def active_def defaultJobMaxRetry_def)
  moreover have "held (jobs s @ [?j]) i" if "held (jobs s) i" for i
    using that by (auto simp: held_def row_at_append)
  ultimately show ?thesis using ok assms(3)
    by (auto simp: job_ok_def EnqueueJob_tx_def insert_ignore_eq uniq_append row_at_None_iff)
qed

lemma job_ok_step: "job_step cfg s t \<Longrightarrow> job_ok s \<Longrightarrow> job_ok t"
proof (induction rule: job_step.induct)
  case (crash s w)
  then have "distinct (map (\<lambda>(w, j). j_id j) (filter (\<lambda>(v, _). v \<noteq> w) (claims s)))"
    by (auto simp: job_ok_def distinct_map intro: inj_on_subset)
  with crash show ?case by (auto simp: job_ok_def)
next
  case (heartbeat s jid now)
  then show ?case unfolding HeartbeatJob_tx_def
    by (intro job_ok_update) (auto simp: counted_def active_def)
next
  case (requeue s before now)
  show ?case unfolding RequeueStaleJobs_tx_def snd_conv
    by (rule job_ok_update [OF requeue.prems]) (use requeue.hyps in \<open>auto simp: counted_def active_def stale_job_def\<close>)
next
  case (cancel s ids)
  then show ?case unfolding cancel_tx_def Let_def snd_conv
    by (intro job_ok_update) (auto simp: counted_def active_def)
next
  case (reset s kind key payload mr now)
  then show ?case unfolding ResetFailedJobByKey_tx_def Let_def snd_conv
    by (intro job_ok_update) (auto simp: counted_def active_def defaultJobMaxRetry_def)
qed (auto intro: job_ok_enqueue job_ok_claim job_ok_finish)

lemma job_ok_reach: "(job_step cfg)\<^sup>*\<^sup>* no_jobs s \<Longrightarrow> job_ok s"
proof (induction rule: rtranclp_induct)
  case base
  show ?case by (simp add: job_ok_def no_jobs_def)
qed (blast intro: job_ok_step)

section \<open>What the queue guarantees\<close>

text \<open>
  C14: A job is executed by one runner at a time. In every state that runners reach from an empty
  table while requeues honour leases, crashes included, no two claims are of the same job, and
  the row of every claimed job is running with the attempt count its runner has seen.
\<close>

theorem one_runner_per_job:
  assumes "(job_step cfg)\<^sup>*\<^sup>* no_jobs s"
  shows "distinct (map (\<lambda>(w, j). j_id j) (claims s)) \<and>
    (\<forall>(w, j)\<in>set (claims s). \<exists>r. row_at j_id (j_id j) (jobs s) = Some r \<and>
       j_status r = JobStatusRunning \<and> j_attempts r = j_attempts j)"
  using job_ok_reach [OF assms] by (fastforce simp: job_ok_def held_def)

text \<open>
  Retries are bounded. In every such state each job's attempt count is between zero and its
  retry limit, and below the limit as long as the job can still run.
\<close>

theorem attempts_bounded:
  assumes "(job_step cfg)\<^sup>*\<^sup>* no_jobs s" and "r \<in> set (jobs s)"
  shows "0 \<le> j_attempts r \<and> j_attempts r \<le> j_max_retry r \<and>
    (j_status r = JobStatusQueued \<or> j_status r = JobStatusRunning \<longrightarrow> j_attempts r < j_max_retry r)"
  using job_ok_reach [OF assms(1)] assms(2) by (auto simp: job_ok_def counted_def active_def)

lemma finished_update:
  assumes "row_at j_id k rows = Some r" and "\<And>x. j_id (f x) = j_id x" and "\<not> P r"
  shows "row_at j_id k (sql_update P f rows) = Some r"
  using assms by (simp add: row_at_update)

lemma finished_settle:
  assumes "row_at j_id k rows = Some r" and "j_status r \<noteq> JobStatusRunning"
  shows "row_at j_id k (apply_settle cfg now j runErr rows) = Some r"
    and "row_at j_id k (FailJob_tx i a e rows) = Some r"
  using assms
  by (auto simp: apply_settle_cases CompleteJob_tx_def RetryJob_tx_def FailJob_tx_def running_def
      intro!: finished_update split: option.splits)

lemma finished_step:
  assumes "job_step cfg s t" and "row_at j_id k (jobs s) = Some r"
    and "j_status r = JobStatusSucceeded \<or> j_status r = JobStatusCanceled"
  shows "row_at j_id k (jobs t) = Some r"
  using assms
proof (induction rule: job_step.induct)
  case (claim jid now s rows j w)
  then have "rows = sql_update (\<lambda>j. j_id j = jid \<and> j_status j = JobStatusQueued)
      (\<lambda>j. j\<lparr>j_status := JobStatusRunning, j_last_heartbeat := now\<rparr>) (jobs s)"
    by (simp add: claim_one_tx_def Let_def)
  with claim.prems show ?case by (auto intro!: finished_update)
qed (auto simp: EnqueueJob_tx_def insert_ignore_eq row_at_append HeartbeatJob_tx_def RequeueStaleJobs_tx_def
      cancel_tx_def ResetFailedJobByKey_tx_def running_def stale_job_def Let_def
      intro!: finished_update finished_settle)


section \<open>Without leases\<close>

text \<open>
  A settlement is not tied to the claim it settles. If a job is requeued while its first
  runner is still alive and claimed by a second one, then the settlement of the first, with its
  own attempt count and result, is applied to the claim of the second, and whatever the second
  reports afterwards is dropped. The lost first execution is not counted as an attempt.
\<close>

theorem stale_runner_settles_other_claim:
  assumes "uniq j_id rows" and "row_at j_id jid rows = Some r" and "stale_job before r" and "now \<le> now2"
    and "rows2 = snd (claim_one_tx jid now2 (snd (RequeueStaleJobs_tx before now rows)))"
    and "rows3 = CompleteJob_tx jid (j_attempts r + 1) result rows2"
  shows "(\<exists>r2. row_at j_id jid rows2 = Some r2 \<and> j_status r2 = JobStatusRunning \<and> j_attempts r2 = j_attempts r) \<and>
    (\<exists>r3. row_at j_id jid rows3 = Some r3 \<and> j_status r3 = JobStatusSucceeded \<and> j_result r3 = result) \<and>
    CompleteJob_tx jid a res rows3 = rows3 \<and> RetryJob_tx jid a e t rows3 = rows3 \<and> FailJob_tx jid a e rows3 = rows3"
proof -
  have id: "j_id r = jid" using row_at_SomeD [OF assms(2)] by simp
  have 2: "row_at j_id jid rows2 = Some (r\<lparr>j_status := JobStatusRunning, j_run_after := now,
      j_last_error := ''requeued: runner heartbeat expired'', j_last_heartbeat := now2\<rparr>)"
    using assms(2,3) id by (simp add: assms(5) claim_one_tx_def RequeueStaleJobs_tx_def Let_def row_at_update)
  then have 3: "\<exists>r3. row_at j_id jid rows3 = Some r3 \<and> j_status r3 = JobStatusSucceeded \<and> j_result r3 = result"
    using id by (simp add: assms(6) CompleteJob_tx_def row_at_update running_def)
  have "uniq j_id rows3"
    using assms(1) by (simp add: assms(5,6) claim_one_tx_def RequeueStaleJobs_tx_def CompleteJob_tx_def Let_def uniq_update)
  then have "\<not> running jid x" if "x \<in> set rows3" for x
    using row_at_in [of j_id rows3 x] that 3 by (auto simp: running_def)
  then have noop: "sql_update (running jid) f rows3 = rows3" for f
    unfolding sql_update_def by (intro map_idI) auto
  show ?thesis using 2 3 by (auto simp: CompleteJob_tx_def RetryJob_tx_def FailJob_tx_def noop)
qed

section \<open>A sample run\<close>

definition run_a :: job_sys where
  "run_a = \<lparr>jobs = snd (EnqueueJob_tx ''j1'' 5 (new_job ''sync'' ''key1'' ''t'' [] never 2) []), claims = []\<rparr>"

definition run_b :: job_sys where
  "run_b = (let rows = snd (claim_one_tx ''j1'' 10 (jobs run_a))
     in \<lparr>jobs = rows, claims = [(1, the (row_at j_id ''j1'' rows))]\<rparr>)"

definition run_c :: job_sys where
  "run_c = \<lparr>jobs = apply_settle DefaultWorkerConfig 20 (snd (hd (claims run_b))) None (jobs run_b), claims = []\<rparr>"

lemma run_b_reach: "(job_step DefaultWorkerConfig)\<^sup>*\<^sup>* no_jobs run_b"
proof -
  have a: "job_step DefaultWorkerConfig no_jobs run_a"
    using job_step.enqueue [of "''j1''" no_jobs DefaultWorkerConfig 5 "''sync''" "''key1''" "''t''" "[]" never 2]
    by (simp add: run_a_def no_jobs_def)
  have c: "claim_one_tx ''j1'' 10 (jobs run_a) = (1, jobs run_b)"
    "row_at j_id ''j1'' (jobs run_b) = Some (the (row_at j_id ''j1'' (jobs run_b)))"
    "claims run_a = []" by code_simp+
  have "run_b = \<lparr>jobs = jobs run_b, claims = (1, the (row_at j_id ''j1'' (jobs run_b))) # claims run_a\<rparr>"
    by (simp add: run_b_def Let_def c(3))
  then have "job_step DefaultWorkerConfig run_a run_b" using job_step.claim [OF c(1,2)] by metis
  with a show ?thesis by (meson converse_rtranclp_into_rtranclp r_into_rtranclp)
qed

theorem one_runner_per_job_witness:
  "distinct (map (\<lambda>(w, j). j_id j) (claims run_b)) \<and> length (claims run_b) = 1"
  using one_runner_per_job [OF run_b_reach] by (simp add: run_b_def Let_def)

theorem attempts_bounded_witness: "\<exists>r\<in>set (jobs run_b). j_attempts r < 2"
proof -
  obtain r where r: "jobs run_b = [r]" "j_status r = JobStatusRunning" "j_max_retry r = 2"
    by (simp add: run_b_def run_a_def EnqueueJob_tx_def insert_ignore_def claim_one_tx_def sql_update_def Let_def
        prepare_job_def new_job_def)
  then have "r \<in> set (jobs run_b)" by simp
  from attempts_bounded [OF run_b_reach this] r show ?thesis by simp
qed


theorem stale_runner_settles_other_claim_witness:
  "\<exists>r. row_at j_id ''j1'' (CompleteJob_tx ''j1'' 1 ''old'' (snd (claim_one_tx ''j1'' 50
     (snd (RequeueStaleJobs_tx 40 45 (jobs run_b)))))) = Some r \<and> j_result r = ''old''"
proof -
  have u: "uniq j_id (jobs run_b)" by code_simp
  have "map_option (\<lambda>r. (stale_job 40 r, j_attempts r)) (row_at j_id ''j1'' (jobs run_b)) = Some (True, 0)" by code_simp
  then obtain r where r: "row_at j_id ''j1'' (jobs run_b) = Some r" "stale_job 40 r" "j_attempts r = 0" by auto
  from stale_runner_settles_other_claim [OF u r(1,2) _ refl refl, of 45 50 "''old''"] r(3)
  show ?thesis by simp blast
qed

end
