(* ===== verification/Role_Matrix.thy ===== *)
theory Role_Matrix
  imports Authz
begin

text \<open>
  The built-in roles: the permission matrix of \<^verbatim>\<open>internal/db/migrate.go\<close> row by row in source
  order (one definition per run of rows of one role), the catalog derived from it, and the
  declared order of the roles of \<^verbatim>\<open>internal/db/role_lattice.go\<close>.
\<close>

section \<open>The matrix\<close>

text \<open>The rows are pairs of an action and a resource.\<close>

definition matrix_01 :: "(string \<times> string) list" where
  "matrix_01 = [
     (''governance.read'', ''tenant''), (''governance.manage'', ''tenant''),
     (''governance.read_sensitive'', ''tenant''), (''tenant.resource.manage'', ''tenant''),
     (''tenant.resource.delete'', ''tenant''), (''tenant.connection.manage'', ''tenant''),
     (''tenant.connection.bind'', ''tenant''), (''tenant.connection.unbind'', ''tenant''),
     (''tenant.connection.rotate_secret'', ''tenant''), (''tenant.audit.read'', ''tenant''),
     (''tenant.usage.read'', ''tenant''), (''read'', ''system''), (''manage'', ''system''), (''read'', ''tenant''),
     (''manage'', ''tenant''), (''read'', ''role''), (''manage'', ''role''), (''read'', ''branding''),
     (''manage'', ''branding''), (''read'', ''user''), (''manage'', ''user''), (''read'', ''team''),
     (''manage'', ''team''), (''read'', ''project''), (''manage'', ''project''), (''read'', ''dataset''),
     (''manage'', ''dataset''), (''read'', ''dataset-export''), (''read'', ''document''),
     (''append'', ''document''), (''delete:own'', ''document''), (''execute'', ''document''), (''read'', ''task''),
     (''manage'', ''task''), (''execute'', ''task''), (''read'', ''model-provider''),
     (''manage'', ''model-provider''), (''execute'', ''model-provider''), (''read'', ''enterprise-connection''),
     (''test'', ''enterprise-connection''), (''manage'', ''enterprise-connection''), (''read'', ''connector''),
     (''manage'', ''connector''), (''read'', ''model-route''), (''manage'', ''model-route''),
     (''read'', ''api-key''), (''manage'', ''api-key''), (''read'', ''usage''), (''read'', ''usage-export''),
     (''read'', ''audit''), (''manage'', ''audit''), (''read'', ''audit-anchor''), (''read'', ''audit-export''),
     (''read'', ''dashboard''), (''read'', ''knowledge-ops''), (''manage'', ''knowledge-ops''),
     (''read'', ''assistant''), (''manage'', ''assistant''), (''execute'', ''assistant''),
     (''read'', ''system-health''), (''read'', ''chat''), (''manage'', ''chat''), (''execute'', ''chat''),
     (''read'', ''search-app''), (''manage'', ''search-app''), (''execute'', ''search-app''),
     (''read'', ''scenario-template''), (''manage'', ''scenario-template''), (''read'', ''trial-run''),
     (''execute'', ''trial-run''), (''read'', ''prompt-policy''), (''manage'', ''prompt-policy''),
     (''read'', ''parser-policy''), (''manage'', ''parser-policy''), (''read'', ''quality-profile''),
     (''manage'', ''quality-profile''), (''read'', ''logical-document''), (''manage'', ''logical-document''),
     (''execute'', ''logical-document''), (''read'', ''tool-registry''), (''manage'', ''tool-registry''),
     (''execute'', ''tool-registry''), (''read'', ''query-template''), (''manage'', ''query-template''),
     (''read'', ''source-routing-rule''), (''manage'', ''source-routing-rule''),
     (''read'', ''knowledge-strategy''), (''manage'', ''knowledge-strategy''),
     (''execute'', ''knowledge-strategy''), (''read'', ''knowledge-profile''), (''manage'', ''knowledge-profile''),
     (''read'', ''compilation''), (''manage'', ''compilation''), (''execute'', ''compilation''),
     (''read'', ''evidence-snapshot''), (''read'', ''outbox-event''), (''execute'', ''outbox-event''),
     (''read'', ''db-connection''), (''manage'', ''db-connection''), (''test'', ''db-connection''),
     (''read'', ''knowledge-lifecycle''), (''manage'', ''knowledge-lifecycle''), (''read'', ''eval-set''),
     (''manage'', ''eval-set''), (''execute'', ''eval-set''), (''read'', ''release-governance''),
     (''manage'', ''release-governance''), (''execute'', ''release-governance''), (''read'', ''alert''),
     (''manage'', ''alert''), (''read'', ''memory''), (''manage'', ''memory''), (''execute'', ''memory''),
     (''read'', ''memory-content''), (''manage'', ''memory-content''), (''execute'', ''memory-content''),
     (''execute'', ''memory-write''), (''read'', ''memory-policy''), (''manage'', ''memory-policy''),
     (''execute'', ''memory-policy''), (''manage'', ''memory-forget''), (''execute'', ''memory-forget''),
     (''read'', ''context-decision''), (''read'', ''memory-operation''), (''read'', ''agent''),
     (''manage'', ''agent''), (''execute'', ''agent''), (''session:create'', ''agent''), (''read'', ''approval''),
     (''execute'', ''approval''), (''manage'', ''approval''), (''read'', ''approval-policy''),
     (''manage'', ''approval-policy''), (''read'', ''ragflow-sync''), (''manage'', ''ragflow-sync'')]"

definition matrix_02 :: "(string \<times> string) list" where
  "matrix_02 = [
     (''read'', ''tenant''), (''read'', ''branding''), (''manage'', ''branding''), (''read'', ''user''),
     (''manage'', ''user''), (''read'', ''role''), (''manage'', ''role''), (''read'', ''team''),
     (''manage'', ''team''), (''read'', ''project''), (''manage'', ''project''), (''read'', ''dataset''),
     (''manage'', ''dataset''), (''read'', ''dataset-export''), (''read'', ''document''),
     (''append'', ''document''), (''delete:own'', ''document''), (''execute'', ''document''), (''read'', ''task''),
     (''execute'', ''task''), (''manage'', ''task''), (''read'', ''model-provider''),
     (''manage'', ''model-provider''), (''execute'', ''model-provider''), (''read'', ''enterprise-connection''),
     (''test'', ''enterprise-connection''), (''read'', ''connector''), (''manage'', ''connector''),
     (''read'', ''model-route''), (''manage'', ''model-route''), (''read'', ''api-key''),
     (''manage'', ''api-key''), (''execute'', ''chat''), (''read'', ''usage''), (''read'', ''usage-export''),
     (''read'', ''audit''), (''read'', ''audit-anchor''), (''read'', ''audit-export''), (''read'', ''dashboard''),
     (''read'', ''assistant''), (''execute'', ''assistant''), (''manage'', ''assistant''),
     (''read'', ''system-health''), (''read'', ''knowledge-ops''), (''manage'', ''knowledge-ops''),
     (''read'', ''chat''), (''manage'', ''chat''), (''execute'', ''search-app''), (''read'', ''search-app''),
     (''manage'', ''search-app''), (''read'', ''scenario-template''), (''manage'', ''scenario-template''),
     (''read'', ''trial-run''), (''execute'', ''trial-run''), (''read'', ''prompt-policy''),
     (''manage'', ''prompt-policy''), (''read'', ''parser-policy''), (''manage'', ''parser-policy''),
     (''read'', ''quality-profile''), (''manage'', ''quality-profile''), (''read'', ''logical-document''),
     (''manage'', ''logical-document''), (''execute'', ''logical-document''), (''read'', ''tool-registry''),
     (''manage'', ''tool-registry''), (''execute'', ''tool-registry''), (''read'', ''query-template''),
     (''manage'', ''query-template''), (''read'', ''source-routing-rule''), (''manage'', ''source-routing-rule''),
     (''read'', ''knowledge-strategy''), (''manage'', ''knowledge-strategy''),
     (''execute'', ''knowledge-strategy''), (''read'', ''knowledge-profile''), (''manage'', ''knowledge-profile''),
     (''read'', ''compilation''), (''manage'', ''compilation''), (''execute'', ''compilation''),
     (''read'', ''evidence-snapshot''), (''read'', ''outbox-event''), (''execute'', ''outbox-event'')]"

definition matrix_03 :: "(string \<times> string) list" where
  "matrix_03 = [
     (''read'', ''knowledge-strategy''), (''manage'', ''knowledge-strategy''),
     (''execute'', ''knowledge-strategy''), (''read'', ''knowledge-profile''), (''manage'', ''knowledge-profile''),
     (''read'', ''compilation''), (''manage'', ''compilation''), (''execute'', ''compilation''),
     (''read'', ''evidence-snapshot''), (''read'', ''release-governance''), (''execute'', ''release-governance''),
     (''read'', ''context-decision'')]"

definition matrix_04 :: "(string \<times> string) list" where
  "matrix_04 = [
     (''read'', ''db-connection''), (''manage'', ''db-connection''), (''test'', ''db-connection''),
     (''read'', ''knowledge-lifecycle''), (''manage'', ''knowledge-lifecycle''), (''read'', ''eval-set''),
     (''manage'', ''eval-set''), (''execute'', ''eval-set''), (''read'', ''release-governance''),
     (''manage'', ''release-governance''), (''execute'', ''release-governance''), (''read'', ''alert''),
     (''manage'', ''alert'')]"

definition matrix_05 :: "(string \<times> string) list" where
  "matrix_05 = [
     (''read'', ''user''), (''read'', ''team''), (''read'', ''project''), (''read'', ''dataset''),
     (''read'', ''document''), (''append'', ''document''), (''delete:own'', ''document''),
     (''execute'', ''document''), (''read'', ''task''), (''execute'', ''task''), (''manage'', ''task''),
     (''execute'', ''chat''), (''read'', ''chat''), (''execute'', ''search-app''), (''read'', ''assistant''),
     (''execute'', ''assistant''), (''read'', ''search-app''), (''read'', ''usage''), (''read'', ''dashboard''),
     (''read'', ''knowledge-ops''), (''manage'', ''knowledge-ops''), (''read'', ''scenario-template''),
     (''read'', ''trial-run''), (''execute'', ''trial-run''), (''read'', ''prompt-policy''),
     (''manage'', ''prompt-policy''), (''read'', ''parser-policy''), (''read'', ''quality-profile''),
     (''read'', ''logical-document''), (''read'', ''source-routing-rule''), (''read'', ''knowledge-strategy''),
     (''execute'', ''knowledge-strategy''), (''read'', ''knowledge-profile''), (''manage'', ''knowledge-profile''),
     (''read'', ''compilation''), (''manage'', ''compilation''), (''execute'', ''compilation''),
     (''read'', ''evidence-snapshot''), (''read'', ''outbox-event''), (''read'', ''knowledge-lifecycle''),
     (''read'', ''eval-set''), (''manage'', ''eval-set''), (''execute'', ''eval-set''),
     (''read'', ''release-governance''), (''execute'', ''release-governance''), (''read'', ''alert'')]"

definition matrix_06 :: "(string \<times> string) list" where
  "matrix_06 = [
     (''read'', ''user''), (''read'', ''dataset''), (''read'', ''document''), (''append'', ''document''),
     (''delete:own'', ''document''), (''read'', ''assistant''), (''execute'', ''assistant''), (''read'', ''chat''),
     (''execute'', ''chat''), (''read'', ''search-app''), (''execute'', ''search-app''),
     (''read'', ''logical-document''), (''read'', ''scenario-template''), (''read'', ''trial-run'')]"

definition matrix_07 :: "(string \<times> string) list" where
  "matrix_07 = [
     (''read'', ''user''), (''read'', ''dataset''), (''read'', ''document''), (''read'', ''chat''),
     (''read'', ''search-app''), (''read'', ''assistant''), (''read'', ''scenario-template''),
     (''read'', ''trial-run''), (''read'', ''logical-document'')]"

definition matrix_08 :: "(string \<times> string) list" where
  "matrix_08 = [
     (''execute'', ''memory''), (''read'', ''memory''), (''manage'', ''memory''), (''read'', ''memory-content''),
     (''manage'', ''memory-content''), (''execute'', ''memory-content''), (''execute'', ''memory-write''),
     (''read'', ''memory-policy''), (''manage'', ''memory-policy''), (''execute'', ''memory-policy''),
     (''manage'', ''memory-forget''), (''execute'', ''memory-forget''), (''read'', ''context-decision''),
     (''read'', ''memory-operation'')]"

definition matrix_09 :: "(string \<times> string) list" where
  "matrix_09 = [
     (''execute'', ''memory''), (''read'', ''memory''), (''manage'', ''memory''), (''read'', ''memory-content''),
     (''execute'', ''memory-content''), (''execute'', ''memory-write''), (''read'', ''memory-policy''),
     (''manage'', ''memory-policy''), (''execute'', ''memory-policy''), (''read'', ''context-decision''),
     (''read'', ''memory-operation'')]"

definition matrix_10 :: "(string \<times> string) list" where
  "matrix_10 = [
     (''read'', ''memory''), (''read'', ''memory-policy''), (''read'', ''context-decision''),
     (''read'', ''memory-operation'')]"

definition matrix_11 :: "(string \<times> string) list" where
  "matrix_11 = [
     (''read'', ''memory''), (''execute'', ''memory''), (''read'', ''memory-content''),
     (''execute'', ''memory-content''), (''execute'', ''memory-write''), (''read'', ''memory-policy''),
     (''execute'', ''memory-policy''), (''execute'', ''memory-forget''), (''read'', ''context-decision''),
     (''read'', ''memory-operation'')]"

definition matrix_12 :: "(string \<times> string) list" where
  "matrix_12 = [
     (''execute'', ''agent''), (''read'', ''agent''), (''manage'', ''agent''), (''session:create'', ''agent'')]"

definition matrix_13 :: "(string \<times> string) list" where
  "matrix_13 = [
     (''execute'', ''agent''), (''read'', ''agent''), (''manage'', ''agent''), (''session:create'', ''agent'')]"

definition matrix_14 :: "(string \<times> string) list" where
  "matrix_14 = [
     (''read'', ''agent'')]"

definition matrix_15 :: "(string \<times> string) list" where
  "matrix_15 = [
     (''execute'', ''agent''), (''read'', ''agent''), (''session:create'', ''agent'')]"

definition matrix_16 :: "(string \<times> string) list" where
  "matrix_16 = [
     (''read'', ''team''), (''manage'', ''team''), (''read'', ''project''), (''manage'', ''project''),
     (''read'', ''dataset''), (''manage'', ''dataset''), (''read'', ''document''), (''append'', ''document''),
     (''delete:own'', ''document''), (''execute'', ''document''), (''read'', ''user''),
     (''read'', ''scenario-template''), (''manage'', ''scenario-template''), (''read'', ''trial-run''),
     (''execute'', ''trial-run''), (''read'', ''prompt-policy''), (''read'', ''parser-policy''),
     (''read'', ''quality-profile''), (''read'', ''logical-document''), (''manage'', ''logical-document''),
     (''execute'', ''logical-document''), (''read'', ''knowledge-lifecycle''), (''read'', ''eval-set''),
     (''manage'', ''eval-set''), (''read'', ''memory-operation''), (''execute'', ''memory-forget''),
     (''read'', ''memory-content''), (''manage'', ''memory-content''), (''execute'', ''memory-content''),
     (''execute'', ''memory-write''), (''read'', ''memory-policy''), (''execute'', ''memory-policy''),
     (''read'', ''assistant''), (''execute'', ''assistant''), (''read'', ''chat''), (''execute'', ''chat''),
     (''read'', ''search-app''), (''execute'', ''search-app''), (''read'', ''agent''), (''execute'', ''agent''),
     (''session:create'', ''agent''), (''read'', ''memory''), (''execute'', ''memory'')]"

definition matrix_17 :: "(string \<times> string) list" where
  "matrix_17 = [
     (''read'', ''approval''), (''execute'', ''approval''), (''manage'', ''approval''),
     (''read'', ''approval-policy''), (''manage'', ''approval-policy'')]"

definition matrix_18 :: "(string \<times> string) list" where
  "matrix_18 = [
     (''read'', ''approval''), (''execute'', ''approval'')]"

definition matrix_19 :: "(string \<times> string) list" where
  "matrix_19 = [
     (''read'', ''document-governance''), (''manage'', ''document-governance''),
     (''execute'', ''document-governance'')]"

definition matrix_20 :: "(string \<times> string) list" where
  "matrix_20 = [
     (''read'', ''document-governance''), (''manage'', ''document-governance''),
     (''execute'', ''document-governance'')]"

definition matrix_21 :: "(string \<times> string) list" where
  "matrix_21 = [
     (''read'', ''document-governance'')]"

definition matrix_22 :: "(string \<times> string) list" where
  "matrix_22 = [
     (''read'', ''document-governance'')]"

definition matrix_23 :: "(string \<times> string) list" where
  "matrix_23 = [
     (''read'', ''user-clearance''), (''manage'', ''user-clearance'')]"

definition matrix_24 :: "(string \<times> string) list" where
  "matrix_24 = [
     (''read'', ''user-clearance''), (''manage'', ''user-clearance'')]"

definition matrix_25 :: "(string \<times> string) list" where
  "matrix_25 = [
     (''read'', ''user-clearance'')]"

definition rows_for :: "string \<Rightarrow> (string \<times> string) list \<Rightarrow> (string \<times> string \<times> string) list" where
  "rows_for r ps = map (\<lambda>(a, x). (r, a, x)) ps"

definition BuiltinPermissionMatrix :: "(string \<times> string \<times> string) list" where
  "BuiltinPermissionMatrix =
     rows_for RolePlatformAdmin matrix_01 @
     rows_for RoleTenantAdmin matrix_02 @
     rows_for RoleTeamAdmin matrix_03 @
     rows_for RoleTenantAdmin matrix_04 @
     rows_for RoleOperator matrix_05 @
     rows_for RoleBusinessUser matrix_06 @
     rows_for RoleViewer matrix_07 @
     rows_for RoleTenantAdmin matrix_08 @
     rows_for RoleOperator matrix_09 @
     rows_for RoleViewer matrix_10 @
     rows_for RoleBusinessUser matrix_11 @
     rows_for RoleTenantAdmin matrix_12 @
     rows_for RoleOperator matrix_13 @
     rows_for RoleViewer matrix_14 @
     rows_for RoleBusinessUser matrix_15 @
     rows_for RoleTeamAdmin matrix_16 @
     rows_for RoleTenantAdmin matrix_17 @
     rows_for RoleOperator matrix_18 @
     rows_for RolePlatformAdmin matrix_19 @
     rows_for RoleTenantAdmin matrix_20 @
     rows_for RoleTeamAdmin matrix_21 @
     rows_for RoleOperator matrix_22 @
     rows_for RolePlatformAdmin matrix_23 @
     rows_for RoleTenantAdmin matrix_24 @
     rows_for RoleTeamAdmin matrix_25"

text \<open>
  The catalog: the pairs of the matrix without the wildcard resource, restricted to the listed
  actions.
\<close>

definition catalog_actions :: "string list" where
  "catalog_actions = [''read'', ''manage'', ''execute'', ''session:create'', ''governance.read'', ''append'',
     ''delete:own'', ''test'', ''governance.read_sensitive'', ''governance.manage'', ''tenant.resource.manage'',
     ''tenant.resource.delete'', ''tenant.connection.manage'', ''tenant.connection.bind'',
     ''tenant.connection.unbind'', ''tenant.connection.rotate_secret'', ''tenant.audit.read'', ''tenant.usage.read'']"

definition PermissionCatalog :: "(string \<times> string list) list" where
  "PermissionCatalog =
     (let rows = filter (\<lambda>(_, _, x). x \<noteq> ''*'') BuiltinPermissionMatrix;
          order = rev (remdups (rev (map (\<lambda>(_, _, x). x) rows)))
      in filter (\<lambda>(_, acts). acts \<noteq> [])
           (map (\<lambda>x. (x, filter (\<lambda>a. \<exists>(_, a', x')\<in>set rows. a' = a \<and> x' = x) catalog_actions)) order))"

definition isCatalogPermission :: "string \<Rightarrow> string \<Rightarrow> bool" where
  "isCatalogPermission resource action = (\<exists>(x, acts)\<in>set PermissionCatalog. x = resource \<and> action \<in> set acts)"

section \<open>The declared order of the roles\<close>

definition BuiltinRoles :: "string list" where
  "BuiltinRoles = [RolePlatformAdmin, RoleTenantAdmin, RoleOperator, RoleBusinessUser, RoleViewer, RoleTeamAdmin]"

definition roleSupersetRelations :: "(string \<times> string) list" where
  "roleSupersetRelations =
     [(RolePlatformAdmin, RoleTenantAdmin), (RoleTenantAdmin, RoleOperator), (RoleTenantAdmin, RoleTeamAdmin),
      (RoleTenantAdmin, RoleBusinessUser), (RoleTenantAdmin, RoleViewer), (RoleOperator, RoleViewer),
      (RoleBusinessUser, RoleViewer), (RoleTeamAdmin, RoleBusinessUser)]"

definition roleIncomparableRelations :: "(string \<times> string) list" where
  "roleIncomparableRelations = [(RoleBusinessUser, RoleOperator), (RoleOperator, RoleTeamAdmin)]"

text \<open>What a role holds: one line of \<^verbatim>\<open>roleGrantIndex\<close>, as pairs of action and resource.\<close>

definition role_grants :: "string \<Rightarrow> (string \<times> string) list" where
  "role_grants r = map snd (filter (\<lambda>(r', _). r' = r) BuiltinPermissionMatrix)"

lemma filter_rows_for: "filter (\<lambda>(r', _). r' = r) (rows_for r1 ps) = (if r1 = r then rows_for r1 ps else [])"
  by (auto simp: rows_for_def filter_map comp_def split_def)

lemma snd_rows_for [simp]: "map snd (rows_for r ps) = ps"
  by (simp add: rows_for_def comp_def split_def)

lemma grants_PlatformAdmin: "role_grants RolePlatformAdmin = matrix_01 @ matrix_19 @ matrix_23"
  by (simp add: role_grants_def BuiltinPermissionMatrix_def filter_rows_for)

lemma grants_TenantAdmin: "role_grants RoleTenantAdmin = matrix_02 @ matrix_04 @ matrix_08 @ matrix_12 @ matrix_17 @ matrix_20 @ matrix_24"
  by (simp add: role_grants_def BuiltinPermissionMatrix_def filter_rows_for)

lemma grants_TeamAdmin: "role_grants RoleTeamAdmin = matrix_03 @ matrix_16 @ matrix_21 @ matrix_25"
  by (simp add: role_grants_def BuiltinPermissionMatrix_def filter_rows_for)

lemma grants_Operator: "role_grants RoleOperator = matrix_05 @ matrix_09 @ matrix_13 @ matrix_18 @ matrix_22"
  by (simp add: role_grants_def BuiltinPermissionMatrix_def filter_rows_for)

lemma grants_BusinessUser: "role_grants RoleBusinessUser = matrix_06 @ matrix_11 @ matrix_15"
  by (simp add: role_grants_def BuiltinPermissionMatrix_def filter_rows_for)

lemma grants_Viewer: "role_grants RoleViewer = matrix_07 @ matrix_10 @ matrix_14"
  by (simp add: role_grants_def BuiltinPermissionMatrix_def filter_rows_for)

section \<open>Inclusion of role grants\<close>

text \<open>A list all of whose entries are found at given positions of another one.\<close>

lemma set_by_positions: "map ((!) ys) ks = xs \<Longrightarrow> \<forall>i\<in>set ks. i < length ys \<Longrightarrow> set xs \<subseteq> set ys"
  by auto

lemma PlatformAdmin_covers_TenantAdmin: "set (role_grants RoleTenantAdmin) \<subseteq> set (role_grants RolePlatformAdmin)"
  unfolding grants_PlatformAdmin grants_TenantAdmin matrix_01_def matrix_19_def matrix_23_def matrix_02_def matrix_04_def matrix_08_def matrix_12_def matrix_17_def matrix_20_def matrix_24_def
  by (rule set_by_positions [where ks = "[13, 17, 18, 19, 20, 15, 16, 21, 22, 23, 24, 25, 26, 27, 28, 29, 30, 31, 32, 34, 33, 35, 36, 37, 38,
      39, 41, 42, 43, 44, 45, 46, 62, 47, 48, 49, 51, 52, 53, 56, 58, 57, 59, 54, 55, 60, 61, 65, 63, 64,
      66, 67, 68, 69, 70, 71, 72, 73, 74, 75, 76, 77, 78, 79, 80, 81, 82, 83, 84, 85, 86, 87, 88, 89, 90,
      91, 92, 93, 94, 95, 96, 97, 98, 99, 100, 101, 102, 103, 104, 105, 106, 107, 108, 109, 112, 110, 111,
      113, 114, 115, 116, 117, 118, 119, 120, 121, 122, 123, 126, 124, 125, 127, 128, 129, 130, 131, 132,
      135, 136, 137, 138, 139]"]) simp_all

lemma TenantAdmin_covers_Operator: "set (role_grants RoleOperator) \<subseteq> set (role_grants RoleTenantAdmin)"
  unfolding grants_TenantAdmin grants_Operator matrix_02_def matrix_04_def matrix_08_def matrix_12_def matrix_17_def matrix_20_def matrix_24_def matrix_05_def matrix_09_def matrix_13_def matrix_18_def matrix_22_def
  by (rule set_by_positions [where ks = "[3, 7, 9, 11, 14, 15, 16, 17, 18, 19, 20, 32, 45, 47, 39, 40, 48, 33, 38, 43, 44, 50, 52, 53, 54, 55,
      56, 58, 60, 68, 70, 72, 73, 74, 75, 76, 77, 78, 79, 84, 86, 87, 88, 89, 91, 92, 94, 95, 96, 97, 99,
      100, 101, 102, 103, 106, 107, 108, 109, 110, 111, 112, 113, 117]"]) simp_all

lemma TenantAdmin_covers_TeamAdmin: "set (role_grants RoleTeamAdmin) \<subseteq> set (role_grants RoleTenantAdmin)"
  unfolding grants_TenantAdmin grants_TeamAdmin matrix_02_def matrix_04_def matrix_08_def matrix_12_def matrix_17_def matrix_20_def matrix_24_def matrix_03_def matrix_16_def matrix_21_def matrix_25_def
  by (rule set_by_positions [where ks = "[70, 71, 72, 73, 74, 75, 76, 77, 78, 89, 91, 106, 7, 8, 9, 10, 11, 12, 14, 15, 16, 17, 3, 50, 51, 52,
      53, 54, 56, 58, 60, 61, 62, 84, 86, 87, 107, 105, 97, 98, 99, 100, 101, 103, 39, 40, 45, 32, 48, 47,
      109, 108, 111, 95, 94, 117, 120]"]) simp_all

lemma TeamAdmin_covers_BusinessUser: "set (role_grants RoleBusinessUser) \<subseteq> set (role_grants RoleTeamAdmin)"
  unfolding grants_TeamAdmin grants_BusinessUser matrix_03_def matrix_16_def matrix_21_def matrix_25_def matrix_06_def matrix_11_def matrix_15_def
  by (rule set_by_positions [where ks = "[22, 16, 18, 19, 20, 44, 45, 46, 47, 48, 49, 30, 23, 25, 53, 54, 38, 40, 41, 42, 43, 37, 11, 36, 51,
      50, 52]"]) simp_all

lemma Operator_covers_Viewer: "set (role_grants RoleViewer) \<subseteq> set (role_grants RoleOperator)"
  unfolding grants_Operator grants_Viewer matrix_05_def matrix_09_def matrix_13_def matrix_18_def matrix_22_def matrix_07_def matrix_10_def matrix_14_def
  by (rule set_by_positions [where ks = "[0, 3, 4, 12, 16, 14, 21, 22, 28, 47, 52, 55, 56, 58]"]) simp_all

lemma BusinessUser_covers_Viewer: "set (role_grants RoleViewer) \<subseteq> set (role_grants RoleBusinessUser)"
  unfolding grants_BusinessUser grants_Viewer matrix_06_def matrix_11_def matrix_15_def matrix_07_def matrix_10_def matrix_14_def
  by (rule set_by_positions [where ks = "[0, 1, 2, 7, 9, 5, 12, 13, 11, 14, 19, 22, 23, 25]"]) simp_all

end
