(* ===== verification/Role_Lattice.thy ===== *)
theory Role_Lattice
  imports Role_Matrix Authz_Props
begin

text \<open>
  The seeding of the built-in roles by \<^verbatim>\<open>internal/db/migrate.go\<close> and what it means for the
  authorizer: the declared order of the roles is respected by every decision. Row ids and the
  displayed texts of the roles are arguments.
\<close>

section \<open>Seeding\<close>

definition create_missing :: "role \<Rightarrow> role list \<Rightarrow> role list" where
  "create_missing r rs = (if sql_count (\<lambda>x. ro_id x = ro_id r) rs = 0 then rs @ [r] else rs)"

definition builtin_role :: "(string \<Rightarrow> string \<times> string) \<Rightarrow> string \<Rightarrow> string \<Rightarrow> role" where
  "builtin_role label i sc = \<lparr>ro_id = i, ro_tenant_id = [], ro_name = fst (label i), ro_scope = sc,
     ro_description = snd (label i), ro_parent_id = []\<rparr>"

definition builtin_role_rows :: "(string \<Rightarrow> string \<times> string) \<Rightarrow> role list" where
  "builtin_role_rows label =
     [builtin_role label RolePlatformAdmin RoleScopePlatform, builtin_role label RoleTenantAdmin RoleScopeTenant,
      builtin_role label RoleOperator RoleScopeTenant, builtin_role label RoleViewer RoleScopeTenant,
      builtin_role label RoleTeamAdmin RoleScopeTenant, builtin_role label RoleBusinessUser RoleScopeTenant]"

fun create_rows :: "(nat \<Rightarrow> string) \<Rightarrow> string list \<Rightarrow> (string \<times> string \<times> string) list \<Rightarrow> permission list" where
  "create_rows newID seen [] = []"
| "create_rows newID seen ((r, a, x) # rows) =
     (let key = r @ ''|'' @ a @ ''|'' @ x in
      if key \<in> set seen then create_rows newID seen rows
      else \<lparr>p_id = newID (length seen), p_role_id = r, p_action = a, p_resource = x, p_effect = PermissionEffectAllow\<rparr>
             # create_rows newID (key # seen) rows)"

definition reconcileBuiltinPermissions :: "(nat \<Rightarrow> string) \<Rightarrow> id_store \<Rightarrow> id_store" where
  "reconcileBuiltinPermissions newID s =
     s\<lparr>permissions :=
         filter (\<lambda>p. p_role_id p \<notin> {RolePlatformAdmin, RoleTenantAdmin, RoleOperator, RoleViewer, RoleTeamAdmin,
                                    RoleBusinessUser}) (permissions s) @
         create_rows newID [] BuiltinPermissionMatrix\<rparr>"

definition seedDefaultRBAC :: "(string \<Rightarrow> string \<times> string) \<Rightarrow> (nat \<Rightarrow> string) \<Rightarrow> id_store \<Rightarrow> id_store" where
  "seedDefaultRBAC label newID s =
     reconcileBuiltinPermissions newID (s\<lparr>roles := fold create_missing (builtin_role_rows label) (roles s)\<rparr>)"

definition seedTeamAdminOwners :: "id_store \<Rightarrow> id_store" where
  "seedTeamAdminOwners s =
     s\<lparr>user_roles := fold (\<lambda>i urs. if (i, RoleTeamAdmin) \<in> set urs then urs else urs @ [(i, RoleTeamAdmin)])
         (remdups (filter (\<lambda>i. i \<noteq> []) (map tm_owner_id (teams s)))) (user_roles s)\<rparr>"

section \<open>The declared order holds on the matrix\<close>

lemma superset_table: "list_all (\<lambda>(p, q). set (role_grants q) \<subseteq> set (role_grants p)) roleSupersetRelations"
proof -
  have "set (role_grants RoleBusinessUser) \<subseteq> set (role_grants RoleTenantAdmin)"
    using TeamAdmin_covers_BusinessUser TenantAdmin_covers_TeamAdmin by (rule subset_trans)
  moreover have "set (role_grants RoleViewer) \<subseteq> set (role_grants RoleTenantAdmin)"
    using Operator_covers_Viewer TenantAdmin_covers_Operator by (rule subset_trans)
  ultimately show ?thesis
    by (simp add: roleSupersetRelations_def PlatformAdmin_covers_TenantAdmin TenantAdmin_covers_Operator
        TenantAdmin_covers_TeamAdmin TeamAdmin_covers_BusinessUser Operator_covers_Viewer BusinessUser_covers_Viewer)
qed

lemma superset_holds: "(p, q) \<in> set roleSupersetRelations \<Longrightarrow> set (role_grants q) \<subseteq> set (role_grants p)"
  using superset_table by (auto simp: list_all_iff)

lemma superset_closure:
  "(p, q) \<in> (set roleSupersetRelations)\<^sup>+ \<Longrightarrow> set (role_grants q) \<subseteq> set (role_grants p)"
  by (induction rule: trancl_induct) (use superset_holds in blast)+

lemma superset_builtin:
  "(p, q) \<in> (set roleSupersetRelations)\<^sup>+ \<Longrightarrow> p \<in> set BuiltinRoles \<and> q \<in> set BuiltinRoles"
  by (induction rule: trancl_induct) (auto simp: roleSupersetRelations_def BuiltinRoles_def)

definition clean_pair :: "string \<times> string \<Rightarrow> bool" where
  "clean_pair p \<longleftrightarrow> CHR ''|'' \<notin> set (fst p) \<and> CHR ''|'' \<notin> set (snd p)"

lemma clean_01: "list_all clean_pair matrix_01"
  by (simp add: matrix_01_def clean_pair_def)

lemma clean_02: "list_all clean_pair matrix_02"
  by (simp add: matrix_02_def clean_pair_def)

lemma clean_03: "list_all clean_pair matrix_03"
  by (simp add: matrix_03_def clean_pair_def)

lemma clean_04: "list_all clean_pair matrix_04"
  by (simp add: matrix_04_def clean_pair_def)

lemma clean_05: "list_all clean_pair matrix_05"
  by (simp add: matrix_05_def clean_pair_def)

lemma clean_06: "list_all clean_pair matrix_06"
  by (simp add: matrix_06_def clean_pair_def)

lemma clean_07: "list_all clean_pair matrix_07"
  by (simp add: matrix_07_def clean_pair_def)

lemma clean_08: "list_all clean_pair matrix_08"
  by (simp add: matrix_08_def clean_pair_def)

lemma clean_09: "list_all clean_pair matrix_09"
  by (simp add: matrix_09_def clean_pair_def)

lemma clean_10: "list_all clean_pair matrix_10"
  by (simp add: matrix_10_def clean_pair_def)

lemma clean_11: "list_all clean_pair matrix_11"
  by (simp add: matrix_11_def clean_pair_def)

lemma clean_12: "list_all clean_pair matrix_12"
  by (simp add: matrix_12_def clean_pair_def)

lemma clean_13: "list_all clean_pair matrix_13"
  by (simp add: matrix_13_def clean_pair_def)

lemma clean_14: "list_all clean_pair matrix_14"
  by (simp add: matrix_14_def clean_pair_def)

lemma clean_15: "list_all clean_pair matrix_15"
  by (simp add: matrix_15_def clean_pair_def)

lemma clean_16: "list_all clean_pair matrix_16"
  by (simp add: matrix_16_def clean_pair_def)

lemma clean_17: "list_all clean_pair matrix_17"
  by (simp add: matrix_17_def clean_pair_def)

lemma clean_18: "list_all clean_pair matrix_18"
  by (simp add: matrix_18_def clean_pair_def)

lemma clean_19: "list_all clean_pair matrix_19"
  by (simp add: matrix_19_def clean_pair_def)

lemma clean_20: "list_all clean_pair matrix_20"
  by (simp add: matrix_20_def clean_pair_def)

lemma clean_21: "list_all clean_pair matrix_21"
  by (simp add: matrix_21_def clean_pair_def)

lemma clean_22: "list_all clean_pair matrix_22"
  by (simp add: matrix_22_def clean_pair_def)

lemma clean_23: "list_all clean_pair matrix_23"
  by (simp add: matrix_23_def clean_pair_def)

lemma clean_24: "list_all clean_pair matrix_24"
  by (simp add: matrix_24_def clean_pair_def)

lemma clean_25: "list_all clean_pair matrix_25"
  by (simp add: matrix_25_def clean_pair_def)

lemmas clean_runs = clean_01 clean_02 clean_03 clean_04 clean_05 clean_06 clean_07 clean_08 clean_09 clean_10 clean_11 clean_12 clean_13 clean_14 clean_15 clean_16 clean_17 clean_18 clean_19 clean_20 clean_21 clean_22 clean_23 clean_24 clean_25

definition clean_row :: "string \<times> string \<times> string \<Rightarrow> bool" where
  "clean_row t \<longleftrightarrow> fst t \<in> set BuiltinRoles \<and> CHR ''|'' \<notin> set (fst t) \<and> clean_pair (snd t)"

lemma clean_rows_for:
  "r \<in> set BuiltinRoles \<Longrightarrow> list_all clean_pair ps \<Longrightarrow> list_all clean_row (rows_for r ps)"
  by (auto simp: list_all_iff rows_for_def clean_row_def BuiltinRoles_def role_name_defs)

lemma clean_matrix: "list_all clean_row BuiltinPermissionMatrix"
  by (simp only: BuiltinPermissionMatrix_def list_all_append clean_rows_for clean_runs BuiltinRoles_def
      list.set insert_iff empty_iff simp_thms)

section \<open>The seeded tables\<close>

lemma row_sig_unique:
  assumes "clean_row (r, a, x)" and "clean_row (r', a', x')" and "r @ ''|'' @ a @ ''|'' @ x = r' @ ''|'' @ a' @ ''|'' @ x'"
  shows "r = r' \<and> a = a' \<and> x = x'"
  using assms sep_unique [of "CHR ''|''" r r' "a @ ''|'' @ x" "a' @ ''|'' @ x'"]
    sep_unique [of "CHR ''|''" a a' x x'] by (simp add: clean_row_def clean_pair_def)

definition row_key :: "string \<times> string \<times> string \<Rightarrow> string" where
  "row_key = (\<lambda>(r, a, x). r @ ''|'' @ a @ ''|'' @ x)"

definition row_of :: "permission \<Rightarrow> string \<times> string \<times> string" where
  "row_of p = (p_role_id p, p_action p, p_resource p)"

text \<open>The created rows are the matrix: a row is left out only if it was created before.\<close>

lemma create_rows_spec:
  assumes "list_all clean_row rows" and "\<forall>k\<in>D. clean_row k" and "set seen = row_key ` D"
  shows "row_of ` set (create_rows newID seen rows) \<union> D = set rows \<union> D \<and>
    (\<forall>p\<in>set (create_rows newID seen rows). p_effect p = PermissionEffectAllow)"
  using assms
proof (induction newID seen rows arbitrary: D rule: create_rows.induct)
  case (2 newID seen r a x rows)
  have c: "clean_row (r, a, x)" using 2(3) by simp
  show ?case
  proof (cases "row_key (r, a, x) \<in> set seen")
    case True
    then obtain k where k: "k \<in> D" "row_key (r, a, x) = row_key k" using 2(5) by auto
    then have "k = (r, a, x)" using row_sig_unique [OF c] 2(4) by (cases k) (auto simp: row_key_def)
    with k 2(1) [OF refl, of D] True 2(3-5) show ?thesis by (simp add: row_key_def insert_absorb)
  next
    case False
    have "row_of ` set (create_rows newID (row_key (r, a, x) # seen) rows) \<union> insert (r, a, x) D = set rows \<union> insert (r, a, x) D \<and>
        (\<forall>p\<in>set (create_rows newID (row_key (r, a, x) # seen) rows). p_effect p = PermissionEffectAllow)"
      unfolding row_key_def prod.case
      by (rule 2(2) [OF refl]) (use False 2(3-5) c in \<open>auto simp: row_key_def\<close>)
    then show ?thesis using False by (auto simp: row_key_def row_of_def)
  qed
qed simp

lemma created_matrix: "row_of ` set (create_rows newID [] BuiltinPermissionMatrix) = set BuiltinPermissionMatrix"
  "p \<in> set (create_rows newID [] BuiltinPermissionMatrix) \<Longrightarrow> p_effect p = PermissionEffectAllow"
  using create_rows_spec [OF clean_matrix, of "{}" "[]" newID] by auto

lemma builtin_set: "{RolePlatformAdmin, RoleTenantAdmin, RoleOperator, RoleViewer, RoleTeamAdmin, RoleBusinessUser} =
    set BuiltinRoles"
  by (auto simp: BuiltinRoles_def)

lemma seeded_rules:
  assumes "r \<in> set BuiltinRoles" and "s1 = seedDefaultRBAC label newID s"
  shows "(\<lambda>p. (p_action p, p_resource p)) ` rules_of s1 {r} = set (role_grants r) \<and>
    (\<forall>p\<in>rules_of s1 {r}. p_effect p = PermissionEffectAllow)"
proof -
  let ?new = "create_rows newID [] BuiltinPermissionMatrix"
  have R: "rules_of s1 {r} = {p \<in> set ?new. p_role_id p = r}"
    using assms(1) by (auto simp: assms(2) rules_of_def seedDefaultRBAC_def reconcileBuiltinPermissions_def builtin_set)
  have "(a, x) \<in> (\<lambda>p. (p_action p, p_resource p)) ` {p \<in> set ?new. p_role_id p = r} \<longleftrightarrow>
      (r, a, x) \<in> row_of ` set ?new" for a x
    by (auto simp: row_of_def image_iff)
  then show ?thesis unfolding R created_matrix(1)
    by (auto simp: role_grants_def image_iff created_matrix(2)) force
qed

lemma seeded_clean:
  assumes "\<forall>p\<in>set (permissions s). clean_rule p" and "s1 = seedDefaultRBAC label newID s"
  shows "\<forall>p\<in>set (permissions s1). clean_rule p"
proof
  fix p
  assume "p \<in> set (permissions s1)"
  then consider "p \<in> set (permissions s)" | "p \<in> set (create_rows newID [] BuiltinPermissionMatrix)"
    by (auto simp: assms(2) seedDefaultRBAC_def reconcileBuiltinPermissions_def)
  then show "clean_rule p"
  proof cases
    case 2
    then have "clean_row (row_of p)" using created_matrix(1) [of newID] clean_matrix by (auto simp: list_all_iff)
    then show ?thesis by (simp add: clean_row_def clean_pair_def row_of_def clean_rule_def)
  qed (use assms(1) in blast)
qed

lemma create_missing_row:
  "row_at ro_id i (create_missing r rs) = (if ro_id r = i \<and> row_at ro_id i rs = None then Some r else row_at ro_id i rs)"
proof -
  have "sql_count (\<lambda>x. ro_id x = ro_id r) rs = 0 \<longleftrightarrow> row_at ro_id (ro_id r) rs = None"
    by (auto simp: sql_count_def row_at_None_iff filter_empty_conv image_iff)
  then show ?thesis by (auto simp: create_missing_def row_at_append split: option.splits)
qed

lemma seeded_role_row:
  assumes "r \<in> set BuiltinRoles"
  shows "row_at ro_id r (roles (seedDefaultRBAC label newID s)) = (case row_at ro_id r (roles s) of
     Some x \<Rightarrow> Some x
   | None \<Rightarrow> Some (builtin_role label r (if r = RolePlatformAdmin then RoleScopePlatform else RoleScopeTenant)))"
  using assms
  by (auto simp: seedDefaultRBAC_def reconcileBuiltinPermissions_def builtin_role_rows_def create_missing_row
      builtin_role_def BuiltinRoles_def split: option.splits)

section \<open>Decisions for built-in roles\<close>

lemma only_role:
  assumes "active_user s userID u" and "\<forall>r. (userID, r) \<in> set (user_roles s) \<longleftrightarrow> r = k"
    and "row_at ro_id k (roles s) = Some ro" and "ro_parent_id ro = []" and "k \<noteq> []"
  shows "effective_ids s u = {k}"
proof -
  have i: "us_id u = userID" using assms(1) row_at_SomeD by (fastforce simp: active_user_def)
  have "ro \<in> set (roles s)" "ro_id ro = k" using row_at_SomeD [OF assms(3)] by auto
  then have "assigned_ids s u = {k}" using assms(2) i by (auto simp: assigned_ids_def)
  moreover have "(k, b) \<notin> parent_rel s" for b using assms(3,4) by (auto simp: parent_rel_def)
  then have "(parent_rel s)\<^sup>* `` {k} = {k}" by (intro closed_closure) auto
  ultimately show ?thesis using assms(5) by (simp add: effective_ids_def)
qed

lemma builtin_nonempty: "r \<in> set BuiltinRoles \<Longrightarrow> r \<noteq> []"
  by (auto simp: BuiltinRoles_def role_name_defs)

lemma seeded_allowed:
  assumes s1: "s1 = seedDefaultRBAC label newID s"
    and parents: "\<forall>r\<in>set (roles s). ro_id r \<in> set BuiltinRoles \<longrightarrow> ro_parent_id r = []"
    and k: "k \<in> set BuiltinRoles"
    and u: "active_user s userID u" and only: "\<forall>r. (userID, r) \<in> set (user_roles s) \<longleftrightarrow> r = k"
  shows "active_user s1 userID u \<and> (allowed s1 u action resource \<longleftrightarrow>
    (\<exists>(a, x)\<in>set (role_grants k). rule_grants (demo_rule k a x PermissionEffectAllow) action resource))"
proof -
  have same: "users s1 = users s" "tenants s1 = tenants s" "user_roles s1 = user_roles s"
    by (simp_all add: s1 seedDefaultRBAC_def reconcileBuiltinPermissions_def)
  obtain ro where ro: "row_at ro_id k (roles s1) = Some ro" "ro_parent_id ro = []"
    using seeded_role_row [OF k, of label newID s] parents k
    by (auto simp: s1 builtin_role_def split: option.splits dest: row_at_SomeD)
  have a: "active_user s1 userID u" using u by (simp add: active_user_def same)
  have e: "effective_ids s1 u = {k}"
    by (rule only_role [OF a _ ro builtin_nonempty [OF k]]) (simp add: only same)
  have g: "rule_grants p action resource = rule_grants (demo_rule k (p_action p) (p_resource p) PermissionEffectAllow) action resource"
    for p by (simp add: rule_grants_def rule_hits_def demo_rule_def)
  note R = seeded_rules [OF k s1]
  have "\<not> refused s1 u action resource" using R by (auto simp: refused_def e PermissionEffectAllow_def PermissionEffectDeny_def)
  moreover have "granted s1 u action resource \<longleftrightarrow>
      (\<exists>p\<in>rules_of s1 {k}. rule_grants (demo_rule k (p_action p) (p_resource p) PermissionEffectAllow) action resource)"
    using R g by (auto simp: granted_def e PermissionEffectAllow_def PermissionEffectDeny_def)
  moreover have "\<dots> \<longleftrightarrow> (\<exists>(a, x)\<in>set (role_grants k). rule_grants (demo_rule k a x PermissionEffectAllow) action resource)"
    unfolding conjunct1 [OF R, symmetric] by auto
  ultimately show ?thesis using a by (simp add: allowed_def)
qed

text \<open>
  C21: The declared order of the built-in roles is what the authorizer enforces. After the built-in
  roles and permissions are seeded, whatever a user who has only a role is permitted, a user who
  has only a role declared above it is permitted too, directly or through a chain of declared
  relations.
\<close>

theorem seeded_roles_respect_lattice:
  assumes "s1 = seedDefaultRBAC label newID s"
    and "\<forall>p\<in>set (permissions s). clean_rule p"
    and "\<forall>r\<in>set (roles s). ro_id r \<in> set BuiltinRoles \<longrightarrow> ro_parent_id r = []"
    and "(upper, lower) \<in> (set roleSupersetRelations)\<^sup>+"
    and "active_user s userA ua" and "\<forall>r. (userA, r) \<in> set (user_roles s) \<longleftrightarrow> r = upper"
    and "active_user s userB ub" and "\<forall>r. (userB, r) \<in> set (user_roles s) \<longleftrightarrow> r = lower"
    and "fst (Authorize userB action resource (s1, [])) = Inr ()"
  shows "fst (Authorize userA action resource (s1, [])) = Inr ()"
proof -
  note clean = seeded_clean [OF assms(2,1)]
  have k: "upper \<in> set BuiltinRoles" "lower \<in> set BuiltinRoles" using superset_builtin [OF assms(4)] by auto
  note A = seeded_allowed [OF assms(1,3) k(1) assms(5,6), of action resource]
  note B = seeded_allowed [OF assms(1,3) k(2) assms(7,8), of action resource]
  have "allowed s1 ub action resource" using assms(9) B unfolding Authorize_spec [OF clean] active_user_def by auto
  then obtain a x where "(a, x) \<in> set (role_grants lower)"
    "rule_grants (demo_rule lower a x PermissionEffectAllow) action resource" using B by auto
  then have "(a, x) \<in> set (role_grants upper) \<and> rule_grants (demo_rule upper a x PermissionEffectAllow) action resource"
    using superset_closure [OF assms(4)] by (auto simp: rule_grants_def rule_hits_def demo_rule_def)
  then have "allowed s1 ua action resource" using A by blast
  with A show ?thesis unfolding Authorize_spec [OF clean] by blast
qed

definition seed_demo :: id_store where
  "seed_demo = \<lparr>tenants = [\<lparr>te_id = ''t1'', te_name = ''t1'', te_status = ''active''\<rparr>],
     users = [demo_user ''adm'' ''t1'' RoleTenantAdmin, demo_user ''eve'' ''t1'' RoleViewer],
     roles = [], user_roles = [(''adm'', RoleTenantAdmin), (''eve'', RoleViewer)],
     permissions = [], teams = [], user_teams = [], team_projects = [], project_members = []\<rparr>"

lemma seed_demo_users:
  "active_user seed_demo ''adm'' (demo_user ''adm'' ''t1'' RoleTenantAdmin)"
  "active_user seed_demo ''eve'' (demo_user ''eve'' ''t1'' RoleViewer)"
  by (simp_all add: active_user_def seed_demo_def demo_user_def TenantStatusActive_def)

lemma seed_demo_viewer:
  "fst (Authorize ''eve'' ''read'' ''dataset'' (seedDefaultRBAC label newID seed_demo, [])) = Inr ()"
proof -
  have clean: "\<forall>p\<in>set (permissions seed_demo). clean_rule p" by (simp add: seed_demo_def)
  have "(''read'', ''dataset'') \<in> set (role_grants RoleViewer)" unfolding grants_Viewer by (simp add: matrix_07_def)
  then have g: "\<exists>(a, x)\<in>set (role_grants RoleViewer).
      rule_grants (demo_rule RoleViewer a x PermissionEffectAllow) ''read'' ''dataset''"
    by (rule bexI [rotated]) (simp add: rule_grants_def rule_hits_def demo_rule_def matches_def)
  have "\<forall>r\<in>set (roles seed_demo). ro_id r \<in> set BuiltinRoles \<longrightarrow> ro_parent_id r = []"
    "RoleViewer \<in> set BuiltinRoles" "\<forall>r. (''eve'', r) \<in> set (user_roles seed_demo) \<longleftrightarrow> r = RoleViewer"
    by (simp_all add: seed_demo_def BuiltinRoles_def)
  from seeded_allowed [OF refl this(1,2) seed_demo_users(2) this(3), of label newID "''read''" "''dataset''"] g
  show ?thesis unfolding Authorize_spec [OF seeded_clean [OF clean refl]] by blast
qed

theorem seeded_roles_respect_lattice_witness:
  "fst (Authorize ''adm'' ''read'' ''dataset'' (seedDefaultRBAC (\<lambda>i. (i, i)) nat_digits seed_demo, [])) = Inr ()"
proof (rule seeded_roles_respect_lattice [OF refl])
  show "(RoleTenantAdmin, RoleViewer) \<in> (set roleSupersetRelations)\<^sup>+"
    by (intro r_into_trancl) (simp add: roleSupersetRelations_def)
  show "fst (Authorize ''eve'' ''read'' ''dataset'' (seedDefaultRBAC (\<lambda>i. (i, i)) nat_digits seed_demo, [])) = Inr ()"
    by (rule seed_demo_viewer)
qed (use seed_demo_users in \<open>auto simp: seed_demo_def\<close>)

end
