(* ===== verification/Role_Admin.thy ===== *)
theory Role_Admin
  imports Role_Matrix Authz_Props
begin

text \<open>
  Administration of custom roles: \<^verbatim>\<open>internal/service/role.go\<close> and the display name rules of
  \<^verbatim>\<open>internal/service/name_validation.go\<close>. Fresh row ids are arguments; a name is ASCII text, so
  that its runes are its characters.
\<close>

section \<open>Names and scopes\<close>

definition maxDisplayNameRunes :: nat where
  "maxDisplayNameRunes = 128"

definition normalizeDisplayName :: "string \<Rightarrow> string \<Rightarrow> int \<Rightarrow> err + string" where
  "normalizeDisplayName v emptyMessage c =
     (let name = TrimSpace v in
      if name = [] then Inl (BadRequest c emptyMessage)
      else if maxDisplayNameRunes < length name then Inl (BadRequest c ''name must be at most 128 characters'')
      else Inr name)"

definition displayNameConflict :: "string \<Rightarrow> err" where
  "displayNameConflict resource = Http 409 40911 (resource @ '' name already exists'')"

definition roleScopes :: "string list" where
  "roleScopes = [RoleScopePlatform, RoleScopeTenant, ''project'']"

definition isBuiltinRole :: "string \<Rightarrow> bool" where
  "isBuiltinRole roleID = (roleID \<in> {RolePlatformAdmin, RoleTenantAdmin, RoleOperator, RoleViewer, RoleTeamAdmin,
     RoleBusinessUser})"

text \<open>The conditions \<^verbatim>\<open>s.Authorize(...) != nil\<close>, which treat every error as a refusal.\<close>

definition refuses :: "string \<Rightarrow> string \<Rightarrow> string \<Rightarrow> id_store db \<Rightarrow> (err + bool) \<times> id_store db" where
  "refuses actorID action resource d =
     (case Authorize actorID action resource d of (Inl _, d1) \<Rightarrow> (Inr True, d1) | (Inr _, d1) \<Rightarrow> (Inr False, d1))"

definition lift_sum :: "err + 'a \<Rightarrow> 'd \<Rightarrow> (err + 'a) \<times> 'd" where
  "lift_sum r d = (r, d)"

section \<open>Operations\<close>

definition requireRoleScopeAccess :: "string \<Rightarrow> string \<Rightarrow> id_store db \<Rightarrow> (err + role) \<times> id_store db" where
  "requireRoleScopeAccess actorID roleID = chk (GetRole roleID) (\<lambda>rp.
     case rp of
       None \<Rightarrow> fail (NotFound ''role not found'')
     | Some r \<Rightarrow>
         if ro_scope r = RoleScopePlatform
         then chk (refuses actorID ''governance.manage'' ''tenant'') (\<lambda>no. if no then fail ErrForbidden else ret r)
         else ret r)"

record role_request =
  rq_name :: string
  rq_scope :: string
  rq_description :: string
  rq_parent_id :: string

definition CreateRole :: "string \<Rightarrow> string \<Rightarrow> role_request \<Rightarrow> id_store db \<Rightarrow> (err + role) \<times> id_store db" where
  "CreateRole newID actorID req =
     chk (lift_sum (normalizeDisplayName (rq_name req) ''role name is required'' 40080)) (\<lambda>name.
     chk (GetRoleByName name []) (\<lambda>existing.
       if existing \<noteq> None then fail (displayNameConflict ''role'')
       else if rq_scope req \<notin> set roleScopes then fail (BadRequest 40081 ''invalid role scope'')
       else chk (if rq_scope req = RoleScopePlatform then refuses actorID ''governance.manage'' ''tenant'' else ret False)
         (\<lambda>no. if no then fail ErrForbidden
         else chk (Authorize actorID ''manage'' ''role'') (\<lambda>_.
         let r = \<lparr>ro_id = newID, ro_tenant_id = [], ro_name = name, ro_scope = rq_scope req,
                  ro_description = rq_description req, ro_parent_id = rq_parent_id req\<rparr>
         in chk (store_CreateRole r) (\<lambda>_. ret r)))))"

definition DeleteRole :: "string \<Rightarrow> string \<Rightarrow> id_store db \<Rightarrow> (err + unit) \<times> id_store db" where
  "DeleteRole actorID roleID =
     chk (Authorize actorID ''manage'' ''role'') (\<lambda>_.
     chk (requireRoleScopeAccess actorID roleID) (\<lambda>_.
       if isBuiltinRole roleID then fail (BadRequest 40082 ''built-in roles cannot be deleted'')
       else chk (RoleUserCount roleID) (\<lambda>assigned.
         if 0 < assigned then fail (BadRequest 40083 ''role is assigned to users and cannot be deleted'')
         else chk (RoleAsParentCount roleID) (\<lambda>children.
           if 0 < children then fail (BadRequest 40084 ''role is a parent of other roles and cannot be deleted'')
           else store_DeleteRole roleID))))"

definition new_scope :: "string \<Rightarrow> string \<Rightarrow> role_request \<Rightarrow> role \<Rightarrow> id_store db \<Rightarrow> (err + role) \<times> id_store db" where
  "new_scope actorID roleID req r =
     (if rq_scope req = [] then ret r
      else if rq_scope req \<notin> set roleScopes then fail (BadRequest 40081 ''invalid role scope'')
      else chk (if rq_scope req = RoleScopePlatform then refuses actorID ''governance.manage'' ''tenant'' else ret False)
        (\<lambda>no. if no then fail ErrForbidden
        else if isBuiltinRole roleID \<and> rq_scope req \<noteq> ro_scope r
        then fail (BadRequest 40082 ''cannot change scope of built-in roles'')
        else ret (r\<lparr>ro_scope := rq_scope req\<rparr>)))"

definition new_name :: "string \<Rightarrow> role_request \<Rightarrow> role \<Rightarrow> id_store db \<Rightarrow> (err + role) \<times> id_store db" where
  "new_name roleID req r =
     (if rq_name req = [] then ret r
      else chk (lift_sum (normalizeDisplayName (rq_name req) ''role name is required'' 40080)) (\<lambda>name.
        chk (GetRoleByName name roleID) (\<lambda>existing.
          if existing \<noteq> None then fail (displayNameConflict ''role'') else ret (r\<lparr>ro_name := name\<rparr>))))"

definition new_parent :: "string \<Rightarrow> role_request \<Rightarrow> role \<Rightarrow> id_store db \<Rightarrow> (err + role) \<times> id_store db" where
  "new_parent roleID req r =
     (if rq_parent_id req = [] then ret r
      else if rq_parent_id req = roleID then fail (BadRequest 40085 ''role cannot be its own parent'')
      else chk (GetRole (rq_parent_id req)) (\<lambda>parent.
        if parent = None then fail (BadRequest 40086 ''parent role not found'')
        else ret (r\<lparr>ro_parent_id := rq_parent_id req\<rparr>)))"

definition UpdateRole :: "string \<Rightarrow> string \<Rightarrow> role_request \<Rightarrow> id_store db \<Rightarrow> (err + role) \<times> id_store db" where
  "UpdateRole actorID roleID req =
     chk (Authorize actorID ''manage'' ''role'') (\<lambda>_.
     chk (requireRoleScopeAccess actorID roleID) (\<lambda>r0.
       if isBuiltinRole (ro_id r0) then fail (BadRequest 40082 ''built-in roles cannot be modified'')
       else chk (new_scope actorID roleID req r0) (\<lambda>r1.
            chk (new_name roleID req r1) (\<lambda>r2.
            let r3 = (if rq_description req \<noteq> [] then r2\<lparr>ro_description := rq_description req\<rparr> else r2)
            in chk (new_parent roleID req r3) (\<lambda>r4.
               chk (store_UpdateRole r4) (\<lambda>_. ret r4))))))"

definition GetRolePermissions :: "string \<Rightarrow> string \<Rightarrow> id_store db \<Rightarrow> (err + permission list) \<times> id_store db" where
  "GetRolePermissions actorID roleID =
     chk (Authorize actorID ''read'' ''role'') (\<lambda>_.
     chk (requireRoleScopeAccess actorID roleID) (\<lambda>_. GetPermissions roleID))"

text \<open>A requested rule is an action, a resource and an effect.\<close>

definition spec_rule :: "(nat \<Rightarrow> string) \<Rightarrow> string \<Rightarrow> nat \<Rightarrow> string \<times> string \<times> string \<Rightarrow> permission" where
  "spec_rule newID roleID n sp =
     (case sp of (action, resource, effect) \<Rightarrow>
       \<lparr>p_id = newID n, p_role_id = roleID, p_action = action, p_resource = resource,
        p_effect = (if effect \<noteq> PermissionEffectAllow \<and> effect \<noteq> PermissionEffectDeny
                    then PermissionEffectAllow else effect)\<rparr>)"

fun spec_rules :: "(nat \<Rightarrow> string) \<Rightarrow> string \<Rightarrow> nat \<Rightarrow> (string \<times> string \<times> string) list \<Rightarrow> err + permission list" where
  "spec_rules newID roleID n [] = Inr []"
| "spec_rules newID roleID n (sp # sps) =
     (if \<not> isCatalogPermission (fst (snd sp)) (fst sp)
      then Inl (BadRequest 40087 ''permission is outside the permission catalog'')
      else case spec_rules newID roleID (n + 1) sps of
             Inl e \<Rightarrow> Inl e | Inr ps \<Rightarrow> Inr (spec_rule newID roleID n sp # ps))"

definition assertCanDelegate :: "string \<Rightarrow> permission list \<Rightarrow> id_store db \<Rightarrow> (err + unit) \<times> id_store db" where
  "assertCanDelegate actorID perms = chk (authz actorID) (\<lambda>ac.
     if \<exists>p\<in>set perms. p_effect p \<noteq> PermissionEffectDeny \<and> evaluate ac (p_action p) (p_resource p) \<noteq> Inr ()
     then fail (Http 403 40302 ''cannot grant a permission you do not hold'') else ret ())"

definition SetRolePermissions :: "(nat \<Rightarrow> string) \<Rightarrow> string \<Rightarrow> string \<Rightarrow> (string \<times> string \<times> string) list \<Rightarrow>
  id_store db \<Rightarrow> (err + unit) \<times> id_store db" where
  "SetRolePermissions newID actorID roleID specs =
     chk (Authorize actorID ''manage'' ''role'') (\<lambda>_.
     chk (requireRoleScopeAccess actorID roleID) (\<lambda>_.
       if isBuiltinRole roleID then fail (BadRequest 40082 ''built-in role permissions cannot be changed'')
       else chk (lift_sum (spec_rules newID roleID 0 specs)) (\<lambda>perms.
            chk (assertCanDelegate actorID perms) (\<lambda>_. SetPermissions roleID perms))))"

end
