(* ===== verification/User_Admin.thy ===== *)
theory User_Admin
  imports Authz_Props
begin

text \<open>
  Administration of users: \<^verbatim>\<open>internal/service/identity.go\<close>. The password hash (bcrypt) and the
  fresh user id are arguments; names and addresses are ASCII text.
\<close>

section \<open>Checks\<close>

definition ascii_in :: "nat \<Rightarrow> nat \<Rightarrow> char \<Rightarrow> bool" where
  "ascii_in lo hi c = (lo \<le> of_char c \<and> of_char c \<le> (hi :: nat))"

definition is_letter :: "char \<Rightarrow> bool" where
  "is_letter c = (ascii_in 65 90 c \<or> ascii_in 97 122 c)"

definition is_alnum :: "char \<Rightarrow> bool" where
  "is_alnum c = (is_letter c \<or> ascii_in 48 57 c)"

text \<open>
  The address pattern: one at sign, before it a non-empty local part, after it a domain whose last
  dot is followed by at least two letters.
\<close>

definition validEmail :: "string \<Rightarrow> bool" where
  "validEmail email =
     (let local = takeWhile (\<lambda>c. c \<noteq> CHR ''@'') email; dom = tl (dropWhile (\<lambda>c. c \<noteq> CHR ''@'') email);
          tld = rev (takeWhile (\<lambda>c. c \<noteq> CHR ''.'') (rev dom)); host = rev (tl (dropWhile (\<lambda>c. c \<noteq> CHR ''.'') (rev dom)))
      in CHR ''@'' \<in> set email \<and> local \<noteq> [] \<and> list_all (\<lambda>c. is_alnum c \<or> c \<in> set ''._%+-'') local \<and>
         CHR ''.'' \<in> set dom \<and> host \<noteq> [] \<and> list_all (\<lambda>c. is_alnum c \<or> c \<in> set ''.-'') host \<and>
         2 \<le> length tld \<and> list_all is_letter tld)"

definition validateRole :: "string \<Rightarrow> string \<Rightarrow> id_store db \<Rightarrow> (err + unit) \<times> id_store db" where
  "validateRole actorRole roleID = chk (GetRole roleID) (\<lambda>rp.
     case rp of
       None \<Rightarrow> fail (BadRequest 40021 ''role is not assignable'')
     | Some r \<Rightarrow>
         if ro_scope r = RoleScopePlatform \<and> actorRole \<noteq> RolePlatformAdmin
         then fail (BadRequest 40021 ''platform role requires a platform admin'') else ret ())"

definition guard_last_admin :: "string \<Rightarrow> user \<Rightarrow> id_store db \<Rightarrow> (err + unit) \<times> id_store db" where
  "guard_last_admin msg u = chk (CountActiveUsersByTenantAndRole (us_tenant_id u) RoleTenantAdmin) (\<lambda>n.
     if n \<le> 1 then fail (Http 409 40905 msg) else ret ())"

definition guardRoleMutation :: "user \<Rightarrow> string \<Rightarrow> id_store db \<Rightarrow> (err + unit) \<times> id_store db" where
  "guardRoleMutation u nextRole =
     (if us_role u = RolePlatformAdmin then fail (Http 409 40904 ''platform admin users cannot be changed'')
      else if us_role u = RoleTenantAdmin \<and> nextRole \<noteq> RoleTenantAdmin
      then guard_last_admin ''cannot remove the last tenant admin'' u
      else ret ())"

section \<open>Operations\<close>

record user_request =
  ur_username :: string
  ur_password :: string
  ur_email :: string
  ur_role :: string

definition CreateUser :: "(string \<Rightarrow> err + string) \<Rightarrow> string \<Rightarrow> string \<Rightarrow> string \<Rightarrow> user_request \<Rightarrow> id_store db \<Rightarrow>
  (err + user) \<times> id_store db" where
  "CreateUser hash newID tenantID actorRole req =
     (let name = TrimSpace (ur_username req); email = TrimSpace (ur_email req) in
      if name = [] \<or> ur_password req = [] then fail (BadRequest 40020 ''username and password are required'')
      else if 128 < length name then fail (BadRequest 40020 ''username is too long'')
      else if 255 < length email then fail (BadRequest 40023 ''email is too long'')
      else if email \<noteq> [] \<and> \<not> validEmail email then fail (BadRequest 40023 ''invalid email address'')
      else if length (ur_password req) < 8 then fail (BadRequest 40024 ''password must be at least 8 characters'')
      else chk (validateRole actorRole (ur_role req)) (\<lambda>_.
           chk (EnsureTenantActive tenantID) (\<lambda>_.
           chk (GetUserByUsername name) (\<lambda>existing.
             if existing \<noteq> None then fail (BadRequest 40022 ''username already exists'')
             else chk (if email \<noteq> [] then GetUserByEmail email else ret None) (\<lambda>existingEmail.
               if existingEmail \<noteq> None then fail (BadRequest 40026 ''email already exists'')
               else chk (\<lambda>d. (hash (ur_password req), d)) (\<lambda>h.
               let u = \<lparr>us_id = newID, us_tenant_id = tenantID, us_username = name, us_password_hash = h,
                        us_email = email, us_role = ur_role req, us_status = UserStatusActive\<rparr>
               in chk (store_CreateUser u) (\<lambda>_.
                  chk (SetUserPrimaryRole newID (ur_role req)) (\<lambda>_. ret u))))))))"

definition AssignRole :: "string \<Rightarrow> string \<Rightarrow> string \<Rightarrow> string \<Rightarrow> id_store db \<Rightarrow> (err + unit) \<times> id_store db" where
  "AssignRole actorTenantID actorRole userID rl =
     chk (validateRole actorRole rl) (\<lambda>_.
     chk (GetUser userID) (\<lambda>up.
       case up of
         None \<Rightarrow> fail (NotFound ''user not found'')
       | Some u \<Rightarrow>
           if actorRole \<noteq> RolePlatformAdmin \<and> us_tenant_id u \<noteq> actorTenantID
           then fail (Forbidden ''cannot change role across tenants'')
           else chk (guardRoleMutation u rl) (\<lambda>_. SetUserPrimaryRole userID rl)))"

definition SetUserStatus :: "string \<Rightarrow> string \<Rightarrow> string \<Rightarrow> string \<Rightarrow> id_store db \<Rightarrow> (err + unit) \<times> id_store db" where
  "SetUserStatus actorTenantID actorRole userID st =
     (if st \<noteq> UserStatusActive \<and> st \<noteq> UserStatusDisabled then fail (BadRequest 40025 ''invalid status'')
      else chk (GetUser userID) (\<lambda>up.
        case up of
          None \<Rightarrow> fail (NotFound ''user not found'')
        | Some u \<Rightarrow>
            if actorRole \<noteq> RolePlatformAdmin \<and> us_tenant_id u \<noteq> actorTenantID
            then fail (Forbidden ''cannot modify user across tenants'')
            else if us_role u = RolePlatformAdmin
            then fail (Http 409 40904 ''platform admin users cannot be changed'')
            else chk (if st = UserStatusDisabled \<and> us_role u = RoleTenantAdmin
                      then guard_last_admin ''cannot disable the last tenant admin'' u else ret ())
                   (\<lambda>_. UpdateUser (u\<lparr>us_status := st\<rparr>))))"

definition profile_name :: "string \<Rightarrow> user \<Rightarrow> id_store db \<Rightarrow> (err + user) \<times> id_store db" where
  "profile_name name u =
     (if name \<noteq> [] \<and> name \<noteq> us_username u
      then chk (GetUserByUsername name) (\<lambda>existing.
             if existing \<noteq> None then fail (BadRequest 40022 ''username already exists'')
             else ret (u\<lparr>us_username := name\<rparr>))
      else ret u)"

definition profile_role :: "string \<Rightarrow> string \<Rightarrow> user \<Rightarrow> id_store db \<Rightarrow> (err + user) \<times> id_store db" where
  "profile_role actorRole rl u =
     (if rl \<noteq> [] then chk (validateRole actorRole rl) (\<lambda>_.
        chk (guardRoleMutation u rl) (\<lambda>_. ret (u\<lparr>us_role := rl\<rparr>)))
      else ret u)"

definition profile_email :: "string \<Rightarrow> string \<Rightarrow> user \<Rightarrow> id_store db \<Rightarrow> (err + user) \<times> id_store db" where
  "profile_email userID email u =
     (if email = [] then ret u
      else if \<not> validEmail email then fail (BadRequest 40023 ''invalid email address'')
      else if 255 < length email then fail (BadRequest 40023 ''email is too long'')
      else chk (GetUserByEmail email) (\<lambda>existing.
        case existing of
          Some x \<Rightarrow> if us_id x \<noteq> userID then fail (BadRequest 40026 ''email already exists'')
                    else ret (u\<lparr>us_email := email\<rparr>)
        | None \<Rightarrow> ret (u\<lparr>us_email := email\<rparr>)))"

definition profile_password :: "(string \<Rightarrow> err + string) \<Rightarrow> string \<Rightarrow> user \<Rightarrow> id_store db \<Rightarrow> (err + user) \<times> id_store db" where
  "profile_password hash newPassword u =
     (if newPassword = [] then ret u
      else if length newPassword < 8 then fail (BadRequest 40024 ''password must be at least 8 characters'')
      else chk (\<lambda>d. (hash newPassword, d)) (\<lambda>h. ret (u\<lparr>us_password_hash := h\<rparr>)))"

definition UpdateUserProfile :: "(string \<Rightarrow> err + string) \<Rightarrow> string \<Rightarrow> string \<Rightarrow> string \<Rightarrow> user_request \<Rightarrow> id_store db \<Rightarrow>
  (err + unit) \<times> id_store db" where
  "UpdateUserProfile hash actorTenantID actorRole userID req =
     (let name = TrimSpace (ur_username req); email = TrimSpace (ur_email req); rl = ur_role req in
      chk (GetUser userID) (\<lambda>up.
        case up of
          None \<Rightarrow> fail (NotFound ''user not found'')
        | Some u \<Rightarrow>
            if actorRole \<noteq> RolePlatformAdmin \<and> us_tenant_id u \<noteq> actorTenantID
            then fail (Forbidden ''cannot modify user across tenants'')
            else if 128 < length name then fail (BadRequest 40020 ''username is too long'')
            else chk (profile_name name u) (\<lambda>u1.
                 chk (profile_role actorRole rl u1) (\<lambda>u2.
                 chk (profile_email userID email u2) (\<lambda>u3.
                 chk (profile_password hash (ur_password req) u3) (\<lambda>u4.
                 chk (UpdateUser u4) (\<lambda>_.
                   if rl \<noteq> [] then SetUserPrimaryRole userID rl else ret ())))))))"

definition DeleteUser :: "string \<Rightarrow> string \<Rightarrow> string \<Rightarrow> id_store db \<Rightarrow> (err + unit) \<times> id_store db" where
  "DeleteUser actorTenantID actorRole userID = chk (GetUser userID) (\<lambda>up.
     case up of
       None \<Rightarrow> fail (NotFound ''user not found'')
     | Some u \<Rightarrow>
         if us_role u = RolePlatformAdmin then fail (Http 409 40903 ''platform admin users cannot be deleted'')
         else if actorRole \<noteq> RolePlatformAdmin \<and> us_tenant_id u \<noteq> actorTenantID
         then fail (Forbidden ''cannot delete user across tenants'')
         else chk (if us_role u = RoleTenantAdmin \<and> us_status u = UserStatusActive
                   then guard_last_admin ''cannot delete the last tenant admin'' u else ret ())
                (\<lambda>_. store_DeleteUser userID))"

end
