(* ===== verification/User_Admin_Props.thy ===== *)
theory User_Admin_Props
  imports User_Admin Sql_Wp
begin

text \<open>
  A tenant keeps an administrator: under every sequence of user administration calls, with faults
  anywhere, a tenant that has an active administrator has one afterwards.
\<close>

section \<open>Counting administrators\<close>

definition active_admin :: "string \<Rightarrow> user \<Rightarrow> bool" where
  "active_admin t u \<longleftrightarrow> us_tenant_id u = t \<and> us_role u = RoleTenantAdmin \<and> us_status u = UserStatusActive"

definition admins :: "string \<Rightarrow> id_store \<Rightarrow> int" where
  "admins t s = sql_count (active_admin t) (users s)"

definition staffed :: "string \<Rightarrow> id_store \<Rightarrow> bool" where
  "staffed t s \<longleftrightarrow> uniq us_id (users s) \<and> 1 \<le> admins t s"

lemma count_update:
  assumes "uniq us_id us" and "row_at us_id i us = Some u" and "\<And>x. us_id (f x) = us_id x"
  shows "sql_count P (sql_update (\<lambda>x. us_id x = i) f us) =
    sql_count P us + (if P (f u) then 1 else 0) - (if P u then 1 else 0)"
  using assms(1,2)
proof (induction us)
  case (Cons x us)
  show ?case
  proof (cases "us_id x = i")
    case True
    then have "i \<notin> us_id ` set us" using Cons.prems(1) by (auto simp: uniq_def)
    then have "sql_update (\<lambda>x. us_id x = i) f us = us" by (auto simp: sql_update_def intro!: map_idI)
    with True Cons.prems show ?thesis by (auto simp: sql_update_def sql_count_def)
  next
    case False
    with Cons show ?thesis by (auto simp: sql_update_def sql_count_def uniq_def split: if_splits)
  qed
qed simp

lemma staffed_update:
  assumes "staffed t s" and "\<And>x. us_id (f x) = us_id x"
    and "\<And>u. row_at us_id i (users s) = Some u \<Longrightarrow> active_admin t u \<Longrightarrow> \<not> active_admin t (f u) \<Longrightarrow> 1 < admins t s"
  shows "staffed t (s\<lparr>users := sql_update (\<lambda>x. us_id x = i) f (users s)\<rparr>)"
proof (cases "row_at us_id i (users s)")
  case None
  then have "sql_update (\<lambda>x. us_id x = i) f (users s) = users s"
    by (auto simp: row_at_None_iff sql_update_def intro!: map_idI)
  with assms(1) show ?thesis by (simp add: staffed_def admins_def)
next
  case (Some u)
  with assms count_update [OF _ Some, of f "active_admin t"] show ?thesis
    by (auto simp: staffed_def admins_def uniq_update)
qed

lemma staffed_user_roles [simp]: "staffed t (s\<lparr>user_roles := x\<rparr>) = staffed t s"
  by (simp add: staffed_def admins_def)

lemma SetUserPrimaryRole_users:
  "SetUserPrimaryRole_tx i rl s =
     s\<lparr>users := sql_update (\<lambda>u. us_id u = i) (\<lambda>u. u\<lparr>us_role := rl\<rparr>) (users s)\<rparr>
      \<lparr>user_roles := filter (\<lambda>(u, _). u \<noteq> i) (user_roles s) @ [(i, rl)]\<rparr>"
  by (simp add: SetUserPrimaryRole_tx_def)

lemma admin_count_eq: "sql_count (\<lambda>u. us_tenant_id u = t \<and> us_role u = RoleTenantAdmin \<and> us_status u = UserStatusActive)
    (users s) = admins t s"
  by (simp add: admins_def active_admin_def [abs_def])

lemmas user_read_defs = validateRole_def EnsureTenantActive_def GetUser_def GetRole_def GetTenant_def
  GetUserByUsername_def GetUserByEmail_def CountActiveUsersByTenantAndRole_def admin_count_eq

section \<open>The operations\<close>

lemma wp_guard:
  assumes "E s" and "us_role u \<noteq> RolePlatformAdmin \<Longrightarrow>
    us_role u = RoleTenantAdmin \<longrightarrow> rl \<noteq> RoleTenantAdmin \<longrightarrow> 1 < admins (us_tenant_id u) s \<Longrightarrow> Q () s"
  shows "wp (guardRoleMutation u rl) Q E s"
  using assms by (auto simp: guardRoleMutation_def guard_last_admin_def user_read_defs intro!: wp_chk)

lemma staffed_role:
  assumes "staffed t s"
    and "case row_at us_id i (users s) of None \<Rightarrow> True | Some u \<Rightarrow>
      us_role u = RoleTenantAdmin \<longrightarrow> rl \<noteq> RoleTenantAdmin \<longrightarrow> 1 < admins (us_tenant_id u) s"
  shows "staffed t (SetUserPrimaryRole_tx i rl s)"
  unfolding SetUserPrimaryRole_users staffed_user_roles
  by (rule staffed_update [OF assms(1)]) (use assms(2) in \<open>auto simp: active_admin_def\<close>)

lemma staffed_row:
  assumes "staffed t s" and "case row_at us_id (us_id v) (users s) of None \<Rightarrow> True | Some u \<Rightarrow>
      us_tenant_id u = t \<longrightarrow> us_role u = RoleTenantAdmin \<longrightarrow> us_status u = UserStatusActive \<longrightarrow>
      us_role v = RoleTenantAdmin \<and> us_status v = UserStatusActive \<or> 1 < admins t s"
  shows "staffed t (UpdateUser_tx v s)"
  unfolding UpdateUser_tx_def
  by (rule staffed_update [OF assms(1)]) (use assms(2) in \<open>auto simp: active_admin_def\<close>)

lemma staffed_AssignRole: "staffed t s \<Longrightarrow> wp (AssignRole tenant actorRole userID rl) (\<lambda>_. staffed t) (staffed t) s"
  unfolding AssignRole_def user_read_defs SetUserPrimaryRole_def
  by (auto intro!: wp_chk wp_guard staffed_role split: option.splits)

lemma staffed_SetUserStatus:
  assumes "staffed t s"
  shows "wp (SetUserStatus tenant actorRole userID st) (\<lambda>_. staffed t) (staffed t) s"
proof (cases "row_at us_id userID (users s)")
  case None
  with assms show ?thesis unfolding SetUserStatus_def user_read_defs by (auto intro!: wp_chk)
next
  case (Some u)
  with row_at_self [OF Some] assms show ?thesis
    unfolding SetUserStatus_def guard_last_admin_def user_read_defs UpdateUser_def
    by (auto intro!: wp_chk staffed_row)
qed

lemma staffed_CreateUser:
  assumes "staffed t s"
  shows "wp (CreateUser hash newID tenant actorRole req) (\<lambda>_. staffed t) (staffed t) s"
proof -
  have new: "staffed t (s\<lparr>users := users s @ [u]\<rparr>)"
    if "\<not> (\<exists>x\<in>set (users s). us_id x = us_id u \<or> us_username x = us_username u)" for u
    using assms that by (auto simp: staffed_def admins_def sql_count_def uniq_append)
  have "staffed t (SetUserPrimaryRole_tx newID rl (s\<lparr>users := users s @ [u]\<rparr>))"
    if "\<not> (\<exists>x\<in>set (users s). us_id x = us_id u \<or> us_username x = us_username u)" "us_id u = newID" "us_role u = rl" for u rl
    using that by (intro staffed_role [OF new]) (auto simp: row_at_append split: option.splits dest: row_at_SomeD)
  with new assms show ?thesis
    unfolding CreateUser_def user_read_defs store_CreateUser_def SetUserPrimaryRole_def Let_def
    by (auto intro!: wp_chk simp: CreateUser_tx_def split: option.splits sum.splits)
qed


lemma wp_profile_role:
  assumes "E s" and "rl = [] \<Longrightarrow> Q u s"
    and "rl \<noteq> [] \<Longrightarrow> us_role u \<noteq> RolePlatformAdmin \<Longrightarrow> us_role u = RoleTenantAdmin \<longrightarrow> rl \<noteq> RoleTenantAdmin \<longrightarrow>
      1 < admins (us_tenant_id u) s \<Longrightarrow> Q (u\<lparr>us_role := rl\<rparr>) s"
  shows "wp (profile_role actorRole rl u) Q E s"
  using assms unfolding profile_role_def user_read_defs
  by (auto intro!: wp_chk wp_guard split: option.splits)

lemma wp_profile_name:
  "E s \<Longrightarrow> (\<And>n. Q (u\<lparr>us_username := n\<rparr>) s) \<Longrightarrow> wp (profile_name nm u) Q E s"
  unfolding profile_name_def user_read_defs by (cases u) (fastforce intro!: wp_chk)

lemma wp_profile_email:
  "E s \<Longrightarrow> (\<And>n. Q (u\<lparr>us_email := n\<rparr>) s) \<Longrightarrow> wp (profile_email i em u) Q E s"
  unfolding profile_email_def user_read_defs by (cases u) (fastforce intro!: wp_chk split: option.splits)

lemma wp_profile_password:
  "E s \<Longrightarrow> (\<And>n. Q (u\<lparr>us_password_hash := n\<rparr>) s) \<Longrightarrow> wp (profile_password hash pw u) Q E s"
  unfolding profile_password_def by (cases u) (fastforce intro!: wp_chk split: sum.splits)

lemma staffed_UpdateUserProfile:
  assumes "staffed t s"
  shows "wp (UpdateUserProfile hash tenant actorRole userID req) (\<lambda>_. staffed t) (staffed t) s"
proof (cases "row_at us_id userID (users s)")
  case None
  with assms show ?thesis unfolding UpdateUserProfile_def user_read_defs by (auto intro!: wp_chk simp: Let_def)
next
  case (Some u)
  note id = row_at_SomeD [OF Some] and self = row_at_self [OF Some]
  have after: "row_at us_id userID (users (UpdateUser_tx v s)) = Some (u\<lparr>us_role := us_role v, us_status := us_status v,
      us_email := us_email v, us_username := us_username v, us_password_hash := us_password_hash v\<rparr>)"
    if "us_id v = userID" for v using that id Some by (simp add: UpdateUser_tx_def row_at_update)
  have set_role: "staffed t (SetUserPrimaryRole_tx (us_id u) rl (UpdateUser_tx v s))"
    if "us_id v = us_id u" "us_role v = rl" "staffed t (UpdateUser_tx v s)" for v rl
    using id after [of v] that by (intro staffed_role [OF that(3)]) simp
  show ?thesis using Some self id assms
    unfolding UpdateUserProfile_def user_read_defs Let_def UpdateUser_def SetUserPrimaryRole_def
    by (auto intro!: wp_chk wp_profile_name wp_profile_role wp_profile_email wp_profile_password set_role staffed_row)
qed

lemma staffed_DeleteUser:
  assumes "staffed t s"
  shows "wp (DeleteUser tenant actorRole userID) (\<lambda>_. staffed t) (staffed t) s"
proof -
  have "sql_count P us - (case row_at us_id userID us of Some u \<Rightarrow> if P u then 1 else 0 | None \<Rightarrow> 0) =
      sql_count P (filter (\<lambda>u. us_id u \<noteq> userID) us)" if "uniq us_id us" for P us
    using that
  proof (induction us)
    case (Cons x us)
    show ?case
    proof (cases "us_id x = userID")
      case True
      then have "filter (\<lambda>u. us_id u \<noteq> userID) us = us" using Cons.prems by (auto simp: uniq_def filter_id_conv image_iff)
      with True show ?thesis by (simp add: sql_count_def)
    next
      case False
      with Cons show ?thesis by (auto simp: sql_count_def uniq_def split: option.splits if_splits)
    qed
  qed (simp add: sql_count_def)
  from this [of "users s" "active_admin t"] assms
  have del: "staffed t (s\<lparr>users := filter (\<lambda>u. us_id u \<noteq> userID) (users s)\<rparr>)"
    if "\<And>u. row_at us_id userID (users s) = Some u \<Longrightarrow> active_admin t u \<Longrightarrow> 1 < admins t s"
    using that by (auto simp: staffed_def admins_def uniq_def distinct_map_filter split: option.splits if_splits)
  show ?thesis using assms
    unfolding DeleteUser_def guard_last_admin_def user_read_defs store_DeleteUser_def
    by (auto intro!: wp_chk del simp: active_admin_def split: option.splits)
qed

section \<open>Histories\<close>

text \<open>One call of the user administration, by anyone, with any outcome and any faults.\<close>

inductive user_step :: "id_store \<Rightarrow> id_store \<Rightarrow> bool" where
  create: "CreateUser hash newID tenant actorRole req (s, fs) = (r1, s1, fs1) \<Longrightarrow> user_step s s1"
| assign: "AssignRole tenant actorRole userID rl (s, fs) = (r2, s1, fs1) \<Longrightarrow> user_step s s1"
| set_status: "SetUserStatus tenant actorRole userID st (s, fs) = (r2, s1, fs1) \<Longrightarrow> user_step s s1"
| update: "UpdateUserProfile hash tenant actorRole userID req (s, fs) = (r2, s1, fs1) \<Longrightarrow> user_step s s1"
| delete: "DeleteUser tenant actorRole userID (s, fs) = (r2, s1, fs1) \<Longrightarrow> user_step s s1"

lemma staffed_step: "user_step s s1 \<Longrightarrow> staffed t s \<Longrightarrow> staffed t s1"
  by (induction rule: user_step.induct)
    (blast intro: wp_result staffed_CreateUser staffed_AssignRole staffed_SetUserStatus
       staffed_UpdateUserProfile staffed_DeleteUser)+


definition staff_demo :: id_store where
  "staff_demo = demo_ids\<lparr>users := [demo_user ''a'' ''t1'' RoleTenantAdmin, demo_user ''b'' ''t1'' RoleTenantAdmin],
     user_roles := [(''a'', RoleTenantAdmin), (''b'', RoleTenantAdmin)]\<rparr>"


end
