(* ===== verification/Role_Admin_Props.thy ===== *)
theory Role_Admin_Props
  imports Role_Admin User_Admin_Props
begin

text \<open>
  What role administration lets an administrator hand out: rules set on a role are bounded by what
  the administrator may do, a parent given to a role is not.
\<close>

section \<open>Reading parts\<close>

lemma wp_sound: "sound m \<Longrightarrow> (\<And>a. m (s, []) = (Inr a, s, []) \<Longrightarrow> Q a s) \<Longrightarrow> wp m Q (\<lambda>_. True) s"
  unfolding wp_def by (auto dest: soundD split: sum.splits)

lemma wp_Authorize: "Q () s \<Longrightarrow> wp (Authorize actorID a x) Q (\<lambda>_. True) s"
  by (rule wp_sound [OF sound_Authorize]) simp

lemma wp_refuses: "Q False s \<Longrightarrow> (\<And>s1. Q True s1) \<Longrightarrow> wp (refuses actorID a x) Q (\<lambda>_. True) s"
  unfolding wp_def refuses_def using soundD [OF sound_Authorize] by (fastforce split: sum.splits prod.splits)

lemma wp_scope_access: "(\<And>r. Q r s) \<Longrightarrow> wp (requireRoleScopeAccess actorID roleID) Q (\<lambda>_. True) s"
  unfolding requireRoleScopeAccess_def GetRole_def
  by (auto intro!: wp_chk wp_refuses split: option.splits)

lemma wp_lift: "wp (lift_sum r) Q E s \<longleftrightarrow> (case r of Inl e \<Rightarrow> E s | Inr a \<Rightarrow> Q a s)"
  by (simp add: lift_sum_def [abs_def])

section \<open>Rules set on a role\<close>

lemma spec_rules_catalog:
  "spec_rules newID roleID n specs = Inr ps \<Longrightarrow> p \<in> set ps \<Longrightarrow>
   p_role_id p = roleID \<and> isCatalogPermission (p_resource p) (p_action p)"
proof (induction newID roleID n specs arbitrary: ps rule: spec_rules.induct)
  case (2 newID roleID n sp sps)
  then show ?case by (cases sp) (auto simp: spec_rule_def split: if_splits sum.splits)
qed simp

lemma rule_role_same: "p_role_id p = r \<Longrightarrow> p\<lparr>p_role_id := r\<rparr> = p"
  by (cases p) simp

lemma spec_rules_same:
  "spec_rules newID roleID n specs = Inr ps \<Longrightarrow> map (\<lambda>p. p\<lparr>p_role_id := roleID\<rparr>) ps = ps"
  by (auto intro!: map_idI rule_role_same dest: spec_rules_catalog)

definition delegable :: "id_store \<Rightarrow> string \<Rightarrow> permission \<Rightarrow> bool" where
  "delegable s actorID p \<longleftrightarrow> p_effect p \<noteq> PermissionEffectDeny \<longrightarrow>
     (\<exists>u. active_user s actorID u \<and> allowed s u (p_action p) (p_resource p))"

lemma wp_delegate:
  assumes "\<forall>p\<in>set (permissions s). clean_rule p"
    and "\<forall>p\<in>set perms. delegable s actorID p \<Longrightarrow> Q () s"
  shows "wp (assertCanDelegate actorID perms) Q (\<lambda>_. True) s"
  unfolding assertCanDelegate_def
proof (rule wp_chk, rule wp_sound [OF sound_authz])
  fix ac
  assume ac: "authz actorID (s, []) = (Inr ac, s, [])"
  then obtain u where u: "active_user s actorID u" using authz_inactive [of s actorID] by fastforce
  from authz_active [OF assms(1) u] ac have ev: "\<forall>a x. evaluate ac a x = Inr () \<longleftrightarrow> allowed s u a x" by auto
  show "wp (if \<exists>p\<in>set perms. p_effect p \<noteq> PermissionEffectDeny \<and> evaluate ac (p_action p) (p_resource p) \<noteq> Inr ()
     then fail (Http 403 40302 ''cannot grant a permission you do not hold'') else ret ()) Q (\<lambda>_. True) s"
    using assms(2) ev u by (auto simp: delegable_def)
qed

definition rules_set :: "id_store \<Rightarrow> string \<Rightarrow> string \<Rightarrow> id_store \<Rightarrow> bool" where
  "rules_set s actorID roleID s1 \<longleftrightarrow> \<not> isBuiltinRole roleID \<and>
     (\<forall>p\<in>rules_of s1 {roleID}. delegable s actorID p \<and> isCatalogPermission (p_resource p) (p_action p)) \<and>
     (\<forall>R. roleID \<notin> R \<longrightarrow> rules_of s1 R = rules_of s R)"

lemma set_permissions_wp:
  assumes clean: "\<forall>p\<in>set (permissions s). clean_rule p"
  shows "wp (SetRolePermissions newID actorID roleID specs) (\<lambda>_. rules_set s actorID roleID) (\<lambda>_. True) s"
proof -
  have "rules_set s actorID roleID (s\<lparr>permissions := filter (\<lambda>p. p_role_id p \<noteq> roleID) (permissions s) @
      map (\<lambda>p. p\<lparr>p_role_id := roleID\<rparr>) ps\<rparr>)"
    if ps: "spec_rules newID roleID 0 specs = Inr ps" and "\<forall>p\<in>set ps. delegable s actorID p" "\<not> isBuiltinRole roleID" for ps
    using that(2,3) spec_rules_catalog [OF ps] unfolding spec_rules_same [OF ps]
    by (auto simp: rules_set_def rules_of_def)
  then show ?thesis
    unfolding SetRolePermissions_def SetPermissions_def
    by (intro wp_chk wp_Authorize wp_scope_access)
      (auto intro!: wp_chk wp_delegate [OF clean] simp: wp_lift split: sum.splits)
qed

text \<open>
  C18: Nobody grants what they may not do. When an administrator sets the rules of a role, under any
  database faults, then every allow rule the role has afterwards is one the administrator was
  permitted at that moment and one of the catalog, the role is not built in, and the rules of
  every other role are as before.
\<close>

theorem role_rules_bounded_by_grantor:
  assumes "\<forall>p\<in>set (permissions s). clean_rule p"
    and "SetRolePermissions newID actorID roleID specs (s, fs) = (Inr (), s1, fs1)"
  shows "\<not> isBuiltinRole roleID \<and>
     (\<forall>p\<in>rules_of s1 {roleID}. delegable s actorID p \<and> isCatalogPermission (p_resource p) (p_action p)) \<and>
     (\<forall>R. roleID \<notin> R \<longrightarrow> rules_of s1 R = rules_of s R)"
  using wpD [OF set_permissions_wp [OF assms(1)] assms(2)] by (simp add: rules_set_def)

section \<open>Parents\<close>

lemma wp_create_role:
  "wp (CreateRole newID actorID req) (\<lambda>r s1. row_at ro_id newID (roles s) = None \<and> ro_id r = newID \<and>
     ro_parent_id r = rq_parent_id req \<and> s1 = s\<lparr>roles := roles s @ [r]\<rparr>) (\<lambda>_. True) s"
  unfolding CreateRole_def GetRoleByName_def store_CreateRole_def Let_def
  by (auto intro!: wp_chk wp_refuses wp_Authorize simp: wp_lift CreateRole_tx_def split: sum.splits)

lemma wp_assign:
  "wp (AssignRole t actorRole userID rl) (\<lambda>_ s1. s1 = SetUserPrimaryRole_tx userID rl s) (\<lambda>_. True) s"
  unfolding AssignRole_def validateRole_def GetRole_def GetUser_def guardRoleMutation_def guard_last_admin_def
    CountActiveUsersByTenantAndRole_def SetUserPrimaryRole_def
  by (auto intro!: wp_chk split: option.splits)

text \<open>
  C19: A parent hands out what its giver does not have. Creating a workspace role whose parent is
  the platform administrator role asks for no permission on that parent, and assigning the new
  role is not held back by the scope of the parent: afterwards the user is permitted every action
  an allow rule of the platform administrator role names.
\<close>

theorem parent_role_escalates:
  assumes "\<forall>p\<in>set (permissions s). clean_rule p"
    and "\<forall>p\<in>set (permissions s). p_role_id p \<in> {newID, RolePlatformAdmin} \<longrightarrow> p_effect p \<noteq> PermissionEffectDeny"
    and "row_at ro_id RolePlatformAdmin (roles s) = Some pa" and "ro_parent_id pa = []" and "newID \<noteq> []"
    and "rq_parent_id req = RolePlatformAdmin"
    and "CreateRole newID actorID req (s, fs) = (Inr r, s1, fs1)"
    and "active_user s1 userID u"
    and "AssignRole t actorRole userID newID (s1, fs1) = (Inr (), s2, fs2)"
    and "p \<in> set (permissions s)" and "p_role_id p = RolePlatformAdmin" and "rule_hits p action resource"
  shows "fst (Authorize userID action resource (s2, [])) = Inr ()"
proof -
  have s1: "row_at ro_id newID (roles s) = None" "ro_id r = newID" "ro_parent_id r = RolePlatformAdmin"
    "s1 = s\<lparr>roles := roles s @ [r]\<rparr>" using wpD [OF wp_create_role assms(7)] assms(6) by auto
  have s2: "s2 = SetUserPrimaryRole_tx userID newID s1" using wpD [OF wp_assign assms(9)] .
  have rows: "row_at ro_id newID (roles s2) = Some r" "row_at ro_id RolePlatformAdmin (roles s2) = Some pa"
    using s1 assms(3) by (auto simp: s2 SetUserPrimaryRole_tx_def row_at_append)
  let ?u = "u\<lparr>us_role := newID\<rparr>"
  have u: "active_user s2 userID ?u" using assms(8)
    by (auto simp: active_user_def s2 SetUserPrimaryRole_tx_def row_at_update dest: row_at_SomeD)
  have "us_id ?u = userID" using assms(8) row_at_SomeD by (fastforce simp: active_user_def)
  moreover have "r \<in> set (roles s2)" using s1(4) by (simp add: s2 SetUserPrimaryRole_tx_def)
  moreover have "(userID, i) \<in> set (user_roles s2) \<longleftrightarrow> i = newID" for i by (auto simp: s2 SetUserPrimaryRole_tx_def)
  ultimately have "assigned_ids s2 ?u = {newID}" using s1(2) by (auto simp: assigned_ids_def)
  then have e: "effective_ids s2 ?u = (parent_rel s2)\<^sup>* `` {newID}" using assms(5) by (simp add: effective_ids_def)
  have par: "(newID, b) \<in> parent_rel s2 \<longleftrightarrow> b = RolePlatformAdmin" "(RolePlatformAdmin, b) \<notin> parent_rel s2" for b
    using rows s1(3) assms(4) by (auto simp: parent_rel_def RolePlatformAdmin_def)
  have "(parent_rel s2)\<^sup>* `` {newID} \<subseteq> {newID, RolePlatformAdmin}"
    using par closed_closure [of "{newID, RolePlatformAdmin}" "parent_rel s2"] by blast
  moreover have "RolePlatformAdmin \<in> (parent_rel s2)\<^sup>* `` {newID}" using par(1) by auto
  moreover have "permissions s2 = permissions s" using s1(4) by (simp add: s2 SetUserPrimaryRole_tx_def)
  ultimately have "allowed s2 ?u action resource"
    using assms(2,10-12) e unfolding allowed_def granted_def refused_def rules_of_def rule_grants_def by auto
  moreover have "\<forall>p\<in>set (permissions s2). clean_rule p" using assms(1) \<open>permissions s2 = permissions s\<close> by simp
  ultimately show ?thesis using Authorize_spec u by blast
qed

section \<open>Witnesses\<close>

lemma catalog_iff: "isCatalogPermission x a \<longleftrightarrow>
    x \<noteq> ''*'' \<and> a \<in> set catalog_actions \<and> (\<exists>r. (r, a, x) \<in> set BuiltinPermissionMatrix)"
  unfolding isCatalogPermission_def PermissionCatalog_def Let_def by (auto simp: filter_empty_conv image_iff)

text \<open>A workspace administrator who manages roles and users and reads data sets, a colleague, and a custom role.\<close>

definition admin_demo :: id_store where
  "admin_demo = \<lparr>tenants = [\<lparr>te_id = ''t1'', te_name = ''t1'', te_status = ''active''\<rparr>],
     users = [demo_user ''ann'' ''t1'' ''r1'', demo_user ''bob'' ''t1'' ''r2''],
     roles = [demo_role ''r1'' ''tenant'' [], demo_role ''r2'' ''tenant'' [], demo_role RolePlatformAdmin ''platform'' []],
     user_roles = [(''ann'', ''r1''), (''bob'', ''r2'')],
     permissions = [demo_rule ''r1'' ''manage'' ''role'' ''allow'', demo_rule ''r1'' ''read'' ''dataset'' ''allow'',
       demo_rule RolePlatformAdmin ''governance.manage'' ''tenant'' ''allow''],
     teams = [], user_teams = [], team_projects = [], project_members = []\<rparr>"

lemma admin_demo_clean: "\<forall>p\<in>set (permissions admin_demo). clean_rule p"
  by (simp add: admin_demo_def demo_rule_def clean_rule_def RolePlatformAdmin_def)

lemma dataset_in_catalog: "isCatalogPermission ''dataset'' ''read''"
proof -
  have "(''read'', ''dataset'') \<in> set matrix_07" by (simp add: matrix_07_def)
  then have "(RoleViewer, ''read'', ''dataset'') \<in> set BuiltinPermissionMatrix"
    unfolding BuiltinPermissionMatrix_def rows_for_def by force
  then show ?thesis unfolding catalog_iff by (auto simp: catalog_actions_def)
qed

theorem role_rules_bounded_by_grantor_witness:
  "\<exists>s1. SetRolePermissions nat_digits ''ann'' ''r2'' [(''read'', ''dataset'', ''allow'')] (admin_demo, []) = (Inr (), s1, []) \<and>
     (\<forall>p\<in>rules_of s1 {''r2''}. delegable admin_demo ''ann'' p) \<and> rules_of s1 {''r2''} \<noteq> {}"
proof -
  let ?p = "spec_rule nat_digits ''r2'' 0 (''read'', ''dataset'', ''allow'')"
  have 1: "Authorize ''ann'' ''manage'' ''role'' (admin_demo, []) = (Inr (), admin_demo, [])"
    and 2: "requireRoleScopeAccess ''ann'' ''r2'' (admin_demo, []) = (Inr (demo_role ''r2'' ''tenant'' []), admin_demo, [])"
    and 3: "\<not> isBuiltinRole ''r2''" and 4: "assertCanDelegate ''ann'' [?p] (admin_demo, []) = (Inr (), admin_demo, [])"
    by code_simp+
  have "spec_rules nat_digits ''r2'' 0 [(''read'', ''dataset'', ''allow'')] = Inr [?p]" using dataset_in_catalog by simp
  then obtain s1 where s1: "SetRolePermissions nat_digits ''ann'' ''r2'' [(''read'', ''dataset'', ''allow'')] (admin_demo, []) = (Inr (), s1, [])"
    and "?p\<lparr>p_role_id := ''r2''\<rparr> \<in> set (permissions s1)"
    using 1 2 3 4 by (simp add: SetRolePermissions_def SetPermissions_def chk_def lift_sum_def)
  then have "?p\<lparr>p_role_id := ''r2''\<rparr> \<in> rules_of s1 {''r2''}" by (simp add: rules_of_def)
  with s1 role_rules_bounded_by_grantor [OF admin_demo_clean s1] show ?thesis by blast
qed

definition escalating_request :: role_request where
  "escalating_request = \<lparr>rq_name = ''helper'', rq_scope = ''tenant'', rq_description = [], rq_parent_id = RolePlatformAdmin\<rparr>"

theorem parent_role_escalates_witness:
  "\<exists>r s1 s2. CreateRole ''x1'' ''ann'' escalating_request (admin_demo, []) = (Inr r, s1, []) \<and>
     AssignRole ''t1'' ''r1'' ''bob'' ''x1'' (s1, []) = (Inr (), s2, []) \<and>
     fst (Authorize ''ann'' ''governance.manage'' ''tenant'' (admin_demo, [])) \<noteq> Inr () \<and>
     fst (Authorize ''bob'' ''governance.manage'' ''tenant'' (s2, [])) = Inr ()"
proof -
  let ?c = "CreateRole ''x1'' ''ann'' escalating_request (admin_demo, [])"
  let ?r = "\<lparr>ro_id = ''x1'', ro_tenant_id = [], ro_name = ''helper'', ro_scope = ''tenant'', ro_description = [],
    ro_parent_id = RolePlatformAdmin\<rparr>"
  let ?s1 = "admin_demo\<lparr>roles := roles admin_demo @ [?r]\<rparr>"
  let ?s2 = "SetUserPrimaryRole_tx ''bob'' ''x1'' ?s1"
  have c: "?c = (Inr ?r, ?s1, [])" and a: "AssignRole ''t1'' ''r1'' ''bob'' ''x1'' (?s1, []) = (Inr (), ?s2, [])"
    and n: "fst (Authorize ''ann'' ''governance.manage'' ''tenant'' (admin_demo, [])) \<noteq> Inr ()"
    by code_simp+
  have "fst (Authorize ''bob'' ''governance.manage'' ''tenant'' (?s2, [])) = Inr ()"
  proof (rule parent_role_escalates [OF admin_demo_clean _ _ _ _ _ c _ a])
    show "active_user ?s1 ''bob'' (demo_user ''bob'' ''t1'' ''r2'')"
      by (simp add: active_user_def admin_demo_def demo_user_def TenantStatusActive_def)
    show "demo_rule RolePlatformAdmin ''governance.manage'' ''tenant'' ''allow'' \<in> set (permissions admin_demo)"
      by (simp add: admin_demo_def)
    show "row_at ro_id RolePlatformAdmin (roles admin_demo) = Some (demo_role RolePlatformAdmin ''platform'' [])" by code_simp
  qed (simp_all add: admin_demo_def demo_rule_def demo_role_def escalating_request_def rule_hits_def matches_def
      PermissionEffectDeny_def)
  with c a n show ?thesis by blast
qed

end
