(* ===== verification/Spec2Isabelle.thy ===== *)
theory Spec2Isabelle
  imports Middleware_Witnesses Http_Headers Approval_Execution Gateway_Chat_Props Login_Limit Api_Key_Props Audit_Integrity Audit_Service Job_Leases Role_Lattice Role_Admin_Props
begin

text \<open>
  \<^bold>\<open>The program.\<close> RAGFlow-X is a multi-tenant control plane in front of RAGFlow: a Go server with
  handlers over services (\<^verbatim>\<open>internal/service\<close>) over a gorm repository (\<^verbatim>\<open>internal/repository\<close>) over
  one relational database. This development models the part that decides who may do what, what a
  request may consume, and what is recorded of it:

    \<^item> the \<^emph>\<open>gateway\<close>: an API key request is authenticated, reserved against the budget of its key and
      of its quota buckets, executed once per idempotency key, forwarded to a provider, metered, and
      settled;
    \<^item> the \<^emph>\<open>audit log\<close>: every change is appended to a hash chain per tenant;
    \<^item> the \<^emph>\<open>job queue\<close>: durable background work, claimed by runners of several processes;
    \<^item> \<^emph>\<open>identity and authorization\<close>: users, roles with inheritance, permission rules, attribute
      guards, the administration of roles and users under the last-administrator guard, and sessions
      with rotating refresh tokens and a limit on login failures;
    \<^item> \<^emph>\<open>approvals\<close>: governed operations wait for signatures by several people and are then executed by
      a worker under a short-lived authorization;
    \<^item> the \<^emph>\<open>request middleware\<close> in front of the management interface: cross-site check, token
      authentication, and a table of access rules with the scopes a request may address.

  The parts interact through the database: the gateway gates call the two quota ledgers, the
  authorizer reads the tables that role and user administration write, and the seeding of the
  built-in roles fills them first; an approval checks its approvers with the authorizer, is
  scheduled as a job, and its worker records the execution in tables of its own; the middleware asks
  the authorizer for every request and writes the audit log for reads across workspaces.

  \<^bold>\<open>Foundations.\<close>
    \<^item> \<open>Prelude\<close>: the rule collections, Go's \<open>int64\<close> as words, results as sums, lists as tables.
    \<^item> \<open>Go_Base\<close>: what the source uses of \<^verbatim>\<open>strings\<close> and \<^verbatim>\<open>time\<close>.
    \<^item> \<open>Sql_Table\<close>: statements on tables (lists of rows in insertion order) and transactions.
      A service state pairs the tables with a fault oracle, a list of booleans; each repository call
      consumes one and, if it is set, fails without a change. A theorem about an arbitrary oracle
      covers every pattern of failures; a healthy database is the empty oracle.
    \<^item> \<open>Sql_Wp\<close>: weakest preconditions of call sequences with an error postcondition, used for the
      administration services. \<open>Service_Calls\<close>: facts on single calls for the gateway.

  \<^bold>\<open>Gateway.\<close>
    \<^item> \<open>Gateway_Model\<close>: rows of \<^verbatim>\<open>model/metrics.go\<close>, \<^verbatim>\<open>model/quota_bucket.go\<close>, \<^verbatim>\<open>model/assets.go\<close> and
      the errors of \<^verbatim>\<open>pkg/httperr\<close>.
    \<^item> \<open>Budget_Ledger\<close>: the contract of a ledger (reserve, finalize, release, sweep over balances
      with limits) as a locale; its lemmas are proved once. \<open>Quota_Ledger\<close>
      (\<^verbatim>\<open>repository/quota.go\<close>) and \<open>Bucket_Ledger\<close> (\<^verbatim>\<open>repository/quota_bucket.go\<close>) model the two
      ledgers method by method and interpret the locale.
    \<^item> \<open>Quota_Interleaving\<close>: concurrent requests as interleaved ledger transactions; reachable
      states keep the budget and the accounting of pending amounts (by rule induction).
    \<^item> \<open>Gateway_Quota\<close> (\<^verbatim>\<open>service/gateway_quota.go\<close>, \<^verbatim>\<open>service/gateway_quota_bucket.go\<close>): the key
      gate, the bucket gate, the composite gate, estimates with \<open>int64\<close> wrap-around, settlement and
      sweep. \<open>Gateway_Quota_Props\<close>: an admitted fresh request is reserved, a rejected one holds
      nothing, the gate decides by the budget and fails closed; and the requests that slip past it.
    \<^item> \<open>Metering\<close> (\<^verbatim>\<open>repository/m2.go\<close>, \<^verbatim>\<open>service/gateway.go\<close>, \<^verbatim>\<open>pkg/sseutil\<close>): usage is counted
      once per request id. \<open>Idempotency\<close> (\<^verbatim>\<open>service/gateway_idempotency.go\<close>): completed executions
      are replayed, conflicting reuse is refused, a concurrent retry runs again.
    \<^item> \<open>Model_Routes\<close> (\<^verbatim>\<open>service/gateway.go\<close>, \<^verbatim>\<open>service/enterprise_connection.go\<close>): the resolution of a
      request to a provider and the pin gate. \<open>Secrets\<close> (\<^verbatim>\<open>pkg/crypto\<close>): sealed credentials with
      base64, and that they open again. \<open>Gateway_Chat\<close> (\<^verbatim>\<open>service/gateway.go\<close>, \<^verbatim>\<open>handler/gateway.go\<close>):
      forwarding of complete and streamed requests. \<open>Gateway_Chat_Props\<close>: every complete response
      settles its reservation; which streams do not, and how refusals are replayed.
    \<^item> \<open>Rate_Limit\<close> (\<^verbatim>\<open>pkg/ratelimit\<close>, \<^verbatim>\<open>middleware/ratelimit.go\<close>): the sliding window as a locale, the
      memory limiter as its interpretation, the middleware. \<open>Api_Keys\<close> (\<^verbatim>\<open>service/keys.go\<close> and its
      scope and address checks) and \<open>Api_Key_Props\<close>: only live keys authenticate.

  \<^bold>\<open>Audit log.\<close> \<open>Audit_Chain\<close> (\<^verbatim>\<open>model/auditlog.go\<close>, \<^verbatim>\<open>repository/m2.go\<close>, \<^verbatim>\<open>repository/retention.go\<close>,
  \<^verbatim>\<open>service/audit.go\<close>): hash, append with retry, verification, repair. \<open>Audit_Integrity\<close>: racing
  appends keep one verifying chain, an anchored head fixes the history, which deletions are detected,
  what a repair keeps, and two weaknesses. \<open>Audit_Service\<close>: redaction, defaults and alerts of an
  entry. The digest is an argument; where its collisions matter, injectivity is a named hypothesis.

  \<^bold>\<open>Jobs.\<close> \<open>Job_Queue\<close> (\<^verbatim>\<open>repository/job.go\<close>, \<^verbatim>\<open>model/job.go\<close>) and \<open>Job_Runner\<close>
  (\<^verbatim>\<open>service/worker.go\<close>): the durable table and the runner, with exponential backoff.
  \<open>Job_Leases\<close>: runners as interleaved steps; one runner per job while sweeps honour leases, bounded
  attempts, final states; and what happens when a sweep does not honour a lease.

  \<^bold>\<open>Identity and authorization.\<close> \<open>Identity_Store\<close>: the tables and repository methods. \<open>Authz\<close>
  (\<^verbatim>\<open>service/service.go\<close>, \<^verbatim>\<open>service/abac.go\<close>, \<^verbatim>\<open>service/project.go\<close>): role expansion, rule evaluation,
  object checks. \<open>Authz_Props\<close>: the decision refines the deny-overrides specification over the
  reflexive-transitive parent relation, faults never grant, tenants are separated. \<open>Role_Matrix\<close> and
  \<open>Role_Lattice\<close> (\<^verbatim>\<open>db/migrate.go\<close>, \<^verbatim>\<open>db/role_lattice.go\<close>): the seeded roles row by row, their declared
  order, and that the seeded permissions respect it. \<open>Role_Admin\<close> (\<^verbatim>\<open>service/role.go\<close>),
  \<open>User_Admin\<close> (\<^verbatim>\<open>service/identity.go\<close>) and their \<open>_Props\<close>: what an administrator can hand out, and
  that a tenant keeps an active administrator. \<open>Sessions\<close> (\<^verbatim>\<open>service/auth.go\<close>, \<^verbatim>\<open>pkg/jwt\<close>) and
  \<open>Sessions_Props\<close>: login, rotation and logout; a refresh token is exchanged at most once.
  \<open>Login_Limit\<close>: the bound on password guesses.

  \<^bold>\<open>Approvals.\<close>
    \<^item> \<open>Approval_Store\<close> (\<^verbatim>\<open>model/approval.go\<close>, \<^verbatim>\<open>model/approval_operation.go\<close>,
      \<^verbatim>\<open>repository/approval.go\<close>, \<^verbatim>\<open>repository/acting_context.go\<close>, \<^verbatim>\<open>repository/approval_operation.go\<close>):
      the tables and transactions, with the batched expiry sweep as a \<open>function\<close> whose measure is the
      number of overdue approvals.
    \<^item> \<open>Approval_Policy\<close> (\<^verbatim>\<open>service/approval.go\<close>): conditions, selection, cache, validation and saving of
      policies. \<open>Acting_Context\<close> (\<^verbatim>\<open>service/acting_context.go\<close>, \<^verbatim>\<open>service/approval_operation.go\<close>):
      fingerprints and execution authorizations. \<open>Approval_Worker\<close> (\<^verbatim>\<open>service/approval_executor.go\<close>):
      the worker. \<open>Approvals\<close> and \<open>Approval_Maintenance\<close> (\<^verbatim>\<open>service/approval.go\<close>,
      \<^verbatim>\<open>service/approval_action.go\<close>): submission, gates, decisions, cancellation, retry, delegation, the
      detail view, and the periodic maintenance.
    \<^item> \<open>Approval_Invariant\<close>, \<open>Approval_Checks\<close>, \<open>Approval_Props\<close> and \<open>Approval_Theorems\<close>: check and
      commit of a decision interleave with every other operation; reachable granted approvals are
      signed by enough people other than the requester, but an overlapping second decision may sign a
      step it was not checked for. \<open>Approval_Contexts\<close> and \<open>Approval_Execution\<close>: interleaved worker
      runs call the executor at most once per authorization; a decision is by an eligible approver.
      \<open>Approval_Liveness\<close>: the expiry sweep completes; retries that are lost and maintenance that is
      blocked. \<open>Approval_Policy_Props\<close>: saved policies are usable; selection ignores what a policy
      was saved for; what is stored as a credential.

  \<^bold>\<open>Request middleware.\<close>
    \<^item> \<open>Route_Registry\<close> (\<^verbatim>\<open>middleware/rbac.go\<close>, \<^verbatim>\<open>router/route_registry.go\<close>): rules, resource types and
      the contract a resource type gives its rules. \<open>Access_Rules\<close> (\<^verbatim>\<open>router/access.go\<close>,
      \<^verbatim>\<open>router/router.go\<close> and the registration functions of \<^verbatim>\<open>handler\<close>): all 525 access rules and all
      routes of the authenticated group, row by row. \<open>Tenant_Scope\<close> (\<^verbatim>\<open>service/tenant_scope.go\<close>,
      \<^verbatim>\<open>service/governance_gate.go\<close>, \<^verbatim>\<open>service/tenant.go\<close>): the workspaces a request may address and
      the scope resolvers. \<open>Middleware\<close> (\<^verbatim>\<open>middleware/csrf.go\<close>, \<^verbatim>\<open>auth.go\<close>, \<^verbatim>\<open>rbac.go\<close>,
      \<^verbatim>\<open>handler/scope.go\<close>): the three checks, their composition \<open>protected\<close>, and the scopes handlers
      derive. \<open>Http_Headers\<close>: CORS, security headers, service tokens and the key of the gateway limit,
      with what they guarantee.
    \<^item> \<open>Middleware_Props\<close>: who reaches a handler, under any faults. \<open>Middleware_Gates\<close>: writes to another
      workspace are gated and reads of one are audited; the parameters the gate does not see, bodies it
      cuts, and requests the cross-site check does not judge. \<open>Route_Checks\<close>: the tables evaluated part
      by part. \<open>Route_Theorems\<close>: the rules are well formed, and two routes have none.
      \<open>Middleware_Witnesses\<close>: the theorems at concrete requests.

  \<^bold>\<open>Idealisations.\<close> Columns of SQL tables are unbounded integers (the sums the gateway computes in
  Go are words); surrogate ids are fresh; a call reads the clock once and gets the time as an
  argument; a transaction is atomic and serialised, and interleaving is between transactions, with
  the audit append, whose read and write may be separated, modelled on stale snapshots; text is
  ASCII; JSON values arrive parsed, or the parser is an argument. Log lines, metrics and floating
  point cost are left out. Go's loops over finite slices are structural recursion; the role
  expansion, a worklist over a graph that may have cycles, is a \<open>function\<close> with a termination proof
  (the unvisited ids decrease), so no fuel is needed; retry loops recurse on the attempts the
  source allows. What a request resolves its target object to, what an executor of an approved
  action does, and the standard library's ciphers, digests, printers and JSON scanners are arguments
  of the definitions that use them, as are \<^verbatim>\<open>net/url\<close> and \<^verbatim>\<open>net\<close>. A request enters the middleware as
  the web framework presents it: the route it matched, parameters, query, headers and cookies.

  \<^bold>\<open>Not modelled.\<close> The web frontend, the matching of routes and the binding of requests, recovery from
  panics and request logs, the RAGFlow client and the storage
  connectors (input and output to other systems); the limiter and the policy cache on a Redis server;
  logins through an OpenID provider; listings and exports; metrics, logs, notification; configuration
  and deployment; the other migrations; and the services for knowledge, conversation, evaluation,
  release, settings and memory, which use the components above through the calls modelled here but
  keep tables of their own.
\<close>

end
